(* ===== verification/Prelude.thy ===== *)
theory Prelude
  imports Main "HOL-Library.Char_ord"
begin

text \<open>
  What every component shares: the model of an environment that a call runs in (the wall
  clock and the statements that fail), the parts of Go's \<open>strings\<close>, \<open>strconv\<close> and
  \<open>slices\<close> packages that the backend calls, and lemmas about them.

  Strings are lists of bytes, as in Go. \<open>strings.TrimSpace\<close>, \<open>strings.ToLower\<close> and
  \<open>strings.Fields\<close> are modelled on ASCII text; a byte from 0x80 up is never white space
  and never changes case. Instants (\<open>time.Time\<close>) and \<open>time.Duration\<close> values are
  integers counting nanoseconds. Rows of a table are a list in insertion order.
\<close>

named_theorems go_simps \<open>equations of the Go library functions\<close>
named_theorems table_simps \<open>how a table operation changes lookups\<close>

section \<open>Environment of a call\<close>

text \<open>
  \<open>now_of\<close> is both \<open>time.Now()\<close> in Go and \<open>now()\<close> in PostgreSQL. \<open>fault\<close> says
  which statements fail in this call: a statement is named by the Go method that issues it,
  followed by the arguments that distinguish its executions in a loop.
\<close>

type_synonym instant = int
type_synonym duration = int

record env =
  now_of :: instant
  fault :: "string list \<Rightarrow> bool"

definition Nanosecond :: duration where "Nanosecond = 1"
definition Millisecond :: duration where "Millisecond = 1000000"
definition Second :: duration where "Second = 1000000000"
definition Minute :: duration where "Minute = 60 * Second"
definition Hour :: duration where "Hour = 60 * Minute"
definition Day :: duration where "Day = 24 * Hour"

lemmas time_units [simp] =
  Nanosecond_def Millisecond_def Second_def Minute_def Hour_def Day_def

text \<open>Go's zero \<open>time.Time\<close>: the first of January of the year 1.\<close>

definition zero_time :: instant where "zero_time = - 62135596800 * Second"

datatype dberr = DbError string | Canceled

type_synonym 'a dbres = "dberr + 'a"

definition db_read :: "'e env_scheme \<Rightarrow> string list \<Rightarrow> 'a \<Rightarrow> 'a dbres" where
  "db_read e k x = (if fault e k then Inl (DbError (concat k)) else Inr x)"

definition db_write :: "'e env_scheme \<Rightarrow> string list \<Rightarrow> 'd \<Rightarrow> 'd \<Rightarrow> 'd" where
  "db_write e k d d' = (if fault e k then d else d')"

lemma db_read_ok [simp]: "\<not> fault e k \<Longrightarrow> db_read e k x = Inr x"
  by (simp add: db_read_def)

lemma db_read_fault [simp]: "fault e k \<Longrightarrow> db_read e k x = Inl (DbError (concat k))"
  by (simp add: db_read_def)

lemma db_read_Inr_iff: "db_read e k x = Inr y \<longleftrightarrow> \<not> fault e k \<and> y = x"
  by (auto simp: db_read_def)

lemma db_read_Inl_iff: "db_read e k x = Inl y \<longleftrightarrow> fault e k \<and> y = DbError (concat k)"
  by (auto simp: db_read_def)

lemma db_write_ok [simp]: "\<not> fault e k \<Longrightarrow> db_write e k d d' = d'"
  by (simp add: db_write_def)

lemma db_write_fault [simp]: "fault e k \<Longrightarrow> db_write e k d d' = d"
  by (simp add: db_write_def)

lemma db_write_split:
  "P (db_write e k d d') \<longleftrightarrow> (fault e k \<longrightarrow> P d) \<and> (\<not> fault e k \<longrightarrow> P d')"
  by (simp add: db_write_def)

text \<open>An environment without faults.\<close>

definition ok_env :: "instant \<Rightarrow> env" where
  "ok_env t = \<lparr>now_of = t, fault = (\<lambda>_. False)\<rparr>"

lemma ok_env_simps [simp]: "now_of (ok_env t) = t" "\<not> fault (ok_env t) k"
  by (simp_all add: ok_env_def)

text \<open>Go's \<open>if err != nil { return err }\<close> between two calls.\<close>

definition bindE :: "'e + 'a \<Rightarrow> ('a \<Rightarrow> 'e + 'b) \<Rightarrow> 'e + 'b" where
  "bindE r f = (case r of Inl e \<Rightarrow> Inl e | Inr x \<Rightarrow> f x)"

lemma bindE_simps [simp]:
  "bindE (Inl e) f = Inl e" "bindE (Inr x) f = f x"
  by (simp_all add: bindE_def)

lemma bindE_split:
  "P (bindE r f) \<longleftrightarrow> (\<forall>e. r = Inl e \<longrightarrow> P (Inl e)) \<and> (\<forall>x. r = Inr x \<longrightarrow> P (f x))"
  by (cases r) auto

lemma bindE_Inr_iff: "bindE r f = Inr y \<longleftrightarrow> (\<exists>x. r = Inr x \<and> f x = Inr y)"
  by (cases r) auto

lemma bindE_Inl_iff: "bindE r f = Inl e \<longleftrightarrow> r = Inl e \<or> (\<exists>x. r = Inr x \<and> f x = Inl e)"
  by (cases r) auto

text \<open>\<open>LIMIT n\<close>: a negative limit is an error of the statement.\<close>

definition limit_rows :: "int \<Rightarrow> 'a list \<Rightarrow> 'a list dbres" where
  "limit_rows n xs = (if n < 0 then Inl (DbError ''LIMIT must not be negative'') else Inr (take (nat n) xs))"

lemma limit_rows_Inr_iff: "limit_rows n xs = Inr ys \<longleftrightarrow> 0 \<le> n \<and> ys = take (nat n) xs"
  by (auto simp: limit_rows_def)

definition opt_default :: "'a \<Rightarrow> 'a option \<Rightarrow> 'a" where
  "opt_default d x = (case x of None \<Rightarrow> d | Some v \<Rightarrow> v)"

text \<open>
  What an HTTP handler writes: a JSON value with a status, an error message with a status,
  204 without a body, nothing at all (the client went away), or a panic of the handler.
  \<open>fail\<close> is \<open>(*Server).fail\<close> of \<open>api.go\<close>.
\<close>

datatype 'v reply = Json nat 'v | ErrMsg nat string | NoContent | NoReply | Panic

definition fail :: "dberr \<Rightarrow> 'v reply" where
  "fail err = (case err of Canceled \<Rightarrow> NoReply | DbError m \<Rightarrow> ErrMsg 500 m)"

definition is_success :: "'v reply \<Rightarrow> bool" where
  "is_success r = (case r of Json st _ \<Rightarrow> st < 400 | NoContent \<Rightarrow> True | _ \<Rightarrow> False)"

lemma is_success_simps [simp]:
  "is_success (Json st v) \<longleftrightarrow> st < 400" "\<not> is_success (ErrMsg n m)" "is_success NoContent"
  "\<not> is_success NoReply" "\<not> is_success Panic" "\<not> is_success (fail e)"
  by (simp_all add: is_success_def fail_def split: dberr.split)

lemma fail_not_reply [simp]:
  "fail err \<noteq> Json st v" "fail err \<noteq> NoContent" "fail err \<noteq> Panic"
  "Json st v \<noteq> fail err" "NoContent \<noteq> fail err" "Panic \<noteq> fail err"
  by (simp_all add: fail_def split: dberr.split)

section \<open>Machines\<close>

text \<open>
  A component driven by a list of events: what one step keeps, every run keeps. The components
  interpret this contract with their own step function and invariant.
\<close>

locale guarded_machine =
  fixes step :: "'s \<Rightarrow> 'ev \<Rightarrow> 's"
    and inv :: "'s \<Rightarrow> bool"
    and ok :: "'ev \<Rightarrow> bool"
  assumes guarded_step: "inv s \<Longrightarrow> ok ev \<Longrightarrow> inv (step s ev)"
begin

lemma guarded_run: "inv s \<Longrightarrow> \<forall>ev \<in> set evs. ok ev \<Longrightarrow> inv (foldl step s evs)"
  by (induction evs arbitrary: s) (simp_all add: guarded_step)

end

locale machine =
  fixes step :: "'s \<Rightarrow> 'ev \<Rightarrow> 's"
    and inv :: "'s \<Rightarrow> bool"
  assumes step_inv: "inv s \<Longrightarrow> inv (step s ev)"

sublocale machine \<subseteq> unguarded: guarded_machine step inv "\<lambda>_. True"
  by unfold_locales (rule step_inv)

context machine
begin

lemma run_inv: "inv s \<Longrightarrow> inv (foldl step s evs)"
  by (rule unguarded.guarded_run) simp_all

end

section \<open>Strings\<close>

definition is_space :: "char \<Rightarrow> bool" where
  "is_space c \<longleftrightarrow> c \<in> {CHR 0x09, CHR 0x0A, CHR 0x0B, CHR 0x0C, CHR 0x0D, CHR '' ''}"

definition TrimSpace :: "string \<Rightarrow> string" where
  "TrimSpace s = rev (dropWhile is_space (rev (dropWhile is_space s)))"

definition TrimLeft :: "char set \<Rightarrow> string \<Rightarrow> string" where
  "TrimLeft cs s = dropWhile (\<lambda>c. c \<in> cs) s"

definition TrimRight :: "char set \<Rightarrow> string \<Rightarrow> string" where
  "TrimRight cs s = rev (dropWhile (\<lambda>c. c \<in> cs) (rev s))"

definition HasPrefix :: "string \<Rightarrow> string \<Rightarrow> bool" where
  "HasPrefix s p \<longleftrightarrow> take (length p) s = p"

definition HasSuffix :: "string \<Rightarrow> string \<Rightarrow> bool" where
  "HasSuffix s p \<longleftrightarrow> HasPrefix (rev s) (rev p)"

definition TrimPrefix :: "string \<Rightarrow> string \<Rightarrow> string" where
  "TrimPrefix s p = (if HasPrefix s p then drop (length p) s else s)"

definition TrimSuffix :: "string \<Rightarrow> string \<Rightarrow> string" where
  "TrimSuffix s p = (if HasSuffix s p then take (length s - length p) s else s)"

fun Contains :: "string \<Rightarrow> string \<Rightarrow> bool" where
  "Contains [] p \<longleftrightarrow> p = []"
| "Contains (c # s) p \<longleftrightarrow> HasPrefix (c # s) p \<or> Contains s p"

definition lower_char :: "char \<Rightarrow> char" where
  "lower_char c = (let n = of_char c :: nat in if 65 \<le> n \<and> n \<le> 90 then char_of (n + 32) else c)"

definition upper_char :: "char \<Rightarrow> char" where
  "upper_char c = (let n = of_char c :: nat in if 97 \<le> n \<and> n \<le> 122 then char_of (n - 32) else c)"

definition ToLower :: "string \<Rightarrow> string" where
  "ToLower s = map lower_char s"

definition EqualFold :: "string \<Rightarrow> string \<Rightarrow> bool" where
  "EqualFold s t \<longleftrightarrow> ToLower s = ToLower t"

text \<open>\<open>strings.Split s sep\<close> for a separator of one byte: never the empty list.\<close>

fun SplitOn :: "char \<Rightarrow> string \<Rightarrow> string list" where
  "SplitOn c [] = [[]]"
| "SplitOn c (x # s) =
     (if x = c then [] # SplitOn c s
      else case SplitOn c s of [] \<Rightarrow> [[x]] | w # ws \<Rightarrow> (x # w) # ws)"

fun Join :: "string list \<Rightarrow> string \<Rightarrow> string" where
  "Join [] sep = []"
| "Join [w] sep = w"
| "Join (w # v # ws) sep = w @ sep @ Join (v # ws) sep"

text \<open>\<open>strings.FieldsFunc\<close>: the maximal runs of bytes that are not separators.\<close>

fun SplitPred :: "(char \<Rightarrow> bool) \<Rightarrow> string \<Rightarrow> string list" where
  "SplitPred f [] = [[]]"
| "SplitPred f (c # s) =
     (if f c then [] # SplitPred f s
      else case SplitPred f s of [] \<Rightarrow> [[c]] | w # ws \<Rightarrow> (c # w) # ws)"

definition FieldsFunc :: "(char \<Rightarrow> bool) \<Rightarrow> string \<Rightarrow> string list" where
  "FieldsFunc f s = filter (\<lambda>w. w \<noteq> []) (SplitPred f s)"

definition Fields :: "string \<Rightarrow> string list" where
  "Fields = FieldsFunc is_space"

text \<open>\<open>strings.IndexByte\<close> as an option: the offset of the first occurrence.\<close>

fun IndexByte :: "string \<Rightarrow> char \<Rightarrow> nat option" where
  "IndexByte [] c = None"
| "IndexByte (x # s) c = (if x = c then Some 0 else map_option Suc (IndexByte s c))"

section \<open>Decimal numbers\<close>

definition digit_char :: "nat \<Rightarrow> char" where
  "digit_char d = char_of (48 + d)"

definition is_digit :: "char \<Rightarrow> bool" where
  "is_digit c \<longleftrightarrow> (let n = of_char c :: nat in 48 \<le> n \<and> n \<le> 57)"

definition digit_val :: "char \<Rightarrow> nat" where
  "digit_val c = (of_char c :: nat) - 48"

fun show_nat :: "nat \<Rightarrow> string" where
  "show_nat n = (if n < 10 then [digit_char n] else show_nat (n div 10) @ [digit_char (n mod 10)])"

declare show_nat.simps [simp del]

definition Itoa :: "int \<Rightarrow> string" where
  "Itoa i = (if i < 0 then ''-'' @ show_nat (nat (- i)) else show_nat (nat i))"

definition dec_val :: "string \<Rightarrow> nat" where
  "dec_val s = foldl (\<lambda>a c. 10 * a + digit_val c) 0 s"

definition parse_nat :: "string \<Rightarrow> nat option" where
  "parse_nat s = (if s \<noteq> [] \<and> list_all is_digit s then Some (dec_val s) else None)"

text \<open>\<open>strconv.Atoi\<close> on a 64-bit platform: an optional sign, digits, and the range of
  \<open>int64\<close>.\<close>

definition max_int64 :: int where "max_int64 = 9223372036854775807"
definition min_int64 :: int where "min_int64 = - 9223372036854775808"

definition int64_ok :: "int \<Rightarrow> bool" where
  "int64_ok i \<longleftrightarrow> min_int64 \<le> i \<and> i \<le> max_int64"

definition Atoi :: "string \<Rightarrow> int option" where
  "Atoi s =
     (let v = (case s of
                 [] \<Rightarrow> None
               | c # t \<Rightarrow> (if c = CHR ''-'' then map_option (\<lambda>n. - int n) (parse_nat t)
                            else if c = CHR ''+'' then map_option int (parse_nat t)
                            else map_option int (parse_nat s)))
      in (case v of None \<Rightarrow> None | Some i \<Rightarrow> if int64_ok i then Some i else None))"

section \<open>Lemmas about strings\<close>

lemma HasPrefix_Nil [simp, go_simps]: "HasPrefix s []"
  by (simp add: HasPrefix_def)

lemma HasPrefix_Cons [simp, go_simps]:
  "HasPrefix [] (c # p) \<longleftrightarrow> False"
  "HasPrefix (x # s) (c # p) \<longleftrightarrow> x = c \<and> HasPrefix s p"
  by (auto simp: HasPrefix_def)

lemma HasPrefix_append [simp]: "HasPrefix (p @ s) p"
  by (simp add: HasPrefix_def)

lemma HasPrefix_iff: "HasPrefix s p \<longleftrightarrow> (\<exists>t. s = p @ t)"
  by (metis HasPrefix_append HasPrefix_def append_take_drop_id)

lemma HasPrefix_length: "HasPrefix s p \<Longrightarrow> length p \<le> length s"
  by (auto simp: HasPrefix_iff)

lemma HasPrefix_self [simp]: "HasPrefix s s"
  by (simp add: HasPrefix_def)

lemma HasPrefix_eq_length: "HasPrefix s p \<Longrightarrow> length s \<le> length p \<Longrightarrow> s = p"
  by (auto simp: HasPrefix_iff)

lemma Contains_iff: "Contains s p \<longleftrightarrow> (\<exists>a b. s = a @ p @ b)"
proof (induction s)
  case Nil
  then show ?case by auto
next
  case (Cons c s)
  have "(\<exists>a b. c # s = a @ p @ b) \<longleftrightarrow> (\<exists>b. c # s = p @ b) \<or> (\<exists>a b. s = a @ p @ b)"
    by (metis append_Cons append_Nil list.exhaust list.inject)
  with Cons show ?case by (simp add: HasPrefix_iff)
qed

lemma SplitOn_not_Nil [simp]: "SplitOn c s \<noteq> []"
  by (induction s) (auto split: list.splits)

lemma SplitOn_no_sep: "c \<notin> set s \<Longrightarrow> SplitOn c s = [s]"
  by (induction s) auto

lemma SplitOn_append: "c \<notin> set u \<Longrightarrow> SplitOn c (u @ c # v) = u # SplitOn c v"
  by (induction u) auto

lemma SplitOn_parts: "w \<in> set (SplitOn c s) \<Longrightarrow> c \<notin> set w"
  by (induction s arbitrary: w) (auto split: list.splits if_splits)

lemma Join_SplitOn: "Join (SplitOn c s) [c] = s"
proof (induction s)
  case Nil
  then show ?case by simp
next
  case (Cons x s)
  obtain w ws where ws: "SplitOn c s = w # ws"
    by (cases "SplitOn c s") auto
  with Cons show ?case by (cases ws) auto
qed

lemma SplitOn_Join:
  assumes "\<forall>w \<in> set ws. c \<notin> set w" and "ws \<noteq> []"
  shows "SplitOn c (Join ws [c]) = ws"
  using assms
proof (induction ws rule: induct_list012)
  case (3 w v ws)
  then show ?case by (simp add: SplitOn_append)
qed (simp_all add: SplitOn_no_sep)

lemma dropWhile_space_id: "\<forall>c \<in> set s. \<not> is_space c \<Longrightarrow> dropWhile is_space s = s"
  by (cases s) auto

lemma TrimSpace_id: "\<forall>c \<in> set s. \<not> is_space c \<Longrightarrow> TrimSpace s = s"
  by (simp add: TrimSpace_def dropWhile_space_id)

lemma set_dropWhile_subset: "set (dropWhile P s) \<subseteq> set s"
  by (metis set_dropWhileD subsetI)

lemma TrimSpace_subset: "set (TrimSpace s) \<subseteq> set s"
  unfolding TrimSpace_def set_rev
  by (rule order_trans [OF set_dropWhile_subset]) (simp add: set_dropWhile_subset)

lemma dropWhile_hd: "dropWhile P s \<noteq> [] \<Longrightarrow> \<not> P (hd (dropWhile P s))"
  by (rule hd_dropWhile)

lemma dropWhile_snoc_keep: "\<not> P x \<Longrightarrow> dropWhile P (s @ [x]) = dropWhile P s @ [x]"
  by (induction s) auto

lemma dropWhile_idem_rev:
  "dropWhile P (rev (dropWhile P (rev (dropWhile P s)))) = rev (dropWhile P (rev (dropWhile P s)))"
proof (cases "dropWhile P s")
  case Nil
  show ?thesis unfolding Nil by simp
next
  case (Cons x t)
  then have nx: "\<not> P x" by (metis dropWhile_hd list.discI list.sel(1))
  then have "rev (dropWhile P (rev (x # t))) = x # rev (dropWhile P (rev t))"
    by (simp add: dropWhile_snoc_keep)
  with Cons nx show ?thesis by simp
qed

lemma TrimSpace_idem [simp]: "TrimSpace (TrimSpace s) = TrimSpace s"
  by (simp add: TrimSpace_def dropWhile_idem_rev)

lemma lower_char_idem [simp]: "lower_char (lower_char c) = lower_char c"
  by (auto simp: lower_char_def Let_def)

lemma ToLower_idem [simp]: "ToLower (ToLower s) = ToLower s"
  by (simp add: ToLower_def comp_def)

lemma length_ToLower [simp]: "length (ToLower s) = length s"
  by (simp add: ToLower_def)

section \<open>Lemmas about decimal numbers\<close>

lemma digit_val_char [simp]: "d < 10 \<Longrightarrow> digit_val (digit_char d) = d"
  by (simp add: digit_val_def digit_char_def)

lemma is_digit_minus [simp]: "\<not> is_digit CHR ''-''" and is_digit_plus [simp]: "\<not> is_digit CHR ''+''"
  by (simp_all add: is_digit_def)

lemma is_digit_char [simp]: "d < 10 \<Longrightarrow> is_digit (digit_char d)"
  by (simp add: is_digit_def digit_char_def Let_def)

lemma digit_char_neq_minus [simp]: "d < 10 \<Longrightarrow> digit_char d \<noteq> CHR ''-''"
  by (metis is_digit_char is_digit_minus)

lemma digit_char_neq_plus [simp]: "d < 10 \<Longrightarrow> digit_char d \<noteq> CHR ''+''"
  by (metis is_digit_char is_digit_plus)

lemma show_nat_digits: "list_all is_digit (show_nat n)"
proof (induction n rule: show_nat.induct)
  case (1 n)
  then show ?case by (cases "n < 10") (simp_all add: show_nat.simps [of n])
qed

lemma show_nat_nonempty [simp]: "show_nat n \<noteq> []"
  by (subst show_nat.simps) simp

lemma dec_val_snoc: "dec_val (s @ [c]) = 10 * dec_val s + digit_val c"
  by (simp add: dec_val_def)

lemma dec_val_show_nat [simp]: "dec_val (show_nat n) = n"
proof (induction n rule: show_nat.induct)
  case (1 n)
  show ?case
  proof (cases "n < 10")
    case True
    then show ?thesis by (subst show_nat.simps) (simp add: dec_val_def)
  next
    case False
    with "1.IH" have "dec_val (show_nat (n div 10)) = n div 10" by simp
    with False show ?thesis
      by (simp add: show_nat.simps [of n] dec_val_snoc del: show_nat.simps)
  qed
qed

lemma parse_show_nat [simp]: "parse_nat (show_nat n) = Some n"
  by (simp add: parse_nat_def show_nat_digits)

lemma show_nat_inj [simp]: "show_nat m = show_nat n \<longleftrightarrow> m = n"
  by (metis dec_val_show_nat)

lemma show_nat_hd: "\<exists>c t. show_nat n = c # t \<and> is_digit c"
  using show_nat_digits [of n] by (cases "show_nat n") auto

text \<open>\<open>Atoi\<close> reads back what \<open>Itoa\<close> writes, over the whole range of \<open>int64\<close>.\<close>

lemma Atoi_Itoa: "int64_ok i \<Longrightarrow> Atoi (Itoa i) = Some i"
proof (cases "i < 0")
  case True
  assume "int64_ok i"
  with True show ?thesis by (simp add: Atoi_def Itoa_def Let_def)
next
  case False
  assume ok: "int64_ok i"
  obtain c t where ct: "show_nat (nat i) = c # t" "is_digit c"
    using show_nat_hd by blast
  then have "c \<noteq> CHR ''-''" "c \<noteq> CHR ''+''" by (metis is_digit_minus, metis is_digit_plus)
  with ct False ok show ?thesis
    using parse_show_nat [of "nat i"] by (simp add: Atoi_def Itoa_def Let_def)
qed

end
