(* ===== verification/NetAddr.thy ===== *)
theory NetAddr
  imports Prelude "HOL-Library.Word"
begin

unbundle bit_operations_syntax

text \<open>
  IP addresses and prefixes, as the backend uses them through \<open>net\<close>, \<open>net/netip\<close> and
  PostgreSQL's \<open>inet\<close> and \<open>cidr\<close>: addresses as words of 32 and 128 bits, the textual
  forms \<open>netip.ParseAddr\<close> accepts and \<open>Addr.String\<close> prints, prefix containment, and the
  address classes (private, loopback, link-local, multicast, unspecified).
\<close>

section \<open>Addresses\<close>

text \<open>An IPv6 address carries its zone, empty where it has none.\<close>

datatype addr = V4 "32 word" | V6 "128 word" string

definition addr_width :: "addr \<Rightarrow> nat" where
  "addr_width a = (case a of V4 _ \<Rightarrow> 32 | V6 _ _ \<Rightarrow> 128)"

text \<open>\<open>Addr.Is4In6\<close> and \<open>Addr.Unmap\<close>.\<close>

definition Is4In6 :: "addr \<Rightarrow> bool" where
  "Is4In6 a = (case a of V4 _ \<Rightarrow> False | V6 w _ \<Rightarrow> drop_bit 32 w = 0xFFFF)"

definition Unmap :: "addr \<Rightarrow> addr" where
  "Unmap a = (case a of V4 w \<Rightarrow> V4 w
              | V6 w z \<Rightarrow> if drop_bit 32 w = 0xFFFF then V4 (ucast w) else V6 w z)"

section \<open>Parsing\<close>

definition parse_octet :: "string \<Rightarrow> nat option" where
  "parse_octet s =
     (if length s > 1 \<and> hd s = CHR ''0'' then None
      else case parse_nat s of None \<Rightarrow> None | Some n \<Rightarrow> if n \<le> 255 then Some n else None)"

definition parse_ipv4 :: "string \<Rightarrow> (32 word) option" where
  "parse_ipv4 s =
     (case map parse_octet (SplitOn CHR ''.'' s) of
        [Some a, Some b, Some c, Some d] \<Rightarrow>
          Some (word_of_int (((int a * 256 + int b) * 256 + int c) * 256 + int d))
      | _ \<Rightarrow> None)"

definition hex_val :: "char \<Rightarrow> nat option" where
  "hex_val c =
     (let n = of_char c :: nat in
      if 48 \<le> n \<and> n \<le> 57 then Some (n - 48)
      else if 97 \<le> n \<and> n \<le> 102 then Some (n - 87)
      else if 65 \<le> n \<and> n \<le> 70 then Some (n - 55) else None)"

definition is_hex :: "char \<Rightarrow> bool" where
  "is_hex c \<longleftrightarrow> hex_val c \<noteq> None"

definition parse_hex :: "string \<Rightarrow> int" where
  "parse_hex s = foldl (\<lambda>a c. 16 * a + (case hex_val c of Some d \<Rightarrow> int d | None \<Rightarrow> 0)) 0 s"

text \<open>
  The loop of \<open>parseIPv6\<close>. \<open>gs\<close> are the 16-bit groups read so far, \<open>el\<close> the number of
  groups before the ellipsis. The loop reads at most eight groups, so nine rounds of fuel
  are enough: every round but the last adds a group.
\<close>

primrec v6_loop :: "nat \<Rightarrow> int list \<Rightarrow> nat option \<Rightarrow> string \<Rightarrow> (int list \<times> nat option \<times> string) option" where
  "v6_loop 0 gs el s = None"
| "v6_loop (Suc f) gs el s =
     (if length gs \<ge> 8 then Some (gs, el, s) else
      let h = takeWhile is_hex s; r = dropWhile is_hex s in
      if h = [] \<or> length h > 4 then None else
      if r \<noteq> [] \<and> hd r = CHR ''.'' then
        (if (el = None \<and> length gs \<noteq> 6) \<or> length gs > 6 then None
         else case parse_ipv4 s of None \<Rightarrow> None
              | Some w \<Rightarrow> Some (gs @ [uint w div 65536, uint w mod 65536], el, []))
      else
      let gs' = gs @ [parse_hex h] in
      case r of
        [] \<Rightarrow> Some (gs', el, [])
      | c # t \<Rightarrow>
          if c \<noteq> CHR '':'' \<or> t = [] then None
          else if hd t = CHR '':'' then
            (if el \<noteq> None then None
             else if tl t = [] then Some (gs', Some (length gs'), [])
             else v6_loop f gs' (Some (length gs')) (tl t))
          else v6_loop f gs' el t)"

definition groups_word :: "int list \<Rightarrow> 128 word" where
  "groups_word gs = word_of_int (foldl (\<lambda>a g. 65536 * a + g) 0 gs)"

definition v6_finish :: "int list \<Rightarrow> nat option \<Rightarrow> (128 word) option" where
  "v6_finish gs el =
     (if length gs < 8 then
        (case el of None \<Rightarrow> None
         | Some k \<Rightarrow> Some (groups_word (take k gs @ replicate (8 - length gs) 0 @ drop k gs)))
      else case el of None \<Rightarrow> Some (groups_word gs) | Some _ \<Rightarrow> None)"

definition parse_v6_body :: "string \<Rightarrow> (128 word) option" where
  "parse_v6_body s =
     (if HasPrefix s ''::'' then
        (if drop 2 s = [] then Some 0
         else case v6_loop 9 [] (Some 0) (drop 2 s) of None \<Rightarrow> None
              | Some (gs, el, r) \<Rightarrow> if r \<noteq> [] then None else v6_finish gs el)
      else case v6_loop 9 [] None s of None \<Rightarrow> None
           | Some (gs, el, r) \<Rightarrow> if r \<noteq> [] then None else v6_finish gs el)"

definition parse_ipv6 :: "string \<Rightarrow> addr option" where
  "parse_ipv6 s =
     (case IndexByte s CHR ''%'' of
        None \<Rightarrow> map_option (\<lambda>w. V6 w []) (parse_v6_body s)
      | Some i \<Rightarrow>
          if drop (Suc i) s = [] then None
          else map_option (\<lambda>w. V6 w (drop (Suc i) s)) (parse_v6_body (take i s)))"

text \<open>\<open>netip.ParseAddr\<close>: the first of \<open>.\<close>, \<open>:\<close> and \<open>%\<close> decides the family.\<close>

definition ParseAddr :: "string \<Rightarrow> addr option" where
  "ParseAddr s =
     (case dropWhile (\<lambda>c. c \<noteq> CHR ''.'' \<and> c \<noteq> CHR '':'' \<and> c \<noteq> CHR ''%'') s of
        [] \<Rightarrow> None
      | c # _ \<Rightarrow> if c = CHR ''.'' then map_option V4 (parse_ipv4 s)
                 else if c = CHR '':'' then parse_ipv6 s else None)"

text \<open>\<open>net.ParseIP\<close>: no zone; \<open>net.IP\<close> does not distinguish an IPv4 address from its
  IPv4-mapped IPv6 form.\<close>

definition ParseIP :: "string \<Rightarrow> addr option" where
  "ParseIP s =
     (case ParseAddr s of None \<Rightarrow> None
      | Some a \<Rightarrow> (case a of V4 w \<Rightarrow> Some (V4 w)
                  | V6 w z \<Rightarrow> if z = [] then Some (Unmap (V6 w z)) else None))"

section \<open>Printing\<close>

definition octets :: "32 word \<Rightarrow> nat list" where
  "octets w = [unat w div 16777216, unat w div 65536 mod 256, unat w div 256 mod 256, unat w mod 256]"

definition show_v4 :: "32 word \<Rightarrow> string" where
  "show_v4 w = Join (map show_nat (octets w)) ''.''"

definition hex_digit :: "nat \<Rightarrow> char" where
  "hex_digit d = (if d < 10 then char_of (48 + d) else char_of (87 + d))"

fun show_hex :: "nat \<Rightarrow> string" where
  "show_hex n = (if n < 16 then [hex_digit n] else show_hex (n div 16) @ [hex_digit (n mod 16)])"

declare show_hex.simps [simp del]

definition groups :: "128 word \<Rightarrow> nat list" where
  "groups w = map (\<lambda>i. unat w div 65536 ^ (7 - i) mod 65536) [0..<8]"

fun zero_run :: "nat list \<Rightarrow> nat" where
  "zero_run (g # gs) = (if g = 0 then Suc (zero_run gs) else 0)"
| "zero_run [] = 0"

text \<open>The first longest run of at least two zero groups: its start and its length.\<close>

definition longest_zeros :: "nat list \<Rightarrow> (nat \<times> nat) option" where
  "longest_zeros gs =
     foldl (\<lambda>best i. let l = zero_run (drop i gs) in
              if l \<ge> 2 \<and> (case best of None \<Rightarrow> True | Some (_, m) \<Rightarrow> l > m) then Some (i, l) else best)
       None [0..<length gs]"

definition show_v6 :: "128 word \<Rightarrow> string" where
  "show_v6 w =
     (let gs = groups w; hx = (\<lambda>xs. Join (map show_hex xs) '':'') in
      case longest_zeros gs of
        None \<Rightarrow> hx gs
      | Some (i, l) \<Rightarrow> hx (take i gs) @ ''::'' @ hx (drop (i + l) gs))"

definition zone_suffix :: "string \<Rightarrow> string" where
  "zone_suffix z = (if z = [] then [] else ''%'' @ z)"

definition AddrString :: "addr \<Rightarrow> string" where
  "AddrString a =
     (case a of V4 w \<Rightarrow> show_v4 w
      | V6 w z \<Rightarrow> (if Is4In6 a then ''::ffff:'' @ show_v4 (ucast w) else show_v6 w) @ zone_suffix z)"

section \<open>Prefixes\<close>

datatype prefix = Prefix (p_addr: addr) (p_bits: nat)

definition word_prefix_eq :: "nat \<Rightarrow> 'a::len word \<Rightarrow> 'a word \<Rightarrow> bool" where
  "word_prefix_eq n v w \<longleftrightarrow> drop_bit (LENGTH('a) - n) v = drop_bit (LENGTH('a) - n) w"

text \<open>\<open>Prefix.Contains\<close>: families must agree and an address with a zone is in no prefix.\<close>

definition PrefixContains :: "prefix \<Rightarrow> addr \<Rightarrow> bool" where
  "PrefixContains p a =
     (case (p_addr p, a) of
        (V4 v, V4 w) \<Rightarrow> word_prefix_eq (p_bits p) v w
      | (V6 v _, V6 w z) \<Rightarrow> z = [] \<and> word_prefix_eq (p_bits p) v w
      | _ \<Rightarrow> False)"

text \<open>\<open>Prefix.Masked\<close> clears the host bits.\<close>

definition Masked :: "prefix \<Rightarrow> prefix" where
  "Masked p =
     (case p_addr p of
        V4 w \<Rightarrow> Prefix (V4 (push_bit (32 - p_bits p) (drop_bit (32 - p_bits p) w))) (p_bits p)
      | V6 w z \<Rightarrow> Prefix (V6 (push_bit (128 - p_bits p) (drop_bit (128 - p_bits p) w)) []) (p_bits p))"

definition PrefixString :: "prefix \<Rightarrow> string" where
  "PrefixString p = AddrString (p_addr p) @ ''/'' @ show_nat (p_bits p)"

definition split_last_slash :: "string \<Rightarrow> (string \<times> string) option" where
  "split_last_slash s =
     (case IndexByte (rev s) CHR ''/'' of None \<Rightarrow> None
      | Some i \<Rightarrow> Some (take (length s - Suc i) s, drop (length s - i) s))"

text \<open>\<open>netip.ParsePrefix\<close>: no zone, a decimal length with no sign or leading zero, and the
  length at most the width of the family.\<close>

definition ParsePrefix :: "string \<Rightarrow> prefix option" where
  "ParsePrefix s =
     (case split_last_slash s of None \<Rightarrow> None
      | Some (ip, bits) \<Rightarrow>
          (case ParseAddr ip of None \<Rightarrow> None
           | Some a \<Rightarrow>
               if (case a of V6 _ z \<Rightarrow> z \<noteq> [] | V4 _ \<Rightarrow> False) then None
               else if length bits > 1 \<and> (hd bits = CHR ''0'') then None
               else case parse_nat bits of None \<Rightarrow> None
                    | Some n \<Rightarrow> if n \<le> addr_width a then Some (Prefix a n) else None))"

section \<open>Address classes\<close>

definition v4 :: "nat \<Rightarrow> nat \<Rightarrow> nat \<Rightarrow> nat \<Rightarrow> addr" where
  "v4 a b c d = V4 (word_of_int (((int a * 256 + int b) * 256 + int c) * 256 + int d))"

definition IsLoopback :: "addr \<Rightarrow> bool" where
  "IsLoopback a = (case Unmap a of V4 w \<Rightarrow> drop_bit 24 w = 127 | V6 w _ \<Rightarrow> w = 1)"

definition IsLinkLocalUnicast :: "addr \<Rightarrow> bool" where
  "IsLinkLocalUnicast a = (case Unmap a of V4 w \<Rightarrow> drop_bit 16 w = 0xA9FE | V6 w _ \<Rightarrow> drop_bit 118 w = 0x3FA)"

definition IsPrivate :: "addr \<Rightarrow> bool" where
  "IsPrivate a =
     (case Unmap a of
        V4 w \<Rightarrow> drop_bit 24 w = 10 \<or> drop_bit 20 w = 0xAC1 \<or> drop_bit 16 w = 0xC0A8
      | V6 w _ \<Rightarrow> drop_bit 121 w = 0x7E)"

definition IsMulticast :: "addr \<Rightarrow> bool" where
  "IsMulticast a = (case Unmap a of V4 w \<Rightarrow> drop_bit 28 w = 0xE | V6 w _ \<Rightarrow> drop_bit 120 w = 0xFF)"

definition IsUnspecified :: "addr \<Rightarrow> bool" where
  "IsUnspecified a \<longleftrightarrow> a = V4 0 \<or> a = V6 0 []"

text \<open>\<open>inet <<= cidr\<close> of PostgreSQL on two networks: the left one is contained in or equal to
  the right one.\<close>

definition subnet_eq :: "prefix \<Rightarrow> prefix \<Rightarrow> bool" where
  "subnet_eq p q \<longleftrightarrow> p_bits q \<le> p_bits p \<and>
     (case (p_addr p, p_addr q) of
        (V4 v, V4 w) \<Rightarrow> word_prefix_eq (p_bits q) v w
      | (V6 v _, V6 w _) \<Rightarrow> word_prefix_eq (p_bits q) v w
      | _ \<Rightarrow> False)"

definition host_prefix :: "addr \<Rightarrow> prefix" where
  "host_prefix a = Prefix a (addr_width a)"

section \<open>Lemmas\<close>

lemma clear_low_idem:
  "push_bit m (drop_bit m (push_bit m (drop_bit m w))) = push_bit m (drop_bit m (w :: 'a::len word))"
  by (rule bit_eqI) (auto simp: bit_simps)

lemma drop_clear_low: "drop_bit m (push_bit m (drop_bit m w)) = drop_bit m (w :: 'a::len word)"
  by (rule bit_eqI) (auto simp: bit_simps dest: bit_imp_le_length)

lemma Masked_idem [simp]: "Masked (Masked p) = Masked p"
  by (cases p; cases "p_addr p") (auto simp: Masked_def clear_low_idem)

text \<open>Masking a prefix does not change what it contains.\<close>

lemma Masked_contains [simp]: "PrefixContains (Masked p) a \<longleftrightarrow> PrefixContains p a"
  by (cases p; cases "p_addr p"; cases a)
    (auto simp: Masked_def PrefixContains_def word_prefix_eq_def drop_clear_low)

lemma p_bits_Masked [simp]: "p_bits (Masked p) = p_bits p"
  by (cases p; cases "p_addr p") (auto simp: Masked_def)

lemma octet_bounds: "\<forall>x \<in> set (octets w). x < 256"
proof -
  have "unat w < 4294967296" using unsigned_less [of w] by simp
  then show ?thesis by (simp add: octets_def less_mult_imp_div_less)
qed

lemma base256:
  "((n div 16777216 * 256 + n div 65536 mod 256) * 256 + n div 256 mod 256) * 256 + n mod 256 = (n :: nat)"
proof -
  have "n div 65536 = n div 256 div 256" and "n div 16777216 = n div 256 div 256 div 256"
    by (simp_all add: div_mult2_eq [symmetric])
  then show ?thesis by (simp only: div_mult_mod_eq)
qed

lemma octets_value:
  "octets w = [a, b, c, d] \<Longrightarrow> word_of_int (((int a * 256 + int b) * 256 + int c) * 256 + int d) = w"
proof -
  assume o: "octets w = [a, b, c, d]"
  then have "((a * 256 + b) * 256 + c) * 256 + d = unat w"
    using base256 [of "unat w"] by (simp only: octets_def list.inject)
  then have "((int a * 256 + int b) * 256 + int c) * 256 + int d = uint w"
    unfolding uint_nat by (simp flip: \<open>((a * 256 + b) * 256 + c) * 256 + d = unat w\<close>)
  then show ?thesis by (simp only: word_of_int_uint)
qed

lemma show_nat_no_dot: "CHR ''.'' \<notin> set (show_nat n)"
  using show_nat_digits [of n] by (auto simp: list_all_iff is_digit_def)

lemma show_nat_small: "n < 10 \<Longrightarrow> show_nat n = [digit_char n]"
  by (simp add: show_nat.simps)

lemma show_nat_hd_nonzero: "10 \<le> n \<Longrightarrow> hd (show_nat n) \<noteq> CHR ''0''"
proof (induction n rule: show_nat.induct)
  case (1 n)
  have rec: "show_nat n = show_nat (n div 10) @ [digit_char (n mod 10)]"
    using "1.prems" by (subst show_nat.simps) simp
  show ?case
  proof (cases "n div 10 < 10")
    case True
    have "digit_char k \<noteq> CHR ''0''" if "0 < k" "k < 10" for k
      using that digit_val_char [of k] by (auto simp: digit_val_def)
    with True "1.prems" show ?thesis by (simp add: rec show_nat_small)
  next
    case False
    with "1" show ?thesis by (simp add: rec hd_append)
  qed
qed

lemma parse_octet_show: "n < 256 \<Longrightarrow> parse_octet (show_nat n) = Some n"
  using show_nat_hd_nonzero [of n] using parse_show_nat [of n]
  by (cases "n < 10") (auto simp: parse_octet_def show_nat_small simp del: parse_show_nat)

text \<open>What \<open>Addr.String\<close> prints for an IPv4 address, \<open>netip.ParseAddr\<close> reads back.\<close>

lemma parse_show_v4: "parse_ipv4 (show_v4 w) = Some w"
proof -
  obtain a b c d where o: "octets w = [a, b, c, d]" by (simp add: octets_def)
  have "\<forall>x \<in> set (map show_nat (octets w)). CHR ''.'' \<notin> set x"
    using show_nat_no_dot by auto
  then have "SplitOn CHR ''.'' (show_v4 w) = map show_nat (octets w)"
    unfolding show_v4_def by (rule SplitOn_Join) (simp add: octets_def)
  then have "map parse_octet (SplitOn CHR ''.'' (show_v4 w)) = [Some a, Some b, Some c, Some d]"
    using octet_bounds [of w] by (simp add: o parse_octet_show)
  then show ?thesis using octets_value [OF o] by (simp add: parse_ipv4_def del: of_int_add of_int_mult)
qed

lemma ParseAddr_show_v4: "ParseAddr (AddrString (V4 w)) = Some (V4 w)"
proof -
  let ?sep = "\<lambda>c. c \<noteq> CHR ''.'' \<and> c \<noteq> CHR '':'' \<and> c \<noteq> CHR ''%''"
  obtain a b c d where o: "octets w = [a, b, c, d]" by (simp add: octets_def)
  have s: "show_v4 w = show_nat a @ CHR ''.'' # (show_nat b @ ''.'' @ show_nat c @ ''.'' @ show_nat d)"
    by (simp add: show_v4_def o)
  have "\<forall>c \<in> set (show_nat a). ?sep c"
    using show_nat_digits [of a] by (auto simp: list_all_iff is_digit_def)
  then have "dropWhile ?sep (show_v4 w) = CHR ''.'' # (show_nat b @ ''.'' @ show_nat c @ ''.'' @ show_nat d)"
    unfolding s by (subst dropWhile_append2) auto
  then show ?thesis by (simp add: ParseAddr_def AddrString_def parse_show_v4)
qed

lemma ParseIP_show_v4: "ParseIP (AddrString (V4 w)) = Some (V4 w)"
  by (simp add: ParseIP_def ParseAddr_show_v4)

end
