(* ===== verification/PgText.thy ===== *)
theory PgText
  imports Prelude
begin

text \<open>
  The texts PostgreSQL stores. The database is UTF-8, and a text with a zero byte or one that is
  not well-formed UTF-8 makes the statement fail. Texts decoded from JSON are well-formed, but a
  request header is any sequence of bytes, and \<open>trunc\<close> (\<open>internal/api/agents.go\<close>) cuts a text at
  a byte, possibly inside a character; \<open>clean_utf8\<close> is the test for those.
\<close>

definition byte_in :: "nat \<Rightarrow> nat \<Rightarrow> char \<Rightarrow> bool" where
  "byte_in lo hi b \<longleftrightarrow> lo \<le> of_char b \<and> of_char b \<le> hi"

text \<open>How many bytes follow a first byte, and the bounds of the second; overlong forms,
  surrogates and code points past U+10FFFF are excluded by those bounds.\<close>

definition lead_byte :: "char \<Rightarrow> (nat \<times> nat \<times> nat) option" where
  "lead_byte b =
     (if byte_in 0x01 0x7F b then Some (0, 0, 0)
      else if byte_in 0xC2 0xDF b then Some (1, 0x80, 0xBF)
      else if byte_in 0xE0 0xE0 b then Some (2, 0xA0, 0xBF)
      else if byte_in 0xED 0xED b then Some (2, 0x80, 0x9F)
      else if byte_in 0xE1 0xEF b then Some (2, 0x80, 0xBF)
      else if byte_in 0xF0 0xF0 b then Some (3, 0x90, 0xBF)
      else if byte_in 0xF1 0xF3 b then Some (3, 0x80, 0xBF)
      else if byte_in 0xF4 0xF4 b then Some (3, 0x80, 0x8F)
      else None)"

text \<open>The scan: how many bytes of the current character are still missing, and the bounds of the
  next one.\<close>

fun utf8_scan :: "nat \<Rightarrow> nat \<Rightarrow> nat \<Rightarrow> string \<Rightarrow> bool" where
  "utf8_scan n lo hi [] \<longleftrightarrow> n = 0"
| "utf8_scan 0 lo hi (b # s) \<longleftrightarrow>
     (case lead_byte b of None \<Rightarrow> False | Some (n, lo', hi') \<Rightarrow> utf8_scan n lo' hi' s)"
| "utf8_scan (Suc n) lo hi (b # s) \<longleftrightarrow> byte_in lo hi b \<and> utf8_scan n 0x80 0xBF s"

definition clean_utf8 :: "string \<Rightarrow> bool" where
  "clean_utf8 s \<longleftrightarrow> utf8_scan 0 0 0 s"

definition refused_text :: dberr where
  "refused_text = DbError ''invalid byte sequence for encoding''"

lemma clean_utf8_Nil [simp]: "clean_utf8 []"
  by (simp add: clean_utf8_def)

lemma utf8_scan_0: "utf8_scan 0 lo hi s = utf8_scan 0 lo' hi' s"
  by (cases s) simp_all

text \<open>Plain ASCII is always stored; concatenations of stored texts are.\<close>

lemma clean_utf8_ascii: "\<forall>b \<in> set s. byte_in 0x01 0x7F b \<Longrightarrow> clean_utf8 s"
proof (induction s)
  case (Cons b s)
  then have "utf8_scan 0 0 0 s" by (simp add: clean_utf8_def)
  with Cons.prems show ?case by (simp add: clean_utf8_def lead_byte_def)
qed simp

lemma utf8_scan_append: "utf8_scan n lo hi s \<Longrightarrow> utf8_scan 0 0 0 t \<Longrightarrow> utf8_scan n lo hi (s @ t)"
proof (induction n lo hi s rule: utf8_scan.induct)
  case (1 n lo hi)
  then show ?case using utf8_scan_0 [of 0 0 t lo hi] by simp
qed (auto split: option.splits)

lemma clean_utf8_append: "clean_utf8 s \<Longrightarrow> clean_utf8 t \<Longrightarrow> clean_utf8 (s @ t)"
  by (simp add: clean_utf8_def utf8_scan_append)

text \<open>A text cut inside a character is refused: the two bytes of U+00E9 and the first alone.\<close>

lemma cut_character:
  "clean_utf8 [CHR 0xC3, CHR 0xA9]" "\<not> clean_utf8 [CHR 0xC3]" "\<not> clean_utf8 [CHR 0xFF]"
  by (simp_all add: clean_utf8_def lead_byte_def byte_in_def)

end
