(* ===== verification/AuthDB.thy ===== *)
theory AuthDB
  imports NetAddr PgText
begin

text \<open>
  The authentication tables (\<open>internal/db/auth.go\<close> with migration 005): accounts, sessions,
  login attempts and the allow/deny list, one definition per SQL statement. A table is the
  list of its rows in insertion order; sequences give the primary keys. An address argument
  is \<open>None\<close> where the Go code passes the empty string, which the statements turn into
  \<open>NULL\<close>.
\<close>

section \<open>Tables\<close>

record User =
  ID :: int
  Username :: string
  IsAdmin :: bool
  MustChangePassword :: bool
  Disabled :: bool
  CreatedAt :: instant
  LastLogin :: "instant option"
  LastLoginIP :: "addr option"
  PasswordHash :: string

record session =
  s_token :: string
  s_user :: int
  s_created :: instant
  s_seen :: instant
  s_expires :: instant
  s_ip :: "addr option"
  s_ua :: string

record LoginActivity =
  la_ip :: "addr option"
  la_user :: "string option"
  la_success :: bool
  la_reason :: "string option"
  la_ts :: instant
  la_ua :: string

record IPRule =
  r_net :: prefix
  r_action :: string
  r_source :: string
  r_note :: "string option"
  r_created :: instant
  r_expires :: "instant option"

record auth_db =
  users :: "User list"
  sessions :: "session list"
  attempts :: "LoginActivity list"
  ip_access :: "IPRule list"
  user_seq :: int

definition empty_auth_db :: auth_db where
  "empty_auth_db = \<lparr>users = [], sessions = [], attempts = [], ip_access = [], user_seq = 0\<rparr>"

definition nilIfEmpty :: "string \<Rightarrow> string option" where
  "nilIfEmpty s = (if s = [] then None else Some s)"

section \<open>Accounts\<close>

definition find_user :: "(User \<Rightarrow> bool) \<Rightarrow> auth_db \<Rightarrow> User option" where
  "find_user P d = find P (users d)"

definition map_user :: "int \<Rightarrow> (User \<Rightarrow> User) \<Rightarrow> auth_db \<Rightarrow> auth_db" where
  "map_user i f d = d\<lparr>users := map (\<lambda>u. if ID u = i then f u else u) (users d)\<rparr>"

definition CountUsers :: "'e env_scheme \<Rightarrow> auth_db \<Rightarrow> int dbres" where
  "CountUsers e d = db_read e [''CountUsers''] (int (length (users d)))"

text \<open>The name is unique: the statement fails on a duplicate, having drawn a number from the
  sequence.\<close>

definition CreateUser :: "'e env_scheme \<Rightarrow> string \<Rightarrow> string \<Rightarrow> bool \<Rightarrow> bool \<Rightarrow> auth_db \<Rightarrow> User dbres \<times> auth_db" where
  "CreateUser e username passwordHash isAdmin mustChange d =
     (if fault e [''CreateUser''] then (Inl (DbError ''CreateUser''), d) else
      let i = user_seq d + 1; d' = d\<lparr>user_seq := i\<rparr> in
      if list_ex (\<lambda>u. Username u = username) (users d)
      then (Inl (DbError ''duplicate key value violates unique constraint''), d')
      else
        let u = \<lparr>ID = i, Username = username, IsAdmin = isAdmin, MustChangePassword = mustChange,
                 Disabled = False, CreatedAt = now_of e, LastLogin = None, LastLoginIP = None,
                 PasswordHash = passwordHash\<rparr>
        in (Inr u, d'\<lparr>users := users d @ [u]\<rparr>))"

definition GetUserByName :: "'e env_scheme \<Rightarrow> string \<Rightarrow> auth_db \<Rightarrow> User option dbres" where
  "GetUserByName e username d =
     (if clean_utf8 username then db_read e [''GetUserByName''] (find_user (\<lambda>u. Username u = username) d)
      else Inl refused_text)"

definition GetUser :: "'e env_scheme \<Rightarrow> int \<Rightarrow> auth_db \<Rightarrow> User option dbres" where
  "GetUser e i d = db_read e [''GetUser''] (find_user (\<lambda>u. ID u = i) d)"

definition ListUsers :: "'e env_scheme \<Rightarrow> auth_db \<Rightarrow> User list dbres" where
  "ListUsers e d =
     db_read e [''ListUsers''] (map (\<lambda>u. u\<lparr>PasswordHash := []\<rparr>) (sort_key ID (users d)))"

definition SetPassword :: "'e env_scheme \<Rightarrow> int \<Rightarrow> string \<Rightarrow> auth_db \<Rightarrow> unit dbres \<times> auth_db" where
  "SetPassword e i h d =
     (db_read e [''SetPassword''] (),
      db_write e [''SetPassword''] d (map_user i (\<lambda>u. u\<lparr>PasswordHash := h, MustChangePassword := False\<rparr>) d))"

definition SetUserDisabled :: "'e env_scheme \<Rightarrow> int \<Rightarrow> bool \<Rightarrow> auth_db \<Rightarrow> unit dbres \<times> auth_db" where
  "SetUserDisabled e i b d =
     (db_read e [''SetUserDisabled''] (),
      db_write e [''SetUserDisabled''] d (map_user i (\<lambda>u. u\<lparr>Disabled := b\<rparr>) d))"

definition ResetUserPassword :: "'e env_scheme \<Rightarrow> int \<Rightarrow> string \<Rightarrow> auth_db \<Rightarrow> unit dbres \<times> auth_db" where
  "ResetUserPassword e i h d =
     (db_read e [''ResetUserPassword''] (),
      db_write e [''ResetUserPassword''] d (map_user i (\<lambda>u. u\<lparr>PasswordHash := h, MustChangePassword := True\<rparr>) d))"

text \<open>Deleting an account cascades to its sessions.\<close>

definition DeleteUser :: "'e env_scheme \<Rightarrow> int \<Rightarrow> auth_db \<Rightarrow> bool dbres \<times> auth_db" where
  "DeleteUser e i d =
     (db_read e [''DeleteUser''] (list_ex (\<lambda>u. ID u = i) (users d)),
      db_write e [''DeleteUser''] d
        (d\<lparr>users := filter (\<lambda>u. ID u \<noteq> i) (users d),
           sessions := filter (\<lambda>s. s_user s \<noteq> i) (sessions d)\<rparr>))"

definition RecordLogin :: "'e env_scheme \<Rightarrow> int \<Rightarrow> addr option \<Rightarrow> auth_db \<Rightarrow> auth_db" where
  "RecordLogin e i ip d =
     db_write e [''RecordLogin''] d (map_user i (\<lambda>u. u\<lparr>LastLogin := Some (now_of e), LastLoginIP := ip\<rparr>) d)"

section \<open>Sessions\<close>

text \<open>The token is the primary key and the account must exist.\<close>

definition CreateSession ::
  "'e env_scheme \<Rightarrow> string \<Rightarrow> int \<Rightarrow> duration \<Rightarrow> addr option \<Rightarrow> string \<Rightarrow> auth_db \<Rightarrow> unit dbres \<times> auth_db" where
  "CreateSession e token uid ttl ip ua d =
     (if fault e [''CreateSession''] then (Inl (DbError ''CreateSession''), d)
      else if \<not> clean_utf8 ua then (Inl refused_text, d)
      else if list_ex (\<lambda>s. s_token s = token) (sessions d)
      then (Inl (DbError ''duplicate key value violates unique constraint''), d)
      else if \<not> list_ex (\<lambda>u. ID u = uid) (users d)
      then (Inl (DbError ''insert violates foreign key constraint''), d)
      else (Inr (), d\<lparr>sessions := sessions d @
              [\<lparr>s_token = token, s_user = uid, s_created = now_of e, s_seen = now_of e,
                s_expires = now_of e + ttl, s_ip = ip, s_ua = ua\<rparr>]\<rparr>))"

text \<open>The join of \<open>SessionUser\<close>: a live session of an enabled account.\<close>

definition session_user :: "instant \<Rightarrow> string \<Rightarrow> auth_db \<Rightarrow> User option" where
  "session_user t token d =
     (case find (\<lambda>s. s_token s = token \<and> s_expires s > t) (sessions d) of
        None \<Rightarrow> None
      | Some s \<Rightarrow> find_user (\<lambda>u. ID u = s_user s \<and> \<not> Disabled u) d)"

definition touch_session :: "instant \<Rightarrow> string \<Rightarrow> auth_db \<Rightarrow> auth_db" where
  "touch_session t token d =
     d\<lparr>sessions := map (\<lambda>s. if s_token s = token then s\<lparr>s_seen := t\<rparr> else s) (sessions d)\<rparr>"

definition SessionUser :: "'e env_scheme \<Rightarrow> string \<Rightarrow> auth_db \<Rightarrow> User option dbres \<times> auth_db" where
  "SessionUser e token d =
     (case db_read e [''SessionUser''] (session_user (now_of e) token d) of
        Inl err \<Rightarrow> (Inl err, d)
      | Inr None \<Rightarrow> (Inr None, d)
      | Inr (Some u) \<Rightarrow> (Inr (Some u), db_write e [''SessionUser'', ''touch''] d (touch_session (now_of e) token d)))"

definition DeleteSession :: "'e env_scheme \<Rightarrow> string \<Rightarrow> auth_db \<Rightarrow> auth_db" where
  "DeleteSession e token d =
     db_write e [''DeleteSession''] d (d\<lparr>sessions := filter (\<lambda>s. s_token s \<noteq> token) (sessions d)\<rparr>)"

definition DeleteUserSessions :: "'e env_scheme \<Rightarrow> int \<Rightarrow> string \<Rightarrow> auth_db \<Rightarrow> auth_db" where
  "DeleteUserSessions e uid keep d =
     db_write e [''DeleteUserSessions''] d
       (d\<lparr>sessions := filter (\<lambda>s. \<not> (s_user s = uid \<and> s_token s \<noteq> keep)) (sessions d)\<rparr>)"

definition PurgeExpiredSessions :: "'e env_scheme \<Rightarrow> auth_db \<Rightarrow> auth_db" where
  "PurgeExpiredSessions e d =
     db_write e [''PurgeExpiredSessions''] d
       (d\<lparr>sessions := filter (\<lambda>s. \<not> s_expires s < now_of e) (sessions d)\<rparr>)"

section \<open>Login attempts\<close>

text \<open>A user name or a \<open>User-Agent\<close> header that is no stored text makes the insert fail, and the
  callers drop its error.\<close>

definition RecordAttempt ::
  "'e env_scheme \<Rightarrow> addr option \<Rightarrow> string \<Rightarrow> bool \<Rightarrow> string \<Rightarrow> string \<Rightarrow> auth_db \<Rightarrow> auth_db" where
  "RecordAttempt e ip username success reason ua d =
     (if clean_utf8 username \<and> clean_utf8 ua then
        db_write e [''RecordAttempt'', reason] d
          (d\<lparr>attempts := attempts d @
             [\<lparr>la_ip = ip, la_user = nilIfEmpty username, la_success = success,
               la_reason = nilIfEmpty reason, la_ts = now_of e, la_ua = ua\<rparr>]\<rparr>)
      else d)"

definition failures_since :: "instant \<Rightarrow> addr \<Rightarrow> auth_db \<Rightarrow> nat" where
  "failures_since t ip d =
     length (filter (\<lambda>a. la_ip a = Some ip \<and> \<not> la_success a \<and> la_ts a > t) (attempts d))"

definition RecentFailures :: "'e env_scheme \<Rightarrow> addr option \<Rightarrow> duration \<Rightarrow> auth_db \<Rightarrow> int dbres" where
  "RecentFailures e ip window d =
     (case ip of None \<Rightarrow> Inr 0
      | Some a \<Rightarrow> db_read e [''RecentFailures''] (int (failures_since (now_of e - window) a d)))"

text \<open>\<open>ORDER BY ts DESC\<close> leaves the order of equal instants open; the model keeps
  insertion order among them.\<close>

definition ListLoginAttempts ::
  "'e env_scheme \<Rightarrow> addr option \<Rightarrow> string \<Rightarrow> bool \<Rightarrow> int \<Rightarrow> auth_db \<Rightarrow> LoginActivity list dbres" where
  "ListLoginAttempts e ip username onlyFailures limit d =
     (let lim = (if limit \<le> 0 \<or> limit > 1000 then 200 else limit);
          sel = (\<lambda>a. (case ip of None \<Rightarrow> True | Some x \<Rightarrow> la_ip a = Some x) \<and>
                     (username = [] \<or> map_option ToLower (la_user a) = Some (ToLower username)) \<and>
                     (onlyFailures \<longrightarrow> \<not> la_success a))
      in db_read e [''ListLoginAttempts'']
           (take (nat lim) (sort_key (\<lambda>a. - la_ts a) (filter sel (attempts d)))))"

section \<open>Allow and deny list\<close>

definition live :: "instant \<Rightarrow> IPRule \<Rightarrow> bool" where
  "live t r = (case r_expires r of None \<Rightarrow> True | Some x \<Rightarrow> x > t)"

definition in_net :: "addr \<Rightarrow> prefix \<Rightarrow> bool" where
  "in_net a p = subnet_eq (host_prefix a) p"

record AttemptStat =
  as_ip :: addr
  as_failures :: int
  as_success :: int
  as_last :: instant
  as_blocked :: bool
  as_until :: "instant option"

text \<open>The left join of attempts and live deny entries, grouped by address and entry: an
  address under two deny entries appears twice.\<close>

definition attack_rows :: "instant \<Rightarrow> duration \<Rightarrow> auth_db \<Rightarrow> (addr \<times> IPRule option \<times> LoginActivity) list" where
  "attack_rows t window d =
     concat (map (\<lambda>a. case la_ip a of None \<Rightarrow> []
       | Some ip \<Rightarrow>
           if la_ts a > t - window then
             (case filter (\<lambda>r. r_action r = ''deny'' \<and> in_net ip (r_net r) \<and> live t r) (ip_access d) of
                [] \<Rightarrow> [(ip, None, a)]
              | rs \<Rightarrow> map (\<lambda>r. (ip, Some r, a)) rs)
           else []) (attempts d))"

definition attack_group :: "(addr \<times> IPRule option \<times> LoginActivity) list \<Rightarrow> addr \<times> IPRule option \<Rightarrow> AttemptStat" where
  "attack_group rows k =
     (let as = map (\<lambda>(_, _, a). a) (filter (\<lambda>(ip, r, _). (ip, r) = k) rows) in
      \<lparr>as_ip = fst k,
       as_failures = int (length (filter (\<lambda>a. \<not> la_success a) as)),
       as_success = int (length (filter la_success as)),
       as_last = foldl max (la_ts (hd as)) (map la_ts as),
       as_blocked = (snd k \<noteq> None),
       as_until = (case snd k of None \<Rightarrow> None | Some r \<Rightarrow> r_expires r)\<rparr>)"

definition TopAttackers :: "'e env_scheme \<Rightarrow> duration \<Rightarrow> int \<Rightarrow> auth_db \<Rightarrow> AttemptStat list dbres" where
  "TopAttackers e window limit d =
     (let lim = (if limit \<le> 0 then 50 else limit);
          rows = attack_rows (now_of e) window d;
          keys = remdups (map (\<lambda>(ip, r, _). (ip, r)) rows)
      in db_read e [''TopAttackers'']
           (take (nat lim)
             (sort_key (\<lambda>s. - as_failures s) (sort_key (\<lambda>s. - as_last s) (map (attack_group rows) keys)))))"

record IPAccessDecision =
  DeniedManual :: bool
  DeniedAuto :: bool
  Allowed :: bool
  HasAllowList :: bool

definition no_decision :: IPAccessDecision where
  "no_decision = \<lparr>DeniedManual = False, DeniedAuto = False, Allowed = False, HasAllowList = False\<rparr>"

definition access_of :: "instant \<Rightarrow> addr \<Rightarrow> IPRule list \<Rightarrow> IPAccessDecision" where
  "access_of t a rs =
     \<lparr>DeniedManual = list_ex (\<lambda>r. r_action r = ''deny'' \<and> r_source r = ''manual'' \<and> in_net a (r_net r) \<and> live t r) rs,
      DeniedAuto = list_ex (\<lambda>r. r_action r = ''deny'' \<and> r_source r = ''auto'' \<and> in_net a (r_net r) \<and> live t r) rs,
      Allowed = list_ex (\<lambda>r. r_action r = ''allow'' \<and> in_net a (r_net r)) rs,
      HasAllowList = list_ex (\<lambda>r. r_action r = ''allow'') rs\<rparr>"

definition CheckIPAccess :: "'e env_scheme \<Rightarrow> addr option \<Rightarrow> auth_db \<Rightarrow> IPAccessDecision dbres" where
  "CheckIPAccess e ip d =
     (case ip of None \<Rightarrow> Inr no_decision
      | Some a \<Rightarrow> db_read e [''CheckIPAccess''] (access_of (now_of e) a (ip_access d)))"

text \<open>\<open>INSERT \<dots> ON CONFLICT (net) DO UPDATE\<close>: \<open>upsert_net\<close> updates the row of the network or
  appends a new one.\<close>

definition upsert_net :: "IPRule \<Rightarrow> (IPRule \<Rightarrow> IPRule) \<Rightarrow> IPRule list \<Rightarrow> IPRule list" where
  "upsert_net new upd rs =
     (if list_ex (\<lambda>r. r_net r = r_net new) rs
      then map (\<lambda>r. if r_net r = r_net new then upd r else r) rs
      else rs @ [new])"

definition UpsertIPRule ::
  "'e env_scheme \<Rightarrow> prefix \<Rightarrow> string \<Rightarrow> string \<Rightarrow> string option \<Rightarrow> instant option \<Rightarrow> auth_db \<Rightarrow> IPRule dbres \<times> auth_db" where
  "UpsertIPRule e net action source note expires d =
     (let new = \<lparr>r_net = net, r_action = action, r_source = source, r_note = note,
                 r_created = now_of e, r_expires = expires\<rparr>
      in (db_read e [''UpsertIPRule''] new,
          db_write e [''UpsertIPRule''] d (d\<lparr>ip_access := upsert_net new (\<lambda>_. new) (ip_access d)\<rparr>)))"

definition AutoBlock :: "'e env_scheme \<Rightarrow> addr \<Rightarrow> duration \<Rightarrow> auth_db \<Rightarrow> auth_db" where
  "AutoBlock e ip lockout d =
     db_write e [''AutoBlock''] d
       (if list_ex (\<lambda>a. r_action a = ''allow'' \<and> in_net ip (r_net a)) (ip_access d) then d
        else
          let new = \<lparr>r_net = host_prefix ip, r_action = ''deny'', r_source = ''auto'',
                     r_note = Some ''brute-force lockout'', r_created = now_of e,
                     r_expires = Some (now_of e + lockout)\<rparr>
          in d\<lparr>ip_access := upsert_net new
                 (\<lambda>r. if r_source r = ''auto'' then r\<lparr>r_expires := Some (now_of e + lockout)\<rparr> else r)
                 (ip_access d)\<rparr>)"

definition DeleteIPRule :: "'e env_scheme \<Rightarrow> prefix \<Rightarrow> auth_db \<Rightarrow> bool dbres \<times> auth_db" where
  "DeleteIPRule e net d =
     (db_read e [''DeleteIPRule''] (list_ex (\<lambda>r. r_net r = net) (ip_access d)),
      db_write e [''DeleteIPRule''] d (d\<lparr>ip_access := filter (\<lambda>r. r_net r \<noteq> net) (ip_access d)\<rparr>))"

text \<open>\<open>ORDER BY action, created_at DESC\<close>: allow entries come first.\<close>

definition ListIPRules :: "'e env_scheme \<Rightarrow> auth_db \<Rightarrow> IPRule list dbres" where
  "ListIPRules e d =
     (let rs = sort_key (\<lambda>r. - r_created r) (filter (live (now_of e)) (ip_access d))
      in db_read e [''ListIPRules'']
           (filter (\<lambda>r. r_action r = ''allow'') rs @ filter (\<lambda>r. r_action r \<noteq> ''allow'') rs))"

definition PurgeExpiredIPRules :: "'e env_scheme \<Rightarrow> auth_db \<Rightarrow> auth_db" where
  "PurgeExpiredIPRules e d =
     db_write e [''PurgeExpiredIPRules''] d
       (d\<lparr>ip_access := filter (\<lambda>r. case r_expires r of None \<Rightarrow> True | Some x \<Rightarrow> \<not> x < now_of e) (ip_access d)\<rparr>)"


section \<open>Well-formed tables\<close>

text \<open>The constraints of migration 005: primary and unique keys, the foreign key of sessions,
  and numbers drawn from the sequence.\<close>

definition wf_auth :: "auth_db \<Rightarrow> bool" where
  "wf_auth d \<longleftrightarrow>
     distinct (map ID (users d)) \<and> distinct (map Username (users d)) \<and>
     distinct (map s_token (sessions d)) \<and>
     (\<forall>s \<in> set (sessions d). s_user s \<in> ID ` set (users d)) \<and>
     (\<forall>u \<in> set (users d). 0 < ID u \<and> ID u \<le> user_seq d) \<and>
     0 \<le> user_seq d \<and>
     distinct (map r_net (ip_access d))"

text \<open>Somebody can administer the system.\<close>

definition has_admin :: "auth_db \<Rightarrow> bool" where
  "has_admin d \<longleftrightarrow> (\<exists>u \<in> set (users d). IsAdmin u \<and> \<not> Disabled u)"

lemma wf_empty: "wf_auth empty_auth_db"
  by (simp add: wf_auth_def empty_auth_db_def)

definition keeps_keys :: "(User \<Rightarrow> User) \<Rightarrow> bool" where
  "keeps_keys f \<longleftrightarrow> (\<forall>u. ID (f u) = ID u \<and> Username (f u) = Username u)"

lemma map_user_keys:
  assumes "keeps_keys f"
  shows "map ID (users (map_user i f d)) = map ID (users d)"
    and "map Username (users (map_user i f d)) = map Username (users d)"
  using assms by (simp_all add: map_user_def keeps_keys_def)

lemma map_user_frame [table_simps]:
  "sessions (map_user i f d) = sessions d" "ip_access (map_user i f d) = ip_access d"
  "user_seq (map_user i f d) = user_seq d" "attempts (map_user i f d) = attempts d"
  by (simp_all add: map_user_def)

lemma wf_map_user: "keeps_keys f \<Longrightarrow> wf_auth d \<Longrightarrow> wf_auth (map_user i f d)"
proof -
  assume k: "keeps_keys f" and w: "wf_auth d"
  have ids: "ID ` set (users (map_user i f d)) = ID ` set (users d)"
    by (metis k map_user_keys(1) set_map)
  have "\<forall>u \<in> set (users (map_user i f d)). 0 < ID u \<and> ID u \<le> user_seq d"
    using k w by (auto simp: map_user_def wf_auth_def keeps_keys_def)
  with w k ids show ?thesis
    by (simp add: wf_auth_def map_user_keys table_simps)
qed

lemma has_admin_map_user:
  assumes "has_admin d" "\<forall>u. IsAdmin (f u) = IsAdmin u \<and> Disabled (f u) = Disabled u"
  shows "has_admin (map_user i f d)"
proof -
  from assms(1) obtain u where "u \<in> set (users d)" "IsAdmin u" "\<not> Disabled u"
    by (auto simp: has_admin_def)
  then show ?thesis
    using assms(2) unfolding has_admin_def map_user_def
    by (intro bexI [of _ "if ID u = i then f u else u"]) auto
qed

lemma wf_filter_sessions: "wf_auth d \<Longrightarrow> wf_auth (d\<lparr>sessions := filter P (sessions d)\<rparr>)"
  by (auto simp: wf_auth_def distinct_map inj_on_def)

lemma wf_map_sessions:
  assumes "wf_auth d" "\<forall>s. s_token (f s) = s_token s \<and> s_user (f s) = s_user s"
  shows "wf_auth (d\<lparr>sessions := map f (sessions d)\<rparr>)"
proof -
  have "map s_token (map f (sessions d)) = map s_token (sessions d)" using assms(2) by simp
  with assms show ?thesis by (auto simp: wf_auth_def comp_def)
qed

lemma wf_filter_rules: "wf_auth d \<Longrightarrow> wf_auth (d\<lparr>ip_access := filter P (ip_access d)\<rparr>)"
  by (auto simp: wf_auth_def distinct_map inj_on_def)

lemma wf_attempts: "wf_auth (d\<lparr>attempts := x\<rparr>) \<longleftrightarrow> wf_auth d"
  by (simp add: wf_auth_def)

lemma upsert_net_nets:
  assumes "\<And>r. r_net (upd r) = r_net r \<or> r_net (upd r) = r_net new"
  shows "map r_net (upsert_net new upd rs) =
    (if r_net new \<in> r_net ` set rs then map r_net rs else map r_net rs @ [r_net new])"
proof -
  have "r_net (if r_net r = r_net new then upd r else r) = r_net r" for r
    using assms [of r] by auto
  then have m: "map r_net (map (\<lambda>r. if r_net r = r_net new then upd r else r) rs) = map r_net rs"
    by (simp only: map_map comp_def)
  have ex: "list_ex (\<lambda>r. r_net r = r_net new) rs \<longleftrightarrow> r_net new \<in> r_net ` set rs"
    unfolding list_ex_iff image_iff by metis
  show ?thesis unfolding upsert_net_def ex using m by simp
qed

lemma distinct_upsert_net:
  assumes "distinct (map r_net rs)" "\<And>r. r_net (upd r) = r_net r \<or> r_net (upd r) = r_net new"
  shows "distinct (map r_net (upsert_net new upd rs))"
  unfolding upsert_net_nets [OF assms(2)] using assms(1) by simp

lemma wf_ip_access:
  assumes "wf_auth d" "distinct (map r_net rs)"
  shows "wf_auth (d\<lparr>ip_access := rs\<rparr>)"
  using assms by (simp add: wf_auth_def)

section \<open>Every statement keeps the constraints\<close>

lemma keeps_keys_updates [simp]:
  "keeps_keys (\<lambda>u. u\<lparr>PasswordHash := h, MustChangePassword := b\<rparr>)"
  "keeps_keys (\<lambda>u. u\<lparr>Disabled := b\<rparr>)"
  "keeps_keys (\<lambda>u. u\<lparr>LastLogin := t, LastLoginIP := ip\<rparr>)"
  by (simp_all add: keeps_keys_def)

lemma wf_SetPassword: "wf_auth d \<Longrightarrow> wf_auth (snd (SetPassword e i h d))"
  by (simp add: SetPassword_def wf_map_user split: db_write_split)

lemma wf_ResetUserPassword: "wf_auth d \<Longrightarrow> wf_auth (snd (ResetUserPassword e i h d))"
  by (simp add: ResetUserPassword_def wf_map_user split: db_write_split)

lemma wf_SetUserDisabled: "wf_auth d \<Longrightarrow> wf_auth (snd (SetUserDisabled e i b d))"
  by (simp add: SetUserDisabled_def wf_map_user split: db_write_split)

lemma wf_RecordLogin: "wf_auth d \<Longrightarrow> wf_auth (RecordLogin e i ip d)"
  by (simp add: RecordLogin_def wf_map_user split: db_write_split)

lemma wf_CreateUser: "wf_auth d \<Longrightarrow> wf_auth (snd (CreateUser e n h a m d))"
  by (force simp: CreateUser_def Let_def wf_auth_def list_ex_iff)

lemma wf_DeleteUser: "wf_auth d \<Longrightarrow> wf_auth (snd (DeleteUser e i d))"
proof -
  assume w: "wf_auth d"
  have "wf_auth (d\<lparr>users := filter (\<lambda>u. ID u \<noteq> i) (users d),
                   sessions := filter (\<lambda>s. s_user s \<noteq> i) (sessions d)\<rparr>)"
    using w by (force simp: wf_auth_def distinct_map inj_on_def)
  with w show ?thesis by (simp add: DeleteUser_def split: db_write_split)
qed

lemma wf_CreateSession: "wf_auth d \<Longrightarrow> wf_auth (snd (CreateSession e t u ttl ip ua d))"
  by (auto simp: CreateSession_def wf_auth_def list_ex_iff)

lemma wf_SessionUser: "wf_auth d \<Longrightarrow> wf_auth (snd (SessionUser e t d))"
  by (auto simp: SessionUser_def touch_session_def db_write_def wf_map_sessions
      split: sum.splits option.splits)

lemma wf_DeleteSession: "wf_auth d \<Longrightarrow> wf_auth (DeleteSession e t d)"
  by (simp add: DeleteSession_def wf_filter_sessions split: db_write_split)

lemma wf_DeleteUserSessions: "wf_auth d \<Longrightarrow> wf_auth (DeleteUserSessions e i t d)"
  by (simp add: DeleteUserSessions_def wf_filter_sessions split: db_write_split)

lemma wf_PurgeExpiredSessions: "wf_auth d \<Longrightarrow> wf_auth (PurgeExpiredSessions e d)"
  by (simp add: PurgeExpiredSessions_def wf_filter_sessions split: db_write_split)

lemma wf_RecordAttempt: "wf_auth d \<Longrightarrow> wf_auth (RecordAttempt e ip n b r ua d)"
  by (simp add: RecordAttempt_def wf_attempts split: db_write_split)

lemma wf_UpsertIPRule: "wf_auth d \<Longrightarrow> wf_auth (snd (UpsertIPRule e n a s m x d))"
proof -
  assume w: "wf_auth d"
  then have "distinct (map r_net (ip_access d))" by (simp add: wf_auth_def)
  then have "wf_auth (d\<lparr>ip_access := upsert_net new (\<lambda>_. new) (ip_access d)\<rparr>)" for new
    using w by (intro wf_ip_access distinct_upsert_net) simp_all
  with w show ?thesis
    by (simp add: UpsertIPRule_def Let_def split: db_write_split)
qed

lemma wf_AutoBlock: "wf_auth d \<Longrightarrow> wf_auth (AutoBlock e ip t d)"
proof -
  assume w: "wf_auth d"
  then have "distinct (map r_net (ip_access d))" by (simp add: wf_auth_def)
  then have "wf_auth (d\<lparr>ip_access := upsert_net new
      (\<lambda>r. if r_source r = ''auto'' then r\<lparr>r_expires := x\<rparr> else r) (ip_access d)\<rparr>)" for new x
    using w by (intro wf_ip_access distinct_upsert_net) simp_all
  with w show ?thesis
    by (simp add: AutoBlock_def Let_def split: db_write_split)
qed

lemma wf_DeleteIPRule: "wf_auth d \<Longrightarrow> wf_auth (snd (DeleteIPRule e n d))"
  by (simp add: DeleteIPRule_def wf_filter_rules split: db_write_split)

lemma wf_PurgeExpiredIPRules: "wf_auth d \<Longrightarrow> wf_auth (PurgeExpiredIPRules e d)"
  by (simp add: PurgeExpiredIPRules_def wf_filter_rules split: db_write_split)

lemmas wf_statements =
  wf_SetPassword wf_ResetUserPassword wf_SetUserDisabled wf_RecordLogin wf_CreateUser wf_DeleteUser
  wf_CreateSession wf_SessionUser wf_DeleteSession wf_DeleteUserSessions wf_RecordAttempt
  wf_UpsertIPRule wf_AutoBlock wf_DeleteIPRule

lemma has_admin_users: "users d' = users d \<Longrightarrow> has_admin d' \<longleftrightarrow> has_admin d"
  by (simp add: has_admin_def)

lemma users_frame [table_simps]:
  "users (snd (CreateSession e t u ttl ip ua d)) = users d"
  "users (snd (SessionUser e t d)) = users d"
  "users (DeleteSession e t d) = users d"
  "users (DeleteUserSessions e i t d) = users d"
  "users (RecordAttempt e ip n b r ua d) = users d"
  "users (snd (UpsertIPRule e net a s m x d)) = users d"
  "users (AutoBlock e adr lock d) = users d"
  "users (snd (DeleteIPRule e net d)) = users d"
  by (auto simp: CreateSession_def SessionUser_def touch_session_def DeleteSession_def
      DeleteUserSessions_def RecordAttempt_def UpsertIPRule_def AutoBlock_def DeleteIPRule_def
      db_write_def Let_def split: sum.splits option.splits)

lemma has_admin_SetPassword: "has_admin d \<Longrightarrow> has_admin (snd (SetPassword e i h d))"
  by (simp add: SetPassword_def has_admin_map_user split: db_write_split)

lemma has_admin_ResetUserPassword: "has_admin d \<Longrightarrow> has_admin (snd (ResetUserPassword e i h d))"
  by (simp add: ResetUserPassword_def has_admin_map_user split: db_write_split)

lemma has_admin_RecordLogin: "has_admin d \<Longrightarrow> has_admin (RecordLogin e i ip d)"
  by (simp add: RecordLogin_def has_admin_map_user split: db_write_split)

lemma has_admin_CreateUser: "has_admin d \<Longrightarrow> has_admin (snd (CreateUser e n h a m d))"
  by (auto simp: CreateUser_def Let_def has_admin_def)

text \<open>Disabling or deleting one account leaves another enabled administrator in place.\<close>

lemma has_admin_other:
  assumes "u \<in> set (users d)" "IsAdmin u" "\<not> Disabled u" "ID u \<noteq> i"
  shows "has_admin (snd (SetUserDisabled e i b d))" and "has_admin (snd (DeleteUser e i d))"
  using assms unfolding SetUserDisabled_def DeleteUser_def db_write_def map_user_def has_admin_def
  by (auto intro!: bexI [of _ u])

lemma has_admin_enable:
  assumes "has_admin d"
  shows "has_admin (snd (SetUserDisabled e i False d))"
proof -
  from assms obtain u where u: "u \<in> set (users d)" "IsAdmin u" "\<not> Disabled u"
    by (auto simp: has_admin_def)
  then have "has_admin (map_user i (\<lambda>u. u\<lparr>Disabled := False\<rparr>) d)"
    unfolding has_admin_def map_user_def
    by (intro bexI [of _ "if ID u = i then u\<lparr>Disabled := False\<rparr> else u"]) auto
  with assms show ?thesis by (simp add: SetUserDisabled_def split: db_write_split)
qed

section \<open>Sessions as a store\<close>

lemma find_append_new: "\<not> list_ex P xs \<Longrightarrow> find P (xs @ ys) = find P ys"
  by (induction xs) auto

lemma find_filter: "(\<And>x. P x \<Longrightarrow> Q x) \<Longrightarrow> find P (filter Q xs) = find P xs"
  by (induction xs) auto

lemma find_none: "(\<And>x. x \<in> set xs \<Longrightarrow> \<not> P x) \<Longrightarrow> find P xs = None"
  by (induction xs) auto

lemma find_removed: "(\<And>x. P x \<Longrightarrow> \<not> Q x) \<Longrightarrow> find P (filter Q xs) = None"
  by (induction xs) auto

lemma find_map_keep: "(\<And>x. P (f x) = P x) \<Longrightarrow> find P (map f xs) = map_option f (find P xs)"
  by (induction xs) auto

lemma session_user_sound:
  assumes "session_user t token d = Some u"
  shows "u \<in> set (users d)" "\<not> Disabled u"
    "\<exists>s \<in> set (sessions d). s_token s = token \<and> s_expires s > t \<and> s_user s = ID u"
  using assms unfolding session_user_def find_user_def
  by (auto split: option.splits simp: find_Some_iff)

text \<open>
  What the authentication service relies on in the session table: a look-up sees the sessions
  that were created and not revoked, and a revocation touches no other session.
\<close>

locale session_store =
  fixes lookup :: "'d \<Rightarrow> string \<Rightarrow> 'u option"
    and revoke :: "string \<Rightarrow> 'd \<Rightarrow> 'd"
    and revoke_others :: "'i \<Rightarrow> string \<Rightarrow> 'd \<Rightarrow> 'd"
    and ident :: "'u \<Rightarrow> 'i"
  assumes lookup_revoked: "lookup (revoke t d) t = None"
    and lookup_revoke_other: "t \<noteq> t' \<Longrightarrow> lookup (revoke t d) t' = lookup d t'"
    and lookup_revoke_others:
      "lookup (revoke_others i keep d) t = Some u \<Longrightarrow> ident u = i \<Longrightarrow> t = keep"
    and lookup_revoke_others_keep: "lookup (revoke_others i keep d) keep = lookup d keep"
begin

text \<open>Once everybody but one token is revoked and then that token too, no session of the
  account is left.\<close>

lemma revoke_all:
  assumes "lookup (revoke keep (revoke_others i keep d)) t = Some u"
  shows "ident u \<noteq> i"
proof
  assume i: "ident u = i"
  show False
  proof (cases "t = keep")
    case True
    with assms show False by (simp add: lookup_revoked)
  next
    case False
    with assms i have "lookup (revoke_others i keep d) t = Some u"
      by (metis lookup_revoke_other)
    with i False show False using lookup_revoke_others by blast
  qed
qed

lemma revoke_twice: "t \<noteq> t' \<Longrightarrow> lookup (revoke t' (revoke t d)) t = None"
  by (metis lookup_revoke_other lookup_revoked)

end

interpretation auth_sessions:
  session_store "\<lambda>d token. session_user t token d" "DeleteSession (ok_env t')"
    "DeleteUserSessions (ok_env t')" ID
proof unfold_locales
  fix token token' i keep u and d :: auth_db
  show "session_user t token (DeleteSession (ok_env t') token d) = None"
  proof -
    have "find (\<lambda>s. s_token s = token \<and> t < s_expires s) (filter (\<lambda>s. s_token s \<noteq> token) (sessions d)) = None"
      by (rule find_removed) simp
    then show ?thesis by (simp add: session_user_def DeleteSession_def)
  qed
  show "session_user t token' (DeleteSession (ok_env t') token d) = session_user t token' d"
    if "token \<noteq> token'"
  proof -
    have "find (\<lambda>s. s_token s = token' \<and> t < s_expires s) (filter (\<lambda>s. s_token s \<noteq> token) (sessions d))
        = find (\<lambda>s. s_token s = token' \<and> t < s_expires s) (sessions d)"
      using that by (intro find_filter) simp
    then show ?thesis by (simp add: session_user_def DeleteSession_def find_user_def split: option.split)
  qed
  show "session_user t keep (DeleteUserSessions (ok_env t') i keep d) = session_user t keep d"
  proof -
    have "find (\<lambda>s. s_token s = keep \<and> t < s_expires s)
            (filter (\<lambda>s. \<not> (s_user s = i \<and> s_token s \<noteq> keep)) (sessions d))
        = find (\<lambda>s. s_token s = keep \<and> t < s_expires s) (sessions d)"
      by (rule find_filter) simp
    then show ?thesis by (simp add: session_user_def DeleteUserSessions_def find_user_def split: option.split)
  qed
  show "token = keep"
    if "session_user t token (DeleteUserSessions (ok_env t') i keep d) = Some u" "ID u = i"
    using session_user_sound(3) [OF that(1)] that(2) by (auto simp: DeleteUserSessions_def)
qed

end
