(* ===== verification/Auth.thy ===== *)
theory Auth
  imports AuthDB Config
begin

text \<open>
  \<open>internal/auth\<close>: login with brute-force protection, sessions, address access control and
  the middleware in front of every request. bcrypt and the random source are not part of the
  repository: \<open>gen_hash\<close>, \<open>cmp_hash\<close> and \<open>rand_token\<close> are parameters carried by the
  environment of a call.
\<close>

record auth_env = env +
  gen_hash :: "string \<Rightarrow> string option"
  cmp_hash :: "string \<Rightarrow> string \<Rightarrow> bool"
  dummyHash :: string
  rand_token :: string

text \<open>What the handlers read of a request; a header that is absent is empty.\<close>

record request =
  rq_path :: string
  rq_remote :: string
  rq_xff :: string
  rq_realip :: string
  rq_cookie :: "string option"
  rq_tls :: bool
  rq_ua :: string

section \<open>Client address\<close>

definition last_colon :: "string \<Rightarrow> nat option" where
  "last_colon s = map_option (\<lambda>i. length s - Suc i) (IndexByte (rev s) CHR '':'')"

text \<open>The host part of \<open>net.SplitHostPort\<close>, \<open>None\<close> on its errors.\<close>

definition SplitHost :: "string \<Rightarrow> string option" where
  "SplitHost s =
     (case last_colon s of None \<Rightarrow> None
      | Some i \<Rightarrow>
          if HasPrefix s ''['' then
            (case IndexByte s CHR '']'' of None \<Rightarrow> None
             | Some j \<Rightarrow>
                 if Suc j \<noteq> i then None
                 else if CHR ''['' \<in> set (drop 1 s) \<or> CHR '']'' \<in> set (drop (Suc j) s) then None
                 else Some (take (j - 1) (drop 1 s)))
          else if CHR '':'' \<in> set (take i s) then None
          else if CHR ''['' \<in> set s \<or> CHR '']'' \<in> set s then None
          else Some (take i s))"

text \<open>\<open>normalizeIP\<close> returns the canonical text of an address or the empty string; the model
  keeps the address itself.\<close>

definition normalizeIP :: "string \<Rightarrow> addr option" where
  "normalizeIP s = ParseIP s"

definition ClientIP :: "Config \<Rightarrow> request \<Rightarrow> addr option" where
  "ClientIP c r =
     (let xff = rq_xff r; first = TrimSpace (hd (SplitOn CHR '','' xff)); xr = TrimSpace (rq_realip r) in
      if TrustProxy c \<and> xff \<noteq> [] \<and> first \<noteq> [] then normalizeIP first
      else if TrustProxy c \<and> xr \<noteq> [] then normalizeIP xr
      else case SplitHost (rq_remote r) of
             None \<Rightarrow> normalizeIP (rq_remote r)
           | Some host \<Rightarrow> normalizeIP host)"

section \<open>Accounts and login\<close>

definition HashPassword :: "'e auth_env_scheme \<Rightarrow> string \<Rightarrow> string dbres" where
  "HashPassword e pw = (case gen_hash e pw of Some h \<Rightarrow> Inr h
                        | None \<Rightarrow> Inl (DbError ''bcrypt: password length exceeds 72 bytes''))"

definition EnsureAdmin :: "'e auth_env_scheme \<Rightarrow> Config \<Rightarrow> auth_db \<Rightarrow> unit dbres \<times> auth_db" where
  "EnsureAdmin e c d =
     (case CountUsers e d of Inl err \<Rightarrow> (Inl err, d)
      | Inr n \<Rightarrow>
          if n > 0 then (Inr (), d)
          else case HashPassword e (AuthAdminPassword c) of Inl err \<Rightarrow> (Inl err, d)
               | Inr hash \<Rightarrow>
                   (case CreateUser e (AuthAdminUser c) hash True (AuthAdminPassword c = ''admin'') d of
                      (Inl err, d') \<Rightarrow> (Inl err, d')
                    | (Inr _, d') \<Rightarrow> (Inr (), d')))"

datatype login_error = ErrInvalidCredentials | ErrLockedOut duration | ErrDisabled | LoginDb dberr

record LoginResult =
  lr_user :: User
  lr_token :: string

definition maybeLock :: "'e auth_env_scheme \<Rightarrow> Config \<Rightarrow> addr option \<Rightarrow> auth_db \<Rightarrow> auth_db" where
  "maybeLock e c ip d =
     (case ip of None \<Rightarrow> d
      | Some a \<Rightarrow>
          (case RecentFailures e ip (LoginWindow c) d of
             Inl _ \<Rightarrow> d
           | Inr fails \<Rightarrow> if fails \<ge> LoginMaxFailures c then AutoBlock e a (LoginLockout c) d else d))"

text \<open>The gate at the head of \<open>Login\<close>: \<open>Some\<close> when the call ends there.\<close>

definition login_gate ::
  "'e auth_env_scheme \<Rightarrow> Config \<Rightarrow> addr option \<Rightarrow> string \<Rightarrow> string \<Rightarrow> auth_db \<Rightarrow> (login_error \<times> auth_db) option" where
  "login_gate e c ip username ua d =
     (case ip of None \<Rightarrow> None
      | Some a \<Rightarrow>
          (case RecentFailures e ip (LoginWindow c) d of
             Inl err \<Rightarrow> Some (LoginDb err, d)
           | Inr fails \<Rightarrow>
               if fails \<ge> LoginMaxFailures c then
                 Some (ErrLockedOut (LoginLockout c),
                       RecordAttempt e ip username False ''locked_out'' ua (AutoBlock e a (LoginLockout c) d))
               else None))"

definition Login ::
  "'e auth_env_scheme \<Rightarrow> Config \<Rightarrow> addr option \<Rightarrow> string \<Rightarrow> string \<Rightarrow> string \<Rightarrow> auth_db \<Rightarrow> (login_error + LoginResult) \<times> auth_db" where
  "Login e c ip username password ua d =
     (case login_gate e c ip username ua d of
        Some (err, d') \<Rightarrow> (Inl err, d')
      | None \<Rightarrow>
     (case GetUserByName e username d of
        Inl err \<Rightarrow> (Inl (LoginDb err), d)
      | Inr user \<Rightarrow>
          let hash = (case user of None \<Rightarrow> dummyHash e | Some u \<Rightarrow> PasswordHash u);
              pwOk = cmp_hash e hash password in
          (case user of
             None \<Rightarrow>
               (Inl ErrInvalidCredentials,
                maybeLock e c ip (RecordAttempt e ip username False ''bad_credentials'' ua d))
           | Some u \<Rightarrow>
               if \<not> pwOk then
                 (Inl ErrInvalidCredentials,
                  maybeLock e c ip (RecordAttempt e ip username False ''bad_credentials'' ua d))
               else if Disabled u then
                 (Inl ErrDisabled, RecordAttempt e ip username False ''disabled'' ua d)
               else
                 (case CreateSession e (rand_token e) (ID u) (SessionTTL c) ip ua d of
                    (Inl err, d') \<Rightarrow> (Inl (LoginDb err), d')
                  | (Inr _, d') \<Rightarrow>
                      (Inr \<lparr>lr_user = u, lr_token = rand_token e\<rparr>,
                       RecordLogin e (ID u) ip (RecordAttempt e ip username True '''' ua d'))))))"

section \<open>Cookies\<close>

record cookie =
  ck_name :: string
  ck_value :: string
  ck_secure :: bool
  ck_maxage :: int

definition secure :: "Config \<Rightarrow> request \<Rightarrow> bool" where
  "secure c r \<longleftrightarrow> CookieSecure c \<or> rq_tls r"

text \<open>Go's integer division truncates towards zero.\<close>

definition trunc_div :: "int \<Rightarrow> int \<Rightarrow> int" where
  "trunc_div a b = sgn a * sgn b * (\<bar>a\<bar> div \<bar>b\<bar>)"

definition whole_seconds :: "duration \<Rightarrow> int" where
  "whole_seconds t = trunc_div t Second"

definition SetCookie :: "Config \<Rightarrow> request \<Rightarrow> string \<Rightarrow> cookie" where
  "SetCookie c r token =
     \<lparr>ck_name = CookieName c, ck_value = token, ck_secure = secure c r, ck_maxage = whole_seconds (SessionTTL c)\<rparr>"

definition ClearCookie :: "Config \<Rightarrow> request \<Rightarrow> cookie" where
  "ClearCookie c r = \<lparr>ck_name = CookieName c, ck_value = [], ck_secure = secure c r, ck_maxage = -1\<rparr>"

definition Token :: "request \<Rightarrow> string" where
  "Token r = (case rq_cookie r of Some v \<Rightarrow> v | None \<Rightarrow> [])"

section \<open>Middleware\<close>

text \<open>\<open>enforceIPAccess\<close>: \<open>None\<close> lets the request through, \<open>Some msg\<close> is a 403.\<close>

definition enforceIPAccess :: "'e auth_env_scheme \<Rightarrow> Config \<Rightarrow> request \<Rightarrow> addr option \<Rightarrow> auth_db \<Rightarrow> string option" where
  "enforceIPAccess e c r ip d =
     (case CheckIPAccess e ip d of
        Inl _ \<Rightarrow> None
      | Inr dec \<Rightarrow>
          if DeniedManual dec then Some ''your address is blocked''
          else if DeniedAuto dec \<and> rq_path r \<noteq> ''/api/v1/auth/login''
          then Some ''your address is temporarily blocked after repeated failed logins''
          else if IPAllowlistOnly c \<and> HasAllowList dec \<and> \<not> Allowed dec
          then Some ''your address is not on the allow list''
          else None)"

definition public_path :: "string \<Rightarrow> bool" where
  "public_path path \<longleftrightarrow>
     path = ''/healthz'' \<or> path = ''/api/v1/auth/login'' \<or> HasPrefix path ''/api/v1/tls/'' \<or>
     HasPrefix path ''/api/v1/agent/'' \<or> \<not> HasPrefix path ''/api/''"

definition pending_path :: "string \<Rightarrow> bool" where
  "pending_path path \<longleftrightarrow>
     path \<in> {''/api/v1/auth/me'', ''/api/v1/auth/change-password'', ''/api/v1/auth/logout''}"

text \<open>The outcome of the middleware: pass the request on with the user it puts in the context,
  or answer it.\<close>

datatype gate = Pass "User option" | Reject nat string

definition Middleware :: "'e auth_env_scheme \<Rightarrow> Config \<Rightarrow> request \<Rightarrow> auth_db \<Rightarrow> gate \<times> auth_db" where
  "Middleware e c r d =
     (if \<not> AuthEnabled c then (Pass None, d) else
      let ip = ClientIP c r; path = rq_path r;
          block = (if path = ''/healthz'' then None else enforceIPAccess e c r ip d) in
      case block of Some msg \<Rightarrow> (Reject 403 msg, d)
      | None \<Rightarrow>
          if public_path path then (Pass None, d)
          else case SessionUser e (Token r) d of
                 (Inl _, d') \<Rightarrow> (Reject 500 ''auth error'', d')
               | (Inr None, d') \<Rightarrow> (Reject 401 ''authentication required'', d')
               | (Inr (Some u), d') \<Rightarrow>
                   if MustChangePassword u \<and> \<not> pending_path path
                   then (Reject 403 ''password change required'', d')
                   else (Pass (Some u), d'))"

text \<open>\<open>RequireAdmin\<close>: whether the wrapped handler runs.\<close>

definition RequireAdmin :: "Config \<Rightarrow> User option \<Rightarrow> bool" where
  "RequireAdmin c u \<longleftrightarrow> (AuthEnabled c \<longrightarrow> (case u of None \<Rightarrow> False | Some x \<Rightarrow> IsAdmin x))"

text \<open>\<open>quote\<close>: the JSON string literal of an error message. The loop visits runes and copies
  every one but the three escaped bytes, so over bytes it is a map.\<close>

definition quote_char :: "char \<Rightarrow> string" where
  "quote_char ch =
     (if ch = CHR 0x22 \<or> ch = CHR 0x5C then [CHR 0x5C, ch]
      else if ch = CHR 0x0A then [CHR 0x5C, CHR ''n'']
      else [ch])"

definition quote :: "string \<Rightarrow> string" where
  "quote s = [CHR 0x22] @ concat (map quote_char s) @ [CHR 0x22]"

section \<open>Lemmas\<close>

lemma wf_maybeLock: "wf_auth d \<Longrightarrow> wf_auth (maybeLock e c ip d)"
  by (simp add: maybeLock_def wf_AutoBlock split: option.split sum.split)

lemma users_maybeLock [table_simps]: "users (maybeLock e c ip d) = users d"
  by (simp add: maybeLock_def table_simps split: option.split sum.split)

text \<open>What \<open>Login\<close> does to the tables, by outcome.\<close>

lemma Login_cases:
  obtains (gate) err d' where "login_gate e c ip n ua d = Some (err, d')" "Login e c ip n p ua d = (Inl err, d')"
  | (dbfail) err where "login_gate e c ip n ua d = None" "Login e c ip n p ua d = (Inl (LoginDb err), d)"
  | (bad) "login_gate e c ip n ua d = None"
      "Login e c ip n p ua d = (Inl ErrInvalidCredentials, maybeLock e c ip (RecordAttempt e ip n False ''bad_credentials'' ua d))"
  | (disabled) "login_gate e c ip n ua d = None"
      "Login e c ip n p ua d = (Inl ErrDisabled, RecordAttempt e ip n False ''disabled'' ua d)"
  | (session) u where "login_gate e c ip n ua d = None" "GetUserByName e n d = Inr (Some u)"
      "cmp_hash e (PasswordHash u) p" "\<not> Disabled u"
      "Login e c ip n p ua d =
        (case CreateSession e (rand_token e) (ID u) (SessionTTL c) ip ua d of
           (Inl err, d') \<Rightarrow> (Inl (LoginDb err), d')
         | (Inr _, d') \<Rightarrow> (Inr \<lparr>lr_user = u, lr_token = rand_token e\<rparr>,
                          RecordLogin e (ID u) ip (RecordAttempt e ip n True '''' ua d')))"
proof (cases "login_gate e c ip n ua d")
  case (Some x)
  then show thesis by (cases x) (auto simp: Login_def intro: gate)
next
  case None
  note g = this
  show thesis
  proof (cases "GetUserByName e n d")
    case (Inl err)
    with g show thesis by (intro dbfail) (simp_all add: Login_def)
  next
    case (Inr uo)
    show thesis
    proof (cases uo)
      case None
      with g Inr show thesis by (intro bad) (simp_all add: Login_def Let_def)
    next
      case (Some u)
      note u = Inr [unfolded Some]
      consider "\<not> cmp_hash e (PasswordHash u) p" | "cmp_hash e (PasswordHash u) p" "Disabled u"
        | "cmp_hash e (PasswordHash u) p" "\<not> Disabled u" by blast
      then show thesis
      proof cases
        case 1
        with g u show thesis by (intro bad) (simp_all add: Login_def Let_def)
      next
        case 2
        with g u show thesis by (intro disabled) (simp_all add: Login_def Let_def)
      next
        case 3
        with g u show thesis by (intro session [of u]) (simp_all add: Login_def Let_def)
      qed
    qed
  qed
qed

lemma login_gate_state:
  "login_gate e c ip n ua d = Some (err, d') \<Longrightarrow>
     (d' = d \<and> (\<exists>x. err = LoginDb x)) \<or>
     (\<exists>a. ip = Some a \<and> err = ErrLockedOut (LoginLockout c) \<and>
          d' = RecordAttempt e ip n False ''locked_out'' ua (AutoBlock e a (LoginLockout c) d))"
  by (auto simp: login_gate_def split: option.splits sum.splits if_splits)

lemma wf_login_gate: "wf_auth d \<Longrightarrow> login_gate e c ip n ua d = Some (err, d') \<Longrightarrow> wf_auth d'"
  using login_gate_state [of e c ip n ua d err d'] by (auto intro: wf_RecordAttempt wf_AutoBlock)

lemma wf_Login: "wf_auth d \<Longrightarrow> wf_auth (snd (Login e c ip n p ua d))"
proof (cases rule: Login_cases [of e c ip n ua d p])
  case (session u)
  assume "wf_auth d"
  then have "wf_auth (snd (CreateSession e (rand_token e) (ID u) (SessionTTL c) ip ua d))"
    by (rule wf_CreateSession)
  then show ?thesis
    using session(5) by (auto split: prod.splits sum.splits intro!: wf_RecordLogin wf_RecordAttempt)
qed (auto intro: wf_login_gate wf_maybeLock wf_RecordAttempt)

lemma has_admin_Login: "has_admin d \<Longrightarrow> has_admin (snd (Login e c ip n p ua d))"
proof (cases rule: Login_cases [of e c ip n ua d p])
  case (gate err d')
  assume "has_admin d"
  then show ?thesis
    using gate login_gate_state [of e c ip n ua d err d'] by (auto simp: has_admin_def table_simps)
next
  case (session u)
  assume a: "has_admin d"
  obtain r d' where cs: "CreateSession e (rand_token e) (ID u) (SessionTTL c) ip ua d = (r, d')"
    by fastforce
  then have "users d' = users d"
    by (metis users_frame(1) snd_conv)
  with a have "has_admin (RecordAttempt e ip n True '''' ua d')" "has_admin d'"
    by (simp_all add: has_admin_def table_simps)
  with session(5) cs show ?thesis
    by (cases r) (simp_all add: has_admin_RecordLogin)
qed (auto simp: has_admin_def table_simps)

section \<open>Brute-force protection\<close>

text \<open>Failed attempts of an address recorded at or after an instant.\<close>

definition fails_from :: "instant \<Rightarrow> addr \<Rightarrow> auth_db \<Rightarrow> nat" where
  "fails_from t a d = length (filter (\<lambda>x. la_ip x = Some a \<and> \<not> la_success x \<and> la_ts x \<ge> t) (attempts d))"

lemma length_filter_mono: "(\<And>x. P x \<Longrightarrow> Q x) \<Longrightarrow> length (filter P xs) \<le> length (filter Q xs)"
  by (induction xs) auto

lemma fails_from_le: "t < t0 \<Longrightarrow> fails_from t0 a d \<le> failures_since t a d"
  unfolding fails_from_def failures_since_def by (rule length_filter_mono) simp

lemma attempts_frame [table_simps]:
  "attempts (AutoBlock e a t d) = attempts d"
  "attempts (RecordLogin e i ip d) = attempts d"
  "attempts (snd (CreateSession e t' u ttl ip ua d)) = attempts d"
  by (auto simp: AutoBlock_def RecordLogin_def CreateSession_def Let_def map_user_def db_write_def)

lemma attempts_maybeLock [table_simps]: "attempts (maybeLock e c ip d) = attempts d"
  by (simp add: maybeLock_def table_simps split: option.split sum.split)

lemma fails_from_cong: "attempts d' = attempts d \<Longrightarrow> fails_from t a d' = fails_from t a d"
  by (simp add: fails_from_def)

lemma fails_from_RecordAttempt:
  "\<not> fault e [''RecordAttempt'', r] \<Longrightarrow> clean_utf8 n \<Longrightarrow> clean_utf8 ua \<Longrightarrow>
   fails_from t a (RecordAttempt e ip n b r ua d) =
     fails_from t a d + (if ip = Some a \<and> \<not> b \<and> now_of e \<ge> t then 1 else 0)"
  by (simp add: fails_from_def RecordAttempt_def)

lemma fails_from_RecordAttempt_mono:
  "fails_from t a d \<le> fails_from t a (RecordAttempt e ip n b r ua d)"
  by (simp add: fails_from_def RecordAttempt_def db_write_def)

lemma fails_from_CreateSession [simp]:
  "fails_from t a (snd (CreateSession e k u ttl ip ua d)) = fails_from t a d"
  by (rule fails_from_cong) (simp add: table_simps)

lemma fails_from_maybeLock [simp]: "fails_from t a (maybeLock e c ip d) = fails_from t a d"
  by (rule fails_from_cong) (simp add: table_simps)

lemma fails_from_AutoBlock [simp]: "fails_from t a (AutoBlock e b l d) = fails_from t a d"
  by (rule fails_from_cong) (simp add: table_simps)

lemma fails_from_RecordLogin [simp]: "fails_from t a (RecordLogin e i ip d) = fails_from t a d"
  by (rule fails_from_cong) (simp add: table_simps)

section \<open>Properties\<close>

text \<open>A configuration and environment for concrete instances: bcrypt stands for equality of
  plain texts.\<close>

definition sample_config :: Config where
  "sample_config = (Load_init Map.empty)\<lparr>AuthEnabled := True, LoginMaxFailures := 2,
     LoginWindow := 15 * Minute, LoginLockout := 15 * Minute, SessionTTL := Hour, TrustProxy := True\<rparr>"

definition sample_env :: "instant \<Rightarrow> string \<Rightarrow> auth_env" where
  "sample_env t tok = \<lparr>now_of = t, fault = (\<lambda>_. False),
     gen_hash = (\<lambda>pw. if length pw > 72 then None else Some pw), cmp_hash = (=),
     dummyHash = ''-'', rand_token = tok\<rparr>"

lemma sample_config_simps [simp]:
  "AuthEnabled sample_config" "LoginMaxFailures sample_config = 2"
  "LoginWindow sample_config = 900000000000" "LoginLockout sample_config = 900000000000"
  "SessionTTL sample_config = 3600000000000" "TrustProxy sample_config"
  "IPAllowlistOnly sample_config = False"
  by (simp_all add: sample_config_def Load_init_def)

lemma sample_env_simps [simp]:
  "now_of (sample_env t k) = t" "\<not> fault (sample_env t k) x"
  "gen_hash (sample_env t k) = (\<lambda>pw. if length pw > 72 then None else Some pw)"
  "cmp_hash (sample_env t k) = (=)" "rand_token (sample_env t k) = k" "dummyHash (sample_env t k) = ''-''"
  by (simp_all add: sample_env_def)

lemma subnet_eq_refl [simp]: "subnet_eq p p"
  by (cases p; cases "p_addr p") (simp_all add: subnet_eq_def word_prefix_eq_def)

lemma in_host_prefix [simp]: "in_net a (host_prefix a)"
  by (simp add: in_net_def)

text \<open>After an automatic block the address is denied until the lockout ends, unless an entry of
  the administrator already decides about exactly this address or allows it.\<close>

lemma AutoBlock_denies:
  assumes ok: "\<not> fault e [''AutoBlock'']"
    and noallow: "\<not> list_ex (\<lambda>r. r_action r = ''allow'' \<and> in_net a (r_net r)) (ip_access d)"
    and auto: "\<forall>r \<in> set (ip_access d). r_net r = host_prefix a \<longrightarrow> r_source r = ''auto'' \<and> r_action r = ''deny''"
    and t: "t < now_of e + lock"
  shows "DeniedAuto (access_of t a (ip_access (AutoBlock e a lock d)))"
proof -
  let ?new = "\<lparr>r_net = host_prefix a, r_action = ''deny'', r_source = ''auto'',
     r_note = Some ''brute-force lockout'', r_created = now_of e, r_expires = Some (now_of e + lock)\<rparr>"
  let ?upd = "\<lambda>r. if r_source r = ''auto'' then r\<lparr>r_expires := Some (now_of e + lock)\<rparr> else r"
  have "\<exists>r \<in> set (upsert_net ?new ?upd (ip_access d)).
      r_action r = ''deny'' \<and> r_source r = ''auto'' \<and> in_net a (r_net r) \<and> live t r"
  proof (cases "list_ex (\<lambda>r. r_net r = host_prefix a) (ip_access d)")
    case True
    then obtain r where r: "r \<in> set (ip_access d)" "r_net r = host_prefix a" by (auto simp: list_ex_iff)
    with auto have "r_source r = ''auto''" "r_action r = ''deny''" by auto
    with r t True show ?thesis
      by (auto simp: upsert_net_def live_def intro!: bexI [of _ "r\<lparr>r_expires := Some (now_of e + lock)\<rparr>"] image_eqI [of _ _ r])
  next
    case False
    with t show ?thesis by (auto simp: upsert_net_def live_def)
  qed
  with ok noallow show ?thesis
    by (auto simp: AutoBlock_def access_of_def list_ex_iff Let_def)
qed

text \<open>Lockout. When an address has reached \<open>LoginMaxFailures\<close> recent failures and the list
  has no entry of the administrator for it, its next login is refused whatever the credentials,
  opens no session, and for the whole \<open>LoginLockout\<close> period every other path answers 403.\<close>

theorem lockout_effective:
  assumes ok: "\<forall>k. \<not> fault e k" "\<forall>k. \<not> fault e' k"
    and over: "LoginMaxFailures c \<le> int (failures_since (now_of e - LoginWindow c) a d)"
    and noallow: "\<not> list_ex (\<lambda>r. r_action r = ''allow'' \<and> in_net a (r_net r)) (ip_access d)"
    and auto: "\<forall>r \<in> set (ip_access d). r_net r = host_prefix a \<longrightarrow> r_source r = ''auto'' \<and> r_action r = ''deny''"
    and t: "now_of e' < now_of e + LoginLockout c" and path: "rq_path q \<noteq> ''/api/v1/auth/login''"
  shows "fst (Login e c (Some a) n p ua d) = Inl (ErrLockedOut (LoginLockout c)) \<and>
    sessions (snd (Login e c (Some a) n p ua d)) = sessions d \<and>
    enforceIPAccess e' c q (Some a) (snd (Login e c (Some a) n p ua d)) \<noteq> None"
proof -
  let ?d1 = "AutoBlock e a (LoginLockout c) d"
  have L: "Login e c (Some a) n p ua d =
      (Inl (ErrLockedOut (LoginLockout c)), RecordAttempt e (Some a) n False ''locked_out'' ua ?d1)"
    using ok(1) over by (simp add: Login_def login_gate_def RecentFailures_def)
  have ses: "sessions (snd (Login e c (Some a) n p ua d)) = sessions d"
    using ok(1) by (simp add: L RecordAttempt_def AutoBlock_def Let_def)
  have "DeniedAuto (access_of (now_of e') a (ip_access ?d1))"
    by (rule AutoBlock_denies) (use ok(1) noallow auto t in simp_all)
  then have "enforceIPAccess e' c q (Some a) (snd (Login e c (Some a) n p ua d)) \<noteq> None"
    using ok path by (simp add: L RecordAttempt_def enforceIPAccess_def CheckIPAccess_def)
  with ses show ?thesis by (simp add: L)
qed

definition sample_attempt :: "instant \<Rightarrow> LoginActivity" where
  "sample_attempt t = \<lparr>la_ip = Some (v4 10 0 0 9), la_user = Some ''admin'', la_success = False,
     la_reason = Some ''bad_credentials'', la_ts = t, la_ua = []\<rparr>"

definition sample_request :: request where
  "sample_request = \<lparr>rq_path = ''/api/v1/hosts'', rq_remote = ''10.0.0.9:4711'', rq_xff = ''bogus'',
     rq_realip = [], rq_cookie = Some ''tok'', rq_tls = False, rq_ua = []\<rparr>"

theorem lockout_effective_witness:
  "enforceIPAccess (sample_env 20 []) sample_config sample_request (Some (v4 10 0 0 9))
     (snd (Login (sample_env 10 ''t'') sample_config (Some (v4 10 0 0 9)) ''admin'' ''admin'' []
        (empty_auth_db\<lparr>attempts := [sample_attempt 1, sample_attempt 2]\<rparr>))) \<noteq> None"
  using lockout_effective [of "sample_env 10 ''t''" "sample_env 20 []" sample_config "v4 10 0 0 9"
      "empty_auth_db\<lparr>attempts := [sample_attempt 1, sample_attempt 2]\<rparr>" sample_request]
  by (simp add: failures_since_def sample_attempt_def empty_auth_db_def sample_request_def)

text \<open>Session round trip. A successful login comes from an enabled account whose stored hash
  matches the password, and its token names that account until the session expires.\<close>

theorem login_opens_session:
  assumes L: "Login e c ip n p ua d = (Inr res, d')" and w: "wf_auth d"
    and t: "t < now_of e + SessionTTL c"
  shows "\<exists>u u'. u \<in> set (users d) \<and> Username u = n \<and> cmp_hash e (PasswordHash u) p \<and> \<not> Disabled u \<and>
           lr_user res = u \<and> session_user t (lr_token res) d' = Some u' \<and> ID u' = ID u"
proof (cases rule: Login_cases [of e c ip n ua d p])
  case (session u)
  then have u: "u \<in> set (users d)" "Username u = n"
    by (auto simp: GetUserByName_def db_read_Inr_iff find_user_def find_Some_iff2 split: if_splits)
  obtain d1 where cs: "CreateSession e (rand_token e) (ID u) (SessionTTL c) ip ua d = (Inr (), d1)"
    and d': "d' = RecordLogin e (ID u) ip (RecordAttempt e ip n True [] ua d1)"
    and res: "res = \<lparr>lr_user = u, lr_token = rand_token e\<rparr>"
    using L session(5) by (auto split: prod.splits sum.splits)
  let ?s = "\<lparr>s_token = rand_token e, s_user = ID u, s_created = now_of e, s_seen = now_of e,
             s_expires = now_of e + SessionTTL c, s_ip = ip, s_ua = ua\<rparr>"
  have fresh: "\<not> list_ex (\<lambda>s. s_token s = rand_token e) (sessions d)"
    and d1: "d1 = d\<lparr>sessions := sessions d @ [?s]\<rparr>"
    using cs by (auto simp: CreateSession_def split: if_splits)
  have ses: "sessions d' = sessions d @ [?s]"
    by (simp add: d' d1 RecordLogin_def RecordAttempt_def table_simps split: db_write_split)
  obtain f where f: "keeps_keys f" "\<And>x. Disabled (f x) = Disabled x"
    and us: "users d' = map (\<lambda>x. if ID x = ID u then f x else x) (users d)"
  proof (cases "fault e [''RecordLogin'']")
    case True
    then show thesis
      by (intro that [of "\<lambda>x. x"]) (simp_all add: keeps_keys_def d' d1 RecordLogin_def table_simps)
  next
    case False
    then show thesis
      by (intro that [of "\<lambda>x. x\<lparr>LastLogin := Some (now_of e), LastLoginIP := ip\<rparr>"])
        (simp_all add: keeps_keys_def d' d1 RecordLogin_def table_simps map_user_def)
  qed
  have "find (\<lambda>s. s_token s = rand_token e \<and> s_expires s > t) (sessions d') = Some ?s"
    using fresh t unfolding ses by (subst find_append_new) (auto simp: list_ex_iff)
  moreover have "f u \<in> set (users d')" "ID (f u) = ID u" "\<not> Disabled (f u)"
    using u f session(4) by (auto simp: us keeps_keys_def)
  then obtain u' where "find (\<lambda>x. ID x = ID u \<and> \<not> Disabled x) (users d') = Some u'"
    by (cases "find (\<lambda>x. ID x = ID u \<and> \<not> Disabled x) (users d')") (auto simp: find_None_iff)
  moreover from this have "ID u' = ID u" by (auto simp: find_Some_iff)
  ultimately show ?thesis
    using u session(3,4) res by (auto simp: session_user_def find_user_def)
qed (use L in auto)

definition sample_user :: User where
  "sample_user = \<lparr>ID = 1, Username = ''admin'', IsAdmin = True, MustChangePassword = False,
     Disabled = False, CreatedAt = 0, LastLogin = None, LastLoginIP = None, PasswordHash = ''secret99''\<rparr>"

definition sample_db :: auth_db where
  "sample_db = empty_auth_db\<lparr>users := [sample_user], user_seq := 1\<rparr>"

lemma clean_admin [simp]: "clean_utf8 ''admin''"
  by (simp add: clean_utf8_def lead_byte_def byte_in_def)

lemma wf_sample_db [simp]: "wf_auth sample_db"
  by (simp add: sample_db_def sample_user_def empty_auth_db_def wf_auth_def)

theorem login_opens_session_witness:
  "\<exists>res d' u'. Login (sample_env 10 ''tok'') sample_config None ''admin'' ''secret99'' [] sample_db = (Inr res, d') \<and>
     session_user 20 (lr_token res) d' = Some u' \<and> ID u' = 1"
proof -
  obtain res d' where L: "Login (sample_env 10 ''tok'') sample_config None ''admin'' ''secret99'' [] sample_db = (Inr res, d')"
    and r: "lr_user res = sample_user"
    by (simp add: Login_def login_gate_def GetUserByName_def find_user_def sample_db_def sample_user_def
        empty_auth_db_def CreateSession_def)
  show ?thesis
    using login_opens_session [OF L wf_sample_db, of 20] L r by (auto simp: sample_user_def)
qed

text \<open>Gate. A request that the middleware lets through to a non-public path carries the token
  of a live session of an enabled account, that account is the user in the context, a pending
  password change restricts it to its own pages, and no live manual deny entry covers the client
  address (a database error of the address check aside, which lets requests pass).\<close>

theorem middleware_sound:
  assumes "AuthEnabled c" "\<not> public_path (rq_path r)" "Middleware e c r d = (Pass uo, d')"
  shows "\<exists>u s. uo = Some u \<and> u \<in> set (users d) \<and> \<not> Disabled u \<and>
     s \<in> set (sessions d) \<and> s_token s = Token r \<and> s_user s = ID u \<and> now_of e < s_expires s \<and>
     (MustChangePassword u \<longrightarrow> pending_path (rq_path r)) \<and>
     (\<forall>a. ClientIP c r = Some a \<and> \<not> fault e [''CheckIPAccess''] \<longrightarrow>
        \<not> list_ex (\<lambda>x. r_action x = ''deny'' \<and> r_source x = ''manual'' \<and> in_net a (r_net x) \<and> live (now_of e) x)
            (ip_access d))"
proof -
  have nh: "rq_path r \<noteq> ''/healthz''" using assms(2) by (auto simp: public_path_def)
  have acc: "enforceIPAccess e c r (ClientIP c r) d = None"
    and su: "\<exists>u. SessionUser e (Token r) d = (Inr (Some u), d') \<and> uo = Some u \<and>
        (MustChangePassword u \<longrightarrow> pending_path (rq_path r))"
    using assms nh
    by (auto simp: Middleware_def Let_def split: option.splits prod.splits sum.splits if_splits)
  from su obtain u where u: "session_user (now_of e) (Token r) d = Some u" "uo = Some u"
    "MustChangePassword u \<longrightarrow> pending_path (rq_path r)"
    by (auto simp: SessionUser_def db_read_def split: if_splits option.splits)
  have "\<not> list_ex (\<lambda>x. r_action x = ''deny'' \<and> r_source x = ''manual'' \<and> in_net a (r_net x) \<and> live (now_of e) x)
            (ip_access d)" if "ClientIP c r = Some a" "\<not> fault e [''CheckIPAccess'']" for a
    using acc that by (auto simp: enforceIPAccess_def CheckIPAccess_def access_of_def split: if_splits)
  with u session_user_sound [OF u(1)] show ?thesis by blast
qed

definition sample_session :: session where
  "sample_session = \<lparr>s_token = ''tok'', s_user = 1, s_created = 0, s_seen = 0, s_expires = 100,
     s_ip = None, s_ua = []\<rparr>"

lemma sample_client: "ClientIP sample_config sample_request = None"
  by code_simp

theorem middleware_sound_witness:
  "\<exists>d' u s. Middleware (sample_env 10 []) sample_config sample_request (sample_db\<lparr>sessions := [sample_session]\<rparr>)
      = (Pass (Some u), d') \<and> s \<in> set (sessions (sample_db\<lparr>sessions := [sample_session]\<rparr>)) \<and>
      s_token s = ''tok'' \<and> 10 < s_expires s"
proof -
  let ?d = "sample_db\<lparr>sessions := [sample_session]\<rparr>"
  have np: "\<not> public_path (rq_path sample_request)"
    by (simp add: sample_request_def public_path_def)
  have tok: "Token sample_request = ''tok''" by (simp add: sample_request_def Token_def)
  have "session_user 10 ''tok'' ?d = Some sample_user"
    by (simp add: session_user_def sample_db_def sample_session_def sample_user_def find_user_def)
  then obtain d' where su: "SessionUser (sample_env 10 []) ''tok'' ?d = (Inr (Some sample_user), d')"
    by (simp add: SessionUser_def)
  have "enforceIPAccess (sample_env 10 []) sample_config sample_request None ?d = None"
    by (simp add: enforceIPAccess_def CheckIPAccess_def no_decision_def)
  with su np have M: "Middleware (sample_env 10 []) sample_config sample_request ?d = (Pass (Some sample_user), d')"
    by (simp add: Middleware_def Let_def sample_client tok) (simp add: sample_user_def public_path_def)
  show ?thesis
    using middleware_sound [OF sample_config_simps(1) np M] M tok by force
qed

text \<open>Behind a trusting proxy configuration the first element of \<open>X-Forwarded-For\<close> is the client
  address; when it is not an address, the request has none, and then neither the login limit nor
  any entry of the allow and deny list applies: no number of recorded failures locks it out.\<close>

theorem malformed_forwarded_header_is_unlimited:
  assumes "TrustProxy c" "TrimSpace (hd (SplitOn CHR '','' (rq_xff r))) \<noteq> []"
    and "ParseIP (TrimSpace (hd (SplitOn CHR '','' (rq_xff r)))) = None"
  shows "ClientIP c r = None \<and> enforceIPAccess e c r (ClientIP c r) d = None \<and>
    fst (Login e c (ClientIP c r) n p ua d) \<noteq> Inl (ErrLockedOut l)"
proof -
  have "rq_xff r \<noteq> []" using assms(2) by (auto simp: TrimSpace_def)
  then have ip: "ClientIP c r = None"
    using assms by (simp add: ClientIP_def Let_def normalizeIP_def)
  have "fst (Login e c None n p ua d) \<noteq> Inl (ErrLockedOut l)"
    by (rule Login_cases [of e c None n ua d p])
      (auto simp: login_gate_def split: prod.splits sum.splits)
  with ip show ?thesis
    by (simp add: enforceIPAccess_def CheckIPAccess_def no_decision_def)
qed

theorem malformed_forwarded_header_is_unlimited_witness:
  "ClientIP sample_config sample_request = None \<and>
   fst (Login (sample_env 9 []) sample_config (ClientIP sample_config sample_request) ''admin'' ''x'' []
      (sample_db\<lparr>attempts := replicate 100 (sample_attempt 8)\<rparr>)) \<noteq> Inl (ErrLockedOut 900000000000)"
proof -
  let ?d = "sample_db\<lparr>attempts := replicate 100 (sample_attempt 8)\<rparr>"
  have "TrimSpace (hd (SplitOn CHR '','' (rq_xff sample_request))) = ''bogus''"
    by (simp add: sample_request_def TrimSpace_def is_space_def)
  moreover have "ParseIP ''bogus'' = None" by code_simp
  ultimately have "ClientIP sample_config sample_request = None \<and>
     enforceIPAccess (sample_env 9 []) sample_config sample_request (ClientIP sample_config sample_request) ?d = None \<and>
     fst (Login (sample_env 9 []) sample_config (ClientIP sample_config sample_request) ''admin'' ''x'' [] ?d)
       \<noteq> Inl (ErrLockedOut 900000000000)"
    by (intro malformed_forwarded_header_is_unlimited) simp_all
  then show ?thesis by blast
qed

end
