(* ===== verification/ApiUsers.thy ===== *)
theory ApiUsers
  imports Auth
begin

text \<open>
  The account, session and access-control handlers of \<open>internal/api/api.go\<close>, each as a
  function of the request, the decoded body (\<open>None\<close> where \<open>json.Decode\<close> fails, larger than
  8 KiB included) and the tables. \<open>serve\<close> composes the middleware, the admin guard and the
  handler as \<open>Handler\<close> routes them.
\<close>

datatype api_value =
    VUser "User option"
  | VLogin User cookie
  | VCookie cookie
  | VMe "User option"
  | VOk
  | VUsers "User list"
  | VActivity "LoginActivity list"
  | VAttackers "AttemptStat list"
  | VIPRules "IPRule list" bool
  | VIPRule IPRule

type_synonym answer = "api_value reply"

section \<open>Session handlers\<close>

definition login ::
  "'e auth_env_scheme \<Rightarrow> Config \<Rightarrow> request \<Rightarrow> (string \<times> string) option \<Rightarrow> auth_db \<Rightarrow> answer \<times> auth_db" where
  "login e c r body d =
     (if \<not> AuthEnabled c then (ErrMsg 501 ''authentication is disabled'', d) else
      case body of None \<Rightarrow> (ErrMsg 400 ''invalid json body'', d)
      | Some (username, password) \<Rightarrow>
          (case Login e c (ClientIP c r) (TrimSpace username) password (rq_ua r) d of
             (Inl (ErrLockedOut _), d') \<Rightarrow> (ErrMsg 429 ''too many failed attempts; try again later'', d')
           | (Inl ErrInvalidCredentials, d') \<Rightarrow> (ErrMsg 401 ''invalid username or password'', d')
           | (Inl ErrDisabled, d') \<Rightarrow> (ErrMsg 401 ''account disabled'', d')
           | (Inl (LoginDb err), d') \<Rightarrow> (fail err, d')
           | (Inr res, d') \<Rightarrow> (Json 200 (VLogin (lr_user res) (SetCookie c r (lr_token res))), d')))"

definition logout :: "'e auth_env_scheme \<Rightarrow> Config \<Rightarrow> request \<Rightarrow> auth_db \<Rightarrow> answer \<times> auth_db" where
  "logout e c r d =
     (if AuthEnabled c then (Json 200 (VCookie (ClearCookie c r)), DeleteSession e (Token r) d)
      else (Json 200 VOk, d))"

definition me :: "Config \<Rightarrow> User option \<Rightarrow> answer" where
  "me c u = (if \<not> AuthEnabled c then Json 200 (VMe None)
             else case u of None \<Rightarrow> ErrMsg 401 ''authentication required''
                  | Some x \<Rightarrow> Json 200 (VMe (Some x)))"

definition validPassword :: "string \<Rightarrow> string option" where
  "validPassword pw =
     (if length pw < 8 then Some ''password must be at least 8 characters''
      else if length pw > 200 then Some ''password too long''
      else if pw = ''admin'' then Some ''choose a different password''
      else None)"

text \<open>An account that has vanished reaches \<open>fail\<close> with a nil error, whose \<open>Error\<close> method
  panics.\<close>

definition changePassword ::
  "'e auth_env_scheme \<Rightarrow> Config \<Rightarrow> request \<Rightarrow> User option \<Rightarrow> (string \<times> string) option \<Rightarrow> auth_db \<Rightarrow> answer \<times> auth_db" where
  "changePassword e c r user body d =
     (case user of None \<Rightarrow> (ErrMsg 401 ''authentication required'', d)
      | Some u \<Rightarrow>
     (case body of None \<Rightarrow> (ErrMsg 400 ''invalid json body'', d)
      | Some (current, new) \<Rightarrow>
     (case GetUser e (ID u) d of
        Inl err \<Rightarrow> (fail err, d)
      | Inr None \<Rightarrow> (Panic, d)
      | Inr (Some full) \<Rightarrow>
          if \<not> cmp_hash e (PasswordHash full) current then (ErrMsg 400 ''current password is incorrect'', d)
          else case validPassword new of Some msg \<Rightarrow> (ErrMsg 400 msg, d)
          | None \<Rightarrow>
              (case HashPassword e new of Inl err \<Rightarrow> (fail err, d)
               | Inr hash \<Rightarrow>
                   (case SetPassword e (ID u) hash d of
                      (Inl err, d') \<Rightarrow> (fail err, d')
                    | (Inr _, d') \<Rightarrow> (Json 200 VOk, DeleteUserSessions e (ID u) (Token r) d'))))))"

section \<open>Account administration\<close>

definition hide_hash :: "User \<Rightarrow> User" where
  "hide_hash u = u\<lparr>PasswordHash := []\<rparr>"

definition listUsers :: "'e auth_env_scheme \<Rightarrow> auth_db \<Rightarrow> answer" where
  "listUsers e d = (case ListUsers e d of Inl err \<Rightarrow> fail err | Inr us \<Rightarrow> Json 200 (VUsers us))"

text \<open>The error of the look-up for an existing name is ignored.\<close>

definition createUser ::
  "'e auth_env_scheme \<Rightarrow> (string \<times> string \<times> bool) option \<Rightarrow> auth_db \<Rightarrow> answer \<times> auth_db" where
  "createUser e body d =
     (case body of None \<Rightarrow> (ErrMsg 400 ''invalid json body'', d)
      | Some (username0, password, isAdmin) \<Rightarrow>
          let username = TrimSpace username0 in
          if length username < 1 \<or> length username > 64
          then (ErrMsg 400 ''username must be 1-64 characters'', d)
          else case validPassword password of Some msg \<Rightarrow> (ErrMsg 400 msg, d)
          | None \<Rightarrow>
              if (case GetUserByName e username d of Inr (Some _) \<Rightarrow> True | _ \<Rightarrow> False)
              then (ErrMsg 409 ''username already exists'', d)
              else case HashPassword e password of Inl err \<Rightarrow> (fail err, d)
                   | Inr hash \<Rightarrow>
                       (case CreateUser e username hash isAdmin True d of
                          (Inl err, d') \<Rightarrow> (fail err, d')
                        | (Inr u, d') \<Rightarrow> (Json 200 (VUser (Some (hide_hash u))), d')))"

text \<open>The end of \<open>userAction\<close>: the error of the statement, or the account as it is now.\<close>

definition action_reply :: "'e auth_env_scheme \<Rightarrow> int \<Rightarrow> unit dbres \<times> auth_db \<Rightarrow> answer \<times> auth_db" where
  "action_reply e i rd =
     (case rd of
        (Inl err, d') \<Rightarrow> (fail err, d')
      | (Inr _, d') \<Rightarrow>
          (Json 200 (VUser (case GetUser e i d' of Inr (Some u) \<Rightarrow> Some (hide_hash u) | _ \<Rightarrow> None)), d'))"

text \<open>For \<open>reset\<close> the decoding error is ignored: an undecodable body leaves the password
  empty.\<close>

definition userAction ::
  "'e auth_env_scheme \<Rightarrow> User option \<Rightarrow> string \<Rightarrow> string \<Rightarrow> string option \<Rightarrow> auth_db \<Rightarrow> answer \<times> auth_db" where
  "userAction e user idtext action body d =
     (case Atoi idtext of None \<Rightarrow> (ErrMsg 400 ''bad id'', d)
      | Some i \<Rightarrow>
          if action = ''disable'' then
            (if (case user of Some m \<Rightarrow> ID m = i | None \<Rightarrow> False)
             then (ErrMsg 400 ''cannot disable your own account'', d)
             else action_reply e i (SetUserDisabled e i True d))
          else if action = ''enable'' then action_reply e i (SetUserDisabled e i False d)
          else if action = ''reset'' then
            (let pw = opt_default [] body in
             case validPassword pw of Some msg \<Rightarrow> (ErrMsg 400 msg, d)
             | None \<Rightarrow>
                 (case HashPassword e pw of Inl err \<Rightarrow> (fail err, d)
                  | Inr hash \<Rightarrow> action_reply e i (ResetUserPassword e i hash d)))
          else (ErrMsg 400 ''action must be disable, enable or reset'', d))"

definition deleteUser ::
  "'e auth_env_scheme \<Rightarrow> User option \<Rightarrow> string \<Rightarrow> auth_db \<Rightarrow> answer \<times> auth_db" where
  "deleteUser e user idtext d =
     (case Atoi idtext of None \<Rightarrow> (ErrMsg 400 ''bad id'', d)
      | Some i \<Rightarrow>
          if (case user of Some m \<Rightarrow> ID m = i | None \<Rightarrow> False)
          then (ErrMsg 400 ''cannot delete your own account'', d)
          else case CountUsers e d of Inl err \<Rightarrow> (fail err, d)
               | Inr n \<Rightarrow>
                   if n \<le> 1 then (ErrMsg 400 ''cannot delete the last account'', d)
                   else (case DeleteUser e i d of
                           (Inl err, d') \<Rightarrow> (fail err, d')
                         | (Inr ok, d') \<Rightarrow> if ok then (NoContent, d') else (ErrMsg 404 ''user not found'', d')))"

section \<open>Login activity and address rules\<close>

text \<open>\<open>parseIP\<close> of \<open>api.go\<close>; \<open>None\<close> stands for the 400 it writes.\<close>

definition parseIP :: "string \<Rightarrow> addr option" where
  "parseIP raw = map_option Unmap (ParseAddr raw)"

definition qInt :: "string \<Rightarrow> int \<Rightarrow> int" where
  "qInt v def = (if v = [] then def else case Atoi v of Some n \<Rightarrow> n | None \<Rightarrow> def)"

definition securityActivity ::
  "'e auth_env_scheme \<Rightarrow> string \<Rightarrow> string \<Rightarrow> string \<Rightarrow> string \<Rightarrow> auth_db \<Rightarrow> answer" where
  "securityActivity e ipq userq failuresq limitq d =
     (if ipq \<noteq> [] \<and> parseIP ipq = None then ErrMsg 400 ''invalid ip address''
      else case ListLoginAttempts e (if ipq = [] then None else parseIP ipq) userq (failuresq = ''1'')
                  (qInt limitq 200) d of
             Inl err \<Rightarrow> fail err
           | Inr items \<Rightarrow> Json 200 (VActivity items))"

definition securityAttackers :: "'e auth_env_scheme \<Rightarrow> string \<Rightarrow> string \<Rightarrow> auth_db \<Rightarrow> answer" where
  "securityAttackers e windowq limitq d =
     (let window = (if windowq = [] then 24 * Hour
                    else case ParseDuration windowq of Some w \<Rightarrow> w | None \<Rightarrow> 24 * Hour)
      in case TopAttackers e window (qInt limitq 50) d of
           Inl err \<Rightarrow> fail err
         | Inr items \<Rightarrow> Json 200 (VAttackers items))"

definition listIPRules :: "'e auth_env_scheme \<Rightarrow> Config \<Rightarrow> auth_db \<Rightarrow> answer" where
  "listIPRules e c d =
     (case ListIPRules e d of Inl err \<Rightarrow> fail err
      | Inr items \<Rightarrow> Json 200 (VIPRules items (IPAllowlistOnly c)))"

text \<open>\<open>normalizeCIDR\<close> returns the canonical text of a prefix; the model keeps the prefix. A
  mapped IPv4 address alone is unmapped, a zone is dropped by \<open>PrefixFrom\<close>.\<close>

definition normalizeCIDR :: "string \<Rightarrow> string + prefix" where
  "normalizeCIDR raw0 =
     (let raw = TrimSpace raw0 in
      if raw = [] then Inl ''net is required''
      else if \<not> Contains raw ''/'' then
        (case ParseAddr raw of None \<Rightarrow> Inl ''invalid IP or CIDR''
         | Some a \<Rightarrow> Inr (host_prefix (strip_zone (Unmap a))))
      else
        (case ParsePrefix raw of None \<Rightarrow> Inl ''invalid CIDR'' | Some p \<Rightarrow> Inr (Masked p)))"

definition addIPRule ::
  "'e auth_env_scheme \<Rightarrow> (string \<times> string \<times> string) option \<Rightarrow> auth_db \<Rightarrow> answer \<times> auth_db" where
  "addIPRule e body d =
     (case body of None \<Rightarrow> (ErrMsg 400 ''invalid json body'', d)
      | Some (net, action, note) \<Rightarrow>
          if action \<noteq> ''allow'' \<and> action \<noteq> ''deny'' then (ErrMsg 400 ''action must be allow or deny'', d)
          else case normalizeCIDR net of Inl msg \<Rightarrow> (ErrMsg 400 msg, d)
               | Inr p \<Rightarrow>
                   (case UpsertIPRule e p action ''manual'' (nilIfEmpty note) None d of
                      (Inl err, d') \<Rightarrow> (fail err, d')
                    | (Inr rule, d') \<Rightarrow> (Json 200 (VIPRule rule), d')))"

definition deleteIPRule :: "'e auth_env_scheme \<Rightarrow> string \<Rightarrow> auth_db \<Rightarrow> answer \<times> auth_db" where
  "deleteIPRule e netq d =
     (case normalizeCIDR netq of Inl msg \<Rightarrow> (ErrMsg 400 msg, d)
      | Inr p \<Rightarrow>
          (case DeleteIPRule e p d of
             (Inl err, d') \<Rightarrow> (fail err, d')
           | (Inr ok, d') \<Rightarrow> if ok then (NoContent, d') else (ErrMsg 404 ''rule not found'', d')))"

section \<open>The server\<close>

text \<open>A call: the route the multiplexer chose, with what the handler reads besides the
  request.\<close>

datatype call =
    CLogin "(string \<times> string) option"
  | CLogout
  | CMe
  | CChangePassword "(string \<times> string) option"
  | CListUsers
  | CCreateUser "(string \<times> string \<times> bool) option"
  | CUserAction string string "string option"
  | CDeleteUser string
  | CActivity string string string string
  | CAttackers string string
  | CListIPRules
  | CAddIPRule "(string \<times> string \<times> string) option"
  | CDeleteIPRule string

fun route :: "call \<Rightarrow> string" where
  "route (CLogin _) = ''/api/v1/auth/login''"
| "route CLogout = ''/api/v1/auth/logout''"
| "route CMe = ''/api/v1/auth/me''"
| "route (CChangePassword _) = ''/api/v1/auth/change-password''"
| "route CListUsers = ''/api/v1/auth/users''"
| "route (CCreateUser _) = ''/api/v1/auth/users''"
| "route (CUserAction i a _) = ''/api/v1/auth/users/'' @ i @ ''/'' @ a"
| "route (CDeleteUser i) = ''/api/v1/auth/users/'' @ i"
| "route (CActivity _ _ _ _) = ''/api/v1/security/activity''"
| "route (CAttackers _ _) = ''/api/v1/security/attackers''"
| "route CListIPRules = ''/api/v1/security/ip-access''"
| "route (CAddIPRule _) = ''/api/v1/security/ip-access''"
| "route (CDeleteIPRule _) = ''/api/v1/security/ip-access''"


definition admin_route :: "call \<Rightarrow> bool" where
  "admin_route k = (case k of CLogin _ \<Rightarrow> False | CLogout \<Rightarrow> False | CMe \<Rightarrow> False
                    | CChangePassword _ \<Rightarrow> False | _ \<Rightarrow> True)"

text \<open>The handler of a route, with the user the middleware found.\<close>

definition dispatch ::
  "'e auth_env_scheme \<Rightarrow> Config \<Rightarrow> request \<Rightarrow> User option \<Rightarrow> call \<Rightarrow> auth_db \<Rightarrow> answer \<times> auth_db" where
  "dispatch e c r u k d =
     (case k of
        CLogin body \<Rightarrow> login e c r body d
      | CLogout \<Rightarrow> logout e c r d
      | CMe \<Rightarrow> (me c u, d)
      | CChangePassword body \<Rightarrow> changePassword e c r u body d
      | CListUsers \<Rightarrow> (listUsers e d, d)
      | CCreateUser body \<Rightarrow> createUser e body d
      | CUserAction i a body \<Rightarrow> userAction e u i a body d
      | CDeleteUser i \<Rightarrow> deleteUser e u i d
      | CActivity a b f l \<Rightarrow> (securityActivity e a b f l d, d)
      | CAttackers w l \<Rightarrow> (securityAttackers e w l d, d)
      | CListIPRules \<Rightarrow> (listIPRules e c d, d)
      | CAddIPRule body \<Rightarrow> addIPRule e body d
      | CDeleteIPRule n \<Rightarrow> deleteIPRule e n d)"

definition serve ::
  "'e auth_env_scheme \<Rightarrow> Config \<Rightarrow> request \<Rightarrow> call \<Rightarrow> auth_db \<Rightarrow> answer \<times> auth_db" where
  "serve e c r0 k d =
     (let r = r0\<lparr>rq_path := route k\<rparr> in
      case Middleware e c r d of
        (Reject st msg, d') \<Rightarrow> (ErrMsg st msg, d')
      | (Pass u, d') \<Rightarrow>
          if admin_route k \<and> \<not> RequireAdmin c u then (ErrMsg 403 ''admin privileges required'', d')
          else dispatch e c r u k d')"

section \<open>Every request keeps the tables well-formed\<close>

lemma wf_login: "wf_auth d \<Longrightarrow> wf_auth (snd (login e c r body d))"
proof (cases "AuthEnabled c"; cases body)
  fix x assume w: "wf_auth d" and a: "AuthEnabled c" "body = Some x"
  obtain u p where x: "x = (u, p)" by fastforce
  obtain res d' where L: "Login e c (ClientIP c r) (TrimSpace u) p (rq_ua r) d = (res, d')" by fastforce
  have "wf_auth d'" using wf_Login [OF w, of e c "ClientIP c r" "TrimSpace u" p "rq_ua r"] L by simp
  with a x L show ?thesis by (simp add: login_def split: sum.splits login_error.splits)
qed (simp_all add: login_def)

lemma wf_logout: "wf_auth d \<Longrightarrow> wf_auth (snd (logout e c r d))"
  by (simp add: logout_def wf_DeleteSession)

lemma wf_changePassword: "wf_auth d \<Longrightarrow> wf_auth (snd (changePassword e c r u body d))"
  using wf_SetPassword [of d e]
  by (auto simp: changePassword_def split: option.splits prod.splits sum.splits
      intro!: wf_DeleteUserSessions; metis snd_conv)

lemma wf_createUser: "wf_auth d \<Longrightarrow> wf_auth (snd (createUser e body d))"
  using wf_CreateUser [of d e]
  by (auto simp: createUser_def Let_def split: option.splits prod.splits sum.splits; metis snd_conv)

lemma snd_action_reply [table_simps]: "snd (action_reply e i rd) = snd rd"
  by (cases rd) (simp add: action_reply_def split: sum.split)

lemma userAction_state:
  "snd (userAction e u it a body d) = d \<or>
   (\<exists>i. Atoi it = Some i \<and> (\<forall>m. u = Some m \<longrightarrow> ID m \<noteq> i) \<and> snd (userAction e u it a body d) = snd (SetUserDisabled e i True d)) \<or>
   (\<exists>i. snd (userAction e u it a body d) = snd (SetUserDisabled e i False d)) \<or>
   (\<exists>i h. snd (userAction e u it a body d) = snd (ResetUserPassword e i h d))"
  by (auto simp: userAction_def Let_def table_simps split: option.split sum.split)

lemma wf_userAction: "wf_auth d \<Longrightarrow> wf_auth (snd (userAction e u it a body d))"
  using userAction_state [of e u it a body d] by (auto simp: wf_statements)

lemma deleteUser_state:
  "snd (deleteUser e u it d) = d \<or>
   (\<exists>i. Atoi it = Some i \<and> (\<forall>m. u = Some m \<longrightarrow> ID m \<noteq> i) \<and> snd (deleteUser e u it d) = snd (DeleteUser e i d))"
  by (cases "Atoi it")
    (auto simp: deleteUser_def split: option.splits sum.splits prod.splits)

lemma wf_deleteUser: "wf_auth d \<Longrightarrow> wf_auth (snd (deleteUser e u it d))"
  using deleteUser_state [of e u it d] by (auto simp: wf_statements)

lemma addIPRule_state:
  "snd (addIPRule e body d) = d \<or>
   (\<exists>p a n. (a = ''allow'' \<or> a = ''deny'') \<and> snd (addIPRule e body d) = snd (UpsertIPRule e p a ''manual'' n None d))"
proof (cases body)
  case None
  then show ?thesis by (simp add: addIPRule_def)
next
  case (Some x)
  obtain net a nt where x: "x = (net, a, nt)" by (cases x)
  show ?thesis
  proof (cases "(a = ''allow'' \<or> a = ''deny'') \<and> (\<exists>p. normalizeCIDR net = Inr p)")
    case True
    then obtain p where p: "normalizeCIDR net = Inr p" and a: "a = ''allow'' \<or> a = ''deny''" by blast
    have "snd (addIPRule e body d) = snd (UpsertIPRule e p a ''manual'' (nilIfEmpty nt) None d)"
      using a by (auto simp: addIPRule_def Some x p split: prod.split sum.split)
    with a show ?thesis by blast
  next
    case False
    then have "snd (addIPRule e body d) = d"
      by (auto simp: addIPRule_def Some x split: sum.split)
    then show ?thesis ..
  qed
qed

lemma deleteIPRule_state:
  "snd (deleteIPRule e q d) = d \<or> (\<exists>p. snd (deleteIPRule e q d) = snd (DeleteIPRule e p d))"
proof (cases "normalizeCIDR q")
  case (Inr p)
  then have "snd (deleteIPRule e q d) = snd (DeleteIPRule e p d)"
    by (simp add: deleteIPRule_def split: prod.split sum.split)
  then show ?thesis by blast
qed (simp add: deleteIPRule_def)

lemma wf_dispatch: "wf_auth d \<Longrightarrow> wf_auth (snd (dispatch e c r u k d))"
  using addIPRule_state [of e _ d] deleteIPRule_state [of e _ d]
  by (cases k)
    (auto simp: dispatch_def wf_login wf_logout wf_changePassword wf_createUser wf_userAction
      wf_deleteUser; metis wf_statements)+

lemma Middleware_state: "snd (Middleware e c r d) = d \<or> snd (Middleware e c r d) = snd (SessionUser e (Token r) d)"
  by (auto simp: Middleware_def Let_def split: option.split prod.split sum.split)

lemma wf_Middleware: "wf_auth d \<Longrightarrow> wf_auth (snd (Middleware e c r d))"
  using Middleware_state [of e c r d] by (auto simp: wf_SessionUser)

lemma wf_serve: "wf_auth d \<Longrightarrow> wf_auth (snd (serve e c r k d))"
proof -
  assume w: "wf_auth d"
  let ?r = "r\<lparr>rq_path := route k\<rparr>"
  obtain g d' where M: "Middleware e c ?r d = (g, d')" by fastforce
  then have "wf_auth d'" using wf_Middleware [OF w, of e c ?r] by simp
  with M show ?thesis
    by (cases g) (simp_all add: serve_def Let_def wf_dispatch)
qed

section \<open>An administrator is always left\<close>

lemma has_admin_login: "has_admin d \<Longrightarrow> has_admin (snd (login e c r body d))"
proof (cases "AuthEnabled c"; cases body)
  fix x assume w: "has_admin d" and a: "AuthEnabled c" "body = Some x"
  obtain u p where x: "x = (u, p)" by fastforce
  obtain res d' where L: "Login e c (ClientIP c r) (TrimSpace u) p (rq_ua r) d = (res, d')" by fastforce
  have "has_admin d'"
    using has_admin_Login [OF w, of e c "ClientIP c r" "TrimSpace u" p "rq_ua r"] L by simp
  with a x L show ?thesis by (simp add: login_def split: sum.splits login_error.splits)
qed (simp_all add: login_def)

lemma has_admin_changePassword: "has_admin d \<Longrightarrow> has_admin (snd (changePassword e c r u body d))"
  using has_admin_SetPassword [of d e]
  by (auto simp: changePassword_def has_admin_def table_simps split: option.splits prod.splits sum.splits;
      metis snd_conv)

lemma has_admin_createUser: "has_admin d \<Longrightarrow> has_admin (snd (createUser e body d))"
  using has_admin_CreateUser [of d e]
  by (auto simp: createUser_def Let_def split: option.splits prod.splits sum.splits; metis snd_conv)

text \<open>The administrator who acts is enabled and cannot remove itself, so it is left.\<close>

lemma has_admin_dispatch:
  assumes h: "has_admin d"
    and u: "admin_route k \<Longrightarrow> \<exists>m. u = Some m \<and> m \<in> set (users d) \<and> IsAdmin m \<and> \<not> Disabled m"
  shows "has_admin (snd (dispatch e c r u k d))"
proof (cases k)
  case (CUserAction it a body)
  with u obtain m where m: "u = Some m" "m \<in> set (users d)" "IsAdmin m" "\<not> Disabled m"
    by (auto simp: admin_route_def)
  with userAction_state [of e u it a body d] h show ?thesis
    by (auto simp: dispatch_def CUserAction has_admin_enable has_admin_ResetUserPassword intro: has_admin_other)
next
  case (CDeleteUser it)
  with u obtain m where m: "u = Some m" "m \<in> set (users d)" "IsAdmin m" "\<not> Disabled m"
    by (auto simp: admin_route_def)
  with deleteUser_state [of e u it d] h show ?thesis
    by (auto simp: dispatch_def CDeleteUser intro: has_admin_other)
next
  case (CAddIPRule body)
  with addIPRule_state [of e body d] h show ?thesis
    by (auto simp: dispatch_def has_admin_def table_simps)
next
  case (CDeleteIPRule q)
  with deleteIPRule_state [of e q d] h show ?thesis
    by (auto simp: dispatch_def has_admin_def table_simps)
next
  case CLogout
  with h show ?thesis by (simp add: dispatch_def logout_def has_admin_def table_simps)
qed (use h in \<open>simp_all add: dispatch_def has_admin_login has_admin_changePassword has_admin_createUser\<close>)

lemma Middleware_user:
  assumes "Middleware e c r d = (Pass (Some u), d')" and "AuthEnabled c"
  shows "u \<in> set (users d) \<and> \<not> Disabled u \<and> users d' = users d"
proof -
  from assms have su: "SessionUser e (Token r) d = (Inr (Some u), d')"
    by (auto simp: Middleware_def Let_def split: option.splits prod.splits sum.splits if_splits)
  then have "session_user (now_of e) (Token r) d = Some u"
    by (auto simp: SessionUser_def db_read_def split: if_splits option.splits)
  moreover have "users d' = users d" using su by (metis users_frame(2) snd_conv)
  ultimately show ?thesis using session_user_sound by blast
qed

lemma has_admin_serve:
  assumes "AuthEnabled c" "has_admin d"
  shows "has_admin (snd (serve e c r k d))"
proof -
  let ?r = "r\<lparr>rq_path := route k\<rparr>"
  obtain g d' where M: "Middleware e c ?r d = (g, d')" by fastforce
  have us: "users d' = users d"
    using Middleware_state [of e c ?r d] M by (auto simp: table_simps)
  then have h: "has_admin d'" using assms(2) by (simp add: has_admin_def)
  show ?thesis
  proof (cases g)
    case (Pass uo)
    show ?thesis
    proof (cases "admin_route k \<and> \<not> RequireAdmin c uo")
      case True
      with M Pass h show ?thesis by (simp add: serve_def Let_def)
    next
      case False
      have "\<exists>m. uo = Some m \<and> m \<in> set (users d') \<and> IsAdmin m \<and> \<not> Disabled m" if "admin_route k"
        using False that assms(1) M Pass us Middleware_user [of e c ?r d _ d']
        by (auto simp: RequireAdmin_def split: option.splits)
      with h have "has_admin (snd (dispatch e c ?r uo k d'))" by (rule has_admin_dispatch)
      with M Pass False h show ?thesis by (auto simp: serve_def Let_def)
    qed
  qed (use M h in \<open>simp add: serve_def Let_def\<close>)
qed

text \<open>The server as a machine driven by requests.\<close>

definition serve_step ::
  "Config \<Rightarrow> auth_db \<Rightarrow> auth_env \<times> request \<times> call \<Rightarrow> auth_db" where
  "serve_step c d ev = (case ev of (e, r, k) \<Rightarrow> snd (serve e c r k d))"

interpretation tables: machine "serve_step c" wf_auth for c
  by unfold_locales (auto simp: serve_step_def wf_serve split: prod.split)

text \<open>With authentication on, a well-formed table with an administrator stays so.\<close>

definition administrable :: "Config \<Rightarrow> auth_db \<Rightarrow> bool" where
  "administrable c d \<longleftrightarrow> (AuthEnabled c \<longrightarrow> has_admin d)"

interpretation admins: machine "serve_step c" "administrable c" for c
  by unfold_locales (auto simp: serve_step_def administrable_def has_admin_serve split: prod.split)

section \<open>Properties\<close>

text \<open>C4: No lockout of the operators. With authentication on, no sequence of requests, faults
  included, ever leaves the system without an enabled administrator once it has one.\<close>

theorem administrator_always_left:
  assumes "AuthEnabled c" "has_admin d"
  shows "has_admin (foldl (serve_step c) d evs)"
  using admins.run_inv [of c d evs] assms by (simp add: administrable_def)

lemma has_admin_sample [simp]: "has_admin sample_db"
  by (simp add: has_admin_def sample_db_def sample_user_def)

theorem administrator_always_left_witness:
  "has_admin (foldl (serve_step sample_config) (sample_db\<lparr>sessions := [sample_session]\<rparr>)
     [(sample_env 1 ''a'', sample_request, CDeleteUser ''1''),
      (sample_env 2 ''b'', sample_request, CUserAction ''1'' ''disable'' None)])"
proof (rule administrator_always_left)
  show "has_admin (sample_db\<lparr>sessions := [sample_session]\<rparr>)"
    by (simp add: has_admin_def sample_db_def sample_user_def)
qed simp

text \<open>A password change that succeeds without faults stores the new hash, clears the pending
  flag and revokes every session of the account but the one that asked.\<close>

theorem password_change_revokes_sessions:
  assumes ok: "\<forall>k. \<not> fault e k" and C: "changePassword e c r (Some u) (Some (cur, new)) d = (Json 200 VOk, d')"
  shows "(\<exists>h. gen_hash e new = Some h \<and>
           (\<forall>x \<in> set (users d'). ID x = ID u \<longrightarrow> PasswordHash x = h \<and> \<not> MustChangePassword x)) \<and>
         (\<forall>s \<in> set (sessions d'). s_user s = ID u \<longrightarrow> s_token s = Token r) \<and>
         8 \<le> length new \<and> length new \<le> 200"
proof -
  from C ok obtain full h where v: "validPassword new = None" and h: "gen_hash e new = Some h"
    and d': "d' = DeleteUserSessions e (ID u) (Token r) (snd (SetPassword e (ID u) h d))"
    by (auto simp: changePassword_def HashPassword_def GetUser_def SetPassword_def
        split: option.splits sum.splits if_splits dberr.splits)
  have "\<forall>x \<in> set (users d'). ID x = ID u \<longrightarrow> PasswordHash x = h \<and> \<not> MustChangePassword x"
    using ok by (auto simp: d' DeleteUserSessions_def SetPassword_def map_user_def)
  moreover have "\<forall>s \<in> set (sessions d'). s_user s = ID u \<longrightarrow> s_token s = Token r"
    using ok by (auto simp: d' DeleteUserSessions_def)
  ultimately show ?thesis
    using h v by (auto simp: validPassword_def split: if_splits)
qed

theorem password_change_revokes_sessions_witness:
  "list_all (\<lambda>s. s_user s = 1 \<longrightarrow> s_token s = ''tok'')
     (sessions (snd (changePassword (sample_env 5 []) sample_config sample_request (Some sample_user)
      (Some (''secret99'', ''new-secret''))
      (sample_db\<lparr>sessions := [sample_session, sample_session\<lparr>s_token := ''other''\<rparr>]\<rparr>))))"
proof -
  let ?d = "sample_db\<lparr>sessions := [sample_session, sample_session\<lparr>s_token := ''other''\<rparr>]\<rparr>"
  obtain d' where C: "changePassword (sample_env 5 []) sample_config sample_request (Some sample_user)
      (Some (''secret99'', ''new-secret'')) ?d = (Json 200 VOk, d')"
    by (simp add: changePassword_def GetUser_def find_user_def sample_db_def sample_user_def
        validPassword_def HashPassword_def SetPassword_def)
  show ?thesis
    using password_change_revokes_sessions [OF _ C] C
    by (simp add: sample_user_def sample_request_def Token_def list_all_iff)
qed

text \<open>\<open>validPassword\<close> accepts up to 200 bytes, but bcrypt refuses more than 72: creating an
  account with such a password answers 500 and creates nothing.\<close>

theorem long_password_is_accepted_then_fails:
  assumes bcrypt: "\<forall>pw. length pw > 72 \<longrightarrow> gen_hash e pw = None"
    and len: "72 < length pw" "length pw \<le> 200"
    and name: "TrimSpace n \<noteq> []" "length (TrimSpace n) \<le> 64"
    and new: "find_user (\<lambda>u. Username u = TrimSpace n) d = None"
  shows "validPassword pw = None \<and> (\<exists>m. createUser e (Some (n, pw, adm)) d = (ErrMsg 500 m, d))"
proof -
  have v: "validPassword pw = None" using len by (auto simp: validPassword_def)
  have l: "\<not> length (TrimSpace n) < 1" using name(1) by (cases "TrimSpace n") auto
  have g: "(case GetUserByName e (TrimSpace n) d of Inr (Some _) \<Rightarrow> True | _ \<Rightarrow> False) = False"
    using new by (auto simp: GetUserByName_def db_read_def)
  show ?thesis
    using v l g bcrypt len name by (auto simp: createUser_def Let_def HashPassword_def fail_def)
qed

theorem long_password_is_accepted_then_fails_witness:
  "\<exists>m. createUser (sample_env 1 []) (Some (''bob'', replicate 80 CHR ''x'', False)) sample_db
     = (ErrMsg 500 m, sample_db)"
proof -
  have n: "TrimSpace ''bob'' = ''bob''" by (simp add: TrimSpace_def is_space_def)
  have "find_user (\<lambda>u. Username u = ''bob'') sample_db = None"
    by (simp add: find_user_def sample_db_def sample_user_def)
  then show ?thesis
    using long_password_is_accepted_then_fails [of "sample_env 1 []" "replicate 80 CHR ''x''" "''bob''" sample_db False]
    by (simp add: n)
qed

end
