(* ===== verification/LoginSteps.thy ===== *)
theory LoginSteps
  imports Auth
begin

text \<open>
  \<open>Login\<close> (\<open>internal/auth/auth.go\<close>) as the sequence of database statements it issues. Requests run
  in parallel goroutines, and the count of recent failures, the comparison of the password and the
  record of the attempt are separate steps between which other requests run. \<open>login_next\<close> performs
  one step of a call; a system is a list of calls, each with its position, and the tables they
  share. The section on a call alone relates the steps to \<open>Auth.Login\<close>.
\<close>

section \<open>One call\<close>

record login_call =
  lc_ip :: "addr option"
  lc_user :: string
  lc_pw :: string
  lc_ua :: string

text \<open>Where a call stands: what it does next, with the local variables it still needs.\<close>

datatype login_pc =
    AtGate
  | AtBlock addr
  | AtRecordLocked
  | AtLookup
  | AtCompare "User option"
  | AtRecordBad
  | AtCount
  | AtLock addr
  | AtRecordDisabled
  | AtSession User
  | AtRecordOk User string
  | AtRecordLogin User string
  | Returned "login_error + LoginResult"

definition attempt :: "auth_env \<Rightarrow> login_call \<Rightarrow> bool \<Rightarrow> string \<Rightarrow> auth_db \<Rightarrow> auth_db" where
  "attempt e k ok reason d = RecordAttempt e (lc_ip k) (lc_user k) ok reason (lc_ua k) d"

fun login_next :: "auth_env \<Rightarrow> Config \<Rightarrow> login_call \<Rightarrow> login_pc \<Rightarrow> auth_db \<Rightarrow> login_pc \<times> auth_db" where
  "login_next e c k AtGate d =
     (case lc_ip k of None \<Rightarrow> (AtLookup, d)
      | Some a \<Rightarrow>
          (case RecentFailures e (Some a) (LoginWindow c) d of
             Inl err \<Rightarrow> (Returned (Inl (LoginDb err)), d)
           | Inr fails \<Rightarrow> (if fails \<ge> LoginMaxFailures c then AtBlock a else AtLookup, d)))"
| "login_next e c k (AtBlock a) d = (AtRecordLocked, AutoBlock e a (LoginLockout c) d)"
| "login_next e c k AtRecordLocked d =
     (Returned (Inl (ErrLockedOut (LoginLockout c))), attempt e k False ''locked_out'' d)"
| "login_next e c k AtLookup d =
     (case GetUserByName e (lc_user k) d of
        Inl err \<Rightarrow> (Returned (Inl (LoginDb err)), d)
      | Inr user \<Rightarrow> (AtCompare user, d))"
| "login_next e c k (AtCompare user) d =
     (let hash = (case user of None \<Rightarrow> dummyHash e | Some u \<Rightarrow> PasswordHash u);
          pwOk = cmp_hash e hash (lc_pw k) in
      case user of
        None \<Rightarrow> (AtRecordBad, d)
      | Some u \<Rightarrow> (if \<not> pwOk then AtRecordBad else if Disabled u then AtRecordDisabled else AtSession u, d))"
| "login_next e c k AtRecordBad d = (AtCount, attempt e k False ''bad_credentials'' d)"
| "login_next e c k AtCount d =
     (case lc_ip k of None \<Rightarrow> (Returned (Inl ErrInvalidCredentials), d)
      | Some a \<Rightarrow>
          (case RecentFailures e (Some a) (LoginWindow c) d of
             Inl err \<Rightarrow> (Returned (Inl ErrInvalidCredentials), d)
           | Inr fails \<Rightarrow>
               (if fails \<ge> LoginMaxFailures c then AtLock a else Returned (Inl ErrInvalidCredentials), d)))"
| "login_next e c k (AtLock a) d = (Returned (Inl ErrInvalidCredentials), AutoBlock e a (LoginLockout c) d)"
| "login_next e c k AtRecordDisabled d = (Returned (Inl ErrDisabled), attempt e k False ''disabled'' d)"
| "login_next e c k (AtSession u) d =
     (case CreateSession e (rand_token e) (ID u) (SessionTTL c) (lc_ip k) (lc_ua k) d of
        (Inl err, d') \<Rightarrow> (Returned (Inl (LoginDb err)), d')
      | (Inr _, d') \<Rightarrow> (AtRecordOk u (rand_token e), d'))"
| "login_next e c k (AtRecordOk u tok) d = (AtRecordLogin u tok, attempt e k True [] d)"
| "login_next e c k (AtRecordLogin u tok) d =
     (Returned (Inr \<lparr>lr_user = u, lr_token = tok\<rparr>), RecordLogin e (ID u) (lc_ip k) d)"
| "login_next e c k (Returned r) d = (Returned r, d)"

primrec login_iter :: "nat \<Rightarrow> auth_env \<Rightarrow> Config \<Rightarrow> login_call \<Rightarrow> login_pc \<times> auth_db \<Rightarrow> login_pc \<times> auth_db" where
  "login_iter 0 e c k s = s"
| "login_iter (Suc n) e c k s = login_iter n e c k (login_next e c k (fst s) (snd s))"

section \<open>Several calls\<close>

type_synonym login_sys = "(login_call \<times> login_pc) list \<times> auth_db"

text \<open>A request arrives, a call takes its next step (at an instant, with the faults of that
  statement), or something else changes the tables.\<close>

datatype login_act = Arrive login_call | Advance nat auth_env | Elsewhere auth_db

fun login_step :: "Config \<Rightarrow> login_act \<Rightarrow> login_sys \<Rightarrow> login_sys" where
  "login_step c (Arrive k) (ts, d) = (ts @ [(k, AtGate)], d)"
| "login_step c (Advance i e) (ts, d) =
     (if i < length ts then
        (case login_next e c (fst (ts ! i)) (snd (ts ! i)) d of
           (pc, d') \<Rightarrow> (ts[i := (fst (ts ! i), pc)], d'))
      else (ts, d))"
| "login_step c (Elsewhere d') (ts, d) = (ts, d')"

fun login_steps :: "Config \<Rightarrow> login_act list \<Rightarrow> login_sys \<Rightarrow> login_sys" where
  "login_steps c [] s = s"
| "login_steps c (x # xs) s = login_steps c xs (login_step c x s)"

text \<open>The calls of an address that passed the gate and have not recorded an outcome yet, and
  those that compared a password without success and have recorded it.\<close>

definition unrecorded :: "addr \<Rightarrow> login_call \<times> login_pc \<Rightarrow> bool" where
  "unrecorded a t \<longleftrightarrow> lc_ip (fst t) = Some a \<and>
     (case snd t of AtLookup \<Rightarrow> True | AtCompare _ \<Rightarrow> True | AtRecordBad \<Rightarrow> True
                  | AtRecordDisabled \<Rightarrow> True | _ \<Rightarrow> False)"

definition refused :: "addr \<Rightarrow> login_call \<times> login_pc \<Rightarrow> bool" where
  "refused a t \<longleftrightarrow> lc_ip (fst t) = Some a \<and>
     (case snd t of AtCount \<Rightarrow> True | AtLock _ \<Rightarrow> True | Returned (Inl ErrInvalidCredentials) \<Rightarrow> True
                  | Returned (Inl ErrDisabled) \<Rightarrow> True | _ \<Rightarrow> False)"

text \<open>A guess is a call that compared a password and will not open a session, recorded or not.\<close>

definition is_guess :: "addr \<Rightarrow> login_call \<times> login_pc \<Rightarrow> bool" where
  "is_guess a t \<longleftrightarrow> refused a t \<or> lc_ip (fst t) = Some a \<and> snd t \<in> {AtRecordBad, AtRecordDisabled}"

definition count_of :: "('t \<Rightarrow> bool) \<Rightarrow> 't list \<times> 'd \<Rightarrow> nat" where
  "count_of P s = length (filter P (fst s))"

definition guesses :: "addr \<Rightarrow> login_sys \<Rightarrow> nat" where
  "guesses a s = count_of (is_guess a) s"

text \<open>The largest number of calls of an address between gate and record at any moment of a run.\<close>

fun peak :: "Config \<Rightarrow> addr \<Rightarrow> login_act list \<Rightarrow> login_sys \<Rightarrow> nat" where
  "peak c a [] s = count_of (unrecorded a) s"
| "peak c a (x # xs) s = max (count_of (unrecorded a) s) (peak c a xs (login_step c x s))"

text \<open>A run within one window: no statement fails, the texts of the calls can be stored, and
  nothing else removes the failures of the address recorded since the start.\<close>

fun calm :: "Config \<Rightarrow> instant \<Rightarrow> addr \<Rightarrow> login_act list \<Rightarrow> login_sys \<Rightarrow> bool" where
  "calm c start a [] s \<longleftrightarrow> True"
| "calm c start a (x # xs) s \<longleftrightarrow>
     (case x of
        Arrive k \<Rightarrow> clean_utf8 (lc_user k) \<and> clean_utf8 (lc_ua k)
      | Advance i e \<Rightarrow> (\<forall>q. \<not> fault e q) \<and> start \<le> now_of e \<and> now_of e - LoginWindow c < start
      | Elsewhere d' \<Rightarrow> fails_from start a (snd s) \<le> fails_from start a d') \<and>
     calm c start a xs (login_step c x s)"

section \<open>A call alone\<close>

lemma login_iter_Login:
  "login_iter 6 e c k (AtGate, d) =
     (Returned (fst (Login e c (lc_ip k) (lc_user k) (lc_pw k) (lc_ua k) d)),
      snd (Login e c (lc_ip k) (lc_user k) (lc_pw k) (lc_ua k) d))"
proof -
  have six: "login_iter 6 e c k s = login_iter (Suc (Suc (Suc (Suc (Suc (Suc 0)))))) e c k s" for s
    by (simp add: numeral_eq_Suc)
  show ?thesis
  proof (cases "login_gate e c (lc_ip k) (lc_user k) (lc_ua k) d")
    case None
    then have gate: "login_next e c k AtGate d = (AtLookup, d)"
      by (auto simp: login_gate_def split: option.splits sum.splits if_splits)
    note login_next.simps(1) [simp del]
    show ?thesis
    proof (cases "GetUserByName e (lc_user k) d")
      case (Inl err)
      then show ?thesis by (simp add: six gate None Login_def)
    next
      case (Inr uo)
      have bad: "login_iter 3 e c k (AtRecordBad, d) =
          (Returned (Inl ErrInvalidCredentials),
           maybeLock e c (lc_ip k) (RecordAttempt e (lc_ip k) (lc_user k) False ''bad_credentials'' (lc_ua k) d))"
        by (cases "lc_ip k") (simp_all add: numeral_eq_Suc attempt_def maybeLock_def split: sum.split)
      have three: "login_iter 3 e c k s = login_iter (Suc (Suc (Suc 0))) e c k s" for s
        by (simp add: numeral_eq_Suc)
      show ?thesis
      proof (cases "\<exists>u. uo = Some u \<and> cmp_hash e (PasswordHash u) (lc_pw k)")
        case True
        then obtain u where u: "uo = Some u" "cmp_hash e (PasswordHash u) (lc_pw k)" by blast
        obtain r d' where "CreateSession e (rand_token e) (ID u) (SessionTTL c) (lc_ip k) (lc_ua k) d = (r, d')"
          by fastforce
        with u Inr None gate show ?thesis
          by (cases r) (simp_all add: six Login_def attempt_def)
      next
        case False
        with Inr None gate bad show ?thesis
          by (cases uo) (simp_all add: six three Login_def)
      qed
    qed
  next
    case (Some x)
    then show ?thesis
      by (cases x)
        (auto simp: six Login_def login_gate_def attempt_def split: option.splits sum.splits if_splits)
  qed
qed

lemma login_steps_iter:
  "login_steps c (replicate n (Advance (length ts) e)) (ts @ [(k, pc)], d) =
     (ts @ [(k, fst (login_iter n e c k (pc, d)))], snd (login_iter n e c k (pc, d)))"
proof (induction n arbitrary: pc d)
  case (Suc n)
  obtain pc' d' where nx: "login_next e c k pc d = (pc', d')" by fastforce
  with Suc.IH [of pc' d'] show ?case by (simp add: nx)
qed simp

section \<open>Counting\<close>

lemma count_update:
  "i < length ts \<Longrightarrow> length (filter P (ts[i := x])) + (if P (ts ! i) then 1 else 0) =
     length (filter P ts) + (if P x then 1 else 0)"
proof (induction ts arbitrary: i)
  case (Cons t ts)
  then show ?case by (cases i) auto
qed simp

lemma refused_not_unrecorded: "refused a t \<Longrightarrow> \<not> unrecorded a t"
  by (auto simp: refused_def unrecorded_def split: login_pc.splits)

lemma guesses_le: "guesses a s \<le> count_of (refused a) s + count_of (unrecorded a) s"
proof -
  have "is_guess a t \<Longrightarrow> refused a t \<or> unrecorded a t" for t
    by (auto simp: is_guess_def unrecorded_def)
  then have "length (filter (is_guess a) ts) \<le> length (filter (refused a) ts) + length (filter (unrecorded a) ts)" for ts
    by (induction ts) auto
  then show ?thesis by (simp add: guesses_def count_of_def)
qed

text \<open>What one step of a call does to the failures of the address and to its own position.\<close>

lemma next_frame:
  assumes e: "\<forall>q. \<not> fault e q" "start \<le> now_of e" and k: "clean_utf8 (lc_user k)" "clean_utf8 (lc_ua k)"
    and nx: "login_next e c k pc d = (pc', d')"
  shows "refused a (k, pc) \<longrightarrow> refused a (k, pc')"
    and "fails_from start a d + (if refused a (k, pc') \<and> \<not> refused a (k, pc) then 1 else 0) \<le> fails_from start a d'"
proof -
  have rec: "fails_from start a (attempt e k ok r d) =
      fails_from start a d + (if lc_ip k = Some a \<and> \<not> ok then 1 else 0)" for ok r
    using e k by (simp add: attempt_def fails_from_RecordAttempt)
  show "refused a (k, pc) \<longrightarrow> refused a (k, pc')"
    using nx by (cases pc) (auto simp: refused_def split: option.splits sum.splits if_splits)
  show "fails_from start a d + (if refused a (k, pc') \<and> \<not> refused a (k, pc) then 1 else 0) \<le> fails_from start a d'"
  proof (cases pc)
    case (AtSession u)
    obtain r1 d1 where cs: "CreateSession e (rand_token e) (ID u) (SessionTTL c) (lc_ip k) (lc_ua k) d = (r1, d1)"
      by fastforce
    then have "fails_from start a d1 = fails_from start a d"
      by (metis fails_from_CreateSession snd_conv)
    with AtSession cs nx show ?thesis by (auto simp: refused_def split: sum.splits)
  qed (use nx rec in \<open>auto simp: refused_def Let_def split: option.splits sum.splits if_splits login_error.splits\<close>)
qed

text \<open>A call is newly counted only by passing the gate, below the limit.\<close>

lemma next_counted:
  assumes e: "\<forall>q. \<not> fault e q" "now_of e - LoginWindow c < start"
    and nx: "login_next e c k pc d = (pc', d')"
    and new: "refused a (k, pc') \<or> unrecorded a (k, pc')" "\<not> (refused a (k, pc) \<or> unrecorded a (k, pc))"
  shows "unrecorded a (k, pc') \<and> int (fails_from start a d) < LoginMaxFailures c"
proof (cases pc)
  case AtGate
  have "fails_from start a d \<le> failures_since (now_of e - LoginWindow c) a d"
    by (rule fails_from_le) (use e in simp)
  with AtGate nx new e show ?thesis
    by (auto simp: refused_def unrecorded_def RecentFailures_def split: option.splits if_splits)
qed (use nx new in \<open>auto simp: refused_def unrecorded_def Let_def split: option.splits sum.splits prod.splits if_splits\<close>)

section \<open>The bound\<close>

text \<open>Between two moments at which at most \<open>m\<close> calls are past the gate, the recorded and
  unrecorded ones together stay below the limit plus \<open>m\<close>.\<close>

definition bounded :: "Config \<Rightarrow> instant \<Rightarrow> addr \<Rightarrow> nat \<Rightarrow> login_sys \<Rightarrow> bool" where
  "bounded c start a m s \<longleftrightarrow>
     (\<forall>t \<in> set (fst s). clean_utf8 (lc_user (fst t)) \<and> clean_utf8 (lc_ua (fst t))) \<and>
     count_of (refused a) s \<le> fails_from start a (snd s) \<and>
     (count_of (refused a) s + count_of (unrecorded a) s = 0 \<or>
      int (count_of (refused a) s + count_of (unrecorded a) s) < LoginMaxFailures c + int m)"

lemma bounded_advance:
  assumes inv: "bounded c start a m (ts, d)"
    and e: "\<forall>q. \<not> fault e q" "start \<le> now_of e" "now_of e - LoginWindow c < start"
    and m: "count_of (unrecorded a) (login_step c (Advance i e) (ts, d)) \<le> m"
  shows "bounded c start a m (login_step c (Advance i e) (ts, d))"
proof (cases "i < length ts")
  case True
  obtain k pc where t: "ts ! i = (k, pc)" by fastforce
  obtain pc' d' where nx: "login_next e c k pc d = (pc', d')" by fastforce
  have st: "login_step c (Advance i e) (ts, d) = (ts[i := (k, pc')], d')"
    using True by (simp add: t nx)
  have k: "clean_utf8 (lc_user k)" "clean_utf8 (lc_ua k)"
    using inv nth_mem [OF True] by (auto simp: bounded_def t)
  note cu = count_update [OF True, of "refused a" "(k, pc')", unfolded t]
    count_update [OF True, of "unrecorded a" "(k, pc')", unfolded t]
  note fr = next_frame [OF e(1,2) k nx, of a]
  have kept: "\<forall>t \<in> set (ts[i := (k, pc')]). clean_utf8 (lc_user (fst t)) \<and> clean_utf8 (lc_ua (fst t))"
    using inv k set_update_subset_insert [of ts i "(k, pc')"] by (auto simp: bounded_def)
  have recorded: "length (filter (refused a) (ts[i := (k, pc')])) \<le> fails_from start a d'"
    using inv cu(1) fr by (auto simp: bounded_def count_of_def split: if_splits)
  show ?thesis
  proof (cases "(refused a (k, pc') \<or> unrecorded a (k, pc')) \<and> \<not> (refused a (k, pc) \<or> unrecorded a (k, pc))")
    case True
    from next_counted [OF e(1,3) nx] True have "unrecorded a (k, pc')" "int (fails_from start a d) < LoginMaxFailures c"
      by blast+
    with cu(1) True refused_not_unrecorded [of a "(k, pc')"] inv
    have "int (length (filter (refused a) (ts[i := (k, pc')]))) < LoginMaxFailures c"
      by (auto simp: bounded_def count_of_def)
    with m recorded kept show ?thesis unfolding st by (simp add: bounded_def count_of_def)
  next
    case False
    have disj: "\<not> (refused a (k, x) \<and> unrecorded a (k, x))" for x
      using refused_not_unrecorded by blast
    have "length (filter (refused a) (ts[i := (k, pc')])) + length (filter (unrecorded a) (ts[i := (k, pc')])) \<le>
        length (filter (refused a) ts) + length (filter (unrecorded a) ts)"
      using cu disj [of pc'] disj [of pc] False
      by (cases "refused a (k, pc)"; cases "unrecorded a (k, pc)"; cases "refused a (k, pc')";
          cases "unrecorded a (k, pc')") simp_all
    then have le: "count_of (refused a) (ts[i := (k, pc')], d') + count_of (unrecorded a) (ts[i := (k, pc')], d') \<le>
        count_of (refused a) (ts, d) + count_of (unrecorded a) (ts, d)"
      by (simp add: count_of_def)
    have "count_of (refused a) (ts, d) + count_of (unrecorded a) (ts, d) = 0 \<or>
        int (count_of (refused a) (ts, d) + count_of (unrecorded a) (ts, d)) < LoginMaxFailures c + int m"
      using inv by (simp add: bounded_def)
    with le have "count_of (refused a) (ts[i := (k, pc')], d') + count_of (unrecorded a) (ts[i := (k, pc')], d') = 0 \<or>
        int (count_of (refused a) (ts[i := (k, pc')], d') + count_of (unrecorded a) (ts[i := (k, pc')], d'))
          < LoginMaxFailures c + int m"
      by linarith
    with recorded kept show ?thesis unfolding st bounded_def by (simp add: count_of_def)
  qed
qed (use inv in simp)

lemma bounded_step:
  assumes inv: "bounded c start a m s" and x: "calm c start a (x # xs) s"
    and m: "count_of (unrecorded a) (login_step c x s) \<le> m"
  shows "bounded c start a m (login_step c x s)"
proof -
  obtain ts d where s: "s = (ts, d)" by fastforce
  show ?thesis
  proof (cases x)
    case (Advance i e)
    then show ?thesis using bounded_advance [of c start a m ts d e i] inv x m by (simp add: s)
  next
    case (Arrive k)
    with inv x show ?thesis by (auto simp: s bounded_def count_of_def refused_def unrecorded_def)
  next
    case (Elsewhere d')
    with inv x show ?thesis by (auto simp: s bounded_def count_of_def)
  qed
qed

lemma bounded_run:
  "bounded c start a m s \<Longrightarrow> calm c start a xs s \<Longrightarrow> peak c a xs s \<le> m \<Longrightarrow> bounded c start a m (login_steps c xs s)"
proof (induction xs arbitrary: s)
  case (Cons x xs)
  have "count_of (unrecorded a) (login_step c x s) \<le> peak c a xs (login_step c x s)"
    by (cases xs) simp_all
  with Cons.prems have "bounded c start a m (login_step c x s)"
    by (intro bounded_step [OF _ Cons.prems(2)]) auto
  with Cons show ?case by simp
qed simp

section \<open>Properties\<close>

text \<open>C2: Brute-force bound. Requests arrive, their calls of \<open>Login\<close> take their statements in any
  interleaving, from any addresses and for any accounts, and anything else may change the tables as
  long as it removes no failure of the window. Without failing statements, with texts the database
  stores, and within one window of \<open>LoginWindow\<close>, the calls of one address that compare a password
  and do not open a session number at most \<open>LoginMaxFailures\<close>, plus one less than the largest
  number of its calls that were past the gate at the same moment without having recorded their
  attempt; calls that follow one another get exactly \<open>LoginMaxFailures\<close>.\<close>

theorem brute_force_bound:
  assumes "calm c start a xs ([], d)"
  shows "guesses a (login_steps c xs ([], d)) \<le> nat (LoginMaxFailures c) + (peak c a xs ([], d) - 1)"
proof -
  have "bounded c start a (peak c a xs ([], d)) ([], d)"
    by (simp add: bounded_def count_of_def)
  then have "bounded c start a (peak c a xs ([], d)) (login_steps c xs ([], d))"
    by (rule bounded_run) (use assms in simp_all)
  with guesses_le [of a "login_steps c xs ([], d)"] show ?thesis
    by (auto simp: bounded_def)
qed

definition sample_call :: "string \<Rightarrow> login_call" where
  "sample_call pw = \<lparr>lc_ip = Some (v4 10 0 0 9), lc_user = ''admin'', lc_pw = pw, lc_ua = []\<rparr>"

definition steps_of :: "nat \<Rightarrow> login_act list" where
  "steps_of i = replicate 6 (Advance i (sample_env 5 ''t''))"

text \<open>Three calls one after another with a limit of two: the third does not reach the comparison.\<close>

theorem brute_force_bound_witness:
  "guesses (v4 10 0 0 9) (login_steps sample_config
     ([Arrive (sample_call ''x''), Arrive (sample_call ''y''), Arrive (sample_call ''z'')] @ steps_of 0 @ steps_of 1 @ steps_of 2)
     ([], sample_db)) \<le> 2 + (1 - 1)"
proof -
  let ?xs = "[Arrive (sample_call ''x''), Arrive (sample_call ''y''), Arrive (sample_call ''z'')]
     @ steps_of 0 @ steps_of 1 @ steps_of 2"
  have calm: "calm sample_config 5 (v4 10 0 0 9) ?xs ([], sample_db)"
    by (simp add: steps_of_def sample_call_def numeral_eq_Suc)
  have "peak sample_config (v4 10 0 0 9) ?xs ([], sample_db) = 1"
    by (simp add: steps_of_def sample_call_def count_of_def unrecorded_def attempt_def RecentFailures_def
        failures_since_def sample_db_def sample_user_def empty_auth_db_def GetUserByName_def find_user_def
        RecordAttempt_def AutoBlock_def numeral_eq_Suc)
  with brute_force_bound [OF calm] show ?thesis by simp
qed

text \<open>\<open>Auth.Login\<close> is a call that no other request interrupts.\<close>

theorem login_is_its_steps:
  "login_steps c (Arrive k # replicate 6 (Advance (length ts) e)) (ts, d) =
     (ts @ [(k, Returned (fst (Login e c (lc_ip k) (lc_user k) (lc_pw k) (lc_ua k) d)))],
      snd (Login e c (lc_ip k) (lc_user k) (lc_pw k) (lc_ua k) d))"
  by (simp only: login_steps.simps login_step.simps login_steps_iter login_iter_Login fst_conv snd_conv)

section \<open>What the limit does not cover\<close>

text \<open>A wrong password: no such account, or its hash does not match.\<close>

definition wrong :: "auth_env \<Rightarrow> login_call \<Rightarrow> auth_db \<Rightarrow> bool" where
  "wrong e k d \<longleftrightarrow> (case find_user (\<lambda>u. Username u = lc_user k) d of None \<Rightarrow> True
                 | Some u \<Rightarrow> \<not> cmp_hash e (PasswordHash u) (lc_pw k))"

definition race :: "auth_env \<Rightarrow> nat \<Rightarrow> nat \<Rightarrow> login_act list" where
  "race e i n = concat (map (\<lambda>j. replicate 3 (Advance j e)) [i..<i + n])"

lemma login_steps_append: "login_steps c (xs @ ys) s = login_steps c ys (login_steps c xs s)"
  by (induction xs arbitrary: s) simp_all

lemma arrivals: "login_steps c (map Arrive ks) (ts, d) = (ts @ map (\<lambda>k. (k, AtGate)) ks, d)"
  by (induction ks arbitrary: ts) simp_all

lemma race_step:
  assumes "\<forall>q. \<not> fault e q" "int (failures_since (now_of e - LoginWindow c) a d) < LoginMaxFailures c"
    and "lc_ip k = Some a" "clean_utf8 (lc_user k)" "wrong e k d"
  shows "login_steps c (replicate 3 (Advance (length ts) e)) (ts @ (k, AtGate) # us, d) =
    (ts @ (k, AtRecordBad) # us, d)"
  using assms
  by (cases "find_user (\<lambda>u. Username u = lc_user k) d")
    (simp_all add: numeral_eq_Suc RecentFailures_def GetUserByName_def wrong_def)

lemma race_run:
  assumes "\<forall>q. \<not> fault e q" "int (failures_since (now_of e - LoginWindow c) a d) < LoginMaxFailures c"
    and "\<forall>k \<in> set ks. lc_ip k = Some a \<and> clean_utf8 (lc_user k) \<and> wrong e k d"
  shows "login_steps c (race e (length ts) (length ks)) (ts @ map (\<lambda>k. (k, AtGate)) ks, d) =
    (ts @ map (\<lambda>k. (k, AtRecordBad)) ks, d)"
  using assms(3)
proof (induction ks arbitrary: ts)
  case Nil
  then show ?case by (simp add: race_def)
next
  case (Cons k ks)
  have "race e (length ts) (length (k # ks)) =
      replicate 3 (Advance (length ts) e) @ race e (length (ts @ [(k, AtRecordBad)])) (length ks)"
    by (simp add: race_def upt_conv_Cons del: upt_Suc)
  with Cons.IH [of "ts @ [(k, AtRecordBad)]"] Cons.prems race_step [OF assms(1,2), of k ts "map (\<lambda>k. (k, AtGate)) ks"]
  show ?case by (simp add: login_steps_append)
qed

text \<open>The bound is reached: any number of requests of one address that pass the gate before the
  first of them records its failure all compare their password, whatever the limit.\<close>

theorem concurrent_logins_share_the_limit:
  assumes "\<forall>q. \<not> fault e q" "int (failures_since (now_of e - LoginWindow c) a d) < LoginMaxFailures c"
    and "\<forall>k \<in> set ks. lc_ip k = Some a \<and> clean_utf8 (lc_user k) \<and> wrong e k d"
  shows "guesses a (login_steps c (map Arrive ks @ race e 0 (length ks)) ([], d)) = length ks"
  using race_run [OF assms(1-3), of "[]"] assms(3)
  by (simp add: login_steps_append arrivals guesses_def count_of_def is_guess_def filter_id_conv)

theorem concurrent_logins_share_the_limit_witness:
  "guesses (v4 10 0 0 9) (login_steps sample_config
     (map Arrive (replicate 50 (sample_call ''x'')) @ race (sample_env 5 ''t'') 0 50) ([], sample_db)) = 50"
  using concurrent_logins_share_the_limit [of "sample_env 5 ''t''" sample_config "v4 10 0 0 9" sample_db
      "replicate 50 (sample_call ''x'')"]
  by (simp add: failures_since_def sample_db_def empty_auth_db_def sample_call_def wrong_def find_user_def
      sample_user_def)

text \<open>C3: A header evades the limit. \<open>RecordAttempt\<close> stores the \<open>User-Agent\<close> header as it came,
  and \<open>Login\<close> drops the error of that statement: when the header is no UTF-8 text, a wrong
  password below the limit is answered as wrong and leaves every table as it was, so that no number
  of such guesses is ever counted; the right password of an enabled account answers with the
  error of the session's insert instead, which tells the two apart.\<close>

theorem unstorable_agent_evades_limit:
  assumes ok: "\<forall>q. \<not> fault e q" and ua: "\<not> clean_utf8 (lc_ua k)" and n: "clean_utf8 (lc_user k)"
    and ip: "lc_ip k = Some a"
    and below: "int (failures_since (now_of e - LoginWindow c) a d) < LoginMaxFailures c"
  shows "Login e c (Some a) (lc_user k) (lc_pw k) (lc_ua k) d =
    (case find_user (\<lambda>u. Username u = lc_user k) d of
       None \<Rightarrow> (Inl ErrInvalidCredentials, d)
     | Some u \<Rightarrow>
         if wrong e k d then (Inl ErrInvalidCredentials, d)
         else if Disabled u then (Inl ErrDisabled, d)
         else (Inl (LoginDb refused_text), d))"
proof -
  have "RecordAttempt e (Some a) (lc_user k) b r (lc_ua k) d = d" for b r
    using ua by (simp add: RecordAttempt_def)
  moreover have "maybeLock e c (Some a) d = d" "login_gate e c (Some a) (lc_user k) (lc_ua k) d = None"
    using ok below by (simp_all add: maybeLock_def login_gate_def RecentFailures_def)
  ultimately show ?thesis
    using ok n ua
    by (auto simp: Login_def Let_def GetUserByName_def wrong_def CreateSession_def split: option.splits)
qed

theorem unstorable_agent_evades_limit_witness:
  "Login (sample_env 5 ''t'') sample_config (Some (v4 10 0 0 9)) ''admin'' ''x'' [CHR 0xFF] sample_db =
     (Inl ErrInvalidCredentials, sample_db) \<and>
   Login (sample_env 5 ''t'') sample_config (Some (v4 10 0 0 9)) ''admin'' ''secret99'' [CHR 0xFF] sample_db =
     (Inl (LoginDb refused_text), sample_db)"
  using unstorable_agent_evades_limit [of "sample_env 5 ''t''" "(sample_call ''x'')\<lparr>lc_ua := [CHR 0xFF]\<rparr>" "v4 10 0 0 9"
      sample_config sample_db]
    unstorable_agent_evades_limit [of "sample_env 5 ''t''" "(sample_call ''secret99'')\<lparr>lc_ua := [CHR 0xFF]\<rparr>" "v4 10 0 0 9"
      sample_config sample_db] cut_character(3)
  by (simp add: failures_since_def sample_db_def empty_auth_db_def sample_call_def wrong_def find_user_def
      sample_user_def)

end
