(* ===== verification/Alerts.thy ===== *)
theory Alerts
  imports NetAddr
begin

text \<open>
  Alerts (\<open>internal/db/alerts.go\<close>, \<open>alert_retention.go\<close>, migration 004): findings are
  deduplicated into alerts with a life cycle open, acked, resolved; at most one alert of a
  dedupe key is live (not resolved), which is the partial unique index of the table. A
  finding's host and peer are texts that the insert casts to \<open>inet\<close>; the cast fails on a text
  that is not an address.
\<close>

section \<open>JSON\<close>

text \<open>JSON values. A number is an integer, a decimal fraction (\<open>JDec m k\<close> is \<open>m / 10 ^ k\<close>) or what a statement
  of the detectors computes: \<open>JRatio m n\<close> stands for \<open>m / n\<close> and \<open>JRoot m n\<close> for the square root of
  \<open>m / n\<close>, before they are rounded to a \<open>float64\<close>. The last two occur only in the details of findings.\<close>

datatype json =
    JNull | JBool bool | JNum int | JDec int nat | JStr string | JArr "json list" | JObj "(string \<times> json) list"
  | JRatio int int | JRoot int int

section \<open>Data\<close>

definition SeverityRank :: "string \<Rightarrow> int" where
  "SeverityRank s =
     (if s = ''critical'' then 3 else if s = ''warning'' then 2 else if s = ''info'' then 1 else 0)"

record Finding =
  f_rule :: string
  f_severity :: string
  f_host :: string
  f_peer :: string
  f_port :: int
  f_title :: string
  f_details :: "(string \<times> json) list"
  f_key :: string

record Alert =
  a_id :: int
  a_rule :: string
  a_severity :: string
  a_host :: "addr option"
  a_peer :: "addr option"
  a_port :: "int option"
  a_title :: string
  a_details :: "(string \<times> json) list"
  a_count :: int
  a_first :: instant
  a_last :: instant
  a_state :: string
  a_acked :: "instant option"
  a_resolved :: "instant option"
  a_notified :: "instant option"
  a_reopened :: "instant option"
  a_key :: string

record Exclusion =
  e_id :: int
  e_pattern :: string
  e_kind :: string
  e_note :: string
  e_created :: instant

record AlertRetention =
  AutoResolveDays :: int
  DeleteResolvedDays :: "(string \<times> int) list"

record alert_db =
  alerts :: "Alert list"
  alert_seq :: int
  exclusions :: "Exclusion list"
  excl_seq :: int
  ip_names :: "(addr \<times> string) list"
  hostnames :: "addr \<rightharpoonup> string"
  nicknames :: "addr \<rightharpoonup> string"
  retention :: "AlertRetention option"

definition empty_alert_db :: alert_db where
  "empty_alert_db = \<lparr>alerts = [], alert_seq = 0, exclusions = [], excl_seq = 0, ip_names = [],
     hostnames = Map.empty, nicknames = Map.empty, retention = None\<rparr>"

definition DedupeKey :: "Finding \<Rightarrow> string" where
  "DedupeKey f =
     Join ([f_rule f, f_host f, f_peer f]
           @ (if f_port f > 0 then [Itoa (f_port f)] else [])
           @ (if f_key f \<noteq> [] then [f_key f] else [])) ''|''"

definition live_alert :: "Alert \<Rightarrow> bool" where
  "live_alert a \<longleftrightarrow> a_state a \<noteq> ''resolved''"

text \<open>The cast \<open>$n::inet\<close> of a text argument that is \<open>NULL\<close> when empty: \<open>None\<close> is the error.\<close>

definition inet_arg :: "string \<Rightarrow> addr option option" where
  "inet_arg s = (if s = [] then Some None
                 else case ParseAddr s of None \<Rightarrow> None
                      | Some (V6 w z) \<Rightarrow> if z = [] then Some (Some (V6 w z)) else None
                      | Some (V4 w) \<Rightarrow> Some (Some (V4 w)))"

section \<open>Raising alerts\<close>

definition merge_severity :: "string \<Rightarrow> string \<Rightarrow> string" where
  "merge_severity new old =
     (if new = ''critical'' \<or> (new = ''warning'' \<and> old = ''info'') then new else old)"

definition max_int32 :: int where "max_int32 = 2147483647"

definition int32_ok :: "int \<Rightarrow> bool" where
  "int32_ok n \<longleftrightarrow> -2147483648 \<le> n \<and> n \<le> max_int32"

definition bump_alert :: "instant \<Rightarrow> Finding \<Rightarrow> Alert \<Rightarrow> Alert" where
  "bump_alert t f a =
     a\<lparr>a_count := a_count a + 1, a_last := t, a_title := f_title f, a_details := f_details f,
       a_severity := merge_severity (f_severity f) (a_severity a)\<rparr>"

definition new_alert :: "instant \<Rightarrow> int \<Rightarrow> addr option \<Rightarrow> addr option \<Rightarrow> Finding \<Rightarrow> Alert" where
  "new_alert t i host peer f =
     \<lparr>a_id = i, a_rule = f_rule f, a_severity = f_severity f, a_host = host, a_peer = peer,
      a_port = (if f_port f > 0 then Some (f_port f) else None), a_title = f_title f,
      a_details = f_details f, a_count = 1, a_first = t, a_last = t, a_state = ''open'',
      a_acked = None, a_resolved = None, a_notified = None, a_reopened = None, a_key = DedupeKey f\<rparr>"

text \<open>
  The upsert draws a number from the sequence whether it inserts or updates; the count is a
  32-bit column whose overflow is an error of the statement, and so is the port, where an
  argument out of range is refused before the statement runs. The result is the row and whether it
  was inserted.
\<close>

definition UpsertAlert :: "'e env_scheme \<Rightarrow> Finding \<Rightarrow> alert_db \<Rightarrow> (Alert \<times> bool) dbres \<times> alert_db" where
  "UpsertAlert e f d =
     (if fault e [''UpsertAlert'', DedupeKey f] then (Inl (DbError ''UpsertAlert''), d)
      else if f_port f > max_int32 then (Inl (DbError ''integer out of range''), d)
      else case (inet_arg (f_host f), inet_arg (f_peer f)) of
        (Some host, Some peer) \<Rightarrow>
          let i = alert_seq d + 1; d' = d\<lparr>alert_seq := i\<rparr>; t = now_of e in
          (case find (\<lambda>a. live_alert a \<and> a_key a = DedupeKey f) (alerts d) of
             Some a \<Rightarrow>
               if a_count a \<ge> max_int32 then (Inl (DbError ''integer out of range''), d')
               else (Inr (bump_alert t f a, False),
                     d'\<lparr>alerts := map (\<lambda>x. if live_alert x \<and> a_key x = DedupeKey f then bump_alert t f x else x) (alerts d)\<rparr>)
           | None \<Rightarrow>
               let a = new_alert t i host peer f in
               (Inr (a, True), d'\<lparr>alerts := alerts d @ [a]\<rparr>))
      | _ \<Rightarrow> (Inl (DbError ''invalid input syntax for type inet''), d))"

section \<open>Listing\<close>

record AlertsOptions =
  o_state :: string
  o_severity :: string
  o_rule :: string
  o_host :: "addr option"
  o_since :: "instant option"
  o_limit :: int
  o_offset :: int

definition alert_matches :: "AlertsOptions \<Rightarrow> Alert \<Rightarrow> bool" where
  "alert_matches q a \<longleftrightarrow>
     (if o_state q = ''active'' then a_state a \<noteq> ''resolved''
      else o_state q = [] \<or> a_state a = o_state q) \<and>
     (o_severity q = [] \<or> a_severity a = o_severity q) \<and>
     (o_rule q = [] \<or> a_rule a = o_rule q) \<and>
     (case o_host q of None \<Rightarrow> True | Some h \<Rightarrow> a_host a = Some h \<or> a_peer a = Some h) \<and>
     (case o_since q of None \<Rightarrow> True | Some t \<Rightarrow> a_last a \<ge> t)"

text \<open>An alert as it is listed: the row with the nicknames of its host and peer.\<close>

definition with_names :: "alert_db \<Rightarrow> Alert \<Rightarrow> Alert \<times> string option \<times> string option" where
  "with_names d a = (a, Option.bind (a_host a) (nicknames d), Option.bind (a_peer a) (nicknames d))"

definition ListAlerts ::
  "'e env_scheme \<Rightarrow> AlertsOptions \<Rightarrow> alert_db \<Rightarrow> ((Alert \<times> string option \<times> string option) list \<times> int) dbres" where
  "ListAlerts e q d =
     (let lim = (if o_limit q \<le> 0 \<or> o_limit q > 1000 then 100 else o_limit q);
          sel = filter (alert_matches q) (alerts d)
      in bindE (db_read e [''ListAlerts'', ''count''] (int (length sel))) (\<lambda>total.
         if o_offset q < 0 then Inl (DbError ''OFFSET must not be negative'')
         else db_read e [''ListAlerts'']
           (map (with_names d) (take (nat lim) (drop (nat (o_offset q)) (sort_key (\<lambda>a. - a_last a) sel))), total)))"

definition GetAlert :: "'e env_scheme \<Rightarrow> int \<Rightarrow> alert_db \<Rightarrow> (Alert \<times> string option \<times> string option) option dbres" where
  "GetAlert e i d = db_read e [''GetAlert''] (map_option (with_names d) (find (\<lambda>a. a_id a = i) (alerts d)))"

section \<open>The life cycle\<close>

text \<open>An \<open>UPDATE alerts SET \<dots> WHERE \<dots>\<close>: the rows it affects and the table after it.\<close>

definition update_alerts :: "(Alert \<Rightarrow> bool) \<Rightarrow> (Alert \<Rightarrow> Alert) \<Rightarrow> alert_db \<Rightarrow> nat \<times> alert_db" where
  "update_alerts P f d =
     (length (filter P (alerts d)), d\<lparr>alerts := map (\<lambda>a. if P a then f a else a) (alerts d)\<rparr>)"

definition delete_alerts :: "(Alert \<Rightarrow> bool) \<Rightarrow> alert_db \<Rightarrow> nat \<times> alert_db" where
  "delete_alerts P d =
     (length (filter P (alerts d)), d\<lparr>alerts := filter (\<lambda>a. \<not> P a) (alerts d)\<rparr>)"

definition set_resolved :: "instant \<Rightarrow> Alert \<Rightarrow> Alert" where
  "set_resolved t a = a\<lparr>a_state := ''resolved'', a_resolved := Some t\<rparr>"

definition SetAlertState :: "'e env_scheme \<Rightarrow> int \<Rightarrow> string \<Rightarrow> alert_db \<Rightarrow> bool dbres \<times> alert_db" where
  "SetAlertState e i state d =
     (let upd =
        (if state = ''acked'' then
           Some (update_alerts (\<lambda>a. a_id a = i \<and> a_state a \<noteq> ''resolved'')
                   (\<lambda>a. a\<lparr>a_state := ''acked'', a_acked := Some (now_of e)\<rparr>) d)
         else if state = ''resolved'' then
           Some (update_alerts (\<lambda>a. a_id a = i \<and> a_state a \<noteq> ''resolved'') (set_resolved (now_of e)) d)
         else if state = ''open'' then
           Some (update_alerts (\<lambda>a. a_id a = i \<and> a_state a = ''acked'')
                   (\<lambda>a. a\<lparr>a_state := ''open'', a_acked := None\<rparr>) d)
         else None)
      in case upd of None \<Rightarrow> (Inl (DbError ''invalid state''), d)
         | Some (n, d') \<Rightarrow> if fault e [''SetAlertState''] then (Inl (DbError ''SetAlertState''), d)
                           else (Inr (n > 0), d'))"

definition conflicting :: "Alert list \<Rightarrow> Alert \<Rightarrow> Alert list" where
  "conflicting as a = filter (\<lambda>b. a_key b = a_key a \<and> a_id b \<noteq> a_id a \<and> a_state b \<noteq> ''resolved'') as"

text \<open>\<open>ORDER BY b.id DESC LIMIT 1\<close>.\<close>

definition max_id :: "Alert list \<Rightarrow> int option" where
  "max_id as = (case as of [] \<Rightarrow> None | a # _ \<Rightarrow> Some (foldl max (a_id a) (map a_id as)))"

definition ReopenAlert :: "'e env_scheme \<Rightarrow> int \<Rightarrow> alert_db \<Rightarrow> (bool \<times> int) dbres \<times> alert_db" where
  "ReopenAlert e i d =
     (if fault e [''ReopenAlert''] then (Inl (DbError ''ReopenAlert''), d) else
      case update_alerts (\<lambda>a. a_id a = i \<and> a_state a = ''resolved'' \<and> conflicting (alerts d) a = [])
             (\<lambda>a. a\<lparr>a_state := ''open'', a_acked := None, a_resolved := None, a_reopened := Some (now_of e)\<rparr>) d of
        (n, d') \<Rightarrow>
          if n > 0 then (Inr (True, 0), d')
          else if fault e [''ReopenAlert'', ''conflict''] then (Inl (DbError ''ReopenAlert''), d')
          else (Inr (False,
                  opt_default 0 (max_id (concat (map (conflicting (alerts d')) (filter (\<lambda>a. a_id a = i) (alerts d')))))), d'))"

definition filter_matches :: "string \<Rightarrow> addr option \<Rightarrow> string \<Rightarrow> Alert \<Rightarrow> bool" where
  "filter_matches rule host severity a \<longleftrightarrow>
     (rule = [] \<or> a_rule a = rule) \<and>
     (case host of None \<Rightarrow> True | Some h \<Rightarrow> a_host a = Some h \<or> a_peer a = Some h) \<and>
     (severity = [] \<or> a_severity a = severity)"

definition ResolveAlerts :: "'e env_scheme \<Rightarrow> string \<Rightarrow> addr option \<Rightarrow> alert_db \<Rightarrow> int dbres \<times> alert_db" where
  "ResolveAlerts e rule host d =
     (case update_alerts (\<lambda>a. a_state a \<noteq> ''resolved'' \<and> filter_matches rule host [] a) (set_resolved (now_of e)) d of
        (n, d') \<Rightarrow> (db_read e [''ResolveAlerts''] (int n), db_write e [''ResolveAlerts''] d d'))"

definition DeleteResolvedAlerts ::
  "'e env_scheme \<Rightarrow> string \<Rightarrow> addr option \<Rightarrow> string \<Rightarrow> alert_db \<Rightarrow> int dbres \<times> alert_db" where
  "DeleteResolvedAlerts e rule host severity d =
     (case delete_alerts (\<lambda>a. a_state a = ''resolved'' \<and> filter_matches rule host severity a) d of
        (n, d') \<Rightarrow> (db_read e [''DeleteResolvedAlerts''] (int n), db_write e [''DeleteResolvedAlerts''] d d'))"

definition DeleteAlert :: "'e env_scheme \<Rightarrow> int \<Rightarrow> alert_db \<Rightarrow> (bool \<times> bool) dbres \<times> alert_db" where
  "DeleteAlert e i d =
     (if fault e [''DeleteAlert''] then (Inl (DbError ''DeleteAlert''), d) else
      case delete_alerts (\<lambda>a. a_id a = i \<and> a_state a = ''resolved'') d of
        (n, d') \<Rightarrow>
          if n > 0 then (Inr (True, True), d')
          else (bindE (db_read e [''DeleteAlert'', ''exists''] (list_ex (\<lambda>a. a_id a = i) (alerts d')))
                  (\<lambda>ex. Inr (False, ex)), d'))"

definition AutoResolveStale :: "'e env_scheme \<Rightarrow> duration \<Rightarrow> alert_db \<Rightarrow> int dbres \<times> alert_db" where
  "AutoResolveStale e after d =
     (case update_alerts (\<lambda>a. a_state a \<noteq> ''resolved'' \<and>
              max (a_last a) (opt_default (a_last a) (a_reopened a)) < now_of e - after) (set_resolved (now_of e)) d of
        (n, d') \<Rightarrow> (db_read e [''AutoResolveStale''] (int n), db_write e [''AutoResolveStale''] d d'))"

definition MarkNotified :: "'e env_scheme \<Rightarrow> int list \<Rightarrow> alert_db \<Rightarrow> unit dbres \<times> alert_db" where
  "MarkNotified e ids d =
     (if ids = [] then (Inr (), d)
      else (db_read e [''MarkNotified''] (),
            db_write e [''MarkNotified''] d
              (snd (update_alerts (\<lambda>a. a_id a \<in> set ids) (\<lambda>a. a\<lparr>a_notified := Some (now_of e)\<rparr>) d))))"

section \<open>Summaries\<close>

record AlertSummary =
  sm_open :: int
  sm_acked :: int
  sm_critical :: int
  sm_warning :: int
  sm_info :: int
  sm_last24h :: int
  sm_by_rule :: "(string \<times> int) list"

definition count_where :: "('a \<Rightarrow> bool) \<Rightarrow> 'a list \<Rightarrow> int" where
  "count_where P xs = int (length (filter P xs))"

definition AlertSummary_of :: "'e env_scheme \<Rightarrow> alert_db \<Rightarrow> AlertSummary dbres" where
  "AlertSummary_of e d =
     (let as = alerts d; act = filter live_alert as in
      bindE (db_read e [''AlertSummary''] ()) (\<lambda>_.
      db_read e [''AlertSummary'', ''by_rule'']
        \<lparr>sm_open = count_where (\<lambda>a. a_state a = ''open'') as,
         sm_acked = count_where (\<lambda>a. a_state a = ''acked'') as,
         sm_critical = count_where (\<lambda>a. a_severity a = ''critical'') act,
         sm_warning = count_where (\<lambda>a. a_severity a = ''warning'') act,
         sm_info = count_where (\<lambda>a. a_severity a = ''info'') act,
         sm_last24h = count_where (\<lambda>a. a_last a > now_of e - 24 * Hour) as,
         sm_by_rule = map (\<lambda>r. (r, count_where (\<lambda>a. a_rule a = r) act)) (remdups (map a_rule act))\<rparr>))"

record HostRisk =
  hr_score :: int
  hr_critical :: int
  hr_warning :: int
  hr_info :: int

definition severity_points :: "string \<Rightarrow> int" where
  "severity_points s = (if s = ''critical'' then 10 else if s = ''warning'' then 3 else 1)"

definition risk_rows :: "Alert list \<Rightarrow> (addr \<times> string) list" where
  "risk_rows as =
     concat (map (\<lambda>a. case a_host a of Some h \<Rightarrow> [(h, a_severity a)] | None \<Rightarrow> []) (filter live_alert as)) @
     concat (map (\<lambda>a. case a_peer a of Some p \<Rightarrow> [(p, a_severity a)] | None \<Rightarrow> []) (filter live_alert as))"

definition risk_of :: "(addr \<times> string) list \<Rightarrow> addr \<Rightarrow> HostRisk" where
  "risk_of rows ip =
     (let sv = map snd (filter (\<lambda>r. fst r = ip) rows) in
      \<lparr>hr_score = sum_list (map severity_points sv),
       hr_critical = count_where (\<lambda>s. s = ''critical'') sv,
       hr_warning = count_where (\<lambda>s. s = ''warning'') sv,
       hr_info = count_where (\<lambda>s. s = ''info'') sv\<rparr>)"

definition HostRisks :: "'e env_scheme \<Rightarrow> alert_db \<Rightarrow> (addr \<times> HostRisk) list dbres" where
  "HostRisks e d =
     (let rows = risk_rows (alerts d) in
      db_read e [''HostRisks''] (map (\<lambda>ip. (ip, risk_of rows ip)) (remdups (map fst rows))))"

section \<open>Retention\<close>

definition DefaultAlertRetention :: AlertRetention where
  "DefaultAlertRetention =
     \<lparr>AutoResolveDays = 7, DeleteResolvedDays = [(''info'', 7), (''warning'', 60), (''critical'', 60)]\<rparr>"

text \<open>A Go map is an association list with distinct keys; its iteration order is that of the
  list, which only decides which of several errors is reported.\<close>

fun fill_days :: "(string \<times> int) list \<Rightarrow> (string \<times> int) list \<Rightarrow> string + (string \<times> int) list" where
  "fill_days [] m = Inr m"
| "fill_days ((sev, dd) # def) m =
     (case map_of m sev of
        None \<Rightarrow> fill_days def (m @ [(sev, dd)])
      | Some v \<Rightarrow> if v < 0 \<or> v > 3650 then Inl ''delete_resolved_days out of range'' else fill_days def m)"

definition Validate :: "AlertRetention \<Rightarrow> string + AlertRetention" where
  "Validate r =
     (if AutoResolveDays r < 1 \<or> AutoResolveDays r > 365
      then Inl ''auto_resolve_days must be between 1 and 365''
      else if list_ex (\<lambda>(sev, _). SeverityRank sev = 0) (DeleteResolvedDays r)
      then Inl ''unknown severity''
      else bindE (fill_days (DeleteResolvedDays DefaultAlertRetention) (DeleteResolvedDays r))
             (\<lambda>m. Inr (r\<lparr>DeleteResolvedDays := m\<rparr>)))"

definition AutoResolveAfter :: "AlertRetention \<Rightarrow> duration" where
  "AutoResolveAfter r = AutoResolveDays r * 24 * Hour"

text \<open>\<open>json.Unmarshal\<close> into the defaults overwrites the days given for a severity and keeps the
  others.\<close>

definition override_days :: "(string \<times> int) list \<Rightarrow> (string \<times> int) list \<Rightarrow> (string \<times> int) list" where
  "override_days base new = filter (\<lambda>(k, _). map_of new k = None) base @ new"

definition GetAlertRetention :: "'e env_scheme \<Rightarrow> alert_db \<Rightarrow> AlertRetention dbres" where
  "GetAlertRetention e d =
     bindE (db_read e [''GetSetting''] (retention d)) (\<lambda>s.
       case s of None \<Rightarrow> Inr DefaultAlertRetention
       | Some v \<Rightarrow>
           (case Validate (v\<lparr>DeleteResolvedDays :=
                   override_days (DeleteResolvedDays DefaultAlertRetention) (DeleteResolvedDays v)\<rparr>) of
              Inl _ \<Rightarrow> Inr DefaultAlertRetention
            | Inr r \<Rightarrow> Inr r))"

definition SetAlertRetention :: "'e env_scheme \<Rightarrow> AlertRetention \<Rightarrow> alert_db \<Rightarrow> unit dbres \<times> alert_db" where
  "SetAlertRetention e r d =
     (case Validate r of Inl m \<Rightarrow> (Inl (DbError m), d)
      | Inr r' \<Rightarrow> (db_read e [''SetSetting''] (), db_write e [''SetSetting''] d (d\<lparr>retention := Some r'\<rparr>)))"

definition prunable :: "instant \<Rightarrow> string \<Rightarrow> int \<Rightarrow> Alert \<Rightarrow> bool" where
  "prunable t sev days a \<longleftrightarrow>
     a_state a = ''resolved'' \<and> a_severity a = sev \<and>
     (case a_resolved a of None \<Rightarrow> False | Some x \<Rightarrow> x < t - days * Day)"

fun prune_loop :: "'e env_scheme \<Rightarrow> (string \<times> int) list \<Rightarrow> (string \<times> int) list \<Rightarrow> alert_db \<Rightarrow>
    ((string \<times> int) list \<times> dberr option) \<times> alert_db" where
  "prune_loop e [] out d = ((out, None), d)"
| "prune_loop e ((sev, days) # rest) out d =
     (if days \<le> 0 then prune_loop e rest out d
      else if fault e [''PruneResolvedAlerts'', sev] then ((out, Some (DbError ''PruneResolvedAlerts'')), d)
      else case delete_alerts (prunable (now_of e) sev days) d of
             (n, d') \<Rightarrow> prune_loop e rest (if n > 0 then out @ [(sev, int n)] else out) d')"

definition PruneResolvedAlerts ::
  "'e env_scheme \<Rightarrow> AlertRetention \<Rightarrow> alert_db \<Rightarrow> ((string \<times> int) list \<times> dberr option) \<times> alert_db" where
  "PruneResolvedAlerts e r d = prune_loop e (DeleteResolvedDays r) [] d"

section \<open>The invariant of the table\<close>

text \<open>A row is in one of the three states, its time stamps agree with the state, and it has been
  seen at least once.\<close>

definition state_ok :: "Alert \<Rightarrow> bool" where
  "state_ok a \<longleftrightarrow>
     a_state a \<in> {''open'', ''acked'', ''resolved''} \<and>
     (a_resolved a \<noteq> None \<longleftrightarrow> a_state a = ''resolved'') \<and>
     (a_state a = ''acked'' \<longrightarrow> a_acked a \<noteq> None) \<and>
     (a_state a = ''open'' \<longrightarrow> a_acked a = None) \<and>
     1 \<le> a_count a \<and> a_count a \<le> max_int32"

text \<open>The partial unique index: a dedupe key has at most one live alert.\<close>

definition one_live :: "Alert list \<Rightarrow> bool" where
  "one_live as \<longleftrightarrow>
     (\<forall>a \<in> set as. \<forall>b \<in> set as. live_alert a \<and> live_alert b \<and> a_key a = a_key b \<longrightarrow> a_id a = a_id b)"

definition wf_alerts :: "alert_db \<Rightarrow> bool" where
  "wf_alerts d \<longleftrightarrow>
     distinct (map a_id (alerts d)) \<and> (\<forall>a \<in> set (alerts d). a_id a \<le> alert_seq d) \<and>
     one_live (alerts d) \<and> (\<forall>a \<in> set (alerts d). state_ok a)"

lemma wf_empty_alerts [simp]: "wf_alerts empty_alert_db"
  by (simp add: wf_alerts_def empty_alert_db_def one_live_def)

definition keeps_case :: "(Alert \<Rightarrow> bool) \<Rightarrow> (Alert \<Rightarrow> Alert) \<Rightarrow> bool" where
  "keeps_case P f \<longleftrightarrow> (\<forall>a. P a \<and> state_ok a \<longrightarrow>
     a_id (f a) = a_id a \<and> a_key (f a) = a_key a \<and> state_ok (f a))"

lemma alerts_update: "alerts (snd (update_alerts P f d)) = map (\<lambda>a. if P a then f a else a) (alerts d)"
  and alert_seq_update [simp]: "alert_seq (snd (update_alerts P f d)) = alert_seq d"
  by (simp_all add: update_alerts_def)

lemma one_live_map:
  assumes "\<And>a. a_id (g a) = a_id a" "\<And>a. a_key (g a) = a_key a"
    and "\<And>a b. a \<in> set as \<Longrightarrow> b \<in> set as \<Longrightarrow> a_key a = a_key b \<Longrightarrow>
           live_alert (g a) \<Longrightarrow> live_alert (g b) \<Longrightarrow> a_id a = a_id b"
  shows "one_live (map g as)"
  unfolding one_live_def set_map
proof (intro ballI impI, elim imageE conjE)
  fix a' b' a b
  assume "live_alert a'" "live_alert b'" "a_key a' = a_key b'" "a' = g a" "a \<in> set as" "b' = g b" "b \<in> set as"
  then show "a_id a' = a_id b'" using assms(3) [of a b] by (simp add: assms(1,2))
qed

lemma wf_alertsI:
  assumes ids: "map a_id as = map a_id (alerts d)" and w: "wf_alerts d"
    and "one_live as" "\<forall>a \<in> set as. state_ok a"
  shows "wf_alerts (d\<lparr>alerts := as\<rparr>)"
proof -
  have "a_id ` set as = a_id ` set (alerts d)" using ids by (metis set_map)
  then have "\<forall>a \<in> set as. a_id a \<le> alert_seq d"
    using w unfolding wf_alerts_def by (metis imageE image_eqI)
  with assms show ?thesis by (simp add: wf_alerts_def)
qed

lemma snd_update_alerts: "snd (update_alerts P f d) = d\<lparr>alerts := map (\<lambda>a. if P a then f a else a) (alerts d)\<rparr>"
  by (simp add: update_alerts_def)

lemma wf_update:
  assumes k: "keeps_case P f" and live: "\<And>a. P a \<Longrightarrow> state_ok a \<Longrightarrow> live_alert (f a) \<Longrightarrow> live_alert a"
    and w: "wf_alerts d"
  shows "wf_alerts (snd (update_alerts P f d))"
proof -
  let ?g = "\<lambda>a. if P a then f a else a"
  have g: "a_id (?g a) = a_id a" "a_key (?g a) = a_key a" "state_ok (?g a)" "live_alert (?g a) \<Longrightarrow> live_alert a"
    if "a \<in> set (alerts d)" for a
    using that k live [of a] w by (auto simp: keeps_case_def wf_alerts_def split: if_splits)
  have "one_live (map ?g (alerts d))"
    using w g unfolding one_live_def wf_alerts_def set_map by (metis (no_types, lifting) imageE)
  moreover have "\<forall>a \<in> set (map ?g (alerts d)). state_ok a"
    using g(3) unfolding set_map by (auto simp only:)
  moreover have "map a_id (map ?g (alerts d)) = map a_id (alerts d)"
    using g(1) by (simp only: map_map comp_def cong: map_cong)
  ultimately show ?thesis
    unfolding snd_update_alerts using w by (intro wf_alertsI)
qed

lemma wf_delete: "wf_alerts d \<Longrightarrow> wf_alerts (snd (delete_alerts P d))"
  by (auto simp: delete_alerts_def wf_alerts_def one_live_def distinct_map inj_on_def)

lemma set_resolved_simps [simp]:
  "a_id (set_resolved t a) = a_id a" "a_key (set_resolved t a) = a_key a"
  "a_state (set_resolved t a) = ''resolved''" "\<not> live_alert (set_resolved t a)"
  by (simp_all add: set_resolved_def live_alert_def)

lemma state_ok_resolved [simp]: "state_ok a \<Longrightarrow> state_ok (set_resolved t a)"
  by (simp add: state_ok_def set_resolved_def)

lemma wf_resolve: "wf_alerts d \<Longrightarrow> wf_alerts (snd (update_alerts P (set_resolved t) d))"
  by (rule wf_update) (simp_all add: keeps_case_def)

lemma wf_db_write: "wf_alerts d \<Longrightarrow> wf_alerts d' \<Longrightarrow> wf_alerts (db_write e k d d')"
  by (simp add: db_write_def)

lemma wf_SetAlertState: "wf_alerts d \<Longrightarrow> wf_alerts (snd (SetAlertState e i st d))"
proof -
  assume w: "wf_alerts d"
  have "wf_alerts (snd (update_alerts (\<lambda>a. a_id a = i \<and> a_state a \<noteq> ''resolved'')
      (\<lambda>a. a\<lparr>a_state := ''acked'', a_acked := Some (now_of e)\<rparr>) d))"
    using w by (intro wf_update) (auto simp: keeps_case_def state_ok_def live_alert_def)
  moreover have "wf_alerts (snd (update_alerts (\<lambda>a. a_id a = i \<and> a_state a = ''acked'')
      (\<lambda>a. a\<lparr>a_state := ''open'', a_acked := None\<rparr>) d))"
    using w by (intro wf_update) (auto simp: keeps_case_def state_ok_def live_alert_def)
  ultimately show ?thesis
    using w wf_resolve [OF w] by (simp add: SetAlertState_def split_beta)
qed

lemma wf_ResolveAlerts: "wf_alerts d \<Longrightarrow> wf_alerts (snd (ResolveAlerts e r h d))"
  by (simp add: ResolveAlerts_def split_beta wf_db_write wf_resolve)

lemma wf_AutoResolveStale: "wf_alerts d \<Longrightarrow> wf_alerts (snd (AutoResolveStale e t d))"
  by (simp add: AutoResolveStale_def split_beta wf_db_write wf_resolve)

lemma wf_DeleteResolvedAlerts: "wf_alerts d \<Longrightarrow> wf_alerts (snd (DeleteResolvedAlerts e r h s d))"
  by (simp add: DeleteResolvedAlerts_def split_beta wf_db_write wf_delete)

lemma wf_DeleteAlert: "wf_alerts d \<Longrightarrow> wf_alerts (snd (DeleteAlert e i d))"
  by (simp add: DeleteAlert_def split_beta wf_delete)

lemma wf_MarkNotified: "wf_alerts d \<Longrightarrow> wf_alerts (snd (MarkNotified e ids d))"
  unfolding MarkNotified_def
  by (auto intro!: wf_db_write wf_update simp: keeps_case_def state_ok_def live_alert_def)

lemma wf_prune: "wf_alerts d \<Longrightarrow> wf_alerts (snd (prune_loop e ds out d))"
proof (induction e ds out d rule: prune_loop.induct)
  case (2 e sev days rest out d)
  have "wf_alerts (snd (delete_alerts (prunable (now_of e) sev days) d))"
    using "2.prems" by (rule wf_delete)
  with "2" show ?case by (auto split: prod.split)
qed simp

lemma wf_PruneResolvedAlerts: "wf_alerts d \<Longrightarrow> wf_alerts (snd (PruneResolvedAlerts e r d))"
  by (simp add: PruneResolvedAlerts_def wf_prune)

lemma wf_SetAlertRetention: "wf_alerts d \<Longrightarrow> wf_alerts (snd (SetAlertRetention e r d))"
  by (auto simp: SetAlertRetention_def wf_alerts_def db_write_def split: sum.split)

text \<open>Reopening brings a row back to life only when no live row has its key.\<close>

lemma wf_ReopenAlert: "wf_alerts d \<Longrightarrow> wf_alerts (snd (ReopenAlert e i d))"
proof -
  assume w: "wf_alerts d"
  let ?P = "\<lambda>a. a_id a = i \<and> a_state a = ''resolved'' \<and> conflicting (alerts d) a = []"
  let ?f = "\<lambda>a. a\<lparr>a_state := ''open'', a_acked := None, a_resolved := None, a_reopened := Some (now_of e)\<rparr>"
  let ?g = "\<lambda>a. if ?P a then ?f a else a"
  have k: "keeps_case ?P ?f" by (simp add: keeps_case_def state_ok_def)
  have g: "a_id (?g a) = a_id a" "a_key (?g a) = a_key a" for a by simp_all
  have "one_live (map ?g (alerts d))"
  proof (rule one_live_map)
    fix a b assume ab: "a \<in> set (alerts d)" "b \<in> set (alerts d)" "a_key a = a_key b"
      and l: "live_alert (?g a)" "live_alert (?g b)"
    show "a_id a = a_id b"
    proof (rule ccontr)
      assume ne: "a_id a \<noteq> a_id b"
      then have "a \<notin> set (conflicting (alerts d) b) \<Longrightarrow> \<not> live_alert a"
        and "b \<notin> set (conflicting (alerts d) a) \<Longrightarrow> \<not> live_alert b"
        using ab by (auto simp: conflicting_def live_alert_def)
      moreover have "?P a \<or> live_alert a" "?P b \<or> live_alert b"
        using l by (cases "?P a"; cases "?P b"; simp)+
      moreover have "\<not> (live_alert a \<and> live_alert b)"
        using w ab ne unfolding wf_alerts_def one_live_def by blast
      ultimately show False using ne by auto
    qed
  qed simp_all
  moreover have "\<forall>a \<in> set (map ?g (alerts d)). state_ok a"
    using w by (auto simp: wf_alerts_def state_ok_def)
  moreover have "map a_id (map ?g (alerts d)) = map a_id (alerts d)"
    using g(1) by (simp only: map_map comp_def)
  ultimately have "wf_alerts (snd (update_alerts ?P ?f d))"
    unfolding snd_update_alerts using w by (intro wf_alertsI)
  with w show ?thesis by (simp add: ReopenAlert_def split_beta)
qed

section \<open>Deduplication\<close>

text \<open>The abstract view of the table: the live case of a dedupe key, as its number.\<close>

definition live_case :: "alert_db \<Rightarrow> string \<Rightarrow> int option" where
  "live_case d k = map_option a_id (find (\<lambda>a. live_alert a \<and> a_key a = k) (alerts d))"

text \<open>The three ways the upsert ends.\<close>

lemma UpsertAlert_cases:
  obtains (err) m d' where "UpsertAlert e f d = (Inl m, d')" "alerts d' = alerts d"
      "alert_seq d \<le> alert_seq d'"
  | (bump) a d' where "UpsertAlert e f d = (Inr (bump_alert (now_of e) f a, False), d')"
      "find (\<lambda>a. live_alert a \<and> a_key a = DedupeKey f) (alerts d) = Some a" "a_count a < max_int32"
      "d' = d\<lparr>alert_seq := alert_seq d + 1, alerts := map (\<lambda>x. if live_alert x \<and> a_key x = DedupeKey f
                then bump_alert (now_of e) f x else x) (alerts d)\<rparr>"
  | (new) host peer d' where
      "UpsertAlert e f d = (Inr (new_alert (now_of e) (alert_seq d + 1) host peer f, True), d')"
      "inet_arg (f_host f) = Some host" "inet_arg (f_peer f) = Some peer"
      "find (\<lambda>a. live_alert a \<and> a_key a = DedupeKey f) (alerts d) = None"
      "d' = d\<lparr>alert_seq := alert_seq d + 1, alerts := alerts d @ [new_alert (now_of e) (alert_seq d + 1) host peer f]\<rparr>"
proof (cases "fault e [''UpsertAlert'', DedupeKey f] \<or> f_port f > max_int32 \<or> inet_arg (f_host f) = None \<or> inet_arg (f_peer f) = None")
  case True
  then have "\<exists>m d'. UpsertAlert e f d = (Inl m, d') \<and> alerts d' = alerts d \<and> alert_seq d \<le> alert_seq d'"
    by (elim disjE) (auto simp: UpsertAlert_def split: option.split)
  then show thesis by (elim exE conjE) (rule err)
next
  case False
  then obtain host peer where h: "inet_arg (f_host f) = Some host" "inet_arg (f_peer f) = Some peer"
    and nf: "\<not> fault e [''UpsertAlert'', DedupeKey f]" "\<not> f_port f > max_int32" by auto
  show thesis
  proof (cases "find (\<lambda>a. live_alert a \<and> a_key a = DedupeKey f) (alerts d)")
    case None
    with h nf show thesis by (intro new) (simp_all add: UpsertAlert_def Let_def)
  next
    case (Some a)
    show thesis
    proof (cases "a_count a < max_int32")
      case True
      with h nf Some show thesis by (intro bump [of a]) (simp_all add: UpsertAlert_def Let_def)
    next
      case False
      with h nf Some show thesis
        by (intro err [of _ "d\<lparr>alert_seq := alert_seq d + 1\<rparr>"]) (simp_all add: UpsertAlert_def Let_def)
    qed
  qed
qed

lemma bump_simps [simp]:
  "a_id (bump_alert t f a) = a_id a" "a_key (bump_alert t f a) = a_key a"
  "live_alert (bump_alert t f a) = live_alert a" "a_state (bump_alert t f a) = a_state a"
  by (simp_all add: bump_alert_def live_alert_def)

lemma new_alert_simps [simp]:
  "a_id (new_alert t i h p f) = i" "a_key (new_alert t i h p f) = DedupeKey f"
  "live_alert (new_alert t i h p f)" "state_ok (new_alert t i h p f)"
  by (simp_all add: new_alert_def live_alert_def state_ok_def max_int32_def)

text \<open>The live case of a key is unique, so the row that \<open>find\<close> meets is every row of the key.\<close>

lemma live_unique:
  assumes w: "wf_alerts d" and f: "find (\<lambda>a. live_alert a \<and> a_key a = k) (alerts d) = Some a"
    and b: "b \<in> set (alerts d)" "live_alert b" "a_key b = k"
  shows "b = a"
proof -
  have a: "a \<in> set (alerts d)" "live_alert a" "a_key a = k" using f by (auto simp: find_Some_iff)
  with w b have "a_id b = a_id a" unfolding wf_alerts_def one_live_def by metis
  moreover have "inj_on a_id (set (alerts d))" using w by (simp add: wf_alerts_def distinct_map)
  ultimately show ?thesis using a(1) b(1) by (auto dest: inj_onD)
qed

lemma wf_more_numbers:
  "wf_alerts d \<Longrightarrow> alerts d' = alerts d \<Longrightarrow> alert_seq d \<le> alert_seq d' \<Longrightarrow> wf_alerts d'"
  unfolding wf_alerts_def by (metis order_trans)

lemma wf_UpsertAlert: "wf_alerts d \<Longrightarrow> wf_alerts (snd (UpsertAlert e f d))"
proof (cases rule: UpsertAlert_cases [of e f d])
  case (err m d')
  assume "wf_alerts d"
  with err show ?thesis by (auto intro: wf_more_numbers)
next
  case (bump a d')
  assume w: "wf_alerts d"
  let ?g = "\<lambda>x. if live_alert x \<and> a_key x = DedupeKey f then bump_alert (now_of e) f x else x"
  have g: "a_id (?g x) = a_id x" "a_key (?g x) = a_key x" "live_alert (?g x) = live_alert x" for x
    by simp_all
  have "one_live (map ?g (alerts d))"
  proof (rule one_live_map)
    show "a_id a = a_id b" if "a \<in> set (alerts d)" "b \<in> set (alerts d)" "a_key a = a_key b"
      "live_alert (?g a)" "live_alert (?g b)" for a b
      using w that unfolding g(3) wf_alerts_def one_live_def by blast
  qed (rule g)+
  moreover have "state_ok (?g x)" if x: "x \<in> set (alerts d)" for x
  proof (cases "live_alert x \<and> a_key x = DedupeKey f")
    case True
    then have "x = a" using live_unique [OF w bump(2) x] by blast
    with w x bump(3) show ?thesis by (auto simp: wf_alerts_def state_ok_def bump_alert_def)
  next
    case False
    with w x show ?thesis by (auto simp: wf_alerts_def)
  qed
  then have "\<forall>x \<in> set (map ?g (alerts d)). state_ok x" by (auto simp only: set_map)
  moreover have "map a_id (map ?g (alerts d)) = map a_id (alerts d)"
    by (simp only: g(1) map_map comp_def)
  ultimately have "wf_alerts (d\<lparr>alerts := map ?g (alerts d)\<rparr>)" using w by (intro wf_alertsI)
  then have "wf_alerts (d\<lparr>alert_seq := alert_seq d + 1, alerts := map ?g (alerts d)\<rparr>)"
    by (rule wf_more_numbers) simp_all
  with bump show ?thesis by simp
next
  case (new host peer d')
  assume w: "wf_alerts d"
  let ?n = "new_alert (now_of e) (alert_seq d + 1) host peer f"
  have fresh: "alert_seq d + 1 \<notin> a_id ` set (alerts d)" using w by (fastforce simp: wf_alerts_def)
  have "one_live (alerts d)" using w by (simp add: wf_alerts_def)
  moreover have "\<not> (live_alert b \<and> a_key b = DedupeKey f)" if "b \<in> set (alerts d)" for b
    using new(4) that by (auto simp: find_None_iff)
  ultimately have "one_live (alerts d @ [?n])" unfolding one_live_def by fastforce
  moreover have "\<forall>a \<in> set (alerts d @ [?n]). a_id a \<le> alert_seq d + 1"
    using w by (fastforce simp: wf_alerts_def)
  moreover have "\<forall>a \<in> set (alerts d @ [?n]). state_ok a" "distinct (map a_id (alerts d @ [?n]))"
    using w fresh by (simp_all add: wf_alerts_def)
  ultimately show ?thesis using new by (simp add: wf_alerts_def)
qed

lemma prune_keeps:
  "a \<in> set (alerts d) \<Longrightarrow> (\<forall>(sev, days) \<in> set ds. 0 < days \<longrightarrow> \<not> prunable (now_of e) sev days a) \<Longrightarrow>
     a \<in> set (alerts (snd (prune_loop e ds out d)))"
proof (induction e ds out d rule: prune_loop.induct)
  case (2 e sev days rest out d)
  have "a \<in> set (alerts (snd (delete_alerts (prunable (now_of e) sev days) d)))" if "0 < days"
    using "2.prems" that by (auto simp: delete_alerts_def)
  with "2" show ?case by (auto split: prod.split)
qed simp

section \<open>Properties\<close>

text \<open>C5: Refinement of deduplication. Seen as a map from dedupe keys to live cases, raising a finding
  opens a new case exactly when its key has none, and otherwise joins the case that is there; it
  never touches another key, and an error changes no case.\<close>

theorem upsert_refines_case_map:
  assumes w: "wf_alerts d" and U: "UpsertAlert e f d = (r, d')"
  shows "case r of
      Inl _ \<Rightarrow> live_case d' = live_case d
    | Inr (a, inserted) \<Rightarrow>
        live_case d' = (live_case d)(DedupeKey f \<mapsto> a_id a) \<and> a_key a = DedupeKey f \<and>
        (inserted \<longleftrightarrow> live_case d (DedupeKey f) = None) \<and>
        (\<not> inserted \<longrightarrow> live_case d (DedupeKey f) = Some (a_id a))"
proof (cases rule: UpsertAlert_cases [of e f d])
  case (err m d'')
  then have "live_case d'' = live_case d" by (simp add: live_case_def fun_eq_iff)
  with err U show ?thesis by auto
next
  case (bump a d'')
  let ?g = "\<lambda>x. if live_alert x \<and> a_key x = DedupeKey f then bump_alert (now_of e) f x else x"
  have "find (\<lambda>x. live_alert x \<and> a_key x = k) (map ?g xs) = map_option ?g (find (\<lambda>x. live_alert x \<and> a_key x = k) xs)" for k xs
    by (induction xs) auto
  moreover have "a_key a = DedupeKey f" using bump(2) by (auto simp: find_Some_iff)
  ultimately have "live_case d' = live_case d"
    using bump U by (auto simp: live_case_def fun_eq_iff option.map_comp comp_def intro!: option.map_cong)
  moreover have "live_case d (DedupeKey f) = Some (a_id a)" using bump(2) by (simp add: live_case_def)
  ultimately show ?thesis using bump U \<open>a_key a = DedupeKey f\<close> by (auto simp: fun_upd_idem)
next
  case (new host peer d'')
  let ?n = "new_alert (now_of e) (alert_seq d + 1) host peer f"
  have app: "find P (xs @ [x]) = (case find P xs of None \<Rightarrow> if P x then Some x else None | Some y \<Rightarrow> Some y)"
    for P :: "Alert \<Rightarrow> bool" and xs x by (induction xs) auto
  have "live_case d' = (live_case d)(DedupeKey f \<mapsto> a_id ?n)"
    using new U by (auto simp: live_case_def fun_eq_iff app split: option.split)
  with new U show ?thesis by (auto simp: live_case_def)
qed

text \<open>Severity only escalates: the merged severity of a case is the old or the new one and ranks
  at least as high as the old one, and at least as high as a new one of a known severity when the
  old one is known.\<close>

theorem severity_only_escalates:
  "SeverityRank old \<le> SeverityRank (merge_severity new old) \<and>
   (SeverityRank old > 0 \<longrightarrow> SeverityRank (merge_severity new old) = max (SeverityRank old) (SeverityRank new)) \<and>
   merge_severity new old \<in> {old, new}"
  by (auto simp: SeverityRank_def merge_severity_def)

definition sample_finding :: Finding where
  "sample_finding = \<lparr>f_rule = ''port_scan'', f_severity = ''warning'', f_host = ''10.0.0.5'', f_peer = [],
     f_port = 0, f_title = ''scan'', f_details = [], f_key = []\<rparr>"

lemma sample_finding_inet: "inet_arg ''10.0.0.5'' = Some (Some (v4 10 0 0 5))" "inet_arg [] = Some None"
  by code_simp+

theorem severity_only_escalates_witness:
  "SeverityRank ''warning'' = max (SeverityRank ''info'') (SeverityRank ''warning'') \<and>
   merge_severity ''warning'' ''info'' = ''warning''"
  using severity_only_escalates [of "''info''" "''warning''"] by (simp add: SeverityRank_def merge_severity_def)

theorem upsert_refines_case_map_witness:
  "live_case (snd (UpsertAlert (ok_env 5) sample_finding empty_alert_db)) (DedupeKey sample_finding) = Some 1"
proof -
  obtain d' where U: "UpsertAlert (ok_env 5) sample_finding empty_alert_db =
      (Inr (new_alert 5 1 (Some (v4 10 0 0 5)) None sample_finding, True), d')"
    by (simp add: UpsertAlert_def ok_env_def sample_finding_def sample_finding_inet empty_alert_db_def Let_def max_int32_def)
  show ?thesis using upsert_refines_case_map [OF wf_empty_alerts U] U by simp
qed

text \<open>Only resolved alerts are ever deleted, and only after the days kept for their severity:
  pruning leaves every live alert, every alert of a severity kept forever and every alert
  resolved within its days.\<close>

theorem pruning_keeps_recent:
  assumes "a \<in> set (alerts d)"
    and "live_alert a \<or> map_of (DeleteResolvedDays r) (a_severity a) = None \<or>
         (\<exists>days x. map_of (DeleteResolvedDays r) (a_severity a) = Some days \<and>
            (days \<le> 0 \<or> (a_resolved a = Some x \<and> now_of e - days * Day \<le> x)))"
    and "distinct (map fst (DeleteResolvedDays r))"
  shows "a \<in> set (alerts (snd (PruneResolvedAlerts e r d)))"
  unfolding PruneResolvedAlerts_def
proof (rule prune_keeps [OF assms(1)], intro ballI, clarify)
  fix sev days
  assume s: "(sev, days) \<in> set (DeleteResolvedDays r)" "0 < days" "prunable (now_of e) sev days a"
  then have "map_of (DeleteResolvedDays r) (a_severity a) = Some days"
    using assms(3) by (simp add: prunable_def)
  with assms(2) s show False by (auto simp: prunable_def live_alert_def)
qed

theorem pruning_keeps_recent_witness:
  "\<exists>a. alerts (snd (PruneResolvedAlerts (ok_env (10 * Day)) DefaultAlertRetention
        (snd (UpsertAlert (ok_env 5) sample_finding empty_alert_db)))) = [a]"
proof -
  let ?a = "new_alert 5 1 (Some (v4 10 0 0 5)) None sample_finding"
  let ?d = "snd (UpsertAlert (ok_env 5) sample_finding empty_alert_db)"
  have d: "alerts ?d = [?a]"
    by (simp add: UpsertAlert_def ok_env_def sample_finding_def sample_finding_inet empty_alert_db_def Let_def max_int32_def)
  have "?a \<in> set (alerts (snd (PruneResolvedAlerts (ok_env (10 * Day)) DefaultAlertRetention ?d)))"
    by (rule pruning_keeps_recent) (simp_all add: d DefaultAlertRetention_def)
  moreover have "length (alerts (snd (PruneResolvedAlerts (ok_env (10 * Day)) DefaultAlertRetention ?d))) \<le> 1"
    using d by (simp add: PruneResolvedAlerts_def DefaultAlertRetention_def delete_alerts_def ok_env_def split: prod.split)
  ultimately show ?thesis by (cases "alerts (snd (PruneResolvedAlerts (ok_env (10 * Day)) DefaultAlertRetention ?d))") auto
qed

end
