(* ===== verification/Exclusions.thy ===== *)
theory Exclusions
  imports Alerts
begin

text \<open>
  The trusted list (\<open>internal/db/exclusions.go\<close>, \<open>internal/rules/exclusions.go\<close>, migration
  007): normalising a pattern, the compiled set and its matcher, the statements of the table,
  and the filter of the rules engine. A compiled name pattern is an anchored regular expression
  in which only \<open>*\<close> is special, and is run here on the pattern itself by \<open>glob\<close>.
\<close>

section \<open>Patterns\<close>

definition name_head :: "char \<Rightarrow> bool" where
  "name_head c \<longleftrightarrow> (97 \<le> (of_char c :: nat) \<and> (of_char c :: nat) \<le> 122) \<or> is_digit c \<or> c = CHR ''*''"

definition name_char :: "char \<Rightarrow> bool" where
  "name_char c \<longleftrightarrow> name_head c \<or> c = CHR ''.'' \<or> c = CHR ''_'' \<or> c = CHR ''-''"

definition namePatternRe :: "string \<Rightarrow> bool" where
  "namePatternRe p = (case p of [] \<Rightarrow> False | c # cs \<Rightarrow> name_head c \<and> list_all name_char cs)"

text \<open>\<open>netip.PrefixFrom(pf.Addr().Unmap(), pf.Bits()).Masked()\<close>: a length beyond the width of the
  unmapped address gives the invalid prefix, which prints as \<open>invalid Prefix\<close>.\<close>

definition unmap_prefix :: "prefix \<Rightarrow> prefix option" where
  "unmap_prefix p =
     (let a = Unmap (p_addr p) in
      if p_bits p \<le> addr_width a then Some (Masked (Prefix a (p_bits p))) else None)"

definition IsSingleIP :: "prefix \<Rightarrow> bool" where
  "IsSingleIP p \<longleftrightarrow> p_bits p = addr_width (p_addr p)"

definition NormalizeExclusion :: "string \<Rightarrow> string + (string \<times> string)" where
  "NormalizeExclusion pattern =
     (let p = TrimSpace pattern in
      if p = [] then Inl ''pattern is empty''
      else case ParseAddr p of
        Some a \<Rightarrow> Inr (AddrString (Unmap a), ''ip'')
      | None \<Rightarrow>
        (case ParsePrefix p of
           Some pf \<Rightarrow>
             (case unmap_prefix pf of
                None \<Rightarrow> Inr (''invalid Prefix'', ''cidr'')
              | Some q \<Rightarrow> if IsSingleIP q then Inr (AddrString (p_addr q), ''ip'')
                          else Inr (PrefixString q, ''cidr''))
         | None \<Rightarrow>
             let n = ToLower (TrimSuffix p ''.'') in
             if \<not> namePatternRe n \<or> TrimRight {CHR ''*'', CHR ''.''} (TrimLeft {CHR ''*'', CHR ''.''} n) = []
             then Inl ''pattern must be an IP, a CIDR, or a hostname (wildcards allowed, e.g. *.example.com)''
             else Inr (n, ''name'')))"

section \<open>The table\<close>

definition ListExclusions :: "'e env_scheme \<Rightarrow> alert_db \<Rightarrow> Exclusion list dbres" where
  "ListExclusions e d =
     db_read e [''ListExclusions''] (sort_key (\<lambda>x. e_created x) (sort_key (\<lambda>x. e_id x) (exclusions d)))"

definition AddExclusion :: "'e env_scheme \<Rightarrow> string \<Rightarrow> string \<Rightarrow> alert_db \<Rightarrow> Exclusion dbres \<times> alert_db" where
  "AddExclusion e pattern note d =
     (case NormalizeExclusion pattern of
        Inl m \<Rightarrow> (Inl (DbError m), d)
      | Inr (norm, kind) \<Rightarrow>
          if fault e [''AddExclusion''] then (Inl (DbError ''AddExclusion''), d)
          else let i = excl_seq d + 1; nt = TrimSpace note; d' = d\<lparr>excl_seq := i\<rparr> in
            (case find (\<lambda>x. e_pattern x = norm) (exclusions d) of
               Some x \<Rightarrow> (Inr (x\<lparr>e_note := nt\<rparr>),
                  d'\<lparr>exclusions := map (\<lambda>y. if e_pattern y = norm then y\<lparr>e_note := nt\<rparr> else y) (exclusions d)\<rparr>)
             | None \<Rightarrow>
                 let x = \<lparr>e_id = i, e_pattern = norm, e_kind = kind, e_note = nt, e_created = now_of e\<rparr> in
                 (Inr x, d'\<lparr>exclusions := exclusions d @ [x]\<rparr>)))"

definition DeleteExclusion :: "'e env_scheme \<Rightarrow> int \<Rightarrow> alert_db \<Rightarrow> bool dbres \<times> alert_db" where
  "DeleteExclusion e i d =
     (db_read e [''DeleteExclusion''] (list_ex (\<lambda>x. e_id x = i) (exclusions d)),
      db_write e [''DeleteExclusion''] d (d\<lparr>exclusions := filter (\<lambda>x. e_id x \<noteq> i) (exclusions d)\<rparr>))"

section \<open>The compiled set\<close>

record ExclusionSet =
  x_ips :: "string list"
  x_cidrs :: "(prefix \<times> string) list"
  x_names :: "string list"

definition add_pattern :: "ExclusionSet \<Rightarrow> Exclusion \<Rightarrow> ExclusionSet" where
  "add_pattern s x =
     (if e_kind x = ''ip'' then s\<lparr>x_ips := x_ips s @ [e_pattern x]\<rparr>
      else if e_kind x = ''cidr'' then
        (case ParsePrefix (e_pattern x) of
           Some pf \<Rightarrow> s\<lparr>x_cidrs := x_cidrs s @ [(pf, e_pattern x)]\<rparr>
         | None \<Rightarrow> s)
      else if e_kind x = ''name'' then s\<lparr>x_names := x_names s @ [e_pattern x]\<rparr>
      else s)"

definition NewExclusionSet :: "Exclusion list \<Rightarrow> ExclusionSet" where
  "NewExclusionSet = foldl add_pattern \<lparr>x_ips = [], x_cidrs = [], x_names = []\<rparr>"

definition set_Empty :: "ExclusionSet \<Rightarrow> bool" where
  "set_Empty s \<longleftrightarrow> x_ips s = [] \<and> x_cidrs s = [] \<and> x_names s = []"

definition HasNames :: "ExclusionSet \<Rightarrow> bool" where
  "HasNames s \<longleftrightarrow> x_names s \<noteq> []"

text \<open>\<open>.*\<close> does not cross a line end.\<close>

fun glob :: "string \<Rightarrow> string \<Rightarrow> bool" where
  "glob [] s = (s = [])"
| "glob (p # ps) [] = (p = CHR ''*'' \<and> glob ps [])"
| "glob (p # ps) (c # s) =
     (if p = CHR ''*'' then glob ps (c # s) \<or> (c \<noteq> CHR 0x0A \<and> glob (p # ps) s)
      else p = c \<and> glob ps s)"

definition MatchIP :: "ExclusionSet \<Rightarrow> string \<Rightarrow> string option" where
  "MatchIP s ip =
     (if ip = [] then None
      else case ParseAddr ip of None \<Rightarrow> None
      | Some a0 \<Rightarrow>
          let a = Unmap a0 in
          if AddrString a \<in> set (x_ips s) then Some (AddrString a)
          else map_option snd (find (\<lambda>c. PrefixContains (fst c) a) (x_cidrs s)))"

definition clean_name :: "string \<Rightarrow> string" where
  "clean_name n = ToLower (TrimSuffix (TrimSpace n) ''.'')"

primrec match_names :: "string list \<Rightarrow> string list \<Rightarrow> string option" where
  "match_names pats [] = None"
| "match_names pats (n # ns) =
     (if clean_name n = [] then match_names pats ns
      else case find (\<lambda>p. glob p (clean_name n)) pats of
             Some p \<Rightarrow> Some p
           | None \<Rightarrow> match_names pats ns)"

definition Match :: "ExclusionSet \<Rightarrow> string \<Rightarrow> string list \<Rightarrow> string option" where
  "Match s ip names =
     (case MatchIP s ip of
        Some p \<Rightarrow> Some p
      | None \<Rightarrow> if x_names s = [] then None else match_names (x_names s) names)"

definition LoadExclusions :: "'e env_scheme \<Rightarrow> alert_db \<Rightarrow> ExclusionSet dbres" where
  "LoadExclusions e d = bindE (ListExclusions e d) (\<lambda>l. Inr (NewExclusionSet l))"

text \<open>The names known for each address, keyed by the text of the address: the learned names and
  the reverse name. An argument that is not an address is an error of the cast.\<close>

definition names_of :: "alert_db \<Rightarrow> addr \<Rightarrow> string list" where
  "names_of d a = remdups (map snd (filter (\<lambda>n. fst n = a) (ip_names d)) @
     (case hostnames d a of Some h \<Rightarrow> if h = [] then [] else [h] | None \<Rightarrow> []))"

definition names_table :: "alert_db \<Rightarrow> string list \<Rightarrow> string \<Rightarrow> string list" where
  "names_table d ips txt =
     concat (map (\<lambda>a. if AddrString a = txt then names_of d a else [])
       (remdups (List.map_filter (\<lambda>s. Option.bind (inet_arg s) id) ips)))"

definition NamesForIPs :: "'e env_scheme \<Rightarrow> string list \<Rightarrow> alert_db \<Rightarrow> (string \<Rightarrow> string list) dbres" where
  "NamesForIPs e ips d =
     (if ips = [] then Inr (\<lambda>_. [])
      else if list_ex (\<lambda>s. s = [] \<or> inet_arg s = None) ips then Inl (DbError ''invalid input syntax for type inet'')
      else db_read e [''NamesForIPs''] (names_table d ips))"

section \<open>Closing the alerts a new pattern covers\<close>

definition alert_texts :: "Alert \<Rightarrow> string \<times> string" where
  "alert_texts a = (case a_host a of None \<Rightarrow> [] | Some h \<Rightarrow> AddrString h,
                    case a_peer a of None \<Rightarrow> [] | Some p \<Rightarrow> AddrString p)"

definition covers :: "ExclusionSet \<Rightarrow> (string \<Rightarrow> string list) \<Rightarrow> string \<times> string \<Rightarrow> bool" where
  "covers s names hp \<longleftrightarrow> Match s (fst hp) (names (fst hp)) \<noteq> None \<or> Match s (snd hp) (names (snd hp)) \<noteq> None"

definition wanted_ips :: "(string \<times> string) list \<Rightarrow> string list" where
  "wanted_ips hps = remdups (filter (\<lambda>s. s \<noteq> []) (concat (map (\<lambda>(h, p). [h, p]) hps)))"

definition excluded_ids :: "'e env_scheme \<Rightarrow> ExclusionSet \<Rightarrow> alert_db \<Rightarrow> int list dbres" where
  "excluded_ids e s d =
     bindE (db_read e [''ResolveExcludedAlerts''] (filter live_alert (alerts d))) (\<lambda>as.
     bindE (if HasNames s then NamesForIPs e (wanted_ips (map alert_texts as)) d else Inr (\<lambda>_. [])) (\<lambda>names.
     Inr (map a_id (filter (\<lambda>a. covers s names (alert_texts a)) as))))"

text \<open>The update by number; it does not look at the state of the rows again.\<close>

definition resolve_ids :: "'e env_scheme \<Rightarrow> int list \<Rightarrow> alert_db \<Rightarrow> int dbres \<times> alert_db" where
  "resolve_ids e ids d =
     (case update_alerts (\<lambda>a. a_id a \<in> set ids) (set_resolved (now_of e)) d of
        (n, d') \<Rightarrow> (db_read e [''ResolveExcludedAlerts'', ''update''] (int n),
                    db_write e [''ResolveExcludedAlerts'', ''update''] d d'))"

definition ResolveExcludedAlerts :: "'e env_scheme \<Rightarrow> ExclusionSet \<Rightarrow> alert_db \<Rightarrow> int dbres \<times> alert_db" where
  "ResolveExcludedAlerts e s d =
     (if set_Empty s then (Inr 0, d)
      else case excluded_ids e s d of
        Inl m \<Rightarrow> (Inl m, d)
      | Inr ids \<Rightarrow>
          if ids = [] then (Inr 0, d)
          else resolve_ids e ids d)"

section \<open>The filter of the engine\<close>

definition finding_texts :: "Finding \<Rightarrow> string \<times> string" where
  "finding_texts f = (f_host f, f_peer f)"

text \<open>The engine is built with an open database (\<open>cmd/server/main.go\<close>), so its test for a missing one never
  applies.\<close>

definition applyExclusions :: "'e env_scheme \<Rightarrow> Finding list \<Rightarrow> alert_db \<Rightarrow> Finding list dbres" where
  "applyExclusions e fs d =
     (if fs = [] then Inr fs
      else bindE (LoadExclusions e d) (\<lambda>s.
        if set_Empty s then Inr fs
        else bindE (if HasNames s then NamesForIPs e (wanted_ips (map finding_texts fs)) d else Inr (\<lambda>_. [])) (\<lambda>names.
          Inr (filter (\<lambda>f. \<not> covers s names (finding_texts f)) fs))))"

section \<open>The matcher as an interface\<close>

text \<open>
  The three clients of the set skip work when it is empty or needs no names. They rely on the
  two laws below; what they compute is then what they would compute without the short cuts.
\<close>

locale trusted_matcher =
  fixes mt :: "'s \<Rightarrow> string \<Rightarrow> string list \<Rightarrow> string option"
    and void :: "'s \<Rightarrow> bool"
    and needs_names :: "'s \<Rightarrow> bool"
  assumes void_none: "void s \<Longrightarrow> mt s ip ns = None"
    and names_unused: "\<not> needs_names s \<Longrightarrow> mt s ip ns = mt s ip []"
begin

lemma skip_names: "mt s ip (if needs_names s then ns else []) = mt s ip ns"
  using names_unused [of s ip ns] by simp

lemma skip_table: "mt s ip ((if needs_names s then tbl else (\<lambda>_. [])) ip) = mt s ip (tbl ip)"
  using names_unused [of s ip "tbl ip"] by simp

lemma void_filter: "void s \<Longrightarrow> filter (\<lambda>x. mt s (h x) (ns x) = None \<and> mt s (p x) (ns' x) = None) xs = xs"
  by (simp add: void_none)

end

lemma MatchIP_empty: "set_Empty s \<Longrightarrow> MatchIP s ip = None"
  by (simp add: MatchIP_def set_Empty_def Let_def split: option.split)

interpretation trusted: trusted_matcher Match set_Empty HasNames
proof unfold_locales
  show "set_Empty s \<Longrightarrow> Match s ip ns = None" for s ip ns
    using MatchIP_empty [of s ip] by (simp add: Match_def set_Empty_def)
  show "\<not> HasNames s \<Longrightarrow> Match s ip ns = Match s ip []" for s ip ns
    by (simp add: Match_def HasNames_def split: option.split)
qed

lemma covers_skip: "covers s (if HasNames s then tbl else (\<lambda>_. [])) hp = covers s tbl hp"
  unfolding covers_def by (simp only: trusted.skip_table)

lemma covers_void: "set_Empty s \<Longrightarrow> \<not> covers s tbl hp"
  by (simp add: covers_def trusted.void_none)

section \<open>Matching\<close>

lemma glob_no_star: "CHR ''*'' \<notin> set p \<Longrightarrow> glob p s \<longleftrightarrow> s = p"
proof (induction p arbitrary: s)
  case (Cons c p)
  then show ?case by (cases s) auto
qed simp

lemma HasSuffix_iff: "HasSuffix s p \<longleftrightarrow> (\<exists>u. s = u @ p)"
  unfolding HasSuffix_def HasPrefix_iff by (metis rev_append rev_rev_ident)

lemma glob_star: "CHR ''*'' \<notin> set p \<Longrightarrow> CHR 0x0A \<notin> set s \<Longrightarrow> glob (CHR ''*'' # p) s \<longleftrightarrow> HasSuffix s p"
proof (induction s)
  case Nil
  then show ?case by (cases p) (auto simp: HasSuffix_iff)
next
  case (Cons c s)
  then have "glob (CHR ''*'' # p) (c # s) \<longleftrightarrow> c # s = p \<or> HasSuffix s p" by (auto simp: glob_no_star)
  also have "\<dots> \<longleftrightarrow> HasSuffix (c # s) p"
    unfolding HasSuffix_iff by (metis Cons_eq_append_conv)
  finally show ?case .
qed

lemma find_None_ex: "find P xs \<noteq> None \<longleftrightarrow> (\<exists>x \<in> set xs. P x)"
  by (auto simp: find_None_iff)

lemma match_names_iff:
  "match_names pats ns \<noteq> None \<longleftrightarrow>
     (\<exists>n \<in> set ns. clean_name n \<noteq> [] \<and> (\<exists>p \<in> set pats. glob p (clean_name n)))"
proof (induction ns)
  case (Cons n ns)
  then show ?case
    using find_None_ex [of "\<lambda>p. glob p (clean_name n)" pats] by (auto split: option.split_asm option.split)
qed simp

lemma Match_iff:
  "Match s ip ns \<noteq> None \<longleftrightarrow> MatchIP s ip \<noteq> None \<or>
     (\<exists>n \<in> set ns. clean_name n \<noteq> [] \<and> (\<exists>p \<in> set (x_names s). glob p (clean_name n)))"
  using match_names_iff [of "x_names s" ns] by (auto simp: Match_def split: option.split)

lemma MatchIP_iff:
  "ParseAddr ip = Some a \<Longrightarrow> MatchIP s ip \<noteq> None \<longleftrightarrow>
     AddrString (Unmap a) \<in> set (x_ips s) \<or> (\<exists>c \<in> set (x_cidrs s). PrefixContains (fst c) (Unmap a))"
  using find_None_ex [of "\<lambda>c. PrefixContains (fst c) (Unmap a)" "x_cidrs s"]
  by (cases ip) (auto simp: MatchIP_def Let_def ParseAddr_def)

section \<open>What is stored is what was entered\<close>

lemma IndexByte_append: "c \<notin> set u \<Longrightarrow> IndexByte (u @ c # v) c = Some (length u)"
  by (induction u) auto

lemma split_last_slash_append: "CHR ''/'' \<notin> set v \<Longrightarrow> split_last_slash (u @ CHR ''/'' # v) = Some (u, v)"
  using IndexByte_append [of "CHR ''/''" "rev v" "rev u"] by (simp add: split_last_slash_def)

lemma parse_show_prefix_v4: "b \<le> 32 \<Longrightarrow> ParsePrefix (PrefixString (Prefix (V4 w) b)) = Some (Prefix (V4 w) b)"
proof -
  assume b: "b \<le> 32"
  have "CHR ''/'' \<notin> set (show_nat b)"
    using show_nat_digits [of b] by (auto simp: list_all_iff is_digit_def)
  then have s: "split_last_slash (PrefixString (Prefix (V4 w) b)) = Some (AddrString (V4 w), show_nat b)"
    by (simp add: PrefixString_def split_last_slash_append)
  have "\<not> (length (show_nat b) > 1 \<and> hd (show_nat b) = CHR ''0'')"
    using show_nat_hd_nonzero [of b] show_nat_small [of b] by (cases "b < 10") auto
  with b show ?thesis by (simp add: ParsePrefix_def s ParseAddr_show_v4 addr_width_def)
qed

lemma unmap_prefix_v4: "p_addr pf = V4 w \<Longrightarrow> p_bits pf \<le> 32 \<Longrightarrow> unmap_prefix pf = Some (Masked pf)"
  by (cases pf) (simp add: unmap_prefix_def Unmap_def addr_width_def)

lemma Masked_v4: "p_addr pf = V4 w \<Longrightarrow> \<exists>u. Masked pf = Prefix (V4 u) (p_bits pf)"
  by (simp add: Masked_def)

lemma word_prefix_32: "word_prefix_eq 32 v (w :: 32 word) \<longleftrightarrow> v = w"
  by (simp add: word_prefix_eq_def)

lemma AddrString_v4_inj: "AddrString (V4 v) = AddrString (V4 w) \<longleftrightarrow> v = w"
  by (metis ParseAddr_show_v4 option.inject addr.inject(1))

text \<open>What prints as an IPv4 address is one: a printed IPv6 address has a colon.\<close>

lemma colon_not_v4: "CHR '':'' \<notin> set (AddrString (V4 w))"
proof -
  have "set (show_v4 w) \<subseteq> {c. is_digit c \<or> c = CHR ''.''}"
  proof -
    obtain a b c d where o: "octets w = [a, b, c, d]" by (simp add: octets_def)
    have "set (show_nat n) \<subseteq> {c. is_digit c}" for n using show_nat_digits [of n] by (auto simp: list_all_iff)
    then show ?thesis by (fastforce simp: show_v4_def o)
  qed
  then show ?thesis by (auto simp: AddrString_def is_digit_def)
qed

lemma Join_sep: "2 \<le> length xs \<Longrightarrow> CHR '':'' \<in> set (Join xs '':'')"
  by (cases xs; cases "tl xs") auto

lemma colon_v6: "CHR '':'' \<in> set (AddrString (V6 w z))"
proof -
  have "CHR '':'' \<in> set (show_v6 w)"
    by (auto simp: show_v6_def Let_def groups_def intro!: Join_sep split: option.split)
  then show ?thesis by (auto simp: AddrString_def)
qed

lemma AddrString_V4_iff: "AddrString a = AddrString (V4 v) \<longleftrightarrow> a = V4 v"
proof (cases a)
  case (V4 x) then show ?thesis by (simp add: AddrString_v4_inj)
next
  case (V6 x z) then show ?thesis using colon_v6 [of x z] colon_not_v4 [of v] by auto
qed

lemma contains_host_v4: "PrefixContains (Prefix (V4 v) 32) a \<longleftrightarrow> a = V4 v"
  by (cases a) (auto simp: PrefixContains_def word_prefix_32)

section \<open>Properties\<close>

text \<open>What is stored is what was entered. A pattern that is an IPv4 network is stored in canonical
  form as a network or, when it has one address, as an address; compiled again, the stored
  pattern covers exactly the addresses of the network that was entered, an IPv4-mapped IPv6
  form counting as the IPv4 address.\<close>

theorem stored_network_matches_entered:
  assumes N: "NormalizeExclusion pat = Inr (n, k)"
    and P: "ParseAddr (TrimSpace pat) = None" "ParsePrefix (TrimSpace pat) = Some pf" "p_addr pf = V4 w"
    and x: "e_pattern x = n" "e_kind x = k" and a: "ParseAddr ip = Some a"
  shows "MatchIP (NewExclusionSet [x]) ip \<noteq> None \<longleftrightarrow> PrefixContains pf (Unmap a)"
proof -
  have b: "p_bits pf \<le> 32"
    using P by (auto simp: ParsePrefix_def addr_width_def split: option.splits prod.splits if_splits)
  obtain u where u: "Masked pf = Prefix (V4 u) (p_bits pf)" using Masked_v4 [OF P(3)] by blast
  have ne: "TrimSpace pat \<noteq> []" using P(2) by (auto simp: ParsePrefix_def split_last_slash_def)
  have m: "PrefixContains pf y \<longleftrightarrow> PrefixContains (Prefix (V4 u) (p_bits pf)) y" for y
    using Masked_contains [of pf y] by (simp add: u)
  show ?thesis
  proof (cases "p_bits pf = 32")
    case True
    with N P ne have "n = AddrString (V4 u)" "k = ''ip''"
      by (simp_all add: NormalizeExclusion_def Let_def unmap_prefix_v4 u IsSingleIP_def addr_width_def)
    then have "x_cidrs (NewExclusionSet [x]) = []" "x_ips (NewExclusionSet [x]) = [AddrString (V4 u)]"
      using x by (simp_all add: NewExclusionSet_def add_pattern_def)
    then show ?thesis unfolding MatchIP_iff [OF a] using True by (simp add: m AddrString_V4_iff contains_host_v4)
  next
    case False
    with N P ne b have nk: "n = PrefixString (Prefix (V4 u) (p_bits pf))" "k = ''cidr''"
      by (simp_all add: NormalizeExclusion_def Let_def unmap_prefix_v4 u IsSingleIP_def addr_width_def)
    have "x_cidrs (NewExclusionSet [x]) = [(Prefix (V4 u) (p_bits pf), n)]" "x_ips (NewExclusionSet [x]) = []"
      using x nk b by (simp_all add: NewExclusionSet_def add_pattern_def parse_show_prefix_v4)
    then show ?thesis unfolding MatchIP_iff [OF a] by (simp add: m)
  qed
qed

definition sample_exclusion :: "string \<Rightarrow> string \<Rightarrow> Exclusion" where
  "sample_exclusion k p = \<lparr>e_id = 1, e_pattern = p, e_kind = k, e_note = [], e_created = 0\<rparr>"

theorem stored_network_matches_entered_witness:
  "\<exists>n k. NormalizeExclusion ''10.1.2.3/8'' = Inr (n, k) \<and>
     MatchIP (NewExclusionSet [sample_exclusion k n]) ''10.200.0.1'' \<noteq> None"
proof -
  have 2: "ParseAddr (TrimSpace ''10.1.2.3/8'') = None" by code_simp
  have 3: "ParsePrefix (TrimSpace ''10.1.2.3/8'') = Some (Prefix (V4 0x0A010203) 8)" by code_simp
  have 4: "ParseAddr ''10.200.0.1'' = Some (V4 0x0AC80001)" by code_simp
  have 5: "PrefixContains (Prefix (V4 0x0A010203) 8) (Unmap (V4 0x0AC80001))" by code_simp
  have "TrimSpace ''10.1.2.3/8'' \<noteq> []" by code_simp
  with 2 3 obtain n k where 1: "NormalizeExclusion ''10.1.2.3/8'' = Inr (n, k)"
    by (simp add: NormalizeExclusion_def Let_def unmap_prefix_v4 Masked_def IsSingleIP_def addr_width_def)
  have "MatchIP (NewExclusionSet [sample_exclusion k n]) ''10.200.0.1'' \<noteq> None
      \<longleftrightarrow> PrefixContains (Prefix (V4 0x0A010203) 8) (Unmap (V4 0x0AC80001))"
    by (rule stored_network_matches_entered [OF 1 2 3 _ _ _ 4]) (simp_all only: prefix.sel sample_exclusion_def Exclusion.select_convs)
  with 1 5 show ?thesis by blast
qed

text \<open>A wildcard name covers the names that end with its tail. For a stored name pattern of one
  leading star, an address outside the other patterns is trusted exactly when one of its known
  names, in lower case and without its final dot, ends with the text after the star.\<close>

theorem wildcard_covers_suffix:
  assumes "e_kind x = ''name''" "e_pattern x = CHR ''*'' # lit" "CHR ''*'' \<notin> set lit" "lit \<noteq> []"
    and "\<forall>n \<in> set ns. CHR 0x0A \<notin> set n"
  shows "Match (NewExclusionSet [x]) ip ns \<noteq> None \<longleftrightarrow> (\<exists>n \<in> set ns. HasSuffix (clean_name n) lit)"
proof -
  have nn: "x_names (NewExclusionSet [x]) = [CHR ''*'' # lit]" and ip: "MatchIP (NewExclusionSet [x]) ip = None"
    using assms(1,2) by (simp_all add: NewExclusionSet_def add_pattern_def MatchIP_def Let_def split: option.split)
  have "CHR 0x0A \<notin> set (clean_name n)" if "n \<in> set ns" for n
  proof -
    have lc: "lower_char c \<noteq> CHR 0x0A" if "c \<noteq> CHR 0x0A" for c
    proof (cases "65 \<le> (of_char c :: nat) \<and> (of_char c :: nat) \<le> 90")
      case True
      then have "of_char (lower_char c) = (of_char c :: nat) + 32" by (simp add: lower_char_def Let_def)
      then have "(of_char (lower_char c) :: nat) \<noteq> 10" by simp
      then show ?thesis by auto
    next
      case False
      then have "lower_char c = c" unfolding lower_char_def Let_def by (rule if_not_P)
      with that show ?thesis by simp
    qed
    have "set (TrimSuffix (TrimSpace n) ''.'') \<subseteq> set n"
      using TrimSpace_subset [of n] by (auto simp: TrimSuffix_def dest: in_set_takeD)
    then have "CHR 0x0A \<notin> set (TrimSuffix (TrimSpace n) ''.'')" using assms(5) that by blast
    then show ?thesis unfolding clean_name_def ToLower_def set_map using lc by (metis imageE)
  qed
  then have "glob (CHR ''*'' # lit) (clean_name n) \<longleftrightarrow> HasSuffix (clean_name n) lit" if "n \<in> set ns" for n
    using glob_star [OF assms(3)] that by blast
  moreover have "HasSuffix s lit \<Longrightarrow> s \<noteq> []" for s using assms(4) by (auto simp: HasSuffix_iff)
  ultimately show ?thesis unfolding Match_iff ip nn by auto
qed

theorem wildcard_covers_suffix_witness:
  "Match (NewExclusionSet [sample_exclusion ''name'' ''*.example.com'']) ''8.8.8.8'' [''A.Example.com.''] \<noteq> None"
proof -
  let ?x = "sample_exclusion ''name'' ''*.example.com''"
  have "clean_name ''A.Example.com.'' = ''a.example.com''"
    by (simp add: clean_name_def TrimSpace_def is_space_def TrimSuffix_def HasSuffix_def ToLower_def lower_char_def char_of_def bit_0)
  then have "HasSuffix (clean_name ''A.Example.com.'') ''.example.com''" by (simp add: HasSuffix_def)
  moreover have "Match (NewExclusionSet [?x]) ''8.8.8.8'' [''A.Example.com.''] \<noteq> None
      \<longleftrightarrow> (\<exists>n \<in> set [''A.Example.com.'']. HasSuffix (clean_name n) ''.example.com'')"
    by (rule wildcard_covers_suffix) (simp_all add: sample_exclusion_def)
  ultimately show ?thesis by simp
qed

text \<open>A network entered in IPv4-mapped form with more than 32 bits, such as the one address block
  of a mapped address, is accepted and stored, but as a text that is no network: the stored
  pattern trusts no address at all.\<close>

theorem mapped_network_is_lost:
  assumes "TrimSpace pat \<noteq> []" "ParseAddr (TrimSpace pat) = None" "ParsePrefix (TrimSpace pat) = Some pf"
    and "Is4In6 (p_addr pf)" "32 < p_bits pf"
  shows "NormalizeExclusion pat = Inr (''invalid Prefix'', ''cidr'') \<and>
         (\<forall>x ip ns. e_pattern x = ''invalid Prefix'' \<and> e_kind x = ''cidr'' \<longrightarrow>
            Match (NewExclusionSet [x]) ip ns = None)"
proof -
  obtain w z where pa: "p_addr pf = V6 w z" using assms(4) by (cases "p_addr pf") (auto simp: Is4In6_def)
  have "unmap_prefix pf = None"
    using assms(4,5) by (simp add: unmap_prefix_def Let_def Unmap_def Is4In6_def pa addr_width_def)
  then have "NormalizeExclusion pat = Inr (''invalid Prefix'', ''cidr'')"
    using assms(1-3) by (simp add: NormalizeExclusion_def Let_def)
  moreover have "ParsePrefix ''invalid Prefix'' = None" by code_simp
  then have "set_Empty (NewExclusionSet [x])" if "e_pattern x = ''invalid Prefix''" "e_kind x = ''cidr''" for x
    using that by (simp add: NewExclusionSet_def add_pattern_def set_Empty_def)
  ultimately show ?thesis using trusted.void_none by blast
qed

theorem mapped_network_is_lost_witness:
  "NormalizeExclusion ''::ffff:1.2.3.0/120'' = Inr (''invalid Prefix'', ''cidr'')"
proof -
  have 1: "TrimSpace ''::ffff:1.2.3.0/120'' \<noteq> []" by code_simp
  have 2: "ParseAddr (TrimSpace ''::ffff:1.2.3.0/120'') = None" by code_simp
  have 3: "ParsePrefix (TrimSpace ''::ffff:1.2.3.0/120'') = Some (Prefix (V6 0xFFFF01020300 []) 120)" by code_simp
  have 4: "Is4In6 (p_addr (Prefix (V6 0xFFFF01020300 []) 120))" by code_simp
  show ?thesis using mapped_network_is_lost [OF 1 2 3 4] by simp
qed

text \<open>C9: The engine's filter is its specification. Without database faults, and when every host and
  peer of the findings is an address, the filter keeps exactly the findings whose host and peer
  are both untrusted by the whole stored list and all known names; its short cuts for an empty
  list and for lists without names change nothing.\<close>

theorem filter_equals_reference:
  assumes "\<forall>k. \<not> fault e k" and "\<forall>ip \<in> set (wanted_ips (map finding_texts fs)). inet_arg ip \<noteq> None"
  shows "applyExclusions e fs d =
     Inr (filter (\<lambda>f. Match (NewExclusionSet (sort_key e_created (sort_key e_id (exclusions d)))) (f_host f)
                          (names_table d (wanted_ips (map finding_texts fs)) (f_host f)) = None \<and>
                      Match (NewExclusionSet (sort_key e_created (sort_key e_id (exclusions d)))) (f_peer f)
                          (names_table d (wanted_ips (map finding_texts fs)) (f_peer f)) = None) fs)"
proof -
  let ?s = "NewExclusionSet (sort_key e_created (sort_key e_id (exclusions d)))"
  let ?ips = "wanted_ips (map finding_texts fs)"
  let ?tbl = "names_table d ?ips"
  have nn: "NamesForIPs e ?ips d = Inr ?tbl"
  proof (cases "?ips = []")
    case True
    then show ?thesis by (simp add: NamesForIPs_def names_table_def map_filter_simps fun_eq_iff)
  next
    case False
    have "\<not> list_ex (\<lambda>s. s = [] \<or> inet_arg s = None) ?ips"
      using assms(2) by (auto simp: list_ex_iff wanted_ips_def)
    with False assms(1) show ?thesis by (simp add: NamesForIPs_def)
  qed
  have "applyExclusions e fs d = Inr (filter (\<lambda>f. \<not> covers ?s ?tbl (finding_texts f)) fs)"
  proof (cases "set_Empty ?s")
    case True
    with assms(1) show ?thesis
      by (simp add: applyExclusions_def LoadExclusions_def ListExclusions_def covers_void)
  next
    case False
    have "(if HasNames ?s then NamesForIPs e ?ips d else Inr (\<lambda>_. [])) = Inr (if HasNames ?s then ?tbl else (\<lambda>_. []))"
      by (simp add: nn)
    with False assms(1) show ?thesis
      by (simp add: applyExclusions_def LoadExclusions_def ListExclusions_def covers_skip)
  qed
  then show ?thesis by (simp add: covers_def finding_texts_def)
qed

theorem filter_equals_reference_witness:
  "applyExclusions (ok_env 0) [sample_finding] empty_alert_db = Inr [sample_finding]"
proof -
  have "wanted_ips (map finding_texts [sample_finding]) = [''10.0.0.5'']"
    by (simp add: wanted_ips_def finding_texts_def sample_finding_def)
  then have "\<forall>ip \<in> set (wanted_ips (map finding_texts [sample_finding])). inet_arg ip \<noteq> None"
    by (simp add: sample_finding_inet)
  from filter_equals_reference [OF _ this, of "ok_env 0" empty_alert_db]
  show ?thesis
    by (simp add: empty_alert_db_def NewExclusionSet_def trusted.void_none set_Empty_def)
qed

lemma names_table_Nil: "names_table d [] = (\<lambda>_. [])"
  by (simp add: names_table_def map_filter_simps fun_eq_iff)

lemma NamesForIPs_Inr: "NamesForIPs e ips d = Inr names \<Longrightarrow> names = names_table d ips"
  by (auto simp: NamesForIPs_def db_read_Inr_iff names_table_Nil split: if_splits)

lemma excluded_ids_Inr:
  assumes "excluded_ids e s d = Inr ids"
  shows "ids = map a_id (filter (\<lambda>a. live_alert a \<and>
    covers s (names_table d (wanted_ips (map alert_texts (filter live_alert (alerts d))))) (alert_texts a)) (alerts d))"
proof -
  let ?ips = "wanted_ips (map alert_texts (filter live_alert (alerts d)))"
  obtain names where nm: "(if HasNames s then NamesForIPs e ?ips d else Inr (\<lambda>_. [])) = Inr names"
    and i: "ids = map a_id (filter (\<lambda>a. covers s names (alert_texts a)) (filter live_alert (alerts d)))"
    using assms by (auto simp: excluded_ids_def bindE_Inr_iff db_read_Inr_iff)
  have "covers s names hp = covers s (names_table d ?ips) hp" for hp
  proof (cases "HasNames s")
    case True
    with nm show ?thesis using NamesForIPs_Inr [of e ?ips d names] by simp
  next
    case False
    with nm covers_skip [of s "names_table d ?ips" hp] show ?thesis by auto
  qed
  with i show ?thesis by (simp add: conj_commute)
qed

text \<open>Adding a pattern clears the list. When the resolver that runs after a pattern is added
  succeeds, no live alert is left that the pattern covers, the count it returns is the number of
  cases it closed, every uncovered case stays as it was and the table stays consistent.\<close>

theorem resolver_clears_covered:
  assumes w: "wf_alerts d" and R: "ResolveExcludedAlerts e s d = (Inr n, d')"
  shows "wf_alerts d' \<and>
     (let names = names_table d (wanted_ips (map alert_texts (filter live_alert (alerts d)))) in
      (\<forall>a \<in> set (alerts d'). live_alert a \<longrightarrow> a \<in> set (alerts d) \<and> \<not> covers s names (alert_texts a)) \<and>
      (\<forall>a \<in> set (alerts d). \<not> (live_alert a \<and> covers s names (alert_texts a)) \<longrightarrow> a \<in> set (alerts d')) \<and>
      n = int (length (filter (\<lambda>a. live_alert a \<and> covers s names (alert_texts a)) (alerts d))))"
proof -
  let ?ips = "wanted_ips (map alert_texts (filter live_alert (alerts d)))"
  let ?tbl = "names_table d ?ips"
  let ?C = "\<lambda>a. live_alert a \<and> covers s ?tbl (alert_texts a)"
  show ?thesis
  proof (cases "set_Empty s")
    case True
    with R have "d' = d" "n = 0" by (simp_all add: ResolveExcludedAlerts_def)
    with w True show ?thesis by (simp add: Let_def covers_void)
  next
    case False
    with R obtain ids where I: "excluded_ids e s d = Inr ids"
      by (cases "excluded_ids e s d") (auto simp: ResolveExcludedAlerts_def)
    have ids: "ids = map a_id (filter ?C (alerts d))" by (rule excluded_ids_Inr [OF I])
    let ?d = "snd (update_alerts (\<lambda>a. a_id a \<in> set ids) (set_resolved (now_of e)) d)"
    have "inj_on a_id (set (alerts d))" using w by (simp add: wf_alerts_def distinct_map)
    then have sel: "a_id a \<in> set ids \<longleftrightarrow> ?C a" if "a \<in> set (alerts d)" for a
      using that by (auto simp: ids dest: inj_onD)
    then have flt: "filter (\<lambda>a. a_id a \<in> set ids) (alerts d) = filter ?C (alerts d)" by (intro filter_cong) auto
    have "d' = ?d \<and> n = int (length (filter ?C (alerts d)))"
    proof (cases "ids = []")
      case True
      with flt have "filter ?C (alerts d) = []" by simp
      moreover have "?d = d" by (simp add: True snd_update_alerts)
      ultimately show ?thesis using R False I True by (simp add: ResolveExcludedAlerts_def)
    next
      case F: False
      have "fst (update_alerts (\<lambda>a. a_id a \<in> set ids) (set_resolved (now_of e)) d) = length (filter ?C (alerts d))"
        by (simp add: update_alerts_def flt)
      with R False I F show ?thesis
        by (auto simp: ResolveExcludedAlerts_def resolve_ids_def split_beta db_read_def db_write_def split: if_splits)
    qed
    moreover have "alerts ?d = map (\<lambda>a. if ?C a then set_resolved (now_of e) a else a) (alerts d)"
      using sel by (simp add: snd_update_alerts)
    moreover have "wf_alerts ?d" using w by (rule wf_resolve)
    ultimately show ?thesis by (auto simp: Let_def)
  qed
qed

theorem resolver_clears_covered_witness:
  "\<exists>d' n. ResolveExcludedAlerts (ok_env 9) (NewExclusionSet [sample_exclusion ''ip'' (AddrString (v4 10 0 0 5))])
       (snd (UpsertAlert (ok_env 5) sample_finding empty_alert_db)) = (Inr n, d') \<and>
     (\<forall>a \<in> set (alerts d'). \<not> live_alert a)"
proof -
  let ?s = "NewExclusionSet [sample_exclusion ''ip'' (AddrString (v4 10 0 0 5))]"
  let ?d = "snd (UpsertAlert (ok_env 5) sample_finding empty_alert_db)"
  let ?a = "new_alert 5 1 (Some (v4 10 0 0 5)) None sample_finding"
  have d: "alerts ?d = [?a]"
    by (simp add: UpsertAlert_def ok_env_def sample_finding_def sample_finding_inet empty_alert_db_def Let_def max_int32_def)
  have s: "x_ips ?s = [AddrString (v4 10 0 0 5)]" "x_names ?s = []"
    by (simp_all add: NewExclusionSet_def add_pattern_def sample_exclusion_def)
  have "excluded_ids (ok_env 9) ?s ?d \<noteq> Inl m" for m
    by (simp add: excluded_ids_def HasNames_def s)
  then obtain ids where "excluded_ids (ok_env 9) ?s ?d = Inr ids"
    by (cases "excluded_ids (ok_env 9) ?s ?d") auto
  then have "fst (ResolveExcludedAlerts (ok_env 9) ?s ?d) \<in> range Inr"
    by (simp add: ResolveExcludedAlerts_def resolve_ids_def split_beta)
  then obtain n d' where R: "ResolveExcludedAlerts (ok_env 9) ?s ?d = (Inr n, d')"
    by (cases "ResolveExcludedAlerts (ok_env 9) ?s ?d") auto
  have "MatchIP ?s (AddrString (v4 10 0 0 5)) \<noteq> None"
    unfolding v4_def by (subst MatchIP_iff [OF ParseAddr_show_v4]) (simp add: Unmap_def NewExclusionSet_def add_pattern_def sample_exclusion_def)
  then have "Match ?s (AddrString (v4 10 0 0 5)) ns \<noteq> None" for ns unfolding Match_iff by blast
  then have c: "covers ?s names (alert_texts ?a)" for names
    by (simp add: covers_def alert_texts_def new_alert_def del: not_None_eq)
  have "\<forall>a \<in> set (alerts d'). live_alert a \<longrightarrow> a \<in> set (alerts ?d) \<and> \<not> covers ?s
      (names_table ?d (wanted_ips (map alert_texts (filter live_alert (alerts ?d))))) (alert_texts a)"
    using resolver_clears_covered [OF wf_UpsertAlert [OF wf_empty_alerts] R] by (simp add: Let_def)
  then have "\<forall>a \<in> set (alerts d'). \<not> live_alert a" using c by (auto simp: d)
  with R show ?thesis by blast
qed

end
