(* ===== verification/AlertsSafety.thy ===== *)
theory AlertsSafety
  imports Alerts Exclusions
begin

text \<open>
  The alerts table as a machine: its eleven writes, of the engine, the worker and the operators
  (\<open>internal/db/alerts.go\<close>, \<open>alert_retention.go\<close> and \<open>exclusions.go\<close>), in any order. The lemmas
  show that its constraints are kept and which moves of the life cycle a write can make.
\<close>

section \<open>The table as a machine\<close>

text \<open>Everything the backend does to the table, each event with the clock and faults it meets. All
  but one are single statements. \<open>ResolveExcludedAlerts\<close> reads the live cases first and then
  resolves those it found covered: \<open>ResolveExcluded\<close> is the call, and \<open>ResolveIds\<close> its second
  statement by itself, with whatever numbers were collected before other events came between.\<close>

datatype alert_event =
    Raise "unit env_scheme" Finding
  | SetState "unit env_scheme" int string
  | Reopen "unit env_scheme" int
  | ResolveMany "unit env_scheme" string "addr option"
  | DeleteMany "unit env_scheme" string "addr option" string
  | DeleteOne "unit env_scheme" int
  | ResolveStale "unit env_scheme" duration
  | Notified "unit env_scheme" "int list"
  | Prune "unit env_scheme" AlertRetention
  | Retain "unit env_scheme" AlertRetention
  | ResolveExcluded "unit env_scheme" ExclusionSet
  | ResolveIds "unit env_scheme" "int list"

fun alert_step :: "alert_db \<Rightarrow> alert_event \<Rightarrow> alert_db" where
  "alert_step d (Raise e f) = snd (UpsertAlert e f d)"
| "alert_step d (SetState e i s) = snd (SetAlertState e i s d)"
| "alert_step d (Reopen e i) = snd (ReopenAlert e i d)"
| "alert_step d (ResolveMany e r h) = snd (ResolveAlerts e r h d)"
| "alert_step d (DeleteMany e r h s) = snd (DeleteResolvedAlerts e r h s d)"
| "alert_step d (DeleteOne e i) = snd (DeleteAlert e i d)"
| "alert_step d (ResolveStale e t) = snd (AutoResolveStale e t d)"
| "alert_step d (Notified e ids) = snd (MarkNotified e ids d)"
| "alert_step d (Prune e r) = snd (PruneResolvedAlerts e r d)"
| "alert_step d (Retain e r) = snd (SetAlertRetention e r d)"
| "alert_step d (ResolveExcluded e s) = snd (ResolveExcludedAlerts e s d)"
| "alert_step d (ResolveIds e ids) = snd (resolve_ids e ids d)"

lemma wf_resolve_ids: "wf_alerts d \<Longrightarrow> wf_alerts (snd (resolve_ids e ids d))"
  by (simp add: resolve_ids_def split_beta db_write_def wf_resolve)

lemma wf_ResolveExcludedAlerts: "wf_alerts d \<Longrightarrow> wf_alerts (snd (ResolveExcludedAlerts e s d))"
  by (simp add: ResolveExcludedAlerts_def wf_resolve_ids split: sum.split)

lemmas wf_alert_ops = wf_UpsertAlert wf_SetAlertState wf_ReopenAlert wf_ResolveAlerts
  wf_DeleteResolvedAlerts wf_DeleteAlert wf_AutoResolveStale wf_MarkNotified
  wf_PruneResolvedAlerts wf_SetAlertRetention wf_resolve_ids wf_ResolveExcludedAlerts

interpretation alert_table: machine alert_step wf_alerts
proof unfold_locales
  fix d ev assume "wf_alerts d"
  then show "wf_alerts (alert_step d ev)" by (cases ev) (simp_all add: wf_alert_ops)
qed

text \<open>The moves of the life cycle.\<close>

inductive life :: "string \<Rightarrow> string \<Rightarrow> bool" where
  stay: "life s s"
| ack: "life ''open'' ''acked''"
| unack: "life ''acked'' ''open''"
| close: "s \<noteq> ''resolved'' \<Longrightarrow> life s ''resolved''"
| again: "life ''resolved'' ''open''"

code_pred life .

declare life.intros [simp, intro]

inductive_simps life_simps: "life s t"

text \<open>An event lets every row live on by a move of the life cycle, or deletes it resolved; only the
  rows of \<open>ro\<close> may come back from being resolved.\<close>

definition lives_on :: "(int \<Rightarrow> bool) \<Rightarrow> alert_db \<Rightarrow> alert_db \<Rightarrow> bool" where
  "lives_on ro d d' \<longleftrightarrow> (\<forall>a \<in> set (alerts d).
     (\<exists>a' \<in> set (alerts d'). a_id a' = a_id a \<and> a_key a' = a_key a \<and> life (a_state a) (a_state a') \<and>
        (a_state a = ''resolved'' \<and> a_state a' \<noteq> ''resolved'' \<longrightarrow> ro (a_id a))) \<or>
     (a_state a = ''resolved'' \<and> a_id a \<notin> a_id ` set (alerts d')))"

lemma lives_on_same: "alerts d' = alerts d \<Longrightarrow> lives_on ro d d'"
  unfolding lives_on_def by fastforce

lemma lives_on_mono: "lives_on ro d d' \<Longrightarrow> (\<And>j. ro j \<Longrightarrow> ro' j) \<Longrightarrow> lives_on ro' d d'"
  unfolding lives_on_def by blast

lemma lives_on_map:
  assumes "alerts d' = map g (alerts d)"
    and "\<And>a. a \<in> set (alerts d) \<Longrightarrow> a_id (g a) = a_id a \<and> a_key (g a) = a_key a \<and> life (a_state a) (a_state (g a)) \<and>
        (a_state a = ''resolved'' \<and> a_state (g a) \<noteq> ''resolved'' \<longrightarrow> ro (a_id a))"
  shows "lives_on ro d d'"
  unfolding lives_on_def assms(1) using assms(2) by fastforce

lemma lives_on_update:
  assumes "\<And>a. a \<in> set (alerts d) \<Longrightarrow> P a \<Longrightarrow> a_id (f a) = a_id a \<and> a_key (f a) = a_key a \<and> life (a_state a) (a_state (f a)) \<and>
        (a_state a = ''resolved'' \<and> a_state (f a) \<noteq> ''resolved'' \<longrightarrow> ro (a_id a))"
  shows "lives_on ro d (snd (update_alerts P f d))"
  by (rule lives_on_map [of _ "\<lambda>a. if P a then f a else a"]) (use assms in \<open>auto simp: snd_update_alerts\<close>)

lemma lives_on_resolve:
  "(\<And>a. P a \<Longrightarrow> a_state a \<noteq> ''resolved'') \<Longrightarrow> lives_on ro d (snd (update_alerts P (set_resolved t) d))"
  by (rule lives_on_update) auto

lemma lives_on_sub:
  assumes "wf_alerts d" and sub: "set (alerts d') \<subseteq> set (alerts d)"
    and kept: "\<And>a. a \<in> set (alerts d) \<Longrightarrow> a_state a \<noteq> ''resolved'' \<Longrightarrow> a \<in> set (alerts d')"
  shows "lives_on ro d d'"
  unfolding lives_on_def
proof
  fix a assume a: "a \<in> set (alerts d)"
  show "(\<exists>a' \<in> set (alerts d'). a_id a' = a_id a \<and> a_key a' = a_key a \<and> life (a_state a) (a_state a') \<and>
        (a_state a = ''resolved'' \<and> a_state a' \<noteq> ''resolved'' \<longrightarrow> ro (a_id a))) \<or>
     (a_state a = ''resolved'' \<and> a_id a \<notin> a_id ` set (alerts d'))"
  proof (cases "a \<in> set (alerts d')")
    case True then show ?thesis by auto
  next
    case False
    have "inj_on a_id (set (alerts d))" using assms(1) by (simp add: wf_alerts_def distinct_map)
    then have "a_id a \<notin> a_id ` set (alerts d')" using a sub False by (auto dest: inj_onD)
    with kept a False show ?thesis by blast
  qed
qed

lemma lives_on_delete:
  "(\<And>a. P a \<Longrightarrow> a_state a = ''resolved'') \<Longrightarrow> wf_alerts d \<Longrightarrow> lives_on ro d (snd (delete_alerts P d))"
  by (rule lives_on_sub) (auto simp: delete_alerts_def)

lemma lives_on_write: "lives_on ro d d' \<Longrightarrow> lives_on ro d (db_write e k d d')"
  by (simp add: db_write_def lives_on_same)

lemma lives_on_append: "alerts d' = alerts d @ xs \<Longrightarrow> lives_on ro d d'"
  unfolding lives_on_def by fastforce

lemma lives_on_UpsertAlert: "lives_on ro d (snd (UpsertAlert e f d))"
proof (cases rule: UpsertAlert_cases [of e f d])
  case (err m d') then show ?thesis by (simp add: lives_on_same)
next
  case (bump a d')
  then show ?thesis
    by (intro lives_on_map [of _ "\<lambda>x. if live_alert x \<and> a_key x = DedupeKey f then bump_alert (now_of e) f x else x"])
      simp_all
next
  case (new host peer d')
  then show ?thesis by (intro lives_on_append) simp
qed

lemma lives_on_SetAlertState: "wf_alerts d \<Longrightarrow> lives_on ro d (snd (SetAlertState e i s d))"
proof -
  assume w: "wf_alerts d"
  have "lives_on ro d (snd (update_alerts (\<lambda>a. a_id a = i \<and> a_state a \<noteq> ''resolved'')
      (\<lambda>a. a\<lparr>a_state := ''acked'', a_acked := Some (now_of e)\<rparr>) d))"
    by (rule lives_on_update) (use w in \<open>auto simp: wf_alerts_def state_ok_def\<close>)
  moreover have "lives_on ro d (snd (update_alerts (\<lambda>a. a_id a = i \<and> a_state a = ''acked'')
      (\<lambda>a. a\<lparr>a_state := ''open'', a_acked := None\<rparr>) d))"
    by (rule lives_on_update) auto
  moreover have "lives_on ro d (snd (update_alerts (\<lambda>a. a_id a = i \<and> a_state a \<noteq> ''resolved'') (set_resolved (now_of e)) d))"
    by (rule lives_on_resolve) auto
  ultimately show ?thesis
    by (simp add: SetAlertState_def split_beta lives_on_same)
qed

lemma lives_on_ReopenAlert: "lives_on (\<lambda>j. j = i) d (snd (ReopenAlert e i d))"
proof -
  have "lives_on (\<lambda>j. j = i) d (snd (update_alerts
      (\<lambda>a. a_id a = i \<and> a_state a = ''resolved'' \<and> conflicting (alerts d) a = [])
      (\<lambda>a. a\<lparr>a_state := ''open'', a_acked := None, a_resolved := None, a_reopened := Some (now_of e)\<rparr>) d))"
    by (rule lives_on_update) auto
  then show ?thesis by (simp add: ReopenAlert_def split_beta lives_on_same)
qed

lemma lives_on_resolvers:
  assumes "wf_alerts d"
  shows "lives_on ro d (snd (ResolveAlerts e r h d))" "lives_on ro d (snd (AutoResolveStale e t d))"
  "lives_on ro d (snd (DeleteResolvedAlerts e r h s d))" "lives_on ro d (snd (DeleteAlert e i d))"
  by (auto simp: ResolveAlerts_def AutoResolveStale_def DeleteResolvedAlerts_def DeleteAlert_def split_beta
      lives_on_same intro!: lives_on_write lives_on_resolve lives_on_delete assms)

lemma lives_on_resolve_ids: "lives_on ro d (snd (resolve_ids e ids d))"
proof -
  have "life s ''resolved''" for s by (cases "s = ''resolved''") auto
  then show ?thesis by (auto simp: resolve_ids_def split_beta intro!: lives_on_write lives_on_update)
qed

lemma lives_on_ResolveExcluded: "lives_on ro d (snd (ResolveExcludedAlerts e s d))"
  by (auto simp: ResolveExcludedAlerts_def lives_on_same lives_on_resolve_ids split: sum.split)

lemma lives_on_MarkNotified: "lives_on ro d (snd (MarkNotified e ids d))"
  by (auto simp: MarkNotified_def lives_on_same intro!: lives_on_write lives_on_update)

lemma prune_sub: "set (alerts (snd (prune_loop e ds out d))) \<subseteq> set (alerts d)"
proof (induction ds arbitrary: out d)
  case (Cons x ds)
  have "set (alerts (snd (delete_alerts P d))) \<subseteq> set (alerts d)" for P by (auto simp: delete_alerts_def)
  with Cons.IH show ?case by (cases x) (auto simp: split_beta dest!: subsetD)
qed simp

lemma lives_on_Prune: "wf_alerts d \<Longrightarrow> lives_on ro d (snd (PruneResolvedAlerts e r d))"
proof -
  have "a \<in> set (alerts (snd (prune_loop e (DeleteResolvedDays r) [] d)))"
    if "a \<in> set (alerts d)" "a_state a \<noteq> ''resolved''" for a
    using that by (intro prune_keeps) (auto simp: prunable_def)
  then show "lives_on ro d (snd (PruneResolvedAlerts e r d))" if "wf_alerts d"
    unfolding PruneResolvedAlerts_def by (intro lives_on_sub [OF that prune_sub])
qed

lemma lives_on_Retain: "lives_on ro d (snd (SetAlertRetention e r d))"
  by (auto simp: SetAlertRetention_def lives_on_same intro!: lives_on_write split: sum.split)

section \<open>Properties\<close>

text \<open>C7: The table's constraints. Whatever the engine, the worker and the operators do, in whatever
  order and with whatever faults, identifiers stay unique, a dedupe key has at most one live case
  and every row's time stamps agree with its state.\<close>

theorem alert_table_consistent:
  "wf_alerts (foldl alert_step empty_alert_db evs)"
  by (rule alert_table.run_inv) simp

text \<open>C6: The life cycle. In a reachable table an event lets a case live on under its number by a move
  open to acked, acked to open, either to resolved, or resolved to open, the last only when the
  event reopens this very case; a case disappears only when it is resolved.\<close>

theorem alert_life_cycle:
  assumes "wf_alerts d" and "a \<in> set (alerts d)"
  shows "(\<exists>a' \<in> set (alerts (alert_step d ev)). a_id a' = a_id a \<and> a_key a' = a_key a \<and>
            life (a_state a) (a_state a') \<and>
            (a_state a = ''resolved'' \<and> a_state a' \<noteq> ''resolved'' \<longrightarrow> (\<exists>e. ev = Reopen e (a_id a)))) \<or>
         (a_state a = ''resolved'' \<and> a_id a \<notin> a_id ` set (alerts (alert_step d ev)))"
proof -
  have "lives_on (\<lambda>j. \<exists>e. ev = Reopen e j) d (alert_step d ev)"
  proof (cases ev)
    case (Reopen e i)
    show ?thesis unfolding Reopen alert_step.simps
      by (rule lives_on_mono [OF lives_on_ReopenAlert]) simp
  qed (simp_all add: lives_on_UpsertAlert lives_on_SetAlertState assms(1) lives_on_resolvers
        lives_on_MarkNotified lives_on_Prune lives_on_Retain lives_on_resolve_ids lives_on_ResolveExcluded)
  with assms(2) show ?thesis unfolding lives_on_def by blast
qed

theorem alert_life_cycle_witness:
  "\<exists>d a. alerts d = [a] \<and> a_state a = ''open'' \<and>
     (\<exists>a' \<in> set (alerts (alert_step d (SetState (ok_env 9) (a_id a) ''acked''))). life ''open'' (a_state a'))"
proof -
  let ?a = "new_alert 5 1 (Some (v4 10 0 0 5)) None sample_finding"
  let ?d = "foldl alert_step empty_alert_db [Raise (ok_env 5) sample_finding]"
  have d: "alerts ?d = [?a]"
    by (simp add: UpsertAlert_def ok_env_def sample_finding_def sample_finding_inet empty_alert_db_def Let_def max_int32_def)
  have w: "wf_alerts ?d" by (rule alert_table.run_inv) simp
  have o: "a_state ?a = ''open''" by (simp add: new_alert_def)
  have "?a \<in> set (alerts ?d)" using d by simp
  from alert_life_cycle [OF w this, of "SetState (ok_env 9) (a_id ?a) ''acked''"] o
  show ?thesis using d o by (intro exI [of _ ?d] exI [of _ ?a]) auto
qed

end
