(* ===== verification/Identity.thy ===== *)
theory Identity
  imports PgText
begin

text \<open>
  Program identities and file intelligence (\<open>internal/db/identity.go\<close>, migration 013): what
  agents report about executables, the queue of hashes for VirusTotal and the Malware Hash
  Registry, and the catalogue of abusable system binaries. Timestamps the agents or the services
  send are carried unchanged.
\<close>

section \<open>Data\<close>

record ProgramIdentity =
  p_agent :: int
  p_exe :: string
  p_sha256 :: string
  p_sha1 :: string
  p_md5 :: string
  p_size :: int
  p_modified :: "instant option"
  p_origin :: string
  p_package :: string
  p_version :: string
  p_verified :: "bool option"
  p_signature :: string
  p_signer :: string
  p_company :: string
  p_product :: string
  p_file_version :: string
  p_description :: string
  p_note :: string
  p_first :: instant
  p_last :: instant

definition lookupPriority :: "ProgramIdentity \<Rightarrow> int" where
  "lookupPriority p =
     (if p_verified p = Some False \<or> p_signature p = ''invalid'' then 30
      else if p_origin p \<in> {''tmp'', ''download'', ''unpackaged''} \<or> p_signature p \<in> {''unsigned'', ''untrusted''} then 20
      else if p_origin p \<in> {''home'', ''opt'', ''local'', ''user-install'', ''venv'', []} then 10
      else 0)"

record FileVT =
  fv_status :: string
  fv_malicious :: "int option"
  fv_suspicious :: "int option"
  fv_harmless :: "int option"
  fv_undetected :: "int option"
  fv_label :: string
  fv_names :: "string list"
  fv_signers :: "string list"
  fv_type :: string
  fv_first_seen :: "instant option"
  fv_last_analysis :: "instant option"
  fv_error :: "string option"

record FileMHR =
  fm_status :: string
  fm_detection :: "int option"
  fm_last_seen :: "instant option"
  fm_error :: "string option"

record FileIntel =
  fi_sha256 :: string
  fi_sha1 :: string
  fi_md5 :: string
  fi_priority :: int
  fi_vt :: FileVT
  fi_vt_at :: "instant option"
  fi_attempts :: int
  fi_mhr :: FileMHR
  fi_mhr_at :: "instant option"
  fi_created :: instant

record LOLBin =
  lb_source :: string
  lb_name :: string
  lb_display :: string
  lb_description :: string
  lb_functions :: "string list"
  lb_paths :: "string list"
  lb_mitre :: "string list"
  lb_url :: string

record id_db =
  program_identity :: "ProgramIdentity list"
  file_intel :: "FileIntel list"
  lolbins :: "LOLBin list"

definition coalesce :: "'a option \<Rightarrow> 'a option \<Rightarrow> 'a option" where
  "coalesce a b = (case a of None \<Rightarrow> b | Some x \<Rightarrow> Some x)"

definition no_vt :: FileVT where
  "no_vt = \<lparr>fv_status = ''pending'', fv_malicious = None, fv_suspicious = None, fv_harmless = None,
     fv_undetected = None, fv_label = [], fv_names = [], fv_signers = [], fv_type = [],
     fv_first_seen = None, fv_last_analysis = None, fv_error = None\<rparr>"

definition no_mhr :: FileMHR where
  "no_mhr = \<lparr>fm_status = ''pending'', fm_detection = None, fm_last_seen = None, fm_error = None\<rparr>"

definition new_file :: "instant \<Rightarrow> string \<Rightarrow> FileIntel" where
  "new_file t h = \<lparr>fi_sha256 = h, fi_sha1 = [], fi_md5 = [], fi_priority = 0, fi_vt = no_vt, fi_vt_at = None,
     fi_attempts = 0, fi_mhr = no_mhr, fi_mhr_at = None, fi_created = t\<rparr>"

section \<open>Upserts\<close>

text \<open>\<open>INSERT \<dots> ON CONFLICT (key) DO UPDATE\<close> on a table with distinct keys.\<close>

definition upsert_by :: "('r \<Rightarrow> 'k) \<Rightarrow> 'k \<Rightarrow> ('r \<Rightarrow> 'r) \<Rightarrow> 'r \<Rightarrow> 'r list \<Rightarrow> 'r list" where
  "upsert_by key k upd new rows =
     (if list_ex (\<lambda>r. key r = k) rows then map (\<lambda>r. if key r = k then upd r else r) rows else rows @ [new])"

definition identity_key :: "ProgramIdentity \<Rightarrow> int \<times> string \<times> string" where
  "identity_key p = (p_agent p, p_exe p, p_sha256 p)"

definition put_identity :: "instant \<Rightarrow> int \<Rightarrow> ProgramIdentity \<Rightarrow> ProgramIdentity list \<Rightarrow> ProgramIdentity list" where
  "put_identity t agent p rows =
     upsert_by identity_key (agent, p_exe p, p_sha256 p)
       (\<lambda>r. p\<lparr>p_agent := agent, p_first := p_first r, p_last := t\<rparr>)
       (p\<lparr>p_agent := agent, p_first := t, p_last := t\<rparr>) rows"

definition put_hash :: "instant \<Rightarrow> ProgramIdentity \<Rightarrow> FileIntel list \<Rightarrow> FileIntel list" where
  "put_hash t p rows =
     upsert_by fi_sha256 (p_sha256 p)
       (\<lambda>r. r\<lparr>fi_sha1 := (if fi_sha1 r = [] then p_sha1 p else fi_sha1 r),
              fi_md5 := (if fi_md5 r = [] then p_md5 p else fi_md5 r),
              fi_priority := max (fi_priority r) (lookupPriority p),
              fi_mhr := (if fm_status (fi_mhr r) = ''skipped'' \<and> p_md5 p \<noteq> [] then (fi_mhr r)\<lparr>fm_status := ''pending''\<rparr>
                         else fi_mhr r)\<rparr>)
       ((new_file t (p_sha256 p))\<lparr>fi_sha1 := p_sha1 p, fi_md5 := p_md5 p, fi_priority := lookupPriority p\<rparr>) rows"

text \<open>The text columns of a row, which the agents fill.\<close>

definition identity_texts :: "ProgramIdentity \<Rightarrow> string list" where
  "identity_texts p =
     [p_exe p, p_sha256 p, p_sha1 p, p_md5 p, p_origin p, p_package p, p_version p, p_signature p, p_signer p,
      p_company p, p_product p, p_file_version p, p_description p, p_note p]"

text \<open>The rows are written one by one, outside a transaction; an error, a text PostgreSQL refuses
  among them, keeps those already written.\<close>

primrec UpsertProgramIdentities ::
  "'e env_scheme \<Rightarrow> int \<Rightarrow> ProgramIdentity list \<Rightarrow> nat \<Rightarrow> 'x id_db_scheme \<Rightarrow> (nat \<times> dberr option) \<times> 'x id_db_scheme" where
  "UpsertProgramIdentities e agent [] n d = ((n, None), d)"
| "UpsertProgramIdentities e agent (p # ps) n d =
     (if p_exe p = [] \<or> length (p_sha256 p) \<noteq> 64 then UpsertProgramIdentities e agent ps n d
      else if \<not> list_all clean_utf8 (identity_texts p) then ((n, Some refused_text), d)
      else if fault e [''UpsertProgramIdentities'', p_exe p, p_sha256 p]
      then ((n, Some (DbError ''UpsertProgramIdentities'')), d)
      else let d1 = d\<lparr>program_identity := put_identity (now_of e) agent p (program_identity d)\<rparr> in
        if fault e [''UpsertProgramIdentities'', ''file_intel'', p_sha256 p]
        then ((n, Some (DbError ''UpsertProgramIdentities'')), d1)
        else UpsertProgramIdentities e agent ps (Suc n) (d1\<lparr>file_intel := put_hash (now_of e) p (file_intel d1)\<rparr>))"

definition IdentityFor :: "'e env_scheme \<Rightarrow> int \<Rightarrow> string \<Rightarrow> 'x id_db_scheme \<Rightarrow> ProgramIdentity option dbres" where
  "IdentityFor e agent exe d =
     db_read e [''IdentityFor'']
       (case sort_key (\<lambda>p. - p_last p) (filter (\<lambda>p. p_agent p = agent \<and> p_exe p = exe) (program_identity d)) of
          [] \<Rightarrow> None | p # _ \<Rightarrow> Some p)"

definition IdentitiesForHash :: "'e env_scheme \<Rightarrow> string \<Rightarrow> int \<Rightarrow> 'x id_db_scheme \<Rightarrow> ProgramIdentity list dbres" where
  "IdentitiesForHash e h lim d =
     bindE (db_read e [''IdentitiesForHash'']
       (sort_key (\<lambda>p. - p_last p) (filter (\<lambda>p. p_sha256 p = h) (program_identity d)))) (limit_rows lim)"

definition FileIntelFor :: "'e env_scheme \<Rightarrow> string \<Rightarrow> 'x id_db_scheme \<Rightarrow> FileIntel option dbres" where
  "FileIntelFor e h d = db_read e [''FileIntelFor''] (find (\<lambda>f. fi_sha256 f = ToLower h) (file_intel d))"

section \<open>The queues\<close>

text \<open>\<open>interval '30 minutes' * power(2, LEAST(attempts, 6))\<close>.\<close>

definition backoff :: "duration \<Rightarrow> nat \<Rightarrow> int \<Rightarrow> duration" where
  "backoff unit cap attempts = unit * 2 ^ nat (min attempts (int cap))"

definition older :: "instant option \<Rightarrow> instant \<Rightarrow> bool" where
  "older at limit = (case at of None \<Rightarrow> False | Some t \<Rightarrow> t < limit)"

definition vt_due :: "instant \<Rightarrow> duration \<Rightarrow> FileIntel \<Rightarrow> bool" where
  "vt_due now refresh f \<longleftrightarrow>
     fi_vt_at f = None \<or>
     (fv_status (fi_vt f) \<in> {''ok'', ''unknown''} \<and> older (fi_vt_at f) (now - refresh)) \<or>
     (fv_status (fi_vt f) = ''failed'' \<and> older (fi_vt_at f) (now - backoff (30 * Minute) 6 (fi_attempts f)))"

definition queue_order :: "(FileIntel \<Rightarrow> bool) \<Rightarrow> FileIntel list \<Rightarrow> FileIntel list" where
  "queue_order never fs =
     sort_key (\<lambda>f. if never f then 0 else 1 :: int) (sort_key (\<lambda>f. - fi_priority f) (sort_key fi_created fs))"

definition FileVTCandidates :: "'e env_scheme \<Rightarrow> duration \<Rightarrow> int \<Rightarrow> 'x id_db_scheme \<Rightarrow> string list dbres" where
  "FileVTCandidates e refresh lim d =
     bindE (db_read e [''FileVTCandidates'']
       (map fi_sha256 (queue_order (\<lambda>f. fi_vt_at f = None) (filter (vt_due (now_of e) refresh) (file_intel d)))))
       (limit_rows lim)"

definition mhr_due :: "instant \<Rightarrow> duration \<Rightarrow> FileIntel \<Rightarrow> bool" where
  "mhr_due now refresh f \<longleftrightarrow>
     (fi_md5 f \<noteq> [] \<or> fi_sha1 f \<noteq> []) \<and>
     (fi_mhr_at f = None \<or>
      (fm_status (fi_mhr f) \<in> {''listed'', ''clean''} \<and> older (fi_mhr_at f) (now - refresh)) \<or>
      (fm_status (fi_mhr f) = ''failed'' \<and> older (fi_mhr_at f) (now - 2 * Hour)))"

definition FileMHRCandidates :: "'e env_scheme \<Rightarrow> duration \<Rightarrow> int \<Rightarrow> 'x id_db_scheme \<Rightarrow> FileIntel list dbres" where
  "FileMHRCandidates e refresh lim d =
     bindE (db_read e [''FileMHRCandidates'']
       (queue_order (\<lambda>f. fi_mhr_at f = None) (filter (mhr_due (now_of e) refresh) (file_intel d))))
       (limit_rows lim)"

definition merge_vt :: "FileVT \<Rightarrow> FileVT \<Rightarrow> FileVT" where
  "merge_vt new old =
     (let ok = fv_status new = ''ok'' in
      \<lparr>fv_status = fv_status new,
       fv_malicious = coalesce (fv_malicious new) (fv_malicious old),
       fv_suspicious = coalesce (fv_suspicious new) (fv_suspicious old),
       fv_harmless = coalesce (fv_harmless new) (fv_harmless old),
       fv_undetected = coalesce (fv_undetected new) (fv_undetected old),
       fv_label = (if ok then fv_label new else fv_label old),
       fv_names = (if ok then fv_names new else fv_names old),
       fv_signers = (if ok then fv_signers new else fv_signers old),
       fv_type = (if ok then fv_type new else fv_type old),
       fv_first_seen = coalesce (fv_first_seen new) (fv_first_seen old),
       fv_last_analysis = coalesce (fv_last_analysis new) (fv_last_analysis old),
       fv_error = fv_error new\<rparr>)"

definition UpsertFileVT :: "'e env_scheme \<Rightarrow> string \<Rightarrow> FileVT \<Rightarrow> 'x id_db_scheme \<Rightarrow> unit dbres \<times> 'x id_db_scheme" where
  "UpsertFileVT e h v d =
     (let k = ToLower h; t = now_of e in
      (db_read e [''UpsertFileVT'', h] (),
       db_write e [''UpsertFileVT'', h] d (d\<lparr>file_intel :=
         upsert_by fi_sha256 k
           (\<lambda>r. r\<lparr>fi_vt := merge_vt v (fi_vt r), fi_attempts := fi_attempts r + 1, fi_vt_at := Some t\<rparr>)
           ((new_file t k)\<lparr>fi_vt := v, fi_attempts := 1, fi_vt_at := Some t\<rparr>) (file_intel d)\<rparr>)))"

definition UpsertFileMHR :: "'e env_scheme \<Rightarrow> string \<Rightarrow> FileMHR \<Rightarrow> 'x id_db_scheme \<Rightarrow> unit dbres \<times> 'x id_db_scheme" where
  "UpsertFileMHR e h m d =
     (let k = ToLower h; t = now_of e in
      (db_read e [''UpsertFileMHR'', h] (),
       db_write e [''UpsertFileMHR'', h] d (d\<lparr>file_intel :=
         upsert_by fi_sha256 k (\<lambda>r. r\<lparr>fi_mhr := m, fi_mhr_at := Some t\<rparr>)
           ((new_file t k)\<lparr>fi_mhr := m, fi_mhr_at := Some t\<rparr>) (file_intel d)\<rparr>)))"

record FileIntelStats =
  fs_files :: nat
  fs_vt_pending :: nat
  fs_vt_checked :: nat
  fs_vt_unknown :: nat
  fs_vt_flagged :: nat
  fs_mhr_checked :: nat
  fs_mhr_listed :: nat
  fs_identities :: nat
  fs_lolbins :: nat

definition FileIntelSummary :: "'e env_scheme \<Rightarrow> 'x id_db_scheme \<Rightarrow> FileIntelStats dbres" where
  "FileIntelSummary e d =
     (let fs = file_intel d; vt = (\<lambda>s. length (filter (\<lambda>f. fv_status (fi_vt f) = s) fs));
          mhr = (\<lambda>s. length (filter (\<lambda>f. fm_status (fi_mhr f) = s) fs)) in
      db_read e [''FileIntelSummary'']
        \<lparr>fs_files = length fs, fs_vt_pending = vt ''pending'', fs_vt_checked = vt ''ok'' + vt ''unknown'',
         fs_vt_unknown = vt ''unknown'',
         fs_vt_flagged = length (filter (\<lambda>f. fv_status (fi_vt f) = ''ok'' \<and> opt_default 0 (fv_malicious (fi_vt f)) > 0) fs),
         fs_mhr_checked = mhr ''listed'' + mhr ''clean'', fs_mhr_listed = mhr ''listed'',
         fs_identities = length (program_identity d), fs_lolbins = length (lolbins d)\<rparr>)"

section \<open>Abusable binaries\<close>

definition after_last_slash :: "string \<Rightarrow> string" where
  "after_last_slash n = rev (takeWhile (\<lambda>c. c \<noteq> CHR ''/'' \<and> c \<noteq> CHR 0x5C) (rev n))"

definition LOLBinName :: "string \<Rightarrow> string" where
  "LOLBinName name = TrimSuffix (after_last_slash (ToLower (TrimSpace name))) ''.exe''"

definition put_lolbin :: "string \<Rightarrow> LOLBin list \<Rightarrow> LOLBin \<Rightarrow> LOLBin list" where
  "put_lolbin source rows it =
     (let name = LOLBinName (lb_name it); row = it\<lparr>lb_source := source, lb_name := name\<rparr> in
      if name = [] then rows
      else upsert_by (\<lambda>r. (lb_source r, lb_name r)) (source, name) (\<lambda>_. row) row rows)"

text \<open>One transaction: an error of any statement leaves the catalogue as it was.\<close>

definition ReplaceLOLBins :: "'e env_scheme \<Rightarrow> string \<Rightarrow> LOLBin list \<Rightarrow> 'x id_db_scheme \<Rightarrow> unit dbres \<times> 'x id_db_scheme" where
  "ReplaceLOLBins e source items d =
     (db_read e [''ReplaceLOLBins'', source] (),
      db_write e [''ReplaceLOLBins'', source] d
        (d\<lparr>lolbins := foldl (put_lolbin source) (filter (\<lambda>r. lb_source r \<noteq> source) (lolbins d)) items\<rparr>))"

definition lolbin_sources :: "string \<Rightarrow> string list" where
  "lolbin_sources os =
     (if ToLower os = ''windows'' then [''lolbas'']
      else if ToLower os \<in> {''linux'', ''darwin'', ''freebsd''} then [''gtfobins'']
      else [''lolbas'', ''gtfobins''])"

text \<open>\<open>ORDER BY source LIMIT 1\<close>: \<open>gtfobins\<close> sorts before \<open>lolbas\<close>.\<close>

definition LOLBinFor :: "'e env_scheme \<Rightarrow> string \<Rightarrow> string \<Rightarrow> 'x id_db_scheme \<Rightarrow> LOLBin option dbres" where
  "LOLBinFor e name os d =
     (let n = LOLBinName name; src = lolbin_sources os;
          pick = (\<lambda>s. find (\<lambda>r. lb_name r = n \<and> lb_source r = s \<and> s \<in> set src) (lolbins d)) in
      if n = [] then Inr None
      else db_read e [''LOLBinFor''] (coalesce (pick ''gtfobins'') (pick ''lolbas'')))"

definition LOLBinCounts :: "'e env_scheme \<Rightarrow> 'x id_db_scheme \<Rightarrow> (string \<times> nat) list dbres" where
  "LOLBinCounts e d =
     db_read e [''LOLBinCounts'']
       (map (\<lambda>s. (s, length (filter (\<lambda>r. lb_source r = s) (lolbins d)))) (remdups (map lb_source (lolbins d))))"

section \<open>Lemmas on upserts\<close>

lemma upsert_by_keys:
  assumes "\<And>r. key r = k \<Longrightarrow> key (upd r) = k" "key new = k"
  shows "map key (upsert_by key k upd new rows) =
           (if k \<in> key ` set rows then map key rows else map key rows @ [k])"
proof -
  have "list_ex (\<lambda>r. key r = k) rows \<longleftrightarrow> k \<in> key ` set rows" by (auto simp: list_ex_iff)
  with assms show ?thesis by (simp add: upsert_by_def)
qed

lemma upsert_by_distinct:
  assumes "\<And>r. key r = k \<Longrightarrow> key (upd r) = k" "key new = k" "distinct (map key rows)"
  shows "distinct (map key (upsert_by key k upd new rows))"
  using upsert_by_keys [of key k upd new rows, OF assms(1,2)] assms(3) by simp

lemma upsert_by_mem:
  "r \<in> set (upsert_by key k upd new rows) \<longleftrightarrow>
     (r \<in> set rows \<and> key r \<noteq> k) \<or> (\<exists>s \<in> set rows. key s = k \<and> r = upd s) \<or>
     (k \<notin> key ` set rows \<and> r = new)"
  by (auto simp: upsert_by_def list_ex_iff)

lemma find_upsert_same:
  assumes "\<And>r. key r = k \<Longrightarrow> key (upd r) = k" "key new = k"
  shows "find (\<lambda>r. key r = k) (upsert_by key k upd new rows) =
           Some (case find (\<lambda>r. key r = k) rows of None \<Rightarrow> new | Some r \<Rightarrow> upd r)"
proof (cases "list_ex (\<lambda>r. key r = k) rows")
  case True
  then have "find (\<lambda>r. key r = k) (map (\<lambda>r. if key r = k then upd r else r) rows) =
      map_option upd (find (\<lambda>r. key r = k) rows) \<and> find (\<lambda>r. key r = k) rows \<noteq> None"
    using assms(1) by (induction rows) auto
  with True show ?thesis by (auto simp: upsert_by_def)
next
  case False
  then have "find (\<lambda>r. key r = k) (rows @ [new]) = Some new \<and> find (\<lambda>r. key r = k) rows = None"
    using assms(2) by (induction rows) auto
  with False show ?thesis by (simp add: upsert_by_def)
qed

lemma find_upsert_other:
  assumes "\<And>r. key r = k \<Longrightarrow> key (upd r) = k" "key new = k" "k' \<noteq> k"
  shows "find (\<lambda>r. key r = k') (upsert_by key k upd new rows) = find (\<lambda>r. key r = k') rows"
proof (cases "list_ex (\<lambda>r. key r = k) rows")
  case True
  have "find (\<lambda>r. key r = k') (map (\<lambda>r. if key r = k then upd r else r) rows) = find (\<lambda>r. key r = k') rows"
    using assms by (induction rows) auto
  with True show ?thesis by (simp add: upsert_by_def)
next
  case False
  have "find (\<lambda>r. key r = k') (rows @ [new]) = find (\<lambda>r. key r = k') rows"
    using assms(2,3) by (induction rows) auto
  with False show ?thesis by (simp add: upsert_by_def)
qed

section \<open>Properties\<close>

text \<open>A failed report never erases a verdict. When a hash that is known gets a failed VirusTotal
  answer, which carries no counts, the counts, the threat label, the names and the signers that
  are stored stay; only the status, the error, the attempts and the time change.\<close>

theorem failed_report_keeps_verdict:
  assumes "\<not> fault e [''UpsertFileVT'', h]" and "find (\<lambda>f. fi_sha256 f = ToLower h) (file_intel d) = Some f"
    and "v = no_vt\<lparr>fv_status := ''failed'', fv_error := Some m\<rparr>"
  shows "\<exists>g. find (\<lambda>f. fi_sha256 f = ToLower h) (file_intel (snd (UpsertFileVT e h v d))) = Some g \<and>
     fi_vt g = (fi_vt f)\<lparr>fv_status := ''failed'', fv_error := Some m\<rparr> \<and>
     fi_attempts g = fi_attempts f + 1 \<and> fi_vt_at g = Some (now_of e)"
  using assms
  by (auto simp: UpsertFileVT_def Let_def find_upsert_same merge_vt_def no_vt_def coalesce_def new_file_def)

definition sample_hash :: string where "sample_hash = ''ab''"

definition sample_files :: id_db where
  "sample_files = \<lparr>program_identity = [], file_intel = [new_file 0 sample_hash], lolbins = []\<rparr>"

theorem failed_report_keeps_verdict_witness:
  "\<exists>g. find (\<lambda>f. fi_sha256 f = ''ab'') (file_intel (snd (UpsertFileVT (ok_env 7) ''AB''
         (no_vt\<lparr>fv_status := ''failed'', fv_error := Some ''timeout''\<rparr>) sample_files))) = Some g \<and> fi_vt_at g = Some 7"
proof -
  have l: "ToLower ''AB'' = ''ab''" by (simp add: ToLower_def lower_char_def char_of_def bit_0)
  have f: "find (\<lambda>f. fi_sha256 f = ToLower ''AB'') (file_intel sample_files) = Some (new_file 0 sample_hash)"
    by (simp add: l sample_files_def new_file_def sample_hash_def)
  from failed_report_keeps_verdict [OF _ f refl, of "ok_env 7" "''timeout''"]
  show ?thesis by (auto simp: l)
qed

text \<open>Retries back off. After a hash gets a failed answer with \<open>n\<close> attempts on record, it is not
  handed out again before half an hour times two to the power of \<open>min (n + 1) 6\<close> has passed.\<close>

theorem failed_hash_backs_off:
  assumes "\<not> fault e [''UpsertFileVT'', h]" and "distinct (map fi_sha256 (file_intel d))"
    and "find (\<lambda>f. fi_sha256 f = ToLower h) (file_intel d) = Some f"
    and "fv_status v = ''failed''"
    and "FileVTCandidates e' refresh lim (snd (UpsertFileVT e h v d)) = Inr hs"
    and "now_of e' \<le> now_of e + 30 * Minute * 2 ^ nat (min (fi_attempts f + 1) 6)"
  shows "ToLower h \<notin> set hs"
proof
  assume "ToLower h \<in> set hs"
  let ?fs = "file_intel (snd (UpsertFileVT e h v d))"
  obtain g where g: "g \<in> set ?fs" "fi_sha256 g = ToLower h" "vt_due (now_of e') refresh g"
    using assms(5) \<open>ToLower h \<in> set hs\<close>
    by (auto simp: FileVTCandidates_def bindE_Inr_iff db_read_Inr_iff limit_rows_Inr_iff queue_order_def dest!: in_set_takeD)
  have dist: "distinct (map fi_sha256 (file_intel d))" by (rule assms(2))
  have fm: "f \<in> set (file_intel d)" "fi_sha256 f = ToLower h" using assms(3) by (auto simp: find_Some_iff)
  obtain s where "s \<in> set (file_intel d)" "fi_sha256 s = ToLower h"
    and gs: "g = s\<lparr>fi_vt := merge_vt v (fi_vt s), fi_attempts := fi_attempts s + 1, fi_vt_at := Some (now_of e)\<rparr>"
    using g(1,2) assms(1) fm by (auto simp: UpsertFileVT_def Let_def upsert_by_mem image_iff)
  moreover note fm
  ultimately have "s = f" using dist unfolding distinct_map inj_on_def by metis
  with gs g(3) assms(4,6) show False
    by (simp add: vt_due_def merge_vt_def older_def backoff_def Let_def)
qed

theorem failed_hash_backs_off_witness:
  "\<exists>hs. FileVTCandidates (ok_env Hour) Day 10 (snd (UpsertFileVT (ok_env 7) sample_hash
     (no_vt\<lparr>fv_status := ''failed''\<rparr>) sample_files)) = Inr hs \<and> sample_hash \<notin> set hs"
proof -
  have l: "ToLower sample_hash = sample_hash" by (simp add: sample_hash_def ToLower_def lower_char_def)
  obtain hs where h: "FileVTCandidates (ok_env Hour) Day 10 (snd (UpsertFileVT (ok_env 7) sample_hash
     (no_vt\<lparr>fv_status := ''failed''\<rparr>) sample_files)) = Inr hs"
    by (simp add: FileVTCandidates_def limit_rows_def)
  have f: "find (\<lambda>f. fi_sha256 f = ToLower sample_hash) (file_intel sample_files) = Some (new_file 0 sample_hash)"
    by (simp add: l sample_files_def new_file_def)
  have "ToLower sample_hash \<notin> set hs"
    by (rule failed_hash_backs_off [OF _ _ f _ h]) (simp_all add: sample_files_def new_file_def)
  with h l show ?thesis by auto
qed

end
