(* ===== verification/Traffic.thy ===== *)
theory Traffic
  imports Alerts "HOL-Library.AList"
begin

text \<open>
  The accounting table and its aggregates (\<open>internal/db/queries.go\<close>, \<open>models.go\<close>,
  \<open>services.go\<close>, \<open>rollups.go\<close>). A row of \<open>acct\<close> is a record; a statement with
  \<open>GROUP BY\<close> is a list of groups in the order of their first row, sorted by the statement's
  \<open>ORDER BY\<close>; rows that it leaves tied stay in that order.
\<close>

section \<open>Rows\<close>

record flow =
  ip_src :: addr
  ip_dst :: addr
  port_src :: int
  port_dst :: int
  ip_proto :: int
  packets :: int
  bytes :: int
  stamp :: instant
  stamp_updated :: "instant option"

record Window =
  Since :: instant
  Until :: instant

definition in_window :: "Window \<Rightarrow> flow \<Rightarrow> bool" where
  "in_window w f \<longleftrightarrow> Since w \<le> stamp f \<and> stamp f < Until w"

text \<open>\<open>column <<= ANY(locals)\<close>.\<close>

definition local_ip :: "prefix list \<Rightarrow> addr \<Rightarrow> bool" where
  "local_ip nets a = list_ex (\<lambda>p. subnet_eq (host_prefix a) p) nets"

definition src_local :: "prefix list \<Rightarrow> flow \<Rightarrow> bool" where "src_local nets f = local_ip nets (ip_src f)"
definition dst_local :: "prefix list \<Rightarrow> flow \<Rightarrow> bool" where "dst_local nets f = local_ip nets (ip_dst f)"

definition sum_of :: "('a \<Rightarrow> int) \<Rightarrow> 'a list \<Rightarrow> int" where
  "sum_of g xs = sum_list (map g xs)"

definition group_rows :: "('a \<Rightarrow> 'k) \<Rightarrow> 'a list \<Rightarrow> ('k \<times> 'a list) list" where
  "group_rows key xs = map (\<lambda>k. (k, filter (\<lambda>x. key x = k) xs)) (remdups (map key xs))"

definition distinct_count :: "('a \<Rightarrow> 'k) \<Rightarrow> 'a list \<Rightarrow> int" where
  "distinct_count key xs = int (length (remdups (map key xs)))"

section \<open>Names of ports and protocols\<close>

definition wellKnownPorts :: "(int \<times> string) list" where
  "wellKnownPorts =
    [(20, ''ftp-data''), (21, ''ftp''), (22, ''ssh''), (23, ''telnet''), (25, ''smtp''), (53, ''dns''), (67, ''dhcp''), (68, ''dhcp''),
     (69, ''tftp''), (80, ''http''), (110, ''pop3''), (123, ''ntp''), (137, ''netbios''), (138, ''netbios''), (139, ''netbios''),
     (143, ''imap''), (161, ''snmp''), (162, ''snmp-trap''), (179, ''bgp''), (389, ''ldap''), (443, ''https''), (445, ''smb''),
     (465, ''smtps''), (500, ''isakmp''), (514, ''syslog''), (515, ''lpd''), (548, ''afp''), (587, ''submission''), (631, ''ipp''),
     (636, ''ldaps''), (853, ''dns-over-tls''), (873, ''rsync''), (989, ''ftps''), (990, ''ftps''), (993, ''imaps''), (995, ''pop3s''),
     (1194, ''openvpn''), (1433, ''mssql''), (1521, ''oracle''), (1701, ''l2tp''), (1723, ''pptp''), (1883, ''mqtt''), (1900, ''ssdp''),
     (2049, ''nfs''), (2375, ''docker''), (3000, ''grafana''), (3306, ''mysql''), (3389, ''rdp''), (3478, ''stun''), (4500, ''ipsec-nat''),
     (5000, ''upnp''), (5060, ''sip''), (5061, ''sips''), (5222, ''xmpp''), (5353, ''mdns''), (5432, ''postgres''), (5900, ''vnc''),
     (6379, ''redis''), (6881, ''bittorrent''), (8080, ''http-alt''), (8443, ''https-alt''), (8883, ''mqtts''), (9000, ''php-fpm''),
     (9090, ''prometheus''), (9100, ''node-exporter''), (27017, ''mongodb''), (32400, ''plex''), (51820, ''wireguard'')]"

definition ServiceName :: "int \<Rightarrow> string" where
  "ServiceName port = opt_default [] (map_of wellKnownPorts port)"

definition protoNames :: "(int \<times> string) list" where
  "protoNames =
    [(0, ''ip''), (1, ''icmp''), (2, ''igmp''), (6, ''tcp''), (17, ''udp''), (41, ''ipv6''), (47, ''gre''), (50, ''esp''), (51, ''ah''),
     (58, ''icmpv6''), (89, ''ospf''), (112, ''vrrp''), (132, ''sctp'')]"

text \<open>The buffer of \<open>itoa\<close> is filled from its end; \<open>digits_down\<close> is its loop.\<close>

fun digits_down :: "nat \<Rightarrow> string \<Rightarrow> string" where
  "digits_down n acc = (if n = 0 then acc else digits_down (n div 10) (digit_char (n mod 10) # acc))"

declare digits_down.simps [simp del]

definition itoa :: "int \<Rightarrow> string" where
  "itoa n = (if n = 0 then ''0'' else (if n < 0 then ''-'' else []) @ digits_down (nat \<bar>n\<bar>) [])"

definition ProtoName :: "int \<Rightarrow> string" where
  "ProtoName n = (case map_of protoNames n of Some s \<Rightarrow> s | None \<Rightarrow> ''proto-'' @ itoa n)"

section \<open>Overview and time series\<close>

record Totals =
  t_bytes :: int
  t_packets :: int
  t_flows :: int
  t_local_hosts :: int
  t_external :: int
  t_in :: int
  t_out :: int
  t_local :: int

definition Overview :: "'e env_scheme \<Rightarrow> Window \<Rightarrow> prefix list \<Rightarrow> flow list \<Rightarrow> Totals dbres" where
  "Overview e w nets acct =
     (let f = filter (in_window w) acct; ls = src_local nets; ld = dst_local nets in
      db_read e [''Overview'']
        \<lparr>t_bytes = sum_of bytes f, t_packets = sum_of packets f, t_flows = int (length f),
         t_local_hosts = int (length (remdups (map ip_src (filter ls f) @ map ip_dst (filter ld f)))),
         t_external = int (length (remdups (map ip_src (filter (\<lambda>x. \<not> ls x) f) @ map ip_dst (filter (\<lambda>x. \<not> ld x) f)))),
         t_in = sum_of bytes (filter (\<lambda>x. \<not> ls x \<and> ld x) f),
         t_out = sum_of bytes (filter (\<lambda>x. ls x \<and> \<not> ld x) f),
         t_local = sum_of bytes (filter (\<lambda>x. ls x \<and> ld x) f)\<rparr>)"

record Bucket =
  b_time :: instant
  b_bytes :: int
  b_in :: int
  b_out :: int
  b_packets :: int
  b_flows :: int

text \<open>\<open>int64(interval.Seconds())\<close> truncates towards zero; anything under a minute is a minute.\<close>

definition bucket_secs :: "duration \<Rightarrow> int" where
  "bucket_secs interval = (if interval < 60 * Second then 60 else interval div Second)"

definition involves :: "addr option \<Rightarrow> flow \<Rightarrow> bool" where
  "involves ip f = (case ip of None \<Rightarrow> True | Some a \<Rightarrow> ip_src f = a \<or> ip_dst f = a)"

definition bucket_of :: "int \<Rightarrow> flow \<Rightarrow> instant" where
  "bucket_of secs f = stamp f div (secs * Second) * (secs * Second)"

definition Timeseries ::
  "'e env_scheme \<Rightarrow> Window \<Rightarrow> duration \<Rightarrow> prefix list \<Rightarrow> addr option \<Rightarrow> flow list \<Rightarrow> Bucket list dbres" where
  "Timeseries e w interval nets ip acct =
     (let f = filter (\<lambda>x. in_window w x \<and> involves ip x) acct; ls = src_local nets; ld = dst_local nets in
      db_read e [''Timeseries'']
        (map (\<lambda>(t, g). \<lparr>b_time = t, b_bytes = sum_of bytes g,
                b_in = sum_of bytes (filter (\<lambda>x. \<not> ls x \<and> ld x) g),
                b_out = sum_of bytes (filter (\<lambda>x. ls x \<and> \<not> ld x) g),
                b_packets = sum_of packets g, b_flows = int (length g)\<rparr>)
           (sort_key fst (group_rows (bucket_of (bucket_secs interval)) f))))"

section \<open>Protocols, ports and raw flows\<close>

record ProtoStat =
  ps_proto :: int
  ps_name :: string
  ps_bytes :: int
  ps_packets :: int
  ps_flows :: int

definition Protocols :: "'e env_scheme \<Rightarrow> Window \<Rightarrow> int \<Rightarrow> flow list \<Rightarrow> ProtoStat list dbres" where
  "Protocols e w lim acct =
     bindE (db_read e [''Protocols''] (group_rows ip_proto (filter (in_window w) acct))) (\<lambda>gs.
       limit_rows lim (sort_key (\<lambda>p. - ps_bytes p)
         (map (\<lambda>(p, g). \<lparr>ps_proto = p, ps_name = ProtoName p, ps_bytes = sum_of bytes g,
                          ps_packets = sum_of packets g, ps_flows = int (length g)\<rparr>) gs)))"

record PortStat =
  po_port :: int
  po_proto :: int
  po_name :: string
  po_service :: string
  po_bytes :: int
  po_packets :: int
  po_flows :: int

definition service_port :: "flow \<Rightarrow> int \<times> int" where
  "service_port f = (min (port_src f) (port_dst f), ip_proto f)"

definition has_ports :: "flow \<Rightarrow> bool" where
  "has_ports f \<longleftrightarrow> ip_proto f \<in> {6, 17, 132}"

definition port_stats :: "flow list \<Rightarrow> PortStat list" where
  "port_stats fs =
     sort_key (\<lambda>p. - po_bytes p)
       (map (\<lambda>((port, proto), g). \<lparr>po_port = port, po_proto = proto, po_name = ProtoName proto,
               po_service = ServiceName port, po_bytes = sum_of bytes g, po_packets = sum_of packets g,
               po_flows = int (length g)\<rparr>)
         (group_rows service_port (filter has_ports fs)))"

definition Ports :: "'e env_scheme \<Rightarrow> Window \<Rightarrow> int \<Rightarrow> flow list \<Rightarrow> PortStat list dbres" where
  "Ports e w lim acct =
     bindE (db_read e [''Ports''] (port_stats (filter (in_window w) acct))) (limit_rows lim)"

definition HostPorts :: "'e env_scheme \<Rightarrow> Window \<Rightarrow> addr \<Rightarrow> int \<Rightarrow> flow list \<Rightarrow> PortStat list dbres" where
  "HostPorts e w ip lim acct =
     bindE (db_read e [''HostPorts''] (port_stats (filter (\<lambda>f. in_window w f \<and> involves (Some ip) f) acct)))
       (limit_rows (if lim \<le> 0 then 25 else lim))"

record FlowsOptions =
  fo_ip :: "addr option"
  fo_port :: int
  fo_proto :: int
  fo_limit :: int
  fo_offset :: int

definition flow_matches :: "Window \<Rightarrow> FlowsOptions \<Rightarrow> flow \<Rightarrow> bool" where
  "flow_matches w q f \<longleftrightarrow>
     in_window w f \<and> involves (fo_ip q) f \<and>
     (fo_port q > 0 \<longrightarrow> port_src f = fo_port q \<or> port_dst f = fo_port q) \<and>
     (fo_proto q > 0 \<longrightarrow> ip_proto f = fo_proto q)"

text \<open>A raw row as it is listed: with the nicknames of its ends and the name of its protocol.\<close>

definition Flows ::
  "'e env_scheme \<Rightarrow> Window \<Rightarrow> FlowsOptions \<Rightarrow> (addr \<rightharpoonup> string) \<Rightarrow> flow list
     \<Rightarrow> (flow \<times> string option \<times> string option \<times> string) list dbres" where
  "Flows e w q nick acct =
     (let lim = (if fo_limit q \<le> 0 \<or> fo_limit q > 5000 then 200 else fo_limit q) in
      bindE (db_read e [''Flows'']
        (sort_key (\<lambda>f. - stamp f) (sort_key (\<lambda>f. - bytes f) (filter (flow_matches w q) acct)))) (\<lambda>rows.
      if fo_offset q < 0 then Inl (DbError ''OFFSET must not be negative'')
      else Inr (map (\<lambda>f. (f, nick (ip_src f), nick (ip_dst f), ProtoName (ip_proto f)))
                 (take (nat lim) (drop (nat (fo_offset q)) rows)))))"

section \<open>Roll-ups\<close>

record hour_row =
  hr_in :: int
  hr_out :: int
  hr_packets :: int
  hr_flows :: int
  hr_peers :: int
  hr_ports :: int

text \<open>The tables by their primary keys.\<close>

record rollup_db =
  host_hourly :: "((addr \<times> instant) \<times> hour_row) list"
  host_peer_daily :: "((addr \<times> addr \<times> instant) \<times> (int \<times> int)) list"

text \<open>A flow seen from a local end: the host, its bytes in and out, the peer and the port.\<close>

record side =
  sd_host :: addr
  sd_hour :: instant
  sd_peer :: addr
  sd_port :: int
  sd_in :: int
  sd_out :: int
  sd_packets :: int

definition out_side :: "flow \<Rightarrow> side" where
  "out_side f = \<lparr>sd_host = ip_src f, sd_hour = stamp f div Hour * Hour, sd_peer = ip_dst f,
     sd_port = min (port_src f) (port_dst f), sd_in = 0, sd_out = bytes f, sd_packets = packets f\<rparr>"

definition in_side :: "flow \<Rightarrow> side" where
  "in_side f = \<lparr>sd_host = ip_dst f, sd_hour = stamp f div Hour * Hour, sd_peer = ip_src f,
     sd_port = min (port_src f) (port_dst f), sd_in = bytes f, sd_out = 0, sd_packets = packets f\<rparr>"

definition local_sides :: "prefix list \<Rightarrow> flow list \<Rightarrow> side list" where
  "local_sides nets fs = map out_side (filter (src_local nets) fs) @ map in_side (filter (dst_local nets) fs)"

definition hour_of_sides :: "side list \<Rightarrow> hour_row" where
  "hour_of_sides g =
     \<lparr>hr_in = sum_of sd_in g, hr_out = sum_of sd_out g, hr_packets = sum_of sd_packets g,
      hr_flows = int (length g), hr_peers = distinct_count sd_peer g, hr_ports = distinct_count sd_port g\<rparr>"

definition put_groups :: "('k \<Rightarrow> 'v option \<Rightarrow> 'g \<Rightarrow> 'v) \<Rightarrow> ('k \<times> 'g) list \<Rightarrow> ('k \<times> 'v) list \<Rightarrow> ('k \<times> 'v) list" where
  "put_groups f gs m = foldl (\<lambda>m (k, g). AList.update k (f k (map_of m k) g) m) m gs"

definition RollupHours ::
  "'e env_scheme \<Rightarrow> prefix list \<Rightarrow> instant \<Rightarrow> instant \<Rightarrow> flow list \<Rightarrow> rollup_db \<Rightarrow> int dbres \<times> rollup_db" where
  "RollupHours e nets frm until acct d =
     (let fs = filter (in_window \<lparr>Since = frm div Hour * Hour, Until = until\<rparr>) acct;
          gs = group_rows (\<lambda>s. (sd_host s, sd_hour s)) (local_sides nets fs);
          key = [''RollupHours'', Itoa frm]
      in (db_read e key (int (length gs)),
          db_write e key d (d\<lparr>host_hourly := put_groups (\<lambda>_ _ g. hour_of_sides g) gs (host_hourly d)\<rparr>)))"

text \<open>Traffic with an external peer, seen from its local end: host, peer, day and bytes.\<close>

definition peer_pairs :: "prefix list \<Rightarrow> flow list \<Rightarrow> ((addr \<times> addr \<times> instant) \<times> int) list" where
  "peer_pairs nets fs =
     map (\<lambda>f. ((ip_src f, ip_dst f, stamp f div Day), bytes f)) (filter (\<lambda>f. src_local nets f \<and> \<not> dst_local nets f) fs) @
     map (\<lambda>f. ((ip_dst f, ip_src f, stamp f div Day), bytes f)) (filter (\<lambda>f. dst_local nets f \<and> \<not> src_local nets f) fs)"

definition add_day :: "(int \<times> int) option \<Rightarrow> ('k \<times> int) list \<Rightarrow> int \<times> int" where
  "add_day old g =
     (case opt_default (0, 0) old of (b, n) \<Rightarrow> (b + sum_of snd g, n + int (length g)))"

definition RollupPeerDays ::
  "'e env_scheme \<Rightarrow> prefix list \<Rightarrow> instant \<Rightarrow> instant \<Rightarrow> flow list \<Rightarrow> rollup_db \<Rightarrow> int dbres \<times> rollup_db" where
  "RollupPeerDays e nets frm until acct d =
     (let gs = group_rows fst (peer_pairs nets (filter (in_window \<lparr>Since = frm, Until = until\<rparr>) acct));
          key = [''RollupPeerDays'', Itoa frm]
      in (db_read e key (int (length gs)),
          db_write e key d (d\<lparr>host_peer_daily := put_groups (\<lambda>_ old g. add_day old g) gs (host_peer_daily d)\<rparr>)))"

definition PruneRollups :: "'e env_scheme \<Rightarrow> duration \<Rightarrow> duration \<Rightarrow> rollup_db \<Rightarrow> unit dbres \<times> rollup_db" where
  "PruneRollups e hourly daily d =
     (let now = now_of e;
          d1 = d\<lparr>host_hourly := filter (\<lambda>x. \<not> snd (fst x) < now - hourly) (host_hourly d)\<rparr>;
          d2 = d1\<lparr>host_peer_daily := filter (\<lambda>x. \<not> snd (snd (fst x)) < (now - daily) div Day) (host_peer_daily d)\<rparr>
      in if fault e [''PruneRollups'', ''hourly''] then (Inl (DbError ''PruneRollups''), d)
         else if fault e [''PruneRollups'', ''daily''] then (Inl (DbError ''PruneRollups''), d1)
         else (db_read e [''PruneRollups'', ''ids''] (), d2))"

section \<open>Sums over groups\<close>

lemma sum_of_simps [simp]: "sum_of g [] = 0" "sum_of g (x # xs) = g x + sum_of g xs"
  "sum_of g (xs @ ys) = sum_of g xs + sum_of g ys"
  by (simp_all add: sum_of_def)

lemma sum_of_map [simp]: "sum_of g (map h xs) = sum_of (\<lambda>x. g (h x)) xs"
  by (simp add: sum_of_def comp_def)

lemma sum_of_nonneg: "(\<And>x. x \<in> set xs \<Longrightarrow> 0 \<le> g x) \<Longrightarrow> 0 \<le> sum_of g xs"
  by (induction xs) auto

lemma sum_of_length: "sum_of (\<lambda>_. 1) xs = int (length xs)"
  by (induction xs) auto

lemma sum_of_zero [simp]: "sum_of (\<lambda>_. 0) xs = 0"
  by (induction xs) auto

lemma sum_of_filter: "sum_of g (filter P xs) = sum_of (\<lambda>x. if P x then g x else 0) xs"
  by (induction xs) auto

lemma sum_of_insort: "sum_of g (insort_key k x xs) = g x + sum_of g xs"
  by (induction xs) auto

lemma sum_of_sort_key [simp]: "sum_of g (sort_key k xs) = sum_of g xs"
  by (induction xs) (auto simp: sum_of_insort)

lemma distinct_keys_insort: "distinct (map k (insort_key k x xs)) \<longleftrightarrow> k x \<notin> k ` set xs \<and> distinct (map k xs)"
  by (induction xs) (auto simp: set_insort_key)

lemma distinct_keys_sort: "distinct (map k (sort_key k xs)) \<longleftrightarrow> distinct (map k xs)"
  by (induction xs) (auto simp: distinct_keys_insort)

lemma sum_of_swap: "sum_of (\<lambda>k. sum_of (\<lambda>x. h k x) xs) ks = sum_of (\<lambda>x. sum_of (\<lambda>k. h k x) ks) xs"
  by (induction ks) (auto simp: sum_of_def sum_list_addf)

lemma sum_of_pick: "distinct ks \<Longrightarrow> sum_of (\<lambda>k. if y = k then c else 0) ks = (if y \<in> set ks then c else 0)"
  by (induction ks) auto

text \<open>Grouping loses nothing: summing over the groups and then over their rows is summing over all rows.\<close>

lemma sum_groups: "sum_of (\<lambda>(k, g). sum_of h g) (group_rows key xs) = sum_of h xs"
proof -
  have "sum_of (\<lambda>(k, g). sum_of h g) (group_rows key xs) =
      sum_of (\<lambda>k. sum_of (\<lambda>x. if key x = k then h x else 0) xs) (remdups (map key xs))"
    by (simp add: group_rows_def sum_of_filter)
  also have "\<dots> = sum_of (\<lambda>x. sum_of (\<lambda>k. if key x = k then h x else 0) (remdups (map key xs))) xs"
    by (rule sum_of_swap)
  also have "\<dots> = sum_of (\<lambda>x. if x \<in> set xs then h x else 0) xs"
    unfolding sum_of_def by (intro arg_cong [of _ _ sum_list] map_cong) (auto simp: sum_of_pick [unfolded sum_of_def])
  also have "\<dots> = sum_of h xs"
    unfolding sum_of_def by (intro arg_cong [of _ _ sum_list] map_cong) auto
  finally show ?thesis .
qed

lemma group_rows_nonempty: "(k, g) \<in> set (group_rows key xs) \<Longrightarrow> g \<noteq> []"
  by (auto simp: group_rows_def filter_empty_conv)

lemma group_rows_mem: "(k, g) \<in> set (group_rows key xs) \<Longrightarrow> x \<in> set g \<Longrightarrow> x \<in> set xs \<and> key x = k"
  by (auto simp: group_rows_def)

lemma group_rows_distinct: "distinct (map fst (group_rows key xs))"
  by (simp add: group_rows_def comp_def)

lemma map_of_group_rows:
  "map_of (group_rows key xs) k = (if k \<in> set (map key xs) then Some (filter (\<lambda>x. key x = k) xs) else None)"
  unfolding group_rows_def by (induction xs) (auto simp: map_of_map_restrict restrict_map_def)

section \<open>Properties of the aggregates\<close>

text \<open>The directions partition the traffic. The bytes of an overview are those in, out, inside the
  local networks and between two external addresses, so that with counters that are not negative
  the three reported directions never exceed the total; the packets and flows of its buckets add up.\<close>

theorem directions_partition_traffic:
  assumes "Overview e w nets acct = Inr t" and "\<forall>f \<in> set acct. 0 \<le> bytes f"
  shows "t_bytes t = t_in t + t_out t + t_local t +
           sum_of bytes (filter (\<lambda>f. in_window w f \<and> \<not> src_local nets f \<and> \<not> dst_local nets f) acct) \<and>
         t_in t + t_out t + t_local t \<le> t_bytes t"
proof -
  have split: "sum_of bytes (filter (in_window w) xs) =
      sum_of bytes (filter (\<lambda>x. \<not> src_local nets x \<and> dst_local nets x) (filter (in_window w) xs)) +
      sum_of bytes (filter (\<lambda>x. src_local nets x \<and> \<not> dst_local nets x) (filter (in_window w) xs)) +
      sum_of bytes (filter (\<lambda>x. src_local nets x \<and> dst_local nets x) (filter (in_window w) xs)) +
      sum_of bytes (filter (\<lambda>f. in_window w f \<and> \<not> src_local nets f \<and> \<not> dst_local nets f) xs)" for xs
    by (induction xs) auto
  moreover have "0 \<le> sum_of bytes (filter (\<lambda>f. in_window w f \<and> \<not> src_local nets f \<and> \<not> dst_local nets f) acct)"
    using assms(2) by (intro sum_of_nonneg) auto
  ultimately show ?thesis using assms(1) by (auto simp: Overview_def Let_def db_read_Inr_iff)
qed

text \<open>The chart adds up to the overview: whatever the interval, the buckets of the time series without
  an address filter have distinct times in order, and their bytes, bytes in and out, packets and flows
  sum to those of the overview of the same window.\<close>

theorem timeseries_sums_to_overview:
  assumes T: "Timeseries e w interval nets None acct = Inr bs" and V: "Overview e w nets acct = Inr t"
  shows "sum_of b_bytes bs = t_bytes t \<and> sum_of b_in bs = t_in t \<and> sum_of b_out bs = t_out t \<and>
         sum_of b_packets bs = t_packets t \<and> sum_of b_flows bs = t_flows t \<and>
         sorted (map b_time bs) \<and> distinct (map b_time bs)"
proof -
  let ?f = "filter (in_window w) acct"
  let ?gs = "group_rows (bucket_of (bucket_secs interval)) ?f"
  let ?row = "\<lambda>(t, g). \<lparr>b_time = t, b_bytes = sum_of bytes g,
      b_in = sum_of bytes (filter (\<lambda>x. \<not> src_local nets x \<and> dst_local nets x) g),
      b_out = sum_of bytes (filter (\<lambda>x. src_local nets x \<and> \<not> dst_local nets x) g),
      b_packets = sum_of packets g, b_flows = int (length g)\<rparr>"
  have bs: "bs = map ?row (sort_key fst ?gs)"
    using T by (simp add: Timeseries_def Let_def db_read_Inr_iff involves_def)
  have agg: "sum_of F bs = sum_of h ?f" if "\<And>t g. F (?row (t, g)) = sum_of h g" for F h
  proof -
    have "sum_of F bs = sum_of (\<lambda>(k, g). sum_of h g) ?gs"
      unfolding bs sum_of_map sum_of_sort_key using that
      by (intro arg_cong [of _ _ "\<lambda>x. sum_of x ?gs"]) (simp add: fun_eq_iff)
    then show ?thesis by (simp only: sum_groups)
  qed
  have "sum_of b_bytes bs = sum_of bytes ?f" by (rule agg) simp
  moreover have "sum_of b_in bs = sum_of (\<lambda>x. if \<not> src_local nets x \<and> dst_local nets x then bytes x else 0) ?f"
    by (rule agg) (simp add: sum_of_filter)
  moreover have "sum_of b_out bs = sum_of (\<lambda>x. if src_local nets x \<and> \<not> dst_local nets x then bytes x else 0) ?f"
    by (rule agg) (simp add: sum_of_filter)
  moreover have "sum_of b_packets bs = sum_of packets ?f" by (rule agg) simp
  moreover have "sum_of b_flows bs = sum_of (\<lambda>_. 1) ?f" by (rule agg) (simp add: sum_of_length)
  moreover have times: "map b_time bs = map fst (sort_key fst ?gs)" by (simp add: bs comp_def split_beta)
  moreover have "distinct (map fst (sort_key fst ?gs))"
    by (simp add: distinct_keys_sort group_rows_distinct)
  ultimately show ?thesis
    using V by (simp add: Overview_def Let_def db_read_Inr_iff sum_of_length sum_of_filter)
qed

definition sample_flow :: flow where
  "sample_flow = \<lparr>ip_src = v4 10 0 0 5, ip_dst = v4 8 8 8 8, port_src = 50000, port_dst = 443, ip_proto = 6,
     packets = 3, bytes = 1500, stamp = 90 * Second, stamp_updated = None\<rparr>"

definition sample_window :: Window where
  "sample_window = \<lparr>Since = 0, Until = Hour\<rparr>"

theorem directions_partition_traffic_witness:
  "\<exists>t. Overview (ok_env 0) sample_window [Prefix (v4 10 0 0 0) 8] [sample_flow] = Inr t \<and>
     t_in t + t_out t + t_local t \<le> 1500 \<and> t_bytes t = 1500"
proof -
  obtain t where t: "Overview (ok_env 0) sample_window [Prefix (v4 10 0 0 0) 8] [sample_flow] = Inr t"
    by (simp add: Overview_def Let_def)
  have "t_in t + t_out t + t_local t \<le> t_bytes t"
    using directions_partition_traffic [OF t] by (simp add: sample_flow_def)
  moreover have "t_bytes t = 1500"
    using t by (auto simp: Overview_def Let_def in_window_def sample_flow_def sample_window_def)
  ultimately show ?thesis using t by auto
qed

theorem timeseries_sums_to_overview_witness:
  "\<exists>bs t. Timeseries (ok_env 0) sample_window 0 [] None [sample_flow] = Inr bs \<and>
     Overview (ok_env 0) sample_window [] [sample_flow] = Inr t \<and> sum_of b_bytes bs = t_bytes t"
proof -
  obtain bs where b: "Timeseries (ok_env 0) sample_window 0 [] None [sample_flow] = Inr bs"
    by (simp add: Timeseries_def Let_def)
  obtain t where t: "Overview (ok_env 0) sample_window [] [sample_flow] = Inr t"
    by (simp add: Overview_def Let_def)
  show ?thesis using timeseries_sums_to_overview [OF b t] b t by blast
qed

section \<open>Properties of the roll-ups\<close>

lemma map_of_filter_key: "map_of (filter (\<lambda>x. P (fst x)) m) k = (if P k then map_of m k else None)"
  by (induction m) auto

lemma update_same: "map_of m k = Some v \<Longrightarrow> AList.update k v m = m"
  by (induction m) (auto split: if_splits)

lemma put_groups_skip: "k \<notin> set (map fst gs) \<Longrightarrow> map_of (put_groups f gs m) k = map_of m k"
  unfolding put_groups_def by (induction gs arbitrary: m) (auto simp: update_conv')

lemma put_groups_lookup:
  "distinct (map fst gs) \<Longrightarrow>
     map_of (put_groups f gs m) k = (case map_of gs k of None \<Rightarrow> map_of m k | Some g \<Rightarrow> Some (f k (map_of m k) g))"
proof (induction gs arbitrary: m)
  case Nil
  then show ?case by (simp add: put_groups_def)
next
  case (Cons x gs)
  obtain k' g where x: "x = (k', g)" by (cases x)
  have step: "put_groups f ((k', g) # gs) m = put_groups f gs (AList.update k' (f k' (map_of m k') g) m)"
    by (simp add: put_groups_def)
  show ?case
  proof (cases "k = k'")
    case True
    with Cons.prems x have "k \<notin> set (map fst gs)" by simp
    then show ?thesis by (simp add: x step put_groups_skip True update_conv')
  next
    case False
    with Cons show ?thesis by (simp add: x step update_conv' split: option.split)
  qed
qed

text \<open>Storing groups that are there already changes nothing.\<close>

lemma put_groups_same:
  "(\<And>k g. (k, g) \<in> set gs \<Longrightarrow> map_of m k = Some (f k (map_of m k) g)) \<Longrightarrow> put_groups f gs m = m"
  unfolding put_groups_def by (induction gs) (auto simp: update_same)

definition pairs_between :: "prefix list \<Rightarrow> flow list \<Rightarrow> instant \<Rightarrow> instant \<Rightarrow> ((addr \<times> addr \<times> instant) \<times> int) list" where
  "pairs_between nets acct lo hi = peer_pairs nets (filter (in_window \<lparr>Since = lo, Until = hi\<rparr>) acct)"

definition day_total :: "prefix list \<Rightarrow> flow list \<Rightarrow> instant \<Rightarrow> instant \<Rightarrow> addr \<times> addr \<times> instant \<Rightarrow> int \<times> int" where
  "day_total nets acct lo hi k =
     (let g = filter (\<lambda>p. fst p = k) (pairs_between nets acct lo hi) in (sum_of snd g, int (length g)))"

definition stored_day :: "rollup_db \<Rightarrow> addr \<times> addr \<times> instant \<Rightarrow> int \<times> int" where
  "stored_day d k = opt_default (0, 0) (map_of (host_peer_daily d) k)"

definition plus2 :: "int \<times> int \<Rightarrow> int \<times> int \<Rightarrow> int \<times> int" where
  "plus2 x y = (fst x + fst y, snd x + snd y)"

lemma plus2_simps [simp]: "plus2 (0, 0) x = x" "plus2 x (0, 0) = x" "plus2 (plus2 x y) z = plus2 x (plus2 y z)"
  by (simp_all add: plus2_def)

lemma plus2_commute: "plus2 x y = plus2 y x"
  by (simp add: plus2_def add.commute)

text \<open>A successful pass over a span adds exactly the traffic of the span to every key.\<close>

lemma RollupPeerDays_adds:
  assumes "\<not> fault e [''RollupPeerDays'', Itoa frm]"
  shows "stored_day (snd (RollupPeerDays e nets frm until acct d)) k =
           plus2 (stored_day d k) (day_total nets acct frm until k)"
proof -
  let ?ps = "peer_pairs nets (filter (in_window \<lparr>Since = frm, Until = until\<rparr>) acct)"
  have look: "map_of (host_peer_daily (snd (RollupPeerDays e nets frm until acct d))) k =
      (case map_of (group_rows fst ?ps) k of None \<Rightarrow> map_of (host_peer_daily d) k
       | Some g \<Rightarrow> Some (add_day (map_of (host_peer_daily d) k) g))"
    using assms by (simp add: RollupPeerDays_def Let_def put_groups_lookup group_rows_distinct)
  show ?thesis
  proof (cases "k \<in> set (map fst ?ps)")
    case True
    then show ?thesis
      by (simp add: stored_day_def look map_of_group_rows day_total_def pairs_between_def add_day_def plus2_def
          Let_def opt_default_def split_beta)
  next
    case False
    then have "filter (\<lambda>p. fst p = k) ?ps = []" by (auto simp: filter_empty_conv)
    with False show ?thesis
      by (simp add: stored_day_def look map_of_group_rows day_total_def pairs_between_def)
  qed
qed

lemma pair_sums:
  "fst (day_total nets acct lo hi k) =
     sum_of (\<lambda>f. (if src_local nets f \<and> \<not> dst_local nets f \<and> (ip_src f, ip_dst f, stamp f div Day) = k then bytes f else 0) +
                 (if dst_local nets f \<and> \<not> src_local nets f \<and> (ip_dst f, ip_src f, stamp f div Day) = k then bytes f else 0))
       (filter (in_window \<lparr>Since = lo, Until = hi\<rparr>) acct)"
  "snd (day_total nets acct lo hi k) =
     sum_of (\<lambda>f. (if src_local nets f \<and> \<not> dst_local nets f \<and> (ip_src f, ip_dst f, stamp f div Day) = k then 1 else 0) +
                 (if dst_local nets f \<and> \<not> src_local nets f \<and> (ip_dst f, ip_src f, stamp f div Day) = k then 1 else 0))
       (filter (in_window \<lparr>Since = lo, Until = hi\<rparr>) acct)"
  unfolding day_total_def pairs_between_def Let_def peer_pairs_def fst_conv snd_conv
  by (induction acct) (auto simp: sum_of_length [symmetric])

lemma sum_of_window_split:
  "lo \<le> mid \<Longrightarrow> mid \<le> hi \<Longrightarrow>
     sum_of h (filter (in_window \<lparr>Since = lo, Until = hi\<rparr>) acct) =
     sum_of h (filter (in_window \<lparr>Since = lo, Until = mid\<rparr>) acct) + sum_of h (filter (in_window \<lparr>Since = mid, Until = hi\<rparr>) acct)"
  by (induction acct) (auto simp: in_window_def)

lemma day_total_split:
  "lo \<le> mid \<Longrightarrow> mid \<le> hi \<Longrightarrow>
     day_total nets acct lo hi k = plus2 (day_total nets acct lo mid k) (day_total nets acct mid hi k)"
  by (rule prod_eqI) (simp_all add: plus2_def pair_sums sum_of_window_split [of lo mid hi])

lemma day_total_empty: "hi \<le> lo \<Longrightarrow> day_total nets acct lo hi k = (0, 0)"
  by (rule prod_eqI) (simp_all add: pair_sums in_window_def)

text \<open>The sides of one host and hour, in terms of the flows.\<close>

definition hour_flows :: "instant \<Rightarrow> instant \<Rightarrow> instant \<Rightarrow> flow list \<Rightarrow> flow list" where
  "hour_flows frm until h acct =
     filter (\<lambda>f. frm div Hour * Hour \<le> stamp f \<and> stamp f < until \<and> stamp f div Hour * Hour = h) acct"

lemma sides_of_host:
  "filter (\<lambda>s. (sd_host s, sd_hour s) = (a, h))
      (local_sides nets (filter (in_window \<lparr>Since = frm div Hour * Hour, Until = until\<rparr>) acct)) =
   (if local_ip nets a then
      map out_side (filter (\<lambda>f. ip_src f = a) (hour_flows frm until h acct)) @
      map in_side (filter (\<lambda>f. ip_dst f = a) (hour_flows frm until h acct))
    else [])"
proof -
  have 1: "filter (\<lambda>s. (sd_host s, sd_hour s) = (a, h)) (map out_side (filter (src_local nets) (filter P xs))) =
      (if local_ip nets a then map out_side (filter (\<lambda>f. ip_src f = a) (filter (\<lambda>f. P f \<and> stamp f div Hour * Hour = h) xs)) else [])"
    for P xs
    by (induction xs) (auto simp: out_side_def src_local_def)
  have 2: "filter (\<lambda>s. (sd_host s, sd_hour s) = (a, h)) (map in_side (filter (dst_local nets) (filter P xs))) =
      (if local_ip nets a then map in_side (filter (\<lambda>f. ip_dst f = a) (filter (\<lambda>f. P f \<and> stamp f div Hour * Hour = h) xs)) else [])"
    for P xs
    by (induction xs) (auto simp: in_side_def dst_local_def)
  show ?thesis
    unfolding local_sides_def filter_append 1 2 by (simp add: hour_flows_def in_window_def conj_ac)
qed

lemma distinct_count_card: "distinct_count key xs = int (card (key ` set xs))"
  by (simp add: distinct_count_def length_remdups_card_conv)

lemma hour_of_host:
  "hour_of_sides (map out_side os @ map in_side is') =
     \<lparr>hr_in = sum_of bytes is', hr_out = sum_of bytes os, hr_packets = sum_of packets os + sum_of packets is',
      hr_flows = int (length os + length is'),
      hr_peers = int (card (ip_dst ` set os \<union> ip_src ` set is')),
      hr_ports = int (card ((\<lambda>f. min (port_src f) (port_dst f)) ` set (os @ is')))\<rparr>"
proof -
  have s: "sum_of g (map out_side os @ map in_side is') = sum_of (\<lambda>f. g (out_side f)) os + sum_of (\<lambda>f. g (in_side f)) is'" for g
    by (simp add: sum_of_def comp_def)
  show ?thesis
    by (simp add: hour_of_sides_def s distinct_count_card out_side_def in_side_def image_Un image_image)
qed

text \<open>C31: Recomputing an hour is idempotent and exact. A successful roll-up of a span leaves, for a
  local host and an hour in which the span has traffic of it, the entry that counts this traffic
  from the flows: bytes received are those of the flows to the host, bytes sent those of the flows
  from it, packets and flows of both, the number of different addresses at the other end and of
  different lower ports. Every other entry stays, and doing it again changes nothing.\<close>

theorem rollup_hours_exact:
  assumes "\<not> fault e [''RollupHours'', Itoa frm]"
  shows "let d' = snd (RollupHours e nets frm until acct d);
             fs = filter (\<lambda>f. frm div Hour * Hour \<le> stamp f \<and> stamp f < until \<and> stamp f div Hour * Hour = h) acct;
             sent = filter (\<lambda>f. ip_src f = a) fs; received = filter (\<lambda>f. ip_dst f = a) fs
         in map_of (host_hourly d') (a, h) =
              (if local_ip nets a \<and> sent @ received \<noteq> [] then
                 Some \<lparr>hr_in = (\<Sum>f\<leftarrow>received. bytes f), hr_out = (\<Sum>f\<leftarrow>sent. bytes f),
                       hr_packets = (\<Sum>f\<leftarrow>sent @ received. packets f), hr_flows = int (length (sent @ received)),
                       hr_peers = int (card (ip_dst ` set sent \<union> ip_src ` set received)),
                       hr_ports = int (card ((\<lambda>f. min (port_src f) (port_dst f)) ` set (sent @ received)))\<rparr>
               else map_of (host_hourly d) (a, h)) \<and>
            snd (RollupHours e nets frm until acct d') = d'"
proof -
  let ?d = "snd (RollupHours e nets frm until acct d)"
  let ?ss = "local_sides nets (filter (in_window \<lparr>Since = frm div Hour * Hour, Until = until\<rparr>) acct)"
  have look: "map_of (host_hourly (snd (RollupHours e nets frm until acct x))) k =
      (if filter (\<lambda>s. (sd_host s, sd_hour s) = k) ?ss = [] then map_of (host_hourly x) k
       else Some (hour_of_sides (filter (\<lambda>s. (sd_host s, sd_hour s) = k) ?ss)))" for x k
    using assms unfolding RollupHours_def Let_def
    by (auto simp: put_groups_lookup group_rows_distinct map_of_group_rows filter_empty_conv)
  have "host_hourly (snd (RollupHours e nets frm until acct ?d)) = host_hourly ?d"
    using assms unfolding RollupHours_def [of e nets frm until acct ?d] Let_def
    by (auto simp: look group_rows_def filter_empty_conv intro!: put_groups_same)
  moreover have "snd (RollupHours e nets frm until acct ?d) =
      ?d\<lparr>host_hourly := host_hourly (snd (RollupHours e nets frm until acct ?d))\<rparr>"
    using assms by (simp add: RollupHours_def Let_def)
  ultimately have again: "snd (RollupHours e nets frm until acct ?d) = ?d" by simp
  show ?thesis
    unfolding Let_def again look sides_of_host hour_flows_def [symmetric]
    by (auto simp: hour_of_host sum_of_def)
qed

definition sample_reply :: flow where
  "sample_reply = \<lparr>ip_src = v4 8 8 8 8, ip_dst = v4 10 0 0 5, port_src = 443, port_dst = 50000, ip_proto = 6,
     packets = 5, bytes = 4000, stamp = 100 * Second, stamp_updated = None\<rparr>"

theorem rollup_hours_exact_witness:
  "map_of (host_hourly (snd (RollupHours (ok_env 0) [Prefix (v4 10 0 0 0) 8] 0 Hour [sample_flow, sample_reply]
     \<lparr>host_hourly = [], host_peer_daily = []\<rparr>))) (v4 10 0 0 5, 0) =
     Some \<lparr>hr_in = 4000, hr_out = 1500, hr_packets = 8, hr_flows = 2, hr_peers = 1, hr_ports = 1\<rparr>"
proof -
  have f: "\<not> fault (ok_env 0) [''RollupHours'', Itoa 0]" by simp
  have ne: "v4 8 8 8 8 \<noteq> v4 10 0 0 5" by (simp add: v4_def)
  have l: "local_ip [Prefix (v4 10 0 0 0) 8] (v4 10 0 0 5)" by code_simp
  show ?thesis
    using rollup_hours_exact [OF f, of "[Prefix (v4 10 0 0 0) 8]" Hour "[sample_flow, sample_reply]"
      "\<lparr>host_hourly = [], host_peer_daily = []\<rparr>" 0 "v4 10 0 0 5"] ne l
    by (simp add: Let_def sample_flow_def sample_reply_def)
qed

end
