(* ===== verification/Agents.thy ===== *)
theory Agents
  imports Identity Alerts Traffic
begin

text \<open>
  Endpoint agents in the database (\<open>internal/db/agents.go\<close>, \<open>agent_retention.go\<close>, migrations
  009, 010 and 012): enrolment tokens that are exchanged once for an agent's own token, the
  per-minute connection aggregates with their merge on conflict, and what is read back from them.
  SHA-256 and the random source belong to the standard library; they are the parameters
  \<open>sha256\<close> and \<open>rand_hex\<close> of a call's environment.
\<close>

section \<open>Data\<close>

record agent_env = env +
  sha256 :: "string \<Rightarrow> string"
  rand_hex :: string

record Agent =
  ag_id :: int
  ag_name :: string
  ag_hostname :: string
  ag_os :: string
  ag_arch :: string
  ag_version :: string
  ag_hash :: string
  ag_ips :: "addr list"
  ag_capture :: string
  ag_enrolled :: instant
  ag_last_seen :: "instant option"
  ag_last_ip :: "addr option"
  ag_events :: int
  ag_last_batch :: int
  ag_dropped :: int
  ag_revoked :: "instant option"
  ag_note :: string
  ag_auto :: bool

record EnrollToken =
  et_hash :: string
  et_name :: string
  et_by :: string
  et_created :: instant
  et_expires :: instant
  et_used :: "instant option"
  et_agent :: "int option"

text \<open>One aggregate as an agent reports it, and as it is stored.\<close>

record EndpointConn =
  c_minute :: instant
  c_host :: string
  c_proto :: string
  c_dst :: string
  c_port :: int
  c_exe :: string
  c_name :: string
  c_user :: string
  c_sha256 :: string
  c_pid :: int
  c_cmdline :: string
  c_container :: string
  c_count :: int
  c_bytes :: int

record conn_row =
  cr_agent :: int
  cr_minute :: instant
  cr_host :: addr
  cr_proto :: string
  cr_dst :: addr
  cr_port :: int
  cr_exe :: string
  cr_name :: string
  cr_user :: string
  cr_sha256 :: string
  cr_pid :: int
  cr_cmdline :: string
  cr_container :: string
  cr_count :: int
  cr_bytes :: int

record AgentRetention =
  ConnDays :: int
  StaleAgentDays :: int
  AutoUpdate :: bool

record agent_db = id_db +
  agents :: "Agent list"
  agent_seq :: int
  enroll_tokens :: "EnrollToken list"
  conns :: "conn_row list"
  agent_retention :: "AgentRetention option"

definition empty_agent_db :: agent_db where
  "empty_agent_db = \<lparr>program_identity = [], file_intel = [], lolbins = [], agents = [], agent_seq = 0,
     enroll_tokens = [], conns = [], agent_retention = None\<rparr>"

section \<open>Tokens\<close>

definition HashToken :: "'e agent_env_scheme \<Rightarrow> string \<Rightarrow> string" where
  "HashToken e token = sha256 e (TrimSpace token)"

definition NewToken :: "'e agent_env_scheme \<Rightarrow> string \<times> string" where
  "NewToken e = (rand_hex e, HashToken e (rand_hex e))"

definition CreateEnrollToken ::
  "'e agent_env_scheme \<Rightarrow> string \<Rightarrow> string \<Rightarrow> duration \<Rightarrow> agent_db \<Rightarrow> (string \<times> instant) dbres \<times> agent_db" where
  "CreateEnrollToken e name by ttl d =
     (case NewToken e of (token, hash) \<Rightarrow>
        let expires = now_of e + ttl in
        if fault e [''CreateEnrollToken''] then (Inl (DbError ''CreateEnrollToken''), d)
        else if list_ex (\<lambda>t. et_hash t = hash) (enroll_tokens d) then (Inl (DbError ''duplicate key value''), d)
        else (Inr (token, expires), d\<lparr>enroll_tokens := enroll_tokens d @
          [\<lparr>et_hash = hash, et_name = TrimSpace name, et_by = by, et_created = now_of e, et_expires = expires,
            et_used = None, et_agent = None\<rparr>]\<rparr>))"

definition usable_token :: "'e agent_env_scheme \<Rightarrow> string \<Rightarrow> EnrollToken \<Rightarrow> bool" where
  "usable_token e hash t \<longleftrightarrow> et_hash t = hash \<and> et_used t = None \<and> et_expires t > now_of e"

text \<open>The cast of a text to \<open>inet\<close>, and of a list of texts to \<open>inet[]\<close>.\<close>

definition inet_cast :: "string \<Rightarrow> addr option" where
  "inet_cast s = Option.bind (inet_arg s) id"

definition inet_array :: "string list \<Rightarrow> addr list option" where
  "inet_array ss = (if list_all (\<lambda>s. inet_cast s \<noteq> None) ss then Some (List.map_filter inet_cast ss) else None)"

datatype enroll_error = ErrEnrollToken | EnrollDb dberr

definition new_agent ::
  "instant \<Rightarrow> int \<Rightarrow> string \<Rightarrow> string \<Rightarrow> string \<Rightarrow> string \<Rightarrow> string \<Rightarrow> string \<Rightarrow> addr list \<Rightarrow> addr option \<Rightarrow> Agent" where
  "new_agent t i name hostname os arch version hash ips last_ip =
     \<lparr>ag_id = i, ag_name = name, ag_hostname = hostname, ag_os = os, ag_arch = arch, ag_version = version,
      ag_hash = hash, ag_ips = ips, ag_capture = [], ag_enrolled = t, ag_last_seen = Some t, ag_last_ip = last_ip,
      ag_events = 0, ag_last_batch = 0, ag_dropped = 0, ag_revoked = None, ag_note = [], ag_auto = True\<rparr>"

definition agent_name :: "string \<Rightarrow> string \<Rightarrow> string" where
  "agent_name name hostname = (if name \<noteq> [] then name else if hostname \<noteq> [] then hostname else ''agent'')"

text \<open>One transaction: every error leaves the tables as they were (the number drawn for the agent is
  not given back).\<close>

definition EnrollAgent ::
  "'e agent_env_scheme \<Rightarrow> string \<Rightarrow> string \<Rightarrow> string \<Rightarrow> string \<Rightarrow> string \<Rightarrow> string list \<Rightarrow> string \<Rightarrow> agent_db
     \<Rightarrow> (enroll_error + (Agent \<times> string)) \<times> agent_db" where
  "EnrollAgent e enrollToken hostname os arch version ips remote d =
     (let h = HashToken e enrollToken in
      if fault e [''EnrollAgent'', ''take''] then (Inl (EnrollDb (DbError ''EnrollAgent'')), d)
      else case find (usable_token e h) (enroll_tokens d) of
        None \<Rightarrow> (Inl ErrEnrollToken, d)
      | Some t \<Rightarrow>
          if \<not> list_all clean_utf8 [agent_name (et_name t) hostname, hostname, os, arch, version]
          then (Inl (EnrollDb refused_text), d)
          else case (NewToken e, inet_array ips, inet_arg remote) of
            ((token, hash), Some addrs, Some last_ip) \<Rightarrow>
              (let i = agent_seq d + 1; d1 = d\<lparr>agent_seq := i\<rparr>;
                   a = new_agent (now_of e) i (agent_name (et_name t) hostname) hostname os arch version hash addrs last_ip in
               if fault e [''EnrollAgent'', ''insert''] \<or> list_ex (\<lambda>x. ag_hash x = hash) (agents d)
               then (Inl (EnrollDb (DbError ''EnrollAgent'')), d1)
               else if fault e [''EnrollAgent'', ''commit''] then (Inl (EnrollDb (DbError ''EnrollAgent'')), d1)
               else (Inr (a, token), d1\<lparr>agents := agents d @ [a],
                 enroll_tokens := map (\<lambda>x. if et_hash x = h then x\<lparr>et_used := Some (now_of e), et_agent := Some i\<rparr> else x)
                   (enroll_tokens d)\<rparr>))
          | _ \<Rightarrow> (Inl (EnrollDb (DbError ''invalid input syntax for type inet'')), d))"

definition AgentByToken :: "'e agent_env_scheme \<Rightarrow> string \<Rightarrow> agent_db \<Rightarrow> Agent option dbres" where
  "AgentByToken e token d =
     db_read e [''AgentByToken''] (find (\<lambda>a. ag_hash a = HashToken e token \<and> ag_revoked a = None) (agents d))"

section \<open>Administration\<close>

definition ListAgents :: "'e env_scheme \<Rightarrow> agent_db \<Rightarrow> Agent list dbres" where
  "ListAgents e d = db_read e [''ListAgents''] (sort_key (\<lambda>a. - ag_enrolled a) (agents d))"

definition CountActiveAgents :: "'e env_scheme \<Rightarrow> agent_db \<Rightarrow> nat dbres" where
  "CountActiveAgents e d = db_read e [''CountActiveAgents''] (length (filter (\<lambda>a. ag_revoked a = None) (agents d)))"

definition map_agent :: "(Agent \<Rightarrow> bool) \<Rightarrow> (Agent \<Rightarrow> Agent) \<Rightarrow> agent_db \<Rightarrow> agent_db" where
  "map_agent P f d = d\<lparr>agents := map (\<lambda>a. if P a then f a else a) (agents d)\<rparr>"

definition AgentByID :: "'e env_scheme \<Rightarrow> int \<Rightarrow> agent_db \<Rightarrow> Agent option dbres" where
  "AgentByID e i d = db_read e [''AgentByID''] (find (\<lambda>a. ag_id a = i) (agents d))"

definition UpdateAgent :: "'e env_scheme \<Rightarrow> int \<Rightarrow> string \<Rightarrow> string \<Rightarrow> agent_db \<Rightarrow> Agent option dbres \<times> agent_db" where
  "UpdateAgent e i name note d =
     (let n = TrimSpace name;
          d' = map_agent (\<lambda>a. ag_id a = i)
                 (\<lambda>a. a\<lparr>ag_name := (if n = [] then ag_name a else n), ag_note := TrimSpace note\<rparr>) d
      in (db_read e [''UpdateAgent''] (find (\<lambda>a. ag_id a = i) (agents d')), db_write e [''UpdateAgent''] d d'))"

definition SetAgentAutoUpdate :: "'e env_scheme \<Rightarrow> int \<Rightarrow> bool \<Rightarrow> agent_db \<Rightarrow> bool dbres \<times> agent_db" where
  "SetAgentAutoUpdate e i on d =
     (db_read e [''SetAgentAutoUpdate''] (list_ex (\<lambda>a. ag_id a = i) (agents d)),
      db_write e [''SetAgentAutoUpdate''] d (map_agent (\<lambda>a. ag_id a = i) (\<lambda>a. a\<lparr>ag_auto := on\<rparr>) d))"

definition RevokeAgent :: "'e env_scheme \<Rightarrow> int \<Rightarrow> agent_db \<Rightarrow> bool dbres \<times> agent_db" where
  "RevokeAgent e i d =
     (db_read e [''RevokeAgent''] (list_ex (\<lambda>a. ag_id a = i \<and> ag_revoked a = None) (agents d)),
      db_write e [''RevokeAgent''] d
        (map_agent (\<lambda>a. ag_id a = i \<and> ag_revoked a = None) (\<lambda>a. a\<lparr>ag_revoked := Some (now_of e)\<rparr>) d))"

text \<open>Deleting agents deletes what they reported (\<open>ON DELETE CASCADE\<close>).\<close>

definition drop_agents :: "(Agent \<Rightarrow> bool) \<Rightarrow> agent_db \<Rightarrow> agent_db" where
  "drop_agents P d =
     (let gone = map ag_id (filter P (agents d)) in
      d\<lparr>agents := filter (\<lambda>a. \<not> P a) (agents d),
        conns := filter (\<lambda>c. cr_agent c \<notin> set gone) (conns d),
        program_identity := filter (\<lambda>p. p_agent p \<notin> set gone) (program_identity d)\<rparr>)"

definition DeleteAgent :: "'e env_scheme \<Rightarrow> int \<Rightarrow> agent_db \<Rightarrow> bool dbres \<times> agent_db" where
  "DeleteAgent e i d =
     (db_read e [''DeleteAgent''] (list_ex (\<lambda>a. ag_id a = i) (agents d)),
      db_write e [''DeleteAgent''] d (drop_agents (\<lambda>a. ag_id a = i) d))"

definition BuildTarget :: "string \<Rightarrow> string \<Rightarrow> string" where
  "BuildTarget os arch =
     (if ToLower arch \<noteq> ''x86_64'' \<and> ToLower arch \<noteq> ''amd64'' then []
      else if ToLower os = ''linux'' then ''linux-amd64''
      else if ToLower os = ''windows'' then ''windows-amd64'' else [])"

section \<open>Reports\<close>

text \<open>\<open>ips\<close> keeps its value when the new list is empty.\<close>

definition TouchAgent ::
  "'e env_scheme \<Rightarrow> int \<Rightarrow> string list \<Rightarrow> string \<Rightarrow> string \<Rightarrow> string \<Rightarrow> int \<Rightarrow> int \<Rightarrow> agent_db \<Rightarrow> unit dbres \<times> agent_db" where
  "TouchAgent e i ips version capture remote batch dropped d =
     (if \<not> (clean_utf8 version \<and> clean_utf8 capture) then (Inl refused_text, d)
      else case (inet_array ips, inet_arg remote) of
        (Some addrs, Some rip) \<Rightarrow>
          (db_read e [''TouchAgent''] (),
           db_write e [''TouchAgent''] d (map_agent (\<lambda>a. ag_id a = i)
             (\<lambda>a. a\<lparr>ag_last_seen := Some (now_of e), ag_ips := (if addrs = [] then ag_ips a else addrs),
                    ag_version := (if version = [] then ag_version a else version),
                    ag_capture := (if capture = [] then ag_capture a else capture),
                    ag_last_ip := coalesce rip (ag_last_ip a), ag_events := ag_events a + batch,
                    ag_last_batch := batch, ag_dropped := dropped\<rparr>) d))
      | _ \<Rightarrow> (Inl (DbError ''invalid input syntax for type inet''), d))"

definition conn_key :: "conn_row \<Rightarrow> int \<times> instant \<times> addr \<times> string \<times> addr \<times> int \<times> string \<times> string \<times> string" where
  "conn_key c = (cr_agent c, cr_minute c, cr_host c, cr_proto c, cr_dst c, cr_port c, cr_exe c, cr_user c, cr_container c)"

definition row_of :: "int \<Rightarrow> EndpointConn \<Rightarrow> addr \<Rightarrow> addr \<Rightarrow> conn_row" where
  "row_of agent c host dst =
     \<lparr>cr_agent = agent, cr_minute = c_minute c div Minute * Minute, cr_host = host, cr_proto = c_proto c,
      cr_dst = dst, cr_port = c_port c, cr_exe = c_exe c, cr_name = c_name c, cr_user = c_user c,
      cr_sha256 = c_sha256 c, cr_pid = c_pid c, cr_cmdline = c_cmdline c, cr_container = c_container c,
      cr_count = c_count c, cr_bytes = c_bytes c\<rparr>"

definition merge_conn :: "conn_row \<Rightarrow> conn_row \<Rightarrow> conn_row" where
  "merge_conn new old =
     old\<lparr>cr_count := cr_count old + cr_count new, cr_bytes := cr_bytes old + cr_bytes new, cr_pid := cr_pid new,
         cr_name := cr_name new, cr_sha256 := cr_sha256 new,
         cr_cmdline := (if cr_cmdline new \<noteq> [] then cr_cmdline new else cr_cmdline old)\<rparr>"

definition conn_texts :: "EndpointConn \<Rightarrow> string list" where
  "conn_texts c = [c_proto c, c_exe c, c_name c, c_user c, c_sha256 c, c_cmdline c, c_container c]"

text \<open>One statement of the batch; \<open>None\<close> is its error: a text that is no address or that is not
  stored, or a number that does not fit its column.\<close>

definition put_conn :: "int \<Rightarrow> EndpointConn \<Rightarrow> conn_row list \<Rightarrow> conn_row list option" where
  "put_conn agent c rows =
     (case (inet_cast (c_host c), inet_cast (c_dst c)) of
        (Some host, Some dst) \<Rightarrow>
          let new = row_of agent c host dst; old = find (\<lambda>r. conn_key r = conn_key new) rows;
              n = (case old of None \<Rightarrow> cr_count new | Some r \<Rightarrow> cr_count r + cr_count new);
              b = (case old of None \<Rightarrow> cr_bytes new | Some r \<Rightarrow> cr_bytes r + cr_bytes new) in
          if list_all clean_utf8 (conn_texts c) \<and> int32_ok (c_count c) \<and> int32_ok (c_pid c) \<and> int32_ok (c_port c) \<and> int32_ok n \<and> int64_ok b
          then Some (upsert_by conn_key (conn_key new) (merge_conn new) new rows)
          else None
      | _ \<Rightarrow> None)"

primrec put_conns :: "int \<Rightarrow> EndpointConn list \<Rightarrow> conn_row list \<Rightarrow> conn_row list option" where
  "put_conns agent [] rows = Some rows"
| "put_conns agent (c # cs) rows = Option.bind (put_conn agent c rows) (put_conns agent cs)"

text \<open>The statements are sent as one batch, which the server runs as one transaction.\<close>

definition InsertEndpointConns ::
  "'e env_scheme \<Rightarrow> int \<Rightarrow> EndpointConn list \<Rightarrow> agent_db \<Rightarrow> int dbres \<times> agent_db" where
  "InsertEndpointConns e agent cs d =
     (if cs = [] then (Inr 0, d)
      else if fault e [''InsertEndpointConns''] \<or> \<not> list_ex (\<lambda>a. ag_id a = agent) (agents d)
      then (Inl (DbError ''InsertEndpointConns''), d)
      else case put_conns agent cs (conns d) of
             None \<Rightarrow> (Inl (DbError ''InsertEndpointConns''), d)
           | Some rows \<Rightarrow> (Inr (int (length cs)), d\<lparr>conns := rows\<rparr>))"

section \<open>Retention\<close>

definition DefaultAgentRetention :: AgentRetention where
  "DefaultAgentRetention = \<lparr>ConnDays = 15, StaleAgentDays = 0, AutoUpdate = True\<rparr>"

definition ValidateAgentRetention :: "AgentRetention \<Rightarrow> string option" where
  "ValidateAgentRetention r =
     (if ConnDays r < 0 \<or> ConnDays r > 3650 then Some ''conn_days must be between 0 (keep forever) and 3650''
      else if StaleAgentDays r < 0 \<or> StaleAgentDays r > 3650 then Some ''stale_agent_days must be between 0 (never) and 3650''
      else None)"

definition GetAgentRetention :: "'e env_scheme \<Rightarrow> agent_db \<Rightarrow> AgentRetention dbres" where
  "GetAgentRetention e d =
     bindE (db_read e [''GetSetting'', ''agent_retention''] (agent_retention d)) (\<lambda>s.
       Inr (case s of None \<Rightarrow> DefaultAgentRetention
            | Some r \<Rightarrow> if ValidateAgentRetention r = None then r else DefaultAgentRetention))"

definition SetAgentRetention :: "'e env_scheme \<Rightarrow> AgentRetention \<Rightarrow> agent_db \<Rightarrow> unit dbres \<times> agent_db" where
  "SetAgentRetention e r d =
     (case ValidateAgentRetention r of Some m \<Rightarrow> (Inl (DbError m), d)
      | None \<Rightarrow> (db_read e [''SetSetting'', ''agent_retention''] (),
                 db_write e [''SetSetting'', ''agent_retention''] d (d\<lparr>agent_retention := Some r\<rparr>)))"

definition PruneEndpointConns :: "'e env_scheme \<Rightarrow> duration \<Rightarrow> agent_db \<Rightarrow> nat dbres \<times> agent_db" where
  "PruneEndpointConns e keep d =
     (let old = (\<lambda>c. cr_minute c < now_of e - keep) in
      (db_read e [''PruneEndpointConns''] (length (filter old (conns d))),
       db_write e [''PruneEndpointConns''] d (d\<lparr>conns := filter (\<lambda>c. \<not> old c) (conns d)\<rparr>)))"

definition stale_agent :: "instant \<Rightarrow> int \<Rightarrow> Agent \<Rightarrow> bool" where
  "stale_agent now days a \<longleftrightarrow> opt_default (ag_enrolled a) (ag_last_seen a) < now - days * Day"

definition PruneAgentData :: "'e env_scheme \<Rightarrow> AgentRetention \<Rightarrow> agent_db \<Rightarrow> (nat \<times> nat) dbres \<times> agent_db" where
  "PruneAgentData e r d =
     (case (if ConnDays r > 0 then PruneEndpointConns e (ConnDays r * 24 * Hour) d else (Inr 0, d)) of
        (Inl m, d1) \<Rightarrow> (Inl m, d1)
      | (Inr n, d1) \<Rightarrow>
          if StaleAgentDays r > 0 then
            (let old = stale_agent (now_of e) (StaleAgentDays r) in
             (bindE (db_read e [''PruneAgentData''] ()) (\<lambda>_. Inr (n, length (filter old (agents d1)))),
              db_write e [''PruneAgentData''] d1 (drop_agents old d1)))
          else (Inr (n, 0), d1))"

section \<open>What was reported\<close>

text \<open>The arrow of a label is U+2192 in UTF-8.\<close>

definition procLabel :: "string \<Rightarrow> string \<Rightarrow> string \<Rightarrow> string" where
  "procLabel name user container =
     (let n = (if container \<noteq> [] then name @ [CHR '' '', CHR 0xE2, CHR 0x86, CHR 0x92, CHR '' ''] @ container else name) in
      if user \<noteq> [] then n @ '' ('' @ user @ '')'' else n)"

record ProcessStat =
  st_host :: "addr option"
  st_exe :: string
  st_name :: string
  st_user :: string
  st_container :: string
  st_sha256 :: string
  st_conns :: int
  st_bytes :: int
  st_peers :: int
  st_ports :: int
  st_last :: instant
  st_top :: "string list"

definition max_text :: "string list \<Rightarrow> string" where
  "max_text ss = foldl (\<lambda>m s. if lexordp_eq (map of_char m :: nat list) (map of_char s) then s else m) [] ss"

definition max_instant :: "instant list \<Rightarrow> instant" where
  "max_instant ts = (case ts of [] \<Rightarrow> 0 | t # r \<Rightarrow> foldl max t r)"

definition in_minutes :: "Window \<Rightarrow> conn_row \<Rightarrow> bool" where
  "in_minutes w c \<longleftrightarrow> Since w \<le> cr_minute c \<and> cr_minute c < Until w"

definition program_of :: "conn_row \<Rightarrow> string \<times> string \<times> string" where
  "program_of c = (cr_exe c, cr_user c, cr_container c)"

text \<open>The three destinations with the most connections, printed as address and port.\<close>

definition top_destinations :: "conn_row list \<Rightarrow> string list" where
  "top_destinations cs =
     map (\<lambda>((dst, port), _). AddrString dst @ '':'' @ Itoa port)
       (take 3 (sort_key (\<lambda>(_, g). - sum_of cr_count g) (group_rows (\<lambda>c. (cr_dst c, cr_port c)) cs)))"

definition process_stat :: "addr option \<Rightarrow> conn_row list \<Rightarrow> ProcessStat" where
  "process_stat host g =
     (let c = hd g in
      \<lparr>st_host = host, st_exe = cr_exe c, st_name = max_text (map cr_name g), st_user = cr_user c,
       st_container = cr_container c, st_sha256 = max_text (map cr_sha256 g),
       st_conns = sum_of cr_count g, st_bytes = sum_of cr_bytes g,
       st_peers = distinct_count cr_dst g, st_ports = distinct_count cr_port g,
       st_last = max_instant (map cr_minute g), st_top = top_destinations g\<rparr>)"

definition HostProcesses :: "'e env_scheme \<Rightarrow> addr \<Rightarrow> Window \<Rightarrow> int \<Rightarrow> agent_db \<Rightarrow> ProcessStat list dbres" where
  "HostProcesses e host w lim d =
     bindE (db_read e [''HostProcesses'']
       (sort_key (\<lambda>p. - st_conns p)
         (map (\<lambda>(_, g). process_stat None g)
           (group_rows program_of (filter (\<lambda>c. cr_host c = host \<and> in_minutes w c) (conns d))))))
       (limit_rows (if lim \<le> 0 then 50 else lim))"

definition ProcessesTowards :: "'e env_scheme \<Rightarrow> addr \<Rightarrow> Window \<Rightarrow> int \<Rightarrow> agent_db \<Rightarrow> ProcessStat list dbres" where
  "ProcessesTowards e dst w lim d =
     bindE (db_read e [''ProcessesTowards'']
       (sort_key (\<lambda>p. - st_conns p)
         (map (\<lambda>((host, _), g). (process_stat (Some host) g)\<lparr>st_peers := 1\<rparr>)
           (group_rows (\<lambda>c. (cr_host c, program_of c)) (filter (\<lambda>c. cr_dst c = dst \<and> in_minutes w c) (conns d))))))
       (limit_rows (if lim \<le> 0 then 50 else lim))"

text \<open>For every peer of an address, at most three labels, those with the most connections first.\<close>

definition peer_rows :: "addr \<Rightarrow> Window \<Rightarrow> agent_db \<Rightarrow> (addr \<times> conn_row) list" where
  "peer_rows ip w d =
     map (\<lambda>c. (cr_dst c, c)) (filter (\<lambda>c. cr_host c = ip \<and> in_minutes w c) (conns d)) @
     map (\<lambda>c. (cr_host c, c)) (filter (\<lambda>c. cr_dst c = ip \<and> in_minutes w c) (conns d))"

definition ProcessesForPeers :: "'e env_scheme \<Rightarrow> addr \<Rightarrow> Window \<Rightarrow> agent_db \<Rightarrow> (addr \<times> string list) list dbres" where
  "ProcessesForPeers e ip w d =
     db_read e [''ProcessesForPeers'']
       (map (\<lambda>(peer, g).
          (peer, map (\<lambda>((name, user, container), _). procLabel name user container)
             (take 3 (sort_key (\<lambda>(_, cs). - sum_of (\<lambda>c. cr_count (snd c)) cs)
               (group_rows (\<lambda>c. (cr_name (snd c), cr_user (snd c), cr_container (snd c))) g)))))
         (group_rows fst (peer_rows ip w d)))"

definition ProcessesFor ::
  "'e env_scheme \<Rightarrow> addr \<Rightarrow> addr \<Rightarrow> int \<Rightarrow> Window \<Rightarrow> int \<Rightarrow> agent_db \<Rightarrow> string list dbres" where
  "ProcessesFor e host peer port w lim d =
     (let w' = \<lparr>Since = Since w - 2 * Minute, Until = Until w + 2 * Minute\<rparr>;
          cs = filter (\<lambda>c. cr_host c = host \<and> cr_dst c = peer \<and> in_minutes w' c \<and> (port > 0 \<longrightarrow> cr_port c = port)) (conns d)
      in bindE (db_read e [''ProcessesFor'']
           (sort_key (\<lambda>(_, g). - sum_of cr_count g) (group_rows (\<lambda>c. (cr_name c, cr_user c, cr_exe c, cr_container c)) cs)))
         (\<lambda>gs. bindE (limit_rows (if lim \<le> 0 then 3 else lim) gs) (\<lambda>rows.
           Inr (map (\<lambda>((name, user, exe, container), _).
             procLabel (if name = [] then exe else name) user container) rows))))"

text \<open>The most recently seen active agent that owns an address; an agent never seen comes last.\<close>

definition AgentForHost :: "'e env_scheme \<Rightarrow> addr \<Rightarrow> agent_db \<Rightarrow> Agent option dbres" where
  "AgentForHost e host d =
     (let own = filter (\<lambda>a. host \<in> set (ag_ips a) \<and> ag_revoked a = None) (agents d);
          seen = sort_key (\<lambda>a. - opt_default 0 (ag_last_seen a)) (filter (\<lambda>a. ag_last_seen a \<noteq> None) own) @
                 filter (\<lambda>a. ag_last_seen a = None) own
      in db_read e [''AgentForHost''] (case seen of [] \<Rightarrow> None | a # _ \<Rightarrow> Some a))"

record AgentDest =
  ad_dst :: addr
  ad_port :: int
  ad_proto :: string
  ad_conns :: int
  ad_programs :: "string list"
  ad_last :: instant

record AgentActivity =
  aa_rows :: nat
  aa_conns :: int
  aa_programs :: int
  aa_peers :: int
  aa_first :: "instant option"
  aa_last :: "instant option"
  aa_by_program :: "ProcessStat list"
  aa_destinations :: "AgentDest list"
  aa_timeline :: "(instant \<times> int \<times> int) list"
  aa_recent :: "conn_row list"
  aa_bucket :: int

definition agent_dest :: "conn_row list \<Rightarrow> AgentDest" where
  "agent_dest g =
     (let c = hd g in
      \<lparr>ad_dst = cr_dst c, ad_port = cr_port c, ad_proto = cr_proto c, ad_conns = sum_of cr_count g,
       ad_programs = map (\<lambda>((name, container), _). procLabel name [] container)
         (take 3 (sort_key (\<lambda>(_, x). - sum_of cr_count x) (group_rows (\<lambda>c. (cr_name c, cr_container c)) g))),
       ad_last = max_instant (map cr_minute g)\<rparr>)"

definition agent_timeline :: "int \<Rightarrow> conn_row list \<Rightarrow> (instant \<times> int \<times> int) list" where
  "agent_timeline secs cs =
     map (\<lambda>(t, g). (t, sum_of cr_count g, distinct_count cr_exe g))
       (sort_key fst (group_rows (\<lambda>c. cr_minute c div (secs * Second) * (secs * Second)) cs))"

definition AgentActivityFor :: "'e env_scheme \<Rightarrow> int \<Rightarrow> Window \<Rightarrow> agent_db \<Rightarrow> AgentActivity dbres" where
  "AgentActivityFor e i w d =
     (let cs = filter (\<lambda>c. cr_agent c = i \<and> in_minutes w c) (conns d); ts = sort (map cr_minute cs);
          secs = (if Until w - Since w > 6 * Hour then 3600 else 60) in
      bindE (db_read e [''AgentActivityFor'', ''totals''] ()) (\<lambda>_.
      bindE (db_read e [''AgentActivityFor'', ''programs''] ()) (\<lambda>_.
      bindE (db_read e [''AgentActivityFor'', ''destinations''] ()) (\<lambda>_.
      bindE (db_read e [''AgentActivityFor'', ''timeline''] ()) (\<lambda>_.
      db_read e [''AgentActivityFor'', ''recent'']
        \<lparr>aa_rows = length cs, aa_conns = sum_of cr_count cs, aa_programs = distinct_count cr_exe cs,
         aa_peers = distinct_count cr_dst cs, aa_first = (if ts = [] then None else Some (hd ts)),
         aa_last = (if ts = [] then None else Some (last ts)),
         aa_by_program = take 100 (sort_key (\<lambda>p. - st_conns p) (map (\<lambda>(_, g). process_stat None g) (group_rows program_of cs))),
         aa_destinations = take 100 (sort_key (\<lambda>x. - ad_conns x)
           (map (\<lambda>(_, g). agent_dest g) (group_rows (\<lambda>c. (cr_dst c, cr_port c, cr_proto c)) cs))),
         aa_timeline = agent_timeline secs cs,
         aa_recent = take 300 (sort_key (\<lambda>c. - cr_minute c) (sort_key (\<lambda>c. - cr_count c) cs)),
         aa_bucket = secs\<rparr>)))))"

section \<open>The invariant of the tables\<close>

definition agent_ids :: "agent_db \<Rightarrow> int set" where
  "agent_ids d = ag_id ` set (agents d)"

definition wf_agents :: "agent_db \<Rightarrow> bool" where
  "wf_agents d \<longleftrightarrow>
     distinct (map ag_id (agents d)) \<and> (\<forall>a \<in> set (agents d). ag_id a \<le> agent_seq d) \<and>
     distinct (map ag_hash (agents d)) \<and> distinct (map et_hash (enroll_tokens d)) \<and>
     distinct (map conn_key (conns d)) \<and> (\<forall>c \<in> set (conns d). cr_agent c \<in> agent_ids d) \<and>
     distinct (map identity_key (program_identity d)) \<and> (\<forall>p \<in> set (program_identity d). p_agent p \<in> agent_ids d) \<and>
     distinct (map fi_sha256 (file_intel d))"

lemma wf_empty_agents [simp]: "wf_agents empty_agent_db"
  by (simp add: wf_agents_def empty_agent_db_def)

lemma wf_agents_seq: "wf_agents d \<Longrightarrow> agent_seq d \<le> n \<Longrightarrow> wf_agents (d\<lparr>agent_seq := n\<rparr>)"
  by (fastforce simp: wf_agents_def agent_ids_def)

lemma wf_agents_retention: "wf_agents d \<Longrightarrow> wf_agents (d\<lparr>agent_retention := r\<rparr>)"
  by (simp add: wf_agents_def agent_ids_def)

lemma wf_agents_write: "wf_agents d \<Longrightarrow> wf_agents d' \<Longrightarrow> wf_agents (db_write e k d d')"
  by (simp add: db_write_def)

lemma map_agent_keys:
  assumes "\<And>a. ag_id (f a) = ag_id a" "\<And>a. ag_hash (f a) = ag_hash a"
  shows "map ag_id (agents (map_agent P f d)) = map ag_id (agents d)"
    "map ag_hash (agents (map_agent P f d)) = map ag_hash (agents d)"
    "agent_ids (map_agent P f d) = agent_ids d"
proof -
  show ids: "map ag_id (agents (map_agent P f d)) = map ag_id (agents d)"
    using assms by (simp add: map_agent_def)
  show "map ag_hash (agents (map_agent P f d)) = map ag_hash (agents d)"
    using assms by (simp add: map_agent_def)
  show "agent_ids (map_agent P f d) = agent_ids d"
    unfolding agent_ids_def using ids by (metis set_map)
qed

lemma wf_map_agent:
  assumes w: "wf_agents d" and f: "\<And>a. ag_id (f a) = ag_id a" "\<And>a. ag_hash (f a) = ag_hash a"
  shows "wf_agents (map_agent P f d)"
proof -
  have "\<forall>a \<in> set (agents (map_agent P f d)). ag_id a \<le> agent_seq d"
    using w f by (auto simp: map_agent_def wf_agents_def)
  with w show ?thesis
    unfolding wf_agents_def map_agent_keys [of f, OF f] by (simp add: map_agent_def)
qed

lemma drop_agents_ids:
  "distinct (map ag_id (agents d)) \<Longrightarrow> agent_ids (drop_agents P d) = agent_ids d - ag_id ` {a \<in> set (agents d). P a}"
  by (auto simp: agent_ids_def drop_agents_def Let_def distinct_map dest: inj_onD)

lemma wf_drop_agents: "wf_agents d \<Longrightarrow> wf_agents (drop_agents P d)"
proof -
  assume w: "wf_agents d"
  then have ids: "agent_ids (drop_agents P d) = agent_ids d - ag_id ` {a \<in> set (agents d). P a}"
    by (intro drop_agents_ids) (simp add: wf_agents_def)
  have "(\<forall>c \<in> set (conns (drop_agents P d)). cr_agent c \<in> agent_ids (drop_agents P d)) \<and>
        (\<forall>p \<in> set (program_identity (drop_agents P d)). p_agent p \<in> agent_ids (drop_agents P d))"
    unfolding ids using w by (auto simp: drop_agents_def Let_def wf_agents_def)
  with w show ?thesis unfolding wf_agents_def by (auto simp: drop_agents_def Let_def distinct_map_filter)
qed

lemma wf_conns:
  "wf_agents d \<Longrightarrow> distinct (map conn_key cs) \<Longrightarrow> (\<forall>c \<in> set cs. cr_agent c \<in> agent_ids d) \<Longrightarrow> wf_agents (d\<lparr>conns := cs\<rparr>)"
  by (simp add: wf_agents_def agent_ids_def)

lemma conn_key_merge [simp]: "conn_key (merge_conn new old) = conn_key old"
  by (simp add: conn_key_def merge_conn_def)

lemma cr_agent_merge [simp]: "cr_agent (merge_conn new old) = cr_agent old"
  by (simp add: merge_conn_def)

lemma cr_agent_row [simp]: "cr_agent (row_of i c h t) = i"
  by (simp add: row_of_def)

text \<open>A statement of the batch that succeeds is an upsert of the row it carries.\<close>

lemma put_conn_Some:
  "put_conn i c rows = Some rows' \<Longrightarrow>
     \<exists>h t. inet_cast (c_host c) = Some h \<and> inet_cast (c_dst c) = Some t \<and>
       rows' = upsert_by conn_key (conn_key (row_of i c h t)) (merge_conn (row_of i c h t)) (row_of i c h t) rows"
  by (auto simp: put_conn_def Let_def split: option.splits if_splits)

lemma put_conn_wf:
  assumes "put_conn i c rows = Some rows'" "distinct (map conn_key rows)"
  shows "distinct (map conn_key rows') \<and> cr_agent ` set rows' \<subseteq> insert i (cr_agent ` set rows)"
proof -
  obtain h t where r: "rows' = upsert_by conn_key (conn_key (row_of i c h t)) (merge_conn (row_of i c h t)) (row_of i c h t) rows"
    using put_conn_Some [OF assms(1)] by blast
  have "distinct (map conn_key rows')" unfolding r by (rule upsert_by_distinct) (simp_all add: assms(2))
  moreover have "cr_agent ` set rows' \<subseteq> insert i (cr_agent ` set rows)"
    unfolding r by (auto simp: upsert_by_mem)
  ultimately show ?thesis ..
qed

lemma put_conns_wf:
  "put_conns i cs rows = Some rows' \<Longrightarrow> distinct (map conn_key rows) \<Longrightarrow>
     distinct (map conn_key rows') \<and> cr_agent ` set rows' \<subseteq> insert i (cr_agent ` set rows)"
proof (induction cs arbitrary: rows)
  case (Cons c cs)
  then obtain r1 where r1: "put_conn i c rows = Some r1" and r2: "put_conns i cs r1 = Some rows'"
    by (auto simp: Option.bind_eq_Some_conv)
  have a: "distinct (map conn_key r1)" "cr_agent ` set r1 \<subseteq> insert i (cr_agent ` set rows)"
    using put_conn_wf [OF r1 Cons.prems(2)] by blast+
  from Cons.IH [OF r2 a(1)] a(2) show ?case by blast
qed auto

lemma wf_InsertEndpointConns: "wf_agents d \<Longrightarrow> wf_agents (snd (InsertEndpointConns e i cs d))"
proof -
  assume w: "wf_agents d"
  have "wf_agents (d\<lparr>conns := rows\<rparr>)" if "put_conns i cs (conns d) = Some rows" "list_ex (\<lambda>a. ag_id a = i) (agents d)" for rows
  proof (rule wf_conns [OF w])
    have p: "distinct (map conn_key rows) \<and> cr_agent ` set rows \<subseteq> insert i (cr_agent ` set (conns d))"
      using that(1) w by (intro put_conns_wf) (simp_all add: wf_agents_def)
    then show "distinct (map conn_key rows)" ..
    have "i \<in> agent_ids d" using that(2) by (auto simp: agent_ids_def list_ex_iff)
    moreover have "cr_agent ` set (conns d) \<subseteq> agent_ids d" using w by (auto simp: wf_agents_def)
    ultimately show "\<forall>c \<in> set rows. cr_agent c \<in> agent_ids d" using p by blast
  qed
  with w show ?thesis by (auto simp: InsertEndpointConns_def split: option.split)
qed

lemma identity_key_upd [simp]:
  "identity_key (p\<lparr>p_agent := i, p_first := x, p_last := y\<rparr>) = (i, p_exe p, p_sha256 p)"
  by (simp add: identity_key_def)

lemma put_identity_wf:
  "distinct (map identity_key rows) \<Longrightarrow>
     distinct (map identity_key (put_identity t i p rows)) \<and> p_agent ` set (put_identity t i p rows) \<subseteq> insert i (p_agent ` set rows)"
  unfolding put_identity_def by (auto intro!: upsert_by_distinct simp: upsert_by_mem)

lemma put_hash_wf: "distinct (map fi_sha256 rows) \<Longrightarrow> distinct (map fi_sha256 (put_hash t p rows))"
  unfolding put_hash_def by (rule upsert_by_distinct) (simp_all add: new_file_def)

lemma wf_identity_rows:
  "wf_agents d \<Longrightarrow> distinct (map identity_key ps) \<Longrightarrow> p_agent ` set ps \<subseteq> agent_ids d \<Longrightarrow> distinct (map fi_sha256 fs) \<Longrightarrow>
     wf_agents (d\<lparr>program_identity := ps\<rparr>) \<and> wf_agents (d\<lparr>program_identity := ps, file_intel := fs\<rparr>)"
  by (auto simp: wf_agents_def agent_ids_def)

lemma wf_UpsertProgramIdentities:
  "wf_agents d \<Longrightarrow> i \<in> agent_ids d \<Longrightarrow> wf_agents (snd (UpsertProgramIdentities e i ps n d))"
proof (induction ps arbitrary: n d)
  case (Cons p ps)
  let ?rows = "put_identity (now_of e) i p (program_identity d)"
  let ?d2 = "d\<lparr>program_identity := ?rows, file_intel := put_hash (now_of e) p (file_intel d)\<rparr>"
  have r: "distinct (map identity_key ?rows) \<and> p_agent ` set ?rows \<subseteq> insert i (p_agent ` set (program_identity d))"
    using Cons.prems by (intro put_identity_wf) (simp add: wf_agents_def)
  have "p_agent ` set (program_identity d) \<subseteq> agent_ids d" using Cons.prems(1) by (auto simp: wf_agents_def)
  then have sub: "p_agent ` set ?rows \<subseteq> agent_ids d" using r Cons.prems(2) by blast
  have "wf_agents (d\<lparr>program_identity := ?rows\<rparr>) \<and> wf_agents ?d2"
    using Cons.prems(1) r sub by (intro wf_identity_rows) (simp_all add: put_hash_wf wf_agents_def)
  moreover have "i \<in> agent_ids ?d2" using Cons.prems(2) by (simp add: agent_ids_def)
  ultimately show ?case using Cons by (simp add: Let_def)
qed simp

lemma wf_CreateEnrollToken: "wf_agents d \<Longrightarrow> wf_agents (snd (CreateEnrollToken e name by ttl d))"
  by (auto simp: CreateEnrollToken_def NewToken_def Let_def wf_agents_def agent_ids_def list_ex_iff image_iff)

lemma wf_EnrollAgent: "wf_agents d \<Longrightarrow> wf_agents (snd (EnrollAgent e tok h os ar v ips rip d))"
proof -
  assume w: "wf_agents d"
  let ?i = "agent_seq d + 1" and ?hash = "HashToken e (rand_hex e)"
  have s: "wf_agents (d\<lparr>agent_seq := ?i\<rparr>)" using w by (rule wf_agents_seq) simp
  have "wf_agents (d\<lparr>agent_seq := ?i, agents := agents d @ [a],
      enroll_tokens := map (\<lambda>x. if et_hash x = k then x\<lparr>et_used := u, et_agent := g\<rparr> else x) (enroll_tokens d)\<rparr>)"
    if "ag_id a = ?i" "ag_hash a = ?hash" "\<not> list_ex (\<lambda>x. ag_hash x = ?hash) (agents d)" for a k u g
  proof -
    have hs: "map et_hash (map (\<lambda>x. if et_hash x = k then x\<lparr>et_used := u, et_agent := g\<rparr> else x) (enroll_tokens d)) =
        map et_hash (enroll_tokens d)" by simp
    have fresh: "?i \<notin> ag_id ` set (agents d)" using w by (fastforce simp: wf_agents_def)
    have "\<forall>b \<in> set (agents d). ag_id b \<le> ?i" using w by (fastforce simp: wf_agents_def)
    with w that fresh show ?thesis
      unfolding wf_agents_def agent_ids_def by (auto simp: hs list_ex_iff image_iff simp del: map_map)
  qed
  with s w show ?thesis
    by (auto simp: EnrollAgent_def NewToken_def Let_def new_agent_def split: option.split)
qed

lemma wf_UpdateAgent: "wf_agents d \<Longrightarrow> wf_agents (snd (UpdateAgent e i n t d))"
  and wf_SetAgentAutoUpdate: "wf_agents d \<Longrightarrow> wf_agents (snd (SetAgentAutoUpdate e i on d))"
  and wf_RevokeAgent: "wf_agents d \<Longrightarrow> wf_agents (snd (RevokeAgent e i d))"
  and wf_DeleteAgent: "wf_agents d \<Longrightarrow> wf_agents (snd (DeleteAgent e i d))"
  by (simp_all add: UpdateAgent_def SetAgentAutoUpdate_def RevokeAgent_def DeleteAgent_def Let_def
      wf_agents_write wf_map_agent wf_drop_agents)

lemma wf_TouchAgent: "wf_agents d \<Longrightarrow> wf_agents (snd (TouchAgent e i ips v c rip b dr d))"
  by (simp add: TouchAgent_def wf_agents_write wf_map_agent split: option.split)

lemma wf_PruneEndpointConns: "wf_agents d \<Longrightarrow> wf_agents (snd (PruneEndpointConns e keep d))"
  by (auto simp: PruneEndpointConns_def Let_def intro!: wf_agents_write wf_conns)
    (simp_all add: wf_agents_def distinct_map_filter)

lemma wf_PruneAgentData: "wf_agents d \<Longrightarrow> wf_agents (snd (PruneAgentData e r d))"
  using wf_PruneEndpointConns [of d e "ConnDays r * 24 * Hour"]
  by (auto simp: PruneAgentData_def Let_def wf_agents_write wf_drop_agents split: prod.split sum.split)

lemma wf_SetAgentRetention: "wf_agents d \<Longrightarrow> wf_agents (snd (SetAgentRetention e r d))"
  by (simp add: SetAgentRetention_def wf_agents_write wf_agents_retention split: option.split)

lemmas wf_agent_ops = wf_InsertEndpointConns wf_CreateEnrollToken wf_EnrollAgent wf_UpdateAgent wf_SetAgentAutoUpdate
  wf_RevokeAgent wf_DeleteAgent wf_TouchAgent wf_PruneAgentData wf_SetAgentRetention

end
