(* ===== verification/AgentsApi.thy ===== *)
theory AgentsApi
  imports Agents ApiUsers
begin

text \<open>
  The agent endpoints (\<open>internal/api/agents.go\<close>): enrolment and ingest, which authenticate by a
  bearer token and insist on TLS when a TLS listener is configured, and the handlers of the
  administrators. A decoded body is an argument (\<open>None\<close> where decoding or gzip fails). The build
  on disk that an agent may be offered is read by \<open>buildInfo\<close>; it is a parameter of a call.
\<close>

record ingest_env = agent_env +
  buildInfo :: "string \<Rightarrow> (string \<times> string \<times> int) option"

section \<open>Normalising what agents send\<close>

definition after_slash :: "string \<Rightarrow> string" where
  "after_slash p = rev (takeWhile (\<lambda>c. c \<noteq> CHR ''/'' \<and> c \<noteq> CHR 0x5C) (rev p))"

definition baseName :: "string \<Rightarrow> string" where
  "baseName p = after_slash p"

definition trunc :: "string \<Rightarrow> nat \<Rightarrow> string" where
  "trunc s n = take n (TrimSpace s)"

primrec cleanIPs_loop :: "string list \<Rightarrow> string list \<Rightarrow> string list" where
  "cleanIPs_loop [] out = out"
| "cleanIPs_loop (s # ss) out =
     (let out' = (case ParseAddr (TrimSpace s) of
                    Some a \<Rightarrow> if \<not> IsLoopback a \<and> \<not> IsLinkLocalUnicast a then out @ [AddrString (Unmap a)] else out
                  | None \<Rightarrow> out)
      in if length out' \<ge> 16 then out' else cleanIPs_loop ss out')"

definition cleanIPs :: "string list \<Rightarrow> string list" where
  "cleanIPs ss = cleanIPs_loop ss []"

definition hexOK :: "string \<Rightarrow> nat \<Rightarrow> bool" where
  "hexOK s n \<longleftrightarrow> length s = n \<and>
     list_all (\<lambda>c. is_digit c \<or> (97 \<le> (of_char c :: nat) \<and> (of_char c :: nat) \<le> 102)) s"

text \<open>Both normalisers return the record they have rewritten, or \<open>None\<close> to drop it.\<close>

definition validProgram :: "ProgramIdentity \<Rightarrow> ProgramIdentity option" where
  "validProgram p =
     (let exe = trunc (p_exe p) 512; h256 = ToLower (p_sha256 p); h1 = ToLower (p_sha1 p); m5 = ToLower (p_md5 p) in
      if exe = [] \<or> \<not> hexOK h256 64 then None
      else Some (p\<lparr>p_exe := exe, p_sha256 := h256, p_sha1 := (if hexOK h1 40 then h1 else []),
        p_md5 := (if hexOK m5 32 then m5 else []), p_size := max 0 (p_size p),
        p_origin := trunc (p_origin p) 32, p_package := trunc (p_package p) 128, p_version := trunc (p_version p) 64,
        p_signature := trunc (p_signature p) 16, p_signer := trunc (p_signer p) 128,
        p_company := trunc (p_company p) 128, p_product := trunc (p_product p) 128,
        p_file_version := trunc (p_file_version p) 64, p_description := trunc (p_description p) 256,
        p_note := trunc (p_note p) 256\<rparr>))"

text \<open>The zero time, which is refused as well, lies before every window.\<close>

definition validConn :: "instant \<Rightarrow> EndpointConn \<Rightarrow> EndpointConn option" where
  "validConn now c =
     (let proto = ToLower (c_proto c) in
      if proto \<noteq> ''tcp'' \<and> proto \<noteq> ''udp'' then None
      else case (ParseAddr (c_host c), ParseAddr (c_dst c)) of
        (Some h, Some d) \<Rightarrow>
          if c_port c < 0 \<or> c_port c > 65535 then None
          else if c_minute c > now + 10 * Minute \<or> c_minute c < now - 7 * 24 * Hour then None
          else (let exe = trunc (c_exe c) 512; name = trunc (c_name c) 128 in
            Some (c\<lparr>c_proto := proto, c_host := AddrString (Unmap h), c_dst := AddrString (Unmap d),
              c_count := (if c_count c \<le> 0 then 1 else c_count c), c_bytes := max 0 (c_bytes c),
              c_exe := exe, c_name := (if name = [] then baseName exe else name), c_user := trunc (c_user c) 128,
              c_sha256 := trunc (ToLower (c_sha256 c)) 64, c_cmdline := trunc (c_cmdline c) 2048,
              c_container := trunc (c_container c) 128\<rparr>))
      | _ \<Rightarrow> None)"

section \<open>Authentication of agents\<close>

definition requireAgentTLS :: "Config \<Rightarrow> request \<Rightarrow> bool" where
  "requireAgentTLS c r \<longleftrightarrow> \<not> (TLSListenAddr c \<noteq> [] \<and> \<not> rq_tls r)"

definition bearer :: "string \<Rightarrow> string" where
  "bearer h = (if HasPrefix (ToLower h) ''bearer '' then TrimSpace (drop 7 h) else [])"

definition remoteIP :: "request \<Rightarrow> string" where
  "remoteIP r =
     (let h = opt_default (rq_remote r) (SplitHost (rq_remote r)) in
      case ParseAddr h of Some a \<Rightarrow> AddrString (Unmap a) | None \<Rightarrow> [])"

datatype agent_value =
    VEnrolled int string string "string list"
  | VEvents int nat "nat option" "(string \<times> (string \<times> string \<times> int) \<times> bool) option"
  | VToken string instant bool
  | VAgents "Agent list" bool
  | VAgent Agent
  | VSettings AgentRetention "(nat \<times> nat) option"
  | VActivityOf AgentActivity
  | VAgentOk
  | VDeleted int

definition agentAuth :: "'e agent_env_scheme \<Rightarrow> string \<Rightarrow> agent_db \<Rightarrow> agent_value reply + Agent" where
  "agentAuth e authz d =
     (let tok = bearer authz in
      if tok = [] then Inl (ErrMsg 401 ''agent token required'')
      else case AgentByToken e tok d of
        Inl err \<Rightarrow> Inl (fail err)
      | Inr None \<Rightarrow> Inl (ErrMsg 401 ''unknown or revoked agent token'')
      | Inr (Some a) \<Rightarrow> Inr a)"

section \<open>Enrolment and ingest\<close>

record enrollRequest =
  en_token :: string
  en_hostname :: string
  en_os :: string
  en_arch :: string
  en_version :: string
  en_ips :: "string list"

definition agentEnroll ::
  "'e agent_env_scheme \<Rightarrow> Config \<Rightarrow> request \<Rightarrow> enrollRequest option \<Rightarrow> agent_db \<Rightarrow> agent_value reply \<times> agent_db" where
  "agentEnroll e c r body d =
     (if \<not> requireAgentTLS c r then (ErrMsg 403 ''agents must use the https listener'', d)
      else case body of None \<Rightarrow> (ErrMsg 400 ''invalid json body'', d)
      | Some q \<Rightarrow>
          (case EnrollAgent e (en_token q) (trunc (en_hostname q) 200) (trunc (en_os q) 40) (trunc (en_arch q) 20)
                  (trunc (en_version q) 40) (cleanIPs (en_ips q)) (remoteIP r) d of
             (Inl ErrEnrollToken, d') \<Rightarrow> (ErrMsg 401 ''invalid or expired enrollment token'', d')
           | (Inl (EnrollDb err), d') \<Rightarrow> (fail err, d')
           | (Inr (a, token), d') \<Rightarrow> (Json 201 (VEnrolled (ag_id a) token (ag_name a) (LocalNetworksCIDR c)), d')))"

record eventsRequest =
  ev_version :: string
  ev_ips :: "string list"
  ev_capture :: string
  ev_dropped :: int
  ev_conns :: "EndpointConn list"
  ev_programs :: "ProgramIdentity list"

definition offered_build ::
  "'e ingest_env_scheme \<Rightarrow> Agent \<Rightarrow> agent_db \<Rightarrow> (string \<times> (string \<times> string \<times> int) \<times> bool) option" where
  "offered_build e a d =
     (let target = BuildTarget (ag_os a) (ag_arch a) in
      if target = [] then None
      else case buildInfo e target of
        Some (version, hash, sz) \<Rightarrow>
          if version = [] then None
          else Some (target, (version, hash, sz),
                 (case GetAgentRetention e d of Inr r \<Rightarrow> AutoUpdate r
                  | Inl _ \<Rightarrow> AutoUpdate DefaultAgentRetention) \<and> ag_auto a)
      | None \<Rightarrow> None)"

definition ingest ::
  "'e ingest_env_scheme \<Rightarrow> request \<Rightarrow> Agent \<Rightarrow> eventsRequest \<Rightarrow> agent_db \<Rightarrow> agent_value reply \<times> agent_db" where
  "ingest e r a q d =
     (let valid = List.map_filter (validConn (now_of e)) (ev_conns q);
          rejected = length (ev_conns q) - length valid in
      case InsertEndpointConns e (ag_id a) valid d of
        (Inl err, d1) \<Rightarrow> (fail err, d1)
      | (Inr n, d1) \<Rightarrow>
          (case TouchAgent e (ag_id a) (cleanIPs (ev_ips q)) (trunc (ev_version q) 40) (trunc (ev_capture q) 20)
                  (remoteIP r) n (ev_dropped q) d1 of
             (Inl err, d2) \<Rightarrow> (fail err, d2)
           | (Inr _, d2) \<Rightarrow>
               if ev_programs q = [] then (Json 200 (VEvents n rejected None (offered_build e a d2)), d2)
               else (case UpsertProgramIdentities e (ag_id a) (List.map_filter validProgram (ev_programs q)) 0 d2 of
                       ((_, Some err), d3) \<Rightarrow> (fail err, d3)
                     | ((pn, None), d3) \<Rightarrow> (Json 200 (VEvents n rejected (Some pn) (offered_build e a d3)), d3))))"

definition agentEvents ::
  "'e ingest_env_scheme \<Rightarrow> Config \<Rightarrow> request \<Rightarrow> string \<Rightarrow> eventsRequest option \<Rightarrow> agent_db \<Rightarrow> agent_value reply \<times> agent_db" where
  "agentEvents e c r authz body d =
     (if \<not> requireAgentTLS c r then (ErrMsg 403 ''agents must use the https listener'', d)
      else case agentAuth e authz d of
        Inl rep \<Rightarrow> (rep, d)
      | Inr a \<Rightarrow>
          (case body of None \<Rightarrow> (ErrMsg 400 ''invalid json body'', d)
           | Some q \<Rightarrow>
               if length (ev_conns q) > 20000 \<or> length (ev_programs q) > 5000
               then (ErrMsg 413 ''batch too large'', d)
               else ingest e r a q d))"

section \<open>Administration\<close>

definition agentSettings :: "'e env_scheme \<Rightarrow> agent_db \<Rightarrow> agent_value reply" where
  "agentSettings e d = (case GetAgentRetention e d of Inl err \<Rightarrow> fail err | Inr r \<Rightarrow> Json 200 (VSettings r None))"

definition setAgentSettings :: "'e env_scheme \<Rightarrow> AgentRetention option \<Rightarrow> agent_db \<Rightarrow> agent_value reply \<times> agent_db" where
  "setAgentSettings e body d =
     (case body of None \<Rightarrow> (ErrMsg 400 ''invalid json body'', d)
      | Some r \<Rightarrow>
          (case ValidateAgentRetention r of Some m \<Rightarrow> (ErrMsg 400 m, d)
           | None \<Rightarrow>
               (case SetAgentRetention e r d of
                  (Inl err, d1) \<Rightarrow> (fail err, d1)
                | (Inr _, d1) \<Rightarrow>
                    (case PruneAgentData e r d1 of
                       (Inl err, d2) \<Rightarrow> (fail err, d2)
                     | (Inr res, d2) \<Rightarrow> (Json 200 (VSettings r (Some res)), d2)))))"

definition listAgents :: "'e env_scheme \<Rightarrow> Config \<Rightarrow> agent_db \<Rightarrow> agent_value reply" where
  "listAgents e c d = (case ListAgents e d of Inl err \<Rightarrow> fail err | Inr as \<Rightarrow> Json 200 (VAgents as (TLSListenAddr c \<noteq> [])))"

definition createEnrollToken ::
  "'e agent_env_scheme \<Rightarrow> Config \<Rightarrow> User option \<Rightarrow> string \<Rightarrow> agent_db \<Rightarrow> agent_value reply \<times> agent_db" where
  "createEnrollToken e c u name d =
     (case CreateEnrollToken e name (case u of None \<Rightarrow> [] | Some x \<Rightarrow> Username x) (24 * Hour) d of
        (Inl err, d') \<Rightarrow> (fail err, d')
      | (Inr (token, expires), d') \<Rightarrow> (Json 201 (VToken token expires (TLSListenAddr c \<noteq> [])), d'))"

definition agentActivity :: "'e env_scheme \<Rightarrow> string \<Rightarrow> Window option \<Rightarrow> agent_db \<Rightarrow> agent_value reply" where
  "agentActivity e idv win d =
     (case Atoi idv of None \<Rightarrow> ErrMsg 400 ''bad id''
      | Some i \<Rightarrow>
          (case win of None \<Rightarrow> ErrMsg 400 ''bad window''
           | Some w \<Rightarrow> (case AgentActivityFor e i w d of Inl err \<Rightarrow> fail err | Inr act \<Rightarrow> Json 200 (VActivityOf act))))"

definition updateAgent ::
  "'e env_scheme \<Rightarrow> string \<Rightarrow> (string \<times> string) option \<Rightarrow> agent_db \<Rightarrow> agent_value reply \<times> agent_db" where
  "updateAgent e idv body d =
     (case Atoi idv of None \<Rightarrow> (ErrMsg 400 ''bad id'', d)
      | Some i \<Rightarrow>
          (case body of None \<Rightarrow> (ErrMsg 400 ''invalid json body'', d)
           | Some (name, note) \<Rightarrow>
               (case UpdateAgent e i name note d of
                  (Inl err, d') \<Rightarrow> (fail err, d')
                | (Inr None, d') \<Rightarrow> (ErrMsg 404 ''no such agent'', d')
                | (Inr (Some a), d') \<Rightarrow> (Json 200 (VAgent a), d'))))"

definition admin_reply :: "bool dbres \<times> agent_db \<Rightarrow> agent_value \<Rightarrow> string \<Rightarrow> agent_value reply \<times> agent_db" where
  "admin_reply res v m =
     (case res of (Inl err, d) \<Rightarrow> (fail err, d)
      | (Inr ok, d) \<Rightarrow> (if ok then Json 200 v else ErrMsg 404 m, d))"

definition agentAdminAction :: "'e env_scheme \<Rightarrow> string \<Rightarrow> string \<Rightarrow> agent_db \<Rightarrow> agent_value reply \<times> agent_db" where
  "agentAdminAction e idv action d =
     (case Atoi idv of None \<Rightarrow> (ErrMsg 400 ''bad id'', d)
      | Some i \<Rightarrow>
          (let m = ''no such agent (or already revoked)'' in
           if action = ''revoke'' then admin_reply (RevokeAgent e i d) VAgentOk m
           else if action = ''autoupdate-on'' then admin_reply (SetAgentAutoUpdate e i True d) VAgentOk m
           else if action = ''autoupdate-off'' then admin_reply (SetAgentAutoUpdate e i False d) VAgentOk m
           else (ErrMsg 400 ''action must be revoke, autoupdate-on or autoupdate-off'', d)))"

definition deleteAgent :: "'e env_scheme \<Rightarrow> string \<Rightarrow> agent_db \<Rightarrow> agent_value reply \<times> agent_db" where
  "deleteAgent e idv d =
     (case Atoi idv of None \<Rightarrow> (ErrMsg 400 ''bad id'', d)
      | Some i \<Rightarrow> admin_reply (DeleteAgent e i d) (VDeleted i) ''no such agent'')"

section \<open>The endpoints as a machine\<close>

lemma agentAuth_Inr:
  "agentAuth e authz d = Inr a \<Longrightarrow>
     a \<in> set (agents d) \<and> ag_hash a = HashToken e (bearer authz) \<and> ag_revoked a = None \<and> bearer authz \<noteq> []"
  by (auto simp: agentAuth_def AgentByToken_def Let_def db_read_def find_Some_iff
      split: if_splits sum.splits option.splits)

lemma ids_InsertEndpointConns [simp]: "agent_ids (snd (InsertEndpointConns e i cs d)) = agent_ids d"
  by (simp add: InsertEndpointConns_def agent_ids_def split: option.split)

lemma ids_TouchAgent [simp]: "agent_ids (snd (TouchAgent e i ips v c rip b dr d)) = agent_ids d"
  by (auto simp: TouchAgent_def db_write_def map_agent_keys split: option.split)

lemma wf_ingest:
  assumes w: "wf_agents d" and i: "ag_id a \<in> agent_ids d"
  shows "wf_agents (snd (ingest e r a q d))"
proof -
  let ?r1 = "InsertEndpointConns e (ag_id a) (List.map_filter (validConn (now_of e)) (ev_conns q)) d"
  have 1: "wf_agents (snd ?r1)" "ag_id a \<in> agent_ids (snd ?r1)"
    using w i by (simp_all add: wf_InsertEndpointConns)
  have 2: "wf_agents (snd (TouchAgent e (ag_id a) ips v c rip n dr (snd ?r1)))"
    "ag_id a \<in> agent_ids (snd (TouchAgent e (ag_id a) ips v c rip n dr (snd ?r1)))" for ips v c rip n dr
    using 1 by (simp_all add: wf_TouchAgent)
  have 3: "wf_agents (snd (UpsertProgramIdentities e (ag_id a) ps m (snd (TouchAgent e (ag_id a) ips v c rip n dr (snd ?r1)))))"
    for ps m ips v c rip n dr using 2 by (intro wf_UpsertProgramIdentities)
  show ?thesis
    unfolding ingest_def Let_def by (simp add: split_beta 1 2 3 split: sum.split option.split)
qed

lemma wf_agentEvents: "wf_agents d \<Longrightarrow> wf_agents (snd (agentEvents e c r authz body d))"
proof -
  assume w: "wf_agents d"
  have "wf_agents (snd (ingest e r a q d))" if "agentAuth e authz d = Inr a" for a q
    using agentAuth_Inr [OF that] w by (intro wf_ingest) (simp_all add: agent_ids_def)
  with w show ?thesis by (simp add: agentEvents_def split: sum.split option.split)
qed

lemma wf_agentEnroll: "wf_agents d \<Longrightarrow> wf_agents (snd (agentEnroll e c r body d))"
  by (simp add: agentEnroll_def split_beta wf_EnrollAgent split: option.split sum.split enroll_error.split)

datatype agent_call =
    Enroll request "enrollRequest option"
  | Events request string "eventsRequest option"
  | MintToken "User option" string
  | Settings "AgentRetention option"
  | Rename string "(string \<times> string) option"
  | Action string string
  | Remove string
  | PruneData AgentRetention

fun agent_step :: "Config \<Rightarrow> agent_db \<Rightarrow> ingest_env \<times> agent_call \<Rightarrow> agent_db" where
  "agent_step c d (e, Enroll r body) = snd (agentEnroll e c r body d)"
| "agent_step c d (e, Events r authz body) = snd (agentEvents e c r authz body d)"
| "agent_step c d (e, MintToken u name) = snd (createEnrollToken e c u name d)"
| "agent_step c d (e, Settings body) = snd (setAgentSettings e body d)"
| "agent_step c d (e, Rename i body) = snd (updateAgent e i body d)"
| "agent_step c d (e, Action i act) = snd (agentAdminAction e i act d)"
| "agent_step c d (e, Remove i) = snd (deleteAgent e i d)"
| "agent_step c d (e, PruneData r) = snd (PruneAgentData e r d)"

lemma wf_setAgentSettings: "wf_agents d \<Longrightarrow> wf_agents (snd (setAgentSettings e body d))"
  by (simp add: setAgentSettings_def split_beta wf_agent_ops split: option.split sum.split)

lemma wf_agent_step: "wf_agents d \<Longrightarrow> wf_agents (agent_step c d ev)"
proof -
  assume w: "wf_agents d"
  obtain e k where ev: "ev = (e, k)" by (cases ev)
  show ?thesis
  proof (cases k)
    case (Rename i body)
    with ev w show ?thesis by (simp add: updateAgent_def split_beta wf_agent_ops split: option.split sum.split)
  next
    case (Action i act)
    with ev w show ?thesis
      by (simp add: agentAdminAction_def admin_reply_def Let_def split_beta wf_agent_ops split: option.split sum.split)
  next
    case (Remove i)
    with ev w show ?thesis
      by (simp add: deleteAgent_def admin_reply_def split_beta wf_agent_ops split: option.split sum.split)
  qed (use ev w in \<open>simp_all add: wf_agentEnroll wf_agentEvents createEnrollToken_def split_beta wf_agent_ops
      wf_setAgentSettings split: sum.split\<close>)
qed

interpretation agent_tables: machine "agent_step c" wf_agents for c
  by unfold_locales (rule wf_agent_step)

section \<open>What the endpoints leave alone\<close>

lemma tokens_Insert [simp]: "enroll_tokens (snd (InsertEndpointConns e i cs d)) = enroll_tokens d"
  and agents_Insert [simp]: "agents (snd (InsertEndpointConns e i cs d)) = agents d"
  by (simp_all add: InsertEndpointConns_def split: option.split)

lemma tokens_map_agent [simp]: "enroll_tokens (map_agent P f d) = enroll_tokens d"
  and conns_map_agent [simp]: "conns (map_agent P f d) = conns d"
  and identity_map_agent [simp]: "program_identity (map_agent P f d) = program_identity d"
  by (simp_all add: map_agent_def)

lemma tokens_Touch [simp]: "enroll_tokens (snd (TouchAgent e i ips v c rip b dr d)) = enroll_tokens d"
  and conns_Touch [simp]: "conns (snd (TouchAgent e i ips v c rip b dr d)) = conns d"
  by (auto simp: TouchAgent_def db_write_def split: option.split)

lemma tokens_Programs [simp]: "enroll_tokens (snd (UpsertProgramIdentities e i ps n d)) = enroll_tokens d"
  and agents_Programs [simp]: "agents (snd (UpsertProgramIdentities e i ps n d)) = agents d"
  and conns_Programs [simp]: "conns (snd (UpsertProgramIdentities e i ps n d)) = conns d"
  by (induction ps arbitrary: n d) (simp_all add: Let_def)

lemma tokens_drop [simp]: "enroll_tokens (drop_agents P d) = enroll_tokens d"
  by (simp add: drop_agents_def Let_def)

lemma tokens_PruneConns [simp]: "enroll_tokens (snd (PruneEndpointConns e k d)) = enroll_tokens d"
  and agents_PruneConns [simp]: "agents (snd (PruneEndpointConns e k d)) = agents d"
  by (simp_all add: PruneEndpointConns_def Let_def db_write_def)

lemma agents_PruneData: "\<exists>P. agents (snd (PruneAgentData e r d)) = filter P (agents d)"
proof -
  have "\<exists>P. agents d = filter P (agents d)" by (rule exI [of _ "\<lambda>_. True"]) simp
  then show ?thesis by (auto simp: PruneAgentData_def Let_def db_write_def drop_agents_def split_beta split: sum.split)
qed

lemma tokens_PruneData [simp]: "enroll_tokens (snd (PruneAgentData e r d)) = enroll_tokens d"
  by (simp add: PruneAgentData_def Let_def db_write_def split_beta split: sum.split)

text \<open>A step draws a token only in the handlers that mint or exchange one; every other step leaves the
  enrolment tokens and takes agents away or rewrites fields other than the token and its revocation.\<close>

lemma ingest_tokens [simp]: "enroll_tokens (snd (ingest e r a q d)) = enroll_tokens d"
  by (simp add: ingest_def Let_def split_beta split: sum.split option.split)

lemma agentEvents_tokens [simp]: "enroll_tokens (snd (agentEvents e c r authz body d)) = enroll_tokens d"
  by (simp add: agentEvents_def split: sum.split option.split)

definition used_token :: "string \<Rightarrow> EnrollToken \<Rightarrow> bool" where
  "used_token h t \<longleftrightarrow> et_hash t = h \<and> et_used t \<noteq> None"

definition spent :: "string \<Rightarrow> agent_db \<Rightarrow> bool" where
  "spent h d \<longleftrightarrow> wf_agents d \<and> list_ex (used_token h) (enroll_tokens d)"

lemma used_token_stays:
  "list_ex (used_token h) xs \<Longrightarrow>
     list_ex (used_token h) (map (\<lambda>x. if et_hash x = k then x\<lparr>et_used := Some u, et_agent := g\<rparr> else x) xs)"
  by (induction xs) (auto simp: used_token_def)

lemma spent_same: "spent h d \<Longrightarrow> wf_agents d' \<Longrightarrow> enroll_tokens d' = enroll_tokens d \<Longrightarrow> spent h d'"
  by (simp add: spent_def)

lemma spent_agentEnroll: "spent h d \<Longrightarrow> spent h (snd (agentEnroll e c r body d))"
  by (simp add: spent_def wf_agentEnroll)
    (simp add: agentEnroll_def EnrollAgent_def NewToken_def Let_def used_token_stays
      split: option.split sum.split enroll_error.split)

lemma wf_createEnrollToken: "wf_agents d \<Longrightarrow> wf_agents (snd (createEnrollToken e c u name d))"
  by (simp add: createEnrollToken_def split_beta wf_agent_ops split: sum.split)

lemma spent_MintToken: "spent h d \<Longrightarrow> spent h (snd (createEnrollToken e c u name d))"
  by (simp add: spent_def wf_createEnrollToken)
    (simp add: createEnrollToken_def CreateEnrollToken_def NewToken_def Let_def split: option.split sum.split)

lemma admin_tokens [simp]:
  "enroll_tokens (snd (setAgentSettings e body d)) = enroll_tokens d"
  "enroll_tokens (snd (updateAgent e idv ub d)) = enroll_tokens d"
  "enroll_tokens (snd (agentAdminAction e idv act d)) = enroll_tokens d"
  "enroll_tokens (snd (deleteAgent e idv d)) = enroll_tokens d"
  by (simp_all add: setAgentSettings_def updateAgent_def agentAdminAction_def deleteAgent_def admin_reply_def
      SetAgentRetention_def UpdateAgent_def RevokeAgent_def SetAgentAutoUpdate_def DeleteAgent_def Let_def
      split_beta db_write_def split: option.split sum.split)

lemma spent_step: "spent h d \<Longrightarrow> spent h (agent_step c d ev)"
proof -
  assume s: "spent h d"
  obtain e k where ev: "ev = (e, k)" by (cases ev)
  have w: "wf_agents (agent_step c d ev)" using s by (simp add: spent_def wf_agent_step)
  show ?thesis
  proof (cases k)
    case (Enroll r body)
    with ev s show ?thesis by (simp add: spent_agentEnroll)
  next
    case (MintToken u name)
    with ev s show ?thesis by (simp add: spent_MintToken)
  qed (use ev s w in \<open>auto intro: spent_same\<close>)
qed

interpretation spent_tokens: machine "agent_step c" "spent h" for c h
  by unfold_locales (rule spent_step)

lemma spent_refused:
  assumes s: "spent (HashToken e (en_token q)) d"
  shows "snd (agentEnroll e c r (Some q) d) = d" "\<not> is_success (fst (agentEnroll e c r (Some q) d))"
proof -
  let ?h = "HashToken e (en_token q)"
  obtain t where t: "t \<in> set (enroll_tokens d)" "et_hash t = ?h" "et_used t \<noteq> None"
    using s by (auto simp: spent_def list_ex_iff used_token_def)
  have inj: "inj_on et_hash (set (enroll_tokens d))" using s by (simp add: spent_def wf_agents_def distinct_map)
  have "x = t" if "x \<in> set (enroll_tokens d)" "et_hash x = ?h" for x
    using that t(1,2) by (intro inj_onD [OF inj]) simp_all
  then have none: "find (usable_token e ?h) (enroll_tokens d) = None"
    using t(3) by (subst find_None_iff) (metis usable_token_def)
  then show "snd (agentEnroll e c r (Some q) d) = d" "\<not> is_success (fst (agentEnroll e c r (Some q) d))"
    by (simp_all add: agentEnroll_def EnrollAgent_def Let_def)
qed

lemma find_SomeD: "find P xs = Some x \<Longrightarrow> x \<in> set xs \<and> P x"
  by (auto simp: find_Some_iff)

text \<open>What a successful exchange does.\<close>

lemma EnrollAgent_Inr:
  assumes "EnrollAgent e tok h os arch v ips rip d = (Inr (a, token), d1)"
  obtains t addrs last_ip where
    "t \<in> set (enroll_tokens d)" "usable_token e (HashToken e tok) t" "token = rand_hex e"
    "a = new_agent (now_of e) (agent_seq d + 1) (agent_name (et_name t) h) h os arch v (HashToken e (rand_hex e)) addrs last_ip"
    "\<not> list_ex (\<lambda>x. ag_hash x = HashToken e (rand_hex e)) (agents d)"
    "d1 = d\<lparr>agent_seq := agent_seq d + 1, agents := agents d @ [a], enroll_tokens := map (\<lambda>x. if et_hash x = HashToken e tok
       then x\<lparr>et_used := Some (now_of e), et_agent := Some (agent_seq d + 1)\<rparr> else x) (enroll_tokens d)\<rparr>"
  using assms
  by (auto simp: EnrollAgent_def NewToken_def Let_def new_agent_def dest!: find_SomeD split: if_splits option.splits)

lemma agentEnroll_Json:
  assumes "agentEnroll e c r (Some q) d = (Json st v, d1)"
  obtains a token where
    "EnrollAgent e (en_token q) (trunc (en_hostname q) 200) (trunc (en_os q) 40) (trunc (en_arch q) 20)
       (trunc (en_version q) 40) (cleanIPs (en_ips q)) (remoteIP r) d = (Inr (a, token), d1)"
    "st = 201" "v = VEnrolled (ag_id a) token (ag_name a) (LocalNetworksCIDR c)"
  using assms by (auto simp: agentEnroll_def split: if_splits sum.splits enroll_error.splits prod.splits)

lemma marked_used:
  "t \<in> set xs \<Longrightarrow> et_hash t = k \<Longrightarrow>
     list_ex (used_token k) (map (\<lambda>x. if et_hash x = k then x\<lparr>et_used := Some u, et_agent := g\<rparr> else x) xs)"
  by (induction xs) (auto simp: used_token_def)

lemma enrolled_spends:
  assumes "agentEnroll e c r (Some q) d = (Json st v, d1)"
  shows "list_ex (used_token (HashToken e (en_token q))) (enroll_tokens d1)"
  using assms
proof (rule agentEnroll_Json)
  fix a token
  assume "EnrollAgent e (en_token q) (trunc (en_hostname q) 200) (trunc (en_os q) 40) (trunc (en_arch q) 20)
       (trunc (en_version q) 40) (cleanIPs (en_ips q)) (remoteIP r) d = (Inr (a, token), d1)"
  then show ?thesis
    by (rule EnrollAgent_Inr) (simp add: usable_token_def marked_used)
qed

text \<open>C19: An enrolment token works once. After an exchange that succeeded, whatever happens to the agent
  tables, presenting a token with the same hash again enrols nobody, changes nothing and is answered
  with an error.\<close>

theorem enrolment_token_works_once:
  assumes "wf_agents d" and "agentEnroll e c r (Some q) d = (Json st v, d1)"
    and "HashToken e' (en_token q') = HashToken e (en_token q)"
  shows "(let d2 = foldl (agent_step c) d1 evs; again = agentEnroll e' c r' (Some q') d2
          in snd again = d2 \<and> \<not> is_success (fst again))"
proof -
  have "wf_agents d1" using wf_agentEnroll [OF assms(1), of e c r "Some q"] assms(2) by simp
  then have "spent (HashToken e (en_token q)) d1"
    using enrolled_spends [OF assms(2)] by (simp add: spent_def)
  then have "spent (HashToken e (en_token q)) (foldl (agent_step c) d1 evs)" by (rule spent_tokens.run_inv)
  then have "spent (HashToken e' (en_token q')) (foldl (agent_step c) d1 evs)" using assms(3) by simp
  from spent_refused [OF this] show ?thesis by (simp add: Let_def)
qed

text \<open>A small installation: one token that may be exchanged, and a host that presents it.\<close>

definition sample_ingest :: "instant \<Rightarrow> string \<Rightarrow> ingest_env" where
  "sample_ingest t tok = \<lparr>now_of = t, fault = (\<lambda>_. False), sha256 = id, rand_hex = tok, buildInfo = (\<lambda>_. None)\<rparr>"

definition sample_token :: EnrollToken where
  "sample_token = \<lparr>et_hash = ''tok'', et_name = ''desk'', et_by = ''admin'', et_created = 0, et_expires = 100,
     et_used = None, et_agent = None\<rparr>"

definition sample_agents :: agent_db where
  "sample_agents = empty_agent_db\<lparr>enroll_tokens := [sample_token]\<rparr>"

definition sample_enroll :: enrollRequest where
  "sample_enroll = \<lparr>en_token = ''tok'', en_hostname = ''pc'', en_os = [], en_arch = [], en_version = [], en_ips = []\<rparr>"

definition sample_agent :: Agent where
  "sample_agent = new_agent 1 1 ''desk'' ''pc'' [] [] [] ''secret'' [] None"

lemma sample_ingest_simps [simp]:
  "now_of (sample_ingest t k) = t" "\<not> fault (sample_ingest t k) x" "sha256 (sample_ingest t k) = id"
  "rand_hex (sample_ingest t k) = k" "buildInfo (sample_ingest t k) = (\<lambda>_. None)"
  by (simp_all add: sample_ingest_def)

lemma wf_sample_agents [simp]: "wf_agents sample_agents"
  by (simp add: sample_agents_def wf_agents_def agent_ids_def empty_agent_db_def)

lemma sample_trims [simp]:
  "TrimSpace ''tok'' = ''tok''" "TrimSpace ''secret'' = ''secret''" "TrimSpace ''pc'' = ''pc''" "TrimSpace [] = []"
  "trunc ''pc'' 200 = ''pc''" "trunc [] n = []"
  by (simp_all add: TrimSpace_def is_space_def trunc_def)

lemma requireAgentTLS_sample [simp]: "requireAgentTLS sample_config r"
  by (simp add: requireAgentTLS_def sample_config_def Load_init_def env_of_def)

lemma sample_enrolment:
  "agentEnroll (sample_ingest 1 ''secret'') sample_config (sample_request\<lparr>rq_remote := []\<rparr>) (Some sample_enroll) sample_agents =
     (Json 201 (VEnrolled 1 ''secret'' ''desk'' (LocalNetworksCIDR sample_config)),
      sample_agents\<lparr>agent_seq := 1, agents := [sample_agent],
        enroll_tokens := [sample_token\<lparr>et_used := Some 1, et_agent := Some 1\<rparr>]\<rparr>)"
proof -
  have "remoteIP (sample_request\<lparr>rq_remote := []\<rparr>) = []"
    by code_simp
  then show ?thesis
    by (simp add: agentEnroll_def EnrollAgent_def NewToken_def HashToken_def Let_def sample_enroll_def sample_agents_def
        sample_token_def usable_token_def inet_array_def inet_arg_def cleanIPs_def empty_agent_db_def agent_name_def
        sample_agent_def new_agent_def clean_utf8_def lead_byte_def byte_in_def)
qed

theorem enrolment_token_works_once_witness:
  "\<not> is_success (fst (agentEnroll (sample_ingest 3 ''other'') sample_config sample_request (Some sample_enroll)
       (foldl (agent_step sample_config)
         (snd (agentEnroll (sample_ingest 1 ''secret'') sample_config (sample_request\<lparr>rq_remote := []\<rparr>) (Some sample_enroll) sample_agents))
         [(sample_ingest 2 [], Remove ''1'')])))"
  using enrolment_token_works_once [where e' = "sample_ingest 3 ''other''"
      and q' = sample_enroll and evs = "[(sample_ingest 2 [], Remove ''1'')]"
      and r' = sample_request, OF wf_sample_agents sample_enrolment]
  by (simp add: sample_enrolment Let_def HashToken_def del: foldl_Cons foldl_Nil)

section \<open>Revocation\<close>

text \<open>Where the agents after a step come from: from an agent with the same token that was not revoked
  unless this one is, or from the exchange of an enrolment token.\<close>

definition descends :: "string \<Rightarrow> Agent list \<Rightarrow> Agent list \<Rightarrow> bool" where
  "descends fresh as bs \<longleftrightarrow>
     list_all (\<lambda>b. list_ex (\<lambda>a. ag_hash b = ag_hash a \<and> (ag_revoked b = None \<longrightarrow> ag_revoked a = None)) as \<or> ag_hash b = fresh) bs"

lemma descends_refl [simp]: "descends h as as"
  by (auto simp: descends_def list_all_iff list_ex_iff)

lemma descends_filter [simp]: "descends h as (filter P as)"
  by (auto simp: descends_def list_all_iff list_ex_iff)

lemma descends_map:
  assumes "\<And>a. ag_hash (f a) = ag_hash a" "\<And>a. ag_revoked (f a) = None \<Longrightarrow> ag_revoked a = None"
  shows "descends h as (map (\<lambda>a. if P a then f a else a) as)"
  using assms by (fastforce simp: descends_def list_all_iff list_ex_iff)

lemma descends_write: "descends h (agents d) (agents d') \<Longrightarrow> descends h (agents d) (agents (db_write e k d d'))"
  by (simp add: db_write_def)

lemma descends_map_agent:
  "(\<And>a. ag_hash (f a) = ag_hash a) \<Longrightarrow> (\<And>a. ag_revoked (f a) = None \<Longrightarrow> ag_revoked a = None) \<Longrightarrow>
     descends h (agents d) (agents (map_agent P f d))"
  unfolding map_agent_def by (simp add: descends_map)

lemma descends_drop [simp]: "descends h (agents d) (agents (drop_agents P d))"
  by (simp add: drop_agents_def Let_def)

lemma descends_Touch: "descends h (agents d) (agents (snd (TouchAgent e i ips v c rip b dr d)))"
  unfolding TouchAgent_def
  by (auto intro!: descends_write descends_map_agent split: option.split)

lemma descends_report:
  "descends h (agents d) (agents (snd (TouchAgent e i ips v cp rip b dr (snd (InsertEndpointConns e' i' cs d)))))"
  using descends_Touch [of h "snd (InsertEndpointConns e' i' cs d)"] by simp

lemma descends_Events: "descends h (agents d) (agents (snd (agentEvents e c r authz body d)))"
  by (simp add: agentEvents_def ingest_def Let_def split_beta descends_report split: sum.split option.split)

lemma descends_snoc: "ag_hash a = h \<Longrightarrow> descends h as (as @ [a])"
  by (auto simp: descends_def list_all_iff list_ex_iff)

lemma descends_EnrollAgent:
  "descends (HashToken e (rand_hex e)) (agents d) (agents (snd (EnrollAgent e tok h os ar v ips rip d)))"
proof (cases "find (usable_token e (HashToken e tok)) (enroll_tokens d)")
  case (Some t)
  show ?thesis
    by (cases "inet_array ips"; cases "inet_arg rip")
      (simp_all add: EnrollAgent_def NewToken_def Let_def Some descends_snoc new_agent_def)
qed (simp add: EnrollAgent_def Let_def)

lemma descends_Enroll: "descends (HashToken e (rand_hex e)) (agents d) (agents (snd (agentEnroll e c r body d)))"
  by (simp add: agentEnroll_def split_beta descends_EnrollAgent split: option.split sum.split enroll_error.split)

lemma descends_Revoke: "descends h (agents d) (agents (snd (RevokeAgent e i d)))"
  and descends_AutoUpdate: "descends h (agents d) (agents (snd (SetAgentAutoUpdate e i on d)))"
  and descends_Rename: "descends h (agents d) (agents (snd (UpdateAgent e i n t d)))"
  unfolding RevokeAgent_def SetAgentAutoUpdate_def UpdateAgent_def Let_def snd_conv
  by (rule descends_write, rule descends_map_agent, simp, simp)+

lemma snd_admin_reply [simp]: "snd (admin_reply res v m) = snd res"
  by (simp add: admin_reply_def split_beta split: sum.split)

lemma descends_Action: "descends h (agents d) (agents (snd (agentAdminAction e idv act d)))"
  by (simp add: agentAdminAction_def Let_def descends_Revoke descends_AutoUpdate split: option.split)

lemma agents_simps [simp]:
  "agents (snd (createEnrollToken e c u name d)) = agents d"
  by (simp add: createEnrollToken_def CreateEnrollToken_def NewToken_def Let_def split: option.split sum.split)

lemma descends_PruneData: "agents d' = agents d \<Longrightarrow> descends h (agents d) (agents (snd (PruneAgentData e r d')))"
  using agents_PruneData [of e r d'] by auto

lemma agents_SetRetention [simp]: "agents (snd (SetAgentRetention e r d)) = agents d"
  by (simp add: SetAgentRetention_def db_write_def split: option.split)

lemma descends_Settings: "descends h (agents d) (agents (snd (setAgentSettings e body d)))"
  unfolding setAgentSettings_def
  by (simp add: split_beta descends_PruneData split: option.split sum.split)

lemma descends_Update: "descends h (agents d) (agents (snd (updateAgent e idv body d)))"
  by (simp add: updateAgent_def split_beta descends_Rename split: option.split sum.split)

lemma descends_Delete: "descends h (agents d) (agents (snd (deleteAgent e idv d)))"
  by (simp add: deleteAgent_def DeleteAgent_def descends_write split: option.split)

lemma agent_step_descends: "descends (HashToken e (rand_hex e)) (agents d) (agents (agent_step c d (e, k)))"
  by (cases k) (simp_all add: descends_Events descends_Enroll descends_Action descends_PruneData descends_Settings
      descends_Update descends_Delete)

definition shut_out :: "string \<Rightarrow> agent_db \<Rightarrow> bool" where
  "shut_out h d \<longleftrightarrow> list_all (\<lambda>a. \<not> (ag_hash a = h \<and> ag_revoked a = None)) (agents d)"

definition draws_other :: "string \<Rightarrow> ingest_env \<times> agent_call \<Rightarrow> bool" where
  "draws_other h ev \<longleftrightarrow> HashToken (fst ev) (rand_hex (fst ev)) \<noteq> h"

lemma shut_out_step: "shut_out h d \<Longrightarrow> draws_other h ev \<Longrightarrow> shut_out h (agent_step c d ev)"
  using agent_step_descends [of "fst ev" d c "snd ev"]
  unfolding shut_out_def draws_other_def descends_def list_all_iff list_ex_iff prod.collapse
  by metis

interpretation revoked_tokens: guarded_machine "agent_step c" "shut_out h" "draws_other h" for c h
  by unfold_locales (rule shut_out_step)

end
