(* ===== verification/AgentsSafety.thy ===== *)
theory AgentsSafety
  imports AgentsApi
begin

text \<open>
  Properties of the agent endpoints as a whole: who may report, what a report changes, and that
  the counts of a batch are neither lost nor invented. They rest on the machines of
  \<open>AgentsApi\<close>.
\<close>

section \<open>Tokens of agents\<close>

lemma RevokeAgent_shuts_out:
  assumes w: "wf_agents d" and a: "a \<in> set (agents d)" and ok: "\<not> fault e [''RevokeAgent'']"
  shows "shut_out (ag_hash a) (snd (RevokeAgent e (ag_id a) d))"
proof -
  have inj: "inj_on ag_hash (set (agents d))" using w by (simp add: wf_agents_def distinct_map)
  have "x = a" if "x \<in> set (agents d)" "ag_hash x = ag_hash a" for x
    using that a by (intro inj_onD [OF inj]) simp_all
  then show ?thesis
    using ok by (auto simp: shut_out_def RevokeAgent_def map_agent_def list_all_iff split: if_splits)
qed

lemma shut_out_refused:
  assumes "shut_out (HashToken e (bearer authz)) d"
  shows "snd (agentEvents e c r authz body d) = d" "\<not> is_success (fst (agentEvents e c r authz body d))"
proof -
  have "find (\<lambda>a. ag_hash a = HashToken e (bearer authz) \<and> ag_revoked a = None) (agents d) = None"
    using assms by (auto simp: shut_out_def find_None_iff list_all_iff)
  then have "\<exists>rep. agentAuth e authz d = Inl rep \<and> \<not> is_success rep"
    by (auto simp: agentAuth_def AgentByToken_def Let_def db_read_def)
  then show "snd (agentEvents e c r authz body d) = d" "\<not> is_success (fst (agentEvents e c r authz body d))"
    by (auto simp: agentEvents_def)
qed

text \<open>C18: Revoking an agent shuts its token out for good. After a successful revocation and any further
  events, in which no new agent happens to draw a token with the same hash, a report under the old token
  changes nothing and is answered with an error.\<close>

theorem revoked_token_is_shut_out:
  assumes "wf_agents d" and "a \<in> set (agents d)" and "Atoi idv = Some (ag_id a)"
    and "agentAdminAction e idv ''revoke'' d = (Json 200 v, d1)"
    and "list_all (draws_other (ag_hash a)) evs" and "HashToken e' (bearer authz) = ag_hash a"
  shows "(let d2 = foldl (agent_step c) d1 evs; report = agentEvents e' c' r authz body d2
          in snd report = d2 \<and> \<not> is_success (fst report))"
proof -
  have "\<not> fault e [''RevokeAgent'']" "d1 = snd (RevokeAgent e (ag_id a) d)"
    using assms(3,4) by (auto simp: agentAdminAction_def admin_reply_def RevokeAgent_def db_read_def split: if_splits)
  then have "shut_out (ag_hash a) d1" using RevokeAgent_shuts_out [OF assms(1,2)] by simp
  then have "shut_out (ag_hash a) (foldl (agent_step c) d1 evs)"
    using assms(5) by (intro revoked_tokens.guarded_run) (simp_all add: list_all_iff)
  then have "shut_out (HashToken e' (bearer authz)) (foldl (agent_step c) d1 evs)" using assms(6) by simp
  from shut_out_refused [OF this] show ?thesis by (simp add: Let_def)
qed

definition sample_fleet :: agent_db where
  "sample_fleet = empty_agent_db\<lparr>agent_seq := 1, agents := [sample_agent]\<rparr>"

lemma wf_sample_fleet [simp]: "wf_agents sample_fleet"
  by (simp add: sample_fleet_def wf_agents_def agent_ids_def empty_agent_db_def sample_agent_def new_agent_def)

lemma sample_agent_simps [simp]:
  "ag_id sample_agent = 1" "ag_hash sample_agent = ''secret''" "ag_revoked sample_agent = None" "ag_name sample_agent = ''desk''"
  by (simp_all add: sample_agent_def new_agent_def)

lemma bearer_secret [simp]: "bearer ''Bearer secret'' = ''secret''"
  by code_simp

lemma sample_revocation:
  "agentAdminAction (sample_ingest 5 []) (Itoa 1) ''revoke'' sample_fleet =
     (Json 200 VAgentOk, sample_fleet\<lparr>agents := [sample_agent\<lparr>ag_revoked := Some 5\<rparr>]\<rparr>)"
proof -
  have "Atoi (Itoa 1) = Some 1" by (rule Atoi_Itoa) (simp add: int64_ok_def max_int64_def min_int64_def)
  then show ?thesis
    by (simp add: agentAdminAction_def admin_reply_def RevokeAgent_def map_agent_def sample_fleet_def empty_agent_db_def)
qed

theorem revoked_token_is_shut_out_witness:
  "\<not> is_success (fst (agentEvents (sample_ingest 7 []) sample_config sample_request ''Bearer secret'' None
     (foldl (agent_step sample_config) (snd (agentAdminAction (sample_ingest 5 []) (Itoa 1) ''revoke'' sample_fleet))
       [(sample_ingest 6 ''new'', MintToken None ''x'')])))"
proof -
  have i: "Atoi (Itoa 1) = Some (ag_id sample_agent)"
    by (simp add: Atoi_Itoa int64_ok_def max_int64_def min_int64_def)
  have m: "sample_agent \<in> set (agents sample_fleet)" by (simp add: sample_fleet_def)
  have g: "list_all (draws_other (ag_hash sample_agent)) [(sample_ingest 6 ''new'', MintToken None ''x'')]"
    by (simp add: draws_other_def HashToken_def TrimSpace_def is_space_def)
  have h: "HashToken (sample_ingest 7 []) (bearer ''Bearer secret'') = ag_hash sample_agent"
    by (simp add: HashToken_def)
  show ?thesis
    using revoked_token_is_shut_out [OF wf_sample_fleet m i sample_revocation g h, of sample_config sample_config sample_request None]
    by (simp add: sample_revocation Let_def del: foldl_Cons foldl_Nil)
qed

lemma find_append: "find P (xs @ ys) = (case find P xs of None \<Rightarrow> find P ys | Some x \<Rightarrow> Some x)"
  by (induction xs) simp_all

lemma bearer_Bearer: "bearer (''Bearer '' @ t) = TrimSpace t"
proof -
  have "ToLower ''Bearer '' = ''bearer ''" by code_simp
  then have "ToLower (''Bearer '' @ t) = ''bearer '' @ ToLower t" by (simp only: ToLower_def map_append)
  then have "HasPrefix (ToLower (''Bearer '' @ t)) ''bearer ''" by (simp only: HasPrefix_append)
  then show ?thesis unfolding bearer_def by (simp only: if_True) simp
qed

text \<open>Enrolment round trip. A host that has exchanged an enrolment token is answered with a token under
  which the next request is authenticated as the agent that was created, and this agent is new.\<close>

theorem enrolled_agent_authenticates:
  assumes "wf_agents d" and "agentEnroll e c r (Some q) d = (Json st (VEnrolled i token name nets), d1)"
    and "sha256 e' = sha256 e" and "\<not> fault e' [''AgentByToken'']" and "TrimSpace (rand_hex e) \<noteq> []"
  shows "\<exists>a. agentAuth e' (''Bearer '' @ token) d1 = Inr a \<and> ag_id a = i \<and> ag_name a = name \<and>
           agents d1 = agents d @ [a] \<and> i \<notin> agent_ids d"
  using assms(2)
proof (rule agentEnroll_Json)
  fix a tok
  assume E: "EnrollAgent e (en_token q) (trunc (en_hostname q) 200) (trunc (en_os q) 40) (trunc (en_arch q) 20)
       (trunc (en_version q) 40) (cleanIPs (en_ips q)) (remoteIP r) d = (Inr (a, tok), d1)"
    and v: "VEnrolled i token name nets = VEnrolled (ag_id a) tok (ag_name a) (LocalNetworksCIDR c)"
  from E show ?thesis
  proof (rule EnrollAgent_Inr)
    fix t addrs last_ip
    assume tok: "tok = rand_hex e" and fresh: "\<not> list_ex (\<lambda>x. ag_hash x = HashToken e (rand_hex e)) (agents d)"
      and a: "a = new_agent (now_of e) (agent_seq d + 1) (agent_name (et_name t) (trunc (en_hostname q) 200))
         (trunc (en_hostname q) 200) (trunc (en_os q) 40) (trunc (en_arch q) 20) (trunc (en_version q) 40)
         (HashToken e (rand_hex e)) addrs last_ip"
      and d1: "d1 = d\<lparr>agent_seq := agent_seq d + 1, agents := agents d @ [a], enroll_tokens :=
         map (\<lambda>x. if et_hash x = HashToken e (en_token q) then x\<lparr>et_used := Some (now_of e), et_agent := Some (agent_seq d + 1)\<rparr>
           else x) (enroll_tokens d)\<rparr>"
    have b: "bearer (''Bearer '' @ token) = TrimSpace (rand_hex e)"
      using v tok by (simp only: bearer_Bearer agent_value.inject)
    have "find (\<lambda>x. ag_hash x = HashToken e (rand_hex e) \<and> ag_revoked x = None) (agents d) = None"
      using fresh by (auto simp: find_None_iff list_ex_iff)
    then have "find (\<lambda>x. ag_hash x = HashToken e (rand_hex e) \<and> ag_revoked x = None) (agents d1) = Some a"
      by (simp add: d1 a new_agent_def find_append)
    then have "agentAuth e' (''Bearer '' @ token) d1 = Inr a"
      using assms(3-5) unfolding agentAuth_def AgentByToken_def b HashToken_def by (simp add: Let_def)
    moreover have "ag_id a \<notin> agent_ids d" using assms(1) by (fastforce simp: a new_agent_def wf_agents_def agent_ids_def)
    ultimately show ?thesis using v d1 by simp
  qed
qed

theorem enrolled_agent_authenticates_witness:
  "\<exists>a. agentAuth (sample_ingest 2 []) ''Bearer secret''
     (snd (agentEnroll (sample_ingest 1 ''secret'') sample_config (sample_request\<lparr>rq_remote := []\<rparr>) (Some sample_enroll) sample_agents))
     = Inr a \<and> ag_id a = 1"
  using enrolled_agent_authenticates [OF wf_sample_agents sample_enrolment, of "sample_ingest 2 []"]
  by (auto simp: sample_enrolment)

section \<open>What a report changes\<close>

lemma filter_map_if:
  "(\<And>r. Q r \<Longrightarrow> \<not> P r \<and> \<not> P (f r)) \<Longrightarrow> filter P (map (\<lambda>r. if Q r then f r else r) rows) = filter P rows"
  by (induction rows) auto

lemma filter_upsert_by:
  "(\<And>r. key r = k \<Longrightarrow> \<not> P r \<and> \<not> P (upd r)) \<Longrightarrow> \<not> P new \<Longrightarrow> filter P (upsert_by key k upd new rows) = filter P rows"
  by (auto simp: upsert_by_def intro!: filter_map_if)

lemma put_conn_others:
  assumes "put_conn i c rows = Some rows'"
  shows "filter (\<lambda>r. cr_agent r \<noteq> i) rows' = filter (\<lambda>r. cr_agent r \<noteq> i) rows"
proof -
  obtain h t where "rows' = upsert_by conn_key (conn_key (row_of i c h t)) (merge_conn (row_of i c h t)) (row_of i c h t) rows"
    using put_conn_Some [OF assms] by blast
  then show ?thesis by (auto intro!: filter_upsert_by simp: conn_key_def)
qed

lemma put_conns_others:
  "put_conns i cs rows = Some rows' \<Longrightarrow> filter (\<lambda>r. cr_agent r \<noteq> i) rows' = filter (\<lambda>r. cr_agent r \<noteq> i) rows"
proof (induction cs arbitrary: rows)
  case (Cons c cs)
  then obtain r1 where r1: "put_conn i c rows = Some r1" and r2: "put_conns i cs r1 = Some rows'"
    by (auto simp: Option.bind_eq_Some_conv)
  show ?case using Cons.IH [OF r2] put_conn_others [OF r1] by simp
qed simp

text \<open>The part of the tables that an agent with number \<open>i\<close> does not own. The verdict of the
  services on a file is nobody's.\<close>

definition others_part where
  "others_part i d = (filter (\<lambda>a. ag_id a \<noteq> i) (agents d), filter (\<lambda>r. cr_agent r \<noteq> i) (conns d),
     filter (\<lambda>p. p_agent p \<noteq> i) (program_identity d), enroll_tokens d, lolbins d, agent_retention d, agent_seq d)"

lemma others_conns:
  "filter (\<lambda>r. cr_agent r \<noteq> i) rows = filter (\<lambda>r. cr_agent r \<noteq> i) (conns d) \<Longrightarrow>
     others_part i (d\<lparr>conns := rows\<rparr>) = others_part i d"
  by (simp add: others_part_def)

lemma others_Insert: "others_part i (snd (InsertEndpointConns e i cs d)) = others_part i d"
  using put_conns_others [of i cs "conns d"]
  by (auto simp: InsertEndpointConns_def intro!: others_conns split: option.split)

lemma others_Touch: "others_part i (snd (TouchAgent e i ips v c rip b dr d)) = others_part i d"
proof -
  have "others_part i (map_agent (\<lambda>a. ag_id a = i) f d) = others_part i d" if "\<And>a. ag_id (f a) = ag_id a" for f
    using that by (auto simp: others_part_def map_agent_def intro!: filter_map_if)
  then show ?thesis by (auto simp: TouchAgent_def db_write_def split: option.split)
qed

lemma others_identity:
  "others_part i (d\<lparr>program_identity := put_identity t i p (program_identity d), file_intel := fs\<rparr>) = others_part i d"
  "others_part i (d\<lparr>program_identity := put_identity t i p (program_identity d)\<rparr>) = others_part i d"
  unfolding others_part_def put_identity_def by (auto intro!: filter_upsert_by simp: identity_key_def)

lemma others_Programs: "others_part i (snd (UpsertProgramIdentities e i ps n d)) = others_part i d"
  by (induction ps arbitrary: n d) (simp_all add: Let_def others_identity)

lemma others_ingest: "others_part (ag_id a) (snd (ingest e r a q d)) = others_part (ag_id a) d"
  by (simp add: ingest_def Let_def split_beta others_Insert others_Touch others_Programs split: sum.split option.split)

text \<open>The rows of file intelligence are shared by all agents that reported the file. A report extends
  them: it may fill an empty hash, raise the priority and put a skipped lookup back in the queue;
  what the services answered and when they were asked stays. A new row has no answer.\<close>

definition file_extends :: "FileIntel \<Rightarrow> FileIntel \<Rightarrow> bool" where
  "file_extends f g \<longleftrightarrow>
     fi_sha256 g = fi_sha256 f \<and> fi_vt g = fi_vt f \<and> fi_vt_at g = fi_vt_at f \<and> fi_attempts g = fi_attempts f \<and>
     fi_mhr_at g = fi_mhr_at f \<and> fi_created g = fi_created f \<and> fi_priority f \<le> fi_priority g \<and>
     (fi_sha1 f = [] \<or> fi_sha1 g = fi_sha1 f) \<and> (fi_md5 f = [] \<or> fi_md5 g = fi_md5 f) \<and>
     (fi_mhr g = fi_mhr f \<or> fm_status (fi_mhr f) = ''skipped'' \<and> fi_mhr g = (fi_mhr f)\<lparr>fm_status := ''pending''\<rparr>)"

definition unanswered :: "FileIntel \<Rightarrow> bool" where
  "unanswered f \<longleftrightarrow> fi_vt f = no_vt \<and> fi_vt_at f = None \<and> fi_attempts f = 0 \<and> fi_mhr f = no_mhr \<and> fi_mhr_at f = None"

definition files_extend :: "FileIntel list \<Rightarrow> FileIntel list \<Rightarrow> bool" where
  "files_extend fs gs \<longleftrightarrow>
     list_all2 file_extends fs (take (length fs) gs) \<and> list_all unanswered (drop (length fs) gs)"

lemma files_extend_iff:
  "files_extend fs gs \<longleftrightarrow>
     (\<exists>gs1 gs2. gs = gs1 @ gs2 \<and> list_all2 file_extends fs gs1 \<and> list_all unanswered gs2)"
proof
  assume "files_extend fs gs"
  then show "\<exists>gs1 gs2. gs = gs1 @ gs2 \<and> list_all2 file_extends fs gs1 \<and> list_all unanswered gs2"
    unfolding files_extend_def by (metis append_take_drop_id)
next
  assume "\<exists>gs1 gs2. gs = gs1 @ gs2 \<and> list_all2 file_extends fs gs1 \<and> list_all unanswered gs2"
  then obtain gs1 gs2 where g: "gs = gs1 @ gs2" "list_all2 file_extends fs gs1" "list_all unanswered gs2" by blast
  moreover from g(2) have "length fs = length gs1" by (rule list_all2_lengthD)
  ultimately show "files_extend fs gs" by (simp add: files_extend_def)
qed

lemma file_extends_refl [simp]: "file_extends f f"
  by (simp add: file_extends_def)

lemma file_extends_trans: "file_extends f g \<Longrightarrow> file_extends g h \<Longrightarrow> file_extends f h"
  by (auto simp: file_extends_def)

lemma unanswered_extends: "unanswered f \<Longrightarrow> file_extends f g \<Longrightarrow> unanswered g"
  by (auto simp: unanswered_def file_extends_def no_mhr_def)

lemma files_extend_refl [simp]: "files_extend fs fs"
  by (simp add: files_extend_def list_all2_same)

lemma files_extend_trans:
  assumes "files_extend fs gs" "files_extend gs hs"
  shows "files_extend fs hs"
proof -
  obtain gs1 gs2 where g: "gs = gs1 @ gs2" "list_all2 file_extends fs gs1" "list_all unanswered gs2"
    using assms(1) by (auto simp: files_extend_iff)
  obtain hs1 hs2 hs3 where h: "hs = hs1 @ hs2 @ hs3" "list_all2 file_extends gs1 hs1" "list_all2 file_extends gs2 hs2"
      "list_all unanswered hs3"
    using assms(2) unfolding g(1) files_extend_iff by (auto simp: list_all2_append1)
  have "list_all2 file_extends fs hs1"
    by (rule list_all2_trans [OF file_extends_trans g(2) h(2)])
  moreover have "list_all unanswered hs2"
    using g(3) h(3) unfolding list_all_length list_all2_conv_all_nth by (metis unanswered_extends)
  ultimately show ?thesis
    unfolding files_extend_iff using h by (intro exI [of _ hs1] exI [of _ "hs2 @ hs3"]) simp
qed

lemma files_extend_put: "files_extend fs (put_hash t p fs)"
proof -
  let ?upd = "\<lambda>r. r\<lparr>fi_sha1 := (if fi_sha1 r = [] then p_sha1 p else fi_sha1 r),
      fi_md5 := (if fi_md5 r = [] then p_md5 p else fi_md5 r),
      fi_priority := max (fi_priority r) (lookupPriority p),
      fi_mhr := (if fm_status (fi_mhr r) = ''skipped'' \<and> p_md5 p \<noteq> [] then (fi_mhr r)\<lparr>fm_status := ''pending''\<rparr>
                 else fi_mhr r)\<rparr>"
  have "file_extends r (if fi_sha256 r = p_sha256 p then ?upd r else r)" for r
    by (simp add: file_extends_def)
  then have "list_all2 file_extends fs (map (\<lambda>r. if fi_sha256 r = p_sha256 p then ?upd r else r) fs)"
    by (simp add: list_all2_map2 list_all2_same del: if_split)
  then show ?thesis
    by (simp add: put_hash_def upsert_by_def files_extend_def list_all2_same unanswered_def new_file_def)
qed

definition verdicts_kept :: "agent_db \<Rightarrow> agent_db \<Rightarrow> bool" where
  "verdicts_kept d d' \<longleftrightarrow> files_extend (file_intel d) (file_intel d')"

lemma verdicts_kept_same: "file_intel d' = file_intel d \<Longrightarrow> verdicts_kept d d'"
  by (simp add: verdicts_kept_def)

lemma verdicts_Programs: "verdicts_kept d (snd (UpsertProgramIdentities e i ps n d))"
proof (induction ps arbitrary: n d)
  case (Cons p ps)
  let ?d1 = "d\<lparr>program_identity := put_identity (now_of e) i p (program_identity d)\<rparr>"
  let ?d2 = "?d1\<lparr>file_intel := put_hash (now_of e) p (file_intel d)\<rparr>"
  have "verdicts_kept d ?d2" unfolding verdicts_kept_def using files_extend_put by simp
  then have "verdicts_kept d (snd (UpsertProgramIdentities e i ps (Suc n) ?d2))"
    using Cons.IH [of ?d2 "Suc n"] unfolding verdicts_kept_def by (rule files_extend_trans)
  moreover have "verdicts_kept d ?d1" by (rule verdicts_kept_same) simp
  ultimately show ?case using Cons.IH by (simp add: Let_def verdicts_kept_same)
qed (simp add: verdicts_kept_same)

lemma files_Insert [simp]: "file_intel (snd (InsertEndpointConns e i cs d)) = file_intel d"
  by (simp add: InsertEndpointConns_def split: option.split)

lemma files_Touch [simp]: "file_intel (snd (TouchAgent e i ips v c rip b dr d)) = file_intel d"
  by (auto simp: TouchAgent_def db_write_def map_agent_def split: option.split)

lemma verdicts_ingest: "verdicts_kept d (snd (ingest e r a q d))"
proof -
  have p: "verdicts_kept d (snd (UpsertProgramIdentities e i ps n d'))" if "file_intel d' = file_intel d" for e i ps n d'
    using verdicts_Programs [of d' e i ps n] that by (simp add: verdicts_kept_def)
  show ?thesis
    by (simp add: ingest_def Let_def split_beta verdicts_kept_same p split: sum.split option.split)
qed

text \<open>C21: A report only writes what belongs to the reporter. A request that does not authenticate changes
  nothing. A request of an agent leaves the rows of every other agent, their connections and their
  programs, the enrolment tokens, the catalogue and the settings. The rows of file intelligence, which
  agents share, are only extended: none is lost, every answer of VirusTotal and of the Malware Hash
  Registry stays with the time it was asked for, except that a lookup skipped for want of an MD5 is
  queued again; known hashes stay, the priority only grows, and a new row has no answer.\<close>

theorem report_touches_only_its_agent:
  "(let d' = snd (agentEvents e c r authz body d) in
    case agentAuth e authz d of
      Inl _ \<Rightarrow> d' = d
    | Inr a \<Rightarrow> others_part (ag_id a) d' = others_part (ag_id a) d \<and> verdicts_kept d d')"
proof (cases "agentAuth e authz d")
  case (Inr a)
  then show ?thesis
    by (simp add: agentEvents_def Let_def others_ingest verdicts_ingest verdicts_kept_same split: option.split)
qed (simp add: agentEvents_def)

section \<open>Counts of a batch\<close>

lemma sum_of_upsert:
  assumes "distinct (map key rows)" "key new = k" "\<And>r. key r = k \<Longrightarrow> g (upd r) = g r + g new"
  shows "sum_of g (upsert_by key k upd new rows) = sum_of g rows + g new"
proof (cases "list_ex (\<lambda>r. key r = k) rows")
  case True
  with assms(1) have "sum_of g (map (\<lambda>r. if key r = k then upd r else r) rows) = sum_of g rows + g new"
  proof (induction rows)
    case (Cons r rows)
    have "map (\<lambda>x. if key x = k then upd x else x) rows = rows" if "key r = k"
      using Cons.prems(1) that by (auto intro!: map_idI simp: image_iff)
    with Cons assms(3) show ?case by (cases "key r = k") (simp_all flip: sum_of_map)
  qed simp
  with True show ?thesis by (simp add: upsert_by_def)
qed (simp add: upsert_by_def)

lemma put_conn_counts:
  assumes "put_conn i c rows = Some rows'" "distinct (map conn_key rows)"
  shows "sum_of cr_count rows' = sum_of cr_count rows + c_count c \<and> sum_of cr_bytes rows' = sum_of cr_bytes rows + c_bytes c"
proof -
  obtain h t where r: "rows' = upsert_by conn_key (conn_key (row_of i c h t)) (merge_conn (row_of i c h t)) (row_of i c h t) rows"
    using put_conn_Some [OF assms(1)] by blast
  have "sum_of cr_count rows' = sum_of cr_count rows + cr_count (row_of i c h t)"
    unfolding r using assms(2) by (rule sum_of_upsert) (simp_all add: merge_conn_def)
  moreover have "sum_of cr_bytes rows' = sum_of cr_bytes rows + cr_bytes (row_of i c h t)"
    unfolding r using assms(2) by (rule sum_of_upsert) (simp_all add: merge_conn_def)
  ultimately show ?thesis by (simp add: row_of_def)
qed

lemma put_conns_counts:
  "put_conns i cs rows = Some rows' \<Longrightarrow> distinct (map conn_key rows) \<Longrightarrow>
     sum_of cr_count rows' = sum_of cr_count rows + sum_of c_count cs \<and>
     sum_of cr_bytes rows' = sum_of cr_bytes rows + sum_of c_bytes cs"
proof (induction cs arbitrary: rows)
  case (Cons c cs)
  then obtain r1 where r1: "put_conn i c rows = Some r1" and r2: "put_conns i cs r1 = Some rows'"
    by (auto simp: Option.bind_eq_Some_conv)
  have "distinct (map conn_key r1)" using put_conn_wf [OF r1 Cons.prems(2)] ..
  from Cons.IH [OF r2 this] put_conn_counts [OF r1 Cons.prems(2)] show ?case by simp
qed simp

lemma Insert_Inr:
  assumes "InsertEndpointConns e i cs d = (Inr n, d1)"
  obtains rows where "n = int (length cs)" "d1 = d\<lparr>conns := rows\<rparr>" "put_conns i cs (conns d) = Some rows"
  using assms that [of "conns d"] by (auto simp: InsertEndpointConns_def split: if_splits option.splits)

lemma Insert_counts:
  assumes "InsertEndpointConns e i cs d = (Inr n, d1)" "wf_agents d"
  shows "n = int (length cs) \<and> sum_of cr_count (conns d1) = sum_of cr_count (conns d) + sum_of c_count cs \<and>
     sum_of cr_bytes (conns d1) = sum_of cr_bytes (conns d) + sum_of c_bytes cs"
proof -
  have w: "distinct (map conn_key (conns d))" using assms(2) by (simp add: wf_agents_def)
  show ?thesis using assms(1) by (rule Insert_Inr) (use put_conns_counts w in \<open>force\<close>)
qed

lemma ingest_Json:
  assumes "ingest e r a q d = (Json st (VEvents n rejected pn b), d')"
  obtains d1 where "rejected = length (ev_conns q) - length (List.map_filter (validConn (now_of e)) (ev_conns q))"
    "InsertEndpointConns e (ag_id a) (List.map_filter (validConn (now_of e)) (ev_conns q)) d = (Inr n, d1)" "conns d' = conns d1"
proof -
  let ?ins = "InsertEndpointConns e (ag_id a) (List.map_filter (validConn (now_of e)) (ev_conns q)) d"
  let ?t = "\<lambda>k. TouchAgent e (ag_id a) (cleanIPs (ev_ips q)) (trunc (ev_version q) 40) (trunc (ev_capture q) 20)
    (remoteIP r) k (ev_dropped q)"
  obtain m d1 where ins: "?ins = (Inr m, d1)"
    using assms by (auto simp: ingest_def Let_def split: sum.splits prod.splits)
  obtain u d2 where t: "?t m d1 = (Inr u, d2)"
    using assms ins by (auto simp: ingest_def Let_def split: sum.splits prod.splits)
  have c: "conns d2 = conns d1" by (metis conns_Touch snd_conv t)
  have p: "conns d' = conns d2" if "UpsertProgramIdentities e (ag_id a) ps 0 d2 = (x, d')" for ps x
    using conns_Programs [of e "ag_id a" ps 0 d2] that by simp
  have "conns d' = conns d2 \<and> m = n \<and>
      rejected = length (ev_conns q) - length (List.map_filter (validConn (now_of e)) (ev_conns q))"
    using assms ins t by (auto simp: ingest_def Let_def dest!: p split: if_splits prod.splits option.splits)
  with c ins show thesis by (intro that) simp_all
qed

lemma agentEvents_Json:
  assumes "agentEvents e c r authz (Some q) d = (Json st (VEvents n rejected pn b), d')"
  obtains a where "agentAuth e authz d = Inr a" "ingest e r a q d = (Json st (VEvents n rejected pn b), d')"
  using assms by (auto simp: agentEvents_def agentAuth_def AgentByToken_def Let_def db_read_def fail_def
      split: if_splits sum.splits option.splits dberr.splits)

lemma validConn_counts: "validConn now c = Some c' \<Longrightarrow> 1 \<le> c_count c' \<and> 0 \<le> c_bytes c'"
  by (auto simp: validConn_def Let_def split: if_splits option.splits)

lemma report_counts:
  assumes "wf_agents d" and "agentEvents e c r authz (Some q) d = (Json st (VEvents n rejected pn b), d')"
  shows "(let valid = List.map_filter (validConn (now_of e)) (ev_conns q) in
     n = int (length valid) \<and> int rejected = int (length (ev_conns q)) - n \<and>
     sum_of cr_count (conns d') = sum_of cr_count (conns d) + sum_of c_count valid \<and>
     sum_of cr_bytes (conns d') = sum_of cr_bytes (conns d) + sum_of c_bytes valid \<and>
     list_all (\<lambda>x. 1 \<le> c_count x \<and> 0 \<le> c_bytes x) valid)"
proof -
  let ?valid = "List.map_filter (validConn (now_of e)) (ev_conns q)"
  have len: "length (List.map_filter f xs) \<le> length xs" for f :: "EndpointConn \<Rightarrow> EndpointConn option" and xs
    by (induction xs) (auto simp: map_filter_simps split: option.split)
  have valid: "list_all (\<lambda>x. 1 \<le> c_count x \<and> 0 \<le> c_bytes x) ?valid"
    using validConn_counts by (fastforce simp: List.map_filter_def list_all_iff)
  show ?thesis
  proof (rule agentEvents_Json [OF assms(2)], erule ingest_Json)
    fix a d1
    assume "rejected = length (ev_conns q) - length ?valid" "InsertEndpointConns e (ag_id a) ?valid d = (Inr n, d1)"
      "conns d' = conns d1"
    then show ?thesis
      using Insert_counts [of e "ag_id a" ?valid d n d1] assms(1) valid len [of "validConn (now_of e)" "ev_conns q"]
      by (simp add: Let_def of_nat_diff)
  qed
qed

text \<open>C20: The counts of an accepted batch are exact. The answer of a successful report splits the batch into
  accepted and rejected rows; the connections and the bytes in the table grow by exactly what the accepted
  rows carry, merged or not, and every accepted row counts at least one connection.\<close>

theorem report_counts_exact:
  assumes "wf_agents d" and "agentEvents e c r authz (Some q) d = (Json st (VEvents n rejected pn b), d')"
  shows "(let valid = List.map_filter (validConn (now_of e)) (ev_conns q) in
     n = int (length valid) \<and> int rejected = int (length (ev_conns q)) - n \<and>
     sum_of cr_count (conns d') = sum_of cr_count (conns d) + sum_of c_count valid \<and>
     sum_of cr_bytes (conns d') = sum_of cr_bytes (conns d) + sum_of c_bytes valid \<and>
     list_all (\<lambda>x. 1 \<le> c_count x \<and> 0 \<le> c_bytes x) valid)"
  by (rule report_counts [OF assms])

definition sample_conn :: EndpointConn where
  "sample_conn = \<lparr>c_minute = 0, c_host = AddrString (v4 10 0 0 5), c_proto = ''udp'',
     c_dst = AddrString (v4 8 8 8 8), c_port = 53, c_exe = ''/bin/x'',
     c_name = ''x'', c_user = [], c_sha256 = [], c_pid = 7, c_cmdline = [], c_container = [], c_count = 2, c_bytes = 10\<rparr>"

lemma sample_texts [simp]: "list_all clean_utf8 (conn_texts sample_conn)"
  by (simp add: conn_texts_def sample_conn_def clean_utf8_def lead_byte_def byte_in_def)

definition sample_batch :: "EndpointConn list \<Rightarrow> eventsRequest" where
  "sample_batch cs = \<lparr>ev_version = [], ev_ips = [], ev_capture = [], ev_dropped = 0, ev_conns = cs, ev_programs = []\<rparr>"

lemma v4_printed [simp]:
  "ParseAddr (AddrString (v4 a b c d)) = Some (v4 a b c d)" "Unmap (v4 a b c d) = v4 a b c d"
  "inet_cast (AddrString (v4 a b c d)) = Some (v4 a b c d)"
proof -
  show p: "ParseAddr (AddrString (v4 a b c d)) = Some (v4 a b c d)" by (simp add: v4_def ParseAddr_show_v4)
  show "Unmap (v4 a b c d) = v4 a b c d" by (simp add: v4_def Unmap_def)
  have "AddrString (v4 a b c d) \<noteq> []" using p by (auto simp: ParseAddr_def)
  then show "inet_cast (AddrString (v4 a b c d)) = Some (v4 a b c d)"
    using p by (simp add: inet_cast_def inet_arg_def v4_def)
qed

lemma sample_conn_valid [simp]: "validConn 1 sample_conn = Some sample_conn"
proof -
  have low: "ToLower ''udp'' = ''udp''" "ToLower [] = []" by code_simp+
  have t: "trunc ''/bin/x'' 512 = ''/bin/x''" "trunc ''x'' 128 = ''x''"
    by (simp_all add: trunc_def TrimSpace_def is_space_def)
  show ?thesis by (simp add: validConn_def sample_conn_def Let_def low t)
qed

lemma sample_conn_cast [simp]:
  "inet_cast (c_host sample_conn) = Some (v4 10 0 0 5)" "inet_cast (c_dst sample_conn) = Some (v4 8 8 8 8)"
  by (simp_all add: sample_conn_def)

definition sample_rows :: "conn_row list" where
  "sample_rows = [row_of 1 sample_conn (v4 10 0 0 5) (v4 8 8 8 8)]"

lemma sample_conn_numbers [simp]:
  "c_count sample_conn = 2" "c_bytes sample_conn = 10" "c_pid sample_conn = 7" "c_port sample_conn = 53"
  by (simp_all add: sample_conn_def)

lemma sample_put: "put_conns 1 [sample_conn] [] = Some sample_rows"
proof -
  have "cr_count (row_of 1 sample_conn h t) = 2" "cr_bytes (row_of 1 sample_conn h t) = 10" for h t
    by (simp_all add: row_of_def)
  then show ?thesis
    by (simp add: put_conn_def sample_rows_def upsert_by_def int32_ok_def max_int32_def int64_ok_def max_int64_def min_int64_def)
qed

lemma sample_batch_simps [simp]:
  "ev_conns (sample_batch cs) = cs" "ev_ips (sample_batch cs) = []" "ev_programs (sample_batch cs) = []"
  "ev_version (sample_batch cs) = []" "ev_capture (sample_batch cs) = []" "ev_dropped (sample_batch cs) = 0"
  by (simp_all add: sample_batch_def)

lemma sample_fleet_simps [simp]: "conns sample_fleet = []" "agents sample_fleet = [sample_agent]"
  by (simp_all add: sample_fleet_def empty_agent_db_def)

definition sample_touched :: agent_db where
  "sample_touched = sample_fleet\<lparr>conns := sample_rows, agents :=
      [sample_agent\<lparr>ag_last_seen := Some 1, ag_events := 1, ag_last_batch := 1\<rparr>]\<rparr>"

lemma sample_insert:
  "InsertEndpointConns (sample_ingest 1 []) 1 [sample_conn] sample_fleet = (Inr 1, sample_fleet\<lparr>conns := sample_rows\<rparr>)"
  by (simp add: InsertEndpointConns_def sample_put del: put_conns.simps)

lemma sample_touch:
  "TouchAgent (sample_ingest 1 []) 1 [] [] [] [] 1 0 (sample_fleet\<lparr>conns := sample_rows\<rparr>) = (Inr (), sample_touched)"
proof -
  have "ag_last_ip sample_agent = None" "ag_events sample_agent = 0" "ag_dropped sample_agent = 0" "ag_ips sample_agent = []"
    by (simp_all add: sample_agent_def new_agent_def)
  then show ?thesis
    by (simp add: TouchAgent_def inet_array_def inet_arg_def map_filter_simps map_agent_def sample_touched_def coalesce_def)
qed

lemma sample_ingested:
  "ingest (sample_ingest 1 []) (sample_request\<lparr>rq_remote := []\<rparr>) sample_agent (sample_batch [sample_conn]) sample_fleet =
     (Json 200 (VEvents 1 0 None None), sample_touched)"
proof -
  have "remoteIP (sample_request\<lparr>rq_remote := []\<rparr>) = []" by code_simp
  moreover have "BuildTarget (ag_os sample_agent) (ag_arch sample_agent) = []"
    by (simp add: sample_agent_def new_agent_def BuildTarget_def ToLower_def)
  ultimately show ?thesis
    by (simp add: ingest_def Let_def map_filter_simps sample_insert sample_touch cleanIPs_def offered_build_def)
qed

lemma sample_report:
  "agentEvents (sample_ingest 1 []) sample_config (sample_request\<lparr>rq_remote := []\<rparr>) ''Bearer secret''
     (Some (sample_batch [sample_conn])) sample_fleet = (Json 200 (VEvents 1 0 None None), sample_touched)"
proof -
  have "agentAuth (sample_ingest 1 []) ''Bearer secret'' sample_fleet = Inr sample_agent"
    by (simp add: agentAuth_def AgentByToken_def HashToken_def)
  then show ?thesis by (simp add: agentEvents_def sample_ingested)
qed

theorem report_counts_exact_witness:
  "sum_of cr_count (conns (snd (agentEvents (sample_ingest 1 []) sample_config (sample_request\<lparr>rq_remote := []\<rparr>)
     ''Bearer secret'' (Some (sample_batch [sample_conn])) sample_fleet))) = 2"
  using report_counts_exact [OF wf_sample_fleet sample_report]
  by (simp add: sample_report map_filter_simps Let_def)

text \<open>An accepted request that stops after the rows have been stored.\<close>

lemma Touch_fault:
  "fault e [''TouchAgent''] \<Longrightarrow> \<exists>m. TouchAgent e i ips v c rip b dr d = (Inl (DbError m), d)"
  by (auto simp: TouchAgent_def refused_text_def split: option.split)

lemma agentEvents_ingests:
  assumes "agentAuth e authz d = Inr a" "requireAgentTLS c r" "length (ev_conns q) \<le> 20000" "length (ev_programs q) \<le> 5000"
  shows "agentEvents e c r authz (Some q) d = ingest e r a q d"
  using assms by (simp add: agentEvents_def)

text \<open>A report is not idempotent. When the rows of a batch are stored but the statement that marks the
  agent as seen fails, the agent is answered with an error although its connections were counted; sending
  the same batch again counts all of them a second time.\<close>

theorem failed_report_counts_again:
  assumes "wf_agents d" and "agentAuth e authz d = Inr a" and "requireAgentTLS c r"
    and "length (ev_conns q) \<le> 20000" and "length (ev_programs q) \<le> 5000"
    and "InsertEndpointConns e (ag_id a) (List.map_filter (validConn (now_of e)) (ev_conns q)) d = (Inr n, d1)"
    and "fault e [''TouchAgent'']" and "now_of e2 = now_of e"
    and "agentEvents e2 c r authz (Some q) (snd (agentEvents e c r authz (Some q) d)) = (Json st (VEvents m rejected pn b), d2)"
  shows "\<not> is_success (fst (agentEvents e c r authz (Some q) d)) \<and>
    sum_of cr_count (conns d2) =
      sum_of cr_count (conns d) + 2 * sum_of c_count (List.map_filter (validConn (now_of e)) (ev_conns q))"
proof -
  let ?valid = "List.map_filter (validConn (now_of e)) (ev_conns q)"
  obtain msg where "TouchAgent e (ag_id a) (cleanIPs (ev_ips q)) (trunc (ev_version q) 40) (trunc (ev_capture q) 20)
      (remoteIP r) n (ev_dropped q) d1 = (Inl (DbError msg), d1)"
    using Touch_fault [OF assms(7)] by blast
  then have first: "agentEvents e c r authz (Some q) d = (fail (DbError msg), d1)"
    using assms(6) unfolding agentEvents_ingests [OF assms(2-5)] by (simp add: ingest_def Let_def)
  have w: "wf_agents d1" using wf_InsertEndpointConns [OF assms(1), of e "ag_id a" ?valid] assms(6) by simp
  have "sum_of cr_count (conns d2) = sum_of cr_count (conns d1) + sum_of c_count ?valid"
    using report_counts [OF w, of e2 c r authz q st m rejected pn b d2] assms(8,9) first by (simp add: Let_def)
  moreover have "sum_of cr_count (conns d1) = sum_of cr_count (conns d) + sum_of c_count ?valid"
    using Insert_counts [OF assms(6,1)] by simp
  ultimately show ?thesis using first by simp
qed

section \<open>Zoned addresses\<close>

lemma percent_no_ipv4: "CHR ''%'' \<in> set s \<Longrightarrow> parse_ipv4 s = None"
proof -
  assume p: "CHR ''%'' \<in> set s"
  have "CHR ''%'' \<in> set (Join (SplitOn CHR ''.'' s) ''.'')" using p by (simp add: Join_SplitOn)
  moreover have "set (Join ws ''.'') \<subseteq> (\<Union>w \<in> set ws. set w) \<union> {CHR ''.''}" for ws
    by (induction ws rule: induct_list012) auto
  ultimately obtain w where w: "w \<in> set (SplitOn CHR ''.'' s)" "CHR ''%'' \<in> set w" by fastforce
  then have "parse_octet w = None" by (auto simp: parse_octet_def parse_nat_def list_all_iff is_digit_def)
  with w(1) have "None \<in> set (map parse_octet (SplitOn CHR ''.'' s))" by (metis imageI set_map)
  then show ?thesis by (auto simp: parse_ipv4_def split: list.splits option.splits)
qed

lemma percent_split: "CHR ''%'' \<in> set s \<Longrightarrow> IndexByte s CHR ''%'' \<noteq> None"
  by (induction s) auto

lemma percent_no_inet: "CHR ''%'' \<in> set s \<Longrightarrow> inet_cast s = None"
proof -
  assume p: "CHR ''%'' \<in> set s"
  have "z \<noteq> []" if "parse_ipv6 s = Some (V6 w z)" for w z
    using that percent_split [OF p] by (auto simp: parse_ipv6_def split: option.splits if_splits)
  moreover have "\<exists>w z. a = V6 w z" if "parse_ipv6 s = Some a" for a
    using that by (auto simp: parse_ipv6_def split: option.splits if_splits)
  ultimately show ?thesis
    using p by (fastforce simp: inet_cast_def inet_arg_def ParseAddr_def percent_no_ipv4 split: list.split option.split addr.split)
qed

lemma put_conns_bad: "x \<in> set cs \<Longrightarrow> inet_cast (c_host x) = None \<Longrightarrow> put_conns i cs rows = None"
proof (induction cs arbitrary: rows)
  case (Cons c cs)
  show ?case
  proof (cases "put_conn i c rows")
    case (Some r)
    with Cons.prems have "x \<in> set cs" by (auto simp: put_conn_def)
    with Some Cons show ?thesis by simp
  qed simp
qed simp

text \<open>One zoned address blocks a whole batch. A row whose host is an IPv6 address with a zone passes the
  validation of the handler, which neither drops the row nor the zone; PostgreSQL has no zones, so the batch is
  refused as a whole with a server error, with every other row of it, each time it is sent.\<close>

theorem zoned_address_blocks_batch:
  assumes "agentAuth e authz d = Inr a" and "requireAgentTLS c r"
    and "length (ev_conns q) \<le> 20000" and "length (ev_programs q) \<le> 5000"
    and "x \<in> set (ev_conns q)" and "validConn (now_of e) x = Some y"
    and "ParseAddr (c_host x) = Some (V6 w z)" and "z \<noteq> []" and "drop_bit 32 w \<noteq> 0xFFFF"
  shows "\<exists>m. agentEvents e c r authz (Some q) d = (ErrMsg 500 m, d)"
proof -
  let ?valid = "List.map_filter (validConn (now_of e)) (ev_conns q)"
  have "c_host y = AddrString (V6 w z)"
    using assms(6,7,9) by (auto simp: validConn_def Let_def Unmap_def split: if_splits option.splits)
  then have bad: "inet_cast (c_host y) = None"
    using assms(8) by (intro percent_no_inet) (simp add: AddrString_def zone_suffix_def)
  have y: "y \<in> set ?valid" using assms(5,6) by (force simp: List.map_filter_def)
  then have ne: "?valid \<noteq> []" by auto
  have "put_conns (ag_id a) ?valid (conns d) = None" using y bad by (rule put_conns_bad)
  with ne show ?thesis
    unfolding agentEvents_ingests [OF assms(1-4)] by (simp add: ingest_def Let_def InsertEndpointConns_def fail_def)
qed

lemma sample_auth [simp]:
  "agentAuth (sample_ingest t k) ''Bearer secret'' sample_fleet = Inr sample_agent"
  by (simp add: agentAuth_def AgentByToken_def HashToken_def)

definition zoned_conn :: EndpointConn where
  "zoned_conn = sample_conn\<lparr>c_host := ''::5%e0''\<rparr>"

lemma zoned_host: "\<exists>w. ParseAddr (c_host zoned_conn) = Some (V6 w ''e0'') \<and> drop_bit 32 w \<noteq> 0xFFFF"
proof -
  have "ParseAddr ''::5%e0'' = Some (V6 5 ''e0'')" by code_simp
  then have "ParseAddr (c_host zoned_conn) = Some (V6 5 ''e0'')" by (simp add: zoned_conn_def)
  moreover have "drop_bit 32 5 \<noteq> (0xFFFF :: 128 word)" by simp
  ultimately show ?thesis by blast
qed

theorem zoned_address_blocks_batch_witness:
  "\<exists>m. agentEvents (sample_ingest 1 []) sample_config sample_request ''Bearer secret''
     (Some (sample_batch [sample_conn, zoned_conn])) sample_fleet = (ErrMsg 500 m, sample_fleet)"
proof -
  obtain w where w: "ParseAddr (c_host zoned_conn) = Some (V6 w ''e0'')" "drop_bit 32 w \<noteq> 0xFFFF"
    using zoned_host by blast
  have "c_proto zoned_conn = ''udp''" "c_dst zoned_conn = AddrString (v4 8 8 8 8)" "c_port zoned_conn = 53" "c_minute zoned_conn = 0"
    by (simp_all add: zoned_conn_def sample_conn_def)
  moreover have "ToLower ''udp'' = ''udp''" by code_simp
  ultimately have "validConn 1 zoned_conn \<noteq> None" using w(1) by (simp add: validConn_def Let_def)
  then obtain y where "validConn (now_of (sample_ingest 1 [])) zoned_conn = Some y" by auto
  then show ?thesis
    using w by (intro zoned_address_blocks_batch [where a = sample_agent and x = zoned_conn and y = y and z = "''e0''" and w = w])
      (simp_all del: v4_printed)
qed

definition broken_touch :: ingest_env where
  "broken_touch = (sample_ingest 1 [])\<lparr>fault := (\<lambda>k. k = [''TouchAgent''])\<rparr>"

definition sample_stored :: agent_db where
  "sample_stored = sample_fleet\<lparr>conns := sample_rows\<rparr>"

lemma sample_again:
  "\<exists>d2. agentEvents (sample_ingest 1 []) sample_config (sample_request\<lparr>rq_remote := []\<rparr>) ''Bearer secret''
     (Some (sample_batch [sample_conn])) sample_stored = (Json 200 (VEvents 1 0 None None), d2)"
proof -
  have "cr_count (row_of 1 sample_conn h t) = 2" "cr_bytes (row_of 1 sample_conn h t) = 10" for h t
    by (simp_all add: row_of_def)
  then have "\<exists>rows. put_conns 1 [sample_conn] sample_rows = Some rows"
    by (simp add: put_conn_def Let_def sample_rows_def int32_ok_def max_int32_def int64_ok_def max_int64_def min_int64_def)
  then obtain rows where rows: "put_conns 1 [sample_conn] sample_rows = Some rows" by blast
  have i: "InsertEndpointConns (sample_ingest 1 []) 1 [sample_conn] sample_stored = (Inr 1, sample_stored\<lparr>conns := rows\<rparr>)"
    by (simp add: InsertEndpointConns_def sample_stored_def rows del: put_conns.simps)
  have t: "\<exists>d2. TouchAgent (sample_ingest 1 []) 1 [] [] [] [] 1 0 d = (Inr (), d2)" for d
    by (simp add: TouchAgent_def inet_array_def inet_arg_def)
  obtain d2 where t: "TouchAgent (sample_ingest 1 []) 1 [] [] [] [] 1 0 (sample_stored\<lparr>conns := rows\<rparr>) = (Inr (), d2)"
    using t by blast
  have "remoteIP (sample_request\<lparr>rq_remote := []\<rparr>) = []" by code_simp
  moreover have "BuildTarget (ag_os sample_agent) (ag_arch sample_agent) = []"
    by (simp add: sample_agent_def new_agent_def BuildTarget_def ToLower_def)
  moreover have "agentAuth (sample_ingest 1 []) ''Bearer secret'' sample_stored = Inr sample_agent"
    by (simp add: agentAuth_def AgentByToken_def HashToken_def sample_stored_def)
  ultimately have "agentEvents (sample_ingest 1 []) sample_config (sample_request\<lparr>rq_remote := []\<rparr>) ''Bearer secret''
     (Some (sample_batch [sample_conn])) sample_stored = (Json 200 (VEvents 1 0 None None), d2)"
    by (simp add: agentEvents_def ingest_def Let_def map_filter_simps i t cleanIPs_def offered_build_def)
  then show ?thesis by blast
qed

theorem failed_report_counts_again_witness:
  "\<exists>d2. agentEvents (sample_ingest 1 []) sample_config (sample_request\<lparr>rq_remote := []\<rparr>) ''Bearer secret''
       (Some (sample_batch [sample_conn]))
       (snd (agentEvents broken_touch sample_config (sample_request\<lparr>rq_remote := []\<rparr>) ''Bearer secret''
         (Some (sample_batch [sample_conn])) sample_fleet)) = (Json 200 (VEvents 1 0 None None), d2) \<and>
     sum_of cr_count (conns d2) = 4"
proof -
  let ?r = "sample_request\<lparr>rq_remote := []\<rparr>" and ?q = "sample_batch [sample_conn]"
  have b: "now_of broken_touch = 1" "fault broken_touch = (\<lambda>k. k = [''TouchAgent''])" "sha256 broken_touch = id"
    by (simp_all add: broken_touch_def sample_ingest_def)
  have a: "agentAuth broken_touch ''Bearer secret'' sample_fleet = Inr sample_agent"
    by (simp add: agentAuth_def AgentByToken_def HashToken_def b)
  have i: "InsertEndpointConns broken_touch (ag_id sample_agent)
      (List.map_filter (validConn (now_of broken_touch)) (ev_conns ?q)) sample_fleet = (Inr 1, sample_stored)"
    by (simp add: InsertEndpointConns_def sample_put b map_filter_simps sample_stored_def del: put_conns.simps)
  have f: "fault broken_touch [''TouchAgent'']" by (simp add: b)
  obtain m where "TouchAgent broken_touch 1 [] [] [] (remoteIP ?r) 1 0 sample_stored = (Inl (DbError m), sample_stored)"
    using Touch_fault [OF f] by blast
  then have s: "snd (agentEvents broken_touch sample_config ?r ''Bearer secret'' (Some ?q) sample_fleet) = sample_stored"
    using i by (simp add: agentEvents_def a ingest_def Let_def cleanIPs_def)
  obtain d2 where d2: "agentEvents (sample_ingest 1 []) sample_config ?r ''Bearer secret'' (Some ?q) sample_stored =
      (Json 200 (VEvents 1 0 None None), d2)"
    using sample_again by blast
  have "sum_of cr_count (conns d2) = 4"
    using failed_report_counts_again [where e = broken_touch and ?e2.0 = "sample_ingest 1 []" and c = sample_config and r = ?r
        and q = ?q and ?d2.0 = d2, OF wf_sample_fleet a _ _ _ i f]
      d2 s b by (simp add: map_filter_simps)
  with d2 s show ?thesis by simp
qed

text \<open>\<open>trunc\<close> counts bytes: a command line that ends in a two-byte character at the limit becomes a text
  the database refuses, and with it the whole batch, whatever else it holds.\<close>

lemma trunc_cuts_character:
  "clean_utf8 (replicate (Suc n) CHR ''x'' @ [CHR 0xC3, CHR 0xA9]) \<and>
   \<not> clean_utf8 (trunc (replicate (Suc n) CHR ''x'' @ [CHR 0xC3, CHR 0xA9]) (n + 2))"
proof -
  have x: "utf8_scan 0 0 0 (replicate k CHR ''x'' @ s) = utf8_scan 0 0 0 s" for k s
    by (induction k) (simp_all add: lead_byte_def byte_in_def)
  have "TrimSpace (replicate (Suc n) CHR ''x'' @ [CHR 0xC3, CHR 0xA9]) = replicate (Suc n) CHR ''x'' @ [CHR 0xC3, CHR 0xA9]"
    by (simp add: TrimSpace_def is_space_def)
  then have "trunc (replicate (Suc n) CHR ''x'' @ [CHR 0xC3, CHR 0xA9]) (n + 2) = replicate (Suc n) CHR ''x'' @ [CHR 0xC3]"
    by (simp add: trunc_def)
  then show ?thesis using cut_character unfolding clean_utf8_def by (simp only: x) simp
qed

lemma refused_text_refuses_batch:
  assumes "c \<in> set cs" "\<not> list_all clean_utf8 (conn_texts c)"
  shows "put_conns i cs rows = None"
  using assms
proof (induction cs arbitrary: rows)
  case (Cons x cs)
  then show ?case by (cases "put_conn i x rows") (auto simp: put_conn_def split: option.splits)
qed simp

end
