(* ===== verification/RuleStore.thy ===== *)
theory RuleStore
  imports Traffic "HOL-Library.List_Lexorder"
begin

text \<open>
  Custom rules in the database (\<open>internal/db/custom_rules.go\<close>, migration 005): the table, whose
  durations are stored in whole seconds, the check of a user's query and its execution as a detector.
  The query itself is run by PostgreSQL: \<open>sql_exec\<close> is a parameter that maps the statement, its
  window and the local networks to the columns and rows it returns. \<open>json_object\<close> is
  \<open>json.Unmarshal\<close> into a map, \<open>None\<close> where the text is no JSON object.
\<close>

section \<open>Values of a row\<close>

text \<open>What the driver hands out for a column, by its Go type. \<open>SFloat\<close> carries the value cut to an integer
  and its printed text, \<open>SOther\<close> the text \<open>fmt.Sprint\<close> prints.\<close>

datatype sqlval =
    SNull | SInt int | SFloat int string | SText string | SBytes string
  | SAddr addr | SPrefix prefix | SMap "(string \<times> json) list" | SOther string

record rule_env = env +
  sql_exec :: "string \<Rightarrow> Window \<Rightarrow> string list \<Rightarrow> (string list \<times> sqlval list list) dbres"
  json_object :: "string \<Rightarrow> (string \<times> json) list option"

text \<open>\<open>fmt.Sprint\<close> of a value that is not a text.\<close>

definition sprint :: "sqlval \<Rightarrow> string" where
  "sprint v =
     (case v of SInt i \<Rightarrow> Itoa i | SFloat _ s \<Rightarrow> s | SText s \<Rightarrow> s | SOther s \<Rightarrow> s
      | SAddr a \<Rightarrow> AddrString a | SPrefix p \<Rightarrow> PrefixString p | SBytes s \<Rightarrow> s | SNull \<Rightarrow> ''<nil>'' | SMap _ \<Rightarrow> ''map[]'')"

definition stringOf :: "sqlval \<Rightarrow> string" where
  "stringOf v = (case v of SNull \<Rightarrow> [] | SText s \<Rightarrow> s | SBytes s \<Rightarrow> s | _ \<Rightarrow> sprint v)"

definition ip_text :: "string \<Rightarrow> string" where
  "ip_text x =
     (let t = TrimSpace x;
          s = (case IndexByte t CHR ''/'' of Some i \<Rightarrow> if i > 0 then take i t else t | None \<Rightarrow> t)
      in case ParseAddr s of Some a \<Rightarrow> AddrString (Unmap a) | None \<Rightarrow> s)"

definition ipString :: "sqlval \<Rightarrow> string" where
  "ipString v =
     (case v of SNull \<Rightarrow> []
      | SPrefix p \<Rightarrow> AddrString (Unmap (p_addr p))
      | SAddr a \<Rightarrow> AddrString (Unmap a)
      | SText s \<Rightarrow> ip_text s
      | _ \<Rightarrow> ip_text (sprint v))"

definition toInt :: "sqlval \<Rightarrow> int" where
  "toInt v =
     (case v of SNull \<Rightarrow> 0 | SInt i \<Rightarrow> i | SFloat i _ \<Rightarrow> i
      | SText s \<Rightarrow> opt_default 0 (Atoi (TrimSpace s))
      | _ \<Rightarrow> opt_default 0 (Atoi (sprint v)))"

definition details_text :: "'e rule_env_scheme \<Rightarrow> string \<Rightarrow> (string \<times> json) list" where
  "details_text e s = (case json_object e s of Some m \<Rightarrow> m | None \<Rightarrow> [(''details'', JStr s)])"

definition detailsOf :: "'e rule_env_scheme \<Rightarrow> sqlval \<Rightarrow> (string \<times> json) list" where
  "detailsOf e v =
     (case v of SNull \<Rightarrow> [] | SMap m \<Rightarrow> m | SText s \<Rightarrow> details_text e s | SBytes s \<Rightarrow> details_text e s
      | _ \<Rightarrow> [(''details'', JStr (sprint v))])"

section \<open>Running a query as a rule\<close>

definition RuleSQLTimeout :: duration where "RuleSQLTimeout = 30 * Second"
definition MaxRuleFindings :: nat where "MaxRuleFindings = 500"

definition ToUpper :: "string \<Rightarrow> string" where "ToUpper s = map upper_char s"

definition ValidateRuleSQL :: "string \<Rightarrow> string option" where
  "ValidateRuleSQL q =
     (let t = TrimSpace q; up = ToUpper t in
      if t = [] then Some ''sql is empty''
      else if \<not> HasPrefix up ''SELECT'' \<and> \<not> HasPrefix up ''WITH'' then Some ''sql must be a single SELECT (or WITH ... SELECT) statement''
      else if CHR '';'' \<in> set t then Some ''sql must not contain ; (one statement only)''
      else None)"

text \<open>The index a Go map keeps for a column name: that of the last column with the name.\<close>

definition column :: "string list \<Rightarrow> sqlval list \<Rightarrow> string \<Rightarrow> sqlval" where
  "column names vals k = opt_default SNull (map_of (rev (zip (map ToLower names) vals)) k)"

definition row_finding :: "'e rule_env_scheme \<Rightarrow> string list \<Rightarrow> sqlval list \<Rightarrow> Finding" where
  "row_finding e names vals =
     (let get = column names vals; sev = ToLower (TrimSpace (stringOf (get ''severity''))) in
      \<lparr>f_rule = [], f_severity = (if SeverityRank sev > 0 then sev else []),
       f_host = ipString (get ''host''), f_peer = ipString (get ''peer''), f_port = toInt (get ''port''),
       f_title = TrimSpace (stringOf (get ''title'')), f_details = detailsOf e (get ''details''),
       f_key = TrimSpace (stringOf (get ''key''))\<rparr>)"

text \<open>The loop over the rows; the limit is checked after a finding has been added.\<close>

primrec sql_rows :: "'e rule_env_scheme \<Rightarrow> string list \<Rightarrow> sqlval list list \<Rightarrow> Finding list \<Rightarrow> Finding list dbres" where
  "sql_rows e names [] out = Inr out"
| "sql_rows e names (vals # rows) out =
     (let f = row_finding e names vals in
      if f_host f = [] \<and> f_peer f = [] then sql_rows e names rows out
      else let out' = out @ [f] in
        if length out' \<ge> MaxRuleFindings
        then Inl (DbError ''query returned more than 500 rows; aggregate or filter further'')
        else sql_rows e names rows out')"

definition RunRuleSQL :: "'e rule_env_scheme \<Rightarrow> string \<Rightarrow> Window \<Rightarrow> string list \<Rightarrow> Finding list dbres" where
  "RunRuleSQL e q w locals =
     (case ValidateRuleSQL q of Some m \<Rightarrow> Inl (DbError m)
      | None \<Rightarrow>
          bindE (db_read e [''RunRuleSQL''] ()) (\<lambda>_.
          bindE (sql_exec e (TrimSpace q) w locals) (\<lambda>(names, rows).
            if ''host'' \<notin> set (map ToLower names) \<and> ''peer'' \<notin> set (map ToLower names)
            then Inl (DbError ''query must return a host (or peer) column'')
            else sql_rows e names (take (MaxRuleFindings + 1) rows) [])))"

section \<open>The table\<close>

record CustomRule =
  cu_name :: string
  cu_title :: string
  cu_description :: string
  cu_kind :: string
  cu_base :: string
  cu_sql :: string
  cu_params :: "(string \<times> json) list"
  cu_severity :: string
  cu_interval :: duration
  cu_window :: duration
  cu_enabled :: bool
  cu_exempt :: "string list"
  cu_created :: instant
  cu_updated :: instant

text \<open>\<open>int(d / time.Second)\<close> on the way in, \<open>time.Duration(n) * time.Second\<close> on the way out.\<close>

definition whole_seconds :: "duration \<Rightarrow> duration" where
  "whole_seconds d = d div Second * Second"

definition as_stored :: "CustomRule \<Rightarrow> CustomRule" where
  "as_stored r = r\<lparr>cu_interval := whole_seconds (cu_interval r), cu_window := whole_seconds (cu_window r)\<rparr>"

definition ListCustomRules :: "'e env_scheme \<Rightarrow> CustomRule list \<Rightarrow> CustomRule list dbres" where
  "ListCustomRules e rows = db_read e [''ListCustomRules''] (sort_key cu_created (sort_key cu_name rows))"

definition put_custom :: "instant \<Rightarrow> CustomRule \<Rightarrow> CustomRule list \<Rightarrow> CustomRule list" where
  "put_custom t r rows =
     (if list_ex (\<lambda>x. cu_name x = cu_name r) rows
      then map (\<lambda>x. if cu_name x = cu_name r then (as_stored r)\<lparr>cu_created := cu_created x, cu_updated := t\<rparr> else x) rows
      else rows @ [(as_stored r)\<lparr>cu_created := t, cu_updated := t\<rparr>])"

definition UpsertCustomRule :: "'e env_scheme \<Rightarrow> CustomRule \<Rightarrow> CustomRule list \<Rightarrow> unit dbres \<times> CustomRule list" where
  "UpsertCustomRule e r rows =
     (db_read e [''UpsertCustomRule''] (), db_write e [''UpsertCustomRule''] rows (put_custom (now_of e) r rows))"

definition DeleteCustomRule :: "'e env_scheme \<Rightarrow> string \<Rightarrow> CustomRule list \<Rightarrow> bool dbres \<times> CustomRule list" where
  "DeleteCustomRule e name rows =
     (db_read e [''DeleteCustomRule''] (list_ex (\<lambda>x. cu_name x = name) rows),
      db_write e [''DeleteCustomRule''] rows (filter (\<lambda>x. cu_name x \<noteq> name) rows))"

section \<open>The limit of a query\<close>

definition names_host :: "'e rule_env_scheme \<Rightarrow> string list \<Rightarrow> sqlval list \<Rightarrow> bool" where
  "names_host e names vals \<longleftrightarrow> f_host (row_finding e names vals) \<noteq> [] \<or> f_peer (row_finding e names vals) \<noteq> []"

lemma sql_rows_all:
  assumes "length out < MaxRuleFindings"
  shows "sql_rows e names rows out =
     (if length out + length (filter (names_host e names) rows) < MaxRuleFindings
      then Inr (out @ map (row_finding e names) (filter (names_host e names) rows))
      else Inl (DbError ''query returned more than 500 rows; aggregate or filter further''))"
  using assms
proof (induction rows arbitrary: out)
  case (Cons vals rows)
  have nh: "f_host (row_finding e names vals) = [] \<and> f_peer (row_finding e names vals) = [] \<longleftrightarrow> \<not> names_host e names vals"
    by (simp add: names_host_def)
  show ?case
  proof (cases "names_host e names vals")
    case True
    show ?thesis
    proof (cases "Suc (length out) < MaxRuleFindings")
      case fits: True
      with True Cons.IH [of "out @ [row_finding e names vals]"] show ?thesis
        by (simp add: nh Let_def)
    next
      case False
      with True show ?thesis by (simp add: nh Let_def)
    qed
  next
    case False
    with Cons show ?thesis by (simp add: nh Let_def)
  qed
qed simp

text \<open>A query may return at most 499 rows. When every row names a host or a peer, a query with fewer than
  500 rows raises one finding per row, in order, and a query with 500 rows or more is refused, although
  the limit is announced as 500.\<close>

theorem query_limit_is_499:
  assumes "ValidateRuleSQL q = None" and "\<not> fault e [''RunRuleSQL'']"
    and "sql_exec e (TrimSpace q) w locals = Inr (names, rows)"
    and "''host'' \<in> set (map ToLower names) \<or> ''peer'' \<in> set (map ToLower names)"
    and "list_all (names_host e names) rows"
  shows "RunRuleSQL e q w locals =
    (if length rows < 500 then Inr (map (row_finding e names) rows)
     else Inl (DbError ''query returned more than 500 rows; aggregate or filter further''))"
proof -
  have f: "filter (names_host e names) (take n rows) = take n rows" for n
    using assms(5) by (auto simp: list_all_iff filter_id_conv dest: in_set_takeD)
  have z: "length ([] :: Finding list) < MaxRuleFindings" by (simp add: MaxRuleFindings_def)
  have "RunRuleSQL e q w locals = sql_rows e names (take (MaxRuleFindings + 1) rows) []"
    using assms(1-4) by (auto simp: RunRuleSQL_def)
  then show ?thesis unfolding sql_rows_all [OF z] f by (auto simp: MaxRuleFindings_def min_def split: if_splits)
qed

definition sample_sql :: "nat \<Rightarrow> rule_env" where
  "sample_sql n = \<lparr>now_of = 0, fault = (\<lambda>_. False),
     sql_exec = (\<lambda>_ _ _. Inr ([''host''], replicate n [SText ''x''])), json_object = (\<lambda>_. None)\<rparr>"

theorem query_limit_is_499_witness:
  "\<exists>m. RunRuleSQL (sample_sql 500) ''SELECT 1'' \<lparr>Since = 0, Until = 1\<rparr> [] = Inl (DbError m)"
proof -
  let ?e = "sample_sql 500" and ?rows = "replicate 500 [SText ''x'']"
  have v: "ValidateRuleSQL ''SELECT 1'' = None" by code_simp
  have low: "ToLower ''host'' = ''host''" "ip_text ''x'' = ''x''" by code_simp+
  have x: "sql_exec ?e (TrimSpace ''SELECT 1'') w [] = Inr ([''host''], ?rows)" for w by (simp add: sample_sql_def)
  have "names_host ?e [''host''] [SText ''x'']"
    by (simp add: names_host_def row_finding_def Let_def column_def low ipString_def opt_default_def)
  then have n: "list_all (names_host ?e [''host'']) ?rows" by (simp add: list_all_iff)
  have f: "\<not> fault ?e [''RunRuleSQL'']" by (simp add: sample_sql_def)
  have h: "''host'' \<in> set (map ToLower [''host'']) \<or> ''peer'' \<in> set (map ToLower [''host''])" by (simp add: low)
  show ?thesis using query_limit_is_499 [OF v f x h n] by simp
qed

end
