(* ===== verification/Rules.thy ===== *)
theory Rules
  imports RuleStore Exclusions Agents Config
begin

text \<open>
  The detection engine (\<open>internal/rules/rules.go\<close>, \<open>custom.go\<close>): rules with their overrides, custom rules,
  the evaluation of a rule over its window, and the run that turns findings into alerts and hands them to
  the notifier. A rule carries its detector as a function, as the Go type does. The engine reads and
  writes the tables of a \<open>world\<close>, which the detectors may extend with what they read. The mutex of the
  engine is not modelled: calls are atomic. The run time that is kept for display is left out.
\<close>

section \<open>Rules and their configuration\<close>

record Param =
  pa_name :: string
  pa_description :: string
  pa_default :: json

text \<open>A field that an update leaves alone is \<open>None\<close> (\<open>nil\<close> in Go) or the empty text.\<close>

record RuleConfig =
  rc_enabled :: "bool option"
  rc_severity :: string
  rc_params :: "(string \<times> json) list option"
  rc_exempt :: "string list option"
  rc_interval :: string
  rc_window :: string

definition no_override :: RuleConfig where
  "no_override = \<lparr>rc_enabled = None, rc_severity = [], rc_params = None, rc_exempt = None, rc_interval = [], rc_window = []\<rparr>"

type_synonym params = "string \<rightharpoonup> json"

record world =
  w_alerts :: alert_db
  w_fleet :: agent_db
  w_custom :: "CustomRule list"
  w_rules :: "(string \<rightharpoonup> RuleConfig) option"

type_synonym 'x detector = "Config \<Rightarrow> rule_env \<Rightarrow> params \<Rightarrow> Window \<Rightarrow> 'x world_scheme \<Rightarrow> Finding list dbres"

record 'x Rule =
  r_name :: string
  r_title :: string
  r_description :: string
  r_severity :: string
  r_interval :: duration
  r_window :: duration
  r_params :: "Param list"
  r_run :: "'x detector"
  r_custom :: "CustomRule option"
  r_base :: "Param list option"

record ruleState =
  rs_last :: "instant option"
  rs_count :: nat
  rs_err :: "dberr option"

record 'x Engine =
  en_builtin :: "'x Rule list"
  en_customs :: "'x Rule list"
  en_cfg :: "string \<rightharpoonup> RuleConfig"
  en_state :: "string \<rightharpoonup> ruleState"

record effective =
  ef_enabled :: bool
  ef_severity :: string
  ef_params :: params
  ef_exempt :: "string list"
  ef_interval :: duration
  ef_window :: duration

definition MinInterval :: duration where "MinInterval = 30 * Second"
definition MaxInterval :: duration where "MaxInterval = 7 * 24 * Hour"
definition MinWindow :: duration where "MinWindow = Minute"
definition MaxWindow :: duration where "MaxWindow = 30 * 24 * Hour"

text \<open>What a user can get wrong (\<open>ValidationError\<close>), and the other errors of the engine.\<close>

datatype invalid =
    BadName | ReservedName string | BadSeverity string | BadSQL string | SqlTakesNoParams | BadBase string
  | UnknownParam string string | BadKind | BadTiming string string | TimingRange string | RuleExists string
  | NoSuchBase string | UnknownKind string | QueryFailed dberr

datatype rule_error = Invalid invalid | UnknownRule string | RuleDb dberr

section \<open>Typed access to parameters\<close>

text \<open>\<open>int(v)\<close> of a decimal cuts towards zero.\<close>

definition cut_decimal :: "int \<Rightarrow> nat \<Rightarrow> int" where
  "cut_decimal m k = (if m < 0 then - ((- m) div 10 ^ k) else m div 10 ^ k)"

definition p_Int :: "params \<Rightarrow> string \<Rightarrow> int" where
  "p_Int p k = (case p k of Some (JNum i) \<Rightarrow> i | Some (JDec m d) \<Rightarrow> cut_decimal m d | _ \<Rightarrow> 0)"

text \<open>\<open>Float\<close>, as numerator and number of decimals.\<close>

definition p_Float :: "params \<Rightarrow> string \<Rightarrow> int \<times> nat" where
  "p_Float p k = (case p k of Some (JNum i) \<Rightarrow> (i, 0) | Some (JDec m d) \<Rightarrow> (m, d) | _ \<Rightarrow> (0, 0))"

definition show_decimal :: "int \<Rightarrow> nat \<Rightarrow> string" where
  "show_decimal m k =
     (let n = nat \<bar>m\<bar>; r = rev (show_nat (n mod 10 ^ k));
          frac = TrimRight {CHR ''0''} (rev (take k (r @ replicate k CHR ''0'')))
      in (if m < 0 then ''-'' else []) @ show_nat (n div 10 ^ k) @ (if frac = [] then [] else CHR ''.'' # frac))"

definition json_text :: "json \<Rightarrow> string" where
  "json_text v = (case v of JStr s \<Rightarrow> s | JNum i \<Rightarrow> Itoa i | JDec m k \<Rightarrow> show_decimal m k | JBool b \<Rightarrow> (if b then ''true'' else ''false'') | _ \<Rightarrow> ''<nil>'')"

definition p_Strings :: "params \<Rightarrow> string \<Rightarrow> string list" where
  "p_Strings p k =
     (case p k of Some (JArr vs) \<Rightarrow> map (\<lambda>v. TrimSpace (json_text v)) vs
      | Some (JStr s) \<Rightarrow> filter (\<lambda>x. x \<noteq> []) (map TrimSpace (SplitOn CHR '','' s))
      | _ \<Rightarrow> [])"

text \<open>\<open>fmt.Sscanf(s, "%d", &n)\<close> reads an integer at the start of the text.\<close>

definition scan_int :: "string \<Rightarrow> int option" where
  "scan_int s =
     (let t = dropWhile is_space s; neg = (t \<noteq> [] \<and> hd t = CHR ''-'');
          r = (if t \<noteq> [] \<and> (hd t = CHR ''-'' \<or> hd t = CHR ''+'') then tl t else t);
          ds = takeWhile is_digit r
      in if ds = [] then None else Some (if neg then - int (dec_val ds) else int (dec_val ds)))"

definition json_int :: "json \<Rightarrow> int option" where
  "json_int v = (case v of JNum i \<Rightarrow> Some i | JDec m d \<Rightarrow> Some (cut_decimal m d) | JStr s \<Rightarrow> scan_int s | _ \<Rightarrow> None)"

definition p_Ints :: "params \<Rightarrow> string \<Rightarrow> int list" where
  "p_Ints p k =
     (case p k of Some (JArr vs) \<Rightarrow> List.map_filter json_int vs
      | _ \<Rightarrow> List.map_filter scan_int (p_Strings p k))"

section \<open>The effective configuration\<close>

definition all_rules :: "'x Engine \<Rightarrow> 'x Rule list" where
  "all_rules e = en_builtin e @ en_customs e"

definition rule_named :: "'x Engine \<Rightarrow> string \<Rightarrow> 'x Rule option" where
  "rule_named e name = find (\<lambda>r. r_name r = name) (all_rules e)"

definition builtinRule :: "'x Engine \<Rightarrow> string \<Rightarrow> 'x Rule option" where
  "builtinRule e name = find (\<lambda>r. r_name r = name) (en_builtin e)"

definition default_params :: "Param list \<Rightarrow> params" where
  "default_params ps = map_of (map (\<lambda>d. (pa_name d, pa_default d)) (rev ps))"

definition override_params :: "params \<Rightarrow> (string \<times> json) list \<Rightarrow> params" where
  "override_params def new k = (case map_of new k of Some v \<Rightarrow> if def k \<noteq> None then Some v else None | None \<Rightarrow> def k)"

definition positive_duration :: "string \<Rightarrow> duration \<Rightarrow> duration" where
  "positive_duration s def = (case ParseDuration s of Some d \<Rightarrow> if d > 0 then d else def | None \<Rightarrow> def)"

definition effective_of :: "'x Engine \<Rightarrow> 'x Rule \<Rightarrow> effective" where
  "effective_of e r =
     (case r_custom r of
        Some c \<Rightarrow>
          \<lparr>ef_enabled = cu_enabled c, ef_severity = cu_severity c,
           ef_params = (case r_base r of None \<Rightarrow> map_of (cu_params c) | Some ps \<Rightarrow> override_params (default_params ps) (cu_params c)),
           ef_exempt = cu_exempt c, ef_interval = cu_interval c, ef_window = cu_window c\<rparr>
      | None \<Rightarrow>
          (let rc = opt_default no_override (en_cfg e (r_name r)) in
           \<lparr>ef_enabled = opt_default True (rc_enabled rc),
            ef_severity = (if SeverityRank (rc_severity rc) > 0 then rc_severity rc else r_severity r),
            ef_params = override_params (default_params (r_params r)) (opt_default [] (rc_params rc)),
            ef_exempt = opt_default [] (rc_exempt rc),
            ef_interval = positive_duration (rc_interval rc) (r_interval r),
            ef_window = positive_duration (rc_window rc) (r_window r)\<rparr>))"

text \<open>\<open>Infos\<close>: the view of a rule with its effective configuration and its last run.\<close>

record RuleInfo =
  ri_name :: string
  ri_title :: string
  ri_effective :: effective
  ri_default_severity :: string
  ri_default_interval :: duration
  ri_default_window :: duration
  ri_params :: "Param list"
  ri_custom :: "(string \<times> string \<times> string) option"
  ri_state :: ruleState

definition fresh_state :: ruleState where
  "fresh_state = \<lparr>rs_last = None, rs_count = 0, rs_err = None\<rparr>"

definition info :: "'x Engine \<Rightarrow> 'x Rule \<Rightarrow> RuleInfo" where
  "info e r =
     \<lparr>ri_name = r_name r, ri_title = r_title r, ri_effective = effective_of e r, ri_default_severity = r_severity r,
      ri_default_interval = r_interval r, ri_default_window = r_window r, ri_params = r_params r,
      ri_custom = map_option (\<lambda>c. (cu_kind c, cu_base c, cu_sql c)) (r_custom r),
      ri_state = opt_default fresh_state (en_state e (r_name r))\<rparr>"

definition Infos :: "'x Engine \<Rightarrow> RuleInfo list" where
  "Infos e = map (info e) (all_rules e)"

section \<open>Changing the configuration\<close>

text \<open>\<open>Inr 0\<close> keeps the default.\<close>

definition parseTiming :: "string \<Rightarrow> string \<Rightarrow> duration \<Rightarrow> duration \<Rightarrow> invalid + duration" where
  "parseTiming what s mn mx =
     (if TrimSpace s = [] then Inr 0
      else case ParseDuration (TrimSpace s) of
        None \<Rightarrow> Inl (BadTiming what s)
      | Some d \<Rightarrow> if d < mn \<or> d > mx then Inl (TimingRange what) else Inr d)"

definition unknown_param :: "Param list \<Rightarrow> (string \<times> json) list \<Rightarrow> string option" where
  "unknown_param ps kvs = find (\<lambda>k. \<not> list_ex (\<lambda>d. pa_name d = k) ps) (map fst kvs)"

definition validateConfig :: "'x Rule \<Rightarrow> RuleConfig \<Rightarrow> invalid option" where
  "validateConfig r rc =
     (if rc_severity rc \<noteq> [] \<and> SeverityRank (rc_severity rc) = 0 then Some (BadSeverity (rc_severity rc))
      else case unknown_param (r_params r) (opt_default [] (rc_params rc)) of
        Some k \<Rightarrow> Some (UnknownParam k (r_name r))
      | None \<Rightarrow>
          (case parseTiming ''interval'' (rc_interval rc) MinInterval MaxInterval of
             Inl m \<Rightarrow> Some m
           | Inr _ \<Rightarrow>
               (case parseTiming ''window'' (rc_window rc) MinWindow MaxWindow of Inl m \<Rightarrow> Some m | Inr _ \<Rightarrow> None)))"

text \<open>\<open>d, _ := time.ParseDuration(s)\<close> is 0 where the text is no duration.\<close>

definition new_timing :: "string \<Rightarrow> duration \<Rightarrow> string \<Rightarrow> string" where
  "new_timing s def cur = (if s = [] then cur else if opt_default 0 (ParseDuration s) = def then [] else s)"

definition merge_config :: "'x Rule \<Rightarrow> RuleConfig \<Rightarrow> RuleConfig \<Rightarrow> RuleConfig" where
  "merge_config r rc cur =
     \<lparr>rc_enabled = (if rc_enabled rc \<noteq> None then rc_enabled rc else rc_enabled cur),
      rc_severity = (if rc_severity rc \<noteq> [] then rc_severity rc else rc_severity cur),
      rc_params = (if rc_params rc \<noteq> None then rc_params rc else rc_params cur),
      rc_exempt = (if rc_exempt rc \<noteq> None then rc_exempt rc else rc_exempt cur),
      rc_interval = new_timing (rc_interval rc) (r_interval r) (rc_interval cur),
      rc_window = new_timing (rc_window rc) (r_window r) (rc_window cur)\<rparr>"

section \<open>Custom rules\<close>

record CustomSpec =
  sp_name :: string
  sp_title :: string
  sp_description :: string
  sp_kind :: string
  sp_base :: string
  sp_sql :: string
  sp_params :: "(string \<times> json) list"
  sp_severity :: string
  sp_interval :: string
  sp_window :: string
  sp_enabled :: "bool option"
  sp_exempt :: "string list"

definition lower_letter :: "char \<Rightarrow> bool" where
  "lower_letter c \<longleftrightarrow> (let n = of_char c :: nat in 97 \<le> n \<and> n \<le> 122)"

definition customNameRe :: "string \<Rightarrow> bool" where
  "customNameRe s \<longleftrightarrow> 2 \<le> length s \<and> length s \<le> 40 \<and> lower_letter (hd s) \<and>
     list_all (\<lambda>c. lower_letter c \<or> is_digit c \<or> c = CHR ''_'') (tl s)"

definition reservedNames :: "string list" where
  "reservedNames = [''custom'', ''preview'', ''run'']"

text \<open>The part of \<open>toRow\<close> that depends on the kind: base and query of the row, default interval and window.\<close>

definition kind_part ::
  "'x Engine \<Rightarrow> CustomSpec \<Rightarrow> invalid + ((string \<times> string) \<times> (duration \<times> duration))" where
  "kind_part e spec =
     (let kind = TrimSpace (sp_kind spec) in
      if kind = ''sql'' then
        (let q = TrimSpace (sp_sql spec) in
         case ValidateRuleSQL q of Some m \<Rightarrow> Inl (BadSQL m)
         | None \<Rightarrow> if sp_params spec \<noteq> [] then Inl SqlTakesNoParams else Inr (([], q), (Minute, 10 * Minute)))
      else if kind = ''builtin'' then
        (let b = TrimSpace (sp_base spec) in
         case builtinRule e b of None \<Rightarrow> Inl (BadBase b)
         | Some base \<Rightarrow>
             if b = ''ids'' then Inl (BadBase b)
             else case unknown_param (r_params base) (sp_params spec) of
               Some k \<Rightarrow> Inl (UnknownParam k b)
             | None \<Rightarrow> Inr ((b, []), (r_interval base, r_window base)))
      else Inl BadKind)"

definition toRow :: "'x Engine \<Rightarrow> CustomSpec \<Rightarrow> invalid + CustomRule" where
  "toRow e spec =
     (let name = TrimSpace (sp_name spec); title = TrimSpace (sp_title spec);
          sev0 = ToLower (TrimSpace (sp_severity spec)); sev = (if sev0 = [] then ''warning'' else sev0) in
      if \<not> customNameRe name then Inl BadName
      else if name \<in> set reservedNames then Inl (ReservedName name)
      else if SeverityRank sev = 0 then Inl (BadSeverity (sp_severity spec))
      else
        bindE (kind_part e spec) (\<lambda>((b, q), (di, dw)).
        bindE (parseTiming ''interval'' (sp_interval spec) MinInterval MaxInterval) (\<lambda>iv.
        bindE (parseTiming ''window'' (sp_window spec) MinWindow MaxWindow) (\<lambda>win.
        Inr \<lparr>cu_name = name, cu_title = (if title = [] then name else title), cu_description = TrimSpace (sp_description spec),
             cu_kind = TrimSpace (sp_kind spec), cu_base = b, cu_sql = q, cu_params = sp_params spec, cu_severity = sev,
             cu_interval = (if iv = 0 then di else iv), cu_window = (if win = 0 then dw else win),
             cu_enabled = opt_default True (sp_enabled spec), cu_exempt = filter (\<lambda>h. h \<noteq> []) (map TrimSpace (sp_exempt spec)),
             cu_created = 0, cu_updated = 0\<rparr>))))"

definition rule_of_row :: "CustomRule \<Rightarrow> 'x detector \<Rightarrow> Param list \<Rightarrow> Param list option \<Rightarrow> 'x Rule" where
  "rule_of_row row run ps base =
     \<lparr>r_name = cu_name row, r_title = cu_title row, r_description = cu_description row, r_severity = cu_severity row,
      r_interval = cu_interval row, r_window = cu_window row, r_params = ps, r_run = run, r_custom = Some row, r_base = base\<rparr>"

definition buildCustom :: "'x Engine \<Rightarrow> CustomRule \<Rightarrow> invalid + 'x Rule" where
  "buildCustom e row =
     (if cu_kind row = ''sql'' then
        Inr (rule_of_row row (\<lambda>c env p w _. RunRuleSQL env (cu_sql row) w (LocalNetworksCIDR c)) [] None)
      else if cu_kind row = ''builtin'' then
        (case builtinRule e (cu_base row) of
           None \<Rightarrow> Inl (NoSuchBase (cu_base row))
         | Some base \<Rightarrow> Inr (rule_of_row row (r_run base) (r_params base) (Some (r_params base))))
      else Inl (UnknownKind (cu_kind row)))"

definition add_state :: "'x Rule \<Rightarrow> (string \<rightharpoonup> ruleState) \<Rightarrow> (string \<rightharpoonup> ruleState)" where
  "add_state r m = (if m (r_name r) = None then m(r_name r \<mapsto> fresh_state) else m)"

text \<open>A row that cannot be built is skipped.\<close>

definition loadCustom :: "rule_env \<Rightarrow> 'x world_scheme \<Rightarrow> 'x Engine \<Rightarrow> dberr + 'x Engine" where
  "loadCustom env w e =
     bindE (ListCustomRules env (w_custom w)) (\<lambda>rows.
       let l = List.map_filter (\<lambda>row. case buildCustom e row of Inr r \<Rightarrow> Some r | Inl _ \<Rightarrow> None) rows in
       Inr (e\<lparr>en_customs := l, en_state := foldl (\<lambda>m r. add_state r m) (en_state e) l\<rparr>))"

definition New :: "rule_env \<Rightarrow> 'x Rule list \<Rightarrow> 'x world_scheme \<Rightarrow> dberr + 'x Engine" where
  "New env builtins w =
     bindE (db_read env [''GetSetting'', ''rules''] (opt_default Map.empty (w_rules w))) (\<lambda>cfg.
       loadCustom env w \<lparr>en_builtin = builtins, en_customs = [], en_cfg = cfg,
         en_state = foldl (\<lambda>m r. m(r_name r \<mapsto> fresh_state)) Map.empty builtins\<rparr>)"

definition install :: "'x Rule \<Rightarrow> 'x Engine \<Rightarrow> 'x Engine" where
  "install r e =
     e\<lparr>en_customs := (if list_ex (\<lambda>c. r_name c = r_name r) (en_customs e)
         then map (\<lambda>c. if r_name c = r_name r then r else c) (en_customs e) else en_customs e @ [r]),
       en_state := add_state r (en_state e)\<rparr>"

text \<open>Operations of the engine return an answer, the engine and the tables.\<close>

type_synonym ('x, 'a) engine_result = "(rule_error + 'a) \<times> 'x Engine \<times> 'x world_scheme"

definition store_rule ::
  "rule_env \<Rightarrow> CustomRule \<Rightarrow> 'x Rule \<Rightarrow> 'x Engine \<Rightarrow> 'x world_scheme \<Rightarrow> ('x, unit) engine_result" where
  "store_rule env row r e w =
     (case UpsertCustomRule env row (w_custom w) of
        (Inl m, _) \<Rightarrow> (Inl (RuleDb m), e, w)
      | (Inr _, rows) \<Rightarrow> (Inr (), install r e, w\<lparr>w_custom := rows\<rparr>))"

definition SaveCustom ::
  "rule_env \<Rightarrow> CustomSpec \<Rightarrow> bool \<Rightarrow> 'x Engine \<Rightarrow> 'x world_scheme \<Rightarrow> ('x, RuleInfo) engine_result" where
  "SaveCustom env spec create e w =
     (case toRow e spec of
        Inl m \<Rightarrow> (Inl (Invalid m), e, w)
      | Inr row \<Rightarrow>
          (let existing = rule_named e (cu_name row) in
           if create \<and> existing \<noteq> None then (Inl (Invalid (RuleExists (cu_name row))), e, w)
           else if \<not> create \<and> (case existing of None \<Rightarrow> True | Some r \<Rightarrow> r_custom r = None)
           then (Inl (UnknownRule (cu_name row)), e, w)
           else case buildCustom e row of
             Inl m \<Rightarrow> (Inl (Invalid m), e, w)
           | Inr r \<Rightarrow>
               (case store_rule env row r e w of
                  (Inl m, e', w') \<Rightarrow> (Inl m, e', w')
                | (Inr _, e', w') \<Rightarrow> (Inr (info e' r), e', w'))))"

definition good_timing :: "string \<Rightarrow> string \<Rightarrow> duration \<Rightarrow> duration \<Rightarrow> duration \<Rightarrow> duration" where
  "good_timing what s mn mx cur =
     (case parseTiming what s mn mx of Inr d \<Rightarrow> if d > 0 then d else cur | Inl _ \<Rightarrow> cur)"

definition merge_row :: "RuleConfig \<Rightarrow> CustomRule \<Rightarrow> CustomRule" where
  "merge_row rc row =
     row\<lparr>cu_enabled := opt_default (cu_enabled row) (rc_enabled rc),
         cu_severity := (if rc_severity rc \<noteq> [] then rc_severity rc else cu_severity row),
         cu_params := opt_default (cu_params row) (rc_params rc),
         cu_exempt := opt_default (cu_exempt row) (rc_exempt rc),
         cu_interval := good_timing ''interval'' (rc_interval rc) MinInterval MaxInterval (cu_interval row),
         cu_window := good_timing ''window'' (rc_window rc) MinWindow MaxWindow (cu_window row)\<rparr>"

definition updateCustomConfig ::
  "rule_env \<Rightarrow> CustomRule \<Rightarrow> RuleConfig \<Rightarrow> 'x Engine \<Rightarrow> 'x world_scheme \<Rightarrow> ('x, unit) engine_result" where
  "updateCustomConfig env c rc e w =
     (let row = merge_row rc c in
      case buildCustom e row of
        Inl m \<Rightarrow> (Inl (RuleDb (DbError ''custom rule cannot be built'')), e, w)
      | Inr r \<Rightarrow> store_rule env row r e w)"

text \<open>The override is in force before it is stored, also when storing it fails.\<close>

definition UpdateConfig ::
  "rule_env \<Rightarrow> string \<Rightarrow> RuleConfig \<Rightarrow> 'x Engine \<Rightarrow> 'x world_scheme \<Rightarrow> ('x, unit) engine_result" where
  "UpdateConfig env name rc e w =
     (case rule_named e name of
        None \<Rightarrow> (Inl (UnknownRule name), e, w)
      | Some r \<Rightarrow>
          (case validateConfig r rc of
             Some m \<Rightarrow> (Inl (Invalid m), e, w)
           | None \<Rightarrow>
               (case r_custom r of
                  Some c \<Rightarrow> updateCustomConfig env c rc e w
                | None \<Rightarrow>
                    (let cfg = (en_cfg e)(name \<mapsto> merge_config r rc (opt_default no_override (en_cfg e name))) in
                     (if fault env [''SetSetting'', ''rules''] then Inl (RuleDb (DbError ''SetSetting'')) else Inr (),
                      e\<lparr>en_cfg := cfg\<rparr>, w\<lparr>w_rules := db_write env [''SetSetting'', ''rules''] (w_rules w) (Some cfg)\<rparr>)))))"

definition DeleteCustom :: "rule_env \<Rightarrow> string \<Rightarrow> 'x Engine \<Rightarrow> 'x world_scheme \<Rightarrow> ('x, unit) engine_result" where
  "DeleteCustom env name e w =
     (case rule_named e name of
        None \<Rightarrow> (Inl (UnknownRule name), e, w)
      | Some r \<Rightarrow>
          if r_custom r = None then (Inl (UnknownRule name), e, w)
          else case DeleteCustomRule env name (w_custom w) of
            (Inl m, _) \<Rightarrow> (Inl (RuleDb m), e, w)
          | (Inr _, rows) \<Rightarrow>
              (Inr (),
               e\<lparr>en_customs := (case find (\<lambda>c. r_name c = name) (en_customs e) of
                   None \<Rightarrow> en_customs e
                 | Some _ \<Rightarrow> takeWhile (\<lambda>c. r_name c \<noteq> name) (en_customs e) @
                             tl (dropWhile (\<lambda>c. r_name c \<noteq> name) (en_customs e))),
                 en_state := (en_state e)(name := None)\<rparr>,
               w\<lparr>w_custom := rows\<rparr>))"

section \<open>Evaluating a rule\<close>

text \<open>\<open>resolveExempt\<close>: the texts of the addresses that are exempt, given as addresses or as nicknames.\<close>

definition exempt_ips :: "string list \<Rightarrow> string list" where
  "exempt_ips l = List.map_filter (\<lambda>s. map_option (\<lambda>a. AddrString (Unmap a)) (ParseAddr (TrimSpace s))) l"

definition exempt_names :: "string list \<Rightarrow> string list" where
  "exempt_names l = map (\<lambda>s. ToLower (TrimSpace s)) (filter (\<lambda>s. TrimSpace s \<noteq> [] \<and> ParseAddr (TrimSpace s) = None) l)"

definition nickname_exempt :: "alert_db \<Rightarrow> string list \<Rightarrow> string \<Rightarrow> bool" where
  "nickname_exempt d names ip =
     (case ParseAddr ip of None \<Rightarrow> False
      | Some a \<Rightarrow> AddrString a = ip \<and> (case nicknames d a of None \<Rightarrow> False | Some n \<Rightarrow> ToLower n \<in> set names))"

definition resolveExempt :: "'e env_scheme \<Rightarrow> string list \<Rightarrow> alert_db \<Rightarrow> (string \<Rightarrow> bool) dbres" where
  "resolveExempt e l d =
     (let ips = exempt_ips l; names = exempt_names l in
      if names = [] then Inr (\<lambda>ip. ip \<in> set ips)
      else bindE (db_read e [''ListNicknames''] ()) (\<lambda>_. Inr (\<lambda>ip. ip \<in> set ips \<or> nickname_exempt d names ip)))"

text \<open>The arrow is U+2192 in UTF-8.\<close>

definition defaultTitle :: "'x Rule \<Rightarrow> Finding \<Rightarrow> string" where
  "defaultTitle r f =
     (let who = (if f_host f = [] then f_peer f
                 else if f_peer f \<noteq> [] then f_host f @ [CHR '' '', CHR 0xE2, CHR 0x86, CHR 0x92, CHR '' ''] @ f_peer f
                 else f_host f)
      in r_title r @ '': '' @ who @ (if f_port f > 0 then '':'' @ Itoa (f_port f) else []))"

definition fill_finding :: "'x Rule \<Rightarrow> effective \<Rightarrow> Finding \<Rightarrow> Finding" where
  "fill_finding r ef f =
     (let g = f\<lparr>f_rule := r_name r, f_severity := (if f_severity f = [] then ef_severity ef else f_severity f)\<rparr> in
      g\<lparr>f_title := (if f_title g = [] then defaultTitle r g else f_title g)\<rparr>)"

definition set_detail :: "string \<Rightarrow> json \<Rightarrow> (string \<times> json) list \<Rightarrow> (string \<times> json) list" where
  "set_detail k v kvs = filter (\<lambda>x. fst x \<noteq> k) kvs @ [(k, v)]"

text \<open>The arguments \<open>$1::inet\<close> of a lookup; a text that is no address is its error.\<close>

definition via_of :: "'e env_scheme \<Rightarrow> Window \<Rightarrow> agent_db \<Rightarrow> Finding \<Rightarrow> string list dbres" where
  "via_of e w d f =
     (case (inet_cast (f_host f), inet_cast (f_peer f)) of
        (Some h, Some p) \<Rightarrow> ProcessesFor e h p (f_port f) w 3 d
      | _ \<Rightarrow> Inl (DbError ''invalid input syntax for type inet''))"

definition attach_one :: "'e env_scheme \<Rightarrow> Window \<Rightarrow> agent_db \<Rightarrow> Finding \<Rightarrow> Finding" where
  "attach_one e w d f =
     (if f_host f = [] \<or> f_peer f = [] then f
      else case via_of e w d f of
        Inr via \<Rightarrow> if via \<noteq> [] then f\<lparr>f_details := set_detail ''via'' (JArr (map JStr via)) (f_details f)\<rparr> else f
      | Inl _ \<Rightarrow> f)"

definition attachProcesses :: "'e env_scheme \<Rightarrow> Window \<Rightarrow> agent_db \<Rightarrow> Finding list \<Rightarrow> Finding list" where
  "attachProcesses e w d fs =
     (if fs = [] then fs
      else case CountActiveAgents e d of Inl _ \<Rightarrow> fs | Inr n \<Rightarrow> if n = 0 then fs else map (attach_one e w d) fs)"

definition evaluate :: "Config \<Rightarrow> rule_env \<Rightarrow> 'x Rule \<Rightarrow> 'x Engine \<Rightarrow> 'x world_scheme \<Rightarrow> Finding list dbres" where
  "evaluate c env r e w =
     (let ef = effective_of e r; win = \<lparr>Since = now_of env - ef_window ef, Until = now_of env\<rparr> in
      bindE (r_run r c env (ef_params ef) win w) (\<lambda>findings.
      bindE (resolveExempt env (ef_exempt ef) (w_alerts w)) (\<lambda>ex.
      bindE (applyExclusions env (map (fill_finding r ef) (filter (\<lambda>f. \<not> (ex (f_host f) \<or> ex (f_peer f))) findings)) (w_alerts w)) (\<lambda>kept.
      Inr (attachProcesses env win (w_fleet w) kept)))))"

section \<open>Running a rule\<close>

text \<open>The notifier is an interface in Go; it is called only with a list that is not empty.\<close>

type_synonym 'x notifier = "rule_env \<Rightarrow> Alert list \<Rightarrow> 'x world_scheme \<Rightarrow> 'x world_scheme"

definition notify_with :: "'x notifier option \<Rightarrow> rule_env \<Rightarrow> Alert list \<Rightarrow> 'x world_scheme \<Rightarrow> 'x world_scheme" where
  "notify_with n env as w = (case n of None \<Rightarrow> w | Some f \<Rightarrow> if as = [] then w else f env as w)"

definition wants_notice :: "Config \<Rightarrow> instant \<Rightarrow> Alert \<times> bool \<Rightarrow> bool" where
  "wants_notice c now x \<longleftrightarrow>
     snd x \<or> (case a_notified (fst x) of None \<Rightarrow> True | Some t \<Rightarrow> now - t > NotifyRenotifyAfter c)"

text \<open>The loop that stores the findings: the alerts to announce so far, or the error that stops it.\<close>

primrec raise_loop :: "Config \<Rightarrow> rule_env \<Rightarrow> Finding list \<Rightarrow> Alert list \<Rightarrow> alert_db \<Rightarrow> Alert list dbres \<times> alert_db" where
  "raise_loop c env [] raised d = (Inr raised, d)"
| "raise_loop c env (f # fs) raised d =
     (case UpsertAlert env f d of
        (Inl m, d') \<Rightarrow> (Inl m, d')
      | (Inr x, d') \<Rightarrow> raise_loop c env fs (if wants_notice c (now_of env) x then raised @ [fst x] else raised) d')"

definition set_state :: "string \<Rightarrow> (ruleState \<Rightarrow> ruleState) \<Rightarrow> 'x Engine \<Rightarrow> 'x Engine" where
  "set_state name f e = e\<lparr>en_state := (en_state e)(name \<mapsto> f (opt_default fresh_state (en_state e name)))\<rparr>"

definition RunRule ::
  "Config \<Rightarrow> 'x notifier option \<Rightarrow> rule_env \<Rightarrow> string \<Rightarrow> bool \<Rightarrow> 'x Engine \<Rightarrow> 'x world_scheme \<Rightarrow> ('x, Alert list) engine_result" where
  "RunRule c n env name force e w =
     (case rule_named e name of
        None \<Rightarrow> (Inl (UnknownRule name), e, w)
      | Some r \<Rightarrow>
          (let e1 = set_state name (\<lambda>s. s\<lparr>rs_last := Some (now_of env)\<rparr>) e in
           if \<not> ef_enabled (effective_of e1 r) \<and> \<not> force then (Inr [], e1, w)
           else case evaluate c env r e1 w of
             Inl m \<Rightarrow> (Inl (RuleDb m), set_state name (\<lambda>s. s\<lparr>rs_err := Some m\<rparr>) e1, w)
           | Inr findings \<Rightarrow>
               (let e2 = set_state name (\<lambda>s. s\<lparr>rs_err := None\<rparr>) e1 in
                case raise_loop c env findings [] (w_alerts w) of
                  (Inl m, d) \<Rightarrow> (Inl (RuleDb m), e2, w\<lparr>w_alerts := d\<rparr>)
                | (Inr raised, d) \<Rightarrow>
                    (Inr raised, set_state name (\<lambda>s. s\<lparr>rs_count := length findings\<rparr>) e2,
                     notify_with n env raised (w\<lparr>w_alerts := d\<rparr>)))))"

definition is_due :: "'x Engine \<Rightarrow> instant \<Rightarrow> 'x Rule \<Rightarrow> bool" where
  "is_due e now r \<longleftrightarrow>
     (case en_state e (r_name r) of None \<Rightarrow> True
      | Some s \<Rightarrow> (case rs_last s of None \<Rightarrow> True | Some t \<Rightarrow> now - t \<ge> ef_interval (effective_of e r)))"

primrec tick_rules ::
  "Config \<Rightarrow> 'x notifier option \<Rightarrow> rule_env \<Rightarrow> 'x Rule list \<Rightarrow> 'x Engine \<times> 'x world_scheme \<Rightarrow> 'x Engine \<times> 'x world_scheme" where
  "tick_rules c n env [] s = s"
| "tick_rules c n env (r # rs) s =
     tick_rules c n env rs
       (if is_due (fst s) (now_of env) r then snd (RunRule c n env (r_name r) False (fst s) (snd s)) else s)"

definition Tick :: "Config \<Rightarrow> 'x notifier option \<Rightarrow> rule_env \<Rightarrow> 'x Engine \<times> 'x world_scheme \<Rightarrow> 'x Engine \<times> 'x world_scheme" where
  "Tick c n env s =
     (case tick_rules c n env (all_rules (fst s)) s of
        (e, w) \<Rightarrow>
          (let ret = (case GetAlertRetention env (w_alerts w) of Inr r \<Rightarrow> r | Inl _ \<Rightarrow> DefaultAlertRetention)
           in (e, w\<lparr>w_alerts := snd (AutoResolveStale env (AutoResolveAfter ret) (w_alerts w))\<rparr>)))"

section \<open>Previews and IDS events\<close>

definition Preview :: "Config \<Rightarrow> rule_env \<Rightarrow> string \<Rightarrow> 'x Engine \<Rightarrow> 'x world_scheme \<Rightarrow> rule_error + Finding list" where
  "Preview c env name e w =
     (case rule_named e name of None \<Rightarrow> Inl (UnknownRule name)
      | Some r \<Rightarrow> (case evaluate c env r e w of Inl m \<Rightarrow> Inl (RuleDb m) | Inr fs \<Rightarrow> Inr fs))"

definition PreviewSpec :: "Config \<Rightarrow> rule_env \<Rightarrow> CustomSpec \<Rightarrow> 'x Engine \<Rightarrow> 'x world_scheme \<Rightarrow> rule_error + Finding list" where
  "PreviewSpec c env spec e w =
     (case toRow e (if TrimSpace (sp_name spec) = [] then spec\<lparr>sp_name := ''preview_rule''\<rparr> else spec) of
        Inl m \<Rightarrow> Inl (Invalid m)
      | Inr row \<Rightarrow>
          (case buildCustom e row of
             Inl m \<Rightarrow> Inl (Invalid m)
           | Inr r \<Rightarrow> (case evaluate c env r e w of Inl m \<Rightarrow> Inl (Invalid (QueryFailed m)) | Inr fs \<Rightarrow> Inr fs)))"

definition too_low :: "effective \<Rightarrow> Finding \<Rightarrow> bool" where
  "too_low ef f \<longleftrightarrow>
     (case map_of (f_details f) ''suricata_severity'' of
        Some (JNum sev) \<Rightarrow> sev > p_Int (ef_params ef) ''min_suricata_severity''
      | _ \<Rightarrow> False)"

text \<open>The engine always has the rule \<open>ids\<close>; without it the Go code dereferences \<open>nil\<close>.\<close>

definition RaiseIDS ::
  "Config \<Rightarrow> 'x notifier option \<Rightarrow> rule_env \<Rightarrow> Finding \<Rightarrow> 'x Engine \<Rightarrow> 'x world_scheme \<Rightarrow> unit dbres option \<times> 'x world_scheme" where
  "RaiseIDS c n env f e w =
     (case builtinRule e ''ids'' of
        None \<Rightarrow> (None, w)
      | Some r \<Rightarrow>
          (let ef = effective_of e r in
           if \<not> ef_enabled ef \<or> too_low ef f then (Some (Inr ()), w)
           else case resolveExempt env (ef_exempt ef) (w_alerts w) of
             Inl m \<Rightarrow> (Some (Inl m), w)
           | Inr ex \<Rightarrow>
               if ex (f_host f) \<or> ex (f_peer f) then (Some (Inr ()), w)
               else case applyExclusions env [f\<lparr>f_rule := ''ids''\<rparr>] (w_alerts w) of
                 Inl m \<Rightarrow> (Some (Inl m), w)
               | Inr kept \<Rightarrow>
                   if kept = [] then (Some (Inr ()), w)
                   else (let g = hd (attachProcesses env \<lparr>Since = now_of env - 5 * Minute, Until = now_of env\<rparr> (w_fleet w)
                                   [f\<lparr>f_rule := ''ids''\<rparr>]) in
                     case UpsertAlert env g (w_alerts w) of
                       (Inl m, d) \<Rightarrow> (Some (Inl m), w\<lparr>w_alerts := d\<rparr>)
                     | (Inr x, d) \<Rightarrow>
                         (Some (Inr ()), notify_with n env (if wants_notice c (now_of env) x then [fst x] else [])
                            (w\<lparr>w_alerts := d\<rparr>)))))"

end
