(* ===== verification/RulesSafety.thy ===== *)
theory RulesSafety
  imports Rules
begin

text \<open>
  What the detection engine promises: a run turns every finding into a live alert, the scheduler keeps
  the interval of every rule, and the list of custom rules in memory is the table in the database. Two
  gaps of the configuration are stated as they are.
\<close>

section \<open>From findings to alerts\<close>

definition live_keys :: "alert_db \<Rightarrow> string list" where
  "live_keys d = map a_key (filter live_alert (alerts d))"

lemma find_hit: "find P xs = Some x \<Longrightarrow> x \<in> set xs \<and> P x"
  by (auto simp: find_Some_iff)

lemma live_keys_map:
  assumes "\<And>x. a_key (g x) = a_key x" "\<And>x. live_alert (g x) = live_alert x"
  shows "map a_key (filter live_alert (map g as)) = map a_key (filter live_alert as)"
  using assms by (induction as) auto

lemma live_keys_UpsertAlert:
  "set (live_keys d) \<subseteq> set (live_keys (snd (UpsertAlert e f d))) \<and>
     (case fst (UpsertAlert e f d) of Inr x \<Rightarrow> DedupeKey f \<in> set (live_keys (snd (UpsertAlert e f d))) | Inl _ \<Rightarrow> True)"
proof (cases rule: UpsertAlert_cases [of e f d])
  case (err m d')
  then show ?thesis by (simp add: live_keys_def)
next
  case (bump a d')
  let ?g = "\<lambda>x. if live_alert x \<and> a_key x = DedupeKey f then bump_alert (now_of e) f x else x"
  have g: "a_key (?g x) = a_key x" "live_alert (?g x) = live_alert x" for x by simp_all
  have "live_keys d' = live_keys d"
    unfolding live_keys_def bump(4) by (subst (2) live_keys_map [of ?g, OF g, symmetric]) simp
  moreover have "DedupeKey f \<in> set (live_keys d)" using find_hit [OF bump(2)] by (force simp: live_keys_def)
  ultimately show ?thesis using bump(1) by simp
next
  case (new host peer d')
  then show ?thesis by (auto simp: live_keys_def)
qed

text \<open>Every live alert of the keys \<open>K\<close> that was never announced is among the raised ones, as it stands in the table.\<close>

definition announced :: "string set \<Rightarrow> Alert list \<Rightarrow> alert_db \<Rightarrow> bool" where
  "announced K raised d \<longleftrightarrow>
     (\<forall>a \<in> set (alerts d). live_alert a \<and> a_key a \<in> K \<and> a_notified a = None \<longrightarrow> a \<in> set raised)"

lemma notified_bump [simp]: "a_notified (bump_alert t f a) = a_notified a"
  by (simp add: bump_alert_def)

lemma announced_step:
  assumes w: "wf_alerts d" and K: "announced K raised d" and u: "UpsertAlert env f d = (Inr x, d')"
  shows "announced (insert (DedupeKey f) K) (if wants_notice c (now_of env) x then raised @ [fst x] else raised) d'"
proof (cases rule: UpsertAlert_cases [of env f d])
  case (bump a d'')
  define g where "g = (\<lambda>y. if live_alert y \<and> a_key y = DedupeKey f then bump_alert (now_of env) f y else y)"
  define r where "r = (if wants_notice c (now_of env) x then raised @ [fst x] else raised)"
  have x: "x = (bump_alert (now_of env) f a, False)" and d: "alerts d' = map g (alerts d)"
    using bump(1,4) u by (simp_all add: g_def)
  have "g y \<in> set r"
    if y: "y \<in> set (alerts d)" "live_alert (g y)" "a_key (g y) \<in> insert (DedupeKey f) K" "a_notified (g y) = None" for y
  proof (cases "live_alert y \<and> a_key y = DedupeKey f")
    case True
    then have "y = a" using live_unique [OF w bump(2) y(1)] by blast
    with y(4) True show ?thesis by (simp add: x wants_notice_def r_def g_def)
  next
    case False
    with y have "y \<in> set raised" using K by (auto simp: announced_def g_def)
    with False show ?thesis by (auto simp: r_def g_def)
  qed
  then show ?thesis unfolding announced_def d r_def [symmetric] by auto
next
  case (new host peer d'')
  have x: "x = (new_alert (now_of env) (alert_seq d + 1) host peer f, True)" and d: "d' = d''" using new(1) u by simp_all
  have "a_key y \<noteq> DedupeKey f" if "y \<in> set (alerts d)" "live_alert y" for y
    using new(4) that by (auto simp: find_None_iff)
  with K show ?thesis unfolding announced_def d new(5) x by (auto simp: wants_notice_def)
qed (use u in simp)

lemma raise_loop_exact:
  assumes "raise_loop c env fs raised d = (Inr raised', d')" "wf_alerts d" "announced K raised d" "K \<subseteq> set (live_keys d)"
  shows "wf_alerts d' \<and> announced (DedupeKey ` set fs \<union> K) raised' d' \<and> DedupeKey ` set fs \<union> K \<subseteq> set (live_keys d')"
  using assms
proof (induction fs arbitrary: raised d K)
  case (Cons f fs)
  obtain x d1 where u: "UpsertAlert env f d = (Inr x, d1)"
    and r: "raise_loop c env fs (if wants_notice c (now_of env) x then raised @ [fst x] else raised) d1 = (Inr raised', d')"
    using Cons.prems(1) by (auto split: prod.splits sum.splits)
  have w: "wf_alerts d1" using wf_UpsertAlert [OF Cons.prems(2), of env f] u by simp
  have k: "insert (DedupeKey f) K \<subseteq> set (live_keys d1)"
    using live_keys_UpsertAlert [of d env f] u Cons.prems(4) by auto
  show ?case
    using Cons.IH [OF r w announced_step [OF Cons.prems(2,3) u] k] by auto
qed simp

lemma effective_set_state [simp]: "effective_of (set_state n f e) r = effective_of e r"
  by (simp add: effective_of_def set_state_def split: option.split)

lemma evaluate_set_state [simp]: "evaluate c env r (set_state n f e) w = evaluate c env r e w"
  by (simp add: evaluate_def)

lemma run_announces:
  assumes "RunRule c n env name force e w = (Inr raised, e', w')" and "rule_named e name = Some r"
    and "ef_enabled (effective_of e r) \<or> force" and "wf_alerts (w_alerts w)"
  shows "\<exists>fs w1. evaluate c env r e w = Inr fs \<and> w' = notify_with n env raised w1 \<and>
     (\<exists>d. w1 = w\<lparr>w_alerts := d\<rparr>) \<and>
     DedupeKey ` set fs \<subseteq> set (live_keys (w_alerts w1)) \<and> announced (DedupeKey ` set fs) raised (w_alerts w1)"
proof -
  obtain fs d where fs: "evaluate c env r e w = Inr fs" "raise_loop c env fs [] (w_alerts w) = (Inr raised, d)"
      "w' = notify_with n env raised (w\<lparr>w_alerts := d\<rparr>)"
    using assms(1-3) by (auto simp: RunRule_def Let_def split: sum.splits prod.splits)
  have "announced (DedupeKey ` set fs \<union> {}) raised d \<and> DedupeKey ` set fs \<union> {} \<subseteq> set (live_keys d)"
    using raise_loop_exact [OF fs(2) assms(4), of "{}"] by (simp add: announced_def)
  with fs(1,3) show ?thesis by (intro exI [of _ fs] exI [of _ "w\<lparr>w_alerts := d\<rparr>"]) auto
qed

text \<open>C8: A run loses no finding. When a run of an enabled rule succeeds, every finding of its evaluation has
  a live alert, and every live alert of these findings that was never announced is handed to the notifier.\<close>

theorem run_raises_every_finding:
  assumes "RunRule c n env name force e w = (Inr raised, e', w')" and "rule_named e name = Some r"
    and "ef_enabled (effective_of e r) \<or> force" and "wf_alerts (w_alerts w)"
  shows "\<exists>fs w1. evaluate c env r e w = Inr fs \<and> w' = notify_with n env raised w1 \<and>
     DedupeKey ` set fs \<subseteq> set (live_keys (w_alerts w1)) \<and> announced (DedupeKey ` set fs) raised (w_alerts w1)"
  using run_announces [OF assms] by blast

section \<open>The interval of a rule\<close>

definition last_run :: "'x Engine \<Rightarrow> string \<Rightarrow> instant option" where
  "last_run e m = Option.bind (en_state e m) rs_last"

definition rule_part :: "'x Engine \<Rightarrow> 'x Rule list \<times> 'x Rule list \<times> (string \<rightharpoonup> RuleConfig)" where
  "rule_part e = (en_builtin e, en_customs e, en_cfg e)"

lemma rule_part_simps:
  assumes "rule_part e' = rule_part e"
  shows "all_rules e' = all_rules e" "effective_of e' r = effective_of e r" "buildCustom e' row = buildCustom e row"
    "rule_named e' name = rule_named e name"
  using assms by (simp_all add: rule_part_def all_rules_def effective_of_def buildCustom_def builtinRule_def rule_named_def
      split: option.split)

lemma rule_part_set_state [simp]: "rule_part (set_state n f e) = rule_part e"
  by (simp add: rule_part_def set_state_def)

lemma last_run_set_state:
  "(\<And>s. rs_last (f s) = rs_last s) \<Longrightarrow> last_run (set_state n f e) m = last_run e m"
  by (simp add: last_run_def set_state_def opt_default_def fresh_state_def split: option.split)

lemma last_run_mark: "last_run (set_state n (\<lambda>s. s\<lparr>rs_last := Some t\<rparr>) e) m = (if m = n then Some t else last_run e m)"
  by (simp add: last_run_def set_state_def)

lemma RunRule_part: "rule_part (fst (snd (RunRule c n env name force e w))) = rule_part e"
  by (simp add: RunRule_def Let_def split_beta split: option.split sum.split)

lemma RunRule_last_run:
  "rule_named e name \<noteq> None \<Longrightarrow>
     last_run (fst (snd (RunRule c n env name force e w))) m = (if m = name then Some (now_of env) else last_run e m)"
  by (auto simp: RunRule_def Let_def split_beta last_run_set_state last_run_mark split: option.split sum.split)

lemma is_due_iff:
  "is_due e now r \<longleftrightarrow> (case last_run e (r_name r) of None \<Rightarrow> True | Some t \<Rightarrow> t + ef_interval (effective_of e r) \<le> now)"
  by (auto simp: is_due_def last_run_def split: option.split)

lemma tick_rules_last_run:
  assumes "distinct (map r_name rs)" and "set rs \<subseteq> set (all_rules (fst s))"
  shows "rule_part (fst (tick_rules c n env rs s)) = rule_part (fst s) \<and>
    last_run (fst (tick_rules c n env rs s)) m =
      (if list_ex (\<lambda>r. r_name r = m \<and> is_due (fst s) (now_of env) r) rs then Some (now_of env) else last_run (fst s) m)"
  using assms
proof (induction rs arbitrary: s)
  case (Cons r rs)
  define s' where "s' = (if is_due (fst s) (now_of env) r then snd (RunRule c n env (r_name r) False (fst s) (snd s)) else s)"
  have named: "rule_named (fst s) (r_name r) \<noteq> None"
    using Cons.prems(2) by (auto simp: rule_named_def find_None_iff)
  have part: "rule_part (fst s') = rule_part (fst s)" by (simp add: s'_def RunRule_part)
  have lr: "last_run (fst s') k = (if k = r_name r \<and> is_due (fst s) (now_of env) r then Some (now_of env) else last_run (fst s) k)" for k
    using RunRule_last_run [OF named] by (simp add: s'_def)
  have due: "is_due (fst s') now x = is_due (fst s) now x" if "r_name x \<noteq> r_name r" for now x
    using that by (simp add: is_due_iff lr rule_part_simps(2) [OF part] split: option.split)
  have ex: "list_ex (\<lambda>x. r_name x = m \<and> is_due (fst s') (now_of env) x) rs =
      list_ex (\<lambda>x. r_name x = m \<and> is_due (fst s) (now_of env) x) rs"
  proof -
    have "r_name x \<noteq> r_name r" if "x \<in> set rs" for x using Cons.prems(1) that by (auto simp: image_iff)
    then show ?thesis unfolding list_ex_iff using due by blast
  qed
  have ih: "rule_part (fst (tick_rules c n env rs s')) = rule_part (fst s') \<and>
    last_run (fst (tick_rules c n env rs s')) m =
      (if list_ex (\<lambda>r. r_name r = m \<and> is_due (fst s') (now_of env) r) rs then Some (now_of env) else last_run (fst s') m)"
    using Cons.prems by (intro Cons.IH) (simp_all add: rule_part_simps [OF part])
  have "tick_rules c n env (r # rs) s = tick_rules c n env rs s'" by (simp add: s'_def)
  with ih part lr ex show ?case by auto
qed simp

lemma fst_Tick: "fst (Tick c n env s) = fst (tick_rules c n env (all_rules (fst s)) s)"
  by (simp add: Tick_def split_beta Let_def)

lemma Tick_last_run:
  assumes "distinct (map r_name (all_rules e))" "r \<in> set (all_rules e)"
  shows "rule_part (fst (Tick c n env (e, w))) = rule_part e"
    "last_run (fst (Tick c n env (e, w))) (r_name r) = (if is_due e (now_of env) r then Some (now_of env) else last_run e (r_name r))"
proof -
  have t: "rule_part (fst (tick_rules c n env (all_rules e) (e, w))) = rule_part (fst (e, w)) \<and>
     last_run (fst (tick_rules c n env (all_rules e) (e, w))) (r_name r) =
      (if list_ex (\<lambda>x. r_name x = r_name r \<and> is_due (fst (e, w)) (now_of env) x) (all_rules e) then Some (now_of env)
       else last_run (fst (e, w)) (r_name r))"
    by (rule tick_rules_last_run) (simp_all add: assms)
  show "rule_part (fst (Tick c n env (e, w))) = rule_part e" using t by (simp add: fst_Tick)
  have inj: "inj_on r_name (set (all_rules e))" using assms(1) by (simp add: distinct_map)
  have "x = r" if "x \<in> set (all_rules e)" "r_name x = r_name r" for x
    using that assms(2) by (intro inj_onD [OF inj]) simp_all
  then have "list_ex (\<lambda>x. r_name x = r_name r \<and> is_due e (now_of env) x) (all_rules e) \<longleftrightarrow> is_due e (now_of env) r"
    unfolding list_ex_iff using assms(2) by metis
  with t show "last_run (fst (Tick c n env (e, w))) (r_name r) =
      (if is_due e (now_of env) r then Some (now_of env) else last_run e (r_name r))"
    by (simp add: fst_Tick)
qed

text \<open>The last runs of a rule as the ticks of the scheduler leave them, one after the other.\<close>

primrec last_runs ::
  "Config \<Rightarrow> 'x notifier option \<Rightarrow> 'x Rule \<Rightarrow> rule_env list \<Rightarrow> 'x Engine \<times> 'x world_scheme \<Rightarrow> instant option list" where
  "last_runs c n r [] s = [last_run (fst s) (r_name r)]"
| "last_runs c n r (env # envs) s = last_run (fst s) (r_name r) # last_runs c n r envs (Tick c n env s)"

definition spaced :: "duration \<Rightarrow> instant option \<Rightarrow> instant option \<Rightarrow> bool" where
  "spaced iv a b \<longleftrightarrow> b = a \<or> (case (a, b) of (None, Some t) \<Rightarrow> True | (Some s, Some t) \<Rightarrow> s + iv \<le> t | _ \<Rightarrow> False)"

lemma hd_last_runs: "last_runs c n r envs s \<noteq> [] \<and> hd (last_runs c n r envs s) = last_run (fst s) (r_name r)"
  by (cases envs) simp_all

lemma last_runs_spaced:
  "distinct (map r_name (all_rules (fst s))) \<Longrightarrow> r \<in> set (all_rules (fst s)) \<Longrightarrow> ef_interval (effective_of (fst s) r) = iv \<Longrightarrow>
     successively (spaced iv) (last_runs c n r envs s)"
proof (induction envs arbitrary: s)
  case (Cons env envs)
  obtain e w where s: "s = (e, w)" by (cases s)
  have d: "distinct (map r_name (all_rules e))" and r: "r \<in> set (all_rules e)" using Cons.prems s by simp_all
  note t = Tick_last_run [OF d r, of c n env w]
  have "successively (spaced iv) (last_runs c n r envs (Tick c n env (e, w)))"
    using Cons.prems s by (intro Cons.IH) (simp_all add: rule_part_simps [OF t(1)])
  moreover have "spaced iv (last_run e (r_name r)) (last_run (fst (Tick c n env (e, w))) (r_name r))"
    using Cons.prems(3) s by (auto simp: t(2) spaced_def is_due_iff split: option.split)
  ultimately show ?case
    using hd_last_runs [of c n r envs "Tick c n env (e, w)"]
    by (cases "last_runs c n r envs (Tick c n env (e, w))") (simp_all add: s)
qed simp

text \<open>The scheduler keeps the interval of every rule. Over any sequence of ticks, two different last-run times
  of a rule are at least its effective interval apart, whatever the detectors find, whichever statements
  fail and whatever the notifier does.\<close>

theorem rules_keep_their_interval:
  assumes "distinct (map r_name (all_rules e))" and "r \<in> set (all_rules e)"
  shows "successively (spaced (ef_interval (effective_of e r))) (last_runs c n r envs (e, w))"
  using assms by (intro last_runs_spaced) simp_all

section \<open>A small engine\<close>

definition quiet_env :: "instant \<Rightarrow> rule_env" where
  "quiet_env t = \<lparr>now_of = t, fault = (\<lambda>_. False), sql_exec = (\<lambda>_ _ _. Inr ([], [])), json_object = (\<lambda>_. None)\<rparr>"

definition plain_finding :: Finding where
  "plain_finding = \<lparr>f_rule = [], f_severity = [], f_host = [], f_peer = [], f_port = 0, f_title = ''seen'',
     f_details = [], f_key = ''k''\<rparr>"

definition sample_rule :: "'x Rule" where
  "sample_rule = \<lparr>r_name = ''demo'', r_title = ''Demo'', r_description = [], r_severity = ''info'', r_interval = Minute,
     r_window = Hour, r_params = [], r_run = (\<lambda>_ _ _ _ _. Inr [plain_finding]), r_custom = None, r_base = None\<rparr>"

definition sample_engine :: "'x Engine" where
  "sample_engine = \<lparr>en_builtin = [sample_rule], en_customs = [], en_cfg = Map.empty, en_state = Map.empty\<rparr>"

definition empty_world :: world where
  "empty_world = \<lparr>w_alerts = empty_alert_db, w_fleet = empty_agent_db, w_custom = [], w_rules = None\<rparr>"

lemma effective_sample:
  "effective_of sample_engine sample_rule =
     \<lparr>ef_enabled = True, ef_severity = ''info'', ef_params = override_params Map.empty [], ef_exempt = [], ef_interval = Minute, ef_window = Hour\<rparr>"
  by (simp add: effective_of_def sample_engine_def sample_rule_def opt_default_def no_override_def SeverityRank_def
      positive_duration_def ParseDuration_def default_params_def)

definition demo_finding :: Finding where
  "demo_finding = plain_finding\<lparr>f_rule := ''demo'', f_severity := ''info''\<rparr>"

lemma quiet_env_simps [simp]: "now_of (quiet_env t) = t" "\<not> fault (quiet_env t) k"
  by (simp_all add: quiet_env_def)

lemma exclude_nothing: "exclusions d = [] \<Longrightarrow> applyExclusions (quiet_env t) fs d = Inr fs"
  by (simp add: applyExclusions_def LoadExclusions_def ListExclusions_def NewExclusionSet_def set_Empty_def)

lemma evaluate_sample:
  assumes "exclusions (w_alerts w) = []" "agents (w_fleet w) = []"
  shows "evaluate c (quiet_env t) sample_rule sample_engine w = Inr [demo_finding]"
proof -
  have "fill_finding sample_rule (effective_of sample_engine sample_rule) plain_finding = demo_finding"
    by (simp add: fill_finding_def effective_sample) (simp add: sample_rule_def plain_finding_def demo_finding_def)
  moreover have "resolveExempt (quiet_env t) [] (w_alerts w) = Inr (\<lambda>_. False)"
    by (simp add: resolveExempt_def exempt_ips_def exempt_names_def map_filter_simps)
  moreover have "r_run sample_rule c e p win w = Inr [plain_finding]" for e p win
    by (simp add: sample_rule_def)
  ultimately show ?thesis
    by (simp add: evaluate_def effective_sample exclude_nothing attachProcesses_def CountActiveAgents_def assms)
qed

lemma empty_world_simps [simp]:
  "w_alerts empty_world = empty_alert_db" "exclusions empty_alert_db = []" "agents (w_fleet empty_world) = []"
  by (simp_all add: empty_world_def empty_alert_db_def empty_agent_db_def)

lemma raise_sample:
  "\<exists>a d. raise_loop c (quiet_env t) [demo_finding] [] empty_alert_db = (Inr [a], d)"
  by (simp add: UpsertAlert_def demo_finding_def plain_finding_def sample_finding_inet empty_alert_db_def max_int32_def
      Let_def wants_notice_def)

theorem run_raises_every_finding_witness:
  "\<exists>a e' w'. RunRule default_config None (quiet_env 5) ''demo'' False sample_engine empty_world = (Inr [a], e', w') \<and>
     DedupeKey demo_finding \<in> set (live_keys (w_alerts w'))"
proof -
  have named: "rule_named sample_engine ''demo'' = Some sample_rule"
    by (simp add: rule_named_def all_rules_def sample_engine_def sample_rule_def)
  have on: "ef_enabled (effective_of sample_engine sample_rule) \<or> False" by (simp add: effective_sample)
  obtain a d where "raise_loop default_config (quiet_env 5) [demo_finding] [] empty_alert_db = (Inr [a], d)" using raise_sample by blast
  then obtain e' w' where run: "RunRule default_config None (quiet_env 5) ''demo'' False sample_engine empty_world = (Inr [a], e', w')"
    by (simp add: RunRule_def named effective_sample evaluate_sample)
  have "wf_alerts (w_alerts empty_world)" by (simp add: empty_world_def)
  from run_raises_every_finding [OF run named on this] run show ?thesis
    by (auto simp: evaluate_sample notify_with_def)
qed

text \<open>Ticks at 0, 30 and 90 seconds: the second one finds the rule not due.\<close>

theorem rules_keep_their_interval_witness:
  "successively (spaced Minute)
     (last_runs default_config None sample_rule [quiet_env 0, quiet_env (30 * Second), quiet_env (90 * Second)] (sample_engine, empty_world))"
proof -
  have r: "distinct (map r_name (all_rules sample_engine))" "sample_rule \<in> set (all_rules sample_engine)"
    by (simp_all add: all_rules_def sample_engine_def)
  show ?thesis
    using rules_keep_their_interval [OF r, of default_config None "[quiet_env 0, quiet_env (30 * Second), quiet_env (90 * Second)]" empty_world]
    by (simp only: effective_sample effective.select_convs)
qed

section \<open>Custom rules in memory and in the table\<close>

definition same_row :: "CustomRule \<Rightarrow> CustomRule \<Rightarrow> bool" where
  "same_row c row \<longleftrightarrow> (as_stored c)\<lparr>cu_created := cu_created row, cu_updated := cu_updated row\<rparr> = as_stored row"

text \<open>A rule in memory is built from a row of the table, up to fractions of a second and the time
  stamps, and every row that can be built has its rule.\<close>

definition backed :: "'x Engine \<Rightarrow> CustomRule list \<Rightarrow> 'x Rule \<Rightarrow> bool" where
  "backed e rows r \<longleftrightarrow>
     (\<exists>c row. r_custom r = Some c \<and> buildCustom e c = Inr r \<and> row \<in> set rows \<and> cu_name row = r_name r \<and> same_row c row)"

definition mirrors :: "'x Engine \<Rightarrow> CustomRule list \<Rightarrow> bool" where
  "mirrors e rows \<longleftrightarrow>
     distinct (map r_name (all_rules e)) \<and> distinct (map cu_name rows) \<and>
     (\<forall>b \<in> set (en_builtin e). r_custom b = None) \<and>
     (\<forall>r \<in> set (en_customs e). backed e rows r) \<and>
     (\<forall>row \<in> set rows. isl (buildCustom e row) \<or> cu_name row \<in> r_name ` set (en_customs e))"

lemma mirrorsD:
  assumes "mirrors e rows"
  shows "distinct (map r_name (en_builtin e))" "distinct (map r_name (en_customs e))"
    "r_name ` set (en_builtin e) \<inter> r_name ` set (en_customs e) = {}" "distinct (map cu_name rows)"
    "b \<in> set (en_builtin e) \<Longrightarrow> r_custom b = None" "r \<in> set (en_customs e) \<Longrightarrow> backed e rows r"
    "row \<in> set rows \<Longrightarrow> isl (buildCustom e row) \<or> cu_name row \<in> r_name ` set (en_customs e)"
  using assms by (auto simp: mirrors_def all_rules_def)

lemma mirrorsI:
  assumes "distinct (map r_name (en_builtin e))" "distinct (map r_name (en_customs e))"
    "r_name ` set (en_builtin e) \<inter> r_name ` set (en_customs e) = {}" "distinct (map cu_name rows)"
    "\<And>b. b \<in> set (en_builtin e) \<Longrightarrow> r_custom b = None" "\<And>r. r \<in> set (en_customs e) \<Longrightarrow> backed e rows r"
    "\<And>row. row \<in> set rows \<Longrightarrow> isl (buildCustom e row) \<or> cu_name row \<in> r_name ` set (en_customs e)"
  shows "mirrors e rows"
  using assms by (auto simp: mirrors_def all_rules_def)

lemma buildCustom_part: "buildCustom e row = Inr r \<Longrightarrow> r_name r = cu_name row \<and> r_custom r = Some row"
  by (auto simp: buildCustom_def rule_of_row_def split: if_splits option.splits)

lemma isl_buildCustom_cong: "cu_kind a = cu_kind b \<Longrightarrow> cu_base a = cu_base b \<Longrightarrow> isl (buildCustom e a) \<longleftrightarrow> isl (buildCustom e b)"
  by (simp add: buildCustom_def split: option.split)

lemma buildCustom_builtin: "en_builtin e' = en_builtin e \<Longrightarrow> buildCustom e' row = buildCustom e row"
  by (simp add: buildCustom_def builtinRule_def)

lemma as_stored_simps [simp]:
  "cu_name (as_stored r) = cu_name r" "cu_kind (as_stored r) = cu_kind r" "cu_base (as_stored r) = cu_base r"
  "as_stored (as_stored r) = as_stored r"
  by (simp_all add: as_stored_def whole_seconds_def)

lemma as_stored_stamp [simp]:
  "as_stored (r\<lparr>cu_created := t, cu_updated := u\<rparr>) = (as_stored r)\<lparr>cu_created := t, cu_updated := u\<rparr>"
  by (simp add: as_stored_def)

lemma put_custom_map:
  "map cu_name (put_custom t r rows) = map cu_name rows @ (if cu_name r \<in> cu_name ` set rows then [] else [cu_name r])"
  by (auto simp: put_custom_def list_ex_iff image_iff) metis

lemma put_custom_names:
  "cu_name ` set (put_custom t r rows) = insert (cu_name r) (cu_name ` set rows)"
  "distinct (map cu_name rows) \<Longrightarrow> distinct (map cu_name (put_custom t r rows))"
  by (auto simp: put_custom_map simp flip: set_map)

lemma put_custom_other: "x \<in> set (put_custom t r rows) \<Longrightarrow> cu_name x \<noteq> cu_name r \<Longrightarrow> x \<in> set rows"
  by (auto simp: put_custom_def split: if_splits)

lemma put_custom_keeps: "x \<in> set rows \<Longrightarrow> cu_name x \<noteq> cu_name r \<Longrightarrow> x \<in> set (put_custom t r rows)"
  by (auto simp: put_custom_def image_iff)

lemma put_custom_same: "\<exists>row \<in> set (put_custom t r rows). cu_name row = cu_name r \<and> same_row r row"
proof (cases "list_ex (\<lambda>x. cu_name x = cu_name r) rows")
  case True
  then obtain x where x: "x \<in> set rows" "cu_name x = cu_name r" by (auto simp: list_ex_iff)
  let ?y = "(as_stored r)\<lparr>cu_created := cu_created x, cu_updated := t\<rparr>"
  have "?y \<in> set (put_custom t r rows)" using True x by (auto simp: put_custom_def)
  moreover have "cu_name ?y = cu_name r \<and> same_row r ?y" by (simp add: same_row_def)
  ultimately show ?thesis by blast
next
  case False
  then show ?thesis by (simp add: put_custom_def same_row_def)
qed

lemma install_customs:
  "en_builtin (install r e) = en_builtin e"
  "map r_name (en_customs (install r e)) = map r_name (en_customs e) @ (if r_name r \<in> r_name ` set (en_customs e) then [] else [r_name r])"
  "x \<in> set (en_customs (install r e)) \<Longrightarrow> x = r \<or> x \<in> set (en_customs e) \<and> r_name x \<noteq> r_name r"
proof -
  show "en_builtin (install r e) = en_builtin e" by (simp add: install_def)
  show "map r_name (en_customs (install r e)) = map r_name (en_customs e) @ (if r_name r \<in> r_name ` set (en_customs e) then [] else [r_name r])"
    by (auto simp: install_def list_ex_iff image_iff) metis
  show "x \<in> set (en_customs (install r e)) \<Longrightarrow> x = r \<or> x \<in> set (en_customs e) \<and> r_name x \<noteq> r_name r"
    by (auto simp: install_def list_ex_iff split: if_splits)
qed

lemma install_names: "r_name ` set (en_customs (install r e)) = insert (r_name r) (r_name ` set (en_customs e))"
  by (auto simp: install_customs(2) simp flip: set_map)

lemma backed_put:
  assumes "backed e rows x" "r_name x \<noteq> cu_name row" "en_builtin e' = en_builtin e"
  shows "backed e' (put_custom t row rows) x"
  using assms put_custom_keeps by (fastforce simp: backed_def buildCustom_builtin [OF assms(3)])

lemma mirrors_store:
  assumes m: "mirrors e rows" and b: "buildCustom e row = Inr r" and fresh: "cu_name row \<notin> r_name ` set (en_builtin e)"
  shows "mirrors (install r e) (put_custom t row rows)"
proof (rule mirrorsI)
  note D = mirrorsD [OF m] and N = buildCustom_part [OF b]
  show "distinct (map r_name (en_builtin (install r e)))" using D(1) by (simp add: install_customs)
  show "distinct (map r_name (en_customs (install r e)))" using D(2) by (auto simp: install_customs(2))
  show "r_name ` set (en_builtin (install r e)) \<inter> r_name ` set (en_customs (install r e)) = {}"
    using D(3) fresh N by (simp add: install_names) (simp add: install_customs)
  show "distinct (map cu_name (put_custom t row rows))" using D(4) by (rule put_custom_names)
  show "\<And>b. b \<in> set (en_builtin (install r e)) \<Longrightarrow> r_custom b = None" using D(5) by (simp add: install_customs(1))
  have eb: "en_builtin (install r e) = en_builtin e" by (rule install_customs)
  show "backed (install r e) (put_custom t row rows) x" if "x \<in> set (en_customs (install r e))" for x
  proof (cases "x = r")
    case True
    then show ?thesis
      using put_custom_same [of t row rows] N b by (auto simp: backed_def buildCustom_builtin [OF eb])
  next
    case False
    then show ?thesis using install_customs(3) [OF that] D(6) N by (intro backed_put [OF _ _ eb]) auto
  qed
  show "isl (buildCustom (install r e) x) \<or> cu_name x \<in> r_name ` set (en_customs (install r e))"
    if "x \<in> set (put_custom t row rows)" for x
    using D(7) [OF put_custom_other [OF that]] N by (auto simp: install_names buildCustom_builtin [OF eb])
qed

lemma mirrors_store_rule:
  assumes "mirrors e (w_custom w)" "buildCustom e row = Inr r" "cu_name row \<notin> r_name ` set (en_builtin e)"
    and "store_rule env row r e w = (x, e', w')"
  shows "mirrors e' (w_custom w')"
  using assms mirrors_store [OF assms(1-3)]
  by (auto simp: store_rule_def UpsertCustomRule_def db_read_def db_write_def split: if_splits)

lemma rule_named_custom:
  assumes "mirrors e rows" "rule_named e name = Some r" "r_custom r = Some c"
  shows "r \<in> set (en_customs e)" "r_name r = name" "name \<notin> r_name ` set (en_builtin e)" "backed e rows r" "cu_name c = name"
proof -
  have r: "r \<in> set (all_rules e)" "r_name r = name" using find_hit [OF assms(2) [unfolded rule_named_def]] by simp_all
  then show c: "r \<in> set (en_customs e)" using mirrorsD(5) [OF assms(1)] assms(3) by (auto simp: all_rules_def)
  show "r_name r = name" by (rule r)
  show "name \<notin> r_name ` set (en_builtin e)" using mirrorsD(3) [OF assms(1)] c r(2) by blast
  show b: "backed e rows r" by (rule mirrorsD(6) [OF assms(1) c])
  then show "cu_name c = name" using buildCustom_part assms(3) r(2) by (fastforce simp: backed_def)
qed

text \<open>A step keeps the mirror where the notifier leaves the table of custom rules alone.\<close>

datatype 'x rule_event =
    Save rule_env CustomSpec bool | Configure rule_env string RuleConfig | Remove rule_env string
  | Run Config "'x notifier option" rule_env string bool | TickNow Config "'x notifier option" rule_env

definition rule_step :: "'x Engine \<times> 'x world_scheme \<Rightarrow> 'x rule_event \<Rightarrow> 'x Engine \<times> 'x world_scheme" where
  "rule_step s ev =
     (case ev of
        Save env spec create \<Rightarrow> snd (SaveCustom env spec create (fst s) (snd s))
      | Configure env name rc \<Rightarrow> snd (UpdateConfig env name rc (fst s) (snd s))
      | Remove env name \<Rightarrow> snd (DeleteCustom env name (fst s) (snd s))
      | Run c n env name force \<Rightarrow> snd (RunRule c n env name force (fst s) (snd s))
      | TickNow c n env \<Rightarrow> Tick c n env s)"

definition modest :: "'x notifier option \<Rightarrow> bool" where
  "modest n \<longleftrightarrow> (case n of None \<Rightarrow> True | Some f \<Rightarrow> \<forall>env as w. w_custom (f env as w) = w_custom w)"

definition modest_event :: "'x rule_event \<Rightarrow> bool" where
  "modest_event ev \<longleftrightarrow> (case ev of Run _ n _ _ _ \<Rightarrow> modest n | TickNow _ n _ \<Rightarrow> modest n | _ \<Rightarrow> True)"

definition mirrored :: "'x Engine \<times> 'x world_scheme \<Rightarrow> bool" where
  "mirrored s \<longleftrightarrow> mirrors (fst s) (w_custom (snd s))"

lemma mirrors_cong:
  assumes "en_builtin e' = en_builtin e" "en_customs e' = en_customs e"
  shows "mirrors e' rows = mirrors e rows"
  by (simp add: mirrors_def all_rules_def assms backed_def buildCustom_builtin [OF assms(1)])

lemma mirrors_SaveCustom:
  assumes m: "mirrors e (w_custom w)" and s: "SaveCustom env spec create e w = (x, e', w')"
  shows "mirrors e' (w_custom w')"
proof (cases "(e', w') = (e, w)")
  case False
  obtain row where row: "toRow e spec = Inr row" using s False by (auto simp: SaveCustom_def split: sum.splits)
  obtain r y where b: "buildCustom e row = Inr r" and st: "store_rule env row r e w = (y, e', w')"
    using s False row by (auto simp: SaveCustom_def Let_def split: sum.splits prod.splits if_splits)
  have "cu_name row \<notin> r_name ` set (en_builtin e)"
  proof (cases "rule_named e (cu_name row)")
    case None
    then show ?thesis by (auto simp: rule_named_def find_None_iff all_rules_def)
  next
    case (Some old)
    have "\<not> create" using s False row Some by (auto simp: SaveCustom_def)
    moreover have "r_custom old \<noteq> None" using s False row Some calculation by (auto simp: SaveCustom_def simp del: not_None_eq split: if_splits)
    ultimately show ?thesis using rule_named_custom(3) [OF m Some] by blast
  qed
  from mirrors_store_rule [OF m b this st] show ?thesis .
qed (use m in simp)

lemma mirrors_UpdateConfig:
  assumes m: "mirrors e (w_custom w)" and s: "UpdateConfig env name rc e w = (x, e', w')"
  shows "mirrors e' (w_custom w')"
proof (cases "rule_named e name")
  case (Some r)
  show ?thesis
  proof (cases "r_custom r")
    case None
    then have "en_builtin e' = en_builtin e" "en_customs e' = en_customs e" "w_custom w' = w_custom w"
      using s Some by (auto simp: UpdateConfig_def Let_def split: option.splits)
    then show ?thesis using m by (simp add: mirrors_cong [of e' e])
  next
    case c: (Some c)
    note R = rule_named_custom [OF m Some c]
    have k: "cu_name (merge_row rc c) = cu_name c" by (simp add: merge_row_def)
    have up: "updateCustomConfig env c rc e w = (x, e', w') \<or> (e', w') = (e, w)"
      using s Some c by (auto simp: UpdateConfig_def split: option.splits)
    show ?thesis
    proof (cases "(e', w') = (e, w)")
      case False
      with up obtain r' where "buildCustom e (merge_row rc c) = Inr r'"
          "store_rule env (merge_row rc c) r' e w = (x, e', w')"
        by (auto simp: updateCustomConfig_def Let_def split: sum.splits)
      then show ?thesis using R k by (intro mirrors_store_rule [OF m]) simp_all
    qed (use m in simp)
  qed
qed (use m s in \<open>simp add: UpdateConfig_def\<close>)

lemma remove_first:
  assumes "distinct (map f xs)"
  shows "takeWhile (\<lambda>x. f x \<noteq> k) xs @ tl (dropWhile (\<lambda>x. f x \<noteq> k) xs) = filter (\<lambda>x. f x \<noteq> k) xs"
  using assms by (induction xs) (auto simp: image_iff intro!: filter_True [symmetric])

lemma mirrors_DeleteCustom:
  assumes m: "mirrors e (w_custom w)" and s: "DeleteCustom env name e w = (x, e', w')"
  shows "mirrors e' (w_custom w')"
proof (cases "(e', w') = (e, w)")
  case False
  then obtain r where r: "rule_named e name = Some r" "r_custom r \<noteq> None"
    using s by (auto simp: DeleteCustom_def split: option.splits if_splits)
  have ok: "\<not> fault env [''DeleteCustomRule'']"
    using s False r by (auto simp: DeleteCustom_def DeleteCustomRule_def db_read_def split: if_splits)
  note D = mirrorsD [OF m]
  have e': "en_builtin e' = en_builtin e" "en_customs e' = filter (\<lambda>c. r_name c \<noteq> name) (en_customs e)"
    and w': "w_custom w' = filter (\<lambda>x. cu_name x \<noteq> name) (w_custom w)"
    using s r ok remove_first [OF D(2), of name]
    by (auto simp: DeleteCustom_def DeleteCustomRule_def find_None_iff filter_id_conv split: option.splits)
  show ?thesis
  proof (rule mirrorsI)
    show "distinct (map r_name (en_customs e'))" using D(2) by (simp add: e' distinct_map_filter)
    show "distinct (map cu_name (w_custom w'))" using D(4) by (simp add: w' distinct_map_filter)
    show "backed e' (w_custom w') x" if "x \<in> set (en_customs e')" for x
      using D(6) [of x] that by (fastforce simp: backed_def e'(2) w' buildCustom_builtin [OF e'(1)])
    show "isl (buildCustom e' row) \<or> cu_name row \<in> r_name ` set (en_customs e')" if "row \<in> set (w_custom w')" for row
      using D(7) [of row] that by (auto simp: e'(2) w' buildCustom_builtin [OF e'(1)])
  qed (use D e' in auto)
qed (use m in simp)

lemma RunRule_engine:
  "en_builtin (fst (snd (RunRule c n env name force e w))) = en_builtin e"
  "en_customs (fst (snd (RunRule c n env name force e w))) = en_customs e"
  using RunRule_part [of c n env name force e w] by (simp_all add: rule_part_def)

lemma w_custom_notify: "modest n \<Longrightarrow> w_custom (notify_with n env as w) = w_custom w"
  by (simp add: modest_def notify_with_def split: option.splits)

lemma RunRule_table: "modest n \<Longrightarrow> w_custom (snd (snd (RunRule c n env name force e w))) = w_custom w"
  by (simp add: RunRule_def Let_def split_beta w_custom_notify split: option.split sum.split)

lemma mirrored_RunRule: "modest n \<Longrightarrow> mirrored s \<Longrightarrow> mirrored (snd (RunRule c n env name force (fst s) (snd s)))"
  by (simp add: mirrored_def mirrors_cong [OF RunRule_engine] RunRule_table)

lemma mirrored_tick_rules: "modest n \<Longrightarrow> mirrored s \<Longrightarrow> mirrored (tick_rules c n env rs s)"
  by (induction rs arbitrary: s) (simp_all add: mirrored_RunRule)

lemma mirrored_Tick: "modest n \<Longrightarrow> mirrored s \<Longrightarrow> mirrored (Tick c n env s)"
  using mirrored_tick_rules [of n s c env "all_rules (fst s)"]
  by (simp add: Tick_def Let_def split_beta mirrored_def)

lemma mirrored_step:
  assumes "mirrored s" "modest_event ev"
  shows "mirrored (rule_step s ev)"
proof (cases ev)
  case (Save env spec create)
  then show ?thesis using assms mirrors_SaveCustom [of "fst s" "snd s"] by (cases "SaveCustom env spec create (fst s) (snd s)") (auto simp: rule_step_def mirrored_def)
next
  case (Configure env name rc)
  then show ?thesis using assms mirrors_UpdateConfig [of "fst s" "snd s"] by (cases "UpdateConfig env name rc (fst s) (snd s)") (auto simp: rule_step_def mirrored_def)
next
  case (Remove env name)
  then show ?thesis using assms mirrors_DeleteCustom [of "fst s" "snd s"] by (cases "DeleteCustom env name (fst s) (snd s)") (auto simp: rule_step_def mirrored_def)
next
  case (Run c n env name force)
  then show ?thesis using assms mirrored_RunRule [of n s c env name force] by (simp add: rule_step_def modest_event_def)
next
  case (TickNow c n env)
  then show ?thesis using assms mirrored_Tick [of n s c env] by (simp add: rule_step_def modest_event_def)
qed

interpretation rule_mirror: guarded_machine rule_step mirrored modest_event
  by unfold_locales (rule mirrored_step)

lemma customs_of_rows: "set (List.map_filter (\<lambda>row. case f row of Inr r \<Rightarrow> Some r | Inl _ \<Rightarrow> None) rows) = {r. \<exists>row \<in> set rows. f row = Inr r}"
  by (induction rows) (auto simp: map_filter_simps split: sum.splits)

lemma customs_distinct:
  assumes "distinct (map g rows)" "\<And>row r. row \<in> set rows \<Longrightarrow> f row = Inr r \<Longrightarrow> h r = g row"
  shows "distinct (map h (List.map_filter (\<lambda>row. case f row of Inr r \<Rightarrow> Some r | Inl _ \<Rightarrow> None) rows))"
  using assms
proof (induction rows)
  case (Cons row rows)
  have "h r \<notin> h ` {r. \<exists>row \<in> set rows. f row = Inr r}" if "f row = Inr r" for r
  proof
    assume "h r \<in> h ` {r. \<exists>row \<in> set rows. f row = Inr r}"
    then obtain row' r' where x: "row' \<in> set rows" "f row' = Inr r'" "h r = h r'" by blast
    then have "g row = g row'" using Cons.prems(2) [of row r] Cons.prems(2) [of row' r'] that by simp
    then show False using Cons.prems(1) x(1) by auto
  qed
  with Cons show ?case by (auto simp: map_filter_simps customs_of_rows split: sum.splits)
qed (simp add: map_filter_simps)

lemma loadCustom_parts:
  assumes "loadCustom env w e = Inr e'"
  shows "en_builtin e' = en_builtin e \<and>
    en_customs e' = List.map_filter (\<lambda>row. case buildCustom e row of Inr r \<Rightarrow> Some r | Inl _ \<Rightarrow> None)
      (sort_key cu_created (sort_key cu_name (w_custom w)))"
  using assms by (auto simp: loadCustom_def ListCustomRules_def db_read_Inr_iff bindE_Inr_iff Let_def)

text \<open>What the tables and the compiled-in rules must satisfy when the engine starts.\<close>

definition sound_start :: "'x Rule list \<Rightarrow> CustomRule list \<Rightarrow> bool" where
  "sound_start bs rows \<longleftrightarrow> distinct (map r_name bs) \<and> list_all (\<lambda>b. r_custom b = None) bs \<and> distinct (map cu_name rows) \<and>
     r_name ` set bs \<inter> cu_name ` set rows = {}"

lemma mirrors_New:
  assumes "New env bs w = Inr e" "sound_start bs (w_custom w)"
  shows "mirrors e (w_custom w)"
proof -
  let ?rows = "sort_key cu_created (sort_key cu_name (w_custom w))"
  obtain e0 where "loadCustom env w e0 = Inr e" and e0: "en_builtin e0 = bs"
    using assms(1) by (auto simp: New_def bindE_Inr_iff db_read_Inr_iff)
  from loadCustom_parts [OF this(1)] have eb: "en_builtin e = bs"
    and "en_customs e = List.map_filter (\<lambda>row. case buildCustom e0 row of Inr r \<Rightarrow> Some r | Inl _ \<Rightarrow> None) ?rows"
    using e0 by simp_all
  then have ec: "en_customs e = List.map_filter (\<lambda>row. case buildCustom e row of Inr r \<Rightarrow> Some r | Inl _ \<Rightarrow> None) ?rows"
    using buildCustom_builtin [of e e0] e0 by simp
  have set_c: "set (en_customs e) = {r. \<exists>row \<in> set (w_custom w). buildCustom e row = Inr r}"
    by (subst ec) (simp add: customs_of_rows)
  show ?thesis
  proof (rule mirrorsI)
    show "distinct (map r_name (en_customs e))"
    proof (subst ec, rule customs_distinct [of cu_name])
      show "distinct (map cu_name ?rows)"
        using assms(2) by (simp add: sound_start_def distinct_map)
    qed (simp add: buildCustom_part)
    show "r_name ` set (en_builtin e) \<inter> r_name ` set (en_customs e) = {}"
      using assms(2) buildCustom_part by (fastforce simp: sound_start_def eb set_c)
    show "backed e (w_custom w) r" if "r \<in> set (en_customs e)" for r
    proof -
      obtain row where row: "row \<in> set (w_custom w)" "buildCustom e row = Inr r" using \<open>r \<in> set (en_customs e)\<close> set_c by auto
      have "same_row row row" by (simp add: same_row_def as_stored_def)
      with row buildCustom_part [OF row(2)] show ?thesis by (auto simp: backed_def)
    qed
    show "isl (buildCustom e row) \<or> cu_name row \<in> r_name ` set (en_customs e)" if "row \<in> set (w_custom w)" for row
      using that buildCustom_part by (cases "buildCustom e row") (fastforce simp: set_c image_iff)+
  qed (use assms(2) in \<open>auto simp: sound_start_def eb list_all_iff\<close>)
qed

text \<open>C32: The custom rules in memory are the table in the database. From the start of the engine on, after any
  sequence of saved, configured and deleted rules, runs and ticks, with statements failing at will: rule names are
  unique, every custom rule in memory is built from its row of the table (up to fractions of a second and time stamps),
  and every row that can be built has its rule in memory.\<close>

theorem custom_rules_match_table:
  assumes "New env bs w = Inr e" and "sound_start bs (w_custom w)" and "list_all modest_event evs"
    and "foldl rule_step (e, w) evs = (e', w')"
  shows "distinct (map r_name (all_rules e')) \<and>
    (\<forall>r \<in> set (en_customs e'). backed e' (w_custom w') r) \<and>
    (\<forall>row \<in> set (w_custom w'). isl (buildCustom e' row) \<or> cu_name row \<in> r_name ` set (en_customs e'))"
proof -
  have "mirrored (e, w)" using mirrors_New [OF assms(1,2)] by (simp add: mirrored_def)
  then have "mirrors e' (w_custom w')"
    using rule_mirror.guarded_run [of "(e, w)" evs] assms(3,4) by (simp add: list_all_iff mirrored_def)
  then show ?thesis unfolding mirrors_def by blast
qed

definition sample_spec :: CustomSpec where
  "sample_spec = \<lparr>sp_name = ''night'', sp_title = [], sp_description = [], sp_kind = ''sql'', sp_base = [], sp_sql = ''SELECT 1'',
     sp_params = [], sp_severity = [], sp_interval = [], sp_window = [], sp_enabled = None, sp_exempt = []\<rparr>"

theorem custom_rules_match_table_witness:
  "\<exists>e. New (quiet_env 0) [sample_rule] empty_world = Inr e \<and>
     distinct (map r_name (all_rules (fst (foldl rule_step (e, empty_world) [Save (quiet_env 1) sample_spec True]))))"
proof -
  obtain e where e: "New (quiet_env 0) [sample_rule] empty_world = Inr e"
    by (simp add: New_def loadCustom_def ListCustomRules_def empty_world_def)
  have s: "sound_start [sample_rule] (w_custom empty_world)" by (simp add: sound_start_def sample_rule_def empty_world_def)
  have ok: "list_all modest_event [Save (quiet_env 1) sample_spec True]" by (simp add: modest_event_def)
  obtain e' w' where run: "foldl rule_step (e, empty_world) [Save (quiet_env 1) sample_spec True] = (e', w')" by fastforce
  show ?thesis using custom_rules_match_table [OF e s ok run] e run by simp
qed

section \<open>Overrides\<close>

lemma ParseDuration_Nil [simp]: "ParseDuration [] = None"
  by code_simp

text \<open>An interval entered with white space around it is accepted and then ignored. The check trims the text,
  the engine parses it as it is: after a successful update of a built-in rule with such an interval the rule
  runs at its default interval.\<close>

theorem spaced_interval_is_ignored:
  assumes "rule_named e name = Some r" and "r_custom r = None" and "validateConfig r rc = None"
    and "\<not> fault env [''SetSetting'', ''rules'']" and "rc_interval rc \<noteq> []" and "ParseDuration (rc_interval rc) = None"
  shows "\<exists>e' w'. UpdateConfig env name rc e w = (Inr (), e', w') \<and> ef_interval (effective_of e' r) = r_interval r"
proof -
  have "r_name r = name" using find_hit [OF assms(1) [unfolded rule_named_def]] by simp
  with assms show ?thesis
    by (auto simp: UpdateConfig_def Let_def effective_of_def merge_config_def new_timing_def positive_duration_def opt_default_def)
qed

text \<open>An override is in force before it is stored. When the statement that stores it fails, the caller gets the
  error and the table keeps the old overrides, but the rule is switched off all the same until a restart.\<close>

theorem unstored_override_is_in_force:
  assumes "rule_named e name = Some r" and "r_custom r = None" and "validateConfig r rc = None"
    and "fault env [''SetSetting'', ''rules'']" and "rc_enabled rc = Some b"
  shows "\<exists>m e'. UpdateConfig env name rc e w = (Inl (RuleDb m), e', w) \<and> ef_enabled (effective_of e' r) = b"
proof -
  have "r_name r = name" using find_hit [OF assms(1) [unfolded rule_named_def]] by simp
  with assms show ?thesis
    by (auto simp: UpdateConfig_def Let_def effective_of_def merge_config_def opt_default_def)
qed

definition switch_off :: RuleConfig where "switch_off = no_override\<lparr>rc_enabled := Some False\<rparr>"

lemma sample_named: "rule_named sample_engine ''demo'' = Some sample_rule" "r_custom sample_rule = None"
  by (simp_all add: rule_named_def all_rules_def sample_engine_def sample_rule_def)

lemma validate_sample:
  "validateConfig sample_rule switch_off = None"
  "validateConfig sample_rule (no_override\<lparr>rc_interval := '' 10m''\<rparr>) = None"
proof -
  have t: "parseTiming x [] mn mx = Inr 0" for x mn mx by (simp add: parseTiming_def TrimSpace_def)
  have d: "is_digit CHR ''1''" "is_digit CHR ''0''" "\<not> is_digit CHR ''m''" "dec_val ''10'' = 10" "dec_val [] = 0"
    "TrimSpace '' 10m'' = ''10m''" by code_simp+
  have p: "ParseDuration (TrimSpace '' 10m'') = Some (10 * Minute)" "TrimSpace '' 10m'' \<noteq> []"
    by (simp_all add: d ParseDuration_def dur_unit_def Let_def)
  show "validateConfig sample_rule switch_off = None"
    by (simp add: validateConfig_def switch_off_def no_override_def opt_default_def unknown_param_def t)
  show "validateConfig sample_rule (no_override\<lparr>rc_interval := '' 10m''\<rparr>) = None"
    using p by (simp add: validateConfig_def no_override_def opt_default_def unknown_param_def t)
      (simp add: parseTiming_def MinInterval_def MaxInterval_def TrimSpace_def [of "[]"])
qed

theorem unstored_override_is_in_force_witness:
  "\<exists>m e'. UpdateConfig ((quiet_env 0)\<lparr>fault := \<lambda>_. True\<rparr>) ''demo'' switch_off sample_engine empty_world =
     (Inl (RuleDb m), e', empty_world) \<and> \<not> ef_enabled (effective_of e' sample_rule)"
  using unstored_override_is_in_force [OF sample_named validate_sample(1), of "(quiet_env 0)\<lparr>fault := \<lambda>_. True\<rparr>" False empty_world]
  by (simp add: switch_off_def)

theorem spaced_interval_is_ignored_witness:
  "\<exists>e' w'. UpdateConfig (quiet_env 0) ''demo'' (no_override\<lparr>rc_interval := '' 10m''\<rparr>) (sample_engine :: unit Engine) empty_world =
     (Inr (), e', w') \<and> ef_interval (effective_of e' sample_rule) = Minute"
proof -
  let ?rc = "no_override\<lparr>rc_interval := '' 10m''\<rparr>"
  have p: "ParseDuration (rc_interval ?rc) = None" by code_simp
  have i: "rc_interval ?rc \<noteq> []" "r_interval (sample_rule :: unit Rule) = Minute" by (simp_all add: sample_rule_def)
  show ?thesis
    using spaced_interval_is_ignored [OF sample_named validate_sample(2) _ i(1) p, of "quiet_env 0" empty_world] i(2) by simp
qed

end
