(* ===== verification/Intel.thy ===== *)
theory Intel
  imports Traffic Identity "HOL-Library.List_Lexorder"
begin

text \<open>
  What the analyzer knows about addresses (\<open>internal/db/queries.go\<close>, \<open>reputation.go\<close>,
  \<open>threatlists.go\<close>, \<open>notes.go\<close>, \<open>ids.go\<close>): enrichment, VirusTotal and other reputations,
  threat lists, names, nicknames, notes and IDS events, with the statements that keep them. The lookups
  of a lane are chosen by traffic, so the candidate queries read the accounting table.
\<close>

section \<open>Rows\<close>

record VTResult =
  vt_malicious :: "int option"
  vt_suspicious :: "int option"
  vt_harmless :: "int option"
  vt_undetected :: "int option"
  vt_reputation :: "int option"
  vt_tags :: "string list option"
  vt_network :: "string option"
  vt_last_analysis :: "instant option"
  vt_status :: string
  vt_error :: "string option"
  vt_attempts :: int
  vt_lookup_at :: "instant option"

text \<open>A report also carries three fields that fill gaps of the main record.\<close>

record VTReport = VTResult +
  vr_asn :: "string option"
  vr_as_org :: "string option"
  vr_country_code :: "string option"

text \<open>A row of \<open>ip_info\<close>; a \<open>vt_status\<close> of \<open>NULL\<close> is the empty text.\<close>

record IPInfo =
  ii_ip :: addr
  ii_hostname :: "string option"
  ii_country :: "string option"
  ii_country_code :: "string option"
  ii_region :: "string option"
  ii_city :: "string option"
  ii_lat :: "json option"
  ii_lon :: "json option"
  ii_timezone :: "string option"
  ii_asn :: "string option"
  ii_as_org :: "string option"
  ii_isp :: "string option"
  ii_org :: "string option"
  ii_hosting :: "bool option"
  ii_proxy :: "bool option"
  ii_mobile :: "bool option"
  ii_source :: "string option"
  ii_status :: string
  ii_error :: "string option"
  ii_attempts :: int
  ii_first_seen :: instant
  ii_last_lookup :: "instant option"
  ii_updated :: instant
  ii_vt :: VTResult

record Reputation =
  rp_source :: string
  rp_status :: string
  rp_error :: "string option"
  rp_attempts :: int
  rp_lookup_at :: instant
  rp_score :: "int option"
  rp_flagged :: bool
  rp_data :: "(string \<times> json) list"

record Nickname =
  nk_ip :: addr
  nk_name :: string
  nk_note :: "string option"
  nk_kind :: string
  nk_updated :: instant

record name_row =
  nm_ip :: addr
  nm_name :: string
  nm_source :: string
  nm_hits :: int
  nm_last :: instant

record IPNote =
  no_id :: int
  no_ip :: addr
  no_body :: string
  no_author :: string
  no_created :: instant

record IDSEvent =
  ie_id :: int
  ie_ts :: instant
  ie_src :: "addr option"
  ie_src_port :: "int option"
  ie_dst :: "addr option"
  ie_dst_port :: "int option"
  ie_proto :: "string option"
  ie_sid :: "int option"
  ie_signature :: "string option"
  ie_category :: "string option"
  ie_severity :: "int option"
  ie_action :: "string option"
  ie_app :: "string option"
  ie_raw :: string

record list_row =
  tl_net :: prefix
  tl_list :: string
  tl_added :: instant

record intel_db =
  ip_infos :: "IPInfo list"
  reps :: "(addr \<times> Reputation) list"
  nicks :: "Nickname list"
  seen_names :: "name_row list"
  ip_notes :: "IPNote list"
  note_seq :: int
  ids_events :: "IDSEvent list"
  ids_seq :: int
  threat_lists :: "list_row list"

definition never_vt :: VTResult where
  "never_vt = \<lparr>vt_malicious = None, vt_suspicious = None, vt_harmless = None, vt_undetected = None, vt_reputation = None,
     vt_tags = None, vt_network = None, vt_last_analysis = None, vt_status = [], vt_error = None, vt_attempts = 0,
     vt_lookup_at = None\<rparr>"

definition new_info :: "instant \<Rightarrow> addr \<Rightarrow> IPInfo" where
  "new_info t ip = \<lparr>ii_ip = ip, ii_hostname = None, ii_country = None, ii_country_code = None, ii_region = None, ii_city = None,
     ii_lat = None, ii_lon = None, ii_timezone = None, ii_asn = None, ii_as_org = None, ii_isp = None, ii_org = None,
     ii_hosting = None, ii_proxy = None, ii_mobile = None, ii_source = None, ii_status = ''pending'', ii_error = None,
     ii_attempts = 0, ii_first_seen = t, ii_last_lookup = None, ii_updated = t, ii_vt = never_vt\<rparr>"

section \<open>Enrichment\<close>

text \<open>\<open>finishIPInfo\<close> hides a VirusTotal record that was never looked up.\<close>

definition finishIPInfo :: "IPInfo \<Rightarrow> IPInfo \<times> VTResult option" where
  "finishIPInfo i = (i, if vt_status (ii_vt i) = [] then None else Some (ii_vt i))"

definition GetIPInfo :: "'e env_scheme \<Rightarrow> addr \<Rightarrow> 'x intel_db_scheme \<Rightarrow> (IPInfo \<times> VTResult option) option dbres" where
  "GetIPInfo e ip d = db_read e [''GetIPInfo''] (map_option finishIPInfo (find (\<lambda>i. ii_ip i = ip) (ip_infos d)))"

text \<open>A result fills the row without erasing what is known; its status and error replace the old ones.\<close>

definition merge_info :: "instant \<Rightarrow> IPInfo \<Rightarrow> IPInfo \<Rightarrow> IPInfo" where
  "merge_info t i r =
     r\<lparr>ii_hostname := coalesce (ii_hostname i) (ii_hostname r), ii_country := coalesce (ii_country i) (ii_country r),
       ii_country_code := coalesce (ii_country_code i) (ii_country_code r), ii_region := coalesce (ii_region i) (ii_region r),
       ii_city := coalesce (ii_city i) (ii_city r), ii_lat := coalesce (ii_lat i) (ii_lat r), ii_lon := coalesce (ii_lon i) (ii_lon r),
       ii_timezone := coalesce (ii_timezone i) (ii_timezone r), ii_asn := coalesce (ii_asn i) (ii_asn r),
       ii_as_org := coalesce (ii_as_org i) (ii_as_org r), ii_isp := coalesce (ii_isp i) (ii_isp r), ii_org := coalesce (ii_org i) (ii_org r),
       ii_hosting := coalesce (ii_hosting i) (ii_hosting r), ii_proxy := coalesce (ii_proxy i) (ii_proxy r),
       ii_mobile := coalesce (ii_mobile i) (ii_mobile r), ii_source := coalesce (ii_source i) (ii_source r),
       ii_status := ii_status i, ii_error := ii_error i,
       ii_attempts := ii_attempts r + 1, ii_last_lookup := Some t, ii_updated := t\<rparr>"

definition UpsertIPInfo :: "'e env_scheme \<Rightarrow> IPInfo \<Rightarrow> 'x intel_db_scheme \<Rightarrow> unit dbres \<times> 'x intel_db_scheme" where
  "UpsertIPInfo e i d =
     (let t = now_of e; key = [''UpsertIPInfo'', AddrString (ii_ip i)] in
      (db_read e key (),
       db_write e key d (d\<lparr>ip_infos :=
         upsert_by ii_ip (ii_ip i) (merge_info t i)
           (i\<lparr>ii_attempts := 1, ii_first_seen := t, ii_last_lookup := Some t, ii_updated := t, ii_vt := never_vt\<rparr>) (ip_infos d)\<rparr>)))"

text \<open>What a report leaves of the VirusTotal columns, and the gaps it fills.\<close>

definition merge_report :: "instant \<Rightarrow> VTReport \<Rightarrow> VTResult \<Rightarrow> VTResult" where
  "merge_report t v r =
     \<lparr>vt_malicious = coalesce (vt_malicious v) (vt_malicious r), vt_suspicious = coalesce (vt_suspicious v) (vt_suspicious r),
      vt_harmless = coalesce (vt_harmless v) (vt_harmless r), vt_undetected = coalesce (vt_undetected v) (vt_undetected r),
      vt_reputation = coalesce (vt_reputation v) (vt_reputation r), vt_tags = coalesce (vt_tags v) (vt_tags r),
      vt_network = coalesce (vt_network v) (vt_network r), vt_last_analysis = coalesce (vt_last_analysis v) (vt_last_analysis r),
      vt_status = vt_status v, vt_error = vt_error v, vt_attempts = vt_attempts r + 1, vt_lookup_at = Some t\<rparr>"

definition fill_gaps :: "instant \<Rightarrow> VTReport \<Rightarrow> IPInfo \<Rightarrow> IPInfo" where
  "fill_gaps t v r =
     r\<lparr>ii_asn := coalesce (ii_asn r) (vr_asn v), ii_as_org := coalesce (ii_as_org r) (vr_as_org v),
       ii_country_code := coalesce (ii_country_code r) (vr_country_code v),
       ii_vt := merge_report t v (ii_vt r), ii_updated := t\<rparr>"

definition UpsertVT :: "'e env_scheme \<Rightarrow> addr \<Rightarrow> VTReport \<Rightarrow> 'x intel_db_scheme \<Rightarrow> unit dbres \<times> 'x intel_db_scheme" where
  "UpsertVT e ip v d =
     (let t = now_of e; key = [''UpsertVT'', AddrString ip] in
      (db_read e key (),
       db_write e key d (d\<lparr>ip_infos :=
         upsert_by ii_ip ip (fill_gaps t v) (fill_gaps t v (new_info t ip)) (ip_infos d)\<rparr>)))"

section \<open>Who is looked up next\<close>

text \<open>Addresses that no lookup is made for, whatever the configuration: multicast, unspecified, broadcast,
  carrier-grade NAT.\<close>

definition unroutable :: "addr \<Rightarrow> bool" where
  "unroutable a \<longleftrightarrow>
     local_ip [Prefix (v4 224 0 0 0) 4, Prefix (V6 0xFF000000000000000000000000000000 []) 8, Prefix (v4 100 64 0 0) 10] a \<or>
     a = v4 0 0 0 0 \<or> a = v4 255 255 255 255"

text \<open>The external ends of the flows since an instant, with the bytes of each.\<close>

definition external_ends :: "instant \<Rightarrow> prefix list \<Rightarrow> flow list \<Rightarrow> (addr \<times> int) list" where
  "external_ends since nets acct =
     (let fs = filter (\<lambda>f. since \<le> stamp f) acct in
      filter (\<lambda>p. \<not> unroutable (fst p))
        (map (\<lambda>f. (ip_dst f, bytes f)) (filter (\<lambda>f. \<not> dst_local nets f) fs) @
         map (\<lambda>f. (ip_src f, bytes f)) (filter (\<lambda>f. \<not> src_local nets f) fs)))"

definition seen_external :: "instant \<Rightarrow> prefix list \<Rightarrow> flow list \<Rightarrow> (addr \<times> int) list" where
  "seen_external since nets acct = map (\<lambda>(ip, g). (ip, sum_of snd g)) (group_rows fst (external_ends since nets acct))"

text \<open>\<open>ORDER BY (never looked up) DESC, bytes DESC LIMIT n\<close>.\<close>

definition candidates :: "(addr \<Rightarrow> bool) \<Rightarrow> (addr \<Rightarrow> bool) \<Rightarrow> (addr \<times> int) list \<Rightarrow> addr list" where
  "candidates due never seen =
     map fst (sort_key (\<lambda>p. if never (fst p) then 0 else 1 :: int) (sort_key (\<lambda>p. - snd p) (filter (\<lambda>p. due (fst p)) seen)))"

definition info_of :: "'x intel_db_scheme \<Rightarrow> addr \<Rightarrow> IPInfo option" where
  "info_of d ip = find (\<lambda>i. ii_ip i = ip) (ip_infos d)"

definition geo_due :: "instant \<Rightarrow> duration \<Rightarrow> IPInfo option \<Rightarrow> bool" where
  "geo_due now refresh r \<longleftrightarrow>
     (case r of None \<Rightarrow> True
      | Some i \<Rightarrow>
          (ii_status i = ''ok'' \<and> older (ii_last_lookup i) (now - refresh)) \<or>
          (ii_status i = ''failed'' \<and> older (ii_last_lookup i) (now - backoff (10 * Minute) 8 (ii_attempts i))) \<or>
          (ii_status i = ''pending'' \<and> (ii_last_lookup i = None \<or> older (ii_last_lookup i) (now - Hour))))"

definition EnrichmentCandidates ::
  "'e env_scheme \<Rightarrow> instant \<Rightarrow> prefix list \<Rightarrow> duration \<Rightarrow> int \<Rightarrow> flow list \<Rightarrow> 'x intel_db_scheme \<Rightarrow> addr list dbres" where
  "EnrichmentCandidates e since nets refresh lim acct d =
     bindE (db_read e [''EnrichmentCandidates'']
       (candidates (\<lambda>ip. geo_due (now_of e) refresh (info_of d ip)) (\<lambda>ip. info_of d ip = None) (seen_external since nets acct)))
       (limit_rows lim)"

definition ip_vt_due :: "instant \<Rightarrow> duration \<Rightarrow> VTResult \<Rightarrow> bool" where
  "ip_vt_due now refresh v \<longleftrightarrow>
     vt_lookup_at v = None \<or>
     (vt_status v = ''ok'' \<and> older (vt_lookup_at v) (now - refresh)) \<or>
     (vt_status v = ''failed'' \<and> older (vt_lookup_at v) (now - backoff (30 * Minute) 6 (vt_attempts v)))"

definition vt_of :: "'x intel_db_scheme \<Rightarrow> addr \<Rightarrow> VTResult" where
  "vt_of d ip = (case info_of d ip of None \<Rightarrow> never_vt | Some i \<Rightarrow> ii_vt i)"

definition VTCandidates ::
  "'e env_scheme \<Rightarrow> instant \<Rightarrow> prefix list \<Rightarrow> duration \<Rightarrow> int \<Rightarrow> flow list \<Rightarrow> 'x intel_db_scheme \<Rightarrow> addr list dbres" where
  "VTCandidates e since nets refresh lim acct d =
     bindE (db_read e [''VTCandidates'']
       (candidates (\<lambda>ip. ip_vt_due (now_of e) refresh (vt_of d ip)) (\<lambda>ip. vt_lookup_at (vt_of d ip) = None) (seen_external since nets acct)))
       (limit_rows lim)"

section \<open>Quotas\<close>

text \<open>\<open>date_trunc\<close> in UTC. The day of the month comes from the civil calendar, counted in eras of 400
  years that start on the first of March.\<close>

definition day_start :: "instant \<Rightarrow> instant" where
  "day_start t = t div Day * Day"

definition day_of_month :: "int \<Rightarrow> int" where
  "day_of_month days =
     (let doe = (days + 719468) mod 146097;
          yoe = (doe - doe div 1460 + doe div 36524 - doe div 146096) div 365;
          doy = doe - (365 * yoe + yoe div 4 - yoe div 100);
          mp = (5 * doy + 2) div 153
      in doy - (153 * mp + 2) div 5 + 1)"

definition month_start :: "instant \<Rightarrow> instant" where
  "month_start t = (t div Day - (day_of_month (t div Day) - 1)) * Day"

definition since_count :: "instant \<Rightarrow> instant option list \<Rightarrow> int" where
  "since_count t xs = int (length (filter (\<lambda>x. case x of None \<Rightarrow> False | Some u \<Rightarrow> t \<le> u) xs))"

definition vt_stamps :: "'x intel_db_scheme \<Rightarrow> 'y id_db_scheme \<Rightarrow> instant option list" where
  "vt_stamps d f = map (\<lambda>i. vt_lookup_at (ii_vt i)) (ip_infos d) @ map fi_vt_at (file_intel f)"

definition VTUsage :: "'e env_scheme \<Rightarrow> 'x intel_db_scheme \<Rightarrow> 'y id_db_scheme \<Rightarrow> (int \<times> int) dbres" where
  "VTUsage e d f =
     db_read e [''VTUsage'']
       (since_count (day_start (now_of e)) (vt_stamps d f), since_count (month_start (now_of e)) (vt_stamps d f))"

record EnrichmentStatus =
  es_total :: int
  es_ok :: int
  es_pending :: int
  es_failed :: int
  es_stale :: int
  es_vt_done :: int
  es_vt_failed :: int
  es_vt_never :: int
  es_vt_stale :: int
  es_vt_today :: int
  es_vt_month :: int
  es_vt_flagged :: int

definition count_infos :: "(IPInfo \<Rightarrow> bool) \<Rightarrow> 'x intel_db_scheme \<Rightarrow> int" where
  "count_infos P d = int (length (filter P (ip_infos d)))"

definition flagged_vt :: "VTResult \<Rightarrow> bool" where
  "flagged_vt v \<longleftrightarrow> opt_default 0 (vt_malicious v) > 0 \<or> opt_default 0 (vt_suspicious v) > 0"

definition EnrichmentStatus_of ::
  "'e env_scheme \<Rightarrow> duration \<Rightarrow> duration \<Rightarrow> 'x intel_db_scheme \<Rightarrow> EnrichmentStatus dbres" where
  "EnrichmentStatus_of e refresh vt_refresh d =
     (let now = now_of e; n = (\<lambda>P. count_infos P d); vts = map (\<lambda>i. vt_lookup_at (ii_vt i)) (ip_infos d) in
      db_read e [''EnrichmentStatus'']
        \<lparr>es_total = n (\<lambda>_. True), es_ok = n (\<lambda>i. ii_status i = ''ok''), es_pending = n (\<lambda>i. ii_status i = ''pending''),
         es_failed = n (\<lambda>i. ii_status i = ''failed''),
         es_stale = n (\<lambda>i. ii_status i = ''ok'' \<and> older (ii_last_lookup i) (now - refresh)),
         es_vt_done = n (\<lambda>i. vt_status (ii_vt i) = ''ok''), es_vt_failed = n (\<lambda>i. vt_status (ii_vt i) = ''failed''),
         es_vt_never = n (\<lambda>i. vt_lookup_at (ii_vt i) = None),
         es_vt_stale = n (\<lambda>i. vt_status (ii_vt i) = ''ok'' \<and> older (vt_lookup_at (ii_vt i)) (now - vt_refresh)),
         es_vt_today = since_count (day_start now) vts, es_vt_month = since_count (month_start now) vts,
         es_vt_flagged = n (\<lambda>i. flagged_vt (ii_vt i))\<rparr>)"

section \<open>Reputation\<close>

text \<open>A refresh that fails keeps score and data of the last report, but not its verdict: \<open>flagged\<close> is
  overwritten.\<close>

definition rep_key :: "addr \<times> Reputation \<Rightarrow> addr \<times> string" where
  "rep_key x = (fst x, rp_source (snd x))"

definition merge_rep :: "instant \<Rightarrow> Reputation \<Rightarrow> Reputation \<Rightarrow> Reputation" where
  "merge_rep t r old =
     old\<lparr>rp_status := rp_status r, rp_error := rp_error r, rp_attempts := rp_attempts old + 1, rp_lookup_at := t,
         rp_score := coalesce (rp_score r) (rp_score old), rp_flagged := rp_flagged r,
         rp_data := (if rp_status r = ''ok'' then rp_data r else rp_data old)\<rparr>"

definition UpsertReputation ::
  "'e env_scheme \<Rightarrow> addr \<Rightarrow> string \<Rightarrow> Reputation \<Rightarrow> 'x intel_db_scheme \<Rightarrow> unit dbres \<times> 'x intel_db_scheme" where
  "UpsertReputation e ip source r d =
     (let t = now_of e; key = [''UpsertReputation'', source, AddrString ip] in
      (db_read e key (),
       db_write e key d (d\<lparr>reps :=
         upsert_by rep_key (ip, source) (\<lambda>x. (fst x, merge_rep t r (snd x)))
           (ip, r\<lparr>rp_source := source, rp_attempts := 1, rp_lookup_at := t\<rparr>) (reps d)\<rparr>)))"

definition ReputationFor :: "'e env_scheme \<Rightarrow> addr \<Rightarrow> 'x intel_db_scheme \<Rightarrow> Reputation list dbres" where
  "ReputationFor e ip d =
     db_read e [''ReputationFor''] (sort_key rp_source (map snd (filter (\<lambda>x. fst x = ip) (reps d))))"

definition rep_of :: "'x intel_db_scheme \<Rightarrow> string \<Rightarrow> addr \<Rightarrow> Reputation option" where
  "rep_of d source ip = map_option snd (find (\<lambda>x. rep_key x = (ip, source)) (reps d))"

definition rep_due :: "instant \<Rightarrow> duration \<Rightarrow> Reputation option \<Rightarrow> bool" where
  "rep_due now refresh r \<longleftrightarrow>
     (case r of None \<Rightarrow> True
      | Some x \<Rightarrow>
          (rp_status x = ''ok'' \<and> rp_lookup_at x < now - refresh) \<or>
          (rp_status x = ''failed'' \<and> rp_lookup_at x < now - backoff (30 * Minute) 6 (rp_attempts x)))"

definition ReputationCandidates ::
  "'e env_scheme \<Rightarrow> string \<Rightarrow> instant \<Rightarrow> prefix list \<Rightarrow> duration \<Rightarrow> int \<Rightarrow> flow list \<Rightarrow> 'x intel_db_scheme \<Rightarrow> addr list dbres" where
  "ReputationCandidates e source since nets refresh lim acct d =
     bindE (db_read e [''ReputationCandidates'', source]
       (candidates (\<lambda>ip. rep_due (now_of e) refresh (rep_of d source ip)) (\<lambda>ip. rep_of d source ip = None) (seen_external since nets acct)))
       (limit_rows lim)"

definition ReputationUsage :: "'e env_scheme \<Rightarrow> string \<Rightarrow> 'x intel_db_scheme \<Rightarrow> (int \<times> int) dbres" where
  "ReputationUsage e source d =
     (let ts = map (\<lambda>x. Some (rp_lookup_at (snd x))) (filter (\<lambda>x. rp_source (snd x) = source) (reps d)) in
      db_read e [''ReputationUsage'', source] (since_count (day_start (now_of e)) ts, since_count (month_start (now_of e)) ts))"

record ReputationStats =
  rst_source :: string
  rst_total :: int
  rst_flagged :: int
  rst_failed :: int

definition ReputationStats_of :: "'e env_scheme \<Rightarrow> 'x intel_db_scheme \<Rightarrow> ReputationStats list dbres" where
  "ReputationStats_of e d =
     db_read e [''ReputationStats'']
       (map (\<lambda>(s, g). \<lparr>rst_source = s, rst_total = int (length g), rst_flagged = int (length (filter rp_flagged g)),
               rst_failed = int (length (filter (\<lambda>r. rp_status r = ''failed'') g))\<rparr>)
         (sort_key fst (group_rows rp_source (map snd (reps d)))))"

section \<open>Threat lists\<close>

text \<open>One transaction; the key of the table is the network with the list, so a network that occurs twice
  fails the whole replacement.\<close>

definition ReplaceThreatList :: "'e env_scheme \<Rightarrow> string \<Rightarrow> prefix list \<Rightarrow> 'x intel_db_scheme \<Rightarrow> unit dbres \<times> 'x intel_db_scheme" where
  "ReplaceThreatList e l nets d =
     (if \<not> distinct nets then (Inl (DbError ''duplicate key value violates unique constraint''), d)
      else
        (db_read e [''ReplaceThreatList'', l] (),
         db_write e [''ReplaceThreatList'', l] d (d\<lparr>threat_lists :=
           filter (\<lambda>r. tl_list r \<noteq> l) (threat_lists d) @ map (\<lambda>n. \<lparr>tl_net = n, tl_list = l, tl_added = now_of e\<rparr>) nets\<rparr>)))"

definition DeleteThreatListsExcept ::
  "'e env_scheme \<Rightarrow> string list \<Rightarrow> 'x intel_db_scheme \<Rightarrow> string list dbres \<times> 'x intel_db_scheme" where
  "DeleteThreatListsExcept e kept d =
     (let gone = filter (\<lambda>r. tl_list r \<notin> set kept) (threat_lists d) in
      (db_read e [''DeleteThreatListsExcept''] (rev (remdups (rev (map tl_list gone)))),
       db_write e [''DeleteThreatListsExcept''] d (d\<lparr>threat_lists := filter (\<lambda>r. tl_list r \<in> set kept) (threat_lists d)\<rparr>)))"

definition ThreatListStats :: "'e env_scheme \<Rightarrow> 'x intel_db_scheme \<Rightarrow> (string \<times> int \<times> instant) list dbres" where
  "ThreatListStats e d =
     db_read e [''ThreatListStats'']
       (map (\<lambda>(l, g). (l, int (length g), Max (set (map tl_added g)))) (sort_key fst (group_rows tl_list (threat_lists d))))"

definition ThreatListsFor :: "'e env_scheme \<Rightarrow> addr \<Rightarrow> 'x intel_db_scheme \<Rightarrow> string list dbres" where
  "ThreatListsFor e ip d =
     db_read e [''ThreatListsFor'']
       (sort (remdups (map tl_list (filter (\<lambda>r. subnet_eq (host_prefix ip) (tl_net r)) (threat_lists d)))))"

section \<open>Notes\<close>

definition MaxNoteLen :: nat where "MaxNoteLen = 4000"

definition ListIPNotes :: "'e env_scheme \<Rightarrow> addr \<Rightarrow> int \<Rightarrow> 'x intel_db_scheme \<Rightarrow> IPNote list dbres" where
  "ListIPNotes e ip lim d =
     db_read e [''ListIPNotes'']
       (take (nat (if lim \<le> 0 \<or> lim > 500 then 500 else lim))
         (sort_key (\<lambda>n. - no_created n) (sort_key (\<lambda>n. - no_id n) (filter (\<lambda>n. no_ip n = ip) (ip_notes d)))))"

definition AddIPNote :: "'e env_scheme \<Rightarrow> addr \<Rightarrow> string \<Rightarrow> string \<Rightarrow> 'x intel_db_scheme \<Rightarrow> IPNote dbres \<times> 'x intel_db_scheme" where
  "AddIPNote e ip body author d =
     (let b = TrimSpace body;
          n = \<lparr>no_id = note_seq d + 1, no_ip = ip, no_body = b, no_author = TrimSpace author, no_created = now_of e\<rparr> in
      if b = [] then (Inl (DbError ''note is empty''), d)
      else if length b > MaxNoteLen then (Inl (DbError ''note is too long''), d)
      else (db_read e [''AddIPNote''] n,
            db_write e [''AddIPNote''] d (d\<lparr>ip_notes := ip_notes d @ [n], note_seq := note_seq d + 1\<rparr>)))"

definition DeleteIPNote :: "'e env_scheme \<Rightarrow> addr \<Rightarrow> int \<Rightarrow> 'x intel_db_scheme \<Rightarrow> bool dbres \<times> 'x intel_db_scheme" where
  "DeleteIPNote e ip i d =
     (let hit = (\<lambda>n. no_id n = i \<and> no_ip n = ip) in
      (db_read e [''DeleteIPNote''] (list_ex hit (ip_notes d)),
       db_write e [''DeleteIPNote''] d (d\<lparr>ip_notes := filter (\<lambda>n. \<not> hit n) (ip_notes d)\<rparr>)))"

section \<open>Names and nicknames\<close>

text \<open>An error of the statement reaches the caller; a name that is empty or too long is dropped silently.\<close>

definition UpsertIPName :: "'e env_scheme \<Rightarrow> addr \<Rightarrow> string \<Rightarrow> string \<Rightarrow> 'x intel_db_scheme \<Rightarrow> unit dbres \<times> 'x intel_db_scheme" where
  "UpsertIPName e ip name source d =
     (let n = ToLower (TrimSuffix (TrimSpace name) ''.''); t = now_of e in
      if n = [] \<or> length n > 253 then (Inr (), d)
      else
        (db_read e [''UpsertIPName'', n] (),
         db_write e [''UpsertIPName'', n] d (d\<lparr>seen_names :=
           upsert_by (\<lambda>r. (nm_ip r, nm_name r)) (ip, n) (\<lambda>r. r\<lparr>nm_last := t, nm_hits := nm_hits r + 1, nm_source := source\<rparr>)
             \<lparr>nm_ip = ip, nm_name = n, nm_source = source, nm_hits = 1, nm_last = t\<rparr> (seen_names d)\<rparr>)))"

definition names_of :: "'x intel_db_scheme \<Rightarrow> addr \<Rightarrow> name_row list" where
  "names_of d ip = sort_key (\<lambda>r. - nm_last r) (filter (\<lambda>r. nm_ip r = ip) (seen_names d))"

definition IPNames :: "'e env_scheme \<Rightarrow> addr \<Rightarrow> int \<Rightarrow> 'x intel_db_scheme \<Rightarrow> name_row list dbres" where
  "IPNames e ip lim d = db_read e [''IPNames''] (take (nat (if lim \<le> 0 then 20 else lim)) (names_of d ip))"

text \<open>\<open>namesSubquery\<close>: up to three recent names.\<close>

definition recent_names :: "'x intel_db_scheme \<Rightarrow> addr \<Rightarrow> string list" where
  "recent_names d ip = map nm_name (take 3 (names_of d ip))"

text \<open>PostgreSQL's \<open>LIKE\<close> with \<open>%\<close>, \<open>_\<close> and the escape character. The search texts are put between two
  \<open>%\<close> unescaped. The fuel bounds the pattern and the text together.\<close>

primrec like_loop :: "nat \<Rightarrow> string \<Rightarrow> string \<Rightarrow> bool" where
  "like_loop 0 p s = False"
| "like_loop (Suc n) p s =
     (case p of [] \<Rightarrow> s = []
      | c # p' \<Rightarrow>
          if c = CHR ''%'' then like_loop n p' s \<or> (s \<noteq> [] \<and> like_loop n p (tl s))
          else if c = CHR ''_'' then s \<noteq> [] \<and> like_loop n p' (tl s)
          else if c = CHR 0x5C \<and> p' \<noteq> [] then s \<noteq> [] \<and> hd s = hd p' \<and> like_loop n (tl p') (tl s)
          else s \<noteq> [] \<and> hd s = c \<and> like_loop n p' (tl s))"

definition sql_like :: "string \<Rightarrow> string \<Rightarrow> bool" where
  "sql_like p s = like_loop (Suc (length p + length s)) p s"

definition search_for :: "string \<Rightarrow> string option \<Rightarrow> bool" where
  "search_for q s = (case s of None \<Rightarrow> False | Some x \<Rightarrow> sql_like (''%'' @ ToLower q @ ''%'') x)"

definition addr_rank :: "addr \<Rightarrow> int" where
  "addr_rank a = (case a of V4 w \<Rightarrow> uint w | V6 w _ \<Rightarrow> 2 ^ 32 + uint w)"

definition ListNicknames :: "'e env_scheme \<Rightarrow> string \<Rightarrow> 'x intel_db_scheme \<Rightarrow> Nickname list dbres" where
  "ListNicknames e q d =
     db_read e [''ListNicknames'']
       (sort_key nk_name (sort_key (\<lambda>n. addr_rank (nk_ip n))
         (filter (\<lambda>n. q = [] \<or> search_for q (Some (AddrString (nk_ip n))) \<or> search_for q (Some (ToLower (nk_name n))) \<or>
             search_for q (map_option ToLower (nk_note n))) (nicks d))))"

definition GetNickname :: "'e env_scheme \<Rightarrow> addr \<Rightarrow> 'x intel_db_scheme \<Rightarrow> Nickname option dbres" where
  "GetNickname e ip d = db_read e [''GetNickname''] (find (\<lambda>n. nk_ip n = ip) (nicks d))"

definition SetNickname ::
  "'e env_scheme \<Rightarrow> addr \<Rightarrow> string \<Rightarrow> string option \<Rightarrow> string \<Rightarrow> 'x intel_db_scheme \<Rightarrow> Nickname dbres \<times> 'x intel_db_scheme" where
  "SetNickname e ip name note kind d =
     (let n = \<lparr>nk_ip = ip, nk_name = name, nk_note = note, nk_kind = (if kind = [] then ''other'' else kind), nk_updated = now_of e\<rparr> in
      (db_read e [''SetNickname''] n, db_write e [''SetNickname''] d (d\<lparr>nicks := upsert_by nk_ip ip (\<lambda>_. n) n (nicks d)\<rparr>)))"

definition DeleteNickname :: "'e env_scheme \<Rightarrow> addr \<Rightarrow> 'x intel_db_scheme \<Rightarrow> bool dbres \<times> 'x intel_db_scheme" where
  "DeleteNickname e ip d =
     (db_read e [''DeleteNickname''] (list_ex (\<lambda>n. nk_ip n = ip) (nicks d)),
      db_write e [''DeleteNickname''] d (d\<lparr>nicks := filter (\<lambda>n. nk_ip n \<noteq> ip) (nicks d)\<rparr>))"

definition nick_of :: "'x intel_db_scheme \<Rightarrow> addr \<Rightarrow> string option" where
  "nick_of d ip = map_option nk_name (find (\<lambda>n. nk_ip n = ip) (nicks d))"

definition ListIPInfo :: "'e env_scheme \<Rightarrow> string \<Rightarrow> int \<Rightarrow> int \<Rightarrow> 'x intel_db_scheme \<Rightarrow> (IPInfo \<times> VTResult option) list dbres" where
  "ListIPInfo e q lim off d =
     (let hit = (\<lambda>i. q = [] \<or> search_for q (Some (AddrString (ii_ip i))) \<or>
                     list_ex (\<lambda>x. search_for q (map_option ToLower x)) [ii_hostname i, ii_org i, ii_as_org i, ii_country i]) in
      bindE (db_read e [''ListIPInfo''] (sort_key (\<lambda>i. - ii_updated i) (filter hit (ip_infos d)))) (\<lambda>rows.
      if off < 0 then Inl (DbError ''OFFSET must not be negative'')
      else Inr (map finishIPInfo (take (nat (if lim \<le> 0 \<or> lim > 1000 then 100 else lim)) (drop (nat off) rows)))))"

section \<open>IDS events\<close>

text \<open>
  The ports and the severity are 32-bit columns, and an argument out of range is refused before the
  statement runs. The \<open>raw\<close> column is \<open>jsonb\<close>, which keeps a normal form of the document and not its
  text. The conversion is PostgreSQL's and a parameter: \<open>jb s\<close> is the stored document printed again
  (objects keep one entry of a key and lose their order and spacing), and \<open>None\<close> where the type refuses
  the text, for one a document with an escaped zero byte.
\<close>

definition InsertIDSEvent ::
  "(string \<Rightarrow> string option) \<Rightarrow> 'e env_scheme \<Rightarrow> IDSEvent \<Rightarrow> 'x intel_db_scheme \<Rightarrow> int dbres \<times> 'x intel_db_scheme" where
  "InsertIDSEvent jb e ev d =
     (if \<not> list_all (\<lambda>n. case n of None \<Rightarrow> True | Some x \<Rightarrow> int32_ok x) [ie_src_port ev, ie_dst_port ev, ie_severity ev]
      then (Inl (DbError ''integer out of range''), d)
      else case jb (ie_raw ev) of
        None \<Rightarrow> (Inl (DbError ''invalid input for type json''), d)
      | Some stored \<Rightarrow>
          let i = ids_seq d + 1 in
          (db_read e [''InsertIDSEvent''] i,
           db_write e [''InsertIDSEvent''] d
             (d\<lparr>ids_events := ids_events d @ [ev\<lparr>ie_id := i, ie_raw := stored\<rparr>], ids_seq := i\<rparr>)))"

text \<open>An event as it is listed: with the nicknames of its ends.\<close>

definition ids_row :: "'x intel_db_scheme \<Rightarrow> IDSEvent \<Rightarrow> IDSEvent \<times> string option \<times> string option" where
  "ids_row d ev = (ev, Option.bind (ie_src ev) (nick_of d), Option.bind (ie_dst ev) (nick_of d))"

definition GetIDSEvent ::
  "'e env_scheme \<Rightarrow> int \<Rightarrow> 'x intel_db_scheme \<Rightarrow> (IDSEvent \<times> string option \<times> string option) option dbres" where
  "GetIDSEvent e i d = db_read e [''GetIDSEvent''] (map_option (ids_row d) (find (\<lambda>ev. ie_id ev = i) (ids_events d)))"

definition latest :: "instant list \<Rightarrow> instant option" where
  "latest ts = (if ts = [] then None else Some (Max (set ts)))"

definition LastIDSActivity :: "'e env_scheme \<Rightarrow> 'x intel_db_scheme \<Rightarrow> instant option dbres" where
  "LastIDSActivity e d =
     db_read e [''LastIDSActivity'']
       (latest (map ie_ts (ids_events d) @ map nm_last (filter (\<lambda>r. nm_source r \<in> {''dns'', ''tls'', ''http''}) (seen_names d))))"

record IDSOptions =
  io_since :: instant
  io_ip :: "addr option"
  io_sid :: int
  io_limit :: int
  io_offset :: int
  io_raw :: bool

definition ListIDSEvents ::
  "'e env_scheme \<Rightarrow> IDSOptions \<Rightarrow> 'x intel_db_scheme \<Rightarrow> (IDSEvent \<times> string option \<times> string option) list dbres" where
  "ListIDSEvents e q d =
     (let hit = (\<lambda>ev. io_since q \<le> ie_ts ev \<and>
                   (case io_ip q of None \<Rightarrow> True | Some a \<Rightarrow> ie_src ev = Some a \<or> ie_dst ev = Some a) \<and>
                   (io_sid q > 0 \<longrightarrow> ie_sid ev = Some (io_sid q))) in
      bindE (db_read e [''ListIDSEvents''] (sort_key (\<lambda>ev. - ie_ts ev) (filter hit (ids_events d)))) (\<lambda>rows.
      if io_offset q < 0 then Inl (DbError ''OFFSET must not be negative'')
      else Inr (map (\<lambda>ev. ids_row d (if io_raw q then ev else ev\<lparr>ie_raw := []\<rparr>))
             (take (nat (if io_limit q \<le> 0 \<or> io_limit q > 1000 then 200 else io_limit q)) (drop (nat (io_offset q)) rows)))))"

record IDSSignatureStat =
  iss_sid :: int
  iss_signature :: string
  iss_category :: "string option"
  iss_severity :: "int option"
  iss_count :: int
  iss_sources :: int
  iss_last :: instant

text \<open>Aggregates skip \<open>NULL\<close>.\<close>

definition min_opt :: "('a :: linorder) option list \<Rightarrow> 'a option" where
  "min_opt xs = (let ys = List.map_filter id xs in if ys = [] then None else Some (Min (set ys)))"

definition signature_stat :: "(int \<times> string) \<times> IDSEvent list \<Rightarrow> IDSSignatureStat" where
  "signature_stat kg =
     (case kg of ((sid, sig), g) \<Rightarrow>
        \<lparr>iss_sid = sid, iss_signature = sig, iss_category = min_opt (map ie_category g), iss_severity = min_opt (map ie_severity g),
         iss_count = int (length g), iss_sources = int (length (remdups (List.map_filter ie_src g))), iss_last = Max (set (map ie_ts g))\<rparr>)"

definition IDSSummary :: "'e env_scheme \<Rightarrow> instant \<Rightarrow> int \<Rightarrow> 'x intel_db_scheme \<Rightarrow> (IDSSignatureStat list \<times> int) dbres" where
  "IDSSummary e since lim d =
     (let evs = filter (\<lambda>ev. since \<le> ie_ts ev) (ids_events d) in
      bindE (db_read e [''IDSSummary'', ''total''] (int (length evs))) (\<lambda>total.
      db_read e [''IDSSummary'']
        (take (nat (if lim \<le> 0 then 50 else lim))
          (sort_key (\<lambda>s. - iss_count s)
            (map signature_stat (group_rows (\<lambda>ev. (opt_default 0 (ie_sid ev), opt_default ''?'' (ie_signature ev))) evs))), total)))"

section \<open>Properties\<close>

lemma upsert_by_twice:
  assumes "\<And>r. key r = k \<Longrightarrow> key (f r) = k" "key n1 = k"
  shows "upsert_by key k g n2 (upsert_by key k f n1 rows) = upsert_by key k (\<lambda>r. g (f r)) (g n1) rows"
proof (cases "list_ex (\<lambda>r. key r = k) rows")
  case True
  then have "list_ex (\<lambda>r. key r = k) (map (\<lambda>r. if key r = k then f r else r) rows)"
    using assms(1) by (auto simp: list_ex_iff)
  with True assms(1) show ?thesis by (auto simp: upsert_by_def comp_def intro!: map_cong)
next
  case False
  then show ?thesis using assms(2) by (auto simp: upsert_by_def list_ex_iff intro!: map_idI)
qed

lemma upsert_by_eq:
  assumes "\<And>r. r \<in> set rows \<Longrightarrow> key r = k \<Longrightarrow> f r = g r" "n1 = n2"
  shows "upsert_by key k f n1 rows = upsert_by key k g n2 rows"
  using assms by (auto simp: upsert_by_def)

lemma coalesce_assoc: "coalesce a (coalesce b c) = coalesce (coalesce a b) c"
  by (cases a) (simp_all add: coalesce_def)

lemma coalesce_None [simp]: "coalesce None a = a" "coalesce a None = a"
  by (simp_all add: coalesce_def split: option.split)

lemma merge_fill_commute: "fill_gaps t v (merge_info t i r) = merge_info t i (fill_gaps t v r)"
  by (simp add: fill_gaps_def merge_info_def coalesce_assoc)

lemma merge_info_ip [simp]: "ii_ip (merge_info t i r) = ii_ip r" "ii_ip (fill_gaps t v r) = ii_ip r" "ii_ip (new_info t ip) = ip"
  by (simp_all add: merge_info_def fill_gaps_def new_info_def)

text \<open>The two lanes that fill a row of \<open>ip_info\<close> do not interfere. Storing a geo result and a VirusTotal
  report of the same address gives the same table in either order, whether the row existed or not: no
  order loses a field, and the location lane has the last word on network and country.\<close>

theorem geo_and_vt_commute:
  assumes "ii_ip i = ip" and "\<not> fault e [''UpsertIPInfo'', AddrString ip]" and "\<not> fault e [''UpsertVT'', AddrString ip]"
  shows "snd (UpsertVT e ip v (snd (UpsertIPInfo e i d))) = snd (UpsertIPInfo e i (snd (UpsertVT e ip v d)))"
proof -
  let ?t = "now_of e"
  let ?n = "i\<lparr>ii_attempts := 1, ii_first_seen := ?t, ii_last_lookup := Some ?t, ii_updated := ?t, ii_vt := never_vt\<rparr>"
  have ip: "ii_ip ?n = ip" using assms(1) by simp
  have new: "fill_gaps ?t v ?n = merge_info ?t i (fill_gaps ?t v (new_info ?t ip))"
    using assms(1) by (simp add: fill_gaps_def merge_info_def new_info_def)
  have "upsert_by ii_ip ip (fill_gaps ?t v) (fill_gaps ?t v (new_info ?t ip)) (upsert_by ii_ip ip (merge_info ?t i) ?n (ip_infos d)) =
      upsert_by ii_ip ip (merge_info ?t i) ?n (upsert_by ii_ip ip (fill_gaps ?t v) (fill_gaps ?t v (new_info ?t ip)) (ip_infos d))"
    by (subst (1 2) upsert_by_twice) (simp_all add: ip merge_fill_commute new)
  with assms show ?thesis by (simp add: UpsertVT_def UpsertIPInfo_def Let_def)
qed

definition empty_intel :: intel_db where
  "empty_intel = \<lparr>ip_infos = [], reps = [], nicks = [], seen_names = [], ip_notes = [], note_seq = 0, ids_events = [],
     ids_seq = 0, threat_lists = []\<rparr>"

definition sample_geo :: IPInfo where
  "sample_geo = (new_info 0 (v4 8 8 8 8))\<lparr>ii_asn := Some ''AS15169'', ii_status := ''ok''\<rparr>"

definition sample_report :: VTReport where
  "sample_report = VTResult.extend never_vt \<lparr>vr_asn = Some ''15169'', vr_as_org = Some ''GOOGLE'', vr_country_code = None\<rparr>"

theorem geo_and_vt_commute_witness:
  "snd (UpsertVT (ok_env 5) (v4 8 8 8 8) sample_report (snd (UpsertIPInfo (ok_env 5) sample_geo empty_intel))) =
   snd (UpsertIPInfo (ok_env 5) sample_geo (snd (UpsertVT (ok_env 5) (v4 8 8 8 8) sample_report empty_intel)))"
  by (rule geo_and_vt_commute) (simp_all add: sample_geo_def new_info_def)

text \<open>A failed refresh clears a verdict. When a source that flagged an address fails to answer a refresh, the
  row keeps the score and the data of the last report, but the flag is gone until a later lookup succeeds.\<close>

theorem failed_refresh_clears_flag:
  assumes "rep_of d source ip = Some old" and "rp_flagged old"
    and "rp_status r = ''failed''" and "\<not> rp_flagged r" and "rp_score r = None"
    and "\<not> fault e [''UpsertReputation'', source, AddrString ip]"
  shows "\<exists>new. rep_of (snd (UpsertReputation e ip source r d)) source ip = Some new \<and>
     rp_score new = rp_score old \<and> rp_data new = rp_data old \<and> \<not> rp_flagged new"
proof -
  obtain x where x: "find (\<lambda>x. rep_key x = (ip, source)) (reps d) = Some x" "snd x = old"
    using assms(1) by (auto simp: rep_of_def)
  have k: "rep_key (fst x, merge_rep t r (snd x)) = (ip, source)" if "rep_key x = (ip, source)" for x t
    using that by (simp add: rep_key_def merge_rep_def)
  have n: "rep_key (ip, r\<lparr>rp_source := source, rp_attempts := 1, rp_lookup_at := t\<rparr>) = (ip, source)" for t
    by (simp add: rep_key_def)
  have "rep_of (snd (UpsertReputation e ip source r d)) source ip = Some (merge_rep (now_of e) r old)"
    using assms(6) x by (simp add: rep_of_def UpsertReputation_def Let_def find_upsert_same k n)
  with assms(3-5) show ?thesis by (simp add: merge_rep_def)
qed

definition sample_flagged :: Reputation where
  "sample_flagged = \<lparr>rp_source = ''greynoise'', rp_status = ''ok'', rp_error = None, rp_attempts = 1, rp_lookup_at = 0,
     rp_score = Some 90, rp_flagged = True, rp_data = []\<rparr>"

theorem failed_refresh_clears_flag_witness:
  "\<exists>new. rep_of (snd (UpsertReputation (ok_env 9) (v4 8 8 8 8) ''greynoise''
       (sample_flagged\<lparr>rp_status := ''failed'', rp_score := None, rp_flagged := False\<rparr>)
       (empty_intel\<lparr>reps := [(v4 8 8 8 8, sample_flagged)]\<rparr>))) ''greynoise'' (v4 8 8 8 8) = Some new \<and>
     rp_score new = Some 90 \<and> \<not> rp_flagged new"
proof -
  let ?d = "empty_intel\<lparr>reps := [(v4 8 8 8 8, sample_flagged)]\<rparr>"
  have 1: "rep_of ?d ''greynoise'' (v4 8 8 8 8) = Some sample_flagged" by (simp add: rep_of_def rep_key_def sample_flagged_def)
  have 2: "rp_flagged sample_flagged" "rp_score sample_flagged = Some 90" by (simp_all add: sample_flagged_def)
  show ?thesis
    using failed_refresh_clears_flag [OF 1 2(1), of "sample_flagged\<lparr>rp_status := ''failed'', rp_score := None, rp_flagged := False\<rparr>" "ok_env 9"]
      2(2) by auto
qed

end
