(* ===== verification/Hosts.thy ===== *)
theory Hosts
  imports Intel
begin

text \<open>
  The traffic of single addresses, joined with what is known about them (\<open>Hosts\<close>, \<open>HostPeers\<close>, \<open>GroupBy\<close>,
  \<open>Threats\<close> and \<open>DataRange\<close> of \<open>internal/db/queries.go\<close>), and how these tables agree with the overview.
\<close>

section \<open>Hosts\<close>

record HostStat =
  ho_ip :: addr
  ho_nick :: "string option"
  ho_local :: bool
  ho_in :: int
  ho_out :: int
  ho_bytes :: int
  ho_packets :: int
  ho_flows :: int
  ho_peers :: int
  ho_first :: instant
  ho_last :: instant
  ho_names :: "string list"
  ho_info :: "(IPInfo \<times> VTResult option) option"

record HostsOptions =
  hq_local :: "bool option"
  hq_sort :: string
  hq_asc :: bool
  hq_search :: string
  hq_country :: string
  hq_asn :: string
  hq_limit :: int
  hq_offset :: int

text \<open>A flow seen from one of its ends.\<close>

record view =
  vw_ip :: addr
  vw_local :: bool
  vw_peer :: addr
  vw_out :: int
  vw_in :: int
  vw_packets :: int
  vw_stamp :: instant

definition src_view :: "prefix list \<Rightarrow> flow \<Rightarrow> view" where
  "src_view nets f = \<lparr>vw_ip = ip_src f, vw_local = src_local nets f, vw_peer = ip_dst f, vw_out = bytes f, vw_in = 0,
     vw_packets = packets f, vw_stamp = stamp f\<rparr>"

definition dst_view :: "prefix list \<Rightarrow> flow \<Rightarrow> view" where
  "dst_view nets f = \<lparr>vw_ip = ip_dst f, vw_local = dst_local nets f, vw_peer = ip_src f, vw_out = 0, vw_in = bytes f,
     vw_packets = packets f, vw_stamp = stamp f\<rparr>"

definition views :: "prefix list \<Rightarrow> flow list \<Rightarrow> view list" where
  "views nets fs = map (src_view nets) fs @ map (dst_view nets) fs"

definition first_of :: "('a \<Rightarrow> int) \<Rightarrow> 'a list \<Rightarrow> int" where "first_of g xs = Min (set (map g xs))"
definition last_of :: "('a \<Rightarrow> int) \<Rightarrow> 'a list \<Rightarrow> int" where "last_of g xs = Max (set (map g xs))"

definition host_stat :: "'x intel_db_scheme \<Rightarrow> addr \<times> view list \<Rightarrow> HostStat" where
  "host_stat d kg =
     (case kg of (ip, g) \<Rightarrow>
        \<lparr>ho_ip = ip, ho_nick = nick_of d ip, ho_local = list_ex vw_local g, ho_in = sum_of vw_in g, ho_out = sum_of vw_out g,
         ho_bytes = sum_of (\<lambda>v. vw_in v + vw_out v) g, ho_packets = sum_of vw_packets g, ho_flows = int (length g),
         ho_peers = distinct_count vw_peer g, ho_first = first_of vw_stamp g, ho_last = last_of vw_stamp g,
         ho_names = recent_names d ip, ho_info = map_option finishIPInfo (info_of d ip)\<rparr>)"

definition host_rows :: "Window \<Rightarrow> prefix list \<Rightarrow> flow list \<Rightarrow> 'x intel_db_scheme \<Rightarrow> HostStat list" where
  "host_rows w nets acct d = map (host_stat d) (group_rows vw_ip (views nets (filter (in_window w) acct)))"

definition host_texts :: "HostStat \<Rightarrow> string option list" where
  "host_texts h =
     (let i = map_option fst (ho_info h) in
      map (map_option ToLower) [ho_nick h, Option.bind i ii_hostname, Option.bind i ii_org, Option.bind i ii_as_org, Option.bind i ii_isp])"

definition host_matches :: "HostsOptions \<Rightarrow> HostStat \<Rightarrow> bool" where
  "host_matches q h \<longleftrightarrow>
     (case hq_local q of None \<Rightarrow> True | Some b \<Rightarrow> ho_local h = b) \<and>
     (hq_search q = [] \<or> search_for (hq_search q) (Some (AddrString (ho_ip h))) \<or> list_ex (search_for (hq_search q)) (host_texts h)) \<and>
     (hq_country q = [] \<or> Option.bind (map_option fst (ho_info h)) ii_country_code = Some (map upper_char (hq_country q))) \<and>
     (hq_asn q = [] \<or> Option.bind (map_option fst (ho_info h)) ii_asn = Some (hq_asn q))"

definition hostSortCols :: "(string \<times> (HostStat \<Rightarrow> int)) list" where
  "hostSortCols = [(''bytes'', ho_bytes), (''bytes_in'', ho_in), (''bytes_out'', ho_out), (''flows'', ho_flows), (''peers'', ho_peers),
     (''last_seen'', ho_last), (''packets'', ho_packets), (''ip'', \<lambda>h. addr_rank (ho_ip h))]"

definition Hosts ::
  "'e env_scheme \<Rightarrow> Window \<Rightarrow> prefix list \<Rightarrow> HostsOptions \<Rightarrow> flow list \<Rightarrow> 'x intel_db_scheme \<Rightarrow> (HostStat list \<times> int) dbres" where
  "Hosts e w nets q acct d =
     (let col = opt_default ho_bytes (map_of hostSortCols (hq_sort q));
          lim = (if hq_limit q \<le> 0 \<or> hq_limit q > 1000 then 100 else hq_limit q);
          rows = filter (host_matches q) (host_rows w nets acct d) in
      bindE (db_read e [''Hosts'', ''count''] (int (length rows))) (\<lambda>total.
      bindE (db_read e [''Hosts''] (sort_key (\<lambda>h. if hq_asc q then col h else - col h) (sort_key (\<lambda>h. addr_rank (ho_ip h)) rows))) (\<lambda>sorted.
      if hq_offset q < 0 then Inl (DbError ''OFFSET must not be negative'')
      else Inr (take (nat lim) (drop (nat (hq_offset q)) sorted), total))))"

text \<open>The peers of one address. A flow from the address to itself counts as sent.\<close>

definition peer_view :: "prefix list \<Rightarrow> addr \<Rightarrow> flow \<Rightarrow> view" where
  "peer_view nets ip f =
     (if ip_src f = ip
      then \<lparr>vw_ip = ip_dst f, vw_local = dst_local nets f, vw_peer = ip, vw_out = bytes f, vw_in = 0, vw_packets = packets f, vw_stamp = stamp f\<rparr>
      else \<lparr>vw_ip = ip_src f, vw_local = src_local nets f, vw_peer = ip, vw_out = 0, vw_in = bytes f, vw_packets = packets f, vw_stamp = stamp f\<rparr>)"

definition peer_stats :: "Window \<Rightarrow> prefix list \<Rightarrow> addr \<Rightarrow> flow list \<Rightarrow> 'x intel_db_scheme \<Rightarrow> HostStat list" where
  "peer_stats w nets ip acct d =
     map (\<lambda>kg. (host_stat d kg)\<lparr>ho_local := local_ip nets (fst kg), ho_peers := 1\<rparr>)
       (group_rows vw_ip (map (peer_view nets ip) (filter (\<lambda>f. in_window w f \<and> involves (Some ip) f) acct)))"

definition HostPeers ::
  "'e env_scheme \<Rightarrow> Window \<Rightarrow> prefix list \<Rightarrow> addr \<Rightarrow> int \<Rightarrow> flow list \<Rightarrow> 'x intel_db_scheme \<Rightarrow> HostStat list dbres" where
  "HostPeers e w nets ip lim acct d =
     bindE (db_read e [''HostPeers''] (sort_key (\<lambda>h. - ho_bytes h) (peer_stats w nets ip acct d)))
       (limit_rows (if lim \<le> 0 then 100 else lim))"

section \<open>External traffic by what is known\<close>

text \<open>The flows that cross the border, seen from the external end.\<close>

definition border_views :: "prefix list \<Rightarrow> flow list \<Rightarrow> view list" where
  "border_views nets fs =
     map (\<lambda>f. \<lparr>vw_ip = ip_dst f, vw_local = False, vw_peer = ip_src f, vw_out = bytes f, vw_in = 0, vw_packets = packets f, vw_stamp = stamp f\<rparr>)
       (filter (\<lambda>f. src_local nets f \<and> \<not> dst_local nets f) fs) @
     map (\<lambda>f. \<lparr>vw_ip = ip_src f, vw_local = False, vw_peer = ip_dst f, vw_out = 0, vw_in = bytes f, vw_packets = packets f, vw_stamp = stamp f\<rparr>)
       (filter (\<lambda>f. dst_local nets f \<and> \<not> src_local nets f) fs)"

record GroupStat =
  gs_key :: string
  gs_label :: string
  gs_ips :: int
  gs_in :: int
  gs_out :: int
  gs_bytes :: int
  gs_flows :: int

definition dimension :: "string \<Rightarrow> ((IPInfo \<Rightarrow> string option) \<times> (IPInfo \<Rightarrow> string option)) option" where
  "dimension dim =
     (if dim = ''country'' then Some (ii_country_code, ii_country)
      else if dim = ''asn'' then Some (ii_asn, ii_as_org)
      else if dim = ''org'' then Some (ii_org, ii_org)
      else if dim = ''isp'' then Some (ii_isp, ii_isp)
      else None)"

definition group_key :: "'x intel_db_scheme \<Rightarrow> (IPInfo \<Rightarrow> string option) \<times> (IPInfo \<Rightarrow> string option) \<Rightarrow> view \<Rightarrow> string \<times> string" where
  "group_key d cols v =
     (let i = info_of d (vw_ip v) in
      (opt_default ''??'' (Option.bind i (fst cols)), opt_default ''Unknown'' (Option.bind i (snd cols))))"

definition group_stat :: "(string \<times> string) \<times> view list \<Rightarrow> GroupStat" where
  "group_stat kg =
     (case kg of ((k, l), g) \<Rightarrow>
        \<lparr>gs_key = k, gs_label = l, gs_ips = distinct_count vw_ip g, gs_in = sum_of vw_in g, gs_out = sum_of vw_out g,
         gs_bytes = sum_of (\<lambda>v. vw_in v + vw_out v) g, gs_flows = int (length g)\<rparr>)"

definition GroupBy ::
  "'e env_scheme \<Rightarrow> Window \<Rightarrow> prefix list \<Rightarrow> string \<Rightarrow> int \<Rightarrow> flow list \<Rightarrow> 'x intel_db_scheme \<Rightarrow> GroupStat list dbres" where
  "GroupBy e w nets dim lim acct d =
     (case dimension dim of
        None \<Rightarrow> Inl (DbError ''unknown dimension'')
      | Some cols \<Rightarrow>
          bindE (db_read e [''GroupBy'']
            (sort_key (\<lambda>g. - gs_bytes g)
              (map group_stat (group_rows (group_key d cols) (border_views nets (filter (in_window w) acct))))))
            (limit_rows (if lim \<le> 0 then 25 else lim)))"

record Threat =
  th_ip :: addr
  th_nick :: "string option"
  th_malicious :: int
  th_suspicious :: int
  th_tags :: "string list"
  th_bytes :: int
  th_flows :: int
  th_hosts :: "addr list"
  th_last :: instant
  th_info :: "IPInfo \<times> VTResult option"

definition threat_of :: "'x intel_db_scheme \<Rightarrow> addr \<times> view list \<Rightarrow> Threat option" where
  "threat_of d kg =
     (case kg of (ip, g) \<Rightarrow>
        (case info_of d ip of None \<Rightarrow> None
         | Some i \<Rightarrow>
             if flagged_vt (ii_vt i) then
               Some \<lparr>th_ip = ip, th_nick = nick_of d ip, th_malicious = opt_default 0 (vt_malicious (ii_vt i)),
                 th_suspicious = opt_default 0 (vt_suspicious (ii_vt i)), th_tags = opt_default [] (vt_tags (ii_vt i)),
                 th_bytes = sum_of (\<lambda>v. vw_in v + vw_out v) g, th_flows = int (length g),
                 th_hosts = sort_key AddrString (remdups (map vw_peer g)), th_last = last_of vw_stamp g, th_info = finishIPInfo i\<rparr>
             else None))"

definition Threats ::
  "'e env_scheme \<Rightarrow> Window \<Rightarrow> prefix list \<Rightarrow> int \<Rightarrow> flow list \<Rightarrow> 'x intel_db_scheme \<Rightarrow> Threat list dbres" where
  "Threats e w nets lim acct d =
     bindE (db_read e [''Threats'']
       (sort_key (\<lambda>t. - th_malicious t) (sort_key (\<lambda>t. - th_suspicious t) (sort_key (\<lambda>t. - th_bytes t)
         (List.map_filter (threat_of d) (group_rows vw_ip (border_views nets (filter (in_window w) acct))))))))
       (limit_rows (if lim \<le> 0 then 100 else lim))"

definition DataRange :: "'e env_scheme \<Rightarrow> flow list \<Rightarrow> (instant \<times> instant) option dbres" where
  "DataRange e acct =
     db_read e [''DataRange''] (if acct = [] then None else Some (first_of stamp acct, last_of stamp acct))"

section \<open>Properties\<close>

lemma sum_host_stat:
  "sum_of ho_in (map (host_stat d) gs) = sum_of (\<lambda>(k, g). sum_of vw_in g) gs"
  "sum_of ho_out (map (host_stat d) gs) = sum_of (\<lambda>(k, g). sum_of vw_out g) gs"
  by (simp_all add: host_stat_def case_prod_unfold)

lemma sum_views:
  "sum_of vw_in (views nets fs) = sum_of bytes fs" "sum_of vw_out (views nets fs) = sum_of bytes fs"
  by (simp_all add: views_def src_view_def dst_view_def)

lemma host_rows_sums:
  "sum_of ho_in (host_rows w nets acct d) = sum_of bytes (filter (in_window w) acct)"
  "sum_of ho_out (host_rows w nets acct d) = sum_of bytes (filter (in_window w) acct)"
  unfolding host_rows_def sum_host_stat sum_groups sum_views by simp_all

text \<open>Every address is local or external, whichever end of a flow it is.\<close>

lemma length_remdups_split:
  "length (remdups xs) = length (remdups (filter P xs)) + length (remdups (filter (\<lambda>x. \<not> P x) xs))"
  by (induction xs) auto

lemma ends_of_views: "map vw_ip (views nets fs) = map ip_src fs @ map ip_dst fs"
  by (simp add: views_def src_view_def dst_view_def comp_def)

lemma length_host_rows:
  "length (host_rows w nets acct d) =
     (let fs = filter (in_window w) acct in
      length (remdups (map ip_src (filter (src_local nets) fs) @ map ip_dst (filter (dst_local nets) fs))) +
      length (remdups (map ip_src (filter (\<lambda>x. \<not> src_local nets x) fs) @ map ip_dst (filter (\<lambda>x. \<not> dst_local nets x) fs))))"
  using length_remdups_split [of "map ip_src (filter (in_window w) acct) @ map ip_dst (filter (in_window w) acct)" "local_ip nets"]
  by (simp add: host_rows_def group_rows_def ends_of_views filter_map comp_def Let_def src_local_def dst_local_def)

definition all_hosts :: "HostsOptions \<Rightarrow> bool" where
  "all_hosts q \<longleftrightarrow> hq_local q = None \<and> hq_search q = [] \<and> hq_country q = [] \<and> hq_asn q = [] \<and> hq_offset q = 0"

text \<open>C33: The table of hosts accounts for all traffic. When it is unfiltered and not cut off, the bytes its rows sent
  are the bytes of the overview, and so are the bytes they received; it has one row for every local host
  and every external address the overview counts.\<close>

theorem hosts_account_for_traffic:
  assumes "Hosts e w nets q acct d = Inr (rows, cnt)" and "Overview e w nets acct = Inr t" and "all_hosts q"
    and "cnt \<le> 100" and "hq_limit q \<le> 0 \<or> cnt \<le> hq_limit q"
  shows "sum_of ho_out rows = t_bytes t \<and> sum_of ho_in rows = t_bytes t \<and>
     int (length rows) = cnt \<and> cnt = t_local_hosts t + t_external t \<and> distinct (map ho_ip rows)"
proof -
  let ?all = "host_rows w nets acct d"
  let ?col = "opt_default ho_bytes (map_of hostSortCols (hq_sort q))"
  let ?sorted = "sort_key (\<lambda>h. if hq_asc q then ?col h else - ?col h) (sort_key (\<lambda>h. addr_rank (ho_ip h)) ?all)"
  let ?lim = "if hq_limit q \<le> 0 \<or> hq_limit q > 1000 then 100 else hq_limit q"
  have m: "filter (host_matches q) ?all = ?all" using assms(3) by (simp add: all_hosts_def host_matches_def)
  have rt: "cnt = int (length ?all)" "rows = take (nat ?lim) ?sorted"
    using assms(1,3) by (auto simp: Hosts_def Let_def m bindE_Inr_iff db_read_Inr_iff all_hosts_def)
  have rows: "rows = ?sorted" using rt assms(4,5) by (auto intro!: take_all)
  have "map ho_ip ?all = map fst (group_rows vw_ip (views nets (filter (in_window w) acct)))"
    by (simp add: host_rows_def host_stat_def comp_def case_prod_unfold)
  then have "distinct (map ho_ip ?all)" by (simp only: group_rows_distinct)
  then have "distinct (map ho_ip ?sorted)" by (simp add: distinct_map)
  then show ?thesis
    using assms(2) length_host_rows [of w nets acct d]
    by (auto simp: rows rt(1) host_rows_sums Overview_def Let_def db_read_Inr_iff)
qed

definition whole_table :: HostsOptions where
  "whole_table = \<lparr>hq_local = None, hq_sort = ''bytes'', hq_asc = False, hq_search = [], hq_country = [], hq_asn = [], hq_limit = 0, hq_offset = 0\<rparr>"

theorem hosts_account_for_traffic_witness:
  "\<exists>rows cnt. Hosts (ok_env 0) sample_window [Prefix (v4 10 0 0 0) 8] whole_table [sample_flow] empty_intel = Inr (rows, cnt) \<and>
     sum_of ho_out rows = sum_of ho_in rows \<and> int (length rows) = cnt"
proof -
  let ?n = "[Prefix (v4 10 0 0 0) 8]"
  obtain rows cnt where h: "Hosts (ok_env 0) sample_window ?n whole_table [sample_flow] empty_intel = Inr (rows, cnt)"
      "cnt = int (length (filter (host_matches whole_table) (host_rows sample_window ?n [sample_flow] empty_intel)))"
    by (simp add: Hosts_def whole_table_def Let_def)
  have "length (host_rows sample_window ?n [sample_flow] empty_intel) \<le> 2"
    using length_remdups_leq [of "map vw_ip (views ?n (filter (in_window sample_window) [sample_flow]))"]
    by (auto simp: host_rows_def group_rows_def ends_of_views split: if_splits)
  then have t: "cnt \<le> 100" unfolding h(2) using length_filter_le [of "host_matches whole_table" "host_rows sample_window ?n [sample_flow] empty_intel"] by linarith
  obtain ov where ov: "Overview (ok_env 0) sample_window ?n [sample_flow] = Inr ov" by (simp add: Overview_def Let_def)
  have a: "all_hosts whole_table" "hq_limit whole_table \<le> 0 \<or> cnt \<le> hq_limit whole_table" by (simp_all add: all_hosts_def whole_table_def)
  show ?thesis using hosts_account_for_traffic [OF h(1) ov a(1) t a(2)] h(1) by auto
qed

end
