(* ===== verification/Scheduler.thy ===== *)
theory Scheduler
  imports Hosts Agents AuthDB Config
begin

text \<open>
  The periodic workers (\<open>internal/scheduler/scheduler.go\<close>): the lanes that look addresses and files up
  within their quotas, and the maintenance pass that keeps the roll-ups and prunes old data. What a
  provider answers is a function of the environment of a pass. A pass takes place at one instant; the
  pauses between lookups and the log are left out. Passes of a lane do not overlap, as its \<open>running\<close>
  flag and the mutex of the VirusTotal quota enforce in the code.
\<close>

section \<open>State\<close>

record lane =
  ln_running :: bool
  ln_last :: "instant option"
  ln_n :: int
  ln_runs :: int
  ln_lookups :: int
  ln_failures :: int
  ln_hit :: bool

definition newLane :: lane where
  "newLane = \<lparr>ln_running = False, ln_last = None, ln_n = 0, ln_runs = 0, ln_lookups = 0, ln_failures = 0, ln_hit = False\<rparr>"

definition finish :: "instant \<Rightarrow> int \<Rightarrow> lane \<Rightarrow> lane" where
  "finish t n l = l\<lparr>ln_last := Some t, ln_n := n, ln_runs := ln_runs l + 1\<rparr>"

record RepLane =
  rl_name :: string
  rl_quota :: int
  rl_refresh :: duration
  rl_batch :: int
  rl_lane :: lane

record FilesLane =
  fl_vt :: bool
  fl_mhr :: bool
  fl_refresh :: duration
  fl_mhr_refresh :: duration
  fl_batch :: int

text \<open>The tables the worker reads and writes, and its lanes.\<close>

record Worker =
  wk_acct :: "flow list"
  wk_intel :: intel_db
  wk_fleet :: agent_db
  wk_rollup :: rollup_db
  wk_alerts :: alert_db
  wk_auth :: auth_db
  wk_backfilled :: "bool option"
  wk_cursor :: "instant option"
  wk_pruned :: "instant option"
  wk_has_geo :: bool
  wk_has_vt :: bool
  wk_rep :: "RepLane list"
  wk_files_cfg :: "FilesLane option"
  wk_geo :: lane
  wk_vt :: lane
  wk_files :: lane
  wk_rollups :: lane

text \<open>\<open>cancelled i\<close>: the context is done when the lookup with number \<open>i\<close> is about to start.\<close>

datatype 'a answer = Answer 'a | QuotaExceeded | LookupFailed string

record lookup_env = env +
  cancelled :: "nat \<Rightarrow> bool"
  ask_geo :: "addr \<Rightarrow> IPInfo"
  ask_vt :: "addr \<Rightarrow> VTReport answer"
  ask_file :: "string \<Rightarrow> FileVT answer"
  ask_mhr :: "string \<Rightarrow> string + FileMHR"
  ask_rep :: "string \<Rightarrow> addr \<Rightarrow> Reputation answer"

definition EnableFiles :: "FilesLane \<Rightarrow> Worker \<Rightarrow> Worker" where
  "EnableFiles f w =
     w\<lparr>wk_files_cfg := Some (f\<lparr>fl_batch := (if fl_batch f \<le> 0 then 50 else fl_batch f),
         fl_refresh := (if fl_refresh f \<le> 0 then 30 * 24 * Hour else fl_refresh f),
         fl_mhr_refresh := (if fl_mhr_refresh f \<le> 0 then 7 * 24 * Hour else fl_mhr_refresh f)\<rparr>)\<rparr>"

definition AddRepLane :: "RepLane \<Rightarrow> Worker \<Rightarrow> Worker" where
  "AddRepLane r w =
     w\<lparr>wk_rep := wk_rep w @ [r\<lparr>rl_lane := newLane, rl_batch := (if rl_batch r \<le> 0 then 100 else rl_batch r)\<rparr>]\<rparr>"

section \<open>The geo lane\<close>

text \<open>Answers whether the address was enriched.\<close>

definition LookupAndStore :: "lookup_env \<Rightarrow> addr \<Rightarrow> Worker \<Rightarrow> bool \<times> Worker" where
  "LookupAndStore e ip w =
     (if \<not> wk_has_geo w then (False, w)
      else
        (let i = ask_geo e ip; l = wk_geo w;
             l' = l\<lparr>ln_lookups := ln_lookups l + 1, ln_failures := ln_failures l + (if ii_status i \<noteq> ''ok'' then 1 else 0)\<rparr> in
         case UpsertIPInfo e i (wk_intel w) of
           (Inl _, d) \<Rightarrow> (False, w\<lparr>wk_geo := l', wk_intel := d\<rparr>)
         | (Inr _, d) \<Rightarrow> (ii_status i = ''ok'', w\<lparr>wk_geo := l', wk_intel := d\<rparr>)))"

primrec geo_loop :: "lookup_env \<Rightarrow> nat \<Rightarrow> addr list \<Rightarrow> Worker \<Rightarrow> Worker" where
  "geo_loop e i [] w = w"
| "geo_loop e i (ip # ips) w = (if cancelled e i then w else geo_loop e (Suc i) ips (snd (LookupAndStore e ip w)))"

definition RunGeoOnce :: "Config \<Rightarrow> lookup_env \<Rightarrow> Worker \<Rightarrow> int \<times> Worker" where
  "RunGeoOnce c e w =
     (if \<not> wk_has_geo w \<or> ln_running (wk_geo w) then (0, w)
      else case EnrichmentCandidates e (now_of e - EnrichLookbackWindow c) (LocalNetworks c) (EnrichRefreshAfter c) (EnrichBatchSize c)
                  (wk_acct w) (wk_intel w) of
        Inl _ \<Rightarrow> (0, w)
      | Inr ips \<Rightarrow>
          (let w' = geo_loop e 0 ips w in
           (int (length ips), w'\<lparr>wk_geo := finish (now_of e) (int (length ips)) (wk_geo w')\<rparr>)))"

section \<open>The VirusTotal quota\<close>

text \<open>What is left of the daily and the monthly quota.\<close>

definition vt_budget :: "Config \<Rightarrow> int \<times> int \<Rightarrow> int" where
  "vt_budget c used =
     (let b = VTDailyQuota c - fst used in
      if VTMonthlyQuota c > 0 \<and> VTMonthlyQuota c - snd used < b then VTMonthlyQuota c - snd used else b)"

text \<open>\<open>LookupVT\<close> answers whether a report was stored and whether the provider refused. A refusal is not
  stored.\<close>

definition failed_report :: "string \<Rightarrow> VTReport" where
  "failed_report m = VTResult.extend (never_vt\<lparr>vt_status := ''failed'', vt_error := Some m\<rparr>)
     \<lparr>vr_asn = None, vr_as_org = None, vr_country_code = None\<rparr>"

definition LookupVT :: "lookup_env \<Rightarrow> addr \<Rightarrow> Worker \<Rightarrow> (bool \<times> bool) \<times> Worker" where
  "LookupVT e ip w =
     (if \<not> wk_has_vt w then ((False, False), w)
      else
        (let l = (wk_vt w)\<lparr>ln_lookups := ln_lookups (wk_vt w) + 1\<rparr> in
         case ask_vt e ip of
           QuotaExceeded \<Rightarrow> ((False, True), w\<lparr>wk_vt := l\<rparr>)
         | a \<Rightarrow>
             (let (l', res) = (case a of LookupFailed m \<Rightarrow> (l\<lparr>ln_failures := ln_failures l + 1\<rparr>, failed_report m)
                               | Answer r \<Rightarrow> (l, r) | QuotaExceeded \<Rightarrow> (l, failed_report [])) in
              case UpsertVT e ip res (wk_intel w) of
                (Inl _, d) \<Rightarrow> ((False, False), w\<lparr>wk_vt := l', wk_intel := d\<rparr>)
              | (Inr _, d) \<Rightarrow> ((vt_status res = ''ok'', False), w\<lparr>wk_vt := l', wk_intel := d\<rparr>))))"

text \<open>The loop over the candidates counts the attempts and stops when the provider refuses.\<close>

primrec vt_loop :: "lookup_env \<Rightarrow> nat \<Rightarrow> addr list \<Rightarrow> Worker \<Rightarrow> int \<times> Worker" where
  "vt_loop e i [] w = (int i, w)"
| "vt_loop e i (ip # ips) w =
     (if cancelled e i then (int i, w)
      else case LookupVT e ip w of
        ((_, True), w') \<Rightarrow> (int (Suc i), w'\<lparr>wk_vt := (wk_vt w')\<lparr>ln_hit := True\<rparr>\<rparr>)
      | ((_, False), w') \<Rightarrow> vt_loop e (Suc i) ips w')"

definition RunVTOnce :: "Config \<Rightarrow> lookup_env \<Rightarrow> Worker \<Rightarrow> int \<times> Worker" where
  "RunVTOnce c e w =
     (if \<not> wk_has_vt w \<or> ln_running (wk_vt w) then (0, w)
      else case VTUsage e (wk_intel w) (wk_fleet w) of
        Inl _ \<Rightarrow> (0, w)
      | Inr used \<Rightarrow>
          if vt_budget c used \<le> 0 then (0, w\<lparr>wk_vt := finish (now_of e) 0 ((wk_vt w)\<lparr>ln_hit := True\<rparr>)\<rparr>)
          else case VTCandidates e (now_of e - EnrichLookbackWindow c) (LocalNetworks c) (VTRefreshAfter c)
                      (min (VTBatchSize c) (vt_budget c used)) (wk_acct w) (wk_intel w) of
            Inl _ \<Rightarrow> (0, w)
          | Inr ips \<Rightarrow>
              (case vt_loop e 0 ips (w\<lparr>wk_vt := (wk_vt w)\<lparr>ln_hit := False\<rparr>\<rparr>) of
                 (n, w') \<Rightarrow> (n, w'\<lparr>wk_vt := finish (now_of e) n (wk_vt w')\<rparr>)))"

section \<open>The files lane\<close>

definition failed_file :: "string \<Rightarrow> FileVT" where
  "failed_file m = no_vt\<lparr>fv_status := ''failed'', fv_error := Some m\<rparr>"

definition note_lookup :: "bool \<Rightarrow> lane \<Rightarrow> lane" where
  "note_lookup failed l = l\<lparr>ln_lookups := ln_lookups l + 1, ln_failures := ln_failures l + (if failed then 1 else 0)\<rparr>"

primrec files_vt_loop :: "lookup_env \<Rightarrow> nat \<Rightarrow> string list \<Rightarrow> Worker \<Rightarrow> int \<times> Worker" where
  "files_vt_loop e i [] w = (int i, w)"
| "files_vt_loop e i (h # hs) w =
     (if cancelled e i then (int i, w)
      else case ask_file e h of
        QuotaExceeded \<Rightarrow> (int (Suc i), w\<lparr>wk_files := (note_lookup False (wk_files w))\<lparr>ln_hit := True\<rparr>\<rparr>)
      | LookupFailed m \<Rightarrow>
          files_vt_loop e (Suc i) hs
            (w\<lparr>wk_files := note_lookup True (wk_files w), wk_fleet := snd (UpsertFileVT e h (failed_file m) (wk_fleet w))\<rparr>)
      | Answer v \<Rightarrow>
          files_vt_loop e (Suc i) hs
            (w\<lparr>wk_files := note_lookup False (wk_files w), wk_fleet := snd (UpsertFileVT e h v (wk_fleet w))\<rparr>))"

definition runFilesVT :: "Config \<Rightarrow> FilesLane \<Rightarrow> lookup_env \<Rightarrow> Worker \<Rightarrow> int \<times> Worker" where
  "runFilesVT c f e w =
     (case VTUsage e (wk_intel w) (wk_fleet w) of
        Inl _ \<Rightarrow> (0, w)
      | Inr used \<Rightarrow>
          if vt_budget c used \<le> 0 then (0, w\<lparr>wk_files := (wk_files w)\<lparr>ln_hit := True\<rparr>\<rparr>)
          else case FileVTCandidates e (fl_refresh f) (min (fl_batch f) (vt_budget c used)) (wk_fleet w) of
            Inl _ \<Rightarrow> (0, w)
          | Inr hs \<Rightarrow> files_vt_loop e 0 hs (w\<lparr>wk_files := (wk_files w)\<lparr>ln_hit := False\<rparr>\<rparr>))"

definition failed_mhr :: "string \<Rightarrow> FileMHR" where
  "failed_mhr m = no_mhr\<lparr>fm_status := ''failed'', fm_error := Some m\<rparr>"

primrec mhr_loop :: "lookup_env \<Rightarrow> nat \<Rightarrow> FileIntel list \<Rightarrow> Worker \<Rightarrow> int \<times> Worker" where
  "mhr_loop e i [] w = (int i, w)"
| "mhr_loop e i (f # fs) w =
     (if cancelled e i then (int i, w)
      else
        (let r = ask_mhr e (if fi_md5 f = [] then fi_sha1 f else fi_md5 f);
             res = (case r of Inl m \<Rightarrow> failed_mhr m | Inr x \<Rightarrow> x) in
         mhr_loop e (Suc i) fs
           (w\<lparr>wk_files := note_lookup (isl r) (wk_files w), wk_fleet := snd (UpsertFileMHR e (fi_sha256 f) res (wk_fleet w))\<rparr>)))"

text \<open>An error of the candidates query leaves nothing to look up and does not end the pass.\<close>

definition RunFilesOnce :: "Config \<Rightarrow> lookup_env \<Rightarrow> Worker \<Rightarrow> int \<times> Worker" where
  "RunFilesOnce c e w =
     (case wk_files_cfg w of
        None \<Rightarrow> (0, w)
      | Some f \<Rightarrow>
          if ln_running (wk_files w) then (0, w)
          else
            (let (n1, w1) = (if fl_mhr f
                   then mhr_loop e 0 (case FileMHRCandidates e (fl_mhr_refresh f) 200 (wk_fleet w) of Inl _ \<Rightarrow> [] | Inr fs \<Rightarrow> fs) w
                   else (0, w));
                 (n2, w2) = (if fl_vt f then runFilesVT c f e w1 else (0, w1))
             in (n1 + n2, w2\<lparr>wk_files := finish (now_of e) (n1 + n2) (wk_files w2)\<rparr>)))"

section \<open>Reputation lanes\<close>

definition failed_rep :: "string \<Rightarrow> string \<Rightarrow> Reputation" where
  "failed_rep name m = \<lparr>rp_source = name, rp_status = ''failed'', rp_error = Some m, rp_attempts = 0, rp_lookup_at = 0,
     rp_score = None, rp_flagged = False, rp_data = []\<rparr>"

primrec rep_loop :: "lookup_env \<Rightarrow> string \<Rightarrow> nat \<Rightarrow> addr list \<Rightarrow> lane \<times> intel_db \<Rightarrow> int \<times> lane \<times> intel_db" where
  "rep_loop e name i [] s = (int i, s)"
| "rep_loop e name i (ip # ips) s =
     (if cancelled e i then (int i, s)
      else case ask_rep e name ip of
        QuotaExceeded \<Rightarrow> (int (Suc i), (note_lookup False (fst s))\<lparr>ln_hit := True\<rparr>, snd s)
      | LookupFailed m \<Rightarrow>
          rep_loop e name (Suc i) ips (note_lookup True (fst s), snd (UpsertReputation e ip name (failed_rep name m) (snd s)))
      | Answer r \<Rightarrow> rep_loop e name (Suc i) ips (note_lookup False (fst s), snd (UpsertReputation e ip name r (snd s))))"

definition RunRepOnce :: "Config \<Rightarrow> lookup_env \<Rightarrow> flow list \<Rightarrow> RepLane \<Rightarrow> intel_db \<Rightarrow> int \<times> RepLane \<times> intel_db" where
  "RunRepOnce c e acct r d =
     (if ln_running (rl_lane r) then (0, r, d)
      else case ReputationUsage e (rl_name r) d of
        Inl _ \<Rightarrow> (0, r, d)
      | Inr used \<Rightarrow>
          (let budget = rl_quota r - fst used in
           if budget \<le> 0 then (0, r\<lparr>rl_lane := finish (now_of e) 0 ((rl_lane r)\<lparr>ln_hit := True\<rparr>)\<rparr>, d)
           else case ReputationCandidates e (rl_name r) (now_of e - EnrichLookbackWindow c) (LocalNetworks c) (rl_refresh r)
                       (min (rl_batch r) budget) acct d of
             Inl _ \<Rightarrow> (0, r, d)
           | Inr ips \<Rightarrow>
               (case rep_loop e (rl_name r) 0 ips ((rl_lane r)\<lparr>ln_hit := False\<rparr>, d) of
                  (n, l, d') \<Rightarrow> (n, r\<lparr>rl_lane := finish (now_of e) n l\<rparr>, d'))))"

primrec run_reps :: "Config \<Rightarrow> lookup_env \<Rightarrow> flow list \<Rightarrow> RepLane list \<Rightarrow> intel_db \<Rightarrow> int \<times> RepLane list \<times> intel_db" where
  "run_reps c e acct [] d = (0, [], d)"
| "run_reps c e acct (r # rs) d =
     (case RunRepOnce c e acct r d of
        (n, r', d') \<Rightarrow> (case run_reps c e acct rs d' of (m, rs', d'') \<Rightarrow> (n + m, r' # rs', d'')))"

definition RunOnce :: "Config \<Rightarrow> lookup_env \<Rightarrow> Worker \<Rightarrow> int \<times> Worker" where
  "RunOnce c e w =
     (let (n1, w1) = RunGeoOnce c e w; (n2, w2) = RunVTOnce c e w1;
          (n3, rs, d) = run_reps c e (wk_acct w2) (wk_rep w2) (wk_intel w2);
          (n4, w4) = RunFilesOnce c e (w2\<lparr>wk_rep := rs, wk_intel := d\<rparr>)
      in (n1 + n2 + n3 + n4, w4))"

section \<open>Maintenance\<close>

text \<open>The first pass builds the hourly roll-ups day by day. An error ends the pass.\<close>

function backfill_loop :: "lookup_env \<Rightarrow> prefix list \<Rightarrow> flow list \<Rightarrow> instant \<Rightarrow> instant \<Rightarrow> rollup_db \<Rightarrow> bool \<times> rollup_db" where
  "backfill_loop e nets acct t now d =
     (if t < now then
        (case RollupHours e nets t (t + Day) acct d of
           (Inl _, d') \<Rightarrow> (False, d')
         | (Inr _, d') \<Rightarrow> backfill_loop e nets acct (t + Day) now d')
      else (True, d))"
  by pat_completeness auto
termination
  by (relation "measure (\<lambda>(e, nets, acct, t, now, d). nat (now - t))") auto

declare backfill_loop.simps [simp del]

text \<open>\<open>SetSetting\<close> of a cursor; its error is ignored.\<close>

definition put_setting :: "'e env_scheme \<Rightarrow> string list \<Rightarrow> 'a option \<Rightarrow> 'a \<Rightarrow> 'a option" where
  "put_setting e key old v = db_write e (''SetSetting'' # key) old (Some v)"

text \<open>\<open>GetSetting\<close>; an error reads as an absent value.\<close>

definition get_setting :: "'e env_scheme \<Rightarrow> string \<Rightarrow> 'a option \<Rightarrow> 'a option" where
  "get_setting e key v = (if fault e [''GetSetting'', key] then None else v)"

text \<open>The peer roll-ups advance behind a cursor in spans of six hours at most; every span is stored before
  the cursor is.\<close>

function peer_loop ::
  "lookup_env \<Rightarrow> prefix list \<Rightarrow> flow list \<Rightarrow> instant \<Rightarrow> instant \<Rightarrow> instant option \<Rightarrow> rollup_db \<Rightarrow> bool \<times> instant option \<times> rollup_db" where
  "peer_loop e nets acct cursor until stored d =
     (if cursor < until then
        (let nxt = (if cursor + 6 * Hour > until then until else cursor + 6 * Hour) in
         case RollupPeerDays e nets cursor nxt acct d of
           (Inl _, d') \<Rightarrow> (False, stored, d')
         | (Inr _, d') \<Rightarrow> peer_loop e nets acct nxt until (put_setting e [''rollup_peer_cursor'', Itoa nxt] stored nxt) d')
      else (True, stored, d))"
  by pat_completeness auto
termination
  by (relation "measure (\<lambda>(e, nets, acct, cursor, until, stored, d). nat (until - cursor))") auto

declare peer_loop.simps [simp del]

definition peer_start :: "lookup_env \<Rightarrow> Worker \<Rightarrow> instant" where
  "peer_start e w =
     (let fresh = now_of e - 8 * 24 * Hour in
      case get_setting e ''rollup_peer_cursor'' (wk_cursor w) of
        Some c \<Rightarrow> if c = zero_time then fresh else c
      | None \<Rightarrow> fresh)"

definition backfill :: "Config \<Rightarrow> lookup_env \<Rightarrow> Worker \<Rightarrow> bool \<times> Worker" where
  "backfill c e w =
     (if get_setting e ''rollup_hours_backfilled'' (wk_backfilled w) = Some True then (True, w)
      else case backfill_loop e (LocalNetworks c) (wk_acct w) ((now_of e - 8 * 24 * Hour) div Day * Day) (now_of e) (wk_rollup w) of
        (False, d) \<Rightarrow> (False, w\<lparr>wk_rollup := d\<rparr>)
      | (True, d) \<Rightarrow> (True, w\<lparr>wk_rollup := d, wk_backfilled := put_setting e [''rollup_hours_backfilled''] (wk_backfilled w) True\<rparr>))"

definition prune_agents :: "lookup_env \<Rightarrow> Worker \<Rightarrow> Worker" where
  "prune_agents e w =
     (case GetAgentRetention e (wk_fleet w) of Inl _ \<Rightarrow> w | Inr r \<Rightarrow> w\<lparr>wk_fleet := snd (PruneAgentData e r (wk_fleet w))\<rparr>)"

definition prune_alerts :: "lookup_env \<Rightarrow> Worker \<Rightarrow> Worker" where
  "prune_alerts e w =
     (case GetAlertRetention e (wk_alerts w) of Inl _ \<Rightarrow> w | Inr r \<Rightarrow> w\<lparr>wk_alerts := snd (PruneResolvedAlerts e r (wk_alerts w))\<rparr>)"

text \<open>Old data goes once a day. The time of the last pruning is kept only where the roll-ups were pruned.
  \<open>PruneRollups\<close> also deletes IDS events older than its third argument.\<close>

definition keep_hourly :: duration where "keep_hourly = 180 * 24 * Hour"
definition keep_daily :: duration where "keep_daily = 60 * 24 * Hour"
definition keep_ids :: duration where "keep_ids = 30 * 24 * Hour"

definition prune_old :: "lookup_env \<Rightarrow> Worker \<Rightarrow> Worker" where
  "prune_old e w =
     (let now = now_of e in
      if (case get_setting e ''last_prune'' (wk_pruned w) of None \<Rightarrow> True | Some t \<Rightarrow> now - t > 24 * Hour) then
        (let (r, d) = PruneRollups e keep_hourly keep_daily (wk_rollup w);
             w1 = w\<lparr>wk_rollup := d,
                     wk_intel := (if isl r then wk_intel w
                        else (wk_intel w)\<lparr>ids_events := filter (\<lambda>ev. \<not> ie_ts ev < now - keep_ids) (ids_events (wk_intel w))\<rparr>),
                     wk_pruned := (if isl r then wk_pruned w else put_setting e [''last_prune''] (wk_pruned w) now)\<rparr>
         in prune_alerts e (prune_agents e w1))
      else w)"

definition purge_auth :: "lookup_env \<Rightarrow> Worker \<Rightarrow> Worker" where
  "purge_auth e w = w\<lparr>wk_auth := PurgeExpiredIPRules e (PurgeExpiredSessions e (wk_auth w))\<rparr>"

definition RunRollupsOnce :: "Config \<Rightarrow> lookup_env \<Rightarrow> Worker \<Rightarrow> int \<times> Worker" where
  "RunRollupsOnce c e w =
     (if ln_running (wk_rollups w) then (0, w)
      else case backfill c e w of
        (False, w1) \<Rightarrow> (0, w1)
      | (True, w1) \<Rightarrow>
          (case RollupHours e (LocalNetworks c) (now_of e - 2 * Hour) (now_of e) (wk_acct w1) (wk_rollup w1) of
             (Inl _, d) \<Rightarrow> (0, w1\<lparr>wk_rollup := d\<rparr>)
           | (Inr _, d) \<Rightarrow>
               (case peer_loop e (LocalNetworks c) (wk_acct w1) (peer_start e w1) (now_of e - 3 * Minute) (wk_cursor w1) d of
                  (False, cur, d') \<Rightarrow> (0, w1\<lparr>wk_rollup := d', wk_cursor := cur\<rparr>)
                | (True, cur, d') \<Rightarrow>
                    (let w2 = purge_auth e (prune_old e (w1\<lparr>wk_rollup := d', wk_cursor := cur\<rparr>))
                     in (1, w2\<lparr>wk_rollups := finish (now_of e) 1 (wk_rollups w2)\<rparr>)))))"

end
