(* ===== verification/SchedulerSafety.thy ===== *)
theory SchedulerSafety
  imports Scheduler
begin

text \<open>
  What the workers promise: the peer roll-ups count every flow once however often the passes run and fail,
  except that a cursor which cannot be read is taken for a fresh start; a pass without faults catches up;
  and the two lanes that share the VirusTotal quota keep its daily limit over any sequence of passes.
\<close>

declare time_units [simp del]

section \<open>The peer roll-ups\<close>

lemma daily_RollupHours [simp]: "host_peer_daily (snd (RollupHours e nets frm until acct d)) = host_peer_daily d"
  by (simp add: RollupHours_def Let_def db_write_def)

lemma daily_backfill [simp]: "host_peer_daily (snd (backfill_loop e nets acct t now d)) = host_peer_daily d"
proof (induction e nets acct t now d rule: backfill_loop.induct)
  case (1 e nets acct t now d)
  then show ?case
    using daily_RollupHours [of e nets t "t + Day" acct d]
    by (subst backfill_loop.simps) (auto split: prod.split sum.split simp del: daily_RollupHours)
qed

lemma stored_day_cong: "host_peer_daily d = host_peer_daily d' \<Longrightarrow> stored_day d = stored_day d'"
  by (simp add: stored_day_def fun_eq_iff)

text \<open>The cursor can be stored in this environment.\<close>

definition keeps_cursor :: "lookup_env \<Rightarrow> bool" where
  "keeps_cursor e \<longleftrightarrow> (\<forall>x. \<not> fault e [''SetSetting'', ''rollup_peer_cursor'', x])"

lemma RollupPeerDays_failed: "fault e [''RollupPeerDays'', Itoa frm] \<Longrightarrow> RollupPeerDays e nets frm until acct d = (Inl (DbError (concat [''RollupPeerDays'', Itoa frm])), d)"
  by (simp add: RollupPeerDays_def Let_def)

lemma RollupPeerDays_ok: "\<not> fault e [''RollupPeerDays'', Itoa frm] \<Longrightarrow> \<exists>n. fst (RollupPeerDays e nets frm until acct d) = Inr n"
  by (simp add: RollupPeerDays_def Let_def)

lemma peer_loop_exact:
  assumes "keeps_cursor e" "peer_loop e nets acct cur until st d = (ok, stored, d')"
  shows "\<exists>c1. (stored = Some c1 \<or> c1 = cur \<and> stored = st) \<and> cur \<le> c1 \<and> c1 \<le> max cur until \<and> (ok \<longrightarrow> until \<le> c1) \<and>
     stored_day d' k = plus2 (stored_day d k) (day_total nets acct cur c1 k)"
  using assms(2)
proof (induction "nat (until - cur)" arbitrary: cur st d rule: less_induct)
  case less
  note run = less.prems [unfolded peer_loop.simps [of e nets acct cur]]
  show ?case
  proof (cases "cur < until")
    case True
    define nxt where "nxt = (if cur + 6 * Hour > until then until else cur + 6 * Hour)"
    have nxt: "cur < nxt" "nxt \<le> until" using True by (auto simp: nxt_def time_units)
    show ?thesis
    proof (cases "fault e [''RollupPeerDays'', Itoa cur]")
      case fails: True
      then have "stored = st \<and> d' = d \<and> \<not> ok"
        using run True by (simp add: Let_def RollupPeerDays_failed)
      then show ?thesis by (auto simp: day_total_empty intro!: exI [of _ cur])
    next
      case False
      let ?d = "snd (RollupPeerDays e nets cur nxt acct d)"
      obtain n where n: "fst (RollupPeerDays e nets cur nxt acct d) = Inr n" using RollupPeerDays_ok [OF False] by blast
      have set: "put_setting e [''rollup_peer_cursor'', Itoa nxt] st nxt = Some nxt"
        using assms(1) by (simp add: put_setting_def keeps_cursor_def)
      have "peer_loop e nets acct nxt until (Some nxt) ?d = (ok, stored, d')"
        using run [folded nxt_def] True n by (simp add: Let_def split_beta set)
      moreover have "nat (until - nxt) < nat (until - cur)" using nxt True by simp
      ultimately obtain c1 where c1: "stored = Some c1" "nxt \<le> c1" "c1 \<le> max nxt until" "ok \<longrightarrow> until \<le> c1"
          "stored_day d' k = plus2 (stored_day ?d k) (day_total nets acct nxt c1 k)"
        using less.hyps by blast
      have "stored_day d' k = plus2 (stored_day d k) (day_total nets acct cur c1 k)"
        using c1(2) nxt by (simp add: c1(5) RollupPeerDays_adds [OF False] day_total_split [of cur nxt c1])
      with c1 nxt show ?thesis by (intro exI [of _ c1]) auto
    qed
  next
    case False
    then show ?thesis using run by (auto simp: day_total_empty intro!: exI [of _ cur])
  qed
qed

lemma backfill_parts:
  "backfill c e w = (ok, w1) \<Longrightarrow>
     host_peer_daily (wk_rollup w1) = host_peer_daily (wk_rollup w) \<and> wk_cursor w1 = wk_cursor w \<and> wk_acct w1 = wk_acct w"
  using daily_backfill [of e "LocalNetworks c" "wk_acct w" "(now_of e - 8 * 24 * Hour) div Day * Day" "now_of e" "wk_rollup w"]
  by (auto simp: backfill_def split: if_splits prod.splits bool.splits simp del: daily_backfill)

text \<open>Pruning leaves the entries of the last sixty days.\<close>

lemma prune_old_keeps:
  assumes "(now_of e - keep_daily) div Day \<le> snd (snd k)"
  shows "stored_day (wk_rollup (prune_old e w)) k = stored_day (wk_rollup w) k"
    "wk_cursor (prune_old e w) = wk_cursor w" "wk_acct (prune_old e w) = wk_acct w"
proof -
  have p: "stored_day (snd (PruneRollups e h keep_daily d)) k = stored_day d k" for h d
    using assms map_of_filter_key [of "\<lambda>k. \<not> snd (snd k) < (now_of e - keep_daily) div Day" "host_peer_daily d" k]
    by (auto simp: PruneRollups_def Let_def stored_day_def db_read_def)
  have a: "wk_rollup (prune_agents e x) = wk_rollup x \<and> wk_cursor (prune_agents e x) = wk_cursor x \<and> wk_acct (prune_agents e x) = wk_acct x" for x
    by (simp add: prune_agents_def split: sum.split)
  have b: "wk_rollup (prune_alerts e x) = wk_rollup x \<and> wk_cursor (prune_alerts e x) = wk_cursor x \<and> wk_acct (prune_alerts e x) = wk_acct x" for x
    by (simp add: prune_alerts_def split: sum.split)
  show "stored_day (wk_rollup (prune_old e w)) k = stored_day (wk_rollup w) k"
    "wk_cursor (prune_old e w) = wk_cursor w" "wk_acct (prune_old e w) = wk_acct w"
    by (simp_all add: prune_old_def Let_def split_beta a b p)
qed

inductive rolled :: "Config \<Rightarrow> instant \<Rightarrow> Worker \<Rightarrow> Worker \<Rightarrow> bool" for c horizon w0 where
  start: "rolled c horizon w0 w0"
| pass: "rolled c horizon w0 w \<Longrightarrow> keeps_cursor e \<Longrightarrow> \<not> fault e [''GetSetting'', ''rollup_peer_cursor''] \<Longrightarrow>
    now_of e \<le> horizon \<Longrightarrow> rolled c horizon w0 (snd (RunRollupsOnce c e w))"
| arrive: "rolled c horizon w0 w \<Longrightarrow> wk_cursor w = Some t \<Longrightarrow> t \<le> stamp f \<Longrightarrow>
    rolled c horizon w0 (w\<lparr>wk_acct := wk_acct w @ [f]\<rparr>)"

lemma peer_pairs_append: "peer_pairs nets (xs @ ys) = map (\<lambda>f. ((ip_src f, ip_dst f, stamp f div Day), bytes f)) (filter (\<lambda>f. src_local nets f \<and> \<not> dst_local nets f) xs) @
    map (\<lambda>f. ((ip_src f, ip_dst f, stamp f div Day), bytes f)) (filter (\<lambda>f. src_local nets f \<and> \<not> dst_local nets f) ys) @
    map (\<lambda>f. ((ip_dst f, ip_src f, stamp f div Day), bytes f)) (filter (\<lambda>f. dst_local nets f \<and> \<not> src_local nets f) xs) @
    map (\<lambda>f. ((ip_dst f, ip_src f, stamp f div Day), bytes f)) (filter (\<lambda>f. dst_local nets f \<and> \<not> src_local nets f) ys)"
  by (simp add: peer_pairs_def)

lemma day_total_late:
  assumes "hi \<le> stamp f"
  shows "day_total nets (acct @ [f]) lo hi k = day_total nets acct lo hi k"
  using assms by (simp add: day_total_def pairs_between_def in_window_def)

text \<open>The effect of one pass on an entry that pruning keeps.\<close>

lemma RunRollupsOnce_exact:
  assumes "keeps_cursor e" "\<not> fault e [''GetSetting'', ''rollup_peer_cursor'']" "wk_cursor w = Some c0" "c0 \<noteq> zero_time"
    and "(now_of e - keep_daily) div Day \<le> snd (snd k)"
  shows "\<exists>c1. wk_cursor (snd (RunRollupsOnce c e w)) = Some c1 \<and> c0 \<le> c1 \<and> wk_acct (snd (RunRollupsOnce c e w)) = wk_acct w \<and>
     stored_day (wk_rollup (snd (RunRollupsOnce c e w))) k =
       plus2 (stored_day (wk_rollup w) k) (day_total (LocalNetworks c) (wk_acct w) c0 c1 k)"
proof (cases "ln_running (wk_rollups w)")
  case True
  then show ?thesis using assms(3) by (simp add: RunRollupsOnce_def day_total_empty)
next
  case False
  obtain ok w1 where b: "backfill c e w = (ok, w1)" by fastforce
  have w1: "stored_day (wk_rollup w1) = stored_day (wk_rollup w)" "wk_cursor w1 = Some c0" "wk_acct w1 = wk_acct w"
    using backfill_parts [OF b] assms(3) by (auto intro: stored_day_cong)
  define h where "h = RollupHours e (LocalNetworks c) (now_of e - 2 * Hour) (now_of e) (wk_acct w1) (wk_rollup w1)"
  have h: "stored_day (snd h) = stored_day (wk_rollup w)" unfolding h_def w1(1) [symmetric] by (rule stored_day_cong) simp
  obtain ok2 st d where p: "peer_loop e (LocalNetworks c) (wk_acct w1) c0 (now_of e - 3 * Minute) (Some c0) (snd h) = (ok2, st, d)"
    by (cases "peer_loop e (LocalNetworks c) (wk_acct w1) c0 (now_of e - 3 * Minute) (Some c0) (snd h)")
  have ps: "peer_start e w1 = c0" using assms(2,4) w1(2) by (simp add: peer_start_def get_setting_def)
  have run: "snd (RunRollupsOnce c e w) =
      (if \<not> ok then w1 else if isl (fst h) then w1\<lparr>wk_rollup := snd h\<rparr>
       else if \<not> ok2 then w1\<lparr>wk_rollup := d, wk_cursor := st\<rparr>
       else (let w2 = purge_auth e (prune_old e (w1\<lparr>wk_rollup := d, wk_cursor := st\<rparr>)) in
         w2\<lparr>wk_rollups := finish (now_of e) 1 (wk_rollups w2)\<rparr>))"
    using False p by (cases h; cases "fst h") (auto simp: RunRollupsOnce_def b h_def [symmetric] ps w1(2) Let_def split: bool.splits)
  obtain c1 where c1: "st = Some c1" "c0 \<le> c1"
      "stored_day d k = plus2 (stored_day (wk_rollup w) k) (day_total (LocalNetworks c) (wk_acct w) c0 c1 k)"
    using peer_loop_exact [OF assms(1) p, of k] by (auto simp: h w1(3))
  show ?thesis
    using c1 w1 h unfolding run by (auto simp: Let_def purge_auth_def prune_old_keeps [OF assms(5)] day_total_empty)
qed

lemma keep_daily_mono: "a \<le> b \<Longrightarrow> (a - keep_daily) div Day \<le> (b - keep_daily) div Day"
  by (intro zdiv_mono1) (simp_all add: time_units)

text \<open>C12: Every flow with an external peer is counted once while the cursor can be read and written. From a
  cursor on, after any sequence of maintenance passes, in which any other statement may fail, and of new flows
  that are not older than the cursor of their arrival, an entry too young to be pruned at any of the passes has
  exactly what it had at the start plus the traffic between the two cursors: nothing is skipped and nothing is
  counted twice. Not covered are flows that arrive behind the cursor, which are never counted, and passes that
  fail to read the cursor, which count up to eight days again (\<open>unread_cursor_counts_again\<close>).\<close>

theorem peer_rollups_count_once:
  assumes "rolled c horizon w0 w" and "wk_cursor w0 = Some c0" and "zero_time < c0"
    and "(horizon - keep_daily) div Day \<le> snd (snd k)"
  shows "\<exists>c1. wk_cursor w = Some c1 \<and> c0 \<le> c1 \<and>
     stored_day (wk_rollup w) k = plus2 (stored_day (wk_rollup w0) k) (day_total (LocalNetworks c) (wk_acct w) c0 c1 k)"
  using assms(1)
proof induction
  case start
  then show ?case using assms(2) by (simp add: day_total_empty)
next
  case (pass w e)
  then obtain c1 where c1: "wk_cursor w = Some c1" "c0 \<le> c1"
      "stored_day (wk_rollup w) k = plus2 (stored_day (wk_rollup w0) k) (day_total (LocalNetworks c) (wk_acct w) c0 c1 k)" by blast
  have k: "(now_of e - keep_daily) div Day \<le> snd (snd k)" using keep_daily_mono [OF pass(4)] assms(4) by linarith
  have "c1 \<noteq> zero_time" using assms(3) c1(2) by simp
  from RunRollupsOnce_exact [OF pass(2,3) c1(1) this k, of c] obtain c2 where "wk_cursor (snd (RunRollupsOnce c e w)) = Some c2" "c1 \<le> c2"
      "wk_acct (snd (RunRollupsOnce c e w)) = wk_acct w"
      "stored_day (wk_rollup (snd (RunRollupsOnce c e w))) k = plus2 (stored_day (wk_rollup w) k) (day_total (LocalNetworks c) (wk_acct w) c1 c2 k)"
    by blast
  then show ?case using c1 by (auto simp: day_total_split [of c0 c1 c2])
next
  case (arrive w t f)
  then show ?case by (auto simp: day_total_late)
qed

definition quiet_lookups :: "instant \<Rightarrow> lookup_env" where
  "quiet_lookups t = \<lparr>now_of = t, fault = (\<lambda>_. False), cancelled = (\<lambda>_. False), ask_geo = new_info t, ask_vt = (\<lambda>_. QuotaExceeded),
     ask_file = (\<lambda>_. QuotaExceeded), ask_mhr = (\<lambda>_. Inl []), ask_rep = (\<lambda>_ _. QuotaExceeded)\<rparr>"

lemma quiet_lookups_simps [simp]: "now_of (quiet_lookups t) = t" "\<not> fault (quiet_lookups t) x"
  by (simp_all add: quiet_lookups_def)

definition no_rollups :: rollup_db where
  "no_rollups = \<lparr>host_hourly = [], host_peer_daily = []\<rparr>"

definition sample_worker :: "instant \<Rightarrow> flow list \<Rightarrow> Worker" where
  "sample_worker cur acct = \<lparr>wk_acct = acct, wk_intel = empty_intel, wk_fleet = empty_agent_db, wk_rollup = no_rollups,
     wk_alerts = empty_alert_db, wk_auth = empty_auth_db,
     wk_backfilled = Some True, wk_cursor = Some cur, wk_pruned = None, wk_has_geo = False, wk_has_vt = False, wk_rep = [],
     wk_files_cfg = None, wk_geo = newLane, wk_vt = newLane, wk_files = newLane, wk_rollups = newLane\<rparr>"

theorem peer_rollups_count_once_witness:
  "\<exists>c1. wk_cursor (snd (RunRollupsOnce default_config (quiet_lookups Day) (sample_worker 0 [sample_flow]))) = Some c1 \<and> 0 \<le> c1 \<and>
     stored_day (wk_rollup (snd (RunRollupsOnce default_config (quiet_lookups Day) (sample_worker 0 [sample_flow])))) (v4 10 0 0 5, v4 8 8 8 8, 0) =
       day_total (LocalNetworks default_config) [sample_flow] 0 c1 (v4 10 0 0 5, v4 8 8 8 8, 0)"
proof -
  let ?w = "sample_worker 0 [sample_flow]" and ?e = "quiet_lookups Day" and ?k = "(v4 10 0 0 5, v4 8 8 8 8, 0 :: instant)"
  have r: "rolled default_config Day ?w (snd (RunRollupsOnce default_config ?e ?w))"
    by (rule rolled.pass [OF rolled.start]) (simp_all add: keeps_cursor_def)
  have cur: "wk_cursor ?w = Some 0" and s0: "stored_day (wk_rollup ?w) ?k = (0, 0)"
    by (simp_all add: sample_worker_def no_rollups_def stored_day_def opt_default_def)
  have h: "(Day - keep_daily) div Day \<le> snd (snd ?k)" by (simp add: keep_daily_def time_units)
  have acct: "wk_acct (snd (RunRollupsOnce default_config ?e ?w)) = [sample_flow]"
    using RunRollupsOnce_exact [of ?e ?w 0 ?k default_config] cur h by (auto simp: keeps_cursor_def sample_worker_def zero_time_def time_units)
  have z: "zero_time < 0" by (simp add: zero_time_def time_units)
  show ?thesis using peer_rollups_count_once [OF r cur z h] by (simp add: s0 acct)
qed

text \<open>A pass whose roll-up statements do not fail runs to its end.\<close>

definition rolls_up :: "lookup_env \<Rightarrow> bool" where
  "rolls_up e \<longleftrightarrow> (\<forall>x. \<not> fault e (''RollupHours'' # x) \<and> \<not> fault e (''RollupPeerDays'' # x))"

lemma backfill_done:
  assumes "rolls_up e"
  shows "fst (backfill c e w)"
proof -
  have bf: "fst (backfill_loop e nets acct t now d)" for nets acct t now d
  proof (induction "nat (now - t)" arbitrary: t d rule: less_induct)
    case less
    show ?case
    proof (cases "t < now")
      case True
      have "fst (backfill_loop e nets acct (t + Day) now x)" for x
        using True by (intro less) (simp add: time_units)
      with True assms show ?thesis by (subst backfill_loop.simps) (simp add: RollupHours_def Let_def rolls_up_def)
    qed (simp add: backfill_loop.simps)
  qed
  have "\<exists>d. backfill_loop e nets acct t now d' = (True, d)" for nets acct t now d'
    using bf by (metis prod.collapse)
  then show ?thesis
    by (auto simp: backfill_def split: prod.split bool.split) (metis Pair_inject)
qed

lemma peer_loop_done:
  assumes "rolls_up e"
  shows "fst (peer_loop e nets acct cur until st d)"
proof (induction "nat (until - cur)" arbitrary: cur st d rule: less_induct)
  case less
  define nxt where "nxt = (if cur + 6 * Hour > until then until else cur + 6 * Hour)"
  show ?case
  proof (cases "cur < until")
    case True
    have "fst (peer_loop e nets acct nxt until s x)" for s x
      using True by (intro less) (auto simp: nxt_def time_units)
    with True assms show ?thesis
      by (subst peer_loop.simps) (simp add: nxt_def [symmetric] RollupPeerDays_def Let_def rolls_up_def)
  qed (simp add: peer_loop.simps)
qed

lemma full_pass:
  assumes "rolls_up e" "keeps_cursor e" "\<not> ln_running (wk_rollups w)" and "(now_of e - keep_daily) div Day \<le> snd (snd k)"
  shows "fst (RunRollupsOnce c e w) = 1 \<and> (\<exists>c1. peer_start e w \<le> c1 \<and> now_of e - 3 * Minute \<le> c1 \<and>
     c1 \<le> max (peer_start e w) (now_of e - 3 * Minute) \<and>
     (wk_cursor (snd (RunRollupsOnce c e w)) = Some c1 \<or> c1 = peer_start e w \<and> wk_cursor (snd (RunRollupsOnce c e w)) = wk_cursor w) \<and>
     stored_day (wk_rollup (snd (RunRollupsOnce c e w))) k =
       plus2 (stored_day (wk_rollup w) k) (day_total (LocalNetworks c) (wk_acct w) (peer_start e w) c1 k))"
proof -
  obtain w1 where b: "backfill c e w = (True, w1)" using backfill_done [OF assms(1), of c w] by (cases "backfill c e w") auto
  have w1: "stored_day (wk_rollup w1) = stored_day (wk_rollup w)" "wk_cursor w1 = wk_cursor w" "wk_acct w1 = wk_acct w"
    using backfill_parts [OF b] by (auto intro: stored_day_cong)
  then have ps: "peer_start e w1 = peer_start e w" by (simp add: peer_start_def)
  define h where "h = RollupHours e (LocalNetworks c) (now_of e - 2 * Hour) (now_of e) (wk_acct w1) (wk_rollup w1)"
  have h1: "stored_day (snd h) = stored_day (wk_rollup w)" unfolding h_def w1(1) [symmetric] by (rule stored_day_cong) simp
  have h2: "\<exists>n. fst h = Inr n" using assms(1) by (simp add: h_def RollupHours_def Let_def rolls_up_def)
  obtain st d where p: "peer_loop e (LocalNetworks c) (wk_acct w1) (peer_start e w) (now_of e - 3 * Minute) (wk_cursor w) (snd h) = (True, st, d)"
    using peer_loop_done [OF assms(1), of "LocalNetworks c" "wk_acct w1" "peer_start e w" "now_of e - 3 * Minute" "wk_cursor w" "snd h"]
    by (cases "peer_loop e (LocalNetworks c) (wk_acct w1) (peer_start e w) (now_of e - 3 * Minute) (wk_cursor w) (snd h)") auto
  let ?w2 = "purge_auth e (prune_old e (w1\<lparr>wk_rollup := d, wk_cursor := st\<rparr>))"
  have run: "RunRollupsOnce c e w = (1, ?w2\<lparr>wk_rollups := finish (now_of e) 1 (wk_rollups ?w2)\<rparr>)"
    using assms(3) p h2 w1(2) by (cases h) (auto simp: RunRollupsOnce_def b h_def [symmetric] ps Let_def)
  obtain c1 where "st = Some c1 \<or> c1 = peer_start e w \<and> st = wk_cursor w" "peer_start e w \<le> c1"
      "c1 \<le> max (peer_start e w) (now_of e - 3 * Minute)" "now_of e - 3 * Minute \<le> c1"
      "stored_day d k = plus2 (stored_day (wk_rollup w) k) (day_total (LocalNetworks c) (wk_acct w) (peer_start e w) c1 k)"
    using peer_loop_exact [OF assms(2) p, of k] by (auto simp: h1 w1(3))
  then show ?thesis unfolding run by (auto simp: purge_auth_def prune_old_keeps [OF assms(4)])
qed

text \<open>C15: A pass without faults catches up: it ends and stores the cursor three minutes before its time, where it
  was not later already; everything before it has been rolled up then. A zero cursor is taken for none.\<close>

theorem maintenance_catches_up:
  assumes "\<not> ln_running (wk_rollups w)" and "wk_cursor w = Some c0" and "\<forall>x. \<not> fault e x"
  shows "fst (RunRollupsOnce c e w) = 1 \<and> wk_cursor (snd (RunRollupsOnce c e w)) =
    Some (if c0 = zero_time then now_of e - 3 * Minute else max c0 (now_of e - 3 * Minute))"
proof -
  have r: "rolls_up e" "keeps_cursor e"
    using assms(3) by (simp_all add: rolls_up_def keeps_cursor_def)
  have k: "(now_of e - keep_daily) div Day \<le> snd (snd (undefined, undefined, now_of e div Day))"
    by (simp add: keep_daily_def time_units zdiv_mono1)
  show ?thesis
  proof (cases "c0 = zero_time")
    case True
    then have "peer_start e w = now_of e - 8 * 24 * Hour"
      using assms(2,3) by (simp add: peer_start_def get_setting_def)
    moreover have "now_of e - 8 * 24 * Hour < now_of e - 3 * Minute" by (simp add: time_units)
    ultimately show ?thesis
      using full_pass [of e w "(undefined, undefined, now_of e div Day)" c] r k assms(1) True by auto
  next
    case False
    then have "peer_start e w = c0"
      using assms(2,3) by (simp add: peer_start_def get_setting_def)
    then show ?thesis
      using full_pass [of e w "(undefined, undefined, now_of e div Day)" c] r k assms(1,2) False by auto
  qed
qed

text \<open>A cursor that cannot be read counts as a fresh start. When the only statement that fails in a pass is the
  read of the cursor, the pass succeeds and adds the traffic of the last eight days again, whatever was
  rolled up before.\<close>

theorem unread_cursor_counts_again:
  assumes "fault e = (\<lambda>x. x = [''GetSetting'', ''rollup_peer_cursor''])" and "\<not> ln_running (wk_rollups w)"
    and "(now_of e - keep_daily) div Day \<le> snd (snd k)"
  shows "fst (RunRollupsOnce c e w) = 1 \<and> stored_day (wk_rollup (snd (RunRollupsOnce c e w))) k =
     plus2 (stored_day (wk_rollup w) k)
       (day_total (LocalNetworks c) (wk_acct w) (now_of e - 8 * 24 * Hour) (now_of e - 3 * Minute) k)"
proof -
  have "rolls_up e" "keeps_cursor e" "peer_start e w = now_of e - 8 * 24 * Hour"
    using assms(1) by (simp_all add: rolls_up_def keeps_cursor_def peer_start_def get_setting_def)
  moreover have "now_of e - 8 * 24 * Hour < now_of e - 3 * Minute" by (simp add: time_units)
  ultimately show ?thesis using full_pass [of e w k c] assms(2,3) by auto
qed

theorem unread_cursor_counts_again_witness:
  "\<exists>x. stored_day (wk_rollup (snd (RunRollupsOnce default_config ((quiet_lookups Day)\<lparr>fault := \<lambda>x. x = [''GetSetting'', ''rollup_peer_cursor'']\<rparr>)
     (sample_worker Day [sample_flow])))) (v4 10 0 0 5, v4 8 8 8 8, 0) = x \<and>
     x = day_total (LocalNetworks default_config) [sample_flow] (Day - 8 * 24 * Hour) (Day - 3 * Minute) (v4 10 0 0 5, v4 8 8 8 8, 0)"
proof -
  let ?w = "sample_worker Day [sample_flow]" and ?k = "(v4 10 0 0 5, v4 8 8 8 8, 0 :: instant)"
  let ?e = "(quiet_lookups Day)\<lparr>fault := \<lambda>x. x = [''GetSetting'', ''rollup_peer_cursor'']\<rparr>"
  have e: "fault ?e = (\<lambda>x. x = [''GetSetting'', ''rollup_peer_cursor''])" by simp
  have r: "\<not> ln_running (wk_rollups ?w)" by (simp add: sample_worker_def newLane_def)
  have k: "(now_of ?e - keep_daily) div Day \<le> snd (snd ?k)" by (simp add: keep_daily_def time_units quiet_lookups_def)
  have s: "stored_day (wk_rollup ?w) ?k = (0, 0)" "wk_acct ?w = [sample_flow]" "now_of ?e = Day"
    by (simp_all add: sample_worker_def no_rollups_def stored_day_def opt_default_def quiet_lookups_def)
  show ?thesis using unread_cursor_counts_again [OF e r k, of default_config] by (simp add: s)
qed

theorem maintenance_catches_up_witness:
  "fst (RunRollupsOnce default_config (quiet_lookups Day) (sample_worker 0 [sample_flow])) = 1"
proof -
  let ?w = "sample_worker 0 [sample_flow]"
  have a: "\<not> ln_running (wk_rollups ?w)" "wk_cursor ?w = Some 0" by (simp_all add: sample_worker_def newLane_def)
  show ?thesis using maintenance_catches_up [OF a, of "quiet_lookups Day" default_config] by simp
qed

section \<open>The VirusTotal quota\<close>

text \<open>Lookups since an instant, as the usage query counts them.\<close>

definition lookups_since :: "instant \<Rightarrow> Worker \<Rightarrow> int" where
  "lookups_since t w = since_count t (vt_stamps (wk_intel w) (wk_fleet w))"

definition keyed :: "Worker \<Rightarrow> bool" where
  "keyed w \<longleftrightarrow> distinct (map ii_ip (ip_infos (wk_intel w))) \<and> distinct (map fi_sha256 (file_intel (wk_fleet w)))"

lemma since_count_append: "since_count t (xs @ ys) = since_count t xs + since_count t ys"
  by (simp add: since_count_def)

lemma upsert_by_count:
  assumes "distinct (map key rows)"
  shows "since_count t (map g (upsert_by key k upd new rows)) \<le> since_count t (map g rows) + 1"
proof (cases "list_ex (\<lambda>r. key r = k) rows")
  case True
  have "int (length (filter P (map g (map (\<lambda>r. if key r = k then upd r else r) rows)))) \<le> int (length (filter P (map g rows))) + 1" for P
    using assms
  proof (induction rows)
    case (Cons r rows)
    show ?case
    proof (cases "key r = k")
      case True
      then have "map (\<lambda>r. if key r = k then upd r else r) rows = rows" using Cons.prems by (auto simp: image_iff intro!: map_idI)
      then show ?thesis by simp
    next
      case False
      then show ?thesis using Cons by simp
    qed
  qed simp
  then show ?thesis unfolding since_count_def upsert_by_def using True by (simp only: if_True)
next
  case False
  then show ?thesis by (simp add: upsert_by_def since_count_append) (simp add: since_count_def)
qed

lemma upsert_by_stamps:
  assumes "\<And>r. key r = k \<Longrightarrow> g (upd r) = g r" "g new = None"
  shows "since_count t (map g (upsert_by key k upd new rows)) = since_count t (map g rows)"
proof -
  have "map g (map (\<lambda>r. if key r = k then upd r else r) rows) = map g rows" using assms(1) by auto
  with assms(2) show ?thesis by (auto simp: upsert_by_def since_count_append simp del: map_map) (simp add: since_count_def)
qed

lemma UpsertVT_usage:
  assumes "distinct (map ii_ip (ip_infos d))"
  shows "distinct (map ii_ip (ip_infos (snd (UpsertVT e ip v d))))"
    "since_count t (vt_stamps (snd (UpsertVT e ip v d)) f) \<le> since_count t (vt_stamps d f) + 1"
  using assms upsert_by_distinct [of ii_ip ip "fill_gaps (now_of e) v" "fill_gaps (now_of e) v (new_info (now_of e) ip)" "ip_infos d"]
    upsert_by_count [OF assms, of t "\<lambda>i. vt_lookup_at (ii_vt i)" ip]
  by (simp_all add: UpsertVT_def Let_def db_write_def vt_stamps_def since_count_append)

lemma UpsertIPInfo_usage:
  assumes "distinct (map ii_ip (ip_infos d))"
  shows "distinct (map ii_ip (ip_infos (snd (UpsertIPInfo e i d))))"
    "since_count t (vt_stamps (snd (UpsertIPInfo e i d)) f) = since_count t (vt_stamps d f)"
  using assms
  by (simp_all add: UpsertIPInfo_def Let_def db_write_def vt_stamps_def since_count_append upsert_by_distinct
      upsert_by_stamps merge_info_def never_vt_def)

lemma file_stamps:
  "fi_sha256 (r\<lparr>fi_vt := a, fi_attempts := b, fi_vt_at := x\<rparr>) = fi_sha256 r" "fi_vt_at (r\<lparr>fi_mhr := m, fi_mhr_at := y\<rparr>) = fi_vt_at r"
  "fi_vt_at (new_file t k) = None" "fi_sha256 (new_file t k) = k"
  by (simp_all add: new_file_def)

lemma UpsertFileVT_usage:
  assumes "distinct (map fi_sha256 (file_intel f))"
  shows "distinct (map fi_sha256 (file_intel (snd (UpsertFileVT e h v f))))"
    "since_count t (vt_stamps d (snd (UpsertFileVT e h v f))) \<le> since_count t (vt_stamps d f) + 1"
  using assms upsert_by_count [OF assms, of t fi_vt_at "ToLower h"]
  by (simp_all add: UpsertFileVT_def Let_def db_write_def vt_stamps_def since_count_append upsert_by_distinct file_stamps)

lemma UpsertFileMHR_usage:
  assumes "distinct (map fi_sha256 (file_intel f))"
  shows "distinct (map fi_sha256 (file_intel (snd (UpsertFileMHR e h m f))))"
    "since_count t (vt_stamps d (snd (UpsertFileMHR e h m f))) = since_count t (vt_stamps d f)"
  using assms
  by (simp_all add: UpsertFileMHR_def Let_def db_write_def vt_stamps_def since_count_append upsert_by_distinct
      upsert_by_stamps file_stamps)

text \<open>What one step of a pass may do to the lookups since \<open>t\<close>: keep the keys and add at most \<open>n\<close>.\<close>

definition adds :: "int \<Rightarrow> Worker \<Rightarrow> Worker \<Rightarrow> bool" where
  "adds n w w' \<longleftrightarrow> (keyed w \<longrightarrow> keyed w' \<and> (\<forall>t. lookups_since t w' \<le> lookups_since t w + n))"

lemma adds_trans: "adds n w w1 \<Longrightarrow> adds m w1 w2 \<Longrightarrow> adds (n + m) w w2"
  unfolding adds_def by (metis (no_types, opaque_lifting) add.assoc add_right_mono order_trans)

lemma adds_mono: "adds n w w' \<Longrightarrow> n \<le> m \<Longrightarrow> adds m w w'"
  unfolding adds_def by (metis add_left_mono order_trans)

lemma adds_same: "wk_intel w' = wk_intel w \<Longrightarrow> wk_fleet w' = wk_fleet w \<Longrightarrow> adds 0 w w'"
  by (simp add: adds_def keyed_def lookups_since_def)

lemma adds_LookupVT: "adds 1 w (snd (LookupVT e ip w))"
  using UpsertVT_usage
  by (auto simp: LookupVT_def adds_def keyed_def lookups_since_def Let_def split_beta split: answer.split sum.split)

lemma adds_vt_loop: "adds (fst (vt_loop e i ips w) - int i) w (snd (vt_loop e i ips w)) \<and> fst (vt_loop e i ips w) \<le> int (i + length ips)"
proof (induction ips arbitrary: i w)
  case Nil
  then show ?case by (simp add: adds_same)
next
  case (Cons ip ips)
  obtain ok q w1 where l: "LookupVT e ip w = ((ok, q), w1)" by (metis prod.collapse)
  have a: "adds 1 w w1" using adds_LookupVT [of w e ip] l by simp
  show ?case
  proof (cases "cancelled e i \<or> q")
    case True
    then show ?thesis using a by (auto simp: l adds_same) (auto simp: adds_def keyed_def lookups_since_def)
  next
    case False
    then show ?thesis using Cons.IH [of "Suc i" w1] adds_trans [OF a] by (auto simp: l) fastforce
  qed
qed

lemma adds_UpsertFileVT: "adds 1 w (w\<lparr>wk_files := l, wk_fleet := snd (UpsertFileVT e h v (wk_fleet w))\<rparr>)"
  by (simp add: adds_def keyed_def lookups_since_def UpsertFileVT_usage)

lemma adds_UpsertFileMHR: "adds 0 w (w\<lparr>wk_files := l, wk_fleet := snd (UpsertFileMHR e h m (wk_fleet w))\<rparr>)"
  by (simp add: adds_def keyed_def lookups_since_def UpsertFileMHR_usage)

lemma adds_files_vt_loop:
  "adds (fst (files_vt_loop e i hs w) - int i) w (snd (files_vt_loop e i hs w)) \<and> fst (files_vt_loop e i hs w) \<le> int (i + length hs)"
proof (induction hs arbitrary: i w)
  case Nil
  then show ?case by (simp add: adds_same)
next
  case (Cons h hs)
  have step: "adds (n - int i) w w'" if "adds (n - int (Suc i)) w1 w'" "adds 1 w w1" for n w1 w'
    using adds_trans [OF that(2,1)] by simp
  show ?case
  proof (cases "cancelled e i \<or> ask_file e h = QuotaExceeded")
    case True
    then show ?thesis by (auto intro!: adds_mono [OF adds_same])
  next
    case False
    then obtain v l where r: "files_vt_loop e i (h # hs) w =
        files_vt_loop e (Suc i) hs (w\<lparr>wk_files := l, wk_fleet := snd (UpsertFileVT e h v (wk_fleet w))\<rparr>)"
      by (cases "ask_file e h") auto
    show ?thesis
      using Cons.IH [of "Suc i" "w\<lparr>wk_files := l, wk_fleet := snd (UpsertFileVT e h v (wk_fleet w))\<rparr>"]
        step [OF _ adds_UpsertFileVT] unfolding r by auto
  qed
qed

lemma adds_mhr_loop: "adds 0 w (snd (mhr_loop e i fs w))"
proof (induction fs arbitrary: i w)
  case (Cons f fs)
  show ?case
    using adds_trans [OF adds_UpsertFileMHR Cons.IH] by (auto simp: Let_def adds_same)
qed (simp add: adds_same)

text \<open>The registry lookups do not change the count at all.\<close>

lemma mhr_same: "keyed w \<Longrightarrow> lookups_since t (snd (mhr_loop e i fs w)) = lookups_since t w"
proof (induction fs arbitrary: i w)
  case (Cons f fs)
  have "keyed (w\<lparr>wk_files := l, wk_fleet := snd (UpsertFileMHR e h m (wk_fleet w))\<rparr>)"
      "lookups_since t (w\<lparr>wk_files := l, wk_fleet := snd (UpsertFileMHR e h m (wk_fleet w))\<rparr>) = lookups_since t w" for l h m
    using Cons.prems by (simp_all add: keyed_def lookups_since_def UpsertFileMHR_usage)
  then show ?case using Cons by (simp add: Let_def)
qed simp

lemma adds_geo_loop: "adds 0 w (snd (LookupAndStore e ip w))" "adds 0 w (geo_loop e i ips w)"
proof -
  show one: "adds 0 w (snd (LookupAndStore e ip w))" for ip w
    by (auto simp: UpsertIPInfo_usage LookupAndStore_def adds_def keyed_def lookups_since_def Let_def split_beta split: sum.split)
  show "adds 0 w (geo_loop e i ips w)"
  proof (induction ips arbitrary: i w)
    case (Cons ip ips)
    show ?case using adds_trans [OF one Cons.IH] by (auto simp: adds_same)
  qed (simp add: adds_same)
qed

lemma adds_wrap: "adds n w w' \<Longrightarrow> wk_intel w'' = wk_intel w' \<Longrightarrow> wk_fleet w'' = wk_fleet w' \<Longrightarrow> adds n w w''"
  by (simp add: adds_def keyed_def lookups_since_def)

lemma adds_updates [simp]:
  "adds n w (w'\<lparr>wk_geo := l\<rparr>) = adds n w w'" "adds n w (w'\<lparr>wk_rollups := l\<rparr>) = adds n w w'" "adds n w (w'\<lparr>wk_auth := a\<rparr>) = adds n w w'"
  by (simp_all add: adds_def keyed_def lookups_since_def)

lemma adds_from: "wk_intel v = wk_intel w \<Longrightarrow> wk_fleet v = wk_fleet w \<Longrightarrow> adds n v w' \<Longrightarrow> adds n w w'"
  by (simp add: adds_def keyed_def lookups_since_def)

lemma limited: "limit_rows n xs = Inr ys \<Longrightarrow> int (length ys) \<le> n"
  by (auto simp: limit_rows_Inr_iff)

text \<open>What a pass adds is bounded by what the daily quota leaves.\<close>

definition left_today :: "Config \<Rightarrow> instant \<Rightarrow> Worker \<Rightarrow> int" where
  "left_today c t w = max 0 (VTDailyQuota c - lookups_since (day_start t) w)"

lemma adds_RunVTOnce: "adds (left_today c (now_of e) w) w (snd (RunVTOnce c e w))"
proof -
  have stays: "adds (left_today c (now_of e) w) w w'" if "wk_intel w' = wk_intel w" "wk_fleet w' = wk_fleet w" for w'
    using adds_mono [OF adds_same [OF that]] by (simp add: left_today_def)
  show ?thesis
  proof (cases "\<exists>used ips. VTUsage e (wk_intel w) (wk_fleet w) = Inr used \<and> 0 < vt_budget c used \<and> wk_has_vt w \<and> \<not> ln_running (wk_vt w) \<and>
      VTCandidates e (now_of e - EnrichLookbackWindow c) (LocalNetworks c) (VTRefreshAfter c) (min (VTBatchSize c) (vt_budget c used)) (wk_acct w) (wk_intel w) = Inr ips")
    case True
    then obtain used ips where u: "VTUsage e (wk_intel w) (wk_fleet w) = Inr used" "0 < vt_budget c used" "wk_has_vt w" "\<not> ln_running (wk_vt w)"
      and v: "VTCandidates e (now_of e - EnrichLookbackWindow c) (LocalNetworks c) (VTRefreshAfter c) (min (VTBatchSize c) (vt_budget c used)) (wk_acct w) (wk_intel w) = Inr ips"
      by blast
    have "int (length ips) \<le> min (VTBatchSize c) (vt_budget c used)" using v by (auto simp: VTCandidates_def bindE_Inr_iff dest!: limited)
    moreover have "vt_budget c used \<le> left_today c (now_of e) w"
      using u(1) by (auto simp: vt_budget_def VTUsage_def db_read_Inr_iff left_today_def lookups_since_def Let_def)
    ultimately have le: "int (length ips) \<le> left_today c (now_of e) w" by simp
    define w0 where "w0 = w\<lparr>wk_vt := (wk_vt w)\<lparr>ln_hit := False\<rparr>\<rparr>"
    have a0: "adds (fst (vt_loop e 0 ips w0)) w0 (snd (vt_loop e 0 ips w0))" and b0: "fst (vt_loop e 0 ips w0) \<le> int (length ips)"
      using adds_vt_loop [of e 0 ips w0] by simp_all
    have "adds (left_today c (now_of e) w) w0 (snd (vt_loop e 0 ips w0))" by (rule adds_mono [OF a0]) (use b0 le in simp)
    then have a: "adds (left_today c (now_of e) w) w (snd (vt_loop e 0 ips w0))" by (rule adds_from [rotated 2]) (simp_all add: w0_def)
    show ?thesis using u v by (simp add: RunVTOnce_def w0_def [symmetric] split_beta adds_wrap [OF a])
  next
    case False
    then show ?thesis by (auto simp: RunVTOnce_def stays split: sum.split)
  qed
qed

lemma adds_runFilesVT: "adds (left_today c (now_of e) w) w (snd (runFilesVT c f e w))"
proof -
  have stays: "adds (left_today c (now_of e) w) w w'" if "wk_intel w' = wk_intel w" "wk_fleet w' = wk_fleet w" for w'
    using adds_mono [OF adds_same [OF that]] by (simp add: left_today_def)
  show ?thesis
  proof (cases "\<exists>used hs. VTUsage e (wk_intel w) (wk_fleet w) = Inr used \<and> 0 < vt_budget c used \<and>
      FileVTCandidates e (fl_refresh f) (min (fl_batch f) (vt_budget c used)) (wk_fleet w) = Inr hs")
    case True
    then obtain used hs where u: "VTUsage e (wk_intel w) (wk_fleet w) = Inr used" "0 < vt_budget c used"
      and v: "FileVTCandidates e (fl_refresh f) (min (fl_batch f) (vt_budget c used)) (wk_fleet w) = Inr hs" by blast
    have "int (length hs) \<le> min (fl_batch f) (vt_budget c used)" using v by (auto simp: FileVTCandidates_def bindE_Inr_iff dest!: limited)
    moreover have "vt_budget c used \<le> left_today c (now_of e) w"
      using u(1) by (auto simp: vt_budget_def VTUsage_def db_read_Inr_iff left_today_def lookups_since_def Let_def)
    ultimately have le: "int (length hs) \<le> left_today c (now_of e) w" by simp
    define w0 where "w0 = w\<lparr>wk_files := (wk_files w)\<lparr>ln_hit := False\<rparr>\<rparr>"
    have a0: "adds (fst (files_vt_loop e 0 hs w0)) w0 (snd (files_vt_loop e 0 hs w0))" and b0: "fst (files_vt_loop e 0 hs w0) \<le> int (length hs)"
      using adds_files_vt_loop [of e 0 hs w0] by simp_all
    have "adds (left_today c (now_of e) w) w0 (snd (files_vt_loop e 0 hs w0))" by (rule adds_mono [OF a0]) (use b0 le in simp)
    then have a: "adds (left_today c (now_of e) w) w (snd (files_vt_loop e 0 hs w0))" by (rule adds_from [rotated 2]) (simp_all add: w0_def)
    show ?thesis using u v a by (simp add: runFilesVT_def w0_def [symmetric])
  next
    case False
    then show ?thesis by (auto simp: runFilesVT_def stays split: sum.split)
  qed
qed

lemma adds_RunFilesOnce: "adds (left_today c (now_of e) w) w (snd (RunFilesOnce c e w))"
proof -
  have z: "0 \<le> left_today c t w" for t w by (simp add: left_today_def)
  show ?thesis
  proof (cases "wk_files_cfg w")
    case None
    then show ?thesis using adds_mono [OF adds_same z] by (simp add: RunFilesOnce_def)
  next
    case (Some f)
    define r where "r = (if fl_mhr f then mhr_loop e 0
        (case FileMHRCandidates e (fl_mhr_refresh f) 200 (wk_fleet w) of Inl _ \<Rightarrow> [] | Inr fs \<Rightarrow> fs) w else (0, w))"
    define r2 where "r2 = (if fl_vt f then runFilesVT c f e (snd r) else (0, snd r))"
    have a1: "adds 0 w (snd r)" by (simp add: r_def adds_mhr_loop adds_same)
    have a2: "adds (left_today c (now_of e) (snd r)) (snd r) (snd r2)"
      by (simp add: r2_def adds_runFilesVT adds_mono [OF adds_same z])
    show ?thesis
    proof (cases "ln_running (wk_files w)")
      case True
      then show ?thesis using adds_mono [OF adds_same z] by (simp add: RunFilesOnce_def Some)
    next
      case False
      have run: "snd (RunFilesOnce c e w) = (snd r2)\<lparr>wk_files := finish (now_of e) (fst r + fst r2) (wk_files (snd r2))\<rparr>"
        using False by (simp add: RunFilesOnce_def Some r_def [symmetric] r2_def [symmetric] split_beta Let_def)
      have "keyed (snd r2) \<and> lookups_since t (snd r2) \<le> lookups_since t w + left_today c (now_of e) w" if k: "keyed w" for t
      proof -
        have k1: "keyed (snd r)" and l1: "\<And>t. lookups_since t (snd r) \<le> lookups_since t w" using a1 k by (simp_all add: adds_def)
        have k2: "keyed (snd r2)" and l2: "lookups_since t (snd r2) \<le> lookups_since t (snd r) + left_today c (now_of e) (snd r)" for t
          using a2 k1 by (simp_all add: adds_def)
        have same: "lookups_since t (snd r) = lookups_since t w" for t
          using k by (auto simp: r_def mhr_same)
        show ?thesis using k2 l2 [of t] by (simp add: same left_today_def)
      qed
      then have "adds (left_today c (now_of e) w) w (snd r2)" by (simp add: adds_def)
      then show ?thesis unfolding run by (rule adds_wrap) simp_all
    qed
  qed
qed

definition within_quota :: "Config \<Rightarrow> instant \<Rightarrow> Worker \<Rightarrow> bool" where
  "within_quota c t w \<longleftrightarrow> keyed w \<and> lookups_since (day_start t) w \<le> VTDailyQuota c"

lemma within_adds: "within_quota c t w \<Longrightarrow> adds (left_today c t w) w w' \<Longrightarrow> within_quota c t w'"
  unfolding within_quota_def adds_def left_today_def by (metis add_diff_cancel_left' add_diff_eq diff_ge_0_iff_ge max_absorb2)

lemma within_same: "within_quota c t w \<Longrightarrow> adds 0 w w' \<Longrightarrow> within_quota c t w'"
  unfolding within_quota_def adds_def by (metis add.right_neutral order_trans)

lemma within_later: "within_quota c t w \<Longrightarrow> t \<le> u \<Longrightarrow> within_quota c u w"
proof -
  assume "within_quota c t w" "t \<le> u"
  moreover have "since_count (day_start u) xs \<le> since_count (day_start t) xs" if "t \<le> u" for xs
  proof -
    have le: "day_start t \<le> day_start u" using that by (simp add: day_start_def time_units zdiv_mono1)
    show ?thesis by (induction xs) (use le in \<open>auto simp: since_count_def split: option.splits\<close>)
  qed
  ultimately show "within_quota c u w"
    unfolding within_quota_def lookups_since_def by (meson order_trans)
qed

lemma rep_loop_infos: "ip_infos (snd (snd (rep_loop e name i ips s))) = ip_infos (snd s)"
proof (induction ips arbitrary: i s)
  case (Cons ip ips)
  have "ip_infos (snd (UpsertReputation e ip name r d)) = ip_infos d" for r and d :: intel_db
    by (simp add: UpsertReputation_def Let_def db_write_def)
  with Cons show ?case by (simp split: answer.split)
qed simp

lemma run_reps_infos: "ip_infos (snd (snd (run_reps c e acct rs d))) = ip_infos d"
proof (induction rs arbitrary: d)
  case (Cons r rs)
  have "ip_infos (snd (snd (RunRepOnce c e acct r d))) = ip_infos d"
    by (simp add: RunRepOnce_def Let_def split_beta rep_loop_infos split: sum.split)
  with Cons show ?case by (simp add: split_beta)
qed simp

lemma adds_tables:
  "ip_infos (wk_intel w') = ip_infos (wk_intel w) \<Longrightarrow> file_intel (wk_fleet w') = file_intel (wk_fleet w) \<Longrightarrow> adds 0 w w'"
  by (simp add: adds_def keyed_def lookups_since_def vt_stamps_def)

lemma adds_RunGeoOnce: "adds 0 w (snd (RunGeoOnce c e w))"
  using adds_geo_loop(2) [of w e 0] by (auto simp: RunGeoOnce_def Let_def adds_same split: sum.split)

lemma file_intel_PruneAgentData: "file_intel (snd (PruneAgentData e r d)) = file_intel d"
  by (auto simp: PruneAgentData_def PruneEndpointConns_def drop_agents_def Let_def db_write_def db_read_def split: sum.split prod.split)

lemma adds_prune_old: "adds 0 w (prune_old e w)"
  by (rule adds_tables) (simp_all add: prune_old_def Let_def split_beta prune_agents_def prune_alerts_def file_intel_PruneAgentData split: sum.split)

lemma adds_RunRollupsOnce: "adds 0 w (snd (RunRollupsOnce c e w))"
proof -
  have b: "wk_intel (snd (backfill c e w)) = wk_intel w \<and> wk_fleet (snd (backfill c e w)) = wk_fleet w"
    by (simp add: backfill_def split: prod.split bool.split)
  have p: "adds 0 w (prune_old e x)" if "wk_intel x = wk_intel w" "wk_fleet x = wk_fleet w" for x
    by (rule adds_from [OF that adds_prune_old])
  show ?thesis
    using b by (cases "backfill c e w")
      (auto simp: RunRollupsOnce_def Let_def purge_auth_def adds_same split: prod.split bool.split sum.split intro!: p)
qed

lemma within_RunOnce:
  assumes "within_quota c (now_of e) w"
  shows "within_quota c (now_of e) (snd (RunOnce c e w))"
proof -
  define w1 where "w1 = snd (RunGeoOnce c e w)"
  define w2 where "w2 = snd (RunVTOnce c e w1)"
  define r where "r = run_reps c e (wk_acct w2) (wk_rep w2) (wk_intel w2)"
  define w3 where "w3 = w2\<lparr>wk_rep := fst (snd r), wk_intel := snd (snd r)\<rparr>"
  have 1: "within_quota c (now_of e) w1" unfolding w1_def by (rule within_same [OF assms adds_RunGeoOnce])
  have 2: "within_quota c (now_of e) w2" unfolding w2_def by (rule within_adds [OF 1 adds_RunVTOnce])
  have "adds 0 w2 w3" by (rule adds_tables) (simp_all add: w3_def r_def run_reps_infos)
  with 2 have 3: "within_quota c (now_of e) w3" by (rule within_same)
  have "within_quota c (now_of e) (snd (RunFilesOnce c e w3))" by (rule within_adds [OF 3 adds_RunFilesOnce])
  then show ?thesis
    by (simp add: RunOnce_def Let_def split_beta w1_def [symmetric] w2_def [symmetric] r_def [symmetric] w3_def [symmetric])
qed

text \<open>Passes of the worker at times that do not decrease, with any traffic in between.\<close>

inductive passes :: "Config \<Rightarrow> instant \<Rightarrow> Worker \<Rightarrow> instant \<Rightarrow> Worker \<Rightarrow> bool" for c t0 w0 where
  none: "passes c t0 w0 t0 w0"
| geo: "passes c t0 w0 t w \<Longrightarrow> t \<le> now_of e \<Longrightarrow> passes c t0 w0 (now_of e) (snd (RunGeoOnce c e w))"
| vt: "passes c t0 w0 t w \<Longrightarrow> t \<le> now_of e \<Longrightarrow> passes c t0 w0 (now_of e) (snd (RunVTOnce c e w))"
| files: "passes c t0 w0 t w \<Longrightarrow> t \<le> now_of e \<Longrightarrow> passes c t0 w0 (now_of e) (snd (RunFilesOnce c e w))"
| manual: "passes c t0 w0 t w \<Longrightarrow> t \<le> now_of e \<Longrightarrow> passes c t0 w0 (now_of e) (snd (RunOnce c e w))"
| maintain: "passes c t0 w0 t w \<Longrightarrow> t \<le> now_of e \<Longrightarrow> passes c t0 w0 (now_of e) (snd (RunRollupsOnce c e w))"
| traffic: "passes c t0 w0 t w \<Longrightarrow> passes c t0 w0 t (w\<lparr>wk_acct := acct\<rparr>)"

text \<open>C13: The lanes share the daily VirusTotal quota. If the lookups stored since midnight are within the quota, they
  are within it after any sequence of passes of the address lane, the file lane and the other workers, with
  any answers, refusals, cancellations and failing statements.\<close>

theorem vt_daily_quota:
  assumes "passes c t0 w0 t w" and "keyed w0" and "lookups_since (day_start t0) w0 \<le> VTDailyQuota c"
  shows "lookups_since (day_start t) w \<le> VTDailyQuota c"
proof -
  from assms(1) have "within_quota c t w"
  proof induction
    case none
    then show ?case using assms(2,3) by (simp add: within_quota_def)
  next
    case (geo t w e)
    show ?case by (rule within_same [OF within_later [OF geo(3,2)] adds_RunGeoOnce])
  next
    case (vt t w e)
    show ?case by (rule within_adds [OF within_later [OF vt(3,2)] adds_RunVTOnce])
  next
    case (files t w e)
    show ?case by (rule within_adds [OF within_later [OF files(3,2)] adds_RunFilesOnce])
  next
    case (manual t w e)
    show ?case by (rule within_RunOnce [OF within_later [OF manual(3,2)]])
  next
    case (maintain t w e)
    show ?case by (rule within_same [OF within_later [OF maintain(3,2)] adds_RunRollupsOnce])
  next
    case (traffic t w acct)
    show ?case by (rule within_same [OF traffic(2) adds_same]) simp_all
  qed
  then show ?thesis by (simp add: within_quota_def)
qed

theorem vt_daily_quota_witness:
  "lookups_since (day_start (now_of (quiet_lookups 5)))
     (snd (RunVTOnce (default_config\<lparr>VTDailyQuota := 0\<rparr>) (quiet_lookups 5) (sample_worker 0 [sample_flow]))) \<le> 0"
proof -
  let ?cf = "default_config\<lparr>VTDailyQuota := 0\<rparr>" and ?w = "sample_worker 0 [sample_flow]" and ?e = "quiet_lookups 5"
  have p: "passes ?cf 0 ?w (now_of ?e) (snd (RunVTOnce ?cf ?e ?w))" by (rule passes.vt [OF passes.none]) simp
  have k: "keyed ?w" "lookups_since (day_start 0) ?w \<le> VTDailyQuota ?cf"
    by (simp_all add: keyed_def lookups_since_def vt_stamps_def since_count_def sample_worker_def empty_intel_def empty_agent_db_def)
  show ?thesis using vt_daily_quota [OF p k] by simp
qed

end
