(* ===== verification/Detect.thy ===== *)
theory Detect
  imports Hosts
begin

text \<open>
  The statements behind the detection rules (\<open>internal/db/detect.go\<close>): each reads the accounting table over a
  window, joins it with what is known about the peers and returns plain rows. Averages and deviations are
  compared exactly: \<open>SUM / COUNT <= limit\<close> by cross multiplication, a standard deviation by its square. A
  limit that is a \<open>float64\<close> is a numerator with its number of decimals. Rows that \<open>ORDER BY\<close> leaves
  tied stay in the order of their first flow.
\<close>

section \<open>Flows across the border\<close>

definition outbound :: "prefix list \<Rightarrow> flow \<Rightarrow> bool" where
  "outbound nets f \<longleftrightarrow> src_local nets f \<and> \<not> dst_local nets f"

definition inbound :: "prefix list \<Rightarrow> flow \<Rightarrow> bool" where
  "inbound nets f \<longleftrightarrow> dst_local nets f \<and> \<not> src_local nets f"

text \<open>A flow between a local host and an external peer, and its direction.\<close>

record crossing =
  cx_host :: addr
  cx_peer :: addr
  cx_bytes :: int
  cx_out :: bool

definition crossings :: "prefix list \<Rightarrow> flow list \<Rightarrow> crossing list" where
  "crossings nets fs =
     map (\<lambda>f. \<lparr>cx_host = ip_src f, cx_peer = ip_dst f, cx_bytes = bytes f, cx_out = True\<rparr>) (filter (outbound nets) fs) @
     map (\<lambda>f. \<lparr>cx_host = ip_dst f, cx_peer = ip_src f, cx_bytes = bytes f, cx_out = False\<rparr>) (filter (inbound nets) fs)"

definition pair_of :: "crossing \<Rightarrow> addr \<times> addr" where
  "pair_of c = (cx_host c, cx_peer c)"

text \<open>TCP or UDP; addresses that stand for many hosts.\<close>

definition tcp_udp :: "flow \<Rightarrow> bool" where
  "tcp_udp f \<longleftrightarrow> ip_proto f \<in> {6, 17}"

definition multicast_dst :: "flow \<Rightarrow> bool" where
  "multicast_dst f \<longleftrightarrow>
     local_ip [Prefix (v4 224 0 0 0) 4, Prefix (V6 0xFF000000000000000000000000000000 []) 8] (ip_dst f) \<or>
     ip_dst f = v4 255 255 255 255"

definition low_port :: "flow \<Rightarrow> int" where
  "low_port f = min (port_src f) (port_dst f)"

text \<open>A parameter that the statement binds as a 32-bit integer.\<close>

definition int4_arg :: "int \<Rightarrow> unit dbres" where
  "int4_arg i = (if - 2147483648 \<le> i \<and> i \<le> max_int32 then Inr () else Inl (DbError ''value out of range for int4''))"

definition int4_args :: "int list \<Rightarrow> unit dbres" where
  "int4_args is = (if list_all (\<lambda>i. int4_arg i = Inr ()) is then Inr () else Inl (DbError ''value out of range for int4''))"

text \<open>\<open>total / n <= limit\<close> for a positive \<open>n\<close>, where the limit is \<open>fst l / 10 ^ snd l\<close>.\<close>

definition avg_le :: "int \<Rightarrow> int \<Rightarrow> int \<times> nat \<Rightarrow> bool" where
  "avg_le s n l \<longleftrightarrow> s * 10 ^ snd l \<le> fst l * n"

text \<open>\<open>mode() WITHIN GROUP (ORDER BY x)\<close>: the most frequent value, the smallest one of several.\<close>

definition mode_of :: "int list \<Rightarrow> int" where
  "mode_of xs = hd (sort_key (\<lambda>x. - int (count_list xs x)) (sort (remdups xs)))"

section \<open>Known bad peers\<close>

record ThreatHit =
  tk_host :: addr
  tk_peer :: addr
  tk_lists :: "string list"
  tk_bytes :: int
  tk_flows :: int
  tk_in :: bool
  tk_out :: bool

text \<open>The join of the crossings with the list entries that contain the peer.\<close>

definition listed_rows :: "'x intel_db_scheme \<Rightarrow> addr \<Rightarrow> list_row list" where
  "listed_rows d ip = filter (\<lambda>r. subnet_eq (host_prefix ip) (tl_net r)) (threat_lists d)"

definition list_hits :: "'x intel_db_scheme \<Rightarrow> crossing list \<Rightarrow> (crossing \<times> string) list" where
  "list_hits d cs = concat (map (\<lambda>c. map (\<lambda>r. (c, tl_list r)) (listed_rows d (cx_peer c))) cs)"

definition threat_hit :: "(addr \<times> addr) \<times> (crossing \<times> string) list \<Rightarrow> ThreatHit" where
  "threat_hit kg =
     (case kg of ((h, p), g) \<Rightarrow>
        \<lparr>tk_host = h, tk_peer = p, tk_lists = sort (remdups (map snd g)), tk_bytes = sum_of (\<lambda>x. cx_bytes (fst x)) g,
         tk_flows = int (length g), tk_in = list_ex (\<lambda>x. \<not> cx_out (fst x)) g, tk_out = list_ex (\<lambda>x. cx_out (fst x)) g\<rparr>)"

definition threat_hits :: "Window \<Rightarrow> prefix list \<Rightarrow> flow list \<Rightarrow> 'x intel_db_scheme \<Rightarrow> ThreatHit list" where
  "threat_hits w nets acct d =
     map threat_hit (group_rows (\<lambda>x. pair_of (fst x)) (list_hits d (crossings nets (filter (in_window w) acct))))"

definition DetectThreatListHits ::
  "'e env_scheme \<Rightarrow> Window \<Rightarrow> prefix list \<Rightarrow> flow list \<Rightarrow> 'x intel_db_scheme \<Rightarrow> ThreatHit list dbres" where
  "DetectThreatListHits e w nets acct d =
     db_read e [''DetectThreatListHits''] (take 500 (sort_key (\<lambda>h. - tk_bytes h) (threat_hits w nets acct d)))"

record ReputationHit =
  rh_host :: addr
  rh_peer :: addr
  rh_malicious :: int
  rh_suspicious :: int
  rh_sources :: "string list"
  rh_bytes :: int
  rh_flows :: int
  rh_in :: bool
  rh_out :: bool
  rh_country :: "string option"
  rh_as_org :: "string option"

definition flagged_sources :: "'x intel_db_scheme \<Rightarrow> addr \<Rightarrow> string list" where
  "flagged_sources d ip = map (\<lambda>x. rp_source (snd x)) (filter (\<lambda>x. fst x = ip \<and> rp_flagged (snd x)) (reps d))"

definition malicious_of :: "IPInfo \<Rightarrow> int" where
  "malicious_of i = opt_default 0 (vt_malicious (ii_vt i))"

text \<open>\<open>flag\<close>: the reasons why an address of \<open>ip_info\<close> counts as flagged.\<close>

definition rep_sources :: "int \<Rightarrow> 'x intel_db_scheme \<Rightarrow> IPInfo \<Rightarrow> string list" where
  "rep_sources minMal d i = flagged_sources d (ii_ip i) @ (if malicious_of i \<ge> minMal then [''virustotal''] else [])"

definition reputation_hit :: "int \<Rightarrow> 'x intel_db_scheme \<Rightarrow> (addr \<times> addr) \<times> crossing list \<Rightarrow> ReputationHit option" where
  "reputation_hit minMal d kg =
     (case kg of ((h, p), g) \<Rightarrow>
        (case info_of d p of None \<Rightarrow> None
         | Some i \<Rightarrow>
             if rep_sources minMal d i = [] then None
             else Some \<lparr>rh_host = h, rh_peer = p, rh_malicious = malicious_of i,
               rh_suspicious = opt_default 0 (vt_suspicious (ii_vt i)), rh_sources = rep_sources minMal d i,
               rh_bytes = sum_of cx_bytes g, rh_flows = int (length g), rh_in = list_ex (\<lambda>c. \<not> cx_out c) g,
               rh_out = list_ex cx_out g, rh_country = ii_country_code i, rh_as_org = ii_as_org i\<rparr>))"

definition DetectReputationHits ::
  "'e env_scheme \<Rightarrow> Window \<Rightarrow> prefix list \<Rightarrow> int \<Rightarrow> flow list \<Rightarrow> 'x intel_db_scheme \<Rightarrow> ReputationHit list dbres" where
  "DetectReputationHits e w nets minMal acct d =
     bindE (int4_arg minMal) (\<lambda>_. db_read e [''DetectReputationHits'']
       (take 500 (sort_key (\<lambda>h. - rh_malicious h) (sort_key (\<lambda>h. - rh_bytes h)
         (List.map_filter (reputation_hit minMal d) (group_rows pair_of (crossings nets (filter (in_window w) acct))))))))"

section \<open>Ports\<close>

record PortUse =
  pu_host :: addr
  pu_port :: int
  pu_proto :: int
  pu_peers :: int
  pu_top :: addr
  pu_bytes :: int
  pu_flows :: int

text \<open>The peers of a group of flows, each with its bytes and flows.\<close>

definition peer_sums :: "flow list \<Rightarrow> (addr \<times> int \<times> int) list" where
  "peer_sums fs = map (\<lambda>(p, g). (p, sum_of bytes g, int (length g))) (group_rows ip_dst fs)"

definition port_use :: "(addr \<times> int \<times> int) \<times> flow list \<Rightarrow> PortUse" where
  "port_use kg =
     (case kg of ((h, port, proto), g) \<Rightarrow>
        (let ps = peer_sums g in
         \<lparr>pu_host = h, pu_port = port, pu_proto = proto, pu_peers = int (length ps),
          pu_top = fst (hd (sort_key (\<lambda>x. - fst (snd x)) ps)), pu_bytes = sum_of (\<lambda>x. fst (snd x)) ps,
          pu_flows = sum_of (\<lambda>x. snd (snd x)) ps\<rparr>))"

definition DetectSuspiciousPorts ::
  "'e env_scheme \<Rightarrow> Window \<Rightarrow> prefix list \<Rightarrow> int list \<Rightarrow> flow list \<Rightarrow> PortUse list dbres" where
  "DetectSuspiciousPorts e w nets ports acct =
     bindE (int4_args ports) (\<lambda>_.
     db_read e [''DetectSuspiciousPorts'']
       (take 500 (sort_key (\<lambda>u. - pu_bytes u)
         (map port_use (group_rows (\<lambda>f. (ip_src f, port_dst f, ip_proto f))
           (filter (\<lambda>f. in_window w f \<and> port_dst f \<in> set ports \<and> tcp_udp f \<and> outbound nets f) acct))))))"

section \<open>Scans and brute force\<close>

text \<open>The destination is empty for a sweep over hosts; the average is \<open>packets / flows\<close>.\<close>

record ScanHit =
  sh_src :: addr
  sh_dst :: "addr option"
  sh_ports :: int
  sh_hosts :: int
  sh_flows :: int
  sh_packets :: int
  sh_top_port :: int
  sh_src_local :: bool
  sh_dst_local :: bool

definition probe_flow :: "flow \<Rightarrow> bool" where
  "probe_flow f \<longleftrightarrow> tcp_udp f \<and> port_src f \<ge> 1024 \<and> port_dst f < 10000"

definition port_scan :: "prefix list \<Rightarrow> (addr \<times> addr) \<times> flow list \<Rightarrow> ScanHit" where
  "port_scan nets kg =
     (case kg of ((s, t), g) \<Rightarrow>
        \<lparr>sh_src = s, sh_dst = Some t, sh_ports = distinct_count port_dst g, sh_hosts = 0, sh_flows = int (length g),
         sh_packets = sum_of packets g, sh_top_port = 0, sh_src_local = local_ip nets s, sh_dst_local = local_ip nets t\<rparr>)"

definition small_flows :: "int \<times> nat \<Rightarrow> ScanHit \<Rightarrow> bool" where
  "small_flows l h \<longleftrightarrow> avg_le (sh_packets h) (sh_flows h) l"

definition DetectPortScans ::
  "'e env_scheme \<Rightarrow> Window \<Rightarrow> prefix list \<Rightarrow> int \<Rightarrow> int \<times> nat \<Rightarrow> flow list \<Rightarrow> ScanHit list dbres" where
  "DetectPortScans e w nets minPorts maxAvg acct =
     db_read e [''DetectPortScans'']
       (take 200 (sort_key (\<lambda>h. - sh_ports h)
         (filter (\<lambda>h. sh_ports h \<ge> minPorts \<and> small_flows maxAvg h)
           (map (port_scan nets) (group_rows (\<lambda>f. (ip_src f, ip_dst f)) (filter (\<lambda>f. in_window w f \<and> probe_flow f) acct))))))"

definition sweep_flow :: "flow \<Rightarrow> bool" where
  "sweep_flow f \<longleftrightarrow> ip_proto f \<in> {6, 17, 1} \<and> port_src f \<ge> 1024 \<and> \<not> multicast_dst f"

definition host_scan :: "prefix list \<Rightarrow> addr \<times> flow list \<Rightarrow> ScanHit" where
  "host_scan nets kg =
     (case kg of (s, g) \<Rightarrow>
        \<lparr>sh_src = s, sh_dst = None, sh_ports = 0, sh_hosts = distinct_count ip_dst g, sh_flows = int (length g),
         sh_packets = sum_of packets g, sh_top_port = mode_of (map port_dst g), sh_src_local = local_ip nets s, sh_dst_local = False\<rparr>)"

definition DetectHostScans ::
  "'e env_scheme \<Rightarrow> Window \<Rightarrow> prefix list \<Rightarrow> int \<Rightarrow> int \<times> nat \<Rightarrow> flow list \<Rightarrow> ScanHit list dbres" where
  "DetectHostScans e w nets minHosts maxAvg acct =
     db_read e [''DetectHostScans'']
       (take 200 (sort_key (\<lambda>h. - sh_hosts h)
         (filter (\<lambda>h. sh_hosts h \<ge> minHosts \<and> small_flows maxAvg h)
           (map (host_scan nets) (group_rows ip_src (filter (\<lambda>f. in_window w f \<and> sweep_flow f) acct))))))"

record BruteHit =
  bh_src :: addr
  bh_dst :: addr
  bh_port :: int
  bh_proto :: int
  bh_flows :: int
  bh_bytes :: int

definition brute_hit :: "(addr \<times> addr \<times> int \<times> int) \<times> flow list \<Rightarrow> BruteHit" where
  "brute_hit kg =
     (case kg of ((s, t, port, proto), g) \<Rightarrow>
        \<lparr>bh_src = s, bh_dst = t, bh_port = port, bh_proto = proto, bh_flows = int (length g), bh_bytes = sum_of bytes g\<rparr>)"

definition DetectBruteForce ::
  "'e env_scheme \<Rightarrow> Window \<Rightarrow> prefix list \<Rightarrow> int \<Rightarrow> int \<times> nat \<Rightarrow> flow list \<Rightarrow> BruteHit list dbres" where
  "DetectBruteForce e w nets minFlows maxAvg acct =
     db_read e [''DetectBruteForce'']
       (take 200 (sort_key (\<lambda>h. - bh_flows h)
         (filter (\<lambda>h. bh_flows h \<ge> minFlows \<and> avg_le (bh_bytes h) (bh_flows h) maxAvg)
           (map brute_hit (group_rows (\<lambda>f. (ip_src f, ip_dst f, port_dst f, ip_proto f))
             (filter (\<lambda>f. in_window w f \<and> tcp_udp f \<and> inbound nets f) acct))))))"

section \<open>Unanswered connections\<close>

record OneWayHit =
  ow_host :: addr
  ow_peers :: int
  ow_flows :: int
  ow_sample :: "addr list"

text \<open>The pairs of a host with a peer that never answered, each with its outbound flows. The statement
  drops multicast destinations in one of its two uses.\<close>

definition unanswered :: "prefix list \<Rightarrow> flow list \<Rightarrow> ((addr \<times> addr) \<times> flow list) list" where
  "unanswered nets fs =
     (let back = map (\<lambda>f. (ip_dst f, ip_src f)) (filter (inbound nets) fs) in
      filter (\<lambda>kg. fst kg \<notin> set back) (group_rows (\<lambda>f. (ip_src f, ip_dst f)) (filter (outbound nets) fs)))"

definition one_way_hit :: "addr \<times> ((addr \<times> addr) \<times> flow list) list \<Rightarrow> OneWayHit" where
  "one_way_hit kg =
     (case kg of (h, ps) \<Rightarrow>
        \<lparr>ow_host = h, ow_peers = int (length ps), ow_flows = sum_of (\<lambda>x. int (length (snd x))) ps,
         ow_sample = take 5 (map (\<lambda>x. snd (fst x)) (sort_key (\<lambda>x. - sum_of bytes (snd x)) ps))\<rparr>)"

definition DetectOneWay :: "'e env_scheme \<Rightarrow> Window \<Rightarrow> prefix list \<Rightarrow> int \<Rightarrow> flow list \<Rightarrow> OneWayHit list dbres" where
  "DetectOneWay e w nets minPeers acct =
     db_read e [''DetectOneWay'']
       (take 200 (sort_key (\<lambda>h. - ow_peers h)
         (filter (\<lambda>h. ow_peers h \<ge> minPeers)
           (map one_way_hit (group_rows (\<lambda>kg. fst (fst kg))
             (unanswered nets (filter (\<lambda>f. in_window w f \<and> tcp_udp f \<and> \<not> multicast_dst f) acct)))))))"

record OneWayFlagged =
  of_host :: addr
  of_peer :: addr
  of_reasons :: "string list"
  of_flows :: int

definition bad_reasons :: "int \<Rightarrow> 'x intel_db_scheme \<Rightarrow> addr \<Rightarrow> string list" where
  "bad_reasons minMal d ip =
     map (\<lambda>r. ''list:'' @ tl_list r) (listed_rows d ip) @ map (\<lambda>s. ''rep:'' @ s) (flagged_sources d ip) @
     (case info_of d ip of None \<Rightarrow> [] | Some i \<Rightarrow> if malicious_of i \<ge> minMal then [''virustotal''] else [])"

definition DetectOneWayFlagged ::
  "'e env_scheme \<Rightarrow> Window \<Rightarrow> prefix list \<Rightarrow> int \<Rightarrow> flow list \<Rightarrow> 'x intel_db_scheme \<Rightarrow> OneWayFlagged list dbres" where
  "DetectOneWayFlagged e w nets minMal acct d =
     bindE (int4_arg minMal) (\<lambda>_. db_read e [''DetectOneWayFlagged'']
       (take 200 (sort_key (\<lambda>h. - of_flows h)
         (filter (\<lambda>h. of_reasons h \<noteq> [])
           (map (\<lambda>((h, p), g). \<lparr>of_host = h, of_peer = p, of_reasons = bad_reasons minMal d p, of_flows = int (length g)\<rparr>)
             (unanswered nets (filter (\<lambda>f. in_window w f \<and> tcp_udp f) acct)))))))"

section \<open>DNS\<close>

record DNSUse =
  du_host :: addr
  du_resolver :: addr
  du_port :: int
  du_flows :: int
  du_bytes :: int

definition DetectExternalDNS ::
  "'e env_scheme \<Rightarrow> Window \<Rightarrow> prefix list \<Rightarrow> string list \<Rightarrow> string list \<Rightarrow> flow list \<Rightarrow> DNSUse list dbres" where
  "DetectExternalDNS e w nets exempt allowed acct =
     db_read e [''DetectExternalDNS'']
       (take 200 (sort_key (\<lambda>u. - du_flows u)
         (map (\<lambda>((h, r, port), g). \<lparr>du_host = h, du_resolver = r, du_port = port, du_flows = int (length g), du_bytes = sum_of bytes g\<rparr>)
           (group_rows (\<lambda>f. (ip_src f, ip_dst f, port_dst f))
             (filter (\<lambda>f. in_window w f \<and> port_dst f \<in> {53, 853} \<and> outbound nets f \<and>
                 AddrString (ip_src f) \<notin> set exempt \<and> AddrString (ip_dst f) \<notin> set allowed) acct)))))"

record HostVolume =
  hv_host :: addr
  hv_flows :: int
  hv_bytes :: int

definition DetectDNSVolume ::
  "'e env_scheme \<Rightarrow> Window \<Rightarrow> prefix list \<Rightarrow> string list \<Rightarrow> int \<Rightarrow> int \<Rightarrow> flow list \<Rightarrow> HostVolume list dbres" where
  "DetectDNSVolume e w nets exempt minFlows minBytes acct =
     db_read e [''DetectDNSVolume'']
       (take 100 (sort_key (\<lambda>v. - hv_flows v)
         (filter (\<lambda>v. hv_flows v \<ge> minFlows \<or> hv_bytes v \<ge> minBytes)
           (map (\<lambda>(h, g). \<lparr>hv_host = h, hv_flows = int (length g), hv_bytes = sum_of bytes g\<rparr>)
             (group_rows ip_src
               (filter (\<lambda>f. in_window w f \<and> port_dst f = 53 \<and> src_local nets f \<and> AddrString (ip_src f) \<notin> set exempt) acct))))))"

section \<open>Countries\<close>

record GeoHit =
  gh_host :: addr
  gh_peer :: addr
  gh_code :: string
  gh_country :: "string option"
  gh_as_org :: "string option"
  gh_bytes :: int
  gh_flows :: int

definition geo_hit :: "string list \<Rightarrow> 'x intel_db_scheme \<Rightarrow> (addr \<times> addr) \<times> crossing list \<Rightarrow> GeoHit option" where
  "geo_hit countries d kg =
     (case kg of ((h, p), g) \<Rightarrow>
        (case info_of d p of None \<Rightarrow> None
         | Some i \<Rightarrow>
             (case ii_country_code i of None \<Rightarrow> None
              | Some c \<Rightarrow>
                  if c \<in> set countries then
                    Some \<lparr>gh_host = h, gh_peer = p, gh_code = c, gh_country = ii_country i, gh_as_org = ii_as_org i,
                      gh_bytes = sum_of cx_bytes g, gh_flows = int (length g)\<rparr>
                  else None)))"

definition DetectGeo ::
  "'e env_scheme \<Rightarrow> Window \<Rightarrow> prefix list \<Rightarrow> string list \<Rightarrow> flow list \<Rightarrow> 'x intel_db_scheme \<Rightarrow> GeoHit list dbres" where
  "DetectGeo e w nets countries acct d =
     db_read e [''DetectGeo'']
       (take 300 (sort_key (\<lambda>h. - gh_bytes h)
         (List.map_filter (geo_hit countries d) (group_rows pair_of (crossings nets (filter (in_window w) acct))))))"

section \<open>Volume and new hosts\<close>

text \<open>Twice the median of integers (\<open>percentile_cont(0.5)\<close> takes the middle value or the mean of the two).\<close>

definition median2 :: "int list \<Rightarrow> int" where
  "median2 xs = (let s = sort xs; n = length xs in s ! ((n - 1) div 2) + s ! (n div 2))"

text \<open>Twice the median and four times the median absolute deviation.\<close>

record VolumeAnomaly =
  va_host :: addr
  va_out :: int
  va_med2 :: int
  va_mad4 :: int
  va_samples :: int

definition volume_history :: "instant \<Rightarrow> int \<Rightarrow> rollup_db \<Rightarrow> addr \<Rightarrow> int list" where
  "volume_history hour days d h =
     map (\<lambda>x. hr_out (snd x))
       (filter (\<lambda>x. fst (fst x) = h \<and> snd (fst x) < hour \<and> snd (fst x) \<ge> hour - days * Day \<and>
           snd (fst x) div Hour mod 24 = hour div Hour mod 24) (host_hourly d))"

definition volume_stats :: "instant \<Rightarrow> int \<Rightarrow> rollup_db \<Rightarrow> (addr \<times> instant) \<times> hour_row \<Rightarrow> VolumeAnomaly" where
  "volume_stats hour days d x =
     (let hist = volume_history hour days d (fst (fst x)); m2 = median2 hist in
      \<lparr>va_host = fst (fst x), va_out = hr_out (snd x), va_med2 = m2, va_mad4 = median2 (map (\<lambda>b. \<bar>2 * b - m2\<bar>) hist),
       va_samples = int (length hist)\<rparr>)"

text \<open>\<open>out > med + factor * GREATEST(mad, med * 0.1, 1048576)\<close>, multiplied by 40 and the decimals of the factor.\<close>

definition far_above :: "int \<times> nat \<Rightarrow> VolumeAnomaly \<Rightarrow> bool" where
  "far_above factor v \<longleftrightarrow>
     40 * va_out v * 10 ^ snd factor >
     20 * va_med2 v * 10 ^ snd factor + fst factor * max (max (10 * va_mad4 v) (2 * va_med2 v)) (40 * 1048576)"

definition DetectVolumeAnomalies ::
  "'e env_scheme \<Rightarrow> instant \<Rightarrow> int \<Rightarrow> int \<Rightarrow> int \<Rightarrow> int \<times> nat \<Rightarrow> rollup_db \<Rightarrow> VolumeAnomaly list dbres" where
  "DetectVolumeAnomalies e hour days minSamples minBytes factor d =
     bindE (int4_arg days) (\<lambda>_. db_read e [''DetectVolumeAnomalies'']
       (take 100 (sort_key (\<lambda>v. - va_out v)
         (filter (\<lambda>v. va_samples v > 0 \<and> va_samples v \<ge> minSamples \<and> va_out v \<ge> minBytes \<and> far_above factor v)
           (map (volume_stats hour days d) (filter (\<lambda>x. snd (fst x) = hour) (host_hourly d)))))))"

record NewHost =
  nh_host :: addr
  nh_first :: instant
  nh_bytes :: int

text \<open>Nothing is reported before the roll-ups reach back far enough.\<close>

definition DetectNewHosts :: "'e env_scheme \<Rightarrow> instant \<Rightarrow> duration \<Rightarrow> rollup_db \<Rightarrow> NewHost list dbres" where
  "DetectNewHosts e since minHistory d =
     bindE (db_read e [''DetectNewHosts'', ''oldest''] ()) (\<lambda>_.
       if host_hourly d = [] \<or> now_of e - first_of (\<lambda>x. snd (fst x)) (host_hourly d) < minHistory then Inr []
       else db_read e [''DetectNewHosts'']
         (take 100 (sort_key (\<lambda>n. - nh_first n)
           (filter (\<lambda>n. nh_first n \<ge> since)
             (map (\<lambda>(h, g). \<lparr>nh_host = h, nh_first = first_of (\<lambda>x. snd (fst x)) g,
                      nh_bytes = sum_of (\<lambda>x. hr_in (snd x) + hr_out (snd x)) g\<rparr>)
               (group_rows (\<lambda>x. fst (fst x)) (host_hourly d)))))))"

section \<open>New destinations\<close>

record NewDestination =
  nd_host :: addr
  nd_peer :: addr
  nd_asn :: "string option"
  nd_as_org :: "string option"
  nd_country :: "string option"
  nd_bytes :: int
  nd_reasons :: "string list"
  nd_days :: int

text \<open>The past of a host: peers and days of the look-back, today excluded.\<close>

definition peer_history :: "'e env_scheme \<Rightarrow> int \<Rightarrow> rollup_db \<Rightarrow> addr \<Rightarrow> (addr \<times> instant) list" where
  "peer_history e days d h =
     (let today = now_of e div Day in
      map (\<lambda>x. snd (fst x)) (filter (\<lambda>x. fst (fst x) = h \<and> snd (snd (fst x)) < today \<and> snd (snd (fst x)) \<ge> today - days) (host_peer_daily d)))"

definition asn_of :: "'x intel_db_scheme \<Rightarrow> addr \<Rightarrow> string option" where
  "asn_of d ip = Option.bind (info_of d ip) ii_asn"

definition interesting :: "int \<Rightarrow> 'x intel_db_scheme \<Rightarrow> addr \<Rightarrow> addr \<Rightarrow> string list" where
  "interesting minMal d h p =
     (case info_of d p of None \<Rightarrow> []
      | Some i \<Rightarrow>
          (if ii_hosting i = Some True then [''hosting''] else []) @
          (if ii_proxy i = Some True then [''proxy''] else []) @
          (if malicious_of i \<ge> minMal then [''virustotal''] else []) @
          (if listed_rows d p \<noteq> [] then [''listed''] else []) @
          (if flagged_sources d p \<noteq> [] then [''reputation''] else []) @
          (if list_ex (\<lambda>n. nk_ip n = h \<and> nk_kind n = ''iot'') (nicks d) then [''iot''] else []))"

definition known_network :: "'x intel_db_scheme \<Rightarrow> (addr \<times> instant) list \<Rightarrow> addr \<Rightarrow> string \<Rightarrow> bool" where
  "known_network d hist p asn \<longleftrightarrow> list_ex (\<lambda>x. fst x = p \<or> asn_of d (fst x) = Some asn) hist"

definition new_destination ::
  "'e env_scheme \<Rightarrow> int \<Rightarrow> int \<Rightarrow> int \<Rightarrow> 'x intel_db_scheme \<Rightarrow> rollup_db \<Rightarrow> (addr \<times> addr) \<times> crossing list \<Rightarrow> NewDestination option" where
  "new_destination e days minMal minHistory d rd kg =
     (case kg of ((h, p), g) \<Rightarrow>
        (let hist = peer_history e days rd h; depth = distinct_count snd hist; why = interesting minMal d h p in
         case info_of d p of None \<Rightarrow> None
         | Some i \<Rightarrow>
             (case ii_asn i of None \<Rightarrow> None
              | Some asn \<Rightarrow>
                  if depth > 0 \<and> depth \<ge> minHistory \<and> \<not> known_network d hist p asn \<and> why \<noteq> [] then
                    Some \<lparr>nd_host = h, nd_peer = p, nd_asn = Some asn, nd_as_org = ii_as_org i, nd_country = ii_country_code i,
                      nd_bytes = sum_of cx_bytes g, nd_reasons = why, nd_days = depth\<rparr>
                  else None)))"

definition DetectNewDestinations ::
  "'e env_scheme \<Rightarrow> Window \<Rightarrow> prefix list \<Rightarrow> int \<Rightarrow> int \<Rightarrow> int \<Rightarrow> flow list \<Rightarrow> 'x intel_db_scheme \<Rightarrow> rollup_db \<Rightarrow> NewDestination list dbres" where
  "DetectNewDestinations e w nets days minMal minHistory acct d rd =
     bindE (int4_arg days) (\<lambda>_. bindE (int4_arg minMal) (\<lambda>_. db_read e [''DetectNewDestinations'']
       (take 200 (sort_key (\<lambda>n. - nd_bytes n)
         (List.map_filter (new_destination e days minMal minHistory d rd)
           (group_rows pair_of (crossings nets (filter (in_window w) acct))))))))"

section \<open>Beacons\<close>

text \<open>The gap is the mean of the gaps, in minutes: \<open>total / (count * Minute)\<close>; the coefficient of variation is
  kept as its square.\<close>

record Beacon =
  be_host :: addr
  be_peer :: addr
  be_contacts :: int
  be_gap :: "int \<times> int"
  be_cv2 :: "int \<times> int"
  be_bytes :: int
  be_port :: int
  be_first :: instant
  be_last :: instant

text \<open>The square of \<open>stddev_samp(x) / avg(x)\<close> as a fraction, 0 where PostgreSQL yields \<open>NULL\<close>; the values are not
  negative.\<close>

definition cv_square :: "int list \<Rightarrow> int \<times> int" where
  "cv_square xs =
     (let k = int (length xs); s = sum_of (\<lambda>x. x) xs; q = sum_of (\<lambda>x. x * x) xs in
      if k < 2 \<or> s = 0 then (0, 1) else (k * (k * q - s * s), (k - 1) * (s * s)))"

definition cv_le :: "int list \<Rightarrow> int \<times> nat \<Rightarrow> bool" where
  "cv_le xs l \<longleftrightarrow> 0 \<le> fst l \<and> fst (cv_square xs) * 10 ^ (2 * snd l) \<le> fst l * fst l * snd (cv_square xs)"

text \<open>One contact of a pair per instant: its bytes and its lowest port.\<close>

definition beacon_flow :: "Window \<Rightarrow> prefix list \<Rightarrow> string list \<Rightarrow> flow \<Rightarrow> bool" where
  "beacon_flow w nets exempt f \<longleftrightarrow>
     in_window w f \<and> tcp_udp f \<and> outbound nets f \<and> low_port f \<notin> {53, 123, 67, 68, 1900, 5353} \<and>
     AddrString (ip_src f) \<notin> set exempt"

definition contacts :: "flow list \<Rightarrow> (instant \<times> int \<times> int) list" where
  "contacts fs = sort_key fst (map (\<lambda>(t, g). (t, sum_of bytes g, first_of low_port g)) (group_rows stamp fs))"

fun gaps :: "int list \<Rightarrow> int list" where
  "gaps (s # t # ts) = (t - s) # gaps (t # ts)"
| "gaps _ = []"

definition beacon :: "(addr \<times> addr) \<times> flow list \<Rightarrow> Beacon" where
  "beacon kg =
     (case kg of ((h, p), fs) \<Rightarrow>
        (let cs = contacts fs; ts = map fst cs; gs = gaps ts in
         \<lparr>be_host = h, be_peer = p, be_contacts = int (length cs), be_gap = (sum_of (\<lambda>x. x) gs, int (length gs) * Minute),
          be_cv2 = cv_square gs, be_bytes = sum_of (\<lambda>c. fst (snd c)) cs, be_port = mode_of (map (\<lambda>c. snd (snd c)) cs),
          be_first = hd ts, be_last = last ts\<rparr>))"

definition regular :: "int \<Rightarrow> int \<times> nat \<Rightarrow> int \<times> nat \<Rightarrow> (addr \<times> addr) \<times> flow list \<Rightarrow> bool" where
  "regular minContacts minGap maxCV kg \<longleftrightarrow>
     (let cs = contacts (snd kg); gs = gaps (map fst cs); bs = map (\<lambda>c. fst (snd c)) cs in
      int (length cs) \<ge> minContacts \<and> gs \<noteq> [] \<and>
      fst minGap * (int (length gs) * Minute) \<le> sum_of (\<lambda>x. x) gs * 10 ^ snd minGap \<and> cv_le gs maxCV \<and>
      (cv_le bs (5, 1) \<or> sum_of (\<lambda>x. x) bs < 5000 * int (length bs)))"

definition DetectBeacons ::
  "'e env_scheme \<Rightarrow> Window \<Rightarrow> prefix list \<Rightarrow> string list \<Rightarrow> int \<Rightarrow> int \<times> nat \<Rightarrow> int \<times> nat \<Rightarrow> flow list \<Rightarrow> Beacon list dbres" where
  "DetectBeacons e w nets exempt minContacts minGap maxCV acct =
     db_read e [''DetectBeacons'']
       (take 100 (sort_key (\<lambda>b. - be_contacts b)
         (map beacon (filter (regular minContacts minGap maxCV)
           (group_rows (\<lambda>f. (ip_src f, ip_dst f)) (filter (beacon_flow w nets exempt) acct))))))"

section \<open>Long-lived connections and fan-out\<close>

record LongLived =
  ll_host :: addr
  ll_peer :: addr
  ll_port :: int
  ll_hours :: int
  ll_bytes :: int
  ll_reasons :: "string list"

definition tunnel_reasons :: "IPInfo \<Rightarrow> string list" where
  "tunnel_reasons i =
     (if ii_hosting i = Some True then [''hosting''] else []) @ (if ii_proxy i = Some True then [''proxy''] else [])"

definition long_lived :: "int \<Rightarrow> 'x intel_db_scheme \<Rightarrow> (addr \<times> addr \<times> int) \<times> flow list \<Rightarrow> LongLived option" where
  "long_lived minHours d kg =
     (case kg of ((h, p, port), g) \<Rightarrow>
        (let hours = distinct_count (\<lambda>f. stamp f div Hour) g in
         case info_of d p of None \<Rightarrow> None
         | Some i \<Rightarrow>
             if hours \<ge> minHours \<and> tunnel_reasons i \<noteq> [] then
               Some \<lparr>ll_host = h, ll_peer = p, ll_port = port, ll_hours = hours, ll_bytes = sum_of bytes g, ll_reasons = tunnel_reasons i\<rparr>
             else None))"

definition DetectLongLived ::
  "'e env_scheme \<Rightarrow> Window \<Rightarrow> prefix list \<Rightarrow> string list \<Rightarrow> int \<Rightarrow> flow list \<Rightarrow> 'x intel_db_scheme \<Rightarrow> LongLived list dbres" where
  "DetectLongLived e w nets exempt minHours acct d =
     db_read e [''DetectLongLived'']
       (take 100 (sort_key (\<lambda>l. - ll_hours l) (sort_key (\<lambda>l. - ll_bytes l)
         (List.map_filter (long_lived minHours d)
           (group_rows (\<lambda>f. (ip_src f, ip_dst f, low_port f))
             (filter (\<lambda>f. in_window w f \<and> tcp_udp f \<and> outbound nets f \<and> AddrString (ip_src f) \<notin> set exempt) acct))))))"

record Fanout =
  fa_host :: addr
  fa_kind :: string
  fa_asns :: int
  fa_peers :: int

definition fanout :: "'x intel_db_scheme \<Rightarrow> string list \<Rightarrow> addr \<times> (addr \<times> addr) list \<Rightarrow> Fanout option" where
  "fanout d kinds kg =
     (case find (\<lambda>n. nk_ip n = fst kg \<and> nk_kind n \<in> set kinds) (nicks d) of None \<Rightarrow> None
      | Some n \<Rightarrow>
          Some \<lparr>fa_host = fst kg, fa_kind = nk_kind n,
            fa_asns = int (length (remdups (List.map_filter (\<lambda>x. asn_of d (snd x)) (snd kg)))),
            fa_peers = distinct_count snd (snd kg)\<rparr>)"

definition DetectIoTFanout ::
  "'e env_scheme \<Rightarrow> Window \<Rightarrow> prefix list \<Rightarrow> string list \<Rightarrow> int \<Rightarrow> flow list \<Rightarrow> 'x intel_db_scheme \<Rightarrow> Fanout list dbres" where
  "DetectIoTFanout e w nets kinds minASNs acct d =
     db_read e [''DetectIoTFanout'']
       (take 100 (sort_key (\<lambda>x. - fa_asns x)
         (filter (\<lambda>x. fa_asns x \<ge> minASNs)
           (List.map_filter (fanout d kinds)
             (group_rows fst (remdups (map pair_of (crossings nets (filter (in_window w) acct)))))))))"

end
