(* ===== verification/Clock.thy ===== *)
theory Clock
  imports Prelude
begin

text \<open>
  The civil calendar and the layouts in which the backend prints instants (\<open>time.Time.Format\<close>, and
  \<open>MarshalJSON\<close> for the details of findings). Days are counted from 1970-01-01. The calendar is computed in
  eras of 400 years that start on the first of March, as in Go's \<open>time\<close> package.
\<close>

text \<open>Year, month and day of the month.\<close>

definition civil :: "int \<Rightarrow> int \<times> int \<times> int" where
  "civil days =
     (let z = days + 719468; doe = z mod 146097;
          yoe = (doe - doe div 1460 + doe div 36524 - doe div 146096) div 365;
          doy = doe - (365 * yoe + yoe div 4 - yoe div 100);
          mp = (5 * doy + 2) div 153;
          m = (if mp < 10 then mp + 3 else mp - 9)
      in (yoe + z div 146097 * 400 + (if m \<le> 2 then 1 else 0), m, doy - (153 * mp + 2) div 5 + 1))"

definition clock_hour :: "instant \<Rightarrow> int" where "clock_hour t = t div Hour mod 24"
definition clock_minute :: "instant \<Rightarrow> int" where "clock_minute t = t div Minute mod 60"
definition clock_second :: "instant \<Rightarrow> int" where "clock_second t = t div Second mod 60"

definition zero_pad :: "nat \<Rightarrow> int \<Rightarrow> string" where
  "zero_pad k n = (let s = show_nat (nat \<bar>n\<bar>) in (if n < 0 then ''-'' else []) @ replicate (k - length s) CHR ''0'' @ s)"

definition month_names :: "string list" where
  "month_names = [''Jan'', ''Feb'', ''Mar'', ''Apr'', ''May'', ''Jun'', ''Jul'', ''Aug'', ''Sep'', ''Oct'', ''Nov'', ''Dec'']"

text \<open>The layouts, of an instant that has been shifted to its zone already.\<close>

definition format_hour_key :: "instant \<Rightarrow> string" where
  "format_hour_key t = (case civil (t div Day) of (y, m, d) \<Rightarrow> zero_pad 4 y @ zero_pad 2 m @ zero_pad 2 d @ zero_pad 2 (clock_hour t))"

definition format_clock :: "instant \<Rightarrow> string" where
  "format_clock t = zero_pad 2 (clock_hour t) @ '':'' @ zero_pad 2 (clock_minute t)"

definition format_day_clock :: "instant \<Rightarrow> string" where
  "format_day_clock t =
     (case civil (t div Day) of (y, m, d) \<Rightarrow> month_names ! nat (m - 1) @ '' '' @ Itoa d @ '' '' @ format_clock t)"

text \<open>RFC 3339 with the nanoseconds that are not zero, as \<open>MarshalJSON\<close> writes it.\<close>

definition format_fraction :: "instant \<Rightarrow> string" where
  "format_fraction t =
     (let s = TrimRight {CHR ''0''} (zero_pad 9 (t mod Second)) in if s = [] then [] else CHR ''.'' # s)"

definition format_offset :: "duration \<Rightarrow> string" where
  "format_offset off =
     (if off = 0 then ''Z''
      else let m = \<bar>off\<bar> div Minute in (if off < 0 then ''-'' else ''+'') @ zero_pad 2 (m div 60) @ '':'' @ zero_pad 2 (m mod 60))"

definition format_rfc3339 :: "duration \<Rightarrow> instant \<Rightarrow> string" where
  "format_rfc3339 off t =
     (let l = t + off in
      case civil (l div Day) of (y, m, d) \<Rightarrow>
        zero_pad 4 y @ ''-'' @ zero_pad 2 m @ ''-'' @ zero_pad 2 d @ ''T'' @ format_clock l @ '':'' @ zero_pad 2 (clock_second l) @
        format_fraction l @ format_offset off)"

section \<open>Reading time stamps\<close>

text \<open>\<open>time.Parse\<close> for the layouts of RFC 3339, with an offset written with a colon or without. The hour may have one digit; a fraction of a second may be
  missing and its digits after the ninth are ignored.\<close>

definition getnum :: "bool \<Rightarrow> string \<Rightarrow> (int \<times> string) option" where
  "getnum two s =
     (case s of
        a # b # r \<Rightarrow>
          if \<not> is_digit a then None
          else if is_digit b then Some (int (dec_val [a, b]), r)
          else if two then None else Some (int (dec_val [a]), b # r)
      | [a] \<Rightarrow> if is_digit a \<and> \<not> two then Some (int (dec_val [a]), []) else None
      | [] \<Rightarrow> None)"

definition getyear :: "string \<Rightarrow> (int \<times> string) option" where
  "getyear s = (if length s \<ge> 4 \<and> list_all is_digit (take 4 s) then Some (int (dec_val (take 4 s)), drop 4 s) else None)"

definition skip :: "char \<Rightarrow> string \<Rightarrow> string option" where
  "skip ch s = (case s of a # r \<Rightarrow> if a = ch then Some r else None | [] \<Rightarrow> None)"

definition in_range :: "int \<Rightarrow> int \<Rightarrow> (int \<times> string) option \<Rightarrow> (int \<times> string) option" where
  "in_range lo hi r = Option.bind r (\<lambda>x. if lo \<le> fst x \<and> fst x \<le> hi then r else None)"

definition getfraction :: "string \<Rightarrow> duration \<times> string" where
  "getfraction s =
     (case s of
        p # r \<Rightarrow>
          (let ds = takeWhile is_digit r in
           if (p = CHR ''.'' \<or> p = CHR '','') \<and> ds \<noteq> []
           then (let d = take 9 ds in (int (dec_val d) * 10 ^ (9 - length d), dropWhile is_digit r)) else (0, s))
      | [] \<Rightarrow> (0, []))"

definition getoffset :: "bool \<Rightarrow> string \<Rightarrow> (duration \<times> string) option" where
  "getoffset colon s =
     (if colon \<and> s \<noteq> [] \<and> hd s = CHR ''Z'' then Some (0, tl s)
      else
        Option.bind (in_range 0 24 (getnum True (take 2 (drop 1 s)))) (\<lambda>(h, _).
        Option.bind (if colon then skip CHR '':'' (drop 3 s) else Some (drop 3 s)) (\<lambda>r.
        Option.bind (in_range 0 60 (getnum True r)) (\<lambda>(m, r').
          let off = h * Hour + m * Minute in
          if hd s = CHR ''+'' then Some (off, r') else if hd s = CHR ''-'' then Some (- off, r') else None))))"

definition leap :: "int \<Rightarrow> bool" where
  "leap y \<longleftrightarrow> y mod 4 = 0 \<and> (y mod 100 \<noteq> 0 \<or> y mod 400 = 0)"

definition days_in :: "int \<Rightarrow> int \<Rightarrow> int" where
  "days_in y m = (if m = 2 then if leap y then 29 else 28 else if m = 4 \<or> m = 6 \<or> m = 9 \<or> m = 11 then 30 else 31)"

text \<open>The number of a date, counted from 1970-01-01.\<close>

definition days_of :: "int \<Rightarrow> int \<Rightarrow> int \<Rightarrow> int" where
  "days_of y m d =
     (let y' = (if m \<le> 2 then y - 1 else y); yoe = y' mod 400; mp = (m + 9) mod 12
      in y' div 400 * 146097 + yoe * 365 + yoe div 4 - yoe div 100 + (153 * mp + 2) div 5 + d - 1 - 719468)"

definition parse_date :: "string \<Rightarrow> (int \<times> string) option" where
  "parse_date s =
     Option.bind (getyear s) (\<lambda>(y, s1). Option.bind (skip CHR ''-'' s1) (\<lambda>s2.
     Option.bind (in_range 1 12 (getnum True s2)) (\<lambda>(m, s3). Option.bind (skip CHR ''-'' s3) (\<lambda>s4.
     Option.bind (getnum True s4) (\<lambda>(d, s5).
       if 1 \<le> d \<and> d \<le> days_in y m then Some (days_of y m d, s5) else None)))))"

definition parse_clock :: "string \<Rightarrow> (duration \<times> string) option" where
  "parse_clock s =
     Option.bind (in_range 0 23 (getnum False s)) (\<lambda>(h, s1). Option.bind (skip CHR '':'' s1) (\<lambda>s2.
     Option.bind (in_range 0 59 (getnum True s2)) (\<lambda>(mi, s3). Option.bind (skip CHR '':'' s3) (\<lambda>s4.
     Option.bind (in_range 0 59 (getnum True s4)) (\<lambda>(sec, s5).
       let (ns, s6) = getfraction s5 in Some (h * Hour + mi * Minute + sec * Second + ns, s6))))))"

definition parse_time :: "bool \<Rightarrow> string \<Rightarrow> instant option" where
  "parse_time colon s =
     Option.bind (parse_date s) (\<lambda>(day, s1). Option.bind (skip CHR ''T'' s1) (\<lambda>s2.
     Option.bind (parse_clock s2) (\<lambda>(clock, s3). Option.bind (getoffset colon s3) (\<lambda>(off, s4).
       if s4 = [] then Some (day * Day + clock - off) else None))))"

section \<open>Lemmas\<close>

text \<open>Dates around the ends of the calendar's cycles.\<close>

lemma civil_epoch: "civil 0 = (1970, 1, 1)" "civil 59 = (1970, 3, 1)" "civil 11016 = (2000, 2, 29)" "civil (- 1) = (1969, 12, 31)"
  by code_simp+

end
