(* ===== verification/Builtin.thy ===== *)
theory Builtin
  imports Detect Rules Clock
begin

text \<open>
  The built-in rules (\<open>internal/rules/builtin.go\<close>): for each its name, defaults, parameters and detector, which
  runs a statement of \<open>Detect\<close> and words its rows as findings. The tables the detectors read extend the
  \<open>world\<close> of the engine. \<open>w_zone\<close> is the server's time zone: the offset from UTC at an instant.
\<close>

record sight = world +
  w_acct :: "flow list"
  w_intel :: intel_db
  w_rollup :: rollup_db
  w_zone :: "instant \<Rightarrow> duration"

section \<open>Printing numbers\<close>

text \<open>\<open>fmt\<close> prints a float with a fixed number of decimals, rounding half to even.\<close>

definition round_half_even :: "int \<Rightarrow> int \<Rightarrow> int" where
  "round_half_even m n =
     (let q = m div n; r = m mod n in if 2 * r < n \<or> (2 * r = n \<and> even q) then q else q + 1)"

definition show_fixed :: "nat \<Rightarrow> int \<Rightarrow> string" where
  "show_fixed k v =
     (let a = nat \<bar>v\<bar>; r = show_nat (a mod 10 ^ k) in
      (if v < 0 then ''-'' else []) @ show_nat (a div 10 ^ k) @
      (if k = 0 then [] else CHR ''.'' # replicate (k - length r) CHR ''0'' @ r))"

text \<open>\<open>%.kf\<close> of \<open>m / n\<close>.\<close>

definition fixed_ratio :: "nat \<Rightarrow> int \<Rightarrow> int \<Rightarrow> string" where
  "fixed_ratio k m n = (if m < 0 then ''-'' else []) @ show_fixed k (round_half_even (\<bar>m\<bar> * 10 ^ k) n)"

text \<open>The integer square root, and hundredths of the square root of a fraction.\<close>

fun isqrt :: "nat \<Rightarrow> nat" where
  "isqrt n = (if n = 0 then 0 else let s = 2 * isqrt (n div 4) in if (s + 1) * (s + 1) \<le> n then s + 1 else s)"

declare isqrt.simps [simp del]

definition root_hundredths :: "int \<times> int \<Rightarrow> int" where
  "root_hundredths q =
     (let r = int (isqrt (nat (40000 * fst q div snd q))); h = r div 2 in
      if even r then h else if r * r * snd q = 40000 * fst q \<and> even h then h else h + 1)"

definition fmtBytes :: "int \<Rightarrow> string" where
  "fmtBytes n =
     (if n < 1024 then fixed_ratio 1 n 1 @ '' B''
      else if n < 1024 ^ 2 then fixed_ratio 1 n 1024 @ '' KB''
      else if n < 1024 ^ 3 then fixed_ratio 1 n (1024 ^ 2) @ '' MB''
      else if n < 1024 ^ 4 then fixed_ratio 1 n (1024 ^ 3) @ '' GB''
      else fixed_ratio 1 n (1024 ^ 4) @ '' TB'')"

section \<open>Rules and findings\<close>

definition blank :: Finding where
  "blank = \<lparr>f_rule = [], f_severity = [], f_host = [], f_peer = [], f_port = 0, f_title = [], f_details = [], f_key = []\<rparr>"

definition opt_json :: "string option \<Rightarrow> json" where
  "opt_json s = (case s of None \<Rightarrow> JNull | Some x \<Rightarrow> JStr x)"

definition strs :: "string list \<Rightarrow> json" where "strs ss = JArr (map JStr ss)"

definition findings :: "('a \<Rightarrow> Finding) \<Rightarrow> 'a list dbres \<Rightarrow> Finding list dbres" where
  "findings f r = bindE r (\<lambda>hs. Inr (map f hs))"

definition nets_of :: "Config \<Rightarrow> prefix list" where "nets_of c = LocalNetworks c"

definition gatewayList :: "Config \<Rightarrow> string list" where
  "gatewayList c = map AddrString (Gateways c)"

definition rule ::
  "string \<Rightarrow> string \<Rightarrow> string \<Rightarrow> duration \<Rightarrow> duration \<Rightarrow> Param list \<Rightarrow> string \<Rightarrow> 'x detector \<Rightarrow> 'x Rule" where
  "rule name title sev interval win ps descr run =
     \<lparr>r_name = name, r_title = title, r_description = descr, r_severity = sev, r_interval = interval, r_window = win,
      r_params = ps, r_run = run, r_custom = None, r_base = None\<rparr>"

definition param :: "string \<Rightarrow> string \<Rightarrow> json \<Rightarrow> Param" where
  "param name descr def = \<lparr>pa_name = name, pa_description = descr, pa_default = def\<rparr>"

section \<open>The rules\<close>

definition ids_rule :: "'x sight_ext Rule" where
  "ids_rule = rule ''ids'' ''Suricata IDS alert'' ''warning'' (365 * 24 * Hour) (Minute)
    [param ''min_suricata_severity'' ''Ignore events with a Suricata severity number above this (1 = high, 3 = low)'' (JNum 3)]
    (''Alerts received from Suricata (EVE over syslog). Suricata severity 1 maps to critical, 2 to '' @
     ''warning, 3+ to info. Disable here to keep IDS events out of the alert list (they are still '' @
     ''stored).'')
    (\<lambda>c env p w s. Inr [])"

definition direction :: "ThreatHit \<Rightarrow> string" where
  "direction h = (if \<not> tk_in h then ''outbound only (unanswered)'' else if \<not> tk_out h then ''inbound only'' else ''bidirectional'')"

definition threat_finding :: "ThreatHit \<Rightarrow> Finding" where
  "threat_finding h =
     (let a = AddrString (tk_host h); b = AddrString (tk_peer h) in
      blank\<lparr>f_host := a, f_peer := b, f_title := a @ '' talked to '' @ b @ '' (listed: '' @ Join (tk_lists h) '', '' @ '')'',
        f_details := [(''lists'', strs (tk_lists h)), (''bytes'', JNum (tk_bytes h)), (''flows'', JNum (tk_flows h)),
                      (''direction'', JStr (direction h))]\<rparr>)"

definition threat_feed_rule :: "'x sight_ext Rule" where
  "threat_feed_rule = rule ''threat_feed'' ''Traffic with threat-listed IP'' ''critical'' (Minute) (10 * Minute)
    []
    (''A local host exchanged traffic with an address on a threat intelligence feed (botnet C2, Tor '' @
     ''exit, spam/attack sources).'')
    (\<lambda>c env p w s. findings threat_finding (DetectThreatListHits env w (nets_of c) (w_acct s) (w_intel s)))"

definition reputation_finding :: "params \<Rightarrow> ReputationHit \<Rightarrow> Finding" where
  "reputation_finding p h =
     (let a = AddrString (rh_host h); b = AddrString (rh_peer h) in
      blank\<lparr>f_host := a, f_peer := b, f_title := a @ '' talked to flagged '' @ b @ '' ('' @ Join (rh_sources h) '', '' @ '')'',
        f_details := [(''sources'', strs (rh_sources h)), (''vt_malicious'', JNum (rh_malicious h)), (''vt_suspicious'', JNum (rh_suspicious h)),
                      (''bytes'', JNum (rh_bytes h)), (''flows'', JNum (rh_flows h)), (''country'', opt_json (rh_country h)),
                      (''as_org'', opt_json (rh_as_org h)), (''inbound'', JBool (rh_in h)), (''outbound'', JBool (rh_out h))],
        f_severity := (if rh_malicious h \<ge> p_Int p ''critical_malicious'' then ''critical'' else [])\<rparr>)"

definition reputation_rule :: "'x sight_ext Rule" where
  "reputation_rule = rule ''reputation'' ''Traffic with flagged IP'' ''warning'' (Minute) (10 * Minute)
    [param ''min_malicious'' ''VirusTotal engines reporting malicious before the peer counts as flagged'' (JNum 2),
     param ''critical_malicious'' ''Engines reporting malicious for critical severity'' (JNum 5)]
    (''A local host exchanged traffic with an address flagged by VirusTotal (>= min_malicious engines), '' @
     ''AbuseIPDB or GreyNoise. Escalates to critical when many engines agree.'')
    (\<lambda>c env p w s. findings (reputation_finding p) (DetectReputationHits env w (nets_of c) (p_Int p ''min_malicious'') (w_acct s) (w_intel s)))"

definition port_service :: "int \<Rightarrow> string" where
  "port_service port = (if ServiceName port = [] then Itoa port else ServiceName port)"

definition port_finding :: "int list \<Rightarrow> PortUse \<Rightarrow> Finding" where
  "port_finding crit u =
     (let a = AddrString (pu_host u); top = AddrString (pu_top u); svc = port_service (pu_port u); proto = ProtoName (pu_proto u) in
      blank\<lparr>f_host := a, f_port := pu_port u,
        f_title := a @ '' connected out on '' @ Itoa (pu_port u) @ ''/'' @ proto @ '' ('' @ svc @ '') to '' @ Itoa (pu_peers u) @
          '' peer(s), e.g. '' @ top,
        f_details := [(''port'', JNum (pu_port u)), (''proto'', JStr proto), (''service'', JStr svc), (''peers'', JNum (pu_peers u)),
                      (''top_peer'', JStr top), (''bytes'', JNum (pu_bytes u)), (''flows'', JNum (pu_flows u))],
        f_severity := (if pu_port u \<in> set crit then ''critical'' else [])\<rparr>)"

definition suspicious_port_rule :: "'x sight_ext Rule" where
  "suspicious_port_rule = rule ''suspicious_port'' ''Suspicious outbound service'' ''warning'' (Minute) (10 * Minute)
    [param ''ports'' ''Ports that raise a warning'' (JArr [JNum 23, JNum 445, JNum 3389, JNum 25, JNum 6667, JNum 1080, JNum 5900, JNum 135, JNum 139]),
     param ''critical_ports'' ''Ports that raise a critical alert (mining pools, Tor)'' (JArr [JNum 3333, JNum 4444, JNum 14444, JNum 5555, JNum 7777, JNum 9001, JNum 9030, JNum 9050])]
    (''A local host connected out to a service that is rarely legitimate from a LAN device: Telnet, '' @
     ''SMB, RDP, SMTP, IRC, SOCKS, VNC. Mining pools and Tor ports are critical.'')
    (\<lambda>c env p w s. findings (port_finding (p_Ints p ''critical_ports''))
       (DetectSuspiciousPorts env w (nets_of c) (p_Ints p ''ports'' @ p_Ints p ''critical_ports'') (w_acct s)))"

text \<open>An inbound scan is attributed to the local target, any other one to the scanner.\<close>

definition scan_finding :: "ScanHit \<Rightarrow> Finding" where
  "scan_finding h =
     (let src = AddrString (sh_src h); dst = (case sh_dst h of None \<Rightarrow> [] | Some t \<Rightarrow> AddrString t); swap = \<not> sh_src_local h \<and> sh_dst_local h in
      blank\<lparr>f_host := (if swap then dst else src), f_peer := (if swap then src else dst), f_key := ''scan:'' @ src,
        f_title := src @ '' scanned '' @ Itoa (sh_ports h) @ '' ports on '' @ dst,
        f_details := [(''scanner'', JStr src), (''target'', JStr dst), (''ports'', JNum (sh_ports h)), (''flows'', JNum (sh_flows h)),
                      (''avg_packets'', JRatio (sh_packets h) (sh_flows h)), (''scanner_local'', JBool (sh_src_local h))]\<rparr>)"

definition port_scan_rule :: "'x sight_ext Rule" where
  "port_scan_rule = rule ''port_scan'' ''Port scan'' ''warning'' (Minute) (5 * Minute)
    [param ''min_ports'' ''Distinct destination ports within the window'' (JNum 20),
     param ''max_avg_packets'' ''Average packets per flow at or below which flows count as probes'' (JNum 3)]
    (''One source probed many distinct ports on a single target with tiny flows (SYN-only). Covers '' @
     ''inbound recon on exposed services and infected devices probing the LAN.'')
    (\<lambda>c env p w s. findings scan_finding (DetectPortScans env w (nets_of c) (p_Int p ''min_ports'') (p_Float p ''max_avg_packets'') (w_acct s)))"

definition sweep_finding :: "ScanHit \<Rightarrow> Finding" where
  "sweep_finding h =
     (let src = AddrString (sh_src h) in
      blank\<lparr>f_host := (if sh_src_local h then src else []), f_peer := (if sh_src_local h then [] else src),
        f_title := src @ '' swept '' @ Itoa (sh_hosts h) @ '' hosts (mostly port '' @ Itoa (sh_top_port h) @ '')'',
        f_details := [(''scanner'', JStr src), (''hosts'', JNum (sh_hosts h)), (''flows'', JNum (sh_flows h)),
                      (''avg_packets'', JRatio (sh_packets h) (sh_flows h)), (''top_port'', JNum (sh_top_port h)),
                      (''scanner_local'', JBool (sh_src_local h))]\<rparr>)"

definition host_scan_rule :: "'x sight_ext Rule" where
  "host_scan_rule = rule ''host_scan'' ''Host sweep'' ''warning'' (Minute) (5 * Minute)
    [param ''min_hosts'' ''Distinct destination hosts within the window'' (JNum 25),
     param ''max_avg_packets'' ''Average packets per flow at or below which flows count as probes'' (JNum 3)]
    (''One source contacted many distinct hosts with tiny flows: network sweep, worm-like propagation, '' @
     ''or a device whose outbound attempts are being blocked.'')
    (\<lambda>c env p w s. findings sweep_finding (DetectHostScans env w (nets_of c) (p_Int p ''min_hosts'') (p_Float p ''max_avg_packets'') (w_acct s)))"

definition brute_finding :: "BruteHit \<Rightarrow> Finding" where
  "brute_finding h =
     (let src = AddrString (bh_src h); dst = AddrString (bh_dst h); svc = ServiceName (bh_port h) in
      blank\<lparr>f_host := dst, f_peer := src, f_port := bh_port h,
        f_title := src @ '' hammered '' @ dst @ '':'' @ Itoa (bh_port h) @ ''/'' @ ProtoName (bh_proto h) @ '' '' @ svc @
          '' ('' @ Itoa (bh_flows h) @ '' connections)'',
        f_details := [(''source'', JStr src), (''target'', JStr dst), (''port'', JNum (bh_port h)), (''service'', JStr svc),
                      (''flows'', JNum (bh_flows h)), (''avg_bytes'', JRatio (bh_bytes h) (bh_flows h))]\<rparr>)"

definition brute_force_rule :: "'x sight_ext Rule" where
  "brute_force_rule = rule ''brute_force'' ''Brute force on exposed service'' ''warning'' (Minute) (5 * Minute)
    [param ''min_flows'' ''Connections from one source to one local service within the window'' (JNum 30),
     param ''max_avg_bytes'' ''Average bytes per connection at or below which they count as attempts'' (JNum 3000)]
    (''An external address opened many short connections to one local service (SSH/HTTPS/RDP port '' @
     ''forward) within the window.'')
    (\<lambda>c env p w s. findings brute_finding (DetectBruteForce env w (nets_of c) (p_Int p ''min_flows'') (p_Float p ''max_avg_bytes'') (w_acct s)))"

definition one_way_finding :: "OneWayHit \<Rightarrow> Finding" where
  "one_way_finding h =
     (let a = AddrString (ow_host h); sample = map AddrString (ow_sample h) in
      blank\<lparr>f_host := a,
        f_title := a @ '' has '' @ Itoa (ow_peers h) @ '' unanswered external peers (e.g. '' @ Join sample '', '' @ '')'',
        f_details := [(''peers'', JNum (ow_peers h)), (''flows'', JNum (ow_flows h)), (''sample'', strs sample)]\<rparr>)"

definition flagged_hint :: string where
  "flagged_hint = ''unanswered attempts toward known-bad infrastructure often mean malware whose callbacks are being blocked''"

definition flagged_finding :: "OneWayFlagged \<Rightarrow> Finding" where
  "flagged_finding h =
     (let a = AddrString (of_host h); b = AddrString (of_peer h) in
      blank\<lparr>f_host := a, f_peer := b, f_severity := ''critical'', f_key := ''flagged'',
        f_title := a @ '' tried to reach flagged '' @ b @ '' with no reply ('' @ Join (of_reasons h) '', '' @ '')'',
        f_details := [(''reasons'', strs (of_reasons h)), (''flows'', JNum (of_flows h)), (''hint'', JStr flagged_hint)]\<rparr>)"

definition one_way_rule :: "'x sight_ext Rule" where
  "one_way_rule = rule ''one_way'' ''Unanswered outbound connections'' ''warning'' (2 * Minute) (15 * Minute)
    [param ''min_peers'' ''Distinct unanswered external peers within the window'' (JNum 10),
     param ''min_malicious'' ''VirusTotal engines for a peer to count as flagged'' (JNum 2)]
    (''A local host sent traffic to many external peers that never replied within the window: blocked '' @
     ''by the firewall, dead C2 infrastructure, or scanning. Unanswered attempts toward listed/flagged '' @
     ''peers are critical.'')
    (\<lambda>c env p w s.
       bindE (findings one_way_finding (DetectOneWay env w (nets_of c) (p_Int p ''min_peers'') (w_acct s))) (\<lambda>out.
       bindE (findings flagged_finding (DetectOneWayFlagged env w (nets_of c) (p_Int p ''min_malicious'') (w_acct s) (w_intel s))) (\<lambda>flagged.
       Inr (out @ flagged))))"

definition dns_finding :: "DNSUse \<Rightarrow> Finding" where
  "dns_finding u =
     (let a = AddrString (du_host u); r = AddrString (du_resolver u) in
      blank\<lparr>f_host := a, f_peer := r, f_port := du_port u,
        f_title := a @ '' uses external DNS '' @ r @ '':'' @ Itoa (du_port u) @ '' ('' @ Itoa (du_flows u) @ '' queries)'',
        f_details := [(''resolver'', JStr r), (''port'', JNum (du_port u)), (''flows'', JNum (du_flows u)), (''bytes'', JNum (du_bytes u))]\<rparr>)"

definition dns_resolver_rule :: "'x sight_ext Rule" where
  "dns_resolver_rule = rule ''dns_resolver'' ''DNS bypassing the router'' ''warning'' (2 * Minute) (10 * Minute)
    [param ''allowed_resolvers'' ''External resolvers that are fine (comma-separated IPs)'' (JArr [])]
    (''A local host sent DNS (53) or DNS-over-TLS (853) directly to an external resolver instead of the '' @
     ''router. Configured gateways and allowed resolvers are ignored.'')
    (\<lambda>c env p w s. findings dns_finding
       (DetectExternalDNS env w (nets_of c) (gatewayList c) (p_Strings p ''allowed_resolvers'') (w_acct s)))"

definition dns_volume_finding :: "HostVolume \<Rightarrow> Finding" where
  "dns_volume_finding h =
     (let a = AddrString (hv_host h) in
      blank\<lparr>f_host := a, f_title := a @ '' made '' @ Itoa (hv_flows h) @ '' DNS flows ('' @ fmtBytes (hv_bytes h) @ '') in an hour'',
        f_details := [(''flows'', JNum (hv_flows h)), (''bytes'', JNum (hv_bytes h))]\<rparr>)"

definition dns_volume_rule :: "'x sight_ext Rule" where
  "dns_volume_rule = rule ''dns_volume'' ''Excessive DNS'' ''warning'' (5 * Minute) (Hour)
    [param ''min_flows'' ''DNS flows within the window'' (JNum 3000),
     param ''min_bytes'' ''DNS bytes within the window'' (JNum 5000000)]
    (''A local host generated an unusually large amount of DNS traffic: malware domain generation, DNS '' @
     ''tunnelling, or a misbehaving app.'')
    (\<lambda>c env p w s. findings dns_volume_finding
       (DetectDNSVolume env w (nets_of c) (gatewayList c) (p_Int p ''min_flows'') (p_Int p ''min_bytes'') (w_acct s)))"

definition geo_finding :: "GeoHit \<Rightarrow> Finding" where
  "geo_finding h =
     (let a = AddrString (gh_host h); b = AddrString (gh_peer h) in
      blank\<lparr>f_host := a, f_peer := b, f_title := a @ '' talked to '' @ b @ '' in '' @ opt_default (gh_code h) (gh_country h),
        f_details := [(''country'', JStr (gh_code h)), (''as_org'', opt_json (gh_as_org h)), (''bytes'', JNum (gh_bytes h)),
                      (''flows'', JNum (gh_flows h))]\<rparr>)"

definition geo_policy_rule :: "'x sight_ext Rule" where
  "geo_policy_rule = rule ''geo_policy'' ''Traffic with watched countries'' ''warning'' (2 * Minute) (10 * Minute)
    [param ''countries'' ''ISO country codes to watch (comma-separated); empty disables'' (JArr [])]
    (''A local host exchanged traffic with an address geolocated in a country on the watch list.'')
    (\<lambda>c env p w s.
       if p_Strings p ''countries'' = [] then Inr []
       else findings geo_finding
         (DetectGeo env w (nets_of c) (map (map upper_char) (p_Strings p ''countries'')) (w_acct s) (w_intel s)))"

text \<open>The start of the last full hour.\<close>

definition full_hour :: "instant \<Rightarrow> instant" where
  "full_hour now = now div Hour * Hour - Hour"

definition volume_finding :: "instant \<Rightarrow> VolumeAnomaly \<Rightarrow> Finding" where
  "volume_finding hour v =
     (let a = AddrString (va_host v) in
      blank\<lparr>f_host := a, f_key := format_hour_key hour,
        f_title := a @ '' sent '' @ fmtBytes (va_out v) @ '' in the hour starting '' @ format_clock hour @ '' UTC (baseline '' @
          fmtBytes (if va_med2 v < 0 then - (- va_med2 v div 2) else va_med2 v div 2) @ '')'',
        f_details := [(''hour'', JStr (format_rfc3339 0 hour)), (''bytes_out'', JNum (va_out v)), (''median'', JRatio (va_med2 v) 2),
                      (''mad'', JRatio (va_mad4 v) 4), (''samples'', JNum (va_samples v))]\<rparr>)"

definition volume_anomaly_rule :: "'x sight_ext Rule" where
  "volume_anomaly_rule = rule ''volume_anomaly'' ''Outbound volume anomaly'' ''warning'' (10 * Minute) (Hour)
    [param ''factor'' ''How many MADs above the median counts as anomalous'' (JNum 5),
     param ''min_bytes'' ''Ignore hours below this many bytes out'' (JNum 52428800),
     param ''lookback_days'' ''Days of history used for the baseline'' (JNum 14),
     param ''min_samples'' ''Minimum baseline samples before alerting'' (JNum 5)]
    (''A local host uploaded far more in the last full hour than its own baseline for that hour of day '' @
     ''(median + factor x MAD over the lookback). Possible exfiltration or a device gone rogue.'')
    (\<lambda>c env p w s.
       findings (volume_finding (full_hour (now_of env)))
         (DetectVolumeAnomalies env (full_hour (now_of env)) (p_Int p ''lookback_days'') (p_Int p ''min_samples'') (p_Int p ''min_bytes'')
           (p_Float p ''factor'') (w_rollup s)))"

definition new_host_finding :: "(instant \<Rightarrow> duration) \<Rightarrow> NewHost \<Rightarrow> Finding" where
  "new_host_finding zone h =
     (let a = AddrString (nh_host h); t = nh_first h in
      blank\<lparr>f_host := a, f_title := ''new device '' @ a @ '' first seen '' @ format_day_clock (t + zone t),
        f_details := [(''first_seen'', JStr (format_rfc3339 (zone t) t)), (''bytes'', JNum (nh_bytes h))]\<rparr>)"

definition new_host_rule :: "'x sight_ext Rule" where
  "new_host_rule = rule ''new_host'' ''New device on the network'' ''info'' (5 * Minute) (2 * Hour)
    []
    (''A local address appeared for the first time (requires at least a day of rollup history).'')
    (\<lambda>c env p w s. findings (new_host_finding (w_zone s)) (DetectNewHosts env (Since w) (24 * Hour) (w_rollup s)))"

definition destination_finding :: "NewDestination \<Rightarrow> Finding" where
  "destination_finding h =
     (let a = AddrString (nd_host h); b = AddrString (nd_peer h); asn = opt_default [] (nd_asn h);
          org = (case nd_as_org h of None \<Rightarrow> [] | Some x \<Rightarrow> '' '' @ x) in
      blank\<lparr>f_host := a, f_peer := b, f_key := asn,
        f_title := a @ '' contacted new network '' @ asn @ org @ '' via '' @ b @ '' ('' @ Join (nd_reasons h) '', '' @ '')'',
        f_details := [(''asn'', opt_json (nd_asn h)), (''as_org'', opt_json (nd_as_org h)), (''country'', opt_json (nd_country h)),
                      (''bytes'', JNum (nd_bytes h)), (''reasons'', strs (nd_reasons h)), (''history_days'', JNum (nd_days h))]\<rparr>)"

definition new_destination_rule :: "'x sight_ext Rule" where
  "new_destination_rule = rule ''new_destination'' ''New destination network'' ''warning'' (5 * Minute) (Hour)
    [param ''lookback_days'' ''History window for what counts as known'' (JNum 30),
     param ''min_history_days'' ''Days of history a host needs before this rule applies to it'' (JNum 3),
     param ''min_malicious'' ''VirusTotal engines for a peer to count as flagged'' (JNum 2)]
    (''A host contacted an ASN it never used during the lookback, and the peer is a hosting/proxy '' @
     ''address, threat-listed, reputation-flagged, or the device is tagged IoT.'')
    (\<lambda>c env p w s.
       findings destination_finding
         (DetectNewDestinations env w (nets_of c) (p_Int p ''lookback_days'') (p_Int p ''min_malicious'') (p_Int p ''min_history_days'')
           (w_acct s) (w_intel s) (w_rollup s)))"

definition beacon_finding :: "(instant \<Rightarrow> duration) \<Rightarrow> Beacon \<Rightarrow> Finding" where
  "beacon_finding zone b =
     (let a = AddrString (be_host b); q = AddrString (be_peer b) in
      blank\<lparr>f_host := a, f_peer := q, f_port := be_port b,
        f_title := a @ '' beacons to '' @ q @ '':'' @ Itoa (be_port b) @ '' every ~'' @ fixed_ratio 0 (fst (be_gap b)) (snd (be_gap b)) @
          '' min ('' @ Itoa (be_contacts b) @ '' times, gap CV '' @ show_fixed 2 (root_hundredths (be_cv2 b)) @ '')'',
        f_details := [(''contacts'', JNum (be_contacts b)), (''avg_gap_min'', JRatio (fst (be_gap b)) (snd (be_gap b))),
                      (''gap_cv'', JRoot (fst (be_cv2 b)) (snd (be_cv2 b))), (''avg_bytes'', JRatio (be_bytes b) (be_contacts b)),
                      (''port'', JNum (be_port b)), (''first'', JStr (format_rfc3339 (zone (be_first b)) (be_first b))),
                      (''last'', JStr (format_rfc3339 (zone (be_last b)) (be_last b)))]\<rparr>)"

definition beaconing_rule :: "'x sight_ext Rule" where
  "beaconing_rule = rule ''beaconing'' ''Beaconing'' ''warning'' (30 * Minute) (24 * Hour)
    [param ''min_contacts'' ''Minimum number of contact minutes in the window'' (JNum 24),
     param ''min_gap_minutes'' ''Ignore pairs that talk more often than this (continuous streams)'' (JNum 2),
     param ''max_cv'' ''Maximum coefficient of variation of the gaps (lower = more regular)'' (JDec 2 1)]
    (''A local host contacts the same external peer at regular intervals with near-constant sizes: the '' @
     ''classic command-and-control heartbeat. DNS/NTP/discovery ports are ignored.'')
    (\<lambda>c env p w s.
       findings (beacon_finding (w_zone s))
         (DetectBeacons env w (nets_of c) (gatewayList c) (p_Int p ''min_contacts'') (p_Float p ''min_gap_minutes'') (p_Float p ''max_cv'')
           (w_acct s)))"

definition tunnel_finding :: "LongLived \<Rightarrow> Finding" where
  "tunnel_finding h =
     (let a = AddrString (ll_host h); b = AddrString (ll_peer h) in
      blank\<lparr>f_host := a, f_peer := b, f_port := ll_port h,
        f_title := a @ '' kept '' @ b @ '':'' @ Itoa (ll_port h) @ '' ('' @ Join (ll_reasons h) ''/'' @ '') alive for '' @ Itoa (ll_hours h) @ '' hours'',
        f_details := [(''hours'', JNum (ll_hours h)), (''bytes'', JNum (ll_bytes h)), (''reasons'', strs (ll_reasons h)),
                      (''port'', JNum (ll_port h))]\<rparr>)"

definition long_lived_rule :: "'x sight_ext Rule" where
  "long_lived_rule = rule ''long_lived'' ''Long-lived tunnel'' ''info'' (Hour) (24 * Hour)
    [param ''min_hours'' ''Distinct hours the pair must be active within the window'' (JNum 6)]
    (''A local host kept a connection to a hosting/proxy/VPN address alive for many hours: remote '' @
     ''access tunnel, VPN, or persistent C2 channel.'')
    (\<lambda>c env p w s.
       findings tunnel_finding (DetectLongLived env w (nets_of c) (gatewayList c) (p_Int p ''min_hours'') (w_acct s) (w_intel s)))"

definition fanout_finding :: "Fanout \<Rightarrow> Finding" where
  "fanout_finding h =
     (let a = AddrString (fa_host h) in
      blank\<lparr>f_host := a,
        f_title := a @ '' ('' @ fa_kind h @ '') talked to '' @ Itoa (fa_asns h) @ '' networks / '' @ Itoa (fa_peers h) @ '' peers in 24h'',
        f_details := [(''kind'', JStr (fa_kind h)), (''asns'', JNum (fa_asns h)), (''peers'', JNum (fa_peers h))]\<rparr>)"

definition iot_fanout_rule :: "'x sight_ext Rule" where
  "iot_fanout_rule = rule ''iot_fanout'' ''IoT device talking to many networks'' ''warning'' (30 * Minute) (24 * Hour)
    [param ''kinds'' ''Device kinds this applies to'' (JArr [JStr ''iot'']),
     param ''min_asns'' ''Distinct ASNs within the window'' (JNum 30)]
    (''A device tagged as IoT (or another selected kind) contacted many distinct ASNs. Cameras, plugs '' @
     ''and TVs normally talk to a handful of vendor networks.'')
    (\<lambda>c env p w s.
       findings fanout_finding
         (DetectIoTFanout env w (nets_of c) (p_Strings p ''kinds'') (p_Int p ''min_asns'') (w_acct s) (w_intel s)))"

definition builtinRules :: "'x sight_ext Rule list" where
  "builtinRules =
    [ids_rule, threat_feed_rule, reputation_rule, suspicious_port_rule,
     port_scan_rule, host_scan_rule, brute_force_rule, one_way_rule,
     dns_resolver_rule, dns_volume_rule, geo_policy_rule, volume_anomaly_rule,
     new_host_rule, new_destination_rule, beaconing_rule, long_lived_rule,
     iot_fanout_rule]"

end
