(* ===== verification/NetText.thy ===== *)
theory NetText
  imports NetAddr
begin

text \<open>
  Addresses and their texts: what \<open>Addr.String\<close> (and PostgreSQL's \<open>host(inet)\<close>) prints for an address without
  a zone, \<open>netip.ParseAddr\<close> reads back, for both families, with the ellipsis and with the mapped IPv4 form.
\<close>

section \<open>Hexadecimal groups\<close>

lemma hex_digit_val: "d < 16 \<Longrightarrow> hex_val (hex_digit d) = Some d"
  by (simp add: hex_digit_def hex_val_def Let_def)

lemma is_hex_digit: "d < 16 \<Longrightarrow> is_hex (hex_digit d)"
  by (simp add: is_hex_def hex_digit_val)

lemma not_hex [simp]: "\<not> is_hex CHR '':''" "\<not> is_hex CHR ''.''" "\<not> is_hex CHR ''%''"
  by (simp_all add: is_hex_def hex_val_def)

lemma show_hex_is_hex: "c \<in> set (show_hex n) \<Longrightarrow> is_hex c"
proof (induction n rule: show_hex.induct)
  case (1 n)
  then show ?case by (subst (asm) (2) show_hex.simps) (auto simp: is_hex_digit split: if_splits)
qed

lemma show_hex_nonempty [simp]: "show_hex n \<noteq> []"
  by (subst show_hex.simps) simp

lemma parse_hex_snoc: "parse_hex (s @ [c]) = 16 * parse_hex s + (case hex_val c of Some d \<Rightarrow> int d | None \<Rightarrow> 0)"
  by (simp add: parse_hex_def)

lemma parse_show_hex: "parse_hex (show_hex n) = int n"
proof (induction n rule: show_hex.induct)
  case (1 n)
  show ?case
  proof (cases "n < 16")
    case True
    then show ?thesis by (subst show_hex.simps) (simp add: parse_hex_def hex_digit_val)
  next
    case False
    have "int (16 * (n div 16) + n mod 16) = int n" by simp
    then have "16 * int (n div 16) + int (n mod 16) = int n" unfolding of_nat_add of_nat_mult by simp
    with False 1 show ?thesis
      by (subst show_hex.simps) (simp add: parse_hex_snoc hex_digit_val del: of_nat_div of_nat_mod)
  qed
qed

lemma length_show_hex: "n < 16 ^ Suc k \<Longrightarrow> length (show_hex n) \<le> Suc k"
proof (induction k arbitrary: n)
  case 0
  then show ?case by (subst show_hex.simps) simp
next
  case (Suc k)
  then have "n div 16 < 16 ^ Suc k" by (simp add: less_mult_imp_div_less mult.commute)
  with Suc.IH show ?case by (subst show_hex.simps) auto
qed

lemma show_hex_short: "n < 65536 \<Longrightarrow> \<not> 4 < length (show_hex n)"
  using length_show_hex [of n 3] by simp

lemma take_show_hex [simp]:
  "takeWhile is_hex (show_hex n) = show_hex n" "dropWhile is_hex (show_hex n) = []"
  "takeWhile is_hex (show_hex n @ CHR '':'' # r) = show_hex n" "dropWhile is_hex (show_hex n @ CHR '':'' # r) = CHR '':'' # r"
  using show_hex_is_hex [of _ n] by (simp_all add: takeWhile_append dropWhile_append takeWhile_eq_all_conv dropWhile_eq_Nil_conv)

definition hex_groups :: "nat list \<Rightarrow> string" where
  "hex_groups xs = Join (map show_hex xs) '':''"

lemma hex_groups_simps [simp]:
  "hex_groups [] = []" "hex_groups [x] = show_hex x" "hex_groups (x # y # ys) = show_hex x @ CHR '':'' # hex_groups (y # ys)"
  by (simp_all add: hex_groups_def)

lemma hex_groups_hd: "xs \<noteq> [] \<Longrightarrow> hex_groups xs \<noteq> [] \<and> is_hex (hd (hex_groups xs))"
  using show_hex_is_hex [of "hd (show_hex (hd xs))" "hd xs"]
  by (cases xs rule: remdups_adj.cases) (simp_all add: hd_append)

lemma hex_groups_chars: "c \<in> set (hex_groups xs) \<Longrightarrow> is_hex c \<or> c = CHR '':''"
  by (induction xs rule: induct_list012) (auto dest: show_hex_is_hex)

section \<open>The loop of the parser\<close>

lemma v6_loop_last:
  assumes "xs \<noteq> []" "length gs + length xs \<le> 8" "\<forall>x \<in> set xs. x < 65536" "length xs \<le> f"
  shows "v6_loop f gs el (hex_groups xs) = Some (gs @ map int xs, el, [])"
  using assms
proof (induction xs arbitrary: gs f rule: induct_list012)
  case (2 x)
  then obtain f' where "f = Suc f'" by (cases f) auto
  with 2 show ?case
    by (simp add: Let_def show_hex_short parse_show_hex not_less)
next
  case (3 x y ys)
  then obtain f' where f: "f = Suc f'" by (cases f) auto
  have hd: "hex_groups (y # ys) \<noteq> []" "hd (hex_groups (y # ys)) \<noteq> CHR '':''"
    using hex_groups_hd [of "y # ys"] by auto
  have "v6_loop f' (gs @ [int x]) el (hex_groups (y # ys)) = Some ((gs @ [int x]) @ map int (y # ys), el, [])"
    using "3.prems" f by (intro "3.IH") auto
  moreover have "v6_loop f gs el (hex_groups (x # y # ys)) = v6_loop f' (gs @ [int x]) el (hex_groups (y # ys))"
    using "3.prems" hd
    by (simp add: f Let_def show_hex_short parse_show_hex not_less)
  ultimately show ?case by simp
qed simp

lemma v6_loop_ellipsis:
  assumes "xs \<noteq> []" "length gs + length xs \<le> 8" "\<forall>x \<in> set xs. x < 65536" "length xs \<le> f"
  shows "v6_loop f gs None (hex_groups xs @ ''::'' @ t) =
    (if t = [] then Some (gs @ map int xs, Some (length gs + length xs), [])
     else v6_loop (f - length xs) (gs @ map int xs) (Some (length gs + length xs)) t)"
  using assms
proof (induction xs arbitrary: gs f rule: induct_list012)
  case (2 x)
  then obtain f' where "f = Suc f'" by (cases f) auto
  with 2 show ?case
    by (simp add: Let_def show_hex_short parse_show_hex not_less)
next
  case (3 x y ys)
  then obtain f' where f: "f = Suc f'" by (cases f) auto
  let ?r = "hex_groups (y # ys) @ ''::'' @ t"
  have hd: "hd (hex_groups (y # ys) @ CHR '':'' # CHR '':'' # t) \<noteq> CHR '':''"
    using hex_groups_hd [of "y # ys"] by (auto simp: hd_append)
  have "v6_loop f' (gs @ [int x]) None ?r =
      (if t = [] then Some ((gs @ [int x]) @ map int (y # ys), Some (length (gs @ [int x]) + length (y # ys)), [])
       else v6_loop (f' - length (y # ys)) ((gs @ [int x]) @ map int (y # ys)) (Some (length (gs @ [int x]) + length (y # ys))) t)"
    using "3.prems" f by (intro "3.IH") auto
  moreover have "v6_loop f gs None (hex_groups (x # y # ys) @ ''::'' @ t) = v6_loop f' (gs @ [int x]) None ?r"
    using "3.prems" hd
    by (simp add: f Let_def show_hex_short parse_show_hex not_less)
  ultimately show ?case using f by simp
qed simp

section \<open>Groups of a word\<close>

lemma base65536:
  "n < 65536 ^ 8 \<Longrightarrow> foldl (\<lambda>a g. 65536 * a + g) 0 (map (\<lambda>i. n div 65536 ^ (7 - i) mod 65536) [0..<8]) = (n :: nat)"
proof -
  assume n: "n < 65536 ^ 8"
  define B :: nat where "B = 65536"
  have step: "B * (n div B ^ Suc k) + n div B ^ k mod B = n div B ^ k" for k
  proof -
    have "n div B ^ Suc k = n div B ^ k div B" by (metis div_mult2_eq mult.commute power_Suc)
    then show ?thesis by simp
  qed
  have top: "n div B ^ 8 = 0" using n by (simp add: B_def)
  have up: "[0..<8] = [0, 1, 2, 3, 4, 5, 6, 7 :: nat]" by (simp add: upt_rec)
  show ?thesis
    using step [of 7] step [of 6] step [of 5] step [of 4] step [of 3] step [of 2] step [of 1] step [of 0] top
    by (simp add: up power2_eq_square flip: B_def)
qed

lemma groups_word_groups: "groups_word (map int (groups w)) = w"
proof -
  have "foldl (\<lambda>a g. 65536 * a + g) (int b) (map int xs) = int (foldl (\<lambda>a g. 65536 * a + g) b xs)"
    for b xs
  proof (induction xs arbitrary: b)
    case (Cons x xs)
    from Cons.IH [of "65536 * b + x"] show ?case by simp
  qed simp
  from this [of 0] have "foldl (\<lambda>a g. 65536 * a + g) 0 (map int (groups w)) = int (foldl (\<lambda>a g. 65536 * a + g) 0 (groups w))"
    by simp
  also have "foldl (\<lambda>a g. 65536 * a + g) 0 (groups w) = unat w"
  proof -
    have "unat w < 2 ^ 128" using unsigned_less [of w] by (simp only: len_num1 len_bit0 mult_2)  simp
    then have "unat w < 65536 ^ 8" by simp
    then show ?thesis unfolding groups_def by (rule base65536)
  qed
  finally show ?thesis by (simp add: groups_word_def word_of_nat_eq_iff)
qed

lemma groups_length [simp]: "length (groups w) = 8" and groups_small: "x \<in> set (groups w) \<Longrightarrow> x < 65536"
  by (auto simp: groups_def)

lemma zero_run_take: "take (zero_run xs) xs = replicate (zero_run xs) 0 \<and> zero_run xs \<le> length xs"
  by (induction xs) auto

lemma longest_zeros_zero:
  assumes "longest_zeros gs = Some (i, l)"
  shows "2 \<le> l \<and> i + l \<le> length gs \<and> take l (drop i gs) = replicate l 0"
proof -
  define good where "good = (\<lambda>b. case b of None \<Rightarrow> True | Some (i, l) \<Rightarrow> 2 \<le> l \<and> i + l \<le> length gs \<and> take l (drop i gs) = replicate l 0)"
  define f where "f = (\<lambda>best i. let l = zero_run (drop i gs) in
     if l \<ge> 2 \<and> (case best of None \<Rightarrow> True | Some (_, m) \<Rightarrow> l > m) then Some (i, l) else best)"
  have step: "good b \<Longrightarrow> i < length gs \<Longrightarrow> good (f b i)" for b i
    using zero_run_take [of "drop i gs"] by (auto simp: good_def f_def Let_def split: option.splits)
  have "good b \<Longrightarrow> \<forall>i \<in> set is. i < length gs \<Longrightarrow> good (foldl f b is)" for b "is"
    by (induction "is" arbitrary: b) (simp_all add: step)
  then have "good (longest_zeros gs)" unfolding longest_zeros_def f_def [symmetric] by (simp add: good_def)
  with assms show ?thesis by (simp add: good_def)
qed

lemma drop_ellipsis:
  assumes "longest_zeros gs = Some (i, l)"
  shows "take i gs @ replicate l 0 @ drop (i + l) gs = gs"
proof -
  have "take i gs @ take l (drop i gs) @ drop l (drop i gs) = gs" by (metis append_take_drop_id)
  with longest_zeros_zero [OF assms] show ?thesis by (simp add: add.commute)
qed

section \<open>Printing and parsing\<close>

definition plain_addr :: "addr \<Rightarrow> bool" where
  "plain_addr a = (case a of V4 _ \<Rightarrow> True | V6 _ z \<Rightarrow> z = [])"

lemma v6_finish_ellipsis:
  assumes "longest_zeros (groups w) = Some (i, l)"
  shows "v6_finish (map int (take i (groups w)) @ map int (drop (i + l) (groups w))) (Some i) = Some w"
proof -
  let ?g = "groups w"
  have il: "2 \<le> l" "i + l \<le> 8" using longest_zeros_zero [OF assms] by simp_all
  let ?m = "map int (take i ?g) @ map int (drop (i + l) ?g)"
  have len: "length ?m = 8 - l" "length (map int (take i ?g)) = i" using il by auto
  have "take i ?m @ replicate (8 - length ?m) 0 @ drop i ?m = map int (take i ?g @ replicate l 0 @ drop (i + l) ?g)"
    using len il by simp
  then have "groups_word (take i ?m @ replicate (8 - length ?m) 0 @ drop i ?m) = w"
    by (simp only: drop_ellipsis [OF assms] groups_word_groups)
  with len il show ?thesis by (simp add: v6_finish_def)
qed

lemma no_double_colon: "xs \<noteq> [] \<Longrightarrow> \<not> HasPrefix (hex_groups xs @ t) ''::''"
  using hex_groups_hd [of xs] by (cases "hex_groups xs") auto

lemma parse_show_v6: "parse_v6_body (show_v6 w) = Some w"
proof (cases "longest_zeros (groups w)")
  case None
  have g: "groups w \<noteq> []" using groups_length [of w] by fastforce
  have "v6_loop 9 [] None (hex_groups (groups w)) = Some (map int (groups w), None, [])"
    using v6_loop_last [OF g, of "[]" 9 None] groups_small by simp
  then show ?thesis
    using None no_double_colon [OF g, of "[]"] groups_word_groups [of w]
    by (simp add: parse_v6_body_def show_v6_def Let_def v6_finish_def flip: hex_groups_def)
next
  case (Some p)
  obtain i l where p: "p = (i, l)" by (cases p)
  let ?g = "groups w"
  have il: "2 \<le> l" "i + l \<le> 8" using longest_zeros_zero [of ?g i l] Some p by simp_all
  have s: "show_v6 w = hex_groups (take i ?g) @ ''::'' @ hex_groups (drop (i + l) ?g)"
    using Some p by (simp add: show_v6_def Let_def hex_groups_def)
  have fin: "v6_finish (map int (take i ?g) @ map int (drop (i + l) ?g)) (Some i) = Some w"
    using Some p by (intro v6_finish_ellipsis) simp
  have tail: "v6_loop f (map int (take i ?g)) (Some i) (hex_groups (drop (i + l) ?g)) =
      Some (map int (take i ?g) @ map int (drop (i + l) ?g), Some i, [])"
    if "drop (i + l) ?g \<noteq> []" "8 - (i + l) \<le> f" for f
    using that il groups_small by (intro v6_loop_last) (auto dest: in_set_dropD)
  show ?thesis
  proof (cases "i = 0")
    case True
    have "hex_groups (drop l ?g) = [] \<longleftrightarrow> drop l ?g = []" using hex_groups_hd [of "drop l ?g"] by auto
    moreover have "(0 :: 128 word) = w" if "drop l ?g = []"
    proof -
      have "groups_word (replicate 8 0) = w" using fin that True by (simp add: v6_finish_def)
      then show ?thesis by (simp add: groups_word_def eval_nat_numeral)
    qed
    ultimately show ?thesis using s tail [of 9] fin True by (auto simp: parse_v6_body_def)
  next
    case False
    then have ne: "take i ?g \<noteq> []" by (simp add: groups_def)
    have lt: "length (take i ?g) = i" using il by simp
    have e: "hex_groups (drop (i + l) ?g) = [] \<longleftrightarrow> drop (i + l) ?g = []" using hex_groups_hd [of "drop (i + l) ?g"] by auto
    have "v6_loop 9 [] None (show_v6 w) = Some (map int (take i ?g) @ map int (drop (i + l) ?g), Some i, [])"
    proof (cases "drop (i + l) ?g = []")
      case True
      then show ?thesis
        using v6_loop_ellipsis [OF ne, of "[]" 9 "[]"] lt il groups_small by (auto simp: s dest: in_set_takeD)
    next
      case False
      then show ?thesis
        using v6_loop_ellipsis [OF ne, of "[]" 9 "hex_groups (drop (i + l) ?g)"] lt il e tail [of "9 - i"] groups_small
        by (auto simp: s dest: in_set_takeD)
    qed
    with no_double_colon [OF ne] fin show ?thesis by (simp add: parse_v6_body_def s)
  qed
qed

text \<open>The mapped form \<open>::ffff:a.b.c.d\<close>.\<close>

lemma mapped_word: "drop_bit 32 w = 0xFFFF \<Longrightarrow> word_of_int (65535 * 4294967296 + uint (ucast w :: 32 word)) = (w :: 128 word)"
proof -
  assume d: "drop_bit 32 w = 0xFFFF"
  have "uint w div 4294967296 = 65535" using arg_cong [OF d, of uint] by (simp add: drop_bit_eq_div uint_div)
  moreover have "uint (ucast w :: 32 word) = uint w mod 4294967296" by (simp add: unsigned_ucast_eq take_bit_eq_mod)
  ultimately have "65535 * 4294967296 + uint (ucast w :: 32 word) = uint w"
    using div_mult_mod_eq [of "uint w" 4294967296] by simp
  then show ?thesis by simp
qed

lemma show_v4_chars: "c \<in> set (show_v4 w) \<Longrightarrow> is_digit c \<or> c = CHR ''.''"
proof -
  obtain a b e f where o: "octets w = [a, b, e, f]" by (simp add: octets_def)
  assume "c \<in> set (show_v4 w)"
  then show ?thesis using show_nat_digits by (auto simp: show_v4_def o list_all_iff)
qed

lemma digit_is_hex: "is_digit c \<Longrightarrow> is_hex c"
  by (auto simp: is_digit_def is_hex_def hex_val_def Let_def)

lemma parse_show_mapped:
  assumes "drop_bit 32 w = 0xFFFF"
  shows "parse_v6_body (''::ffff:'' @ show_v4 (ucast w)) = Some w"
proof -
  let ?u = "ucast w :: 32 word"
  obtain a b c d where o: "octets ?u = [a, b, c, d]" by (simp add: octets_def)
  have a: "a < 256" using octet_bounds [of ?u] by (simp add: o)
  have s: "show_v4 ?u = show_nat a @ CHR ''.'' # (show_nat b @ ''.'' @ show_nat c @ ''.'' @ show_nat d)"
    by (simp add: show_v4_def o)
  have hex: "\<forall>x \<in> set (show_nat a). is_hex x" using show_nat_digits [of a] digit_is_hex by (auto simp: list_all_iff)
  then have tw: "takeWhile is_hex (show_v4 ?u) = show_nat a" "dropWhile is_hex (show_v4 ?u) = CHR ''.'' # (show_nat b @ ''.'' @ show_nat c @ ''.'' @ show_nat d)"
    by (simp_all add: s takeWhile_append dropWhile_append takeWhile_eq_all_conv dropWhile_eq_Nil_conv)
  have short: "\<not> 4 < length (show_nat a)"
    using a by (subst show_nat.simps) (auto simp: show_nat.simps [of "a div 10"] show_nat.simps [of "a div 10 div 10"])
  have two: "v6_loop (Suc n) [65535] (Some 0) (show_v4 ?u) = Some ([65535, uint ?u div 65536, uint ?u mod 65536], Some 0, [])" for n
    using short by (simp add: Let_def tw parse_show_v4)
  have "is_hex (hd (show_nat a))" using hex by simp
  then have hd: "hd (show_v4 ?u) \<noteq> CHR '':''" "show_v4 ?u \<noteq> []" using s not_hex(1) by (auto simp: hd_append simp del: not_hex)
  have ff: "takeWhile is_hex (''ffff:'' @ show_v4 ?u) = ''ffff''" "dropWhile is_hex (''ffff:'' @ show_v4 ?u) = CHR '':'' # show_v4 ?u"
    by (simp_all add: is_hex_def hex_val_def)
  have p: "parse_hex ''ffff'' = 65535" by (simp add: parse_hex_def hex_val_def)
  have loop: "v6_loop 9 [] (Some 0) (''ffff:'' @ show_v4 ?u) = Some ([65535, uint ?u div 65536, uint ?u mod 65536], Some 0, [])"
  proof -
    have "v6_loop (Suc 8) [] (Some 0) (''ffff:'' @ show_v4 ?u) = v6_loop 8 [65535] (Some 0) (show_v4 ?u)"
      unfolding v6_loop.simps(2) Let_def ff p using hd by simp
    with two [of 7] show ?thesis by simp
  qed
  have "groups_word ([0, 0, 0, 0, 0] @ [65535, uint ?u div 65536, uint ?u mod 65536]) = w"
    using mapped_word [OF assms] by (simp add: groups_word_def algebra_simps)
  then have "v6_finish [65535, uint ?u div 65536, uint ?u mod 65536] (Some 0) = Some w"
    by (simp add: v6_finish_def eval_nat_numeral)
  with loop show ?thesis by (simp add: parse_v6_body_def)
qed

lemma IndexByte_None: "c \<notin> set s \<Longrightarrow> IndexByte s c = None"
  by (induction s) auto

lemma parse_ipv6_plain: "CHR ''%'' \<notin> set s \<Longrightarrow> parse_v6_body s = Some w \<Longrightarrow> parse_ipv6 s = Some (V6 w [])"
  by (simp add: parse_ipv6_def IndexByte_None)

lemma show_v6_shape: "\<exists>h t. show_v6 w = h @ CHR '':'' # t \<and> (\<forall>c \<in> set h. is_hex c)"
  and show_v6_chars: "c \<in> set (show_v6 w) \<Longrightarrow> is_hex c \<or> c = CHR '':''"
proof -
  have shape: "xs \<noteq> [] \<Longrightarrow> \<exists>h t. hex_groups xs @ CHR '':'' # s = h @ CHR '':'' # t \<and> (\<forall>c \<in> set h. is_hex c)" for xs s
  proof (induction xs rule: induct_list012)
    case (2 x)
    then show ?case using show_hex_is_hex [of _ x] by (intro exI [of _ "show_hex x"] exI [of _ s]) auto
  next
    case (3 x y ys)
    then show ?case using show_hex_is_hex [of _ x]
      by (intro exI [of _ "show_hex x"] exI [of _ "hex_groups (y # ys) @ CHR '':'' # s"]) auto
  qed simp
  have two: "\<exists>x y ys. groups w = x # y # ys" by (auto simp: groups_def upt_rec)
  show "\<exists>h t. show_v6 w = h @ CHR '':'' # t \<and> (\<forall>c \<in> set h. is_hex c)"
  proof (cases "longest_zeros (groups w)")
    case None
    then obtain x y ys where "groups w = x # y # ys" using two by blast
    with None have "show_v6 w = show_hex x @ CHR '':'' # hex_groups (y # ys)"
      by (simp add: show_v6_def Let_def hex_groups_def)
    then show ?thesis using show_hex_is_hex [of _ x] by blast
  next
    case (Some p)
    then have "show_v6 w = hex_groups (take (fst p) (groups w)) @ CHR '':'' # CHR '':'' # hex_groups (drop (fst p + snd p) (groups w))"
      by (simp add: show_v6_def Let_def hex_groups_def split: prod.split)
    then show ?thesis
      using shape [of "take (fst p) (groups w)" "CHR '':'' # hex_groups (drop (fst p + snd p) (groups w))"]
      by (cases "take (fst p) (groups w) = []") (auto intro: exI [of _ "[]"])
  qed
  show "is_hex c \<or> c = CHR '':''" if "c \<in> set (show_v6 w)"
    using that hex_groups_chars by (auto simp: show_v6_def Let_def split: option.splits simp flip: hex_groups_def)
qed

lemma ParseAddr_colon:
  assumes "s = h @ CHR '':'' # t" "\<forall>c \<in> set h. is_hex c"
  shows "ParseAddr s = parse_ipv6 s"
proof -
  have "dropWhile (\<lambda>c. c \<noteq> CHR ''.'' \<and> c \<noteq> CHR '':'' \<and> c \<noteq> CHR ''%'') s = CHR '':'' # t"
    using assms by (subst assms(1), subst dropWhile_append2) auto
  then show ?thesis by (simp add: ParseAddr_def)
qed

lemma ParseAddr_AddrString: "plain_addr a \<Longrightarrow> ParseAddr (AddrString a) = Some a"
proof (cases a)
  case (V4 w)
  then show ?thesis by (simp add: ParseAddr_show_v4)
next
  case (V6 w z)
  assume "plain_addr a"
  with V6 have z: "z = []" by (simp add: plain_addr_def)
  show ?thesis
  proof (cases "Is4In6 a")
    case True
    then have d: "drop_bit 32 w = 0xFFFF" by (simp add: V6 Is4In6_def)
    have s: "AddrString a = ''::ffff:'' @ show_v4 (ucast w)" using True by (simp add: AddrString_def V6 z zone_suffix_def)
    have "CHR ''%'' \<notin> set (AddrString a)" using show_v4_chars [of "CHR ''%''" "ucast w"] by (auto simp: s is_digit_def)
    then have "parse_ipv6 (AddrString a) = Some (V6 w [])" using parse_show_mapped [OF d] unfolding s by (rule parse_ipv6_plain)
    moreover have "ParseAddr (AddrString a) = parse_ipv6 (AddrString a)" by (rule ParseAddr_colon [of _ "[]"]) (simp_all add: s)
    ultimately show ?thesis by (simp add: V6 z)
  next
    case False
    then have s: "AddrString a = show_v6 w" by (simp add: AddrString_def V6 z zone_suffix_def)
    have "CHR ''%'' \<notin> set (show_v6 w)" using show_v6_chars [of "CHR ''%''" w] by auto
    then have "parse_ipv6 (AddrString a) = Some (V6 w [])" unfolding s by (rule parse_ipv6_plain) (rule parse_show_v6)
    moreover have "ParseAddr (AddrString a) = parse_ipv6 (AddrString a)"
      using show_v6_shape [of w] ParseAddr_colon by (auto simp: s)
    ultimately show ?thesis by (simp add: V6 z)
  qed
qed

lemma IndexByte_at: "c \<notin> set u \<Longrightarrow> IndexByte (u @ c # v) c = Some (length u)"
  by (induction u) auto

lemma ParsePrefix_PrefixString:
  assumes "plain_addr a" "b \<le> addr_width a"
  shows "ParsePrefix (PrefixString (Prefix a b)) = Some (Prefix a b)"
proof -
  have "CHR ''/'' \<notin> set (show_nat b)" using show_nat_digits [of b] by (auto simp: list_all_iff is_digit_def)
  then have "IndexByte (rev (show_nat b) @ CHR ''/'' # rev (AddrString a)) CHR ''/'' = Some (length (show_nat b))"
    using IndexByte_at [of "CHR ''/''" "rev (show_nat b)" "rev (AddrString a)"] by simp
  then have s: "split_last_slash (PrefixString (Prefix a b)) = Some (AddrString a, show_nat b)"
    by (simp add: PrefixString_def split_last_slash_def)
  have "\<not> (length (show_nat b) > 1 \<and> hd (show_nat b) = CHR ''0'')"
    using show_nat_hd_nonzero [of b] show_nat_small [of b] by (cases "b < 10") auto
  with assms show ?thesis
    by (simp add: ParsePrefix_def s ParseAddr_AddrString) (auto simp: plain_addr_def split: addr.splits)
qed

end
