(* ===== verification/BuiltinSafety.thy ===== *)
theory BuiltinSafety
  imports Builtin RulesSafety NetText
begin

text \<open>
  What the built-in rules promise: their findings can be stored, they rest on flows of the window, and the
  counts they print are the counts they claim (\<open>internal/rules/builtin.go\<close>, \<open>internal/db/detect.go\<close>).
\<close>

section \<open>Groups and rows\<close>

named_theorems row_simps \<open>membership in the result of a statement\<close>

lemma group_rows_key: "(k, g) \<in> set (group_rows key xs) \<Longrightarrow> \<exists>x \<in> set xs. key x = k"
  by (auto simp: group_rows_def)

lemma in_take: "x \<in> set (take n xs) \<Longrightarrow> x \<in> set xs"
  by (rule in_set_takeD)

lemma set_map_filter_iff: "y \<in> set (List.map_filter f xs) \<longleftrightarrow> (\<exists>x \<in> set xs. f x = Some y)"
  by (induction xs) (auto simp: List.map_filter_simps split: option.split)

lemma findings_Inr: "findings f r = Inr fs \<longleftrightarrow> (\<exists>hs. r = Inr hs \<and> fs = map f hs)"
  by (auto simp: findings_def bindE_Inr_iff)

lemma db_take_Inr: "db_read e k (take n xs) = Inr ys \<Longrightarrow> y \<in> set ys \<Longrightarrow> y \<in> set xs"
  by (auto simp: db_read_Inr_iff dest: in_take)

text \<open>A flow of the window between a local host and an external peer.\<close>

definition crosses :: "Window \<Rightarrow> prefix list \<Rightarrow> flow list \<Rightarrow> addr \<Rightarrow> addr \<Rightarrow> bool" where
  "crosses w nets acct h p \<longleftrightarrow>
     list_ex (\<lambda>f. in_window w f \<and>
       ((outbound nets f \<and> ip_src f = h \<and> ip_dst f = p) \<or> (inbound nets f \<and> ip_dst f = h \<and> ip_src f = p))) acct"

lemma crosses_ends: "crosses w nets acct h p \<Longrightarrow> local_ip nets h \<and> \<not> local_ip nets p"
  by (auto simp: crosses_def list_ex_iff outbound_def inbound_def src_local_def dst_local_def)

lemma crossings_mem:
  "c \<in> set (crossings nets (filter (in_window w) acct)) \<Longrightarrow> crosses w nets acct (cx_host c) (cx_peer c)"
  by (auto simp: crossings_def crosses_def list_ex_iff)

lemma crossing_group:
  "((h, p), g) \<in> set (group_rows pair_of (crossings nets (filter (in_window w) acct))) \<Longrightarrow> crosses w nets acct h p"
  by (auto dest!: group_rows_key crossings_mem simp: pair_of_def)

lemma outbound_group:
  "((h, p), g) \<in> set (group_rows (\<lambda>f. (ip_src f, ip_dst f)) (filter Q acct)) \<Longrightarrow> (\<And>f. Q f \<Longrightarrow> in_window w f \<and> outbound nets f) \<Longrightarrow>
     crosses w nets acct h p"
  by (fastforce dest!: group_rows_key simp: crosses_def list_ex_iff)

section \<open>The rows of the statements\<close>

lemma threat_rows:
  assumes "DetectThreatListHits e w nets acct d = Inr hs" "h \<in> set hs"
  shows "crosses w nets acct (tk_host h) (tk_peer h) \<and> listed_rows d (tk_peer h) \<noteq> []"
proof -
  have "h \<in> set (threat_hits w nets acct d)"
    using db_take_Inr [OF assms(1) [unfolded DetectThreatListHits_def] assms(2)] by simp
  then obtain k g where g: "h = threat_hit (k, g)"
    "(k, g) \<in> set (group_rows (\<lambda>x. pair_of (fst x)) (list_hits d (crossings nets (filter (in_window w) acct))))"
    by (auto simp: threat_hits_def)
  then obtain c r where "c \<in> set (crossings nets (filter (in_window w) acct))" "r \<in> set (listed_rows d (cx_peer c))" "pair_of c = k"
    by (auto simp: list_hits_def dest!: group_rows_key)
  with crossings_mem show ?thesis by (cases k) (auto simp: g threat_hit_def pair_of_def)
qed

lemma reputation_rows:
  assumes "DetectReputationHits e w nets m acct d = Inr hs" "h \<in> set hs"
  shows "crosses w nets acct (rh_host h) (rh_peer h) \<and> rh_sources h \<noteq> []"
proof -
  let ?gs = "group_rows pair_of (crossings nets (filter (in_window w) acct))"
  have "h \<in> set (List.map_filter (reputation_hit m d) ?gs)"
    using assms by (auto simp: DetectReputationHits_def bindE_Inr_iff dest!: db_take_Inr)
  then obtain k g where "(k, g) \<in> set ?gs" "reputation_hit m d (k, g) = Some h"
    by (auto simp: set_map_filter_iff)
  then show ?thesis
    by (cases k) (auto simp: reputation_hit_def dest!: crossing_group split: option.splits if_splits)
qed

lemma geo_rows:
  assumes "DetectGeo e w nets cs acct d = Inr hs" "h \<in> set hs"
  shows "crosses w nets acct (gh_host h) (gh_peer h)"
proof -
  let ?gs = "group_rows pair_of (crossings nets (filter (in_window w) acct))"
  have "h \<in> set (List.map_filter (geo_hit cs d) ?gs)"
    using db_take_Inr [OF assms(1) [unfolded DetectGeo_def] assms(2)] by simp
  then obtain k g where "(k, g) \<in> set ?gs" "geo_hit cs d (k, g) = Some h" by (auto simp: set_map_filter_iff)
  then show ?thesis
    by (cases k) (auto simp: geo_hit_def dest!: crossing_group split: option.splits if_splits)
qed

lemma destination_rows:
  assumes "DetectNewDestinations e w nets dy m mh acct d rd = Inr hs" "h \<in> set hs"
  shows "crosses w nets acct (nd_host h) (nd_peer h)"
proof -
  let ?gs = "group_rows pair_of (crossings nets (filter (in_window w) acct))"
  have "h \<in> set (List.map_filter (new_destination e dy m mh d rd) ?gs)"
    using assms by (auto simp: DetectNewDestinations_def bindE_Inr_iff dest!: db_take_Inr)
  then obtain k g where "(k, g) \<in> set ?gs" "new_destination e dy m mh d rd (k, g) = Some h"
    by (auto simp: set_map_filter_iff)
  then show ?thesis
    by (cases k) (auto simp: new_destination_def Let_def dest!: crossing_group split: option.splits if_splits)
qed

lemma unanswered_mem:
  "((h, p), g) \<in> set (unanswered nets (filter (\<lambda>f. in_window w f \<and> Q f) acct)) \<Longrightarrow> crosses w nets acct h p"
  by (auto simp: unanswered_def Let_def crosses_def list_ex_iff dest!: group_rows_key)

lemma flagged_rows:
  assumes "DetectOneWayFlagged e w nets m acct d = Inr hs" "h \<in> set hs"
  shows "crosses w nets acct (of_host h) (of_peer h) \<and> of_reasons h \<noteq> []"
  using assms by (auto simp: DetectOneWayFlagged_def bindE_Inr_iff dest!: db_take_Inr unanswered_mem)

lemma beacon_rows:
  assumes "DetectBeacons e w nets ex n g cv acct = Inr hs" "h \<in> set hs"
  shows "crosses w nets acct (be_host h) (be_peer h)"
proof -
  have "h \<in> beacon ` set (group_rows (\<lambda>f. (ip_src f, ip_dst f)) (filter (beacon_flow w nets ex) acct))"
    using db_take_Inr [OF assms(1) [unfolded DetectBeacons_def] assms(2)] by auto
  then obtain a b gr where k: "((a, b), gr) \<in> set (group_rows (\<lambda>f. (ip_src f, ip_dst f)) (filter (beacon_flow w nets ex) acct))"
    "h = beacon ((a, b), gr)" by auto
  have "crosses w nets acct a b" by (rule outbound_group [OF k(1)]) (simp add: beacon_flow_def)
  then show ?thesis by (simp add: k(2) beacon_def Let_def)
qed

lemma tunnel_rows:
  assumes "DetectLongLived e w nets ex n acct d = Inr hs" "h \<in> set hs"
  shows "crosses w nets acct (ll_host h) (ll_peer h)"
  using db_take_Inr [OF assms(1) [unfolded DetectLongLived_def] assms(2)]
  by (fastforce simp: set_map_filter_iff long_lived_def Let_def crosses_def list_ex_iff dest!: group_rows_key
      split: option.splits if_splits)

lemma dns_rows:
  assumes "DetectExternalDNS e w nets ex al acct = Inr hs" "h \<in> set hs"
  shows "crosses w nets acct (du_host h) (du_resolver h)"
  using db_take_Inr [OF assms(1) [unfolded DetectExternalDNS_def] assms(2)]
  by (fastforce simp: crosses_def list_ex_iff dest!: group_rows_key)

lemma brute_rows:
  assumes "DetectBruteForce e w nets n m acct = Inr hs" "h \<in> set hs"
  shows "crosses w nets acct (bh_dst h) (bh_src h)"
  using db_take_Inr [OF assms(1) [unfolded DetectBruteForce_def] assms(2)]
  by (fastforce simp: brute_hit_def crosses_def list_ex_iff dest!: group_rows_key)

lemma port_rows:
  assumes "DetectSuspiciousPorts e w nets ports acct = Inr hs" "h \<in> set hs"
  shows "\<exists>f \<in> set acct. in_window w f \<and> outbound nets f \<and> ip_src f = pu_host h \<and> port_dst f = pu_port h \<and> pu_port h \<in> set ports"
  using assms
  by (fastforce simp: DetectSuspiciousPorts_def bindE_Inr_iff port_use_def Let_def dest!: db_take_Inr group_rows_key)

lemma scan_rows:
  assumes "DetectPortScans e w nets n m acct = Inr hs" "h \<in> set hs"
  shows "\<exists>f \<in> set acct. in_window w f \<and> ip_src f = sh_src h \<and> sh_dst h = Some (ip_dst f) \<and>
     sh_src_local h = src_local nets f \<and> sh_dst_local h = dst_local nets f"
  using db_take_Inr [OF assms(1) [unfolded DetectPortScans_def] assms(2)]
  by (fastforce simp: port_scan_def src_local_def dst_local_def dest!: group_rows_key)

lemma sweep_rows:
  assumes "DetectHostScans e w nets n m acct = Inr hs" "h \<in> set hs"
  shows "\<exists>f \<in> set acct. in_window w f \<and> sweep_flow f \<and> ip_src f = sh_src h \<and> sh_src_local h = src_local nets f"
  using db_take_Inr [OF assms(1) [unfolded DetectHostScans_def] assms(2)]
  by (fastforce simp: host_scan_def src_local_def dest!: group_rows_key)

lemma one_way_rows:
  assumes "DetectOneWay e w nets n acct = Inr hs" "h \<in> set hs"
  shows "\<exists>p. crosses w nets acct (ow_host h) p"
proof -
  let ?fs = "filter (\<lambda>f. in_window w f \<and> tcp_udp f \<and> \<not> multicast_dst f) acct"
  obtain a g where g: "(a, g) \<in> set (group_rows (\<lambda>kg. fst (fst kg)) (unanswered nets ?fs))" "h = one_way_hit (a, g)"
    using db_take_Inr [OF assms(1) [unfolded DetectOneWay_def] assms(2)] by auto
  then obtain b fs where "((a, b), fs) \<in> set (unanswered nets ?fs)" by (auto dest!: group_rows_key)
  then show ?thesis using unanswered_mem [of a b fs nets w "\<lambda>f. tcp_udp f \<and> \<not> multicast_dst f" acct] g(2)
    by (auto simp: one_way_hit_def)
qed

lemma dns_volume_rows:
  assumes "DetectDNSVolume e w nets ex n m acct = Inr hs" "h \<in> set hs"
  shows "\<exists>f \<in> set acct. in_window w f \<and> src_local nets f \<and> ip_src f = hv_host h"
  using db_take_Inr [OF assms(1) [unfolded DetectDNSVolume_def] assms(2)]
  by (fastforce dest!: group_rows_key)

lemma volume_rows:
  assumes "DetectVolumeAnomalies e hour dy n m fac d = Inr hs" "h \<in> set hs"
  shows "\<exists>x \<in> set (host_hourly d). snd (fst x) = hour \<and> h = volume_stats hour dy d x \<and> va_samples h \<ge> n \<and>
     va_samples h > 0 \<and> va_out h \<ge> m \<and> far_above fac h"
  using assms by (auto simp: DetectVolumeAnomalies_def bindE_Inr_iff dest!: db_take_Inr)

lemma new_host_rows:
  assumes "DetectNewHosts e since mh d = Inr hs" "h \<in> set hs"
  shows "\<exists>x \<in> set (host_hourly d). fst (fst x) = nh_host h"
  using assms by (force simp: DetectNewHosts_def bindE_Inr_iff split: if_splits dest!: db_take_Inr group_rows_key)

lemma fanout_rows:
  assumes "DetectIoTFanout e w nets ks n acct d = Inr hs" "h \<in> set hs"
  shows "\<exists>p. crosses w nets acct (fa_host h) p"
  using db_take_Inr [OF assms(1) [unfolded DetectIoTFanout_def] assms(2)]
  by (auto simp: set_map_filter_iff fanout_def pair_of_def dest!: group_rows_key crossings_mem split: option.splits)
    (rule exI)

lemmas border_rows = threat_rows reputation_rows geo_rows destination_rows flagged_rows beacon_rows tunnel_rows dns_rows brute_rows

section \<open>The findings\<close>

lemmas finding_defs = threat_finding_def reputation_finding_def port_finding_def scan_finding_def sweep_finding_def
  brute_finding_def one_way_finding_def flagged_finding_def dns_finding_def dns_volume_finding_def geo_finding_def
  volume_finding_def new_host_finding_def destination_finding_def beacon_finding_def tunnel_finding_def fanout_finding_def

lemmas rule_defs = ids_rule_def threat_feed_rule_def reputation_rule_def suspicious_port_rule_def port_scan_rule_def
  host_scan_rule_def brute_force_rule_def one_way_rule_def dns_resolver_rule_def dns_volume_rule_def geo_policy_rule_def
  volume_anomaly_rule_def new_host_rule_def new_destination_rule_def beaconing_rule_def long_lived_rule_def iot_fanout_rule_def

lemma finding_ends [simp]:
  "f_host (threat_finding a1) = AddrString (tk_host a1)" "f_peer (threat_finding a1) = AddrString (tk_peer a1)"
  "f_host (reputation_finding q a2) = AddrString (rh_host a2)" "f_peer (reputation_finding q a2) = AddrString (rh_peer a2)"
  "f_host (geo_finding a3) = AddrString (gh_host a3)" "f_peer (geo_finding a3) = AddrString (gh_peer a3)"
  "f_host (destination_finding a4) = AddrString (nd_host a4)" "f_peer (destination_finding a4) = AddrString (nd_peer a4)"
  "f_host (flagged_finding a5) = AddrString (of_host a5)" "f_peer (flagged_finding a5) = AddrString (of_peer a5)"
  "f_host (beacon_finding z a6) = AddrString (be_host a6)" "f_peer (beacon_finding z a6) = AddrString (be_peer a6)"
  "f_host (tunnel_finding a7) = AddrString (ll_host a7)" "f_peer (tunnel_finding a7) = AddrString (ll_peer a7)"
  "f_host (dns_finding a8) = AddrString (du_host a8)" "f_peer (dns_finding a8) = AddrString (du_resolver a8)"
  "f_host (brute_finding a9) = AddrString (bh_dst a9)" "f_peer (brute_finding a9) = AddrString (bh_src a9)"
  "f_host (port_finding cr b1) = AddrString (pu_host b1)" "f_peer (port_finding cr b1) = []"
  "f_host (dns_volume_finding b2) = AddrString (hv_host b2)" "f_peer (dns_volume_finding b2) = []"
  "f_host (volume_finding hr b3) = AddrString (va_host b3)" "f_peer (volume_finding hr b3) = []"
  "f_host (new_host_finding z b4) = AddrString (nh_host b4)" "f_peer (new_host_finding z b4) = []"
  "f_host (fanout_finding b5) = AddrString (fa_host b5)" "f_peer (fanout_finding b5) = []"
  "f_host (one_way_finding b6) = AddrString (ow_host b6)" "f_peer (one_way_finding b6) = []"
  by (simp_all add: finding_defs Let_def blank_def)

lemma r_run_rule [simp]: "r_run (rule n t s i wn ps ds run) = run" "r_name (rule n t s i wn ps ds run) = n"
  "r_custom (rule n t s i wn ps ds run) = None" "r_severity (rule n t s i wn ps ds run) = s"
  "r_interval (rule n t s i wn ps ds run) = i" "r_window (rule n t s i wn ps ds run) = wn" "r_params (rule n t s i wn ps ds run) = ps"
  by (simp_all add: rule_def)

text \<open>What a finding tells the engine about a row: the texts of its host and peer.\<close>

definition rests_on :: "Window \<Rightarrow> prefix list \<Rightarrow> flow list \<Rightarrow> Finding \<Rightarrow> bool" where
  "rests_on w nets acct f \<longleftrightarrow> (\<exists>h p. f_host f = AddrString h \<and> f_peer f = AddrString p \<and> crosses w nets acct h p)"

definition ends_of :: "flow list \<Rightarrow> rollup_db \<Rightarrow> addr set" where
  "ends_of acct d = ip_src ` set acct \<union> ip_dst ` set acct \<union> (\<lambda>x. fst (fst x)) ` set (host_hourly d)"

definition names_ends :: "addr set \<Rightarrow> Finding \<Rightarrow> bool" where
  "names_ends A f \<longleftrightarrow> f_host f \<in> insert [] (AddrString ` A) \<and> f_peer f \<in> insert [] (AddrString ` A) \<and>
     (f_host f \<in> AddrString ` A \<or> f_peer f \<in> AddrString ` A)"

lemma crosses_ends_of: "crosses w nets acct h p \<Longrightarrow> h \<in> ends_of acct d \<and> p \<in> ends_of acct d"
  by (auto simp: crosses_def list_ex_iff ends_of_def)

lemma rests_on_names: "rests_on w nets acct f \<Longrightarrow> names_ends (ends_of acct d) f"
  using crosses_ends_of by (fastforce simp: rests_on_def names_ends_def)

lemma border_findings:
  "DetectThreatListHits e w nets acct d = Inr hs1 \<Longrightarrow> a1 \<in> set hs1 \<Longrightarrow> rests_on w nets acct (threat_finding a1)"
  "DetectReputationHits e w nets m acct d = Inr hs2 \<Longrightarrow> a2 \<in> set hs2 \<Longrightarrow> rests_on w nets acct (reputation_finding q a2)"
  "DetectGeo e w nets cs acct d = Inr hs3 \<Longrightarrow> a3 \<in> set hs3 \<Longrightarrow> rests_on w nets acct (geo_finding a3)"
  "DetectNewDestinations e w nets dy m mh acct d rd = Inr hs4 \<Longrightarrow> a4 \<in> set hs4 \<Longrightarrow> rests_on w nets acct (destination_finding a4)"
  "DetectOneWayFlagged e w nets m acct d = Inr hs5 \<Longrightarrow> a5 \<in> set hs5 \<Longrightarrow> rests_on w nets acct (flagged_finding a5)"
  "DetectBeacons e w nets ex n g cv acct = Inr hs6 \<Longrightarrow> a6 \<in> set hs6 \<Longrightarrow> rests_on w nets acct (beacon_finding z a6)"
  "DetectLongLived e w nets ex n acct d = Inr hs7 \<Longrightarrow> a7 \<in> set hs7 \<Longrightarrow> rests_on w nets acct (tunnel_finding a7)"
  "DetectExternalDNS e w nets ex al acct = Inr hs8 \<Longrightarrow> a8 \<in> set hs8 \<Longrightarrow> rests_on w nets acct (dns_finding a8)"
  "DetectBruteForce e w nets n ml acct = Inr hs9 \<Longrightarrow> a9 \<in> set hs9 \<Longrightarrow> rests_on w nets acct (brute_finding a9)"
  by (drule (1) border_rows; auto simp: rests_on_def)+

lemma names_one: "a \<in> A \<Longrightarrow> f_host f = AddrString a \<Longrightarrow> f_peer f = [] \<Longrightarrow> names_ends A f \<and> (f_host f = [] \<or> f_peer f = [])"
  by (auto simp: names_ends_def)

lemma names_peer: "a \<in> A \<Longrightarrow> f_peer f = AddrString a \<Longrightarrow> f_host f = [] \<Longrightarrow> names_ends A f \<and> (f_host f = [] \<or> f_peer f = [])"
  by (auto simp: names_ends_def)

lemma names_two: "a \<in> A \<Longrightarrow> b \<in> A \<Longrightarrow> f_host f = AddrString a \<Longrightarrow> f_peer f = AddrString b \<Longrightarrow> names_ends A f"
  by (auto simp: names_ends_def)

lemma flow_ends: "f \<in> set acct \<Longrightarrow> ip_src f \<in> ends_of acct d \<and> ip_dst f \<in> ends_of acct d"
  by (auto simp: ends_of_def)

lemma hour_ends: "x \<in> set (host_hourly d) \<Longrightarrow> fst (fst x) \<in> ends_of acct d"
  by (auto simp: ends_of_def)

lemma scan_findings:
  assumes "DetectPortScans e w nets n m acct = Inr hs" "a \<in> set hs"
  shows "names_ends (ends_of acct d) (scan_finding a)"
proof -
  obtain f where "f \<in> set acct" "ip_src f = sh_src a" "sh_dst a = Some (ip_dst f)" using scan_rows [OF assms] by blast
  then show ?thesis using flow_ends [of f acct d]
    by (intro names_two [of "if \<not> sh_src_local a \<and> sh_dst_local a then ip_dst f else ip_src f" _
          "if \<not> sh_src_local a \<and> sh_dst_local a then ip_src f else ip_dst f"])
      (auto simp: finding_defs Let_def)
qed

lemma sweep_findings:
  assumes "DetectHostScans e w nets n m acct = Inr hs" "a \<in> set hs"
  shows "names_ends (ends_of acct d) (sweep_finding a) \<and> (f_host (sweep_finding a) = [] \<or> f_peer (sweep_finding a) = [])"
proof -
  obtain f where f: "f \<in> set acct" "ip_src f = sh_src a" using sweep_rows [OF assms] by blast
  show ?thesis
  proof (cases "sh_src_local a")
    case True
    with f flow_ends [of f acct d] show ?thesis by (intro names_one [of "ip_src f"]) (auto simp: finding_defs Let_def blank_def)
  next
    case False
    with f flow_ends [of f acct d] show ?thesis by (intro names_peer [of "ip_src f"]) (auto simp: finding_defs Let_def blank_def)
  qed
qed

definition one_sided :: "addr set \<Rightarrow> Finding \<Rightarrow> bool" where
  "one_sided A f \<longleftrightarrow> names_ends A f \<and> (f_host f = [] \<or> f_peer f = [])"

lemma host_findings:
  "DetectSuspiciousPorts e w nets ports acct = Inr hs1 \<Longrightarrow> a1 \<in> set hs1 \<Longrightarrow> one_sided (ends_of acct d) (port_finding q a1)"
  "DetectDNSVolume e w nets ex n mm acct = Inr hs4 \<Longrightarrow> a4 \<in> set hs4 \<Longrightarrow> one_sided (ends_of acct d) (dns_volume_finding a4)"
  "DetectVolumeAnomalies e hour dy n mm fac d = Inr hs5 \<Longrightarrow> a5 \<in> set hs5 \<Longrightarrow> one_sided (ends_of acct d) (volume_finding hour a5)"
  "DetectNewHosts e since mh d = Inr hs6 \<Longrightarrow> a6 \<in> set hs6 \<Longrightarrow> one_sided (ends_of acct d) (new_host_finding z a6)"
  "DetectIoTFanout e w nets ks n acct idb = Inr hs7 \<Longrightarrow> a7 \<in> set hs7 \<Longrightarrow> one_sided (ends_of acct d) (fanout_finding a7)"
  "DetectOneWay e w nets n acct = Inr hs8 \<Longrightarrow> a8 \<in> set hs8 \<Longrightarrow> one_sided (ends_of acct d) (one_way_finding a8)"
  unfolding one_sided_def
  subgoal by (drule (1) port_rows) (rule names_one [of "pu_host a1"], use flow_ends in fastforce, simp_all)
  subgoal by (drule (1) dns_volume_rows) (rule names_one [of "hv_host a4"], use flow_ends in fastforce, simp_all)
  subgoal by (drule (1) volume_rows) (rule names_one [of "va_host a5"], use hour_ends in \<open>fastforce simp: volume_stats_def Let_def\<close>, simp_all)
  subgoal by (drule (1) new_host_rows) (rule names_one [of "nh_host a6"], use hour_ends in fastforce, simp_all)
  subgoal by (drule (1) fanout_rows) (rule names_one [of "fa_host a7"], use crosses_ends_of in blast, simp_all)
  subgoal by (drule (1) one_way_rows) (rule names_one [of "ow_host a8"], use crosses_ends_of in blast, simp_all)
  done

text \<open>What holds of the findings of one rule.\<close>

definition well_founded :: "string \<Rightarrow> Window \<Rightarrow> prefix list \<Rightarrow> flow list \<Rightarrow> rollup_db \<Rightarrow> Finding \<Rightarrow> bool" where
  "well_founded name w nets acct d f \<longleftrightarrow>
     rests_on w nets acct f \<or> one_sided (ends_of acct d) f \<or> (name = ''port_scan'' \<and> names_ends (ends_of acct d) f)"

lemmas founded_intros = border_findings host_findings scan_findings sweep_findings [folded one_sided_def]

lemma well_foundedI:
  "rests_on w nets acct f \<Longrightarrow> well_founded n w nets acct d f" "one_sided (ends_of acct d) f \<Longrightarrow> well_founded n w nets acct d f"
  "names_ends (ends_of acct d) f \<Longrightarrow> well_founded ''port_scan'' w nets acct d f"
  by (simp_all add: well_founded_def)

definition founded :: "'x sight_ext Rule \<Rightarrow> bool" where
  "founded r \<longleftrightarrow> (\<forall>c env p w s fs f. r_run r c env p w s = Inr fs \<longrightarrow> f \<in> set fs \<longrightarrow>
     well_founded (r_name r) w (LocalNetworks c) (w_acct s) (w_rollup s) f)"

lemma founded_border: "founded threat_feed_rule" "founded reputation_rule" "founded geo_policy_rule" "founded new_destination_rule"
  "founded beaconing_rule" "founded long_lived_rule" "founded dns_resolver_rule" "founded brute_force_rule"
  unfolding founded_def rule_defs r_run_rule nets_of_def
  by (auto simp: findings_Inr split: if_splits intro!: well_foundedI(1) intro: border_findings)

lemma founded_host: "founded suspicious_port_rule" "founded dns_volume_rule" "founded volume_anomaly_rule" "founded new_host_rule"
  "founded iot_fanout_rule" "founded ids_rule" "founded host_scan_rule"
  unfolding founded_def rule_defs r_run_rule nets_of_def
  by (auto simp: findings_Inr intro!: well_foundedI(2) intro: host_findings sweep_findings [folded one_sided_def])

lemma founded_mixed: "founded port_scan_rule" "founded one_way_rule"
  unfolding founded_def rule_defs r_run_rule nets_of_def
   apply (auto simp: findings_Inr intro!: well_foundedI(3) intro: scan_findings)[1]
  apply (auto simp: findings_Inr bindE_Inr_iff intro: well_foundedI(1) [OF border_findings(5)] well_foundedI(2) [OF host_findings(6)])
  done

lemma builtin_founded:
  assumes "r \<in> set builtinRules" "r_run r c env p w s = Inr fs" "f \<in> set fs"
  shows "well_founded (r_name r) w (LocalNetworks c) (w_acct s) (w_rollup s) f"
proof -
  have "founded r" using assms(1) founded_border founded_host founded_mixed by (auto simp: builtinRules_def)
  with assms(2,3) show ?thesis unfolding founded_def by blast
qed

lemma builtin_findings:
  assumes "r \<in> set builtinRules" "r_run r c env p w s = Inr fs" "f \<in> set fs"
  shows "names_ends (ends_of (w_acct s) (w_rollup s)) f \<and>
    (r_name r \<noteq> ''port_scan'' \<and> f_host f \<noteq> [] \<and> f_peer f \<noteq> [] \<longrightarrow> rests_on w (LocalNetworks c) (w_acct s) f)"
  using builtin_founded [OF assms] rests_on_names by (auto simp: well_founded_def one_sided_def)

text \<open>Detectors do not invent traffic. A finding of a built-in rule that names a host and a peer rests on a
  flow of the rule's window between them that crosses the border of the local networks, the host being the local
  end; only a port scan may name two hosts on the same side.\<close>

theorem findings_rest_on_traffic:
  assumes "r \<in> set builtinRules" and "r_run r c env p w s = Inr fs" and "f \<in> set fs"
    and "r_name r \<noteq> ''port_scan''" and "f_host f \<noteq> []" and "f_peer f \<noteq> []"
  shows "\<exists>h q. f_host f = AddrString h \<and> f_peer f = AddrString q \<and> local_ip (LocalNetworks c) h \<and> \<not> local_ip (LocalNetworks c) q \<and>
     crosses w (LocalNetworks c) (w_acct s) h q"
  using builtin_findings [OF assms(1-3)] assms(4-6) crosses_ends unfolding rests_on_def by blast

section \<open>The ports of the findings\<close>

text \<open>The port of a finding is one that a flow of the table has, so it fits the column of the alerts.\<close>

definition ports_fit :: "flow list \<Rightarrow> bool" where
  "ports_fit acct \<longleftrightarrow> list_all (\<lambda>f. int32_ok (port_src f) \<and> int32_ok (port_dst f)) acct"

lemma ports_fit_flow:
  assumes "ports_fit acct" "f \<in> set acct"
  shows "port_dst f \<le> max_int32" "low_port f \<le> max_int32"
  using assms by (auto simp: ports_fit_def list_all_iff int32_ok_def low_port_def)

lemma row_ports:
  assumes fit: "ports_fit acct"
  shows "DetectSuspiciousPorts e w nets ports acct = Inr hs1 \<Longrightarrow> a1 \<in> set hs1 \<Longrightarrow> pu_port a1 \<le> max_int32"
    and "DetectBruteForce e w nets n m acct = Inr hs2 \<Longrightarrow> a2 \<in> set hs2 \<Longrightarrow> bh_port a2 \<le> max_int32"
    and "DetectExternalDNS e w nets ex al acct = Inr hs3 \<Longrightarrow> a3 \<in> set hs3 \<Longrightarrow> du_port a3 \<le> max_int32"
    and "DetectLongLived e w nets ex n acct d = Inr hs4 \<Longrightarrow> a4 \<in> set hs4 \<Longrightarrow> ll_port a4 \<le> max_int32"
proof -
  show "DetectSuspiciousPorts e w nets ports acct = Inr hs1 \<Longrightarrow> a1 \<in> set hs1 \<Longrightarrow> pu_port a1 \<le> max_int32"
    by (drule (1) port_rows) (use ports_fit_flow(1) [OF fit] in force)
  show "DetectBruteForce e w nets n m acct = Inr hs2 \<Longrightarrow> a2 \<in> set hs2 \<Longrightarrow> bh_port a2 \<le> max_int32"
    using ports_fit_flow [OF fit]
    by (fastforce simp: DetectBruteForce_def brute_hit_def dest!: db_take_Inr group_rows_key)
  show "DetectExternalDNS e w nets ex al acct = Inr hs3 \<Longrightarrow> a3 \<in> set hs3 \<Longrightarrow> du_port a3 \<le> max_int32"
    using ports_fit_flow [OF fit]
    by (fastforce simp: DetectExternalDNS_def dest!: db_take_Inr group_rows_key)
  show "DetectLongLived e w nets ex n acct d = Inr hs4 \<Longrightarrow> a4 \<in> set hs4 \<Longrightarrow> ll_port a4 \<le> max_int32"
    using ports_fit_flow [OF fit]
    by (fastforce simp: DetectLongLived_def set_map_filter_iff long_lived_def Let_def dest!: db_take_Inr group_rows_key
        split: option.splits if_splits)
qed

lemma mode_of_mem: "xs \<noteq> [] \<Longrightarrow> mode_of xs \<in> set xs"
proof -
  assume "xs \<noteq> []"
  then have "sort_key (\<lambda>x. - int (count_list xs x)) (sort (remdups xs)) \<noteq> []"
    by (metis list.set(1) set_empty set_remdups set_sort)
  then have "mode_of xs \<in> set (sort_key (\<lambda>x. - int (count_list xs x)) (sort (remdups xs)))"
    unfolding mode_of_def by (rule hd_in_set)
  then show ?thesis by simp
qed

lemma beacon_ports:
  assumes fit: "ports_fit acct" and D: "DetectBeacons e w nets ex n g cv acct = Inr hs" "h \<in> set hs"
  shows "be_port h \<le> max_int32"
proof -
  have "h \<in> beacon ` set (filter (regular n g cv) (group_rows (\<lambda>f. (ip_src f, ip_dst f)) (filter (beacon_flow w nets ex) acct)))"
    using db_take_Inr [OF D(1) [unfolded DetectBeacons_def] D(2)] by auto
  then obtain a b fs where k: "((a, b), fs) \<in> set (group_rows (\<lambda>f. (ip_src f, ip_dst f)) (filter (beacon_flow w nets ex) acct))"
    "h = beacon ((a, b), fs)" "regular n g cv ((a, b), fs)" by auto
  have sub: "f \<in> set acct" if "f \<in> set fs" for f using group_rows_mem [OF k(1) that] by simp
  have low: "snd (snd c) \<le> max_int32" if "c \<in> set (contacts fs)" for c
  proof -
    have "c \<in> (\<lambda>(t, g). (t, sum_of bytes g, first_of low_port g)) ` set (group_rows stamp fs)"
      using that unfolding contacts_def set_sort set_map .
    then obtain x where x: "x \<in> set (group_rows stamp fs)" "c = (\<lambda>(t, g). (t, sum_of bytes g, first_of low_port g)) x"
      by (rule imageE)
    obtain t gr where "x = (t, gr)" by fastforce
    with x have c: "(t, gr) \<in> set (group_rows stamp fs)" "c = (t, sum_of bytes gr, first_of low_port gr)"
      by simp_all
    have "gr \<noteq> []" by (rule group_rows_nonempty [OF c(1)])
    then have "first_of low_port gr \<in> low_port ` set gr" unfolding first_of_def by (metis List.finite_set Min_in list.set_map set_empty map_is_Nil_conv)
    then obtain f where "f \<in> set gr" "first_of low_port gr = low_port f" by blast
    with group_rows_mem [OF c(1)] sub ports_fit_flow(2) [OF fit] c(2) show ?thesis by auto
  qed
  have "contacts fs \<noteq> []" using k(3) by (auto simp: regular_def Let_def)
  then have "mode_of (map (\<lambda>c. snd (snd c)) (contacts fs)) \<in> set (map (\<lambda>c. snd (snd c)) (contacts fs))"
    by (intro mode_of_mem) simp
  with low show ?thesis by (auto simp: k(2) beacon_def Let_def)
qed

lemma finding_ports [simp]:
  "f_port (threat_finding a1) = 0" "f_port (reputation_finding q a2) = 0" "f_port (geo_finding a3) = 0"
  "f_port (destination_finding a4) = 0" "f_port (flagged_finding a5) = 0" "f_port (beacon_finding z a6) = be_port a6"
  "f_port (tunnel_finding a7) = ll_port a7" "f_port (dns_finding a8) = du_port a8" "f_port (brute_finding a9) = bh_port a9"
  "f_port (port_finding cr b1) = pu_port b1" "f_port (dns_volume_finding b2) = 0" "f_port (volume_finding hr b3) = 0"
  "f_port (new_host_finding z b4) = 0" "f_port (fanout_finding b5) = 0" "f_port (one_way_finding b6) = 0"
  "f_port (scan_finding b7) = 0" "f_port (sweep_finding b8) = 0"
  by (simp_all add: finding_defs Let_def blank_def)

lemma builtin_ports:
  assumes "r \<in> set builtinRules" "r_run r c env p w s = Inr fs" "f \<in> set fs" "ports_fit (w_acct s)"
  shows "f_port f \<le> max_int32"
proof -
  have z: "(0 :: int) \<le> max_int32" by (simp add: max_int32_def)
  show ?thesis
    using assms(1) unfolding builtinRules_def list.set insert_iff empty_iff
    apply (elim disjE)
    using assms(2,3) z
    by (auto simp: rule_defs nets_of_def findings_Inr bindE_Inr_iff split: if_splits)
      (drule row_ports [OF assms(4)] beacon_ports [OF assms(4)], assumption+)+
qed

text \<open>The texts of addresses without a zone are addresses for the database.\<close>

definition storable :: "Finding \<Rightarrow> bool" where
  "storable f \<longleftrightarrow> inet_arg (f_host f) \<noteq> None \<and> inet_arg (f_peer f) \<noteq> None \<and> (f_host f \<noteq> [] \<or> f_peer f \<noteq> []) \<and>
     f_port f \<le> max_int32"

lemma AddrString_nonempty: "plain_addr a \<Longrightarrow> AddrString a \<noteq> []"
  using ParseAddr_AddrString [of a] by (auto simp: ParseAddr_def)

lemma inet_arg_AddrString: "plain_addr a \<Longrightarrow> inet_arg (AddrString a) = Some (Some a)"
  using ParseAddr_AddrString [of a] AddrString_nonempty [of a]
  by (cases a) (auto simp: inet_arg_def plain_addr_def)

lemma inet_arg_Nil: "inet_arg [] = Some None"
  by (simp add: inet_arg_def)

lemma inet_arg_end: "a \<in> A \<Longrightarrow> \<forall>a \<in> A. plain_addr a \<Longrightarrow> inet_arg (AddrString a) \<noteq> None \<and> AddrString a \<noteq> []"
  using inet_arg_AddrString AddrString_nonempty by auto

lemma names_ends_storable:
  assumes "names_ends A f" "\<forall>a \<in> A. plain_addr a" "f_port f \<le> max_int32"
  shows "storable f"
proof -
  have "inet_arg x \<noteq> None" if "x = [] \<or> x \<in> AddrString ` A" for x
    using that
  proof
    assume "x \<in> AddrString ` A"
    then obtain a where "a \<in> A" "x = AddrString a" by blast
    with inet_arg_end [of a A] assms(2) show ?thesis by blast
  next
    assume "x = []"
    then show ?thesis unfolding \<open>x = []\<close> inet_arg_Nil by blast
  qed
  moreover have "f_host f \<noteq> [] \<or> f_peer f \<noteq> []"
    using assms inet_arg_end [of _ A] unfolding names_ends_def by (metis imageE)
  ultimately show ?thesis using assms(1,3) unfolding storable_def names_ends_def insert_iff by blast
qed

text \<open>What the \<open>inet\<close> and the \<open>integer\<close> columns of the tables hold.\<close>

definition plain_tables :: "flow list \<Rightarrow> rollup_db \<Rightarrow> bool" where
  "plain_tables acct d \<longleftrightarrow> list_all (\<lambda>f. plain_addr (ip_src f) \<and> plain_addr (ip_dst f)) acct \<and>
     list_all (\<lambda>x. plain_addr (fst (fst x))) (host_hourly d) \<and> ports_fit acct"

lemma plain_ends: "plain_tables acct d \<Longrightarrow> a \<in> ends_of acct d \<Longrightarrow> plain_addr a"
  by (auto simp: plain_tables_def ends_of_def list_all_iff)

lemma builtin_storable:
  assumes "r \<in> set builtinRules" "r_run r c env p w s = Inr fs" "plain_tables (w_acct s) (w_rollup s)" "f \<in> set fs"
  shows "storable f"
proof (rule names_ends_storable)
  show "names_ends (ends_of (w_acct s) (w_rollup s)) f" using builtin_findings [OF assms(1,2,4)] by blast
  show "\<forall>a \<in> ends_of (w_acct s) (w_rollup s). plain_addr a" using plain_ends [OF assms(3)] by blast
  show "f_port f \<le> max_int32"
    using builtin_ports [OF assms(1,2,4)] assms(3) by (simp add: plain_tables_def)
qed

section \<open>Storing the findings\<close>

lemma fill_finding_ends [simp]: "f_host (fill_finding r ef f) = f_host f" "f_peer (fill_finding r ef f) = f_peer f"
  "f_port (fill_finding r ef f) = f_port f"
  by (simp_all add: fill_finding_def Let_def)

lemma attach_one_ends:
  "f_host (attach_one e w d f) = f_host f \<and> f_peer (attach_one e w d f) = f_peer f \<and> f_port (attach_one e w d f) = f_port f"
  by (simp add: attach_one_def split: sum.split)

lemma applyExclusions_subset: "applyExclusions e fs d = Inr kept \<Longrightarrow> set kept \<subseteq> set fs"
  by (auto simp: applyExclusions_def bindE_Inr_iff split: if_splits)

lemma evaluate_storable:
  assumes "evaluate c env r e w = Inr kept" and "\<And>fs f. r_run r c env (ef_params (effective_of e r))
      \<lparr>Since = now_of env - ef_window (effective_of e r), Until = now_of env\<rparr> w = Inr fs \<Longrightarrow> f \<in> set fs \<Longrightarrow> storable f"
    and "g \<in> set kept"
  shows "storable g"
proof -
  let ?ef = "effective_of e r"
  obtain fs ex es where run: "r_run r c env (ef_params ?ef) \<lparr>Since = now_of env - ef_window ?ef, Until = now_of env\<rparr> w = Inr fs"
    and x: "applyExclusions env (map (fill_finding r ?ef) (filter (\<lambda>f. \<not> (ex (f_host f) \<or> ex (f_peer f))) fs)) (w_alerts w) = Inr es"
    and k: "kept = attachProcesses env \<lparr>Since = now_of env - ef_window ?ef, Until = now_of env\<rparr> (w_fleet w) es"
    using assms(1) by (auto simp: evaluate_def Let_def bindE_Inr_iff)
  have "\<exists>h \<in> set es. f_host g = f_host h \<and> f_peer g = f_peer h \<and> f_port g = f_port h"
    using assms(3) k attach_one_ends by (fastforce simp: attachProcesses_def split: if_splits sum.splits)
  then obtain h where h: "h \<in> set es" "f_host g = f_host h" "f_peer g = f_peer h" "f_port g = f_port h" by blast
  then obtain f where "f \<in> set fs" "h = fill_finding r ?ef f" using applyExclusions_subset [OF x] by auto
  with assms(2) [OF run] h show ?thesis by (simp add: storable_def)
qed

lemma UpsertAlert_stores:
  assumes "storable f" "\<not> fault env [''UpsertAlert'', DedupeKey f]" "\<forall>a \<in> set (alerts d). a_count a + 1 + int n \<le> max_int32"
    and "1 + int n \<le> max_int32"
  shows "\<exists>x d'. UpsertAlert env f d = (Inr x, d') \<and> (\<forall>a \<in> set (alerts d'). a_count a + int n \<le> max_int32)"
proof -
  obtain host peer where hp: "inet_arg (f_host f) = Some host" "inet_arg (f_peer f) = Some peer" "f_port f \<le> max_int32"
    using assms(1) by (auto simp: storable_def)
  show ?thesis
  proof (cases "find (\<lambda>a. live_alert a \<and> a_key a = DedupeKey f) (alerts d)")
    case None
    then show ?thesis using assms(2-4) hp by (auto simp: UpsertAlert_def Let_def new_alert_def)
  next
    case (Some a)
    then have "a \<in> set (alerts d)" by (auto simp: find_Some_iff)
    with assms(3) have "\<not> a_count a \<ge> max_int32" by auto
    with Some show ?thesis using assms(2,3) hp by (fastforce simp: UpsertAlert_def Let_def bump_alert_def)
  qed
qed

lemma raise_loop_succeeds:
  assumes "\<forall>f \<in> set fs. storable f" "\<And>k. \<not> fault env [''UpsertAlert'', k]"
    and "\<forall>a \<in> set (alerts d). a_count a + int (length fs) \<le> max_int32" "int (length fs) \<le> max_int32"
  shows "\<exists>raised' d'. raise_loop c env fs raised d = (Inr raised', d')"
  using assms
proof (induction fs arbitrary: raised d)
  case (Cons f fs)
  then obtain x d' where u: "UpsertAlert env f d = (Inr x, d')" "\<forall>a \<in> set (alerts d'). a_count a + int (length fs) \<le> max_int32"
    using UpsertAlert_stores [of f env d "length fs"] by (force simp: algebra_simps)
  with Cons show ?case by simp
qed simp

text \<open>C22: The findings of the built-in rules fit the alert table. Over tables whose addresses have no zone and
  whose ports are 32-bit numbers, as columns of type \<open>inet\<close> and \<open>integer\<close> hold them, every finding that an
  evaluation yields names at least one address, only texts that the insert's cast accepts, of both families, and
  a port that its column holds; so storing them fails only where a statement
  fails or a counter is at its limit.\<close>

theorem builtin_findings_are_stored:
  assumes "r \<in> set builtinRules" and "plain_tables (w_acct w) (w_rollup w)" and "evaluate c env r e w = Inr fs"
    and "\<forall>k. \<not> fault env [''UpsertAlert'', k]"
    and "\<forall>a \<in> set (alerts (w_alerts w)). a_count a + int (length fs) \<le> max_int32" and "int (length fs) \<le> max_int32"
  shows "list_all storable fs \<and> (\<exists>raised d. raise_loop c env fs [] (w_alerts w) = (Inr raised, d))"
proof -
  have "storable f" if "f \<in> set fs" for f
    using evaluate_storable [OF assms(3) _ that] builtin_storable [OF assms(1) _ assms(2)] by blast
  then show ?thesis using raise_loop_succeeds [of fs env "w_alerts w"] assms(4-6) by (auto simp: list_all_iff)
qed

section \<open>Counts\<close>

lemma filter_list_hits:
  "(\<And>c. P c \<Longrightarrow> cx_peer c = p) \<Longrightarrow>
     length (filter (\<lambda>x. P (fst x)) (list_hits d cs)) = length (filter P cs) * length (listed_rows d p)"
  unfolding list_hits_def by (induction cs) (auto simp: filter_map comp_def)

text \<open>The counts of a threat-list hit are multiplied. The statement joins the flows of a pair with the list
  entries that contain the peer before it sums, so a hit reports every flow once per matching entry: an address
  on two lists, or in two networks of one list, has twice its flows.\<close>

theorem threat_hit_counts_list_entries:
  assumes "h \<in> set (threat_hits w nets acct d)"
  shows "tk_flows h = int (length (filter (\<lambda>c. pair_of c = (tk_host h, tk_peer h)) (crossings nets (filter (in_window w) acct)))) *
     int (length (listed_rows d (tk_peer h)))"
proof -
  let ?cs = "crossings nets (filter (in_window w) acct)"
  from assms obtain a b g where g: "((a, b), g) \<in> set (group_rows (\<lambda>x. pair_of (fst x)) (list_hits d ?cs))" "h = threat_hit ((a, b), g)"
    by (auto simp: threat_hits_def)
  have k: "tk_host h = a" "tk_peer h = b" "tk_flows h = int (length g)" by (simp_all add: g(2) threat_hit_def)
  have "g = filter (\<lambda>x. pair_of (fst x) = (a, b)) (list_hits d ?cs)" using g(1) by (auto simp: group_rows_def)
  moreover have "length (filter (\<lambda>x. pair_of (fst x) = (a, b)) (list_hits d ?cs)) =
      length (filter (\<lambda>c. pair_of c = (a, b)) ?cs) * length (listed_rows d b)"
    by (rule filter_list_hits) (simp add: pair_of_def)
  ultimately show ?thesis unfolding k by simp
qed

text \<open>The reference for unanswered connections: the peers a host sent to that sent nothing back.\<close>

definition tried :: "Window \<Rightarrow> flow \<Rightarrow> bool" where
  "tried w f \<longleftrightarrow> in_window w f \<and> tcp_udp f \<and> \<not> multicast_dst f"

definition silent_peers :: "Window \<Rightarrow> prefix list \<Rightarrow> flow list \<Rightarrow> addr \<Rightarrow> addr list" where
  "silent_peers w nets acct h =
     filter (\<lambda>p. \<not> list_ex (\<lambda>f. tried w f \<and> inbound nets f \<and> ip_dst f = h \<and> ip_src f = p) acct)
       (remdups (map ip_dst (filter (\<lambda>f. tried w f \<and> outbound nets f \<and> ip_src f = h) acct)))"

lemma unanswered_keys:
  "distinct (map fst (unanswered nets fs))"
  "(h, p) \<in> fst ` set (unanswered nets fs) \<longleftrightarrow>
     list_ex (\<lambda>f. outbound nets f \<and> ip_src f = h \<and> ip_dst f = p) fs \<and> \<not> list_ex (\<lambda>f. inbound nets f \<and> ip_dst f = h \<and> ip_src f = p) fs"
proof -
  show "distinct (map fst (unanswered nets fs))"
    unfolding unanswered_def Let_def by (rule distinct_map_filter) (rule group_rows_distinct)
  have "(h, p) \<in> fst ` set (unanswered nets fs) \<longleftrightarrow>
      (h, p) \<in> fst ` set (group_rows (\<lambda>f. (ip_src f, ip_dst f)) (filter (outbound nets) fs)) \<and>
      (h, p) \<notin> (\<lambda>f. (ip_dst f, ip_src f)) ` set (filter (inbound nets) fs)"
    unfolding unanswered_def Let_def by force
  moreover have "fst ` set (group_rows key xs) = key ` set xs" for key :: "flow \<Rightarrow> addr \<times> addr" and xs
    by (simp add: group_rows_def image_image)
  ultimately show "(h, p) \<in> fst ` set (unanswered nets fs) \<longleftrightarrow>
     list_ex (\<lambda>f. outbound nets f \<and> ip_src f = h \<and> ip_dst f = p) fs \<and> \<not> list_ex (\<lambda>f. inbound nets f \<and> ip_dst f = h \<and> ip_src f = p) fs"
    by (simp add: list_ex_iff image_iff) metis
qed

lemma silent_iff:
  "p \<in> set (silent_peers w nets acct h) \<longleftrightarrow>
     list_ex (\<lambda>f. outbound nets f \<and> ip_src f = h \<and> ip_dst f = p) (filter (tried w) acct) \<and>
     \<not> list_ex (\<lambda>f. inbound nets f \<and> ip_dst f = h \<and> ip_src f = p) (filter (tried w) acct)"
  by (auto simp: silent_peers_def list_ex_iff image_iff)

lemma silent_group:
  assumes "U = unanswered nets (filter (\<lambda>f. in_window w f \<and> tcp_udp f \<and> \<not> multicast_dst f) acct)"
  shows "length (filter (\<lambda>kg. fst (fst kg) = h) U) = length (silent_peers w nets acct h)"
proof -
  let ?g = "filter (\<lambda>kg. fst (fst kg) = h) U"
  have "distinct (map fst ?g)" using unanswered_keys(1) by (simp add: assms distinct_map_filter)
  moreover have "inj_on snd (fst ` set ?g)" by (auto intro!: inj_onI)
  ultimately have d: "distinct (map (\<lambda>kg. snd (fst kg)) ?g)" by (simp add: distinct_map comp_inj_on image_image inj_on_def)
  have U: "U = unanswered nets (filter (tried w) acct)" by (simp add: assms tried_def [abs_def])
  have "p \<in> (\<lambda>kg. snd (fst kg)) ` set ?g \<longleftrightarrow> (h, p) \<in> fst ` set U" for p by force
  then have "set (map (\<lambda>kg. snd (fst kg)) ?g) = set (silent_peers w nets acct h)"
    by (intro set_eqI) (simp add: silent_iff U unanswered_keys(2))
  moreover have "distinct (silent_peers w nets acct h)" by (simp add: silent_peers_def)
  ultimately show ?thesis using d by (metis distinct_card length_map)
qed

text \<open>The rule for unanswered connections counts what it says. Every reported host has exactly the reported
  number of external peers it sent to and got nothing from in the window, at least the threshold; and when the
  result is not cut at its limit, every host with that many silent peers is reported.\<close>

theorem one_way_equals_reference:
  assumes "DetectOneWay e w nets n acct = Inr hs"
  shows "(\<forall>r \<in> set hs. ow_peers r = int (length (silent_peers w nets acct (ow_host r))) \<and> n \<le> ow_peers r) \<and>
    (length hs < 200 \<longrightarrow> (\<forall>h. silent_peers w nets acct h \<noteq> [] \<and> n \<le> int (length (silent_peers w nets acct h)) \<longrightarrow> h \<in> ow_host ` set hs))"
proof -
  define U where "U = unanswered nets (filter (\<lambda>f. in_window w f \<and> tcp_udp f \<and> \<not> multicast_dst f) acct)"
  define rows where "rows = filter (\<lambda>h. ow_peers h \<ge> n) (map one_way_hit (group_rows (\<lambda>kg. fst (fst kg)) U))"
  have hs: "hs = take 200 (sort_key (\<lambda>h. - ow_peers h) rows)"
    using assms by (simp add: DetectOneWay_def db_read_Inr_iff rows_def U_def)
  have peers: "ow_peers (one_way_hit (h, g)) = int (length (silent_peers w nets acct h))" if "(h, g) \<in> set (group_rows (\<lambda>kg. fst (fst kg)) U)" for h g
  proof -
    have "g = filter (\<lambda>kg. fst (fst kg) = h) U" using that by (auto simp: group_rows_def)
    then show ?thesis using silent_group [OF U_def, of h] by (simp add: one_way_hit_def)
  qed
  have "ow_peers r = int (length (silent_peers w nets acct (ow_host r))) \<and> n \<le> ow_peers r" if r: "r \<in> set hs" for r
  proof -
    have "r \<in> set rows" using r in_take unfolding hs by fastforce
    then obtain h g where "(h, g) \<in> set (group_rows (\<lambda>kg. fst (fst kg)) U)" "r = one_way_hit (h, g)" "n \<le> ow_peers r"
      by (auto simp: rows_def)
    with peers [of h g] show ?thesis by (simp add: one_way_hit_def)
  qed
  moreover have "h \<in> ow_host ` set hs"
    if "length hs < 200" "silent_peers w nets acct h \<noteq> []" "n \<le> int (length (silent_peers w nets acct h))" for h
  proof -
    have all: "set hs = set rows" using that(1) by (simp add: hs)
    have "filter (\<lambda>kg. fst (fst kg) = h) U \<noteq> []" using silent_group [OF U_def, of h] that(2) by auto
    then have "(h, filter (\<lambda>kg. fst (fst kg) = h) U) \<in> set (group_rows (\<lambda>kg. fst (fst kg)) U)"
      by (auto simp: group_rows_def filter_empty_conv)
    with peers [OF this] that(3) have "one_way_hit (h, filter (\<lambda>kg. fst (fst kg) = h) U) \<in> set rows" by (auto simp: rows_def)
    then show ?thesis unfolding all by (force simp: one_way_hit_def)
  qed
  ultimately show ?thesis by blast
qed

section \<open>Volume and new hosts\<close>

lemma length_filter_sort: "length (filter P (sort xs)) = length (filter P xs)"
proof -
  have "length (filter P (insort x xs)) = length (filter P (x # xs))" for x xs
    by (induction xs) auto
  then show ?thesis by (induction xs) (simp_all add: sort_key_def)
qed

text \<open>At least half of the values lie at or below the median.\<close>

lemma median2_half:
  assumes "xs \<noteq> []"
  shows "length xs \<le> 2 * length (filter (\<lambda>x. 2 * x \<le> median2 xs) xs)"
proof -
  let ?s = "sort xs" and ?n = "length xs"
  let ?k = "(?n - 1) div 2"
  have kn: "?k < ?n" "?n div 2 < ?n" "?k \<le> ?n div 2"
  proof -
    have "0 < ?n" using assms by simp
    then show "?k < ?n" "?n div 2 < ?n" "?k \<le> ?n div 2" by linarith+
  qed
  have "\<forall>x \<in> set (take (Suc ?k) ?s). 2 * x \<le> median2 xs"
  proof
    fix x
    assume "x \<in> set (take (Suc ?k) ?s)"
    then obtain i where i: "i < Suc ?k" "x = ?s ! i" using kn by (auto simp: in_set_conv_nth)
    then have "x \<le> ?s ! ?k" "x \<le> ?s ! (?n div 2)" using kn by (auto intro!: sorted_nth_mono)
    then show "2 * x \<le> median2 xs" by (simp add: median2_def Let_def)
  qed
  then have "filter (\<lambda>x. 2 * x \<le> median2 xs) (take (Suc ?k) ?s) = take (Suc ?k) ?s" by (simp add: filter_id_conv)
  then have "Suc ?k \<le> length (filter (\<lambda>x. 2 * x \<le> median2 xs) (take (Suc ?k) ?s @ drop (Suc ?k) ?s))"
    using kn(1) unfolding filter_append length_append by simp
  then have "Suc ?k \<le> length (filter (\<lambda>x. 2 * x \<le> median2 xs) xs)" by (simp add: length_filter_sort)
  moreover have "?n \<le> 2 * Suc ?k" by presburger
  ultimately show ?thesis by linarith
qed

lemma length_filter_mono_pred: "(\<And>x. P x \<Longrightarrow> Q x) \<Longrightarrow> length (filter P xs) \<le> length (filter Q xs)"
  by (induction xs) (auto intro: le_SucI)

text \<open>A volume alarm is exceptional. With a factor that is not negative, the reported hour has a baseline of at
  least the required samples, lies above the median by more than the factor times one MiB, and strictly above at
  least half of the same hours of the days before.\<close>

theorem volume_alarm_is_exceptional:
  assumes "DetectVolumeAnomalies e hour days minSamples minBytes factor d = Inr vs" and "v \<in> set vs" and "0 \<le> fst factor"
  shows "let hist = volume_history hour days d (va_host v) in
     minSamples \<le> int (length hist) \<and> minBytes \<le> va_out v \<and>
     2 * 10 ^ snd factor * va_out v > 10 ^ snd factor * median2 hist + 2 * fst factor * 1048576 \<and>
     length hist \<le> 2 * length (filter (\<lambda>b. b < va_out v) hist)"
proof -
  from volume_rows [OF assms(1,2)] obtain x where x: "v = volume_stats hour days d x"
    and n: "minSamples \<le> va_samples v" "0 < va_samples v" "minBytes \<le> va_out v" "far_above factor v" by auto
  let ?h = "volume_history hour days d (va_host v)" and ?p = "(10 :: int) ^ snd factor"
  have v: "va_med2 v = median2 ?h" "va_samples v = int (length ?h)" by (simp_all add: x volume_stats_def Let_def)
  have "fst factor * (40 * 1048576) \<le> fst factor * max (max (10 * va_mad4 v) (2 * va_med2 v)) (40 * 1048576)"
    using assms(3) by (intro mult_left_mono) simp_all
  then have above: "40 * va_out v * ?p > 20 * median2 ?h * ?p + fst factor * (40 * 1048576)"
    using n(4) unfolding far_above_def v by linarith
  then have gap: "2 * ?p * va_out v > ?p * median2 ?h + 2 * fst factor * 1048576" by (simp add: algebra_simps)
  have "2 * va_out v > median2 ?h"
  proof -
    have "?p * median2 ?h < ?p * (2 * va_out v)" using gap assms(3) by linarith
    then show ?thesis by (simp only: mult_less_cancel_left_pos zero_less_power zero_less_numeral)
  qed
  then have sub: "2 * b \<le> median2 ?h \<longrightarrow> b < va_out v" for b by linarith
  have "length (filter (\<lambda>b. 2 * b \<le> median2 ?h) ?h) \<le> length (filter (\<lambda>b. b < va_out v) ?h)"
    by (rule length_filter_mono_pred) (use sub in blast)
  moreover have "?h \<noteq> []" using n(2) v(2) by auto
  ultimately have "length ?h \<le> 2 * length (filter (\<lambda>b. b < va_out v) ?h)" using median2_half [of ?h] by linarith
  then show ?thesis using n(1,3) gap v(2) unfolding Let_def by simp
qed

lemma first_of_le: "x \<in> set xs \<Longrightarrow> first_of g xs \<le> g x"
  by (simp add: first_of_def)

text \<open>A device is announced as new only after the roll-ups reach back far enough, and only when no roll-up of it
  is older than the window.\<close>

lemma new_host_is_new:
  assumes "DetectNewHosts e since minHistory d = Inr ns" "n \<in> set ns" "x \<in> set (host_hourly d)" "fst (fst x) = nh_host n"
  shows "since \<le> snd (fst x) \<and> (\<exists>y \<in> set (host_hourly d). snd (fst y) \<le> now_of e - minHistory)"
proof -
  let ?rows = "map (\<lambda>(h, g). \<lparr>nh_host = h, nh_first = first_of (\<lambda>x. snd (fst x)) g,
      nh_bytes = sum_of (\<lambda>x. hr_in (snd x) + hr_out (snd x)) g\<rparr>) (group_rows (\<lambda>x. fst (fst x)) (host_hourly d))"
  have old: "host_hourly d \<noteq> []" "\<not> now_of e - first_of (\<lambda>x. snd (fst x)) (host_hourly d) < minHistory"
    and n: "n \<in> set ?rows" "since \<le> nh_first n"
    using assms(1,2) by (auto simp: DetectNewHosts_def bindE_Inr_iff split: if_splits dest!: db_take_Inr)
  from n(1) obtain g where g: "(nh_host n, g) \<in> set (group_rows (\<lambda>x. fst (fst x)) (host_hourly d))" "nh_first n = first_of (\<lambda>x. snd (fst x)) g"
    by auto
  have "x \<in> set g" using g(1) assms(3,4) by (auto simp: group_rows_def)
  then have "since \<le> snd (fst x)" using first_of_le [of x g "\<lambda>x. snd (fst x)"] n(2) g(2) by simp
  have "first_of (\<lambda>x. snd (fst x)) (host_hourly d) \<in> (\<lambda>x. snd (fst x)) ` set (host_hourly d)"
    using old(1) unfolding first_of_def set_map by (intro Min_in) simp_all
  then obtain y where "y \<in> set (host_hourly d)" "first_of (\<lambda>x. snd (fst x)) (host_hourly d) = snd (fst y)" by blast
  with old(2) have "\<exists>y \<in> set (host_hourly d). snd (fst y) \<le> now_of e - minHistory" by (intro bexI [of _ y]) simp_all
  with \<open>since \<le> snd (fst x)\<close> show ?thesis by blast
qed

section \<open>The list of rules\<close>

text \<open>The built-in rules are well formed: no two share a name, none is a custom rule, every severity is known,
  every name could also be entered by a user, parameters are named apart, and intervals and windows lie within the
  bounds of an update, except the interval of \<open>ids\<close>, which is never run by the scheduler in practice.\<close>

definition good_rule :: "'x Rule \<Rightarrow> bool" where
  "good_rule r \<longleftrightarrow> r_custom r = None \<and> SeverityRank (r_severity r) > 0 \<and> customNameRe (r_name r) \<and>
     distinct (map pa_name (r_params r)) \<and> MinInterval \<le> r_interval r \<and> (r_name r = ''ids'' \<or> r_interval r \<le> MaxInterval) \<and>
     MinWindow \<le> r_window r \<and> r_window r \<le> MaxWindow"

lemma builtin_names:
  "map r_name (builtinRules :: 'x sight_ext Rule list) =
    [''ids'', ''threat_feed'', ''reputation'', ''suspicious_port'', ''port_scan'', ''host_scan'', ''brute_force'', ''one_way'',
     ''dns_resolver'', ''dns_volume'', ''geo_policy'', ''volume_anomaly'', ''new_host'', ''new_destination'', ''beaconing'',
     ''long_lived'', ''iot_fanout'']"
  by (simp add: builtinRules_def rule_defs)

lemma builtin_rules_well_formed:
  "distinct (map r_name (builtinRules :: 'x sight_ext Rule list)) \<and> list_all good_rule (builtinRules :: 'x sight_ext Rule list)"
proof
  show "distinct (map r_name (builtinRules :: 'x sight_ext Rule list))" unfolding builtin_names by simp
  have name: "customNameRe n" if "n \<in> set (map r_name (builtinRules :: 'x sight_ext Rule list))" for n
    using that unfolding builtin_names by (simp, elim disjE) (simp_all add: customNameRe_def lower_letter_def is_digit_def)
  show "list_all good_rule (builtinRules :: 'x sight_ext Rule list)"
  proof (unfold list_all_iff, intro ballI)
    fix r :: "'x sight_ext Rule"
    assume r: "r \<in> set builtinRules"
    then have "customNameRe (r_name r)" using name by auto
    with r show "good_rule r"
      unfolding builtinRules_def good_rule_def
      by (simp, elim disjE) (simp_all add: rule_defs param_def SeverityRank_def MinInterval_def MaxInterval_def MinWindow_def MaxWindow_def)
  qed
qed

lemma sound_builtin: "distinct (map cu_name rows) \<Longrightarrow> cu_name ` set rows \<inter> r_name ` set (builtinRules :: 'x sight_ext Rule list) = {} \<Longrightarrow>
   sound_start (builtinRules :: 'x sight_ext Rule list) rows"
  using builtin_rules_well_formed [where 'x = 'x] by (auto simp: sound_start_def list_all_iff good_rule_def)

section \<open>Examples\<close>

definition lan :: "prefix list" where "lan = [Prefix (v4 10 0 0 0) 8]"

definition lan_config :: Config where "lan_config = default_config\<lparr>LocalNetworks := lan\<rparr>"

definition listed_intel :: intel_db where
  "listed_intel = empty_intel\<lparr>threat_lists := [\<lparr>tl_net = Prefix (v4 8 8 8 0) 24, tl_list = ''spam'', tl_added = 0\<rparr>,
     \<lparr>tl_net = Prefix (v4 8 8 0 0) 16, tl_list = ''drop'', tl_added = 0\<rparr>]\<rparr>"

definition sample_sight :: sight where
  "sample_sight = \<lparr>w_alerts = empty_alert_db, w_fleet = empty_agent_db, w_custom = [], w_rules = None, w_acct = [sample_flow],
     w_intel = listed_intel, w_rollup = \<lparr>host_hourly = [], host_peer_daily = []\<rparr>, w_zone = (\<lambda>_. 0)\<rparr>"

definition sample_hit :: ThreatHit where
  "sample_hit = \<lparr>tk_host = v4 10 0 0 5, tk_peer = v4 8 8 8 8, tk_lists = [''drop'', ''spam''], tk_bytes = 3000, tk_flows = 2,
     tk_in = False, tk_out = True\<rparr>"

lemma sample_hits: "in_window w sample_flow \<Longrightarrow> threat_hits w lan [sample_flow] listed_intel = [sample_hit]"
proof -
  have "map threat_hit (group_rows (\<lambda>x. pair_of (fst x)) (list_hits listed_intel (crossings lan [sample_flow]))) = [sample_hit]"
    by code_simp
  then show "in_window w sample_flow \<Longrightarrow> ?thesis" by (simp add: threat_hits_def)
qed

lemma sample_threat_run:
  "in_window w sample_flow \<Longrightarrow> r_run threat_feed_rule lan_config (quiet_env t) p w sample_sight = Inr [threat_finding sample_hit]"
  by (simp add: threat_feed_rule_def DetectThreatListHits_def nets_of_def lan_config_def sample_sight_def sample_hits findings_def)

lemma threat_feed_builtin: "threat_feed_rule \<in> set builtinRules"
  by (simp add: builtinRules_def)

lemma sample_in_window: "in_window sample_window sample_flow"
  by (simp add: in_window_def sample_window_def sample_flow_def)

lemma sample_ends: "AddrString (v4 10 0 0 5) \<noteq> []" "AddrString (v4 8 8 8 8) \<noteq> []"
  by (rule AddrString_nonempty, simp add: plain_addr_def v4_def)+

theorem findings_rest_on_traffic_witness:
  "\<exists>h q. f_host (threat_finding sample_hit) = AddrString h \<and> f_peer (threat_finding sample_hit) = AddrString q \<and>
     crosses sample_window lan [sample_flow] h q"
proof -
  have f: "f_host (threat_finding sample_hit) \<noteq> []" "f_peer (threat_finding sample_hit) \<noteq> []"
    using sample_ends by (simp_all add: sample_hit_def)
  have n: "r_name (threat_feed_rule :: unit sight_ext Rule) \<noteq> ''port_scan''" by (simp add: threat_feed_rule_def)
  show ?thesis
    using findings_rest_on_traffic [OF threat_feed_builtin sample_threat_run [OF sample_in_window] _ n f]
    by (auto simp: lan_config_def sample_sight_def)
qed

theorem threat_hit_counts_list_entries_witness:
  "tk_flows sample_hit = 2 \<and> length (filter (\<lambda>c. pair_of c = (v4 10 0 0 5, v4 8 8 8 8)) (crossings lan (filter (in_window sample_window) [sample_flow]))) \<le> 1"
proof -
  have "length (listed_rows listed_intel (tk_peer sample_hit)) = 2" by code_simp
  then show ?thesis
    using threat_hit_counts_list_entries [of sample_hit sample_window lan "[sample_flow]" listed_intel] sample_hits [OF sample_in_window]
    by (simp add: sample_hit_def)
qed

theorem one_way_equals_reference_witness:
  "\<exists>hs. DetectOneWay (ok_env 0) sample_window lan 1 [sample_flow] = Inr hs \<and> v4 10 0 0 5 \<in> ow_host ` set hs"
proof -
  obtain hs where hs: "DetectOneWay (ok_env 0) sample_window lan 1 [sample_flow] = Inr hs" by (simp add: DetectOneWay_def)
  have "silent_peers sample_window lan [sample_flow] (v4 10 0 0 5) = [v4 8 8 8 8]" by code_simp
  moreover have "length hs < 200"
  proof -
    have "unanswered lan (filter (\<lambda>f. in_window sample_window f \<and> tcp_udp f \<and> \<not> multicast_dst f) [sample_flow]) =
        [((v4 10 0 0 5, v4 8 8 8 8), [sample_flow])]" by code_simp
    with hs show ?thesis by (auto simp: DetectOneWay_def group_rows_def)
  qed
  ultimately show ?thesis using one_way_equals_reference [OF hs] hs by auto
qed

definition quiet_engine :: "unit sight_ext Engine" where
  "quiet_engine = \<lparr>en_builtin = builtinRules, en_customs = [], en_cfg = Map.empty, en_state = Map.empty\<rparr>"

lemma effective_quiet:
  "r_custom r = None \<Longrightarrow> ef_exempt (effective_of quiet_engine r) = [] \<and> ef_window (effective_of quiet_engine r) = r_window r"
  by (simp add: effective_of_def quiet_engine_def opt_default_def no_override_def Let_def positive_duration_def ParseDuration_Nil)

theorem builtin_findings_are_stored_witness:
  "\<exists>f. evaluate lan_config (quiet_env (5 * Minute)) threat_feed_rule quiet_engine sample_sight = Inr [f] \<and> storable f"
proof -
  let ?r = "threat_feed_rule :: unit sight_ext Rule" and ?e = "quiet_env (5 * Minute)"
  have w: "r_custom ?r = None" "r_window ?r = 10 * Minute" by (simp_all add: threat_feed_rule_def)
  have win: "in_window \<lparr>Since = - (5 * Minute), Until = 5 * Minute\<rparr> sample_flow" by (simp add: in_window_def sample_flow_def)
  have ex: "resolveExempt ?e [] empty_alert_db = Inr (\<lambda>_. False)"
    by (simp add: resolveExempt_def exempt_ips_def exempt_names_def map_filter_simps)
  obtain f where f: "evaluate lan_config ?e ?r quiet_engine sample_sight = Inr [f]"
    using effective_quiet [OF w(1)] w(2) sample_threat_run [OF win] ex
    by (simp add: evaluate_def Let_def sample_sight_def exclude_nothing attachProcesses_def CountActiveAgents_def empty_agent_db_def)
  have "plain_tables (w_acct sample_sight) (w_rollup sample_sight)"
    by (simp add: plain_tables_def ports_fit_def int32_ok_def max_int32_def sample_sight_def sample_flow_def plain_addr_def v4_def)
  from builtin_findings_are_stored [OF threat_feed_builtin this f] have "storable f"
    by (simp add: sample_sight_def empty_alert_db_def max_int32_def)
  with f show ?thesis by blast
qed

definition busy_rollup :: rollup_db where
  "busy_rollup = \<lparr>host_hourly =
     [((v4 10 0 0 5, 0), \<lparr>hr_in = 0, hr_out = 1000, hr_packets = 1, hr_flows = 1, hr_peers = 1, hr_ports = 1\<rparr>),
      ((v4 10 0 0 5, Day), \<lparr>hr_in = 0, hr_out = 1000000000, hr_packets = 1, hr_flows = 1, hr_peers = 1, hr_ports = 1\<rparr>)],
     host_peer_daily = []\<rparr>"

theorem volume_alarm_is_exceptional_witness:
  "\<exists>v. DetectVolumeAnomalies (ok_env Day) Day 14 1 52428800 (5, 0) busy_rollup = Inr [v] \<and>
     volume_history Day 14 busy_rollup (va_host v) = [1000] \<and> 1000 < va_out v"
proof -
  define v where "v = volume_stats Day 14 busy_rollup ((v4 10 0 0 5, Day), \<lparr>hr_in = 0, hr_out = 1000000000, hr_packets = 1, hr_flows = 1, hr_peers = 1, hr_ports = 1\<rparr>)"
  have h: "volume_history Day 14 busy_rollup (v4 10 0 0 5) = [1000]" by (simp add: volume_history_def busy_rollup_def)
  have v: "va_host v = v4 10 0 0 5" "va_out v = 1000000000" "va_med2 v = 2000" "va_mad4 v = 0" "va_samples v = 1"
    by (simp_all add: v_def volume_stats_def Let_def h median2_def del: time_units)
  have "filter (\<lambda>x. snd (fst x) = Day) (host_hourly busy_rollup) =
      [((v4 10 0 0 5, Day), \<lparr>hr_in = 0, hr_out = 1000000000, hr_packets = 1, hr_flows = 1, hr_peers = 1, hr_ports = 1\<rparr>)]"
    by (simp add: busy_rollup_def time_units)
  then have d: "DetectVolumeAnomalies (ok_env Day) Day 14 1 52428800 (5, 0) busy_rollup = Inr [v]"
    by (simp add: DetectVolumeAnomalies_def int4_arg_def max_int32_def v far_above_def flip: v_def del: time_units)
  have "length [1000 :: int] \<le> 2 * length (filter (\<lambda>b. b < va_out v) [1000 :: int])"
    using volume_alarm_is_exceptional [OF d, of v] h v(1) by (simp add: Let_def del: time_units)
  then show ?thesis using d h v by auto
qed

end
