(* ===== verification/Notify.thy ===== *)
theory Notify
  imports Intel Config Clock
begin

text \<open>
  Notifications (\<open>internal/notify/notify.go\<close>, \<open>enrich.go\<close>): the dispatcher with its queue, severity filter, quiet
  hours and digest; the wording of a message with what is known about its addresses; and the six channels.
  A transport (HTTP client, SMTP) is the parameter \<open>deliver\<close>: what a request is answered with. \<open>zone\<close> is the
  server's time zone and \<open>key_order\<close> the order in which Go visits the keys of a map. The dispatcher always has a
  database; its mutex is not modelled, calls are atomic. Texts are bytes, so the characters the messages are
  decorated with are written in UTF-8.
\<close>

section \<open>Channels\<close>

datatype channel =
    Webhook string | Ntfy string string | Gotify string string | Telegram string string | Slack string
  | Email string int string string string string

definition Name :: "channel \<Rightarrow> string" where
  "Name c = (case c of Webhook _ \<Rightarrow> ''webhook'' | Ntfy _ _ \<Rightarrow> ''ntfy'' | Gotify _ _ \<Rightarrow> ''gotify''
     | Telegram _ _ \<Rightarrow> ''telegram'' | Slack _ \<Rightarrow> ''slack'' | Email _ _ _ _ _ _ \<Rightarrow> ''email'')"

text \<open>An alert of a batch with the nickname of its host, which \<open>UpsertAlert\<close> leaves out.\<close>

type_synonym notice = "Alert \<times> string option"

record Message =
  m_title :: string
  m_body :: string
  m_severity :: string
  m_alerts :: "notice list"
  m_url :: string

text \<open>What leaves the process: a JSON post (the webhook also carries the alerts), a text post, or a mail with its
  server, credentials, sender, recipients and text.\<close>

datatype delivery =
    PostJSON string "(string \<times> string) list" json "notice list"
  | PostText string "(string \<times> string) list" string
  | Mail string "(string \<times> string) option" string "string list" string

text \<open>The transport answers with its own error, or with a status and the first bytes of the body.\<close>

record notify_env = env +
  deliver :: "delivery \<Rightarrow> string + (nat \<times> string)"
  zone :: "instant \<Rightarrow> duration"
  key_order :: "string list \<Rightarrow> string list"

definition http_result :: "string + (nat \<times> string) \<Rightarrow> string option" where
  "http_result r =
     (case r of Inl err \<Rightarrow> Some err
      | Inr (st, snippet) \<Rightarrow>
          if st \<ge> 300 then
            (let d = Join (Fields snippet) '' '' in
             Some (if d \<noteq> [] then ''http '' @ Itoa (int st) @ '': '' @ d else ''http '' @ Itoa (int st)))
          else None)"

definition priority :: "(string \<times> 'a) list \<Rightarrow> 'a \<Rightarrow> string \<Rightarrow> 'a" where
  "priority tbl def sev = opt_default def (map_of tbl sev)"

definition CRLF :: string where "CRLF = [CHR 0x0D, CHR 0x0A]"
definition NL :: string where "NL = [CHR 0x0A]"

definition ntfy_headers :: "string \<Rightarrow> Message \<Rightarrow> (string \<times> string) list" where
  "ntfy_headers token m =
     (let prio = priority [(''critical'', ''5''), (''warning'', ''4''), (''info'', ''3'')] [] (m_severity m) in
      [(''Title'', m_title m)] @ (if prio \<noteq> [] then [(''Priority'', prio)] else []) @ [(''Tags'', ''rotating_light'')] @
      (if m_url m \<noteq> [] then [(''Click'', m_url m)] else []) @
      (if token \<noteq> [] then [(''Authorization'', ''Bearer '' @ token)] else []))"

definition mail_text :: "string \<Rightarrow> string list \<Rightarrow> Message \<Rightarrow> string" where
  "mail_text from to m =
     ''From: '' @ from @ CRLF @ ''To: '' @ Join to '', '' @ CRLF @ ''Subject: '' @ m_title m @ CRLF @
     ''Content-Type: text/plain; charset=utf-8'' @ CRLF @ CRLF @ m_body m @ CRLF"

definition request_of :: "channel \<Rightarrow> Message \<Rightarrow> delivery" where
  "request_of c m =
     (case c of
        Webhook url \<Rightarrow>
          PostJSON url [] (JObj [(''title'', JStr (m_title m)), (''body'', JStr (m_body m)), (''severity'', JStr (m_severity m)),
            (''url'', JStr (m_url m))]) (m_alerts m)
      | Ntfy url token \<Rightarrow> PostText url (ntfy_headers token m) (m_body m)
      | Gotify url token \<Rightarrow>
          PostJSON (TrimRight {CHR ''/''} url @ ''/message'') [(''X-Gotify-Key'', token)]
            (JObj [(''title'', JStr (m_title m)), (''message'', JStr (m_body m)),
              (''priority'', JNum (priority [(''critical'', 8), (''warning'', 5), (''info'', 2)] 0 (m_severity m)))]) []
      | Telegram token chat \<Rightarrow>
          PostJSON (''https://api.telegram.org/bot'' @ token @ ''/sendMessage'') []
            (JObj [(''chat_id'', JStr chat), (''text'', JStr (m_title m @ NL @ m_body m)), (''disable_web_page_preview'', JBool True)]) []
      | Slack url \<Rightarrow> PostJSON url [] (JObj [(''text'', JStr (''*'' @ m_title m @ ''*'' @ NL @ m_body m))]) []
      | Email host port user pass frm to \<Rightarrow>
          (let from = (if frm = [] then ''pmacct-analyzer@'' @ host else frm); rcpt = map TrimSpace (SplitOn CHR '','' to) in
           Mail (host @ '':'' @ Itoa port) (if user = [] then None else Some (user, pass)) from rcpt (mail_text from rcpt m)))"

text \<open>\<open>Some\<close> error text, or \<open>None\<close> when the message was accepted.\<close>

definition Send :: "'e notify_env_scheme \<Rightarrow> channel \<Rightarrow> Message \<Rightarrow> string option" where
  "Send e c m =
     (let r = deliver e (request_of c m) in
      case c of Email _ _ _ _ _ _ \<Rightarrow> (case r of Inl err \<Rightarrow> Some err | Inr _ \<Rightarrow> None) | _ \<Rightarrow> http_result r)"

section \<open>What is known about an address\<close>

record ipCard =
  ca_ip :: string
  ca_nick :: string
  ca_kind :: string
  ca_note :: string
  ca_name :: string
  ca_geo :: string
  ca_org :: string
  ca_flags :: "string list"

definition dots :: string where "dots = [CHR 0xE2, CHR 0x80, CHR 0xA6]"
definition middle_dot :: string where "middle_dot = [CHR '' '', CHR 0xC2, CHR 0xB7, CHR '' '']"
definition bullet :: string where "bullet = [CHR 0xE2, CHR 0x80, CHR 0xA2, CHR '' '']"
definition dash :: string where "dash = [CHR '' '', CHR 0xE2, CHR 0x80, CHR 0x94, CHR '' '']"
definition hook :: string where "hook = [CHR '' '', CHR '' '', CHR '' '', CHR 0xE2, CHR 0x86, CHR 0xB3, CHR '' '']"

definition Label :: "ipCard \<Rightarrow> string" where
  "Label c = (if ca_nick c \<noteq> [] then ca_nick c @ '' ('' @ ca_ip c @ '')'' else ca_ip c)"

definition Detail :: "ipCard \<Rightarrow> string" where
  "Detail c =
     Join ((if ca_nick c \<noteq> [] \<and> ca_kind c \<noteq> [] \<and> ca_kind c \<noteq> ''other'' then [ca_kind c] else []) @
       filter (\<lambda>s. s \<noteq> []) [ca_name c, ca_geo c, ca_org c] @ ca_flags c @
       (if ca_note c \<noteq> [] then [''note: '' @ ca_note c] else [])) middle_dot"

text \<open>The cut counts bytes.\<close>

definition oneLine :: "string \<Rightarrow> nat \<Rightarrow> string" where
  "oneLine s mx = (let t = Join (Fields s) '' '' in if length t > mx then take (mx - 1) t @ dots else t)"

definition trimmed :: "string option \<Rightarrow> string" where
  "trimmed p = (case p of None \<Rightarrow> [] | Some s \<Rightarrow> TrimSpace s)"

definition first_text :: "string list \<Rightarrow> string" where
  "first_text ss = (case find (\<lambda>s. s \<noteq> []) ss of None \<Rightarrow> [] | Some s \<Rightarrow> s)"

text \<open>The steps of \<open>card\<close>; a lookup that fails contributes nothing.\<close>

definition with_nickname :: "Nickname option dbres \<Rightarrow> ipCard \<Rightarrow> ipCard" where
  "with_nickname r c =
     (case r of Inr (Some n) \<Rightarrow> c\<lparr>ca_nick := nk_name n, ca_kind := nk_kind n, ca_note := trimmed (nk_note n)\<rparr> | _ \<Rightarrow> c)"

definition info_flags :: "IPInfo \<times> VTResult option \<Rightarrow> string list" where
  "info_flags x =
     (if ii_hosting (fst x) = Some True then [''hosting''] else []) @ (if ii_proxy (fst x) = Some True then [''proxy/VPN''] else []) @
     (case Option.bind (snd x) vt_malicious of None \<Rightarrow> []
      | Some n \<Rightarrow> if n > 0 then [''VirusTotal '' @ Itoa n @ '' malicious''] else [])"

definition geo_text :: "IPInfo \<Rightarrow> string" where
  "geo_text i =
     Join (filter (\<lambda>s. s \<noteq> []) [first_text [trimmed (ii_country_code i), trimmed (ii_country i)], trimmed (ii_city i)]) '', ''"

definition with_info :: "(IPInfo \<times> VTResult option) option dbres \<Rightarrow> ipCard \<Rightarrow> ipCard" where
  "with_info r c =
     (case r of
        Inr (Some x) \<Rightarrow>
          (let i = fst x in
           c\<lparr>ca_name := trimmed (ii_hostname i), ca_geo := geo_text i,
             ca_org := first_text [trimmed (ii_as_org i), trimmed (ii_org i), trimmed (ii_isp i)],
             ca_flags := ca_flags c @ info_flags x\<rparr>)
      | _ \<Rightarrow> c)"

definition with_name :: "name_row list dbres \<Rightarrow> ipCard \<Rightarrow> ipCard" where
  "with_name r c = (case r of Inr (n # _) \<Rightarrow> if ca_name c = [] then c\<lparr>ca_name := nm_name n\<rparr> else c | _ \<Rightarrow> c)"

definition rep_flag :: "Reputation \<Rightarrow> string" where
  "rep_flag r =
     (case (rp_source r = ''abuseipdb'', rp_score r) of
        (True, Some s) \<Rightarrow> ''AbuseIPDB '' @ Itoa s @ ''%''
      | _ \<Rightarrow> if rp_source r = ''greynoise'' then ''GreyNoise malicious'' else rp_source r @ '' flagged'')"

definition with_reputation :: "Reputation list dbres \<Rightarrow> ipCard \<Rightarrow> ipCard" where
  "with_reputation r c = (case r of Inr rs \<Rightarrow> c\<lparr>ca_flags := ca_flags c @ map rep_flag (filter rp_flagged rs)\<rparr> | Inl _ \<Rightarrow> c)"

definition with_lists :: "string list dbres \<Rightarrow> ipCard \<Rightarrow> ipCard" where
  "with_lists r c =
     (case r of Inr ls \<Rightarrow> if ls = [] then c else c\<lparr>ca_flags := ca_flags c @ [''listed: '' @ Join ls '', '']\<rparr> | Inl _ \<Rightarrow> c)"

definition with_note :: "IPNote list dbres \<Rightarrow> ipCard \<Rightarrow> ipCard" where
  "with_note r c = (case r of Inr (n # _) \<Rightarrow> if ca_note c = [] then c\<lparr>ca_note := oneLine (no_body n) 120\<rparr> else c | _ \<Rightarrow> c)"

definition card :: "'e env_scheme \<Rightarrow> 'x intel_db_scheme \<Rightarrow> addr \<Rightarrow> ipCard" where
  "card e d a =
     with_note (ListIPNotes e a 1 d) (with_lists (ThreatListsFor e a d) (with_reputation (ReputationFor e a d)
       (with_name (IPNames e a 1 d) (with_info (GetIPInfo e a d) (with_nickname (GetNickname e a d)
         \<lparr>ca_ip = AddrString a, ca_nick = [], ca_kind = [], ca_note = [], ca_name = [], ca_geo = [], ca_org = [], ca_flags = []\<rparr>)))))"

definition alert_ends :: "notice list \<Rightarrow> addr list" where
  "alert_ends as = concat (map (\<lambda>x. List.map_filter (\<lambda>p. p) [a_host (fst x), a_peer (fst x)]) as)"

text \<open>Every address is looked up once.\<close>

definition cards :: "'e env_scheme \<Rightarrow> 'x intel_db_scheme \<Rightarrow> notice list \<Rightarrow> (string \<times> ipCard) list" where
  "cards e d as = map (\<lambda>a. (AddrString a, card e d a)) (rev (remdups (rev (alert_ends as))))"

section \<open>Labelling addresses in a text\<close>

text \<open>\<open>strings.Index\<close>.\<close>

fun Index :: "string \<Rightarrow> string \<Rightarrow> nat option" where
  "Index [] p = (if p = [] then Some 0 else None)"
| "Index (c # s) p = (if HasPrefix (c # s) p then Some 0 else map_option Suc (Index s p))"

definition boundary :: "bool \<Rightarrow> char \<Rightarrow> bool" where
  "boundary isV6 b \<longleftrightarrow>
     \<not> (is_digit b \<or> b = CHR ''.'') \<and>
     \<not> (isV6 \<and> (b = CHR '':'' \<or> (let n = of_char b :: nat in (97 \<le> n \<and> n \<le> 102) \<or> (65 \<le> n \<and> n \<le> 70))))"

text \<open>The loop of \<open>replaceWhole\<close>; \<open>None\<close> is a loop that does not end, as it happens on an empty address.\<close>

partial_function (option) replace_loop :: "bool \<Rightarrow> string \<Rightarrow> string \<Rightarrow> string \<Rightarrow> string \<Rightarrow> string option" where
  "replace_loop isV6 ip label s out =
     (case Index s ip of
        None \<Rightarrow> Some (out @ s)
      | Some i \<Rightarrow>
          (let fin = i + length ip;
               ok = (i = 0 \<or> boundary isV6 (s ! (i - 1))) \<and> (fin = length s \<or> boundary isV6 (s ! fin))
           in replace_loop isV6 ip label (drop fin s) (out @ take i s @ (if ok then label else ip))))"

definition replaceWhole :: "string \<Rightarrow> string \<Rightarrow> string \<Rightarrow> string option" where
  "replaceWhole s ip label = replace_loop (Contains ip '':'') ip label s []"

definition labelIPs :: "'e notify_env_scheme \<Rightarrow> string \<Rightarrow> (string \<times> ipCard) list \<Rightarrow> string option" where
  "labelIPs e s cs =
     foldl (\<lambda>t ip. case (t, map_of cs ip) of
         (Some t, Some c) \<Rightarrow> if ca_nick c = [] \<or> \<not> Contains t ip then Some t else replaceWhole t ip (Label c)
       | _ \<Rightarrow> t) (Some s) (key_order e (map fst cs))"

section \<open>Wording a batch\<close>

text \<open>\<open>viaOf\<close>: the programs an agent named, where the details hold them as an array of texts.\<close>

definition json_strings :: "json list \<Rightarrow> string list option" where
  "json_strings vs =
     (if list_all (\<lambda>v. case v of JStr _ \<Rightarrow> True | JNull \<Rightarrow> True | _ \<Rightarrow> False) vs
      then Some (map (\<lambda>v. case v of JStr s \<Rightarrow> s | _ \<Rightarrow> []) vs) else None)"

definition viaOf :: "(string \<times> json) list \<Rightarrow> string" where
  "viaOf details =
     (case map_of details ''via'' of Some (JArr vs) \<Rightarrow> (case json_strings vs of None \<Rightarrow> [] | Some l \<Rightarrow> Join l '', '') | _ \<Rightarrow> [])"

definition maxBodyChars :: nat where "maxBodyChars = 3600"

definition upper :: "string \<Rightarrow> string" where "upper s = map upper_char s"

definition top_severity :: "notice list \<Rightarrow> string" where
  "top_severity as =
     foldl (\<lambda>top x. if SeverityRank (a_severity (fst x)) > SeverityRank top then a_severity (fst x) else top) ''info'' as"

definition who_text :: "(string \<times> ipCard) list \<Rightarrow> notice \<Rightarrow> string \<Rightarrow> string" where
  "who_text cs x text =
     (case a_host (fst x) of None \<Rightarrow> []
      | Some h \<Rightarrow>
          (let ip = AddrString h in
           if ip = [] \<or> Contains text ip then []
           else '' ['' @ (case map_of cs ip of Some c \<Rightarrow> Label c
                         | None \<Rightarrow> (case snd x of Some n \<Rightarrow> n @ '' ('' @ ip @ '')'' | None \<Rightarrow> ip)) @ '']''))"

definition host_line :: "(string \<times> ipCard) list \<Rightarrow> notice \<Rightarrow> string" where
  "host_line cs x =
     (case Option.bind (a_host (fst x)) (\<lambda>h. map_option (Pair (AddrString h)) (map_of cs (AddrString h))) of
        None \<Rightarrow> []
      | Some (ip, c) \<Rightarrow>
          if (ca_nick c = [] \<or> ca_note c \<noteq> []) \<and> Detail c \<noteq> [] then hook @ ip @ '': '' @ Detail c @ NL else [])"

definition peer_line :: "(string \<times> ipCard) list \<Rightarrow> notice \<Rightarrow> string" where
  "peer_line cs x =
     (case Option.bind (a_peer (fst x)) (\<lambda>p. map_of cs (AddrString p)) of
        None \<Rightarrow> []
      | Some c \<Rightarrow> if Detail c \<noteq> [] then hook @ Label c @ '': '' @ Detail c @ NL else [])"

text \<open>The lines of one alert, given its labelled title. A severity is never empty here; Go would panic on one.\<close>

definition alert_lines :: "(string \<times> ipCard) list \<Rightarrow> notice \<Rightarrow> string \<Rightarrow> string" where
  "alert_lines cs x text =
     (let a = fst x; via = viaOf (a_details a) in
      bullet @ upper (take 1 (a_severity a)) @ '' '' @ a_rule a @ dash @ text @ who_text cs x text @
      (if a_count a > 1 then '' (x'' @ Itoa (a_count a) @ '')'' else []) @
      (if via \<noteq> [] then middle_dot @ ''via '' @ via else []) @ NL @ host_line cs x @ peer_line cs x)"

primrec body_loop ::
  "'e notify_env_scheme \<Rightarrow> (string \<times> ipCard) list \<Rightarrow> nat \<Rightarrow> nat \<Rightarrow> string \<Rightarrow> notice list \<Rightarrow> string option" where
  "body_loop e cs n i b [] = Some b"
| "body_loop e cs n i b (x # xs) =
     (if i \<ge> 20 \<or> length b > maxBodyChars then Some (b @ dots @ '' and '' @ Itoa (int n - int i) @ '' more'' @ NL)
      else case labelIPs e (a_title (fst x)) cs of
        None \<Rightarrow> None
      | Some text \<Rightarrow> body_loop e cs n (Suc i) (b @ alert_lines cs x text) xs)"

definition link_of :: "Config \<Rightarrow> string" where
  "link_of c = (if PublicURL c \<noteq> [] then PublicURL c @ ''/#/alerts'' else [])"

definition render :: "Config \<Rightarrow> 'e notify_env_scheme \<Rightarrow> 'x intel_db_scheme \<Rightarrow> notice list \<Rightarrow> Message option" where
  "render c e d as =
     (let top = top_severity as; cs = cards e d as; link = link_of c in
      Option.bind (if length as = 1
          then map_option (\<lambda>t. ''['' @ upper (a_severity (fst (hd as))) @ ''] '' @ t) (labelIPs e (a_title (fst (hd as))) cs)
          else Some (''['' @ upper top @ ''] '' @ Itoa (int (length as)) @ '' new alerts'')) (\<lambda>title.
      Option.bind (body_loop e cs (length as) 0 [] as) (\<lambda>b.
      Some \<lparr>m_title = title, m_body = TrimSpace (b @ (if link \<noteq> [] then link @ NL else [])), m_severity = top,
        m_alerts = as, m_url = link\<rparr>)))"

section \<open>The dispatcher\<close>

text \<open>\<open>di_min\<close> is the override of the minimum severity, empty where there is none.\<close>

record Dispatcher =
  di_channels :: "channel list"
  di_pending :: "notice list"
  di_sent :: nat
  di_failed :: nat
  di_last :: "instant option"
  di_last_err :: string
  di_min :: string

definition MinSeverity :: "Config \<Rightarrow> Dispatcher \<Rightarrow> string" where
  "MinSeverity c d = (if di_min d \<noteq> [] then di_min d else NotifyMinSeverity c)"

text \<open>The stored setting is \<open>None\<close> until it is set. The override is in force also when storing it fails.\<close>

definition SetMinSeverity ::
  "'e env_scheme \<Rightarrow> string \<Rightarrow> Dispatcher \<Rightarrow> string option \<Rightarrow> (string + unit dbres) \<times> Dispatcher \<times> string option" where
  "SetMinSeverity e sev0 d stored =
     (let sev = ToLower (TrimSpace sev0) in
      if SeverityRank sev = 0 then (Inl (''invalid severity '' @ sev), d, stored)
      else (Inr (db_read e [''SetSetting'', ''notify''] ()), d\<lparr>di_min := sev\<rparr>, db_write e [''SetSetting'', ''notify''] stored (Some sev)))"

definition loadSettings :: "'e env_scheme \<Rightarrow> string option \<Rightarrow> Dispatcher \<Rightarrow> Dispatcher" where
  "loadSettings e stored d =
     (case db_read e [''GetSetting'', ''notify''] stored of
        Inr (Some s) \<Rightarrow> if SeverityRank s > 0 then d\<lparr>di_min := s\<rparr> else d
      | _ \<Rightarrow> d)"

definition configured_channels :: "Config \<Rightarrow> channel list" where
  "configured_channels c =
     (if NotifyWebhookURL c \<noteq> [] then [Webhook (NotifyWebhookURL c)] else []) @
     (if NotifyNtfyURL c \<noteq> [] then [Ntfy (NotifyNtfyURL c) (NotifyNtfyToken c)] else []) @
     (if NotifyGotifyURL c \<noteq> [] \<and> NotifyGotifyToken c \<noteq> [] then [Gotify (NotifyGotifyURL c) (NotifyGotifyToken c)] else []) @
     (if NotifyTelegramToken c \<noteq> [] \<and> NotifyTelegramChat c \<noteq> [] then [Telegram (NotifyTelegramToken c) (NotifyTelegramChat c)] else []) @
     (if NotifySlackWebhook c \<noteq> [] then [Slack (NotifySlackWebhook c)] else []) @
     (if NotifySMTPHost c \<noteq> [] \<and> NotifySMTPTo c \<noteq> []
      then [Email (NotifySMTPHost c) (NotifySMTPPort c) (NotifySMTPUser c) (NotifySMTPPass c) (NotifySMTPFrom c) (NotifySMTPTo c)] else [])"

definition NewDispatcher :: "Config \<Rightarrow> 'e env_scheme \<Rightarrow> string option \<Rightarrow> Dispatcher" where
  "NewDispatcher c e stored =
     (loadSettings e stored \<lparr>di_channels = [], di_pending = [], di_sent = 0, di_failed = 0, di_last = None, di_last_err = [], di_min = []\<rparr>)
       \<lparr>di_channels := configured_channels c\<rparr>"

definition ChannelNames :: "Dispatcher \<Rightarrow> string list" where
  "ChannelNames d = map Name (di_channels d)"

record Stats =
  st_channels :: "string list"
  st_min :: string
  st_digest :: duration
  st_quiet :: string
  st_pending :: nat
  st_sent :: nat
  st_failed :: nat
  st_last :: "instant option"
  st_err :: string

definition Stats_of :: "Config \<Rightarrow> Dispatcher \<Rightarrow> Stats" where
  "Stats_of c d =
     \<lparr>st_channels = ChannelNames d, st_min = MinSeverity c d, st_digest = NotifyDigest c, st_quiet = NotifyQuietHours c,
      st_pending = length (di_pending d), st_sent = di_sent d, st_failed = di_failed d, st_last = di_last d, st_err = di_last_err d\<rparr>"

definition inQuietHours :: "Config \<Rightarrow> 'e notify_env_scheme \<Rightarrow> instant \<Rightarrow> bool" where
  "inQuietHours c e t =
     (let q = TrimSpace (NotifyQuietHours c) in
      if q = [] then False
      else case SplitOn CHR ''-'' q of
        [a, b] \<Rightarrow>
          (case (Atoi (TrimSpace a), Atoi (TrimSpace b)) of
             (Some frm, Some to) \<Rightarrow>
               (let h = clock_hour (t + zone e t) in if frm \<le> to then frm \<le> h \<and> h < to else frm \<le> h \<or> h < to)
           | _ \<Rightarrow> False)
      | _ \<Rightarrow> False)"

text \<open>The loop over the channels: whether one accepted the message.\<close>

definition send_one :: "'e notify_env_scheme \<Rightarrow> Message \<Rightarrow> bool \<times> Dispatcher \<Rightarrow> channel \<Rightarrow> bool \<times> Dispatcher" where
  "send_one e m s ch =
     (case Send e ch m of
        Some err \<Rightarrow> (fst s, (snd s)\<lparr>di_failed := di_failed (snd s) + 1, di_last_err := Name ch @ '': '' @ err\<rparr>)
      | None \<Rightarrow> (True, snd s))"

text \<open>What a call leaves behind: the dispatcher, the alerts, and the message that was put to the channels, if any.
  \<open>None\<close> is a call that does not return. \<open>Flush\<close> takes the batch under its mutex, releases it while it sends and marks the
  alerts afterwards; the model takes these as one step. What other calls queue meanwhile is neither read nor changed by
  the sending (\<open>sends_leave_queue\<close> in \<open>NotifySafety\<close>); of two flushes at the same time each has its own batch, and only the order in
  which they finish is left out.\<close>

type_synonym dispatch = "(Dispatcher \<times> alert_db \<times> Message option) option"

definition Flush :: "Config \<Rightarrow> 'e notify_env_scheme \<Rightarrow> 'x intel_db_scheme \<Rightarrow> Dispatcher \<Rightarrow> alert_db \<Rightarrow> dispatch" where
  "Flush c e idb d adb =
     (if di_pending d = [] \<or> inQuietHours c e (now_of e) then Some (d, adb, None)
      else case render c e idb (di_pending d) of
        None \<Rightarrow> None
      | Some m \<Rightarrow>
          (case foldl (send_one e m) (False, d\<lparr>di_pending := []\<rparr>) (di_channels d) of
             (ok, d') \<Rightarrow>
               if ok then
                 Some (d'\<lparr>di_sent := di_sent d' + 1, di_last := Some (now_of e)\<rparr>,
                       snd (MarkNotified e (map (\<lambda>x. a_id (fst x)) (di_pending d)) adb), Some m)
               else Some (d', adb, Some m)))"

definition passing :: "Config \<Rightarrow> Dispatcher \<Rightarrow> notice list \<Rightarrow> notice list" where
  "passing c d as = filter (\<lambda>x. SeverityRank (a_severity (fst x)) \<ge> SeverityRank (MinSeverity c d)) as"

definition Notify :: "Config \<Rightarrow> 'e notify_env_scheme \<Rightarrow> 'x intel_db_scheme \<Rightarrow> notice list \<Rightarrow> Dispatcher \<Rightarrow> alert_db \<Rightarrow> dispatch" where
  "Notify c e idb as d adb =
     (let keep = passing c d as; d' = d\<lparr>di_pending := di_pending d @ keep\<rparr> in
      if di_channels d = [] \<or> keep = [] then Some (d, adb, None)
      else if NotifyDigest c = 0 \<and> \<not> inQuietHours c e (now_of e) then Flush c e idb d' adb
      else Some (d', adb, None))"

text \<open>The ticks of \<open>Run\<close>: how long it waits between two flushes.\<close>

definition run_interval :: "Config \<Rightarrow> duration" where
  "run_interval c = (if NotifyDigest c = 0 then Minute else NotifyDigest c)"

definition test_message :: "Config \<Rightarrow> Message" where
  "test_message c = \<lparr>m_title = ''pmacct-analyzer test notification'', m_body = ''If you can read this, notifications work.'',
     m_severity = ''info'', m_alerts = [], m_url = PublicURL c\<rparr>"

text \<open>The answers by channel name.\<close>

definition SendTest :: "Config \<Rightarrow> 'e notify_env_scheme \<Rightarrow> Dispatcher \<Rightarrow> (string \<rightharpoonup> string)" where
  "SendTest c e d =
     foldl (\<lambda>out ch. out(Name ch \<mapsto> (case Send e ch (test_message c) of Some err \<Rightarrow> err | None \<Rightarrow> ''ok''))) Map.empty (di_channels d)"

end
