(* ===== verification/NotifySafety.thy ===== *)
theory NotifySafety
  imports Notify RulesSafety NetText
begin

text \<open>
  What the notifications guarantee: labelling replaces whole occurrences and ends, so every call of the dispatcher
  returns; alerts leave in the order they were accepted, none during quiet hours; what becomes of a batch that
  no channel takes; and what a rule does with an alert that waits in the queue. The runs of the desk are over
  any sequence of offers, flushes and changes of the minimum severity, with any statements failing and any
  answers of the channels.
\<close>

section \<open>Labelling\<close>

text \<open>A text cut at the occurrences of an address: each piece with what stands behind it, then the rest.\<close>

primrec weave :: "(string \<times> string) list \<Rightarrow> string \<Rightarrow> string" where
  "weave [] rest = rest"
| "weave (p # ps) rest = fst p @ snd p @ weave ps rest"

definition labelled :: "string \<Rightarrow> string \<Rightarrow> (string \<times> bool) list \<Rightarrow> (string \<times> string) list" where
  "labelled ip label ps = map (\<lambda>p. (fst p, if snd p then label else ip)) ps"

lemma Index_Some: "Index s p = Some i \<Longrightarrow> i + length p \<le> length s \<and> s = take i s @ p @ drop (i + length p) s"
proof (induction s arbitrary: i)
  case Nil then show ?case by (simp split: if_splits)
next
  case (Cons c s)
  show ?case
  proof (cases "HasPrefix (c # s) p")
    case True
    then have "take (length p) (c # s) = p" by (simp add: HasPrefix_def)
    then have "length p \<le> length (c # s) \<and> c # s = p @ drop (length p) (c # s)"
      by (metis append_take_drop_id length_take min.cobounded1)
    then show ?thesis using Cons.prems True by auto
  next
    case False
    with Cons show ?thesis by (auto simp: False)
  qed
qed

lemma replace_loop_woven:
  assumes "ip \<noteq> []"
  shows "\<exists>ps rest. replace_loop v ip label s out = Some (out @ weave (labelled ip label ps) rest) \<and>
     s = weave (labelled ip ip ps) rest \<and> Index rest ip = None"
proof (induction s arbitrary: out rule: length_induct)
  case (1 s)
  show ?case
  proof (cases "Index s ip")
    case None
    then show ?thesis by (intro exI [of _ "[]"] exI [of _ s]) (simp add: replace_loop.simps labelled_def)
  next
    case (Some i)
    note parts = Index_Some [OF Some]
    let ?fin = "i + length ip"
    let ?ok = "(i = 0 \<or> boundary v (s ! (i - 1))) \<and> (?fin = length s \<or> boundary v (s ! ?fin))"
    have "length (drop ?fin s) < length s" using parts assms by (cases s) auto
    with 1 obtain ps rest where
      ih: "replace_loop v ip label (drop ?fin s) (out @ take i s @ (if ?ok then label else ip)) =
             Some ((out @ take i s @ (if ?ok then label else ip)) @ weave (labelled ip label ps) rest)"
          "drop ?fin s = weave (labelled ip ip ps) rest" "Index rest ip = None"
      by blast
    have "replace_loop v ip label s out = Some (out @ weave (labelled ip label ((take i s, ?ok) # ps)) rest)"
      by (subst replace_loop.simps) (simp only: Some Let_def ih(1) option.case, simp add: labelled_def)
    moreover have "s = weave (labelled ip ip ((take i s, ?ok) # ps)) rest"
      using parts ih(2) by (simp add: labelled_def)
    ultimately show ?thesis using ih(3) by blast
  qed
qed

text \<open>Labelling ends, and it changes nothing but the address. For every address text but the empty one
  \<open>replaceWhole\<close> returns, and the text is cut at occurrences of the address so that the result puts at each cut
  either the label or the address that stood there, and leaves every other byte as it was.\<close>

theorem labelling_replaces_occurrences:
  assumes "ip \<noteq> []"
  shows "\<exists>ps rest. replaceWhole s ip label = Some (weave (labelled ip label ps) rest) \<and>
     s = weave (labelled ip ip ps) rest \<and> Index rest ip = None"
  using replace_loop_woven [OF assms, of "Contains ip '':''" label s "[]"] by (simp add: replaceWhole_def)

section \<open>Every call returns\<close>

lemma printed_nonempty [simp]: "AddrString a \<noteq> []"
proof (cases a)
  case (V4 w)
  then show ?thesis by (simp add: AddrString_def show_v4_def octets_def)
next
  case (V6 w z)
  have "parse_v6_body [] = None" by code_simp
  then have "show_v6 w \<noteq> []" using parse_show_v6 [of w] by fastforce
  then show ?thesis by (simp add: AddrString_def V6)
qed

lemma labelIPs_returns:
  assumes "\<forall>ip \<in> fst ` set cs. ip \<noteq> []"
  shows "\<exists>t. labelIPs e s cs = Some t"
proof -
  define f where "f = (\<lambda>t ip. case (t, map_of cs ip) of
         (Some t, Some c) \<Rightarrow> if ca_nick c = [] \<or> \<not> Contains t ip then Some t else replaceWhole t ip (Label c)
       | _ \<Rightarrow> t)"
  have step: "\<exists>t'. f (Some t) k = Some t'" for t k
  proof (cases "map_of cs k")
    case (Some c)
    then have "k \<noteq> []" using map_of_SomeD [OF Some] assms by force
    then have "\<exists>t'. replaceWhole t k (Label c) = Some t'" using replace_loop_woven by (fastforce simp: replaceWhole_def)
    with Some show ?thesis by (simp add: f_def)
  qed (simp add: f_def)
  have "\<exists>t. foldl f (Some s) ks = Some t" for ks
  proof (induction ks rule: rev_induct)
    case (snoc k ks)
    then show ?case using step by auto
  qed simp
  then show ?thesis by (simp add: labelIPs_def f_def [abs_def])
qed

lemma cards_keys: "\<forall>ip \<in> fst ` set (cards e d as). ip \<noteq> []"
  by (auto simp: cards_def)

lemma body_loop_returns:
  assumes "\<forall>ip \<in> fst ` set cs. ip \<noteq> []"
  shows "\<exists>b'. body_loop e cs n i b as = Some b'"
proof (induction as arbitrary: i b)
  case (Cons x xs)
  obtain t where "labelIPs e (a_title (fst x)) cs = Some t" using labelIPs_returns [OF assms] by blast
  with Cons show ?case by simp
qed simp

lemma render_returns: "\<exists>m. render c e d as = Some m \<and> m_alerts m = as"
proof -
  obtain b where b: "body_loop e (cards e d as) (length as) 0 [] as = Some b" using body_loop_returns [OF cards_keys] by blast
  obtain t where t: "labelIPs e (a_title (fst (hd as))) (cards e d as) = Some t" using labelIPs_returns [OF cards_keys] by blast
  show ?thesis by (simp add: render_def Let_def b t)
qed

lemma sends_part:
  "di_pending (snd (foldl (send_one e m) s chs)) = di_pending (snd s) \<and> di_min (snd (foldl (send_one e m) s chs)) = di_min (snd s) \<and>
   di_channels (snd (foldl (send_one e m) s chs)) = di_channels (snd s)"
  by (induction chs arbitrary: s) (simp_all add: send_one_def split: option.split)

text \<open>Sending commutes with queueing: the state after the sends differs only by what was queued meanwhile.\<close>

lemma sends_leave_queue:
  "foldl (send_one e m) (b, d\<lparr>di_pending := q\<rparr>) chs =
     (fst (foldl (send_one e m) (b, d) chs), (snd (foldl (send_one e m) (b, d) chs))\<lparr>di_pending := q\<rparr>)"
proof (induction chs arbitrary: b d)
  case (Cons ch chs)
  obtain b' d' where s: "send_one e m (b, d) ch = (b', d')" by fastforce
  then have "send_one e m (b, d\<lparr>di_pending := q\<rparr>) ch = (b', d'\<lparr>di_pending := q\<rparr>)"
    by (auto simp: send_one_def split: option.splits)
  with Cons.IH [of b' d'] show ?case by (simp add: s)
qed simp

lemma Flush_idle: "di_pending d = [] \<or> inQuietHours c e (now_of e) \<Longrightarrow> Flush c e idb d adb = Some (d, adb, None)"
  by (simp add: Flush_def)

lemma Flush_busy:
  assumes "di_pending d \<noteq> []" "\<not> inQuietHours c e (now_of e)"
  shows "\<exists>d' adb' m. Flush c e idb d adb = Some (d', adb', Some m) \<and> m_alerts m = di_pending d \<and> di_pending d' = [] \<and>
     di_channels d' = di_channels d \<and> di_min d' = di_min d"
proof -
  obtain m where m: "render c e idb (di_pending d) = Some m" "m_alerts m = di_pending d" using render_returns by blast
  obtain ok d' where s: "foldl (send_one e m) (False, d\<lparr>di_pending := []\<rparr>) (di_channels d) = (ok, d')" by fastforce
  show ?thesis using sends_part [of e m "(False, d\<lparr>di_pending := []\<rparr>)" "di_channels d"] assms m
    by (simp add: Flush_def s)
qed

text \<open>C25: No batch stops the dispatcher. Whatever alerts are offered or wait, whatever is known about their addresses
  and in whatever order the addresses are labelled, \<open>Notify\<close> and \<open>Flush\<close> return.\<close>

theorem dispatcher_returns: "Notify c e idb as d adb \<noteq> None \<and> Flush c e idb d adb \<noteq> None"
proof -
  have "Flush c e idb d adb \<noteq> None" for d
    using Flush_idle [of d c e idb adb] Flush_busy [of d c e idb adb] by fastforce
  then show ?thesis by (simp add: Notify_def Let_def)
qed

section \<open>The desk\<close>

text \<open>The dispatcher with the alerts, and what it accepted and put to its channels so far. A state of \<open>None\<close> would be
  a call that did not return.\<close>

record desk =
  ds_disp :: Dispatcher
  ds_alerts :: alert_db
  ds_min :: "string option"
  ds_taken :: "notice list"
  ds_out :: "(notify_env \<times> Message) list"

datatype desk_op = Offer "notice list" | Drain | SetMin string

type_synonym desk_event = "notify_env \<times> intel_db \<times> desk_op"

definition taken :: "Config \<Rightarrow> Dispatcher \<Rightarrow> notice list \<Rightarrow> notice list" where
  "taken c d as = (if di_channels d = [] then [] else passing c d as)"

definition after_dispatch :: "notify_env \<Rightarrow> notice list \<Rightarrow> desk \<Rightarrow> dispatch \<Rightarrow> desk option" where
  "after_dispatch e new s r =
     map_option (\<lambda>(d, adb, m). s\<lparr>ds_disp := d, ds_alerts := adb, ds_taken := ds_taken s @ new,
       ds_out := ds_out s @ (case m of None \<Rightarrow> [] | Some m \<Rightarrow> [(e, m)])\<rparr>) r"

definition desk_step :: "Config \<Rightarrow> desk option \<Rightarrow> desk_event \<Rightarrow> desk option" where
  "desk_step c s0 ev =
     Option.bind s0 (\<lambda>s. case ev of (e, idb, oper) \<Rightarrow>
       (case oper of
          Offer as \<Rightarrow> after_dispatch e (taken c (ds_disp s) as) s (Notify c e idb as (ds_disp s) (ds_alerts s))
        | Drain \<Rightarrow> after_dispatch e [] s (Flush c e idb (ds_disp s) (ds_alerts s))
        | SetMin sev \<Rightarrow> (case SetMinSeverity e sev (ds_disp s) (ds_min s) of (_, d, st) \<Rightarrow> Some (s\<lparr>ds_disp := d, ds_min := st\<rparr>))))"

definition at_rest :: "Dispatcher \<Rightarrow> alert_db \<Rightarrow> string option \<Rightarrow> desk" where
  "at_rest d adb st = \<lparr>ds_disp = d, ds_alerts = adb, ds_min = st, ds_taken = [], ds_out = []\<rparr>"

definition sent_alerts :: "desk \<Rightarrow> notice list" where
  "sent_alerts s = concat (map (\<lambda>x. m_alerts (snd x)) (ds_out s))"

definition in_waking_hours :: "Config \<Rightarrow> desk \<Rightarrow> bool" where
  "in_waking_hours c s = list_all (\<lambda>x. \<not> inQuietHours c (fst x) (now_of (fst x)) \<and> m_alerts (snd x) \<noteq> []) (ds_out s)"

definition in_order :: "Config \<Rightarrow> notice list \<Rightarrow> desk \<Rightarrow> bool" where
  "in_order c q s \<longleftrightarrow> sent_alerts s @ di_pending (ds_disp s) = q @ ds_taken s \<and> in_waking_hours c s"

lemma after_dispatch_simps [simp]:
  "after_dispatch e new s (Some (d, adb, m)) =
     Some (s\<lparr>ds_disp := d, ds_alerts := adb, ds_taken := ds_taken s @ new,
       ds_out := ds_out s @ (case m of None \<Rightarrow> [] | Some m \<Rightarrow> [(e, m)])\<rparr>)"
  by (simp add: after_dispatch_def)

lemma in_order_Flush:
  assumes "in_order c q s"
  shows "\<exists>s'. after_dispatch e [] s (Flush c e idb (ds_disp s) adb) = Some s' \<and> in_order c q s'"
proof (cases "di_pending (ds_disp s) = [] \<or> inQuietHours c e (now_of e)")
  case True
  with assms Flush_idle [OF True, of idb adb] show ?thesis
    by (simp add: in_order_def sent_alerts_def in_waking_hours_def)
next
  case False
  then obtain d' adb' m where "Flush c e idb (ds_disp s) adb = Some (d', adb', Some m)" "m_alerts m = di_pending (ds_disp s)"
      "di_pending d' = []"
    using Flush_busy [of "ds_disp s" c e idb adb] by auto
  with assms False show ?thesis
    by (simp add: in_order_def sent_alerts_def in_waking_hours_def)
qed

lemma after_dispatch_part:
  "after_dispatch e new s r = after_dispatch e [] (s\<lparr>ds_disp := x, ds_taken := ds_taken s @ new\<rparr>) r"
  by (cases r) (auto simp: after_dispatch_def)

lemma in_order_Notify:
  assumes "in_order c q s"
  shows "\<exists>s'. after_dispatch e (taken c (ds_disp s) as) s (Notify c e idb as (ds_disp s) adb) = Some s' \<and> in_order c q s'"
proof -
  define d where "d = ds_disp s"
  define d' where "d' = d\<lparr>di_pending := di_pending d @ passing c d as\<rparr>"
  define s1 where "s1 = s\<lparr>ds_disp := d', ds_taken := ds_taken s @ passing c d as\<rparr>"
  consider "di_channels d = [] \<or> passing c d as = []"
    | "taken c d as = passing c d as" "Notify c e idb as d adb = Flush c e idb d' adb"
    | "taken c d as = passing c d as" "Notify c e idb as d adb = Some (d', adb, None)"
    unfolding Notify_def Let_def d'_def taken_def
    by (cases "di_channels d = [] \<or> passing c d as = []"; cases "NotifyDigest c = 0 \<and> \<not> inQuietHours c e (now_of e)") simp_all
  then show ?thesis
  proof cases
    case 1
    then have "taken c d as = []" "Notify c e idb as d adb = Some (d, adb, None)" by (auto simp: taken_def Notify_def)
    with assms show ?thesis by (simp add: in_order_def sent_alerts_def in_waking_hours_def d_def)
  next
    case 2
    have "in_order c q s1" "ds_disp s1 = d'"
      using assms by (simp_all add: s1_def d'_def d_def in_order_def sent_alerts_def in_waking_hours_def)
    with in_order_Flush [of c q s1 e idb adb] show ?thesis
      using after_dispatch_part [of e "passing c d as" s _ d'] by (simp add: 2 d_def [symmetric] s1_def [symmetric])
  next
    case 3
    with assms show ?thesis
      by (simp add: in_order_def sent_alerts_def in_waking_hours_def d_def d'_def)
  qed
qed

definition conserved :: "Config \<Rightarrow> notice list \<Rightarrow> desk option \<Rightarrow> bool" where
  "conserved c q s0 \<longleftrightarrow> (\<exists>s. s0 = Some s \<and> in_order c q s)"

lemma SetMinSeverity_part: "di_pending (fst (snd (SetMinSeverity e sev d st))) = di_pending d"
  by (simp add: SetMinSeverity_def Let_def)

interpretation desk_log: machine "desk_step c" "conserved c q" for c q
proof
  fix c q s0 and ev :: desk_event assume "conserved c q s0"
  then obtain s where s: "s0 = Some s" "in_order c q s" by (auto simp: conserved_def)
  obtain e idb oper where ev: "ev = (e, idb, oper)" by (cases ev) auto
  show "conserved c q (desk_step c s0 ev)"
  proof (cases oper)
    case (Offer as)
    then show ?thesis using in_order_Notify [OF s(2)] by (auto simp: desk_step_def conserved_def s(1) ev)
  next
    case Drain
    then show ?thesis using in_order_Flush [OF s(2)] by (auto simp: desk_step_def conserved_def s(1) ev)
  next
    case (SetMin sev)
    obtain r d st where set: "SetMinSeverity e sev (ds_disp s) (ds_min s) = (r, d, st)" by (cases "SetMinSeverity e sev (ds_disp s) (ds_min s)") auto
    then show ?thesis using s(2) SetMin SetMinSeverity_part [of e sev "ds_disp s" "ds_min s"]
      by (simp add: desk_step_def conserved_def s(1) ev in_order_def sent_alerts_def in_waking_hours_def)
  qed
qed

text \<open>C23: Alerts leave in the order in which they were accepted, each once, and none during quiet hours. After any
  sequence of offers, flushes and changes of the minimum severity, with any statements and channels failing, the
  alerts of the messages put to the channels so far, followed by those that wait, are those that waited at the
  start followed by the accepted ones, and every message has alerts and was put outside the quiet hours.\<close>

theorem alerts_leave_in_order:
  "\<exists>s. foldl (desk_step c) (Some (at_rest d adb st)) evs = Some s \<and>
     sent_alerts s @ di_pending (ds_disp s) = di_pending d @ ds_taken s \<and> in_waking_hours c s"
proof -
  have "conserved c (di_pending d) (Some (at_rest d adb st))"
    by (simp add: conserved_def in_order_def sent_alerts_def in_waking_hours_def at_rest_def)
  from desk_log.run_inv [OF this, of evs] show ?thesis by (simp add: conserved_def in_order_def)
qed

text \<open>C24: A flush outside the quiet hours empties the queue, and what becomes of the alerts is decided at once: either a
  channel took the message, it counts as sent and, where the statement succeeds, every alert of the batch is marked
  as announced at that moment, or no channel took it, and the batch is gone while the table of alerts is as it was.\<close>

theorem flush_settles_batch:
  assumes "di_pending d \<noteq> []" and "\<not> inQuietHours c e (now_of e)"
  shows "\<exists>d' adb' m. Flush c e idb d adb = Some (d', adb', Some m) \<and> m_alerts m = di_pending d \<and> di_pending d' = [] \<and>
     (if list_ex (\<lambda>ch. Send e ch m = None) (di_channels d)
      then di_sent d' = di_sent d + 1 \<and> adb' = snd (MarkNotified e (map (\<lambda>x. a_id (fst x)) (di_pending d)) adb)
      else di_sent d' = di_sent d \<and> adb' = adb \<and> di_failed d' = di_failed d + length (di_channels d))"
proof -
  obtain m where m: "render c e idb (di_pending d) = Some m" "m_alerts m = di_pending d" using render_returns by blast
  have run: "fst (foldl (send_one e m) s chs) = (fst s \<or> list_ex (\<lambda>ch. Send e ch m = None) chs) \<and>
      di_sent (snd (foldl (send_one e m) s chs)) = di_sent (snd s) \<and>
      (\<not> list_ex (\<lambda>ch. Send e ch m = None) chs \<longrightarrow>
         di_failed (snd (foldl (send_one e m) s chs)) = di_failed (snd s) + length chs)" for s chs
    by (induction chs arbitrary: s) (simp_all add: send_one_def split: option.split)
  obtain ok d' where s: "foldl (send_one e m) (False, d\<lparr>di_pending := []\<rparr>) (di_channels d) = (ok, d')" by fastforce
  show ?thesis
    using run [of "(False, d\<lparr>di_pending := []\<rparr>)" "di_channels d"] sends_part [of e m "(False, d\<lparr>di_pending := []\<rparr>)" "di_channels d"] assms m
    by (simp add: Flush_def s)
qed

section \<open>The dispatcher behind the engine\<close>

text \<open>The world of the engine with its dispatcher. \<open>UpsertAlert\<close> does not read the nickname of the host, so the
  engine hands over its alerts without one.\<close>

record notified_world = world +
  w_disp :: Dispatcher

definition bare :: "Alert list \<Rightarrow> notice list" where
  "bare as = map (\<lambda>a. (a, None)) as"

definition tell :: "Config \<Rightarrow> notify_env \<Rightarrow> intel_db \<Rightarrow> rule_env \<Rightarrow> Alert list \<Rightarrow> notified_world \<Rightarrow> notified_world" where
  "tell c ne idb env as w =
     (case Notify c (ne\<lparr>now_of := now_of env, fault := fault env\<rparr>) idb (bare as) (w_disp w) (w_alerts w) of
        Some (d, adb, _) \<Rightarrow> w\<lparr>w_disp := d, w_alerts := adb\<rparr>
      | None \<Rightarrow> w)"

text \<open>What the engine relies on: a notifier leaves the stored rules alone.\<close>

lemma tell_modest: "modest (Some (tell c ne idb))"
  by (simp add: modest_def tell_def split: option.split prod.split)

lemma tell_digest:
  assumes "NotifyDigest c \<noteq> 0" "di_channels (w_disp w) \<noteq> []"
  shows "tell c ne idb env as w = w\<lparr>w_disp := (w_disp w)\<lparr>di_pending := di_pending (w_disp w) @ passing c (w_disp w) (bare as)\<rparr>\<rparr>"
  using assms by (simp add: tell_def Notify_def Let_def)

definition waiting :: "int \<Rightarrow> notified_world \<Rightarrow> nat" where
  "waiting i w = length (filter (\<lambda>x. a_id (fst x) = i) (di_pending (w_disp w)))"

text \<open>With a digest, an alert that waits is queued again by every run that raises it. When a run of an enabled rule
  succeeds, every live alert of its findings that was not announced yet and passes the severity filter stands
  in the queue at least once more than before, so the digest counts one case once per run.\<close>

theorem digest_counts_case_per_run:
  assumes "RunRule c (Some (tell c ne idb)) env name force e w = (Inr raised, e', w')" and "rule_named e name = Some r"
    and "ef_enabled (effective_of e r) \<or> force" and "wf_alerts (w_alerts w)"
    and "NotifyDigest c \<noteq> 0" and "di_channels (w_disp w) \<noteq> []"
    and "evaluate c env r e w = Inr fs" and "a \<in> set (alerts (w_alerts w'))" and "live_alert a" and "a_key a \<in> DedupeKey ` set fs"
    and "a_notified a = None" and "SeverityRank (a_severity a) \<ge> SeverityRank (MinSeverity c (w_disp w))"
  shows "waiting (a_id a) w' > waiting (a_id a) w"
proof -
  obtain d where w': "w' = notify_with (Some (tell c ne idb)) env raised (w\<lparr>w_alerts := d\<rparr>)" and told: "announced (DedupeKey ` set fs) raised d"
    using run_announces [OF assms(1-4)] assms(7) by auto
  have after: "w' = w\<lparr>w_alerts := d, w_disp := (w_disp w)\<lparr>di_pending := di_pending (w_disp w) @ passing c (w_disp w) (bare raised)\<rparr>\<rparr>" if "raised \<noteq> []"
    using that assms(5,6) by (simp add: w' notify_with_def tell_digest)
  have "w_alerts w' = d" by (cases "raised = []") (simp_all add: after, simp add: w' notify_with_def)
  with told assms(8-11) have a: "a \<in> set raised" by (auto simp: announced_def)
  then have "(a, None) \<in> set (passing c (w_disp w) (bare raised))" using assms(12) by (auto simp: passing_def bare_def)
  then have "0 < length (filter (\<lambda>x. a_id (fst x) = a_id a) (passing c (w_disp w) (bare raised)))"
    by (force simp: filter_empty_conv)
  moreover have "raised \<noteq> []" using a by auto
  ultimately show ?thesis by (simp add: waiting_def after)
qed

section \<open>Examples\<close>

lemma sample_label: "replaceWhole ''from 10.0.0.5 to 10.0.0.55'' ''10.0.0.5'' ''nas'' = Some ''from nas to 10.0.0.55''"
  by (simp add: replaceWhole_def replace_loop.simps HasPrefix_def boundary_def is_digit_def Let_def)

text \<open>Two addresses, of which the second only begins like the first.\<close>

theorem labelling_replaces_occurrences_witness:
  "\<exists>ps rest. ''from nas to 10.0.0.55'' = weave (labelled ''10.0.0.5'' ''nas'' ps) rest \<and>
     ''from 10.0.0.5 to 10.0.0.55'' = weave (labelled ''10.0.0.5'' ''10.0.0.5'' ps) rest"
  using labelling_replaces_occurrences [of "''10.0.0.5''" "''from 10.0.0.5 to 10.0.0.55''" "''nas''"] by (auto simp: sample_label)

definition calm :: notify_env where
  "calm = \<lparr>now_of = 5, fault = (\<lambda>_. False), deliver = (\<lambda>_. Inl ''down''), zone = (\<lambda>_. 0), key_order = (\<lambda>ks. ks)\<rparr>"

definition no_intel :: intel_db where
  "no_intel = \<lparr>ip_infos = [], reps = [], nicks = [], seen_names = [], ip_notes = [], note_seq = 0, ids_events = [], ids_seq = 0,
     threat_lists = []\<rparr>"

definition demo_alert :: Alert where
  "demo_alert = new_alert 5 1 None None demo_finding"

definition slack_desk :: "notice list \<Rightarrow> Dispatcher" where
  "slack_desk q = \<lparr>di_channels = [Slack ''hook''], di_pending = q, di_sent = 0, di_failed = 0, di_last = None, di_last_err = [], di_min = ''info''\<rparr>"

lemma default_not_quiet: "\<not> inQuietHours default_config e t"
  by (simp add: inQuietHours_def default_config_def Load_init_def TrimSpace_def)

text \<open>The only channel is down: the alert leaves the queue and the table is as it was.\<close>

theorem flush_settles_batch_witness:
  "\<exists>d' m. Flush default_config calm no_intel (slack_desk [(demo_alert, None)]) empty_alert_db = Some (d', empty_alert_db, Some m) \<and>
     m_alerts m = [(demo_alert, None)] \<and> di_pending d' = [] \<and> di_failed d' = 1"
proof -
  have down: "Send calm (Slack u) m = Some ''down''" for u m
    by (simp add: Send_def calm_def http_result_def request_of_def Let_def)
  show ?thesis
    using flush_settles_batch [of "slack_desk [(demo_alert, None)]" default_config calm no_intel empty_alert_db, OF _ default_not_quiet]
    by (auto simp: slack_desk_def down)
qed

definition daily :: Config where "daily = default_config\<lparr>NotifyDigest := Hour\<rparr>"

definition waiting_world :: "notice list \<Rightarrow> alert_db \<Rightarrow> notified_world" where
  "waiting_world q d = world.extend (empty_world\<lparr>w_alerts := d\<rparr>) \<lparr>w_disp = slack_desk q\<rparr>"

definition demo_alerts :: alert_db where
  "demo_alerts = empty_alert_db\<lparr>alerts := [demo_alert], alert_seq := 1\<rparr>"

lemma waiting_world_simps [simp]:
  "w_alerts (waiting_world q d) = d" "agents (w_fleet (waiting_world q d)) = []" "w_disp (waiting_world q d) = slack_desk q"
  "exclusions demo_alerts = []"
  by (simp_all add: waiting_world_def world.defs empty_world_def empty_agent_db_def demo_alerts_def empty_alert_db_def)

lemma raise_waiting:
  "raise_loop c (quiet_env 6) [demo_finding] [] demo_alerts =
     (Inr [bump_alert 6 demo_finding demo_alert],
      demo_alerts\<lparr>alert_seq := 2, alerts := [bump_alert 6 demo_finding demo_alert]\<rparr>)"
proof -
  have "UpsertAlert (quiet_env 6) demo_finding demo_alerts =
      (Inr (bump_alert 6 demo_finding demo_alert, False), demo_alerts\<lparr>alert_seq := 2, alerts := [bump_alert 6 demo_finding demo_alert]\<rparr>)"
    by (simp add: UpsertAlert_def demo_alerts_def Let_def inet_arg_def live_alert_def demo_alert_def new_alert_def demo_finding_def
        plain_finding_def max_int32_def)
  moreover have "a_notified demo_alert = None" by (simp add: demo_alert_def new_alert_def)
  ultimately show ?thesis by (simp add: wants_notice_def)
qed

text \<open>The alert of the first run waits; the second run queues it again.\<close>

theorem digest_counts_case_per_run_witness:
  "\<exists>as e' w'. RunRule daily (Some (tell daily calm no_intel)) (quiet_env 6) ''demo'' False sample_engine
       (waiting_world [(demo_alert, None)] demo_alerts) = (Inr as, e', w') \<and> waiting 1 w' \<ge> 2"
proof -
  let ?w = "waiting_world [(demo_alert, None)] demo_alerts" and ?b = "bump_alert 6 demo_finding demo_alert"
  have named: "rule_named (sample_engine :: (\<lparr>w_disp :: Dispatcher\<rparr>) Engine) ''demo'' = Some sample_rule"
    by (simp add: sample_named)
  have on: "ef_enabled (effective_of (sample_engine :: (\<lparr>w_disp :: Dispatcher\<rparr>) Engine) sample_rule) \<or> False" by (simp add: effective_sample)
  have dig: "NotifyDigest daily \<noteq> 0" "di_channels (w_disp ?w) \<noteq> []"
    by (simp_all add: daily_def time_units slack_desk_def)
  obtain e' w' where run: "RunRule daily (Some (tell daily calm no_intel)) (quiet_env 6) ''demo'' False sample_engine ?w = (Inr [?b], e', w')"
      and w': "w' = tell daily calm no_intel (quiet_env 6) [?b] (?w\<lparr>w_alerts := demo_alerts\<lparr>alert_seq := 2, alerts := [?b]\<rparr>\<rparr>)"
    by (simp add: RunRule_def sample_named effective_sample evaluate_sample raise_waiting notify_with_def del: raise_loop.simps)
  have wf: "wf_alerts (w_alerts ?w)"
    by (simp add: wf_alerts_def demo_alerts_def one_live_def state_ok_def demo_alert_def new_alert_def max_int32_def)
  have in_w': "?b \<in> set (alerts (w_alerts w'))" using dig by (simp add: w' tell_digest)
  have b: "live_alert ?b" "a_key ?b \<in> DedupeKey ` set [demo_finding]" "a_notified ?b = None"
    "SeverityRank (a_severity ?b) \<ge> SeverityRank (MinSeverity daily (w_disp ?w))" "a_id ?b = 1"
    by (simp_all add: demo_alert_def new_alert_def live_alert_def MinSeverity_def slack_desk_def bump_alert_def merge_severity_def
        demo_finding_def plain_finding_def)
  have "waiting (a_id ?b) w' > waiting (a_id ?b) ?w"
    by (rule digest_counts_case_per_run [OF run named on wf dig evaluate_sample in_w' b(1-4)]) simp_all
  moreover have "waiting 1 ?w = 1" by (simp add: waiting_def slack_desk_def demo_alert_def)
  ultimately show ?thesis using run b(5) by (auto intro!: exI)
qed

end
