(* ===== verification/Lines.thy ===== *)
theory Lines
  imports Prelude
begin

text \<open>
  \<open>bufio.Scanner\<close> over lines, as the IDS listener and the feed parser use it: the lines of a text without their
  ends, and the error it stops with. A line that does not fit the buffer of 1 MiB ends the scan.
\<close>

definition max_line :: nat where "max_line = 2 ^ 20"

definition dropCR :: "string \<Rightarrow> string" where
  "dropCR s = (if s \<noteq> [] \<and> last s = CHR 0x0D then butlast s else s)"

text \<open>The pieces between line feeds; after a last line feed there is none.\<close>

definition raw_lines :: "string \<Rightarrow> string list" where
  "raw_lines s = (let ls = SplitOn CHR 0x0A s in if last ls = [] then butlast ls else ls)"

definition scan_lines :: "string \<Rightarrow> string list" where
  "scan_lines s = map dropCR (takeWhile (\<lambda>l. length l < max_line) (raw_lines s))"

definition scan_error :: "string \<Rightarrow> string option" where
  "scan_error s =
     (if list_ex (\<lambda>l. \<not> length l < max_line) (raw_lines s) then Some ''bufio.Scanner: token too long'' else None)"

section \<open>Lemmas\<close>

definition line_ok :: "string \<Rightarrow> bool" where
  "line_ok l \<longleftrightarrow> length l < max_line \<and> CHR 0x0A \<notin> set l \<and> (l = [] \<or> last l \<noteq> CHR 0x0D)"

lemma SplitOn_lines: "list_all line_ok ls \<Longrightarrow> SplitOn CHR 0x0A (concat (map (\<lambda>l. l @ [CHR 0x0A]) ls)) = ls @ [[]]"
  by (induction ls) (simp_all add: line_ok_def SplitOn_append)

lemma scan_whole_lines: "list_all line_ok ls \<Longrightarrow> scan_lines (concat (map (\<lambda>l. l @ [CHR 0x0A]) ls)) = ls"
proof -
  assume ok: "list_all line_ok ls"
  then have "takeWhile (\<lambda>l. length l < max_line) ls = ls"
    by (auto simp: list_all_iff line_ok_def takeWhile_eq_all_conv)
  moreover have "map dropCR ls = ls"
    using ok by (intro map_idI) (auto simp: list_all_iff line_ok_def dropCR_def)
  ultimately have "map dropCR (takeWhile (\<lambda>l. length l < max_line) ls) = ls" by metis
  with SplitOn_lines [OF ok] show ?thesis by (simp add: scan_lines_def raw_lines_def)
qed

end
