(* ===== verification/Suricata.thy ===== *)
theory Suricata
  imports Builtin Lines
begin

text \<open>
  The IDS listener (\<open>internal/suricata/suricata.go\<close>): the framing of a TCP stream into lines, the JSON object in
  a syslog line, the events and what is kept of them, and the ingest counters. \<open>encoding/json\<close> is the parameter
  \<open>event_of\<close>: the event in a text, or the text of the error; \<open>jsonb_of\<close> is what PostgreSQL keeps of a document in
  a \<open>jsonb\<close> column, \<open>None\<close> where it refuses it. The sink is the interface of the source; the engine
  provides it. Sockets and the scheduling of connections are not modelled: lines are handled one after the other.
\<close>

section \<open>Time stamps\<close>

definition parseTS :: "string \<Rightarrow> instant \<Rightarrow> instant" where
  "parseTS s now = (case parse_time False s of Some t \<Rightarrow> t | None \<Rightarrow> opt_default now (parse_time True s))"

section \<open>Events\<close>

record eve_alert =
  el_action :: string
  el_sid :: int
  el_signature :: string
  el_category :: string
  el_severity :: int

record dns_answer =
  da_name :: string
  da_type :: string
  da_data :: string

record eve_dns =
  dn_type :: string
  dn_name :: string
  dn_rrtype :: string
  dn_data :: string
  dn_answers :: "dns_answer list"
  dn_grouped :: "(string \<times> string list) list"

record Event =
  eve_time :: string
  eve_type :: string
  eve_src :: string
  eve_src_port :: int
  eve_dst :: string
  eve_dst_port :: int
  eve_proto :: string
  eve_app :: string
  eve_alert :: "eve_alert option"
  eve_dns :: "eve_dns option"
  eve_sni :: "string option"
  eve_hostname :: "string option"

record eve_env = rule_env +
  event_of :: "string \<Rightarrow> string + Event"
  jsonb_of :: "string \<Rightarrow> string option"

definition LastIndex :: "char \<Rightarrow> string \<Rightarrow> nat option" where
  "LastIndex c s = (if c \<in> set s then Some (length s - 1 - length (takeWhile (\<lambda>x. x \<noteq> c) (rev s))) else None)"

definition FirstIndex :: "char \<Rightarrow> string \<Rightarrow> nat option" where
  "FirstIndex c s = (if c \<in> set s then Some (length (takeWhile (\<lambda>x. x \<noteq> c) s)) else None)"

definition open_brace :: char where "open_brace = CHR 0x7B"
definition close_brace :: char where "close_brace = CHR 0x7D"

definition ExtractJSON :: "string \<Rightarrow> string option" where
  "ExtractJSON line =
     (case (FirstIndex open_brace line, LastIndex close_brace line) of
        (Some i, Some j) \<Rightarrow> if j \<le> i then None else Some (take (j + 1 - i) (drop i line))
      | _ \<Rightarrow> None)"

section \<open>The listener\<close>

type_synonym typeStat = "nat \<times> instant"

record Listener =
  ls_received :: nat
  ls_alerts :: nat
  ls_names :: nat
  ls_dropped :: nat
  ls_malformed :: nat
  ls_ignored :: nat
  ls_started :: "instant option"
  ls_last :: "instant option"
  ls_err :: string
  ls_err_at :: "instant option"
  ls_types :: "(string \<times> typeStat) list"

definition new_listener :: Listener where
  "new_listener = \<lparr>ls_received = 0, ls_alerts = 0, ls_names = 0, ls_dropped = 0, ls_malformed = 0, ls_ignored = 0, ls_started = None,
     ls_last = None, ls_err = [], ls_err_at = None, ls_types = []\<rparr>"

definition maxTypes :: nat where "maxTypes = 24"

definition usedFor :: "string \<Rightarrow> string" where
  "usedFor t =
     (if t = ''alert'' then ''alerts'' else if t \<in> {''dns.answer'', ''tls'', ''http''} then ''names'' else [])"

definition has_answers :: "eve_dns \<Rightarrow> bool" where
  "has_answers d \<longleftrightarrow> dn_type d = ''answer'' \<or> dn_answers d \<noteq> [] \<or> dn_grouped d \<noteq> [] \<or> dn_data d \<noteq> []"

definition typeKey :: "Event \<Rightarrow> string" where
  "typeKey ev =
     (if eve_type ev = ''dns''
      then (case eve_dns ev of Some d \<Rightarrow> if has_answers d then ''dns.answer'' else ''dns.query'' | None \<Rightarrow> ''dns.query'')
      else eve_type ev)"

definition note_key :: "string \<Rightarrow> (string \<times> typeStat) list \<Rightarrow> string" where
  "note_key key ts = (if map_of ts key = None \<and> length ts \<ge> maxTypes then ''other'' else key)"

definition note_event :: "string \<Rightarrow> instant \<Rightarrow> Listener \<Rightarrow> Listener" where
  "note_event key t l =
     (let k = note_key key (ls_types l) in
      l\<lparr>ls_last := Some t,
        ls_types := AList.update k (case map_of (ls_types l) k of None \<Rightarrow> (1, t) | Some (n, _) \<Rightarrow> (n + 1, t)) (ls_types l)\<rparr>)"

record TypeStat =
  ty_type :: string
  ty_count :: nat
  ty_last :: instant
  ty_used :: string

definition type_rows :: "Listener \<Rightarrow> TypeStat list" where
  "type_rows l =
     sort_key (\<lambda>s. - int (ty_count s)) (sort_key ty_type
       (map (\<lambda>(k, n, t). \<lparr>ty_type = k, ty_count = n, ty_last = t, ty_used = usedFor k\<rparr>) (ls_types l)))"

record IngestStats =
  ig_listen :: string
  ig_counts :: "nat list"
  ig_started :: "instant option"
  ig_last :: "instant option"
  ig_err :: string
  ig_err_at :: "instant option"
  ig_types :: "TypeStat list"

text \<open>The counts are received, alerts, names, dropped, malformed and ignored.\<close>

definition Stats_of :: "string \<Rightarrow> Listener \<Rightarrow> IngestStats" where
  "Stats_of addr l =
     \<lparr>ig_listen = addr, ig_counts = [ls_received l, ls_alerts l, ls_names l, ls_dropped l, ls_malformed l, ls_ignored l],
      ig_started = ls_started l, ig_last = ls_last l, ig_err = ls_err l, ig_err_at = ls_err_at l, ig_types = type_rows l\<rparr>"

definition set_error :: "string \<Rightarrow> instant \<Rightarrow> Listener \<Rightarrow> Listener" where
  "set_error msg t l = l\<lparr>ls_err := msg, ls_err_at := Some t\<rparr>"

definition markMalformed :: "string \<Rightarrow> instant \<Rightarrow> Listener \<Rightarrow> Listener" where
  "markMalformed msg t l = set_error msg t (l\<lparr>ls_malformed := ls_malformed l + 1\<rparr>)"

section \<open>Handling an event\<close>

definition ids_severity :: "int \<Rightarrow> string" where
  "ids_severity n = (if n = 1 then ''critical'' else if n = 2 then ''warning'' else ''info'')"

text \<open>Host and peer of a finding: the local end first where only the destination is local.\<close>

definition sides :: "(addr \<Rightarrow> bool) option \<Rightarrow> string \<Rightarrow> string \<Rightarrow> string \<times> string" where
  "sides local src dst =
     (case (local, ParseAddr src, ParseAddr dst) of
        (Some f, Some sa, Some da) \<Rightarrow> if \<not> f sa \<and> f da then (dst, src) else (src, dst)
      | _ \<Rightarrow> (src, dst))"

definition finding :: "(addr \<Rightarrow> bool) option \<Rightarrow> Event \<Rightarrow> eve_alert \<Rightarrow> Finding" where
  "finding local ev al =
     (let src = eve_src ev; dst = eve_dst ev in
      \<lparr>f_rule = ''ids'', f_severity = ids_severity (el_severity al), f_host = fst (sides local src dst), f_peer = snd (sides local src dst),
        f_port = 0,
        f_title = el_signature al @ '' ('' @ src @ [CHR '' '', CHR 0xE2, CHR 0x86, CHR 0x92, CHR '' ''] @ dst @ '':'' @ Itoa (eve_dst_port ev) @ '')'',
        f_details = [(''sid'', JNum (el_sid al)), (''category'', JStr (el_category al)), (''suricata_severity'', JNum (el_severity al)),
          (''action'', JStr (el_action al)), (''src'', JStr src), (''src_port'', JNum (eve_src_port ev)), (''dst'', JStr dst),
          (''dst_port'', JNum (eve_dst_port ev)), (''proto'', JStr (eve_proto ev)), (''app_proto'', JStr (eve_app ev))],
        f_key = Itoa (el_sid al)\<rparr>)"

text \<open>The addresses go to the database as texts, which refuses those that are none.\<close>

definition ids_event :: "instant \<Rightarrow> Event \<Rightarrow> eve_alert \<Rightarrow> string \<Rightarrow> addr option \<Rightarrow> addr option \<Rightarrow> IDSEvent" where
  "ids_event now ev al raw src dst =
     \<lparr>ie_id = 0, ie_ts = parseTS (eve_time ev) now,
      ie_src = src, ie_src_port = (if eve_src ev = [] then None else Some (eve_src_port ev)),
      ie_dst = dst, ie_dst_port = (if eve_dst ev = [] then None else Some (eve_dst_port ev)),
      ie_proto = (if eve_proto ev = [] then None else Some (ToLower (eve_proto ev))),
      ie_sid = Some (el_sid al), ie_signature = Some (el_signature al), ie_category = Some (el_category al),
      ie_severity = Some (el_severity al), ie_action = Some (el_action al),
      ie_app = (if eve_app ev = [] then None else Some (eve_app ev)), ie_raw = raw\<rparr>"

definition store_event ::
  "(string \<Rightarrow> string option) \<Rightarrow> 'e env_scheme \<Rightarrow> Event \<Rightarrow> eve_alert \<Rightarrow> string \<Rightarrow> 'x intel_db_scheme \<Rightarrow> int dbres \<times> 'x intel_db_scheme" where
  "store_event jb e ev al raw d =
     (case (inet_arg (eve_src ev), inet_arg (eve_dst ev)) of
        (Some src, Some dst) \<Rightarrow> InsertIDSEvent jb e (ids_event (now_of e) ev al raw src dst) d
      | _ \<Rightarrow> (Inl (DbError ''invalid input syntax for type inet''), d))"

text \<open>A name is cleaned before the statement; one that is empty or too long never reaches it.\<close>

definition store_name ::
  "'e env_scheme \<Rightarrow> string \<Rightarrow> string \<Rightarrow> string \<Rightarrow> 'x intel_db_scheme \<Rightarrow> unit dbres \<times> 'x intel_db_scheme" where
  "store_name e ip name source d =
     (case inet_arg ip of
        Some (Some a) \<Rightarrow> UpsertIPName e a name source d
      | _ \<Rightarrow> (let n = ToLower (TrimSuffix (TrimSpace name) ''.'') in
           if n = [] \<or> length n > 253 then (Inr (), d) else (Inl (DbError ''invalid input syntax for type inet''), d)))"

type_synonym 'x sink = "Finding \<Rightarrow> 'x sight_scheme \<Rightarrow> unit dbres option \<times> 'x sight_scheme"

text \<open>The result of a handler: its error, the listener and the world. \<open>None\<close> is a panic of the sink.\<close>

type_synonym 'x handled = "unit dbres option \<times> Listener \<times> 'x sight_scheme"

definition learn :: "'e env_scheme \<Rightarrow> string \<Rightarrow> string \<Rightarrow> string \<Rightarrow> Listener \<Rightarrow> 'x sight_scheme \<Rightarrow> 'x handled" where
  "learn e ip name source l w =
     (case store_name e ip name source (w_intel w) of
        (r, d) \<Rightarrow> (Some r, l\<lparr>ls_names := ls_names l + 1\<rparr>, w\<lparr>w_intel := d\<rparr>))"

definition is_a :: "string \<Rightarrow> bool" where "is_a t \<longleftrightarrow> t = ''A'' \<or> t = ''AAAA''"

text \<open>The names and addresses of an answer in the order in which they are stored. The name of an answer record stays
  in force for what follows.\<close>

primrec answer_pairs :: "string \<Rightarrow> dns_answer list \<Rightarrow> string \<times> (string \<times> string) list" where
  "answer_pairs name [] = (name, [])"
| "answer_pairs name (a # as) =
     (if is_a (da_type a)
      then (let n = (if da_name a \<noteq> [] then da_name a else name); r = answer_pairs n as in (fst r, (n, da_data a) # snd r))
      else answer_pairs name as)"

definition dns_pairs :: "eve_dns \<Rightarrow> (string \<times> string) list" where
  "dns_pairs d =
     (let r = answer_pairs (dn_name d) (dn_answers d) in
      snd r @ map (Pair (fst r)) (concat (map (\<lambda>t. opt_default [] (map_of (dn_grouped d) t)) [''A'', ''AAAA''])) @
      (if is_a (dn_rrtype d) \<and> dn_data d \<noteq> [] then [(fst r, dn_data d)] else []))"

text \<open>A pair without a name or without an address is passed over; the first error stops the loop.\<close>

primrec names_loop :: "'e env_scheme \<Rightarrow> (string \<times> string) list \<Rightarrow> Listener \<Rightarrow> 'x sight_scheme \<Rightarrow> 'x handled" where
  "names_loop e [] l w = (Some (Inr ()), l, w)"
| "names_loop e (p # ps) l w =
     (if ParseAddr (snd p) = None \<or> fst p = [] then names_loop e ps l w
      else case learn e (snd p) (fst p) ''dns'' l w of
        (Some (Inl m), l', w') \<Rightarrow> (Some (Inl m), l', w')
      | (_, l', w') \<Rightarrow> names_loop e ps l' w')"

definition handle_alert ::
  "(string \<Rightarrow> string option) \<Rightarrow> (addr \<Rightarrow> bool) option \<Rightarrow> 'x sink option \<Rightarrow> 'e env_scheme \<Rightarrow> Event \<Rightarrow> eve_alert \<Rightarrow> string \<Rightarrow> Listener \<Rightarrow> 'x sight_scheme \<Rightarrow> 'x handled" where
  "handle_alert jb local sink e ev al raw l w =
     (case store_event jb e ev al raw (w_intel w) of
        (Inl m, d) \<Rightarrow> (Some (Inl m), l, w\<lparr>w_intel := d\<rparr>)
      | (Inr i, d) \<Rightarrow>
          (let l' = l\<lparr>ls_alerts := ls_alerts l + 1\<rparr>; w' = w\<lparr>w_intel := d\<rparr>; f = finding local ev al in
           case sink of
             None \<Rightarrow> (Some (Inr ()), l', w')
           | Some raise \<Rightarrow>
               (case raise (f\<lparr>f_details := f_details f @ [(''ids_event_id'', JNum i)]\<rparr>) w' of (r, w'') \<Rightarrow> (r, l', w''))))"

definition handle ::
  "(string \<Rightarrow> string option) \<Rightarrow> (addr \<Rightarrow> bool) option \<Rightarrow> 'x sink option \<Rightarrow> 'e env_scheme \<Rightarrow> Event \<Rightarrow> string \<Rightarrow> Listener \<Rightarrow> 'x sight_scheme \<Rightarrow> 'x handled" where
  "handle jb local sink e ev raw l w =
     (let done = (Some (Inr ()), l, w) in
      if eve_type ev = ''alert'' then (case eve_alert ev of None \<Rightarrow> done | Some al \<Rightarrow> handle_alert jb local sink e ev al raw l w)
      else if eve_type ev = ''dns'' then
        (case eve_dns ev of None \<Rightarrow> done | Some d \<Rightarrow> if has_answers d then names_loop e (dns_pairs d) l w else done)
      else if eve_type ev = ''tls'' then
        (case eve_sni ev of
           Some sni \<Rightarrow> if sni \<noteq> [] \<and> eve_dst ev \<noteq> [] then learn e (eve_dst ev) sni ''tls'' l w else done
         | None \<Rightarrow> done)
      else if eve_type ev = ''http'' then
        (case eve_hostname ev of
           Some h \<Rightarrow>
             if h \<noteq> [] \<and> eve_dst ev \<noteq> [] \<and> ParseAddr h = None then learn e (eve_dst ev) h ''http'' l w else done
         | None \<Rightarrow> done)
      else done)"

text \<open>\<open>err_text\<close> is the wording of an error.\<close>

definition err_text :: "dberr \<Rightarrow> string" where
  "err_text m = (case m of DbError s \<Rightarrow> s | Canceled \<Rightarrow> ''context canceled'')"

definition truncated :: "string \<Rightarrow> bool" where
  "truncated line \<longleftrightarrow>
     (case FirstIndex open_brace line of None \<Rightarrow> False | Some i \<Rightarrow> HasPrefix (TrimSpace (drop i line)) [open_brace, CHR 0x22])"

text \<open>\<open>None\<close> as result is a panic of the sink, which ends the process.\<close>

definition HandleLine ::
  "(addr \<Rightarrow> bool) option \<Rightarrow> 'x sink option \<Rightarrow> eve_env \<Rightarrow> string \<Rightarrow> Listener \<times> 'x sight_scheme \<Rightarrow> (Listener \<times> 'x sight_scheme) option" where
  "HandleLine local sink e line s =
     (case s of (l, w) \<Rightarrow>
        (case ExtractJSON line of
           None \<Rightarrow>
             if truncated line then Some (markMalformed ''truncated event (no closing brace)'' (now_of e) l, w)
             else Some (l\<lparr>ls_ignored := ls_ignored l + 1\<rparr>, w)
         | Some js \<Rightarrow>
             (case event_of e js of
                Inl err \<Rightarrow> Some (markMalformed (''malformed/truncated event ('' @ err @ '')'') (now_of e) l, w)
              | Inr ev \<Rightarrow>
                  if eve_type ev = [] then Some (l, w)
                  else
                    (case handle (jsonb_of e) local sink e ev js (note_event (typeKey ev) (now_of e) (l\<lparr>ls_received := ls_received l + 1\<rparr>)) w of
                       (None, _, _) \<Rightarrow> None
                     | (Some (Inr _), l', w') \<Rightarrow> Some (l', w')
                     | (Some (Inl m), l', w') \<Rightarrow> Some (set_error (err_text m) (now_of e) (l'\<lparr>ls_dropped := ls_dropped l' + 1\<rparr>), w')))))"

end
