(* ===== verification/Desk.thy ===== *)
theory Desk
  imports Notify Builtin
begin

text \<open>
  The dispatcher in the place where the engine calls its notifier (\<open>cmd/server/main.go\<close> connects
  the two when a channel is configured): the world of the engine with the dispatcher's own state,
  and \<open>Notify\<close> as the notifier. What the engine's other callers rely on is shown here once.
\<close>

record desk_world = sight +
  w_desk :: Dispatcher

text \<open>\<open>UpsertAlert\<close> does not read the nickname of the host, so the engine hands over its alerts without
  one. What the channels answer may differ from call to call: \<open>ne\<close> gives the environment of the
  delivery for that of the call, which has its clock and its faults.\<close>

definition announce ::
  "Config \<Rightarrow> (rule_env \<Rightarrow> notify_env) \<Rightarrow> rule_env \<Rightarrow> Alert list \<Rightarrow> desk_world \<Rightarrow> desk_world" where
  "announce c ne env as w =
     (case Notify c ((ne env)\<lparr>now_of := now_of env, fault := fault env\<rparr>) (w_intel w) (map (\<lambda>a. (a, None)) as)
             (w_desk w) (w_alerts w) of
        Some (d, adb, _) \<Rightarrow> w\<lparr>w_desk := d, w_alerts := adb\<rparr>
      | None \<Rightarrow> w)"

definition engine_notifier ::
  "bool \<Rightarrow> Config \<Rightarrow> (rule_env \<Rightarrow> notify_env) \<Rightarrow> (rule_env \<Rightarrow> Alert list \<Rightarrow> desk_world \<Rightarrow> desk_world) option" where
  "engine_notifier connected c ne = (if connected then Some (announce c ne) else None)"

section \<open>What announcing leaves alone\<close>

text \<open>The only statement of the dispatcher that writes is the one that marks alerts.\<close>

lemma Notify_marks:
  assumes "Notify c e idb as d adb = Some (d', adb', m)"
  shows "adb' = adb \<or> (\<exists>ids. adb' = snd (MarkNotified e ids adb))"
proof -
  have "adb2 = adb \<or> (\<exists>ids. adb2 = snd (MarkNotified e ids adb))" if "Flush c e idb d1 adb = Some (d2, adb2, m2)" for d1 d2 adb2 m2
    using that by (auto simp: Flush_def split: if_splits option.splits prod.splits)
  with assms show ?thesis
    unfolding Notify_def Let_def by (auto split: if_splits)
qed

lemma MarkNotified_rows:
  "exclusions (snd (MarkNotified e ids d)) = exclusions d" "retention (snd (MarkNotified e ids d)) = retention d"
  "\<exists>f. alerts (snd (MarkNotified e ids d)) = map f (alerts d) \<and>
       (\<forall>a. a_id (f a) = a_id a \<and> a_details (f a) = a_details a)"
proof -
  show "exclusions (snd (MarkNotified e ids d)) = exclusions d" "retention (snd (MarkNotified e ids d)) = retention d"
    by (simp_all add: MarkNotified_def db_write_def update_alerts_def)
  have "alerts (snd (MarkNotified e ids d)) =
      map (\<lambda>a. if ids \<noteq> [] \<and> \<not> fault e [''MarkNotified''] \<and> a_id a \<in> set ids
               then a\<lparr>a_notified := Some (now_of e)\<rparr> else a) (alerts d)"
    by (simp add: MarkNotified_def db_write_def update_alerts_def)
  then show "\<exists>f. alerts (snd (MarkNotified e ids d)) = map f (alerts d) \<and>
       (\<forall>a. a_id (f a) = a_id a \<and> a_details (f a) = a_details a)"
    by (intro exI conjI) (assumption, simp)
qed

lemma announce_cases:
  "announce c ne env as w = w \<or>
   (\<exists>d e adb. announce c ne env as w = w\<lparr>w_desk := d, w_alerts := adb\<rparr> \<and>
      (adb = w_alerts w \<or> (\<exists>ids. adb = snd (MarkNotified (e :: notify_env) ids (w_alerts w)))))"
proof (cases "Notify c ((ne env)\<lparr>now_of := now_of env, fault := fault env\<rparr>) (w_intel w) (map (\<lambda>a. (a, None)) as) (w_desk w) (w_alerts w)")
  case (Some x)
  obtain d adb m where x: "x = (d, adb, m)" by (cases x) auto
  from Notify_marks [OF Some [unfolded x]] Some show ?thesis by (auto simp: announce_def x)
qed (simp add: announce_def)

end
