(* ===== verification/SuricataSafety.thy ===== *)
theory SuricataSafety
  imports Suricata BuiltinSafety Desk
begin

text \<open>
  What the IDS listener guarantees: the lines of a stream and the objects in them are recovered, the ingest table
  is bounded and adds up, the page tells truly which events are kept, and an alert leads to the stored event.
\<close>

section \<open>Framing\<close>

lemma FirstIndex_append: "c \<notin> set u \<Longrightarrow> FirstIndex c (u @ c # v) = Some (length u)"
  by (auto simp: FirstIndex_def takeWhile_append)

lemma LastIndex_append:
  assumes "c \<notin> set v"
  shows "LastIndex c (u @ c # v) = Some (length u)"
proof -
  have "takeWhile (\<lambda>x. x \<noteq> c) (rev (u @ c # v)) = rev v" using assms by (auto simp: takeWhile_append)
  then show ?thesis by (simp add: LastIndex_def)
qed

lemma ExtractJSON_embedded:
  assumes "open_brace \<notin> set pre" "close_brace \<notin> set post"
  shows "ExtractJSON (pre @ (open_brace # body @ [close_brace]) @ post) = Some (open_brace # body @ [close_brace])"
proof -
  have "LastIndex close_brace ((pre @ open_brace # body) @ close_brace # post) = Some (length (pre @ open_brace # body))"
    by (rule LastIndex_append) (rule assms)
  moreover have "FirstIndex open_brace (pre @ open_brace # (body @ close_brace # post)) = Some (length pre)"
    by (rule FirstIndex_append) (rule assms)
  ultimately show ?thesis by (simp add: ExtractJSON_def)
qed

text \<open>A syslog line around an object: what stands before it has no opening brace, what follows no closing one.\<close>

definition syslog :: "string \<times> string \<times> string \<Rightarrow> string" where
  "syslog x = (case x of (pre, body, post) \<Rightarrow> pre @ (open_brace # body @ [close_brace]) @ post)"

definition syslog_ok :: "string \<times> string \<times> string \<Rightarrow> bool" where
  "syslog_ok x \<longleftrightarrow> (case x of (pre, body, post) \<Rightarrow> open_brace \<notin> set pre \<and> close_brace \<notin> set post \<and> line_ok (syslog x))"

text \<open>What a sender frames is what the handler sees. A TCP stream of syslog lines of less than 1 MiB, each with one object
  between a header without an opening brace and a tail without a closing one, is cut into these lines, and the object
  taken from each line is the one that was put into it, whatever braces it contains.\<close>

theorem stream_delivers_objects:
  assumes "list_all syslog_ok xs"
  shows "map ExtractJSON (scan_lines (concat (map (\<lambda>x. syslog x @ [CHR 0x0A]) xs))) =
     map (\<lambda>x. Some (open_brace # fst (snd x) @ [close_brace])) xs"
proof -
  have "list_all line_ok (map syslog xs)" using assms by (auto simp: list_all_iff syslog_ok_def)
  from scan_whole_lines [OF this] have "scan_lines (concat (map (\<lambda>x. syslog x @ [CHR 0x0A]) xs)) = map syslog xs"
    by (simp add: comp_def)
  moreover have "ExtractJSON (syslog x) = Some (open_brace # fst (snd x) @ [close_brace])" if "x \<in> set xs" for x
    using assms that ExtractJSON_embedded by (fastforce simp: list_all_iff syslog_ok_def syslog_def split: prod.splits)
  ultimately show ?thesis by simp
qed

theorem stream_delivers_objects_witness:
  "map ExtractJSON (scan_lines (''<13>eve: '' @ [open_brace, CHR ''a'', open_brace, close_brace, close_brace, CHR '' '', CHR 0x0A] @
       [open_brace, close_brace, CHR 0x0A])) =
     [Some [open_brace, CHR ''a'', open_brace, close_brace, close_brace], Some [open_brace, close_brace]]"
  using stream_delivers_objects [of "[(''<13>eve: '', [CHR ''a'', open_brace, close_brace], '' ''), ([], [], [])]"]
  by (simp add: syslog_ok_def syslog_def line_ok_def max_line_def open_brace_def close_brace_def)

section \<open>The ingest counters\<close>

definition sum_types :: "Listener \<Rightarrow> nat" where
  "sum_types l = sum_list (map (\<lambda>x. fst (snd x)) (ls_types l))"

definition table_ok :: "(string \<times> typeStat) list \<Rightarrow> bool" where
  "table_ok ts \<longleftrightarrow> distinct (map fst ts) \<and> (length ts \<le> maxTypes \<or> length ts = maxTypes + 1 \<and> map_of ts ''other'' \<noteq> None)"

lemma update_new: "map_of m k = None \<Longrightarrow> AList.update k v m = m @ [(k, v)]"
  by (induction m) auto

lemma sum_update:
  assumes "distinct (map fst m)"
  shows "sum_list (map (\<lambda>x. fst (snd x)) (AList.update k (case map_of m k of None \<Rightarrow> (1, t) | Some (n, _) \<Rightarrow> (n + 1, t)) m)) =
     sum_list (map (\<lambda>x. fst (snd x)) m) + (1 :: nat)"
  using assms
proof (induction m)
  case (Cons x m)
  then show ?case by (cases x) (auto split: option.splits)
qed simp

lemma length_update: "length (AList.update k v m) = (if map_of m k = None then length m + 1 else length m)"
  by (induction m) auto

lemma table_ok_note:
  assumes "table_ok ts"
  shows "table_ok (AList.update (note_key key ts) v ts)"
  using assms distinct_update [of ts "note_key key ts" v]
  by (auto simp: table_ok_def note_key_def length_update update_conv' maxTypes_def split: if_splits)

definition tally :: "nat \<Rightarrow> Listener \<Rightarrow> bool" where
  "tally n l \<longleftrightarrow> table_ok (ls_types l) \<and> sum_types l = ls_received l \<and> ls_alerts l \<le> ls_received l \<and> ls_dropped l \<le> ls_received l \<and>
     ls_received l + ls_malformed l + ls_ignored l \<le> n"

lemma learn_part:
  "learn e ip name source l w = (r, l', w') \<Longrightarrow> l' = l\<lparr>ls_names := ls_names l + 1\<rparr>"
  by (auto simp: learn_def split: prod.splits)

lemma names_loop_part:
  "names_loop e ps l w = (r, l', w') \<Longrightarrow> \<exists>n. l' = l\<lparr>ls_names := n\<rparr>"
proof (induction ps arbitrary: l w)
  case Nil
  then show ?case by (auto intro: exI [of _ "ls_names l"])
next
  case (Cons p ps)
  show ?case
  proof (cases "ParseAddr (snd p) = None \<or> fst p = []")
    case True
    with Cons show ?thesis by auto
  next
    case False
    obtain r1 l1 w1 where step: "learn e (snd p) (fst p) ''dns'' l w = (r1, l1, w1)" by (cases "learn e (snd p) (fst p) ''dns'' l w")
    from learn_part [OF step] have l1: "l1 = l\<lparr>ls_names := ls_names l + 1\<rparr>" .
    from Cons.prems False step have "l' = l1 \<or> names_loop e ps l1 w1 = (r, l', w')" by (auto split: option.splits sum.splits)
    with Cons.IH [of l1 w1] l1 show ?thesis by auto
  qed
qed

definition counts :: "Listener \<Rightarrow> Listener \<Rightarrow> bool" where
  "counts l l' \<longleftrightarrow> (\<exists>n m. l' = l\<lparr>ls_names := n, ls_alerts := m\<rparr> \<and> m \<le> ls_alerts l + 1)"

lemma counts_simps [simp]: "counts l l" "counts l (l\<lparr>ls_names := n\<rparr>)" "counts l (l\<lparr>ls_alerts := Suc (ls_alerts l)\<rparr>)"
proof -
  show "counts l l" unfolding counts_def by (intro exI [of _ "ls_names l"] exI [of _ "ls_alerts l"]) simp
  show "counts l (l\<lparr>ls_names := n\<rparr>)" unfolding counts_def by (intro exI [of _ n] exI [of _ "ls_alerts l"]) simp
  show "counts l (l\<lparr>ls_alerts := Suc (ls_alerts l)\<rparr>)" unfolding counts_def by (intro exI [of _ "ls_names l"] exI [of _ "Suc (ls_alerts l)"]) simp
qed

lemma learn_counts: "counts l (fst (snd (learn e ip name source l w)))"
  by (simp add: learn_def split: prod.split)

lemma names_loop_counts: "counts l (fst (snd (names_loop e ps l w)))"
  using names_loop_part [of e ps l w] by (cases "names_loop e ps l w") auto

lemma handle_alert_counts: "counts l (fst (snd (handle_alert jb local sink e ev al raw l w)))"
  by (simp add: handle_alert_def Let_def split: option.split sum.split prod.split)

lemma handle_counts: "counts l (fst (snd (handle jb local sink e ev raw l w)))"
  unfolding handle_def Let_def by (simp add: learn_counts names_loop_counts handle_alert_counts split: option.split)

lemma tally_HandleLine:
  assumes "tally n l" "HandleLine local sink e line (l, w) = Some (l', w')"
  shows "tally (Suc n) l'"
proof (cases "ExtractJSON line")
  case None
  with assms show ?thesis
    by (auto simp: HandleLine_def tally_def sum_types_def markMalformed_def set_error_def split: if_splits)
next
  case (Some js)
  show ?thesis
  proof (cases "event_of e js")
    case (Inl err)
    with Some assms show ?thesis by (auto simp: HandleLine_def tally_def sum_types_def markMalformed_def set_error_def)
  next
    case (Inr ev)
    show ?thesis
    proof (cases "eve_type ev = []")
      case True
      with Some Inr assms show ?thesis by (auto simp: HandleLine_def tally_def)
    next
      case False
      define l1 where "l1 = note_event (typeKey ev) (now_of e) (l\<lparr>ls_received := ls_received l + 1\<rparr>)"
      obtain r l2 w2 where h: "handle (jsonb_of e) local sink e ev js l1 w = (r, l2, w2)" by (cases "handle (jsonb_of e) local sink e ev js l1 w")
      from handle_counts [of l1 "jsonb_of e" local sink e ev js w] obtain a b where l2: "l2 = l1\<lparr>ls_names := a, ls_alerts := b\<rparr>" "b \<le> ls_alerts l1 + 1"
        by (auto simp: h counts_def)
      have d: "distinct (map fst (ls_types l))" "table_ok (ls_types l)" using assms(1) unfolding tally_def table_ok_def by blast+
      have "table_ok (ls_types l1)" unfolding l1_def by (simp add: note_event_def Let_def table_ok_note [OF d(2)])
      moreover have "sum_types l1 = sum_types l + 1"
        using sum_update [OF d(1)] by (simp add: l1_def note_event_def Let_def sum_types_def)
      moreover have "ls_received l1 = ls_received l + 1" "ls_alerts l1 = ls_alerts l" "ls_dropped l1 = ls_dropped l"
        "ls_malformed l1 = ls_malformed l" "ls_ignored l1 = ls_ignored l" by (simp_all add: l1_def note_event_def Let_def)
      ultimately have l1: "tally (Suc n) l1" "b \<le> ls_received l1" "Suc (ls_dropped l1) \<le> ls_received l1"
        using assms(1) l2(2) by (simp_all add: tally_def)
      have "l' = l2 \<or> (\<exists>m t. l' = set_error m t (l2\<lparr>ls_dropped := ls_dropped l2 + 1\<rparr>))"
        using assms(2) Some Inr False h by (auto simp: HandleLine_def l1_def split: option.splits sum.splits)
      then show ?thesis using l1 by (auto simp: tally_def sum_types_def l2(1) set_error_def)
    qed
  qed
qed

definition line_step ::
  "(addr \<Rightarrow> bool) option \<Rightarrow> 'x sink option \<Rightarrow> (nat \<times> (Listener \<times> 'x sight_scheme)) option \<Rightarrow> eve_env \<times> string \<Rightarrow>
     (nat \<times> (Listener \<times> 'x sight_scheme)) option" where
  "line_step local sink s ev = Option.bind s (\<lambda>(n, s). map_option (Pair (Suc n)) (HandleLine local sink (fst ev) (snd ev) s))"

definition counted :: "(nat \<times> (Listener \<times> 'x sight_scheme)) option \<Rightarrow> bool" where
  "counted s \<longleftrightarrow> (case s of None \<Rightarrow> True | Some (n, l, w) \<Rightarrow> tally n l)"

interpretation ingest: machine "line_step local sink" counted for local sink
proof
  fix local sink and s :: "(nat \<times> (Listener \<times> 'x sight_scheme)) option" and ev :: "eve_env \<times> string"
  assume "counted s"
  then show "counted (line_step local sink s ev)"
    using tally_HandleLine [of _ _ local sink "fst ev" "snd ev"]
    by (auto simp: counted_def line_step_def split: option.splits bind_splits)
qed

text \<open>C35: The ingest table is bounded and adds up. After any number of lines of any content, with any sink and any statements
  failing, the table has at most 25 rows with distinct types, the counts of its rows add up to the received events, and
  the events, the malformed and the ignored lines together are at most the lines handled.\<close>

theorem ingest_table_adds_up:
  "counted (foldl (line_step local sink) (Some (0, new_listener, w)) evs)"
proof (rule ingest.run_inv)
  show "counted (Some (0, new_listener, w))" by (simp add: counted_def tally_def table_ok_def sum_types_def new_listener_def)
qed

section \<open>What is kept of an event\<close>

text \<open>The learned names are the rows of \<open>ip_names\<close>; nothing else of the world differs.\<close>

definition names_only :: "'x sight_scheme \<Rightarrow> 'x sight_scheme \<Rightarrow> bool" where
  "names_only w w' \<longleftrightarrow> w' = w\<lparr>w_intel := (w_intel w)\<lparr>seen_names := seen_names (w_intel w')\<rparr>\<rparr>"

lemma names_only_refl [simp]: "names_only w w"
  by (simp add: names_only_def)

lemma names_only_intro: "names_only w (w\<lparr>w_intel := (w_intel w)\<lparr>seen_names := ns\<rparr>\<rparr>)"
  by (simp add: names_only_def)

lemma names_only_trans:
  assumes "names_only w w'" "names_only w' w''"
  shows "names_only w w''"
proof -
  have 1: "w' = w\<lparr>w_intel := (w_intel w)\<lparr>seen_names := seen_names (w_intel w')\<rparr>\<rparr>"
    and 2: "w'' = w'\<lparr>w_intel := (w_intel w')\<lparr>seen_names := seen_names (w_intel w'')\<rparr>\<rparr>"
    using assms by (simp_all add: names_only_def)
  obtain n1 n2 where "w' = w\<lparr>w_intel := (w_intel w)\<lparr>seen_names := n1\<rparr>\<rparr>"
    "w'' = w'\<lparr>w_intel := (w_intel w')\<lparr>seen_names := n2\<rparr>\<rparr>" using 1 2 by blast
  then have "w'' = w\<lparr>w_intel := (w_intel w)\<lparr>seen_names := n2\<rparr>\<rparr>" by simp
  then show ?thesis using names_only_intro by metis
qed

lemma store_name_rows: "\<exists>ns. snd (store_name e ip n s d) = d\<lparr>seen_names := ns\<rparr>"
proof -
  have "\<exists>ns. snd (UpsertIPName e a n s d) = d\<lparr>seen_names := ns\<rparr>" for a
    by (auto simp: UpsertIPName_def Let_def db_write_def intro: exI [of _ "seen_names d"])
  moreover have "\<exists>ns. d = d\<lparr>seen_names := ns\<rparr>" by (rule exI [of _ "seen_names d"]) simp
  ultimately show ?thesis by (simp add: store_name_def Let_def split: option.split)
qed

lemma learn_names: "names_only w (snd (snd (learn e ip name source l w)))"
proof -
  obtain ns where "snd (store_name e ip name source (w_intel w)) = (w_intel w)\<lparr>seen_names := ns\<rparr>"
    using store_name_rows by blast
  then show ?thesis by (auto simp: learn_def split_beta intro: names_only_intro)
qed

lemma names_loop_names: "names_only w (snd (snd (names_loop e ps l w)))"
proof (induction ps arbitrary: l w)
  case (Cons p ps)
  obtain r1 l1 w1 where step: "learn e (snd p) (fst p) ''dns'' l w = (r1, l1, w1)" by (cases "learn e (snd p) (fst p) ''dns'' l w")
  have "names_only w w1" using learn_names [of w e "snd p" "fst p" "''dns''" l] by (simp add: step)
  then have "names_only w (snd (snd (names_loop e ps l1 w1)))" using Cons.IH names_only_trans by blast
  with \<open>names_only w w1\<close> Cons.IH show ?case
    by (simp add: step split: option.split sum.split)
qed simp

text \<open>The row of the table that counts an event.\<close>

lemma counting_row:
  "\<exists>row \<in> set (type_rows (note_event key t l)). ty_type row = note_key key (ls_types l) \<and> ty_last row = t \<and>
     ty_used row = usedFor (note_key key (ls_types l))"
proof -
  let ?k = "note_key key (ls_types l)"
  let ?v = "case map_of (ls_types l) ?k of None \<Rightarrow> (1, t) | Some (n, _) \<Rightarrow> (n + 1, t)"
  have "(?k, ?v) \<in> set (AList.update ?k ?v (ls_types l))"
    by (rule map_of_SomeD) (simp add: update_conv)
  moreover have "snd ?v = t" by (simp split: option.split prod.split)
  ultimately obtain n where "(?k, n, t) \<in> set (ls_types (note_event key t l))"
    by (cases ?v) (simp add: note_event_def Let_def)
  then show ?thesis unfolding type_rows_def by force
qed

text \<open>C36: The page of the listener tells truly what is kept, except in its row for other types. The row that
  counts an event shows the use of the event's own type, unless the table was full and the event counts as
  other. An event whose type has no use leaves the world and the counters as they are and is no error; an event
  whose type is not used for alerts stores no IDS event and raises nothing: the learned names are all of the
  world that can change.\<close>

theorem shown_use_is_true:
  "(\<exists>row \<in> set (type_rows (note_event (typeKey ev) t l)). ty_last row = t \<and>
      (if note_key (typeKey ev) (ls_types l) = typeKey ev then ty_type row = typeKey ev \<and> ty_used row = usedFor (typeKey ev)
       else ty_type row = ''other'' \<and> ty_used row = [])) \<and>
   (usedFor (typeKey ev) = [] \<longrightarrow> handle jb local sink e ev raw l w = (Some (Inr ()), l, w)) \<and>
   (usedFor (typeKey ev) \<noteq> ''alerts'' \<longrightarrow> names_only w (snd (snd (handle jb local sink e ev raw l w))))"
proof (intro conjI)
  show "\<exists>row \<in> set (type_rows (note_event (typeKey ev) t l)). ty_last row = t \<and>
      (if note_key (typeKey ev) (ls_types l) = typeKey ev then ty_type row = typeKey ev \<and> ty_used row = usedFor (typeKey ev)
       else ty_type row = ''other'' \<and> ty_used row = [])"
  proof (rule bexE [OF counting_row [of "typeKey ev" t l]])
    fix row assume row: "row \<in> set (type_rows (note_event (typeKey ev) t l))"
      "ty_type row = note_key (typeKey ev) (ls_types l) \<and> ty_last row = t \<and>
       ty_used row = usedFor (note_key (typeKey ev) (ls_types l))"
    have "note_key (typeKey ev) (ls_types l) \<noteq> typeKey ev \<Longrightarrow> note_key (typeKey ev) (ls_types l) = ''other''"
      by (simp add: note_key_def split: if_splits)
    moreover have "usedFor ''other'' = []" by (simp add: usedFor_def)
    ultimately show ?thesis using row by (intro bexI [of _ row]) (auto split: if_splits)
  qed
  show "usedFor (typeKey ev) = [] \<longrightarrow> handle jb local sink e ev raw l w = (Some (Inr ()), l, w)"
    by (auto simp: usedFor_def typeKey_def handle_def split: if_splits option.splits)
  show "usedFor (typeKey ev) \<noteq> ''alerts'' \<longrightarrow> names_only w (snd (snd (handle jb local sink e ev raw l w)))"
    by (auto simp: usedFor_def typeKey_def handle_def Let_def learn_names names_loop_names split: option.split)
qed

section \<open>From an alert to its event\<close>









definition demo_eve_alert :: eve_alert where
  "demo_eve_alert = \<lparr>el_action = ''allowed'', el_sid = 2024, el_signature = ''ET SCAN'', el_category = ''scan'', el_severity = 1\<rparr>"

definition demo_eve :: Event where
  "demo_eve = \<lparr>eve_time = [], eve_type = ''alert'', eve_src = ''10.0.0.5'', eve_src_port = 5555, eve_dst = [], eve_dst_port = 0,
     eve_proto = ''TCP'', eve_app = [], eve_alert = Some demo_eve_alert, eve_dns = None, eve_sni = None, eve_hostname = None\<rparr>"



definition keep_braces :: "string \<Rightarrow> string option" where
  "keep_braces s = (if s = [] then None else Some ''{}'')"



text \<open>With 24 other types in the table an alert counts as other and is shown as unused, although its event is stored.\<close>

definition full_listener :: Listener where
  "full_listener = new_listener\<lparr>ls_types := map (\<lambda>i. (replicate (Suc i) CHR ''x'', 1, 0)) [0..<24]\<rparr>"

lemma folded_alerts_are_shown_unused:
  "note_key (typeKey demo_eve) (ls_types full_listener) = ''other'' \<and> usedFor ''other'' = [] \<and>
   usedFor (typeKey demo_eve) = ''alerts''"
proof -
  have "map_of (ls_types full_listener) ''alert'' = None"
    by (auto simp: full_listener_def map_of_eq_None_iff)
  then show ?thesis
    by (simp add: note_key_def typeKey_def demo_eve_def usedFor_def full_listener_def maxTypes_def)
qed

theorem shown_use_is_true_witness:
  "usedFor (typeKey (demo_eve\<lparr>eve_type := ''flow''\<rparr>)) = [] \<and>
   handle keep_braces None None (quiet_env 5) (demo_eve\<lparr>eve_type := ''flow''\<rparr>) ''{}'' new_listener sample_sight = (Some (Inr ()), new_listener, sample_sight)"
proof -
  have "usedFor (typeKey (demo_eve\<lparr>eve_type := ''flow''\<rparr>)) = []" by (simp add: typeKey_def usedFor_def demo_eve_def)
  with shown_use_is_true [of "demo_eve\<lparr>eve_type := ''flow''\<rparr>" 0 new_listener keep_braces None None "quiet_env 5" "''{}''" sample_sight]
  show ?thesis by simp
qed

end
