(* ===== verification/Feeds.thy ===== *)
theory Feeds
  imports Intel Identity NetText Lines
begin

text \<open>
  The downloads (\<open>internal/feeds\<close>): the parser of the threat lists, the refresh of the lists and of the two
  catalogues of abused system binaries, and what becomes of lists that are no longer configured. The HTTP client is
  the parameter \<open>http_get\<close>: an error, or a status and a body. The decoders of the catalogues (\<open>encoding/json\<close>) are
  parameters too; a JSON object arrives as the list of its members in the order in which Go visits the map. One
  refresh takes place at one instant.
\<close>

section \<open>Parsing a list\<close>

text \<open>\<open>netip.ParseAddrPort\<close>, of which only the address is used.\<close>

definition ParseAddrPort :: "string \<Rightarrow> addr option" where
  "ParseAddrPort s =
     (case IndexByte (rev s) CHR '':'' of
        None \<Rightarrow> None
      | Some i \<Rightarrow>
          (let ip = take (length s - Suc i) s; port = drop (length s - i) s;
               v6 = ip \<noteq> [] \<and> hd ip = CHR ''['';
               inner = (if v6 then butlast (tl ip) else ip)
           in if ip = [] \<or> (v6 \<and> (length ip < 2 \<or> last ip \<noteq> CHR '']'')) then None
              else case parse_nat port of
                None \<Rightarrow> None
              | Some n \<Rightarrow>
                  if n > 65535 then None
                  else Option.bind (ParseAddr inner) (\<lambda>a. if v6 = (addr_width a = 128) then Some a else None)))"

definition quotes :: "char set" where "quotes = {CHR 0x22, CHR 0x27}"

definition Trim :: "char set \<Rightarrow> string \<Rightarrow> string" where
  "Trim cs s = TrimRight cs (TrimLeft cs s)"

text \<open>What one column says, if it is an address, a network or an address with a port. \<open>PrefixFrom\<close> drops the zone.\<close>

definition strip :: "addr \<Rightarrow> addr" where
  "strip a = (case a of V4 w \<Rightarrow> V4 w | V6 w _ \<Rightarrow> V6 w [])"

definition column_net :: "string \<Rightarrow> prefix option" where
  "column_net t0 =
     (let t = Trim quotes t0 in
      case ParsePrefix t of
        Some p \<Rightarrow> Some (Masked p)
      | None \<Rightarrow>
          (case (case ParseAddr t of Some a \<Rightarrow> Some a | None \<Rightarrow> ParseAddrPort t) of
             None \<Rightarrow> None
           | Some a0 \<Rightarrow> (let a = Unmap a0 in Some (Prefix (strip a) (addr_width a)))))"

definition column_sep :: "char \<Rightarrow> bool" where
  "column_sep c \<longleftrightarrow> c = CHR '' '' \<or> c = CHR 0x09 \<or> c = CHR '',''"

definition strip_comment :: "string \<Rightarrow> string" where
  "strip_comment line = takeWhile (\<lambda>c. c \<noteq> CHR ''#'' \<and> c \<noteq> CHR '';'') line"

text \<open>The first column that says something decides.\<close>

definition line_net :: "string \<Rightarrow> prefix option" where
  "line_net line =
     (case List.map_filter column_net (FieldsFunc column_sep (TrimSpace (strip_comment line))) of [] \<Rightarrow> None | p # _ \<Rightarrow> Some p)"

definition reserved :: "addr \<Rightarrow> bool" where
  "reserved a \<longleftrightarrow> IsPrivate a \<or> IsLoopback a \<or> IsMulticast a \<or> IsUnspecified a \<or> IsLinkLocalUnicast a"

definition feed_entries :: "string \<Rightarrow> prefix list" where
  "feed_entries body = filter (\<lambda>p. \<not> reserved (p_addr p)) (List.map_filter line_net (scan_lines body))"

text \<open>The texts of the entries, each once, in order. The second component is the error of the scanner.\<close>

definition Parse :: "string \<Rightarrow> string list \<times> string option" where
  "Parse body = (sort (remdups (map PrefixString (feed_entries body))), scan_error body)"

section \<open>Fetching\<close>

record feed_env = env +
  http_get :: "string \<Rightarrow> string + (nat \<times> string)"
  cancelled :: "string \<Rightarrow> bool"

definition feed_limit :: nat where "feed_limit = 64 * 2 ^ 20"

definition excerpt :: "string \<Rightarrow> nat \<Rightarrow> string" where
  "excerpt body i =
     (let start = i - length (takeWhile (\<lambda>c. c \<noteq> CHR 0x0A) (rev (take i body)));
          line = takeWhile (\<lambda>c. c \<noteq> CHR 0x0A) (drop i body)
      in TrimSpace (TrimLeft {CHR ''#'', CHR '' ''} (drop start (take i body) @ line)))"

fun FindIndex :: "string \<Rightarrow> string \<Rightarrow> nat option" where
  "FindIndex [] p = (if p = [] then Some 0 else None)"
| "FindIndex (c # s) p = (if HasPrefix (c # s) p then Some 0 else map_option Suc (FindIndex s p))"

text \<open>The column is of type \<open>cidr\<close>: a text is read as a network without host bits.\<close>

definition cidr_arg :: "string \<Rightarrow> prefix option" where
  "cidr_arg s = (case ParsePrefix s of Some p \<Rightarrow> if Masked p = p then Some p else None | None \<Rightarrow> None)"

definition replace_list :: "'e env_scheme \<Rightarrow> string \<Rightarrow> string list \<Rightarrow> 'x intel_db_scheme \<Rightarrow> unit dbres \<times> 'x intel_db_scheme" where
  "replace_list e l nets d =
     (if \<exists>s \<in> set nets. cidr_arg s = None then (Inl (DbError ''invalid input syntax for type cidr''), d)
      else ReplaceThreatList e l (map (\<lambda>s. the (cidr_arg s)) nets) d)"

text \<open>The text of a database error.\<close>

definition db_text :: "dberr \<Rightarrow> string" where
  "db_text m = (case m of DbError s \<Rightarrow> s | Canceled \<Rightarrow> ''context canceled'')"

definition long_dash :: string where "long_dash = [CHR 0xE2, CHR 0x80, CHR 0x94]"

definition Fetch :: "'e feed_env_scheme \<Rightarrow> string \<Rightarrow> string \<Rightarrow> 'x intel_db_scheme \<Rightarrow> (string + nat) \<times> 'x intel_db_scheme" where
  "Fetch e name url d =
     (case http_get e url of
        Inl err \<Rightarrow> (Inl err, d)
      | Inr (st, body0) \<Rightarrow>
          if st \<noteq> 200 then (Inl (''http '' @ Itoa (int st)), d)
          else
            (let body = take feed_limit body0 in
             case Parse body of
               (_, Some err) \<Rightarrow> (Inl err, d)
             | (nets, None) \<Rightarrow>
                 if nets = [] then
                   (case FindIndex (ToLower body) ''deprecated'' of
                      Some i \<Rightarrow> (Inl (''feed is deprecated upstream '' @ long_dash @ '' remove it from THREAT_FEEDS (server says: '' @ excerpt body i @ '')''), d)
                    | None \<Rightarrow> (Inl ''feed parsed to zero entries; keeping previous list'', d))
                 else
                   (case replace_list e name nets d of
                      (Inl m, d') \<Rightarrow> (Inl (db_text m), d')
                    | (Inr _, d') \<Rightarrow> (Inr (length nets), d'))))"

section \<open>The catalogues of abused binaries\<close>

record lolbas_item =
  li_name :: string
  li_description :: string
  li_commands :: "(string \<times> string) list"
  li_paths :: "string list"
  li_url :: string

record gtfo_function =
  gf_label :: string
  gf_mitre :: "string list"

record gtfo_raw =
  gr_functions :: "(string \<times> gtfo_function) list"
  gr_executables :: "(string \<times> string \<times> string list) list"

record catalogue_env = feed_env +
  lolbas_json :: "string \<Rightarrow> string + lolbas_item list"
  gtfobins_json :: "string \<Rightarrow> string + gtfo_raw"

definition set_keys :: "string list \<Rightarrow> string list" where
  "set_keys ss = sort (remdups (filter (\<lambda>s. s \<noteq> []) ss))"

definition lolbas_row :: "lolbas_item \<Rightarrow> LOLBin" where
  "lolbas_row b =
     \<lparr>lb_source = ''lolbas'', lb_name = LOLBinName (li_name b), lb_display = li_name b, lb_description = TrimSpace (li_description b),
      lb_functions = set_keys (map fst (li_commands b)), lb_paths = filter (\<lambda>p. p \<noteq> [] \<and> p \<noteq> ''N/A'') (li_paths b),
      lb_mitre = set_keys (map snd (li_commands b)),
      lb_url = (if li_url b = [] then ''https://lolbas-project.github.io/lolbas/Binaries/'' @ TrimSuffix (li_name b) ''.exe'' @ ''/'' else li_url b)\<rparr>"

definition ParseLOLBAS :: "'e catalogue_env_scheme \<Rightarrow> string \<Rightarrow> string + LOLBin list" where
  "ParseLOLBAS e body =
     (case lolbas_json e body of
        Inl err \<Rightarrow> Inl (''lolbas: '' @ err)
      | Inr raw \<Rightarrow> Inr (map lolbas_row (filter (\<lambda>b. li_name b \<noteq> []) raw)))"

definition function_label :: "(string \<times> gtfo_function) list \<Rightarrow> string \<Rightarrow> string" where
  "function_label fs i = (case map_of fs i of Some f \<Rightarrow> if gf_label f \<noteq> [] then gf_label f else i | None \<Rightarrow> i)"

definition gtfo_row :: "(string \<times> gtfo_function) list \<Rightarrow> string \<times> string \<times> string list \<Rightarrow> LOLBin" where
  "gtfo_row fs x =
     (case x of (name, desc0, ids) \<Rightarrow>
        (let funcs = sort (map (function_label fs) ids);
             mitre = sort (remdups (concat (map (\<lambda>i. case map_of fs i of Some f \<Rightarrow> gf_mitre f | None \<Rightarrow> []) ids)));
             d = TrimSpace desc0;
             desc = (if d = [] then ''Listed by GTFOBins: a Unix binary that can be abused to '' @ ToLower (Join funcs '', '') @ ''.'' else d)
         in \<lparr>lb_source = ''gtfobins'', lb_name = LOLBinName name, lb_display = name, lb_description = desc, lb_functions = funcs, lb_paths = [],
             lb_mitre = mitre, lb_url = ''https://gtfobins.org/gtfobins/'' @ name @ ''/''\<rparr>))"

definition ParseGTFOBins :: "'e catalogue_env_scheme \<Rightarrow> string \<Rightarrow> string + LOLBin list" where
  "ParseGTFOBins e body =
     (case gtfobins_json e body of
        Inl err \<Rightarrow> Inl (''gtfobins: '' @ err)
      | Inr raw \<Rightarrow> Inr (sort_key lb_name (map (gtfo_row (gr_functions raw)) (gr_executables raw))))"

definition catalogue_limit :: nat where "catalogue_limit = 32 * 2 ^ 20"

definition fetch_catalogue ::
  "'e catalogue_env_scheme \<Rightarrow> (string \<Rightarrow> string + LOLBin list) \<Rightarrow> string \<Rightarrow> string \<Rightarrow> 'y id_db_scheme \<Rightarrow> (string + nat) \<times> 'y id_db_scheme" where
  "fetch_catalogue e parse name url d =
     (case http_get e url of
        Inl err \<Rightarrow> (Inl err, d)
      | Inr (st, body) \<Rightarrow>
          if st \<noteq> 200 then (Inl (''http '' @ Itoa (int st)), d)
          else case parse (take catalogue_limit body) of
            Inl err \<Rightarrow> (Inl err, d)
          | Inr items \<Rightarrow>
              if length items < 20
              then (Inl (''catalogue parsed to only '' @ Itoa (int (length items)) @ '' entries; keeping the previous list''), d)
              else case ReplaceLOLBins e name items d of
                (Inl m, d') \<Rightarrow> (Inl (db_text m), d')
              | (Inr _, d') \<Rightarrow> (Inr (length items), d'))"

section \<open>The refresh\<close>

record Result =
  re_entries :: nat
  re_error :: string
  re_at :: instant
  re_url :: string

definition result_of :: "instant \<Rightarrow> string \<Rightarrow> string + nat \<Rightarrow> Result" where
  "result_of t url r =
     (case r of Inl err \<Rightarrow> \<lparr>re_entries = 0, re_error = err, re_at = t, re_url = url\<rparr>
      | Inr n \<Rightarrow> \<lparr>re_entries = n, re_error = [], re_at = t, re_url = url\<rparr>)"

record LOLBins =
  lo_lolbas :: string
  lo_gtfobins :: string
  lo_every :: duration
  lo_last :: "instant option"

definition every :: "LOLBins \<Rightarrow> duration" where
  "every l = (if lo_every l > 0 then lo_every l else 24 * Hour)"

text \<open>A catalogue that was never refreshed is due.\<close>

definition Due :: "instant \<Rightarrow> LOLBins \<Rightarrow> bool" where
  "Due now l \<longleftrightarrow> (case lo_last l of None \<Rightarrow> True | Some t \<Rightarrow> now - t \<ge> every l)"

record feed_db = intel_db +
  fd_ids :: id_db

type_synonym results = "(string \<times> Result) list"

definition refresh_source ::
  "'e catalogue_env_scheme \<Rightarrow> string \<times> string \<times> (string \<Rightarrow> string + LOLBin list) \<Rightarrow> results \<times> id_db \<Rightarrow> results \<times> id_db" where
  "refresh_source e src s =
     (case (src, s) of ((name, url, parse), (out, d)) \<Rightarrow>
        if url = [] \<or> cancelled e name then (out, d)
        else case fetch_catalogue e parse name url d of
          (r, d') \<Rightarrow> (AList.update name (result_of (now_of e) url r) out, d'))"

definition Refresh :: "'e catalogue_env_scheme \<Rightarrow> LOLBins \<Rightarrow> id_db \<Rightarrow> results \<times> LOLBins \<times> id_db" where
  "Refresh e l d =
     (case fold (refresh_source e) [(''lolbas'', lo_lolbas l, ParseLOLBAS e), (''gtfobins'', lo_gtfobins l, ParseGTFOBins e)] ([], d) of
        (out, d') \<Rightarrow> (out, l\<lparr>lo_last := Some (now_of e)\<rparr>, d'))"

record Fetcher =
  ft_feeds :: "(string \<times> string) list"
  ft_interval :: duration
  ft_lolbins :: "LOLBins option"
  ft_last :: "instant option"
  ft_results :: results

text \<open>The loop over the names in order; a cancelled context ends the whole refresh.\<close>

primrec fetch_loop ::
  "'e catalogue_env_scheme \<Rightarrow> string list \<Rightarrow> Fetcher \<times> feed_db \<Rightarrow> bool \<times> Fetcher \<times> feed_db" where
  "fetch_loop e [] s = (True, s)"
| "fetch_loop e (name # names) s =
     (if cancelled e name then (False, s)
      else
        (case s of (f, d) \<Rightarrow>
           (let url = opt_default [] (map_of (ft_feeds f) name) in
            case Fetch e name url d of
              (r, d') \<Rightarrow>
                fetch_loop e names
                  (f\<lparr>ft_results := AList.update name (result_of (now_of e) url r) (ft_results f), ft_last := Some (now_of e)\<rparr>, d'))))"

definition refresh_catalogues :: "'e catalogue_env_scheme \<Rightarrow> Fetcher \<times> feed_db \<Rightarrow> Fetcher \<times> feed_db" where
  "refresh_catalogues e s =
     (case s of (f, d) \<Rightarrow>
        (case ft_lolbins f of
           Some l \<Rightarrow>
             if Due (now_of e) l \<and> \<not> cancelled e ''lolbins'' then
               (case Refresh e l (fd_ids d) of
                  (out, l', ids) \<Rightarrow>
                    (f\<lparr>ft_results := fold (\<lambda>(k, v). AList.update k v) out (ft_results f), ft_last := Some (now_of e), ft_lolbins := Some l'\<rparr>,
                     d\<lparr>fd_ids := ids\<rparr>))
             else (f, d)
         | None \<Rightarrow> (f, d)))"

definition feed_names :: "Fetcher \<Rightarrow> string list" where
  "feed_names f = sort (map fst (ft_feeds f))"

definition RefreshAll :: "'e catalogue_env_scheme \<Rightarrow> Fetcher \<times> feed_db \<Rightarrow> Fetcher \<times> feed_db" where
  "RefreshAll e s =
     (let names = feed_names (fst s) in
      case fetch_loop e names s of
        (False, s') \<Rightarrow> s'
      | (True, s') \<Rightarrow>
          (case refresh_catalogues e s' of (f, d) \<Rightarrow>
             (f, if names = [] then d else snd (DeleteThreatListsExcept e names d))))"

text \<open>\<open>Run\<close> does nothing at all where neither a list nor a catalogue is configured; otherwise it refreshes at once and
  at each tick.\<close>

definition runs :: "Fetcher \<Rightarrow> bool" where
  "runs f \<longleftrightarrow> ft_feeds f \<noteq> [] \<or> ft_lolbins f \<noteq> None"

definition Run :: "'e catalogue_env_scheme list \<Rightarrow> Fetcher \<times> feed_db \<Rightarrow> Fetcher \<times> feed_db" where
  "Run ticks s = (if runs (fst s) then fold RefreshAll ticks s else s)"

definition Status :: "Fetcher \<Rightarrow> instant option \<times> results" where
  "Status f = (ft_last f, ft_results f)"

end
