(* ===== verification/FeedsSafety.thy ===== *)
theory FeedsSafety
  imports Feeds
begin

text \<open>
  What the downloads guarantee: every text the list parser yields is a network the table accepts, a download
  replaces its own list as a whole or leaves everything as it was, and a refresh leaves exactly the configured
  lists, each with its new entries or its old ones. With no list configured the old entries stay.
\<close>

section \<open>Entries\<close>

definition sound_net :: "prefix \<Rightarrow> bool" where
  "sound_net p \<longleftrightarrow> Masked p = p \<and> plain_addr (p_addr p) \<and> p_bits p \<le> addr_width (p_addr p)"

lemma sound_Masked:
  assumes "ParsePrefix s = Some p"
  shows "sound_net (Masked p)"
proof -
  have "p_bits p \<le> addr_width (p_addr p)"
    using assms by (auto simp: ParsePrefix_def split: option.splits prod.splits if_splits)
  moreover have "addr_width (p_addr (Masked p)) = addr_width (p_addr p)" "plain_addr (p_addr (Masked p))"
    by (cases p; cases "p_addr p"; simp add: Masked_def addr_width_def plain_addr_def)+
  ultimately show ?thesis by (simp add: sound_net_def)
qed

lemma sound_host: "sound_net (Prefix (strip a) (addr_width a))"
  by (cases a) (simp_all add: sound_net_def strip_def addr_width_def Masked_def plain_addr_def)

lemma sound_column: "column_net t = Some p \<Longrightarrow> sound_net p"
  using sound_Masked sound_host by (auto simp: column_net_def Let_def split: option.splits)

lemma sound_line: "line_net l = Some p \<Longrightarrow> sound_net p"
  using sound_column
  by (fastforce simp: line_net_def List.map_filter_def filter_eq_Cons_iff split: list.splits)

lemma sound_entries: "p \<in> set (feed_entries body) \<Longrightarrow> sound_net p \<and> \<not> reserved (p_addr p)"
  using sound_line by (auto simp: feed_entries_def List.map_filter_def)

lemma cidr_sound: "sound_net p \<Longrightarrow> cidr_arg (PrefixString p) = Some p"
  by (cases p) (simp add: sound_net_def cidr_arg_def ParsePrefix_PrefixString)

lemma parsed_entries:
  "sorted (fst (Parse body)) \<and> distinct (fst (Parse body)) \<and>
   list_all (\<lambda>s. \<exists>p. cidr_arg s = Some p \<and> PrefixString p = s \<and> Masked p = p \<and> \<not> reserved (p_addr p)) (fst (Parse body)) \<and>
   distinct (map (\<lambda>s. the (cidr_arg s)) (fst (Parse body)))"
proof -
  have entry: "\<exists>p. s = PrefixString p \<and> sound_net p \<and> \<not> reserved (p_addr p)" if "s \<in> set (fst (Parse body))" for s
    using that sound_entries by (auto simp: Parse_def)
  have "\<exists>p. cidr_arg s = Some p \<and> PrefixString p = s \<and> Masked p = p \<and> \<not> reserved (p_addr p)" if "s \<in> set (fst (Parse body))" for s
    using entry [OF that] cidr_sound by (auto simp: sound_net_def)
  moreover have "inj_on (\<lambda>s. the (cidr_arg s)) (set (fst (Parse body)))"
  proof (rule inj_onI)
    fix s t assume st: "s \<in> set (fst (Parse body))" "t \<in> set (fst (Parse body))" "the (cidr_arg s) = the (cidr_arg t)"
    obtain p q where "s = PrefixString p" "sound_net p" "t = PrefixString q" "sound_net q" using entry st by metis
    with st(3) show "s = t" by (simp add: cidr_sound)
  qed
  ultimately show ?thesis by (simp add: Parse_def list_all_iff distinct_map)
qed

text \<open>C37: Every text the parser yields is stored as it is meant. The texts are in order and distinct, and each is the text of
  a masked network without zone outside the reserved ranges, which the column of type cidr reads back as that
  network; so no entry of a download can make its transaction fail.\<close>

theorem parsed_entries_round_trip:
  "sorted (fst (Parse body)) \<and> distinct (fst (Parse body)) \<and>
   list_all (\<lambda>s. \<exists>p. cidr_arg s = Some p \<and> PrefixString p = s \<and> Masked p = p \<and> \<not> reserved (p_addr p)) (fst (Parse body)) \<and>
   distinct (map (\<lambda>s. the (cidr_arg s)) (fst (Parse body)))"
  by (rule parsed_entries)

section \<open>One download\<close>

definition list_rows :: "string \<Rightarrow> 'x intel_db_scheme \<Rightarrow> list_row list" where
  "list_rows l d = filter (\<lambda>r. tl_list r = l) (threat_lists d)"

definition fresh_rows :: "instant \<Rightarrow> string \<Rightarrow> string list \<Rightarrow> list_row list" where
  "fresh_rows t l nets = map (\<lambda>s. \<lparr>tl_net = the (cidr_arg s), tl_list = l, tl_added = t\<rparr>) nets"

text \<open>What a download delivers, whatever the database holds: its entries, or nothing.\<close>

definition delivers :: "'e feed_env_scheme \<Rightarrow> string \<Rightarrow> string \<Rightarrow> string list option" where
  "delivers e name url =
     (case http_get e url of
        Inr (st, body) \<Rightarrow>
          (case Parse (take feed_limit body) of
             (nets, None) \<Rightarrow> if st = 200 \<and> nets \<noteq> [] \<and> \<not> fault e [''ReplaceThreatList'', name] then Some nets else None
           | _ \<Rightarrow> None)
      | Inl _ \<Rightarrow> None)"

lemma stored_list:
  assumes "fst (Parse body) = nets"
  shows "replace_list e l nets d = ReplaceThreatList e l (map (\<lambda>s. the (cidr_arg s)) nets) d"
    "distinct (map (\<lambda>s. the (cidr_arg s)) nets)"
  using parsed_entries [of body] assms by (auto simp: replace_list_def list_all_iff)

definition put_list :: "instant \<Rightarrow> string \<Rightarrow> string list \<Rightarrow> 'x intel_db_scheme \<Rightarrow> 'x intel_db_scheme" where
  "put_list t l nets d = d\<lparr>threat_lists := filter (\<lambda>r. tl_list r \<noteq> l) (threat_lists d) @ fresh_rows t l nets\<rparr>"

lemma replace_parsed:
  assumes "fst (Parse body) = nets"
  shows "replace_list e l nets d =
     (if fault e [''ReplaceThreatList'', l] then (Inl (DbError (concat [''ReplaceThreatList'', l])), d)
      else (Inr (), put_list (now_of e) l nets d))"
  by (simp add: stored_list [OF assms] ReplaceThreatList_def db_read_def db_write_def put_list_def fresh_rows_def comp_def)

lemma Fetch_cases:
  obtains (kept) err where "delivers e name url = None" "Fetch e name url d = (Inl err, d)"
  | (replaced) nets where "delivers e name url = Some nets" "nets \<noteq> []" "Fetch e name url d = (Inr (length nets), put_list (now_of e) name nets d)"
proof (cases "http_get e url")
  case (Inl err)
  then show thesis by (intro kept) (simp_all add: delivers_def Fetch_def)
next
  case (Inr x)
  obtain st body where x: "x = (st, body)" by (cases x)
  obtain nets er where p: "Parse (take feed_limit body) = (nets, er)" by fastforce
  show thesis
  proof (cases "st = 200 \<and> er = None \<and> nets \<noteq> []")
    case True
    have "fst (Parse (take feed_limit body)) = nets" by (simp add: p)
    note rep = replace_parsed [OF this, of e name d]
    show thesis
    proof (cases "fault e [''ReplaceThreatList'', name]")
      case f: True
      with True show thesis by (intro kept) (simp_all add: delivers_def Fetch_def Inr x p rep)
    next
      case False
      with True show thesis by (intro replaced) (simp_all add: delivers_def Fetch_def Inr x p rep)
    qed
  next
    case False
    have "delivers e name url = None" using False by (auto simp: delivers_def Inr x p split: option.split)
    moreover have "\<exists>err. Fetch e name url d = (Inl err, d)"
      using False by (auto simp: Fetch_def Inr x p Let_def split: option.split)
    ultimately show thesis using kept by blast
  qed
qed

text \<open>A download replaces its list or changes nothing. Whatever the server answers and whichever statement fails, a download
  that reports an error leaves all lists as they were, and one that reports success leaves its list with exactly the
  entries it reports, at least one, and every other list as it was.\<close>

theorem download_replaces_or_keeps:
  "case Fetch e name url d of
     (Inl err, d') \<Rightarrow> d' = d
   | (Inr n, d') \<Rightarrow> 0 < n \<and> length (list_rows name d') = n \<and> (l = name \<or> list_rows l d' = list_rows l d)"
proof (cases rule: Fetch_cases [of e name url d])
  case (replaced nets)
  have "list_rows name (put_list t name nets d) = fresh_rows t name nets" for t
    by (auto simp: list_rows_def put_list_def fresh_rows_def filter_empty_conv)
  moreover have "list_rows l (put_list t name nets d) = list_rows l d" if "l \<noteq> name" for t
    using that by (auto simp: list_rows_def put_list_def fresh_rows_def filter_empty_conv intro: filter_cong)
  ultimately show ?thesis using replaced by (auto simp: fresh_rows_def)
qed simp

section \<open>The refresh\<close>

text \<open>The reference: what every list holds afterwards. A configured list has the entries that were delivered, or else its old ones.\<close>

definition expected_rows :: "'e feed_env_scheme \<Rightarrow> (string \<times> string) list \<Rightarrow> feed_db \<Rightarrow> string \<Rightarrow> list_row list" where
  "expected_rows e feeds d l =
     (case map_of feeds l of
        None \<Rightarrow> []
      | Some url \<Rightarrow> (case delivers e l url of Some nets \<Rightarrow> fresh_rows (now_of e) l nets | None \<Rightarrow> list_rows l d))"

lemma rows_put_list:
  "list_rows l (put_list t name nets d) = (if l = name then fresh_rows t name nets else list_rows l d)"
  by (auto simp: list_rows_def put_list_def fresh_rows_def filter_empty_conv intro: filter_cong)

lemma rows_Fetch:
  "list_rows l (snd (Fetch e name url d)) =
     (if l = name then (case delivers e name url of Some nets \<Rightarrow> fresh_rows (now_of e) name nets | None \<Rightarrow> list_rows l d) else list_rows l d)"
  by (cases rule: Fetch_cases [of e name url d]) (simp_all add: rows_put_list)

lemma fetch_loop_rows:
  assumes "\<forall>n. \<not> cancelled e n" "distinct names"
  shows "fst (fetch_loop e names (f, d)) \<and> ft_feeds (fst (snd (fetch_loop e names (f, d)))) = ft_feeds f \<and>
     list_rows l (snd (snd (fetch_loop e names (f, d)))) =
       (if l \<in> set names then (case delivers e l (opt_default [] (map_of (ft_feeds f) l)) of
            Some nets \<Rightarrow> fresh_rows (now_of e) l nets | None \<Rightarrow> list_rows l d) else list_rows l d)"
  using assms(2)
proof (induction names arbitrary: f d)
  case (Cons n names)
  obtain r d' where fetch: "Fetch e n (opt_default [] (map_of (ft_feeds f) n)) d = (r, d')" by fastforce
  have d': "list_rows m d' = list_rows m (snd (Fetch e n (opt_default [] (map_of (ft_feeds f) n)) d))" for m by (simp add: fetch)
  let ?f = "f\<lparr>ft_results := AList.update n (result_of (now_of e) (opt_default [] (map_of (ft_feeds f) n)) r) (ft_results f), ft_last := Some (now_of e)\<rparr>"
  have "n \<notin> set names" "distinct names" using Cons.prems by simp_all
  note ih = Cons.IH [OF this(2), of ?f d']
  have step: "fetch_loop e (n # names) (f, d) = fetch_loop e names (?f, d')" using assms(1) by (simp add: fetch Let_def)
  show ?case
  proof (cases "l = n")
    case True
    with ih \<open>n \<notin> set names\<close> show ?thesis unfolding step by (simp add: d' rows_Fetch split: option.split)
  next
    case False
    with ih show ?thesis unfolding step by (simp add: d' rows_Fetch split: option.split)
  qed
qed simp

lemma refresh_catalogues_lists: "list_rows l (snd (refresh_catalogues e s)) = list_rows l (snd s)"
  by (simp add: refresh_catalogues_def list_rows_def split: prod.split option.split)

text \<open>C29: A refresh leaves what is configured. When at least one list is configured, the refresh is not cancelled and the statement
  that drops lists succeeds, every configured list holds the entries just delivered, or its old entries where its
  download failed, and no other list has an entry.\<close>

theorem refresh_leaves_configured_lists:
  assumes "distinct (map fst (ft_feeds f))" and "ft_feeds f \<noteq> []" and "\<forall>n. \<not> cancelled e n" and "\<not> fault e [''DeleteThreatListsExcept'']"
  shows "list_rows l (snd (RefreshAll e (f, d))) = expected_rows e (ft_feeds f) d l"
proof -
  have names: "distinct (feed_names f)" "set (feed_names f) = fst ` set (ft_feeds f)" "feed_names f \<noteq> []"
    using assms(1,2) by (simp_all add: feed_names_def, metis length_0_conv length_map length_sort)
  obtain b f' d' where loop: "fetch_loop e (feed_names f) (f, d) = (b, f', d')" by (metis prod.exhaust)
  note rows = fetch_loop_rows [OF assms(3) names(1), of f d l]
  have b: "b" using rows by (simp add: loop)
  obtain f2 d2 where cat: "refresh_catalogues e (f', d') = (f2, d2)" by fastforce
  have d2: "list_rows l d2 = list_rows l d'" using refresh_catalogues_lists [of l e "(f', d')"] by (simp add: cat)
  have "list_rows l (snd (RefreshAll e (f, d))) = (if l \<in> set (feed_names f) then list_rows l d2 else [])"
    using b names(3) assms(4)
    by (auto simp: RefreshAll_def loop cat DeleteThreatListsExcept_def Let_def db_write_def list_rows_def filter_empty_conv intro: filter_cong)
  moreover have "map_of (ft_feeds f) l = None \<longleftrightarrow> l \<notin> set (feed_names f)" by (simp add: names(2) map_of_eq_None_iff)
  ultimately show ?thesis using rows
    by (auto simp: expected_rows_def loop d2 opt_default_def split: option.splits)
qed

text \<open>With no list configured nothing is dropped. Where the last list was taken out of the configuration, no refresh ever
  removes an entry: the lists of earlier runs keep matching traffic.\<close>

theorem unconfigured_lists_stay:
  assumes "ft_feeds f = []"
  shows "threat_lists (snd (Run ticks (f, d))) = threat_lists d"
proof -
  have one: "ft_feeds (fst (RefreshAll e s)) = [] \<and> threat_lists (snd (RefreshAll e s)) = threat_lists (snd s)" if "ft_feeds (fst s) = []" for e s
    using that by (cases s) (simp add: RefreshAll_def feed_names_def refresh_catalogues_def Let_def split: prod.split option.split)
  have "ft_feeds (fst (fold RefreshAll ticks s)) = [] \<and> threat_lists (snd (fold RefreshAll ticks s)) = threat_lists (snd s)" if "ft_feeds (fst s) = []" for s
    using that
  proof (induction ticks arbitrary: s)
    case (Cons e ticks)
    then show ?case using one [of s e] by simp
  qed simp
  with assms show ?thesis by (simp add: Run_def)
qed

section \<open>Examples\<close>

definition feed_server :: catalogue_env where
  "feed_server = \<lparr>now_of = 7, fault = (\<lambda>_. False), http_get = (\<lambda>u. if u = ''u1'' then Inr (200, ''8.8.8.8 # dns'') else Inl ''timeout''),
     cancelled = (\<lambda>_. False), lolbas_json = (\<lambda>_. Inl ''eof''), gtfobins_json = (\<lambda>_. Inl ''eof'')\<rparr>"

definition old_row :: "string \<Rightarrow> list_row" where
  "old_row l = \<lparr>tl_net = Prefix (v4 9 9 9 0) 24, tl_list = l, tl_added = 1\<rparr>"

definition no_catalogue :: id_db where
  "no_catalogue = \<lparr>program_identity = [], file_intel = [], lolbins = []\<rparr>"

definition old_lists :: feed_db where
  "old_lists = intel_db.extend (empty_intel\<lparr>threat_lists := map old_row [''a'', ''b'', ''c'']\<rparr>) \<lparr>fd_ids = no_catalogue\<rparr>"

definition fetcher_of :: "(string \<times> string) list \<Rightarrow> Fetcher" where
  "fetcher_of fs = \<lparr>ft_feeds = fs, ft_interval = Hour, ft_lolbins = None, ft_last = None, ft_results = []\<rparr>"

lemma sample_parse: "Parse (take feed_limit ''8.8.8.8 # dns'') = ([PrefixString (Prefix (v4 8 8 8 8) 32)], None)"
proof -
  have "take feed_limit ''8.8.8.8 # dns'' = ''8.8.8.8 # dns''" by (simp add: feed_limit_def)
  moreover have "feed_entries ''8.8.8.8 # dns'' = [Prefix (v4 8 8 8 8) 32]"
  proof -
    have "scan_lines ''8.8.8.8 # dns'' = [''8.8.8.8 # dns'']" by (simp add: scan_lines_def raw_lines_def max_line_def dropCR_def)
    moreover have "line_net ''8.8.8.8 # dns'' = Some (Prefix (v4 8 8 8 8) 32)" "\<not> reserved (v4 8 8 8 8)" by code_simp+
    ultimately show ?thesis by (simp add: feed_entries_def List.map_filter_def)
  qed
  moreover have "scan_error ''8.8.8.8 # dns'' = None" by (simp add: scan_error_def raw_lines_def max_line_def)
  ultimately show ?thesis by (simp add: Parse_def)
qed

lemma sample_delivers: "delivers feed_server ''a'' ''u1'' = Some [PrefixString (Prefix (v4 8 8 8 8) 32)]" "delivers feed_server ''b'' ''u2'' = None"
  by (simp_all add: delivers_def feed_server_def sample_parse)

text \<open>Three lists are loaded; the first is refreshed, the second fails and the third is no longer configured.\<close>

theorem refresh_leaves_configured_lists_witness:
  "list_rows ''a'' (snd (RefreshAll feed_server (fetcher_of [(''a'', ''u1''), (''b'', ''u2'')], old_lists))) =
       [\<lparr>tl_net = Prefix (v4 8 8 8 8) 32, tl_list = ''a'', tl_added = 7\<rparr>] \<and>
   list_rows ''b'' (snd (RefreshAll feed_server (fetcher_of [(''a'', ''u1''), (''b'', ''u2'')], old_lists))) = [old_row ''b''] \<and>
   list_rows ''c'' (snd (RefreshAll feed_server (fetcher_of [(''a'', ''u1''), (''b'', ''u2'')], old_lists))) = []"
proof -
  let ?f = "fetcher_of [(''a'', ''u1''), (''b'', ''u2'')]"
  have "distinct (map fst (ft_feeds ?f))" "ft_feeds ?f \<noteq> []" "\<forall>n. \<not> cancelled feed_server n" "\<not> fault feed_server [''DeleteThreatListsExcept'']"
    by (simp_all add: fetcher_of_def feed_server_def)
  note r = refresh_leaves_configured_lists [OF this]
  have "sound_net (Prefix (v4 8 8 8 8) 32)" by code_simp
  from cidr_sound [OF this] show ?thesis
    unfolding r by (simp add: expected_rows_def fetcher_of_def sample_delivers fresh_rows_def) (simp add: feed_server_def list_rows_def old_lists_def intel_db.defs old_row_def empty_intel_def)
qed

theorem unconfigured_lists_stay_witness:
  "threat_lists (snd (Run [feed_server] ((fetcher_of [])\<lparr>ft_lolbins := Some \<lparr>lo_lolbas = [], lo_gtfobins = [], lo_every = 0, lo_last = None\<rparr>\<rparr>, old_lists))) =
     map old_row [''a'', ''b'', ''c'']"
  by (subst unconfigured_lists_stay) (simp_all add: fetcher_of_def old_lists_def intel_db.defs empty_intel_def)

end
