(* ===== verification/ApiAlerts.thy ===== *)
theory ApiAlerts
  imports ApiUsers Builtin Notify
begin

text \<open>
  The handlers of \<open>internal/api/api.go\<close> for alerts, rules, the trusted list and notifications, each as a function of
  the request's parameters, the decoded body (\<open>None\<close> where it cannot be decoded) and the state: the engine, if there
  is one, and the world. \<open>serve_alerts\<close> composes the middleware, the admin guard and the handler as \<open>Handler\<close>
  routes them. A parameter of the query that is absent is the empty text.
\<close>

section \<open>Shared names\<close>

text \<open>The alert queries read the nicknames, host names and learned names that the other handlers write: the columns
  \<open>nicknames\<close>, \<open>hostnames\<close> and \<open>ip_names\<close> of the alert tables are those of the address tables.\<close>

definition with_shared :: "'x intel_db_scheme \<Rightarrow> alert_db \<Rightarrow> alert_db" where
  "with_shared i d =
     d\<lparr>nicknames := (\<lambda>a. map_option nk_name (find (\<lambda>n. nk_ip n = a) (nicks i))),
       hostnames := (\<lambda>a. Option.bind (find (\<lambda>x. ii_ip x = a) (ip_infos i)) ii_hostname),
       ip_names := map (\<lambda>r. (nm_ip r, nm_name r)) (seen_names i)\<rparr>"

definition shared :: "'x sight_scheme \<Rightarrow> 'x sight_scheme" where
  "shared w = w\<lparr>w_alerts := with_shared (w_intel w) (w_alerts w)\<rparr>"

section \<open>Answers\<close>

text \<open>An alert of a list with the patterns that cover its ends, empty where none does.\<close>

type_synonym alert_row = "(Alert \<times> string option \<times> string option) \<times> string \<times> string"

datatype alert_value =
    VAlerts "alert_row list" int int int
  | VSummary AlertSummary
  | VAlert "(Alert \<times> string option \<times> string option) option"
  | VResolved int
  | VRetention AlertRetention
  | VRetained AlertRetention "(string \<times> int) list"
  | VDeleted int
  | VRules "(duration \<times> RuleInfo list) option"
  | VRule RuleInfo
  | VFindings "Finding list"
  | VRaised "Alert list"
  | VDeletedRule string
  | VInvalid invalid
  | VUnknownRule string
  | VExclusions "Exclusion list"
  | VExclusion Exclusion int
  | VDeletedExclusion int
  | VMatch string "string option"
  | VNotify Stats
  | VTested "string \<rightharpoonup> string"

type_synonym alert_answer = "alert_value reply"

text \<open>\<open>strconv.ParseInt\<close> with 64 bits has the range of \<open>Atoi\<close>.\<close>

definition path_id :: "string \<Rightarrow> int option" where "path_id s = Atoi s"

section \<open>Alerts\<close>

definition pattern_of :: "ExclusionSet \<Rightarrow> (string \<Rightarrow> string list) \<Rightarrow> addr option \<Rightarrow> string" where
  "pattern_of s names a =
     (case a of None \<Rightarrow> [] | Some x \<Rightarrow> opt_default [] (Match s (AddrString x) (names (AddrString x))))"

definition ends_of :: "(Alert \<times> 'a) list \<Rightarrow> string list" where
  "ends_of items = remdups (map AddrString (concat (map (\<lambda>x. List.map_filter (\<lambda>p. p) [a_host (fst x), a_peer (fst x)]) items)))"

definition annotateExclusions ::
  "'e env_scheme \<Rightarrow> (Alert \<times> string option \<times> string option) list \<Rightarrow> alert_db \<Rightarrow> alert_row list dbres" where
  "annotateExclusions e items d =
     (let plain = map (\<lambda>x. (x, [], [])) items in
      if items = [] then Inr plain
      else bindE (LoadExclusions e d) (\<lambda>s.
        if set_Empty s then Inr plain
        else bindE (if HasNames s then NamesForIPs e (ends_of items) d else Inr (\<lambda>_. [])) (\<lambda>names.
          Inr (map (\<lambda>x. (x, pattern_of s names (a_host (fst x)), pattern_of s names (a_peer (fst x)))) items))))"

text \<open>\<open>parseTime\<close>: a duration before the reference, a time stamp, or seconds since 1970.\<close>

definition parseTime :: "string \<Rightarrow> instant \<Rightarrow> instant option" where
  "parseTime v0 ref =
     (let v = (if HasPrefix v0 ''-'' \<or> HasPrefix v0 ''+'' then tl v0 else v0) in
      case ParseDuration v of Some d \<Rightarrow> Some (ref - d)
      | None \<Rightarrow> (case parse_time True v of Some t \<Rightarrow> Some t | None \<Rightarrow> map_option (\<lambda>n. n * Second) (Atoi v)))"

definition listAlerts ::
  "rule_env \<Rightarrow> string \<Rightarrow> string \<Rightarrow> string \<Rightarrow> string \<Rightarrow> string \<Rightarrow> string \<Rightarrow> string \<Rightarrow> alert_db \<Rightarrow> alert_answer" where
  "listAlerts e state severity ru host since limit offset d =
     (let st = (if state = [] then ''active'' else if state = ''all'' then [] else state) in
      if host \<noteq> [] \<and> parseIP host = None then ErrMsg 400 ''invalid ip address''
      else if since \<noteq> [] \<and> parseTime since (now_of e) = None then ErrMsg 400 ''bad since''
      else
        (let q = \<lparr>o_state = st, o_severity = severity, o_rule = ru, o_host = (if host = [] then None else parseIP host),
                 o_since = (if since = [] then None else parseTime since (now_of e)), o_limit = qInt limit 100, o_offset = qInt offset 0\<rparr> in
         case bindE (ListAlerts e q d) (\<lambda>(items, cnt). bindE (annotateExclusions e items d) (\<lambda>rows. Inr (rows, cnt))) of
           Inl err \<Rightarrow> fail err
         | Inr (rows, cnt) \<Rightarrow> Json 200 (VAlerts rows cnt (o_limit q) (o_offset q))))"

definition alertSummary :: "'e env_scheme \<Rightarrow> alert_db \<Rightarrow> alert_answer" where
  "alertSummary e d = (case AlertSummary_of e d of Inl err \<Rightarrow> fail err | Inr s \<Rightarrow> Json 200 (VSummary s))"

definition action_state :: "string \<Rightarrow> string option" where
  "action_state a = map_of [(''ack'', ''acked''), (''resolve'', ''resolved''), (''reopen'', ''open'')] a"

text \<open>The last part of \<open>alertAction\<close>.\<close>

definition action_end :: "'e env_scheme \<Rightarrow> int \<Rightarrow> bool \<Rightarrow> alert_db \<Rightarrow> alert_answer" where
  "action_end e i ok d =
     (if \<not> ok then ErrMsg 404 ''alert not found or transition not allowed''
      else case GetAlert e i d of Inl err \<Rightarrow> fail err | Inr a \<Rightarrow> Json 200 (VAlert a))"

definition alertAction :: "'e env_scheme \<Rightarrow> string \<Rightarrow> string \<Rightarrow> alert_db \<Rightarrow> alert_answer \<times> alert_db" where
  "alertAction e idtext action d =
     (case path_id idtext of None \<Rightarrow> (ErrMsg 400 ''bad id'', d)
      | Some i \<Rightarrow>
     (case action_state action of None \<Rightarrow> (ErrMsg 400 ''action must be ack, resolve or reopen'', d)
      | Some state \<Rightarrow>
     (case SetAlertState e i state d of
        (Inl err, d1) \<Rightarrow> (fail err, d1)
      | (Inr ok, d1) \<Rightarrow>
          if \<not> ok \<and> state = ''open'' then
            (case ReopenAlert e i d1 of
               (Inl err, d2) \<Rightarrow> (fail err, d2)
             | (Inr (ok2, conflict), d2) \<Rightarrow>
                 if conflict > 0
                 then (ErrMsg 409 (''cannot reopen: alert #'' @ Itoa conflict @ '' is already open for the same finding''), d2)
                 else (action_end e i ok2 d2, d2))
          else (action_end e i ok d1, d1))))"

definition resolveAlerts :: "'e env_scheme \<Rightarrow> string \<Rightarrow> string \<Rightarrow> alert_db \<Rightarrow> alert_answer \<times> alert_db" where
  "resolveAlerts e ru host d =
     (if host \<noteq> [] \<and> parseIP host = None then (ErrMsg 400 ''invalid ip address'', d)
      else case ResolveAlerts e ru (if host = [] then None else parseIP host) d of
        (Inl err, d') \<Rightarrow> (fail err, d') | (Inr n, d') \<Rightarrow> (Json 200 (VResolved n), d'))"

definition alertSettings :: "'e env_scheme \<Rightarrow> alert_db \<Rightarrow> alert_answer" where
  "alertSettings e d = (case GetAlertRetention e d of Inl err \<Rightarrow> fail err | Inr r \<Rightarrow> Json 200 (VRetention r))"

definition setAlertSettings :: "'e env_scheme \<Rightarrow> AlertRetention option \<Rightarrow> alert_db \<Rightarrow> alert_answer \<times> alert_db" where
  "setAlertSettings e body d =
     (case body of None \<Rightarrow> (ErrMsg 400 ''invalid json body'', d)
      | Some ret \<Rightarrow>
     (case Validate ret of Inl msg \<Rightarrow> (ErrMsg 400 msg, d)
      | Inr ret' \<Rightarrow>
     (case SetAlertRetention e ret' d of
        (Inl err, d1) \<Rightarrow> (fail err, d1)
      | (Inr _, d1) \<Rightarrow>
          (case PruneResolvedAlerts e ret' d1 of
             ((_, Some err), d2) \<Rightarrow> (fail err, d2)
           | ((deleted, None), d2) \<Rightarrow> (Json 200 (VRetained ret' deleted), d2)))))"

definition deleteResolvedAlerts :: "'e env_scheme \<Rightarrow> string \<Rightarrow> string \<Rightarrow> string \<Rightarrow> alert_db \<Rightarrow> alert_answer \<times> alert_db" where
  "deleteResolvedAlerts e ru host sev d =
     (if host \<noteq> [] \<and> parseIP host = None then (ErrMsg 400 ''invalid ip address'', d)
      else if sev \<noteq> [] \<and> SeverityRank sev = 0 then (ErrMsg 400 ''invalid severity'', d)
      else case DeleteResolvedAlerts e ru (if host = [] then None else parseIP host) sev d of
        (Inl err, d') \<Rightarrow> (fail err, d') | (Inr n, d') \<Rightarrow> (Json 200 (VDeleted n), d'))"

definition deleteAlert :: "'e env_scheme \<Rightarrow> string \<Rightarrow> alert_db \<Rightarrow> alert_answer \<times> alert_db" where
  "deleteAlert e idtext d =
     (case path_id idtext of None \<Rightarrow> (ErrMsg 400 ''bad id'', d)
      | Some i \<Rightarrow>
          (case DeleteAlert e i d of
             (Inl err, d') \<Rightarrow> (fail err, d')
           | (Inr (deleted, existed), d') \<Rightarrow>
               if \<not> deleted \<and> \<not> existed then (ErrMsg 404 ''alert not found'', d')
               else if \<not> deleted
               then (ErrMsg 409 (''only resolved alerts can be deleted '' @ [CHR 0xE2, CHR 0x80, CHR 0x94] @ '' resolve it first''), d')
               else (Json 200 (VDeleted i), d')))"

section \<open>The trusted list\<close>

definition listExclusions :: "'e env_scheme \<Rightarrow> alert_db \<Rightarrow> alert_answer" where
  "listExclusions e d = (case ListExclusions e d of Inl err \<Rightarrow> fail err | Inr xs \<Rightarrow> Json 200 (VExclusions xs))"

definition addExclusion :: "'e env_scheme \<Rightarrow> (string \<times> string) option \<Rightarrow> alert_db \<Rightarrow> alert_answer \<times> alert_db" where
  "addExclusion e body d =
     (case body of None \<Rightarrow> (ErrMsg 400 ''invalid json body'', d)
      | Some (pattern, nt) \<Rightarrow>
     (case AddExclusion e pattern nt d of
        (Inl err, d1) \<Rightarrow> (case NormalizeExclusion pattern of Inl msg \<Rightarrow> (ErrMsg 400 msg, d1) | Inr _ \<Rightarrow> (fail err, d1))
      | (Inr item, d1) \<Rightarrow>
          (case ResolveExcludedAlerts e (NewExclusionSet [item]) d1 of
             (Inl err, d2) \<Rightarrow> (fail err, d2)
           | (Inr n, d2) \<Rightarrow> (Json 201 (VExclusion item n), d2))))"

definition deleteExclusion :: "'e env_scheme \<Rightarrow> string \<Rightarrow> alert_db \<Rightarrow> alert_answer \<times> alert_db" where
  "deleteExclusion e idtext d =
     (case path_id idtext of None \<Rightarrow> (ErrMsg 400 ''bad id'', d)
      | Some i \<Rightarrow>
          (case DeleteExclusion e i d of
             (Inl err, d') \<Rightarrow> (fail err, d')
           | (Inr ok, d') \<Rightarrow> if ok then (Json 200 (VDeletedExclusion i), d') else (ErrMsg 404 ''no such exclusion'', d')))"

definition matchExclusion :: "'e env_scheme \<Rightarrow> string \<Rightarrow> alert_db \<Rightarrow> alert_answer" where
  "matchExclusion e ipq d =
     (case parseIP ipq of None \<Rightarrow> ErrMsg 400 ''invalid ip address''
      | Some a \<Rightarrow>
          (let ip = AddrString a in
           case bindE (LoadExclusions e d) (\<lambda>s.
                bindE (if HasNames s then bindE (NamesForIPs e [ip] d) (\<lambda>m. Inr (m ip)) else Inr []) (\<lambda>names. Inr (Match s ip names))) of
             Inl err \<Rightarrow> fail err
           | Inr pat \<Rightarrow> Json 200 (VMatch ip pat)))"

section \<open>Rules\<close>

type_synonym 'x desk_state = "'x sight_ext Engine option \<times> 'x sight_scheme"

definition ruleErr :: "rule_error \<Rightarrow> alert_answer" where
  "ruleErr err =
     (case err of
        UnknownRule name \<Rightarrow> Json 404 (VUnknownRule name)
      | Invalid i \<Rightarrow> Json 400 (VInvalid i)
      | RuleDb m \<Rightarrow> fail m)"

definition no_engine :: alert_answer where "no_engine = ErrMsg 503 ''rules engine disabled''"

definition listRules :: "Config \<Rightarrow> 'x Engine option \<Rightarrow> alert_answer" where
  "listRules c eng = Json 200 (VRules (map_option (\<lambda>e. (RulesInterval c, Infos e)) eng))"

definition updateRule :: "rule_env \<Rightarrow> string \<Rightarrow> RuleConfig option \<Rightarrow> 'x desk_state \<Rightarrow> alert_answer \<times> 'x desk_state" where
  "updateRule env name body s =
     (case s of
        (None, w) \<Rightarrow> (no_engine, s)
      | (Some e, w) \<Rightarrow>
          (case body of None \<Rightarrow> (ErrMsg 400 ''invalid json body'', s)
           | Some rc \<Rightarrow>
               (case UpdateConfig env name rc e w of
                  (Inl err, e', w') \<Rightarrow> (ruleErr err, Some e', w')
                | (Inr _, e', w') \<Rightarrow>
                    (case find (\<lambda>i. ri_name i = name) (Infos e') of
                       Some i \<Rightarrow> (Json 200 (VRule i), Some e', w')
                     | None \<Rightarrow> (ErrMsg 404 ''rule not found'', Some e', w')))))"

definition runRule ::
  "Config \<Rightarrow> 'x sight_ext notifier option \<Rightarrow> rule_env \<Rightarrow> string \<Rightarrow> string \<Rightarrow> 'x desk_state \<Rightarrow> alert_answer \<times> 'x desk_state" where
  "runRule c n env name dry s =
     (case s of
        (None, w) \<Rightarrow> (no_engine, s)
      | (Some e, w) \<Rightarrow>
          if dry = ''1'' then
            (case Preview c env name e w of Inl err \<Rightarrow> (ruleErr err, s) | Inr fs \<Rightarrow> (Json 200 (VFindings fs), s))
          else
            (case RunRule c n env name True e w of
               (Inl err, e', w') \<Rightarrow> (ruleErr err, Some e', w')
             | (Inr raised, e', w') \<Rightarrow> (Json 200 (VRaised raised), Some e', w')))"

text \<open>\<open>decodeCustomSpec\<close>: the engine and the specification, or the answer.\<close>

definition decodeCustomSpec :: "CustomSpec option \<Rightarrow> 'x desk_state \<Rightarrow> alert_answer + CustomSpec \<times> 'x sight_ext Engine" where
  "decodeCustomSpec body s =
     (case fst s of None \<Rightarrow> Inl no_engine
      | Some e \<Rightarrow> (case body of None \<Rightarrow> Inl (ErrMsg 400 ''invalid json body'') | Some spec \<Rightarrow> Inr (spec, e)))"

definition save_reply :: "nat \<Rightarrow> ('x sight_ext, RuleInfo) engine_result \<Rightarrow> alert_answer \<times> 'x desk_state" where
  "save_reply st r =
     (case r of (Inl err, e', w') \<Rightarrow> (ruleErr err, Some e', w') | (Inr i, e', w') \<Rightarrow> (Json st (VRule i), Some e', w'))"

definition createCustomRule :: "rule_env \<Rightarrow> CustomSpec option \<Rightarrow> 'x desk_state \<Rightarrow> alert_answer \<times> 'x desk_state" where
  "createCustomRule env body s =
     (case decodeCustomSpec body s of
        Inl a \<Rightarrow> (a, s) | Inr (spec, e) \<Rightarrow> save_reply 201 (SaveCustom env spec True e (snd s)))"

definition updateCustomRule :: "rule_env \<Rightarrow> string \<Rightarrow> CustomSpec option \<Rightarrow> 'x desk_state \<Rightarrow> alert_answer \<times> 'x desk_state" where
  "updateCustomRule env name body s =
     (case decodeCustomSpec body s of
        Inl a \<Rightarrow> (a, s) | Inr (spec, e) \<Rightarrow> save_reply 200 (SaveCustom env (spec\<lparr>sp_name := name\<rparr>) False e (snd s)))"

definition deleteCustomRule :: "rule_env \<Rightarrow> string \<Rightarrow> 'x desk_state \<Rightarrow> alert_answer \<times> 'x desk_state" where
  "deleteCustomRule env name s =
     (case s of
        (None, w) \<Rightarrow> (no_engine, s)
      | (Some e, w) \<Rightarrow>
          (case DeleteCustom env name e w of
             (Inl err, e', w') \<Rightarrow> (ruleErr err, Some e', w')
           | (Inr _, e', w') \<Rightarrow> (Json 200 (VDeletedRule name), Some e', w')))"

definition previewCustomRule :: "Config \<Rightarrow> rule_env \<Rightarrow> CustomSpec option \<Rightarrow> 'x desk_state \<Rightarrow> alert_answer" where
  "previewCustomRule c env body s =
     (case decodeCustomSpec body s of
        Inl a \<Rightarrow> a
      | Inr (spec, e) \<Rightarrow> (case PreviewSpec c env spec e (snd s) of Inl err \<Rightarrow> ruleErr err | Inr fs \<Rightarrow> Json 200 (VFindings fs)))"

section \<open>Notifications\<close>

text \<open>An error of the statement is answered like an invalid severity.\<close>

definition notifySettings ::
  "Config \<Rightarrow> 'e env_scheme \<Rightarrow> string option \<Rightarrow> Dispatcher option \<Rightarrow> string option \<Rightarrow> alert_answer \<times> Dispatcher option \<times> string option" where
  "notifySettings c e body disp stored =
     (case disp of None \<Rightarrow> (ErrMsg 503 ''notifications not configured'', disp, stored)
      | Some d \<Rightarrow>
     (case body of None \<Rightarrow> (ErrMsg 400 ''invalid json body'', disp, stored)
      | Some sev \<Rightarrow>
     (case SetMinSeverity e sev d stored of
        (Inl msg, d', st) \<Rightarrow> (ErrMsg 400 msg, Some d', st)
      | (Inr (Inl m), d', st) \<Rightarrow> (ErrMsg 400 (case m of DbError s \<Rightarrow> s | Canceled \<Rightarrow> ''context canceled''), Some d', st)
      | (Inr (Inr _), d', st) \<Rightarrow> (Json 200 (VNotify (Stats_of c d')), Some d', st))))"

definition notifyTest :: "Config \<Rightarrow> 'e notify_env_scheme \<Rightarrow> Dispatcher option \<Rightarrow> alert_answer" where
  "notifyTest c e disp =
     (case disp of
        Some d \<Rightarrow> if di_channels d = [] then ErrMsg 503 ''no notification channels configured'' else Json 200 (VTested (SendTest c e d))
      | None \<Rightarrow> ErrMsg 503 ''no notification channels configured'')"

section \<open>Routing\<close>

datatype alert_call =
    KListAlerts string string string string string string string
  | KSummary
  | KResolve string string
  | KDeleteResolved string string string
  | KSettings
  | KSetSettings "AlertRetention option"
  | KDeleteAlert string
  | KAction string string
  | KRules
  | KUpdateRule string "RuleConfig option"
  | KRunRule string string
  | KCreateCustom "CustomSpec option"
  | KPreviewCustom "CustomSpec option"
  | KUpdateCustom string "CustomSpec option"
  | KDeleteCustom string
  | KExclusions
  | KMatch string
  | KAddExclusion "(string \<times> string) option"
  | KDeleteExclusion string

text \<open>The calls wrapped in \<open>adminOnly\<close>.\<close>

definition admin_call :: "alert_call \<Rightarrow> bool" where
  "admin_call k =
     (case k of
        KDeleteResolved _ _ _ \<Rightarrow> True | KSetSettings _ \<Rightarrow> True | KDeleteAlert _ \<Rightarrow> True
      | KCreateCustom _ \<Rightarrow> True | KPreviewCustom _ \<Rightarrow> True | KUpdateCustom _ _ \<Rightarrow> True | KDeleteCustom _ \<Rightarrow> True
      | KAddExclusion _ \<Rightarrow> True | KDeleteExclusion _ \<Rightarrow> True | _ \<Rightarrow> False)"

definition alert_path :: "alert_call \<Rightarrow> string" where
  "alert_path k =
     (case k of
        KListAlerts _ _ _ _ _ _ _ \<Rightarrow> ''/api/v1/alerts'' | KSummary \<Rightarrow> ''/api/v1/alerts/summary''
      | KResolve _ _ \<Rightarrow> ''/api/v1/alerts/resolve'' | KDeleteResolved _ _ _ \<Rightarrow> ''/api/v1/alerts/resolved''
      | KSettings \<Rightarrow> ''/api/v1/alerts/settings'' | KSetSettings _ \<Rightarrow> ''/api/v1/alerts/settings''
      | KDeleteAlert i \<Rightarrow> ''/api/v1/alerts/'' @ i | KAction i a \<Rightarrow> ''/api/v1/alerts/'' @ i @ ''/'' @ a
      | KRules \<Rightarrow> ''/api/v1/rules'' | KUpdateRule n _ \<Rightarrow> ''/api/v1/rules/'' @ n | KRunRule n _ \<Rightarrow> ''/api/v1/rules/'' @ n @ ''/run''
      | KCreateCustom _ \<Rightarrow> ''/api/v1/rules/custom'' | KPreviewCustom _ \<Rightarrow> ''/api/v1/rules/custom/preview''
      | KUpdateCustom n _ \<Rightarrow> ''/api/v1/rules/custom/'' @ n | KDeleteCustom n \<Rightarrow> ''/api/v1/rules/custom/'' @ n
      | KExclusions \<Rightarrow> ''/api/v1/exclusions'' | KMatch _ \<Rightarrow> ''/api/v1/exclusions/match'' | KAddExclusion _ \<Rightarrow> ''/api/v1/exclusions''
      | KDeleteExclusion i \<Rightarrow> ''/api/v1/exclusions/'' @ i)"

text \<open>A handler of the alert tables.\<close>

definition on_alerts :: "(alert_db \<Rightarrow> alert_answer \<times> alert_db) \<Rightarrow> 'x desk_state \<Rightarrow> alert_answer \<times> 'x desk_state" where
  "on_alerts h s = (case h (w_alerts (snd s)) of (a, d) \<Rightarrow> (a, fst s, (snd s)\<lparr>w_alerts := d\<rparr>))"

definition dispatch_alerts ::
  "Config \<Rightarrow> 'x sight_ext notifier option \<Rightarrow> rule_env \<Rightarrow> alert_call \<Rightarrow> 'x desk_state \<Rightarrow> alert_answer \<times> 'x desk_state" where
  "dispatch_alerts c n e k s =
     (case k of
        KListAlerts st sv ru ho si li off \<Rightarrow> (listAlerts e st sv ru ho si li off (w_alerts (snd s)), s)
      | KSummary \<Rightarrow> (alertSummary e (w_alerts (snd s)), s)
      | KResolve ru ho \<Rightarrow> on_alerts (resolveAlerts e ru ho) s
      | KDeleteResolved ru ho sv \<Rightarrow> on_alerts (deleteResolvedAlerts e ru ho sv) s
      | KSettings \<Rightarrow> (alertSettings e (w_alerts (snd s)), s)
      | KSetSettings body \<Rightarrow> on_alerts (setAlertSettings e body) s
      | KDeleteAlert i \<Rightarrow> on_alerts (deleteAlert e i) s
      | KAction i a \<Rightarrow> on_alerts (alertAction e i a) s
      | KRules \<Rightarrow> (listRules c (fst s), s)
      | KUpdateRule name body \<Rightarrow> updateRule e name body s
      | KRunRule name dry \<Rightarrow> runRule c n e name dry s
      | KCreateCustom body \<Rightarrow> createCustomRule e body s
      | KPreviewCustom body \<Rightarrow> (previewCustomRule c e body s, s)
      | KUpdateCustom name body \<Rightarrow> updateCustomRule e name body s
      | KDeleteCustom name \<Rightarrow> deleteCustomRule e name s
      | KExclusions \<Rightarrow> (listExclusions e (w_alerts (snd s)), s)
      | KMatch ip \<Rightarrow> (matchExclusion e ip (w_alerts (snd s)), s)
      | KAddExclusion body \<Rightarrow> on_alerts (addExclusion e body) s
      | KDeleteExclusion i \<Rightarrow> on_alerts (deleteExclusion e i) s)"

definition serve_alerts ::
  "'a auth_env_scheme \<Rightarrow> Config \<Rightarrow> 'x sight_ext notifier option \<Rightarrow> rule_env \<Rightarrow> request \<Rightarrow> alert_call \<Rightarrow> auth_db \<times> 'x desk_state
     \<Rightarrow> alert_answer \<times> auth_db \<times> 'x desk_state" where
  "serve_alerts ae c n e r0 k ds =
     (case ds of (d, eng, w) \<Rightarrow>
        (let r = r0\<lparr>rq_path := alert_path k\<rparr> in
         case Middleware ae c r d of
           (Reject st msg, d') \<Rightarrow> (ErrMsg st msg, d', eng, w)
         | (Pass u, d') \<Rightarrow>
             if admin_call k \<and> \<not> RequireAdmin c u then (ErrMsg 403 ''admin privileges required'', d', eng, w)
             else (case dispatch_alerts c n e k (eng, shared w) of (a, s') \<Rightarrow> (a, d', s'))))"

end
