(* ===== verification/ApiAlertsSafety.thy ===== *)
theory ApiAlertsSafety
  imports ApiAlerts BuiltinSafety Desk
begin

text \<open>
  What the handlers for alerts and rules guarantee: an account without administrator rights keeps its hands off the
  trusted list, the retention and the rows of the alert table, and an action that is answered with success has
  taken effect.
\<close>

section \<open>What a viewer leaves alone\<close>

text \<open>The trusted list and the retention stay, and no alert disappears.\<close>

definition safeguarded :: "alert_db \<Rightarrow> alert_db \<Rightarrow> bool" where
  "safeguarded d d' \<longleftrightarrow> exclusions d' = exclusions d \<and> retention d' = retention d \<and> a_id ` set (alerts d) \<subseteq> a_id ` set (alerts d')"

lemma safeguarded_refl [simp]: "safeguarded d d"
  by (simp add: safeguarded_def)

lemma safeguarded_trans: "safeguarded d d' \<Longrightarrow> safeguarded d' d'' \<Longrightarrow> safeguarded d d''"
  by (auto simp: safeguarded_def)

lemma safeguarded_map:
  assumes "\<And>a. a_id (g a) = a_id a" "alerts d' = map g (alerts d)" "exclusions d' = exclusions d" "retention d' = retention d"
  shows "safeguarded d d'"
  using assms by (simp add: safeguarded_def image_image)

lemma safeguarded_update:
  assumes "\<And>a. a_id (f a) = a_id a"
  shows "safeguarded d (snd (update_alerts P f d))"
  by (rule safeguarded_map [of "\<lambda>a. if P a then f a else a"]) (simp_all add: assms snd_update_alerts)

lemma safeguarded_write: "safeguarded d d' \<Longrightarrow> safeguarded d (db_write e k d d')"
  by (simp add: db_write_def)

lemma UpsertAlert_keeps: "exclusions (snd (UpsertAlert e f d)) = exclusions d \<and> retention (snd (UpsertAlert e f d)) = retention d"
  by (simp add: UpsertAlert_def Let_def split: option.split)

lemma safeguarded_Upsert: "safeguarded d (snd (UpsertAlert e f d))"
proof (cases rule: UpsertAlert_cases [of e f d])
  case (err m d')
  with UpsertAlert_keeps [of e f d] show ?thesis by (simp add: safeguarded_def)
next
  case (bump a d')
  then show ?thesis
    by (intro safeguarded_map [of "\<lambda>x. if live_alert x \<and> a_key x = DedupeKey f then bump_alert (now_of e) f x else x"]) simp_all
next
  case (new host peer d')
  then show ?thesis by (auto simp: safeguarded_def)
qed

lemma safeguarded_rows: "(\<And>a. a_id (g a) = a_id a) \<Longrightarrow> safeguarded d (d\<lparr>alerts := map g (alerts d)\<rparr>)"
  by (rule safeguarded_map [where g = g]) simp_all

lemma safeguarded_SetAlertState: "safeguarded d (snd (SetAlertState e i st d))"
  by (simp add: SetAlertState_def update_alerts_def set_resolved_def safeguarded_rows)

lemma safeguarded_ReopenAlert: "safeguarded d (snd (ReopenAlert e i d))"
  by (simp add: ReopenAlert_def update_alerts_def safeguarded_rows)

lemma safeguarded_ResolveAlerts: "safeguarded d (snd (ResolveAlerts e ru h d))"
  by (simp add: ResolveAlerts_def update_alerts_def set_resolved_def safeguarded_write safeguarded_rows)

lemma safeguarded_MarkNotified: "safeguarded d (snd (MarkNotified e ids d))"
  by (auto simp: MarkNotified_def intro!: safeguarded_write safeguarded_update)

lemma safeguarded_action: "safeguarded d (snd (alertAction e i a d))"
proof (cases "path_id i"; cases "action_state a")
  fix k st assume k: "path_id i = Some k" "action_state a = Some st"
  obtain r d1 where s: "SetAlertState e k st d = (r, d1)" by fastforce
  obtain r' d2 where o': "ReopenAlert e k d1 = (r', d2)" by fastforce
  have "safeguarded d d1" "safeguarded d1 d2"
    using safeguarded_SetAlertState [of d e k st] safeguarded_ReopenAlert [of d1 e k] by (simp_all add: s o')
  then show ?thesis using safeguarded_trans [of d d1 d2] by (simp add: alertAction_def k s o' split: sum.split prod.split)
qed (simp_all add: alertAction_def)

lemma safeguarded_resolve: "safeguarded d (snd (resolveAlerts e ru ho d))"
proof -
  obtain r d1 where "ResolveAlerts e ru (if ho = [] then None else parseIP ho) d = (r, d1)" by fastforce
  moreover from this have "safeguarded d d1" using safeguarded_ResolveAlerts [of d e ru "if ho = [] then None else parseIP ho"] by simp
  ultimately show ?thesis by (simp add: resolveAlerts_def split: sum.split)
qed

text \<open>A notifier that does no more than marking alerts, as the dispatcher does.\<close>

definition mild :: "'x notifier option \<Rightarrow> bool" where
  "mild n \<longleftrightarrow> (case n of None \<Rightarrow> True | Some f \<Rightarrow> \<forall>env as w. safeguarded (w_alerts w) (w_alerts (f env as w)))"

lemma safeguarded_raise: "safeguarded d (snd (raise_loop c env fs raised d))"
proof (induction fs arbitrary: raised d)
  case (Cons f fs)
  obtain r d' where u: "UpsertAlert env f d = (r, d')" by fastforce
  then have "safeguarded d d'" using safeguarded_Upsert [of d env f] by simp
  with Cons show ?case by (auto simp: u split: sum.split intro: safeguarded_trans)
qed simp

lemma safeguarded_RunRule:
  assumes "mild n"
  shows "safeguarded (w_alerts w) (w_alerts (snd (snd (RunRule c n env name force e w))))"
proof -
  have told: "safeguarded (w_alerts w) (w_alerts (notify_with n env as (w\<lparr>w_alerts := d\<rparr>)))" if "safeguarded (w_alerts w) d" for as d
  proof (cases n)
    case (Some h)
    with assms have "safeguarded (w_alerts (w\<lparr>w_alerts := d\<rparr>)) (w_alerts (h env as (w\<lparr>w_alerts := d\<rparr>)))"
      unfolding mild_def Some option.case by blast
    then have "safeguarded d (w_alerts (h env as (w\<lparr>w_alerts := d\<rparr>)))" by simp
    with that show ?thesis by (auto simp: notify_with_def Some intro: safeguarded_trans)
  qed (simp add: notify_with_def that)
  show ?thesis
  proof (cases "rule_named e name")
    case (Some r)
    define e1 where "e1 = set_state name (\<lambda>s. s\<lparr>rs_last := Some (now_of env)\<rparr>) e"
    show ?thesis
    proof (cases "evaluate c env r e1 w")
      case (Inr fs)
      obtain q d where q: "raise_loop c env fs [] (w_alerts w) = (q, d)" by fastforce
      then have "safeguarded (w_alerts w) d" using safeguarded_raise [of "w_alerts w" c env fs "[]"] by simp
      with told show ?thesis by (simp add: RunRule_def Some Let_def e1_def [symmetric] Inr q split: sum.split)
    qed (simp add: RunRule_def Some Let_def e1_def [symmetric])
  qed (simp add: RunRule_def)
qed

lemma UpdateConfig_alerts: "w_alerts (snd (snd (UpdateConfig env name rc e w))) = w_alerts w"
  by (simp add: UpdateConfig_def updateCustomConfig_def store_rule_def Let_def split: option.split sum.split prod.split)

lemma on_alerts_safe: "safeguarded (w_alerts (snd s)) (snd (h (w_alerts (snd s)))) \<Longrightarrow> safeguarded (w_alerts (snd s)) (w_alerts (snd (snd (on_alerts h s))))"
  by (cases "h (w_alerts (snd s))") (simp add: on_alerts_def)

lemma updateRule_safe: "w_alerts (snd (snd (updateRule env name body s))) = w_alerts (snd s)"
proof -
  have "w_alerts w' = w_alerts w" if "UpdateConfig env name rc e w = (r, e', w')" for rc e w r e' w'
    using UpdateConfig_alerts [of env name rc e w] by (simp add: that)
  then show ?thesis by (auto simp: updateRule_def split: prod.split option.split sum.split)
qed

lemma runRule_safe: "mild n \<Longrightarrow> safeguarded (w_alerts (snd s)) (w_alerts (snd (snd (runRule c n env name dry s))))"
proof -
  assume "mild n"
  then have "safeguarded (w_alerts w) (w_alerts w')" if "RunRule c n env name True e w = (r, e', w')" for e w r e' w'
    using safeguarded_RunRule [of n w c env name True e] by (simp add: that)
  then show ?thesis by (auto simp: runRule_def split: prod.split option.split sum.split)
qed

lemma dispatch_safe:
  assumes "mild n" "\<not> admin_call k"
  shows "safeguarded (w_alerts (snd s)) (w_alerts (snd (snd (dispatch_alerts c n e k s))))"
  using assms
  by (cases k) (simp_all add: dispatch_alerts_def admin_call_def on_alerts_safe safeguarded_action safeguarded_resolve updateRule_safe runRule_safe)

lemma shared_safe: "safeguarded (w_alerts w) (w_alerts (shared w))"
  by (simp add: shared_def with_shared_def safeguarded_def)

text \<open>The dispatcher only marks alerts.\<close>

lemma mild_notifier: "mild (engine_notifier on nc ne)"
proof -
  have "safeguarded (w_alerts w) (w_alerts (announce nc ne env as w))" for env as w
    using announce_cases [of nc ne env as w] by (auto simp: safeguarded_MarkNotified)
  then show ?thesis by (simp add: mild_def engine_notifier_def)
qed

text \<open>C30: An account without administrator rights keeps its hands off the safeguards. Whatever request of the alert and rule
  API passes the middleware for someone who is not an administrator, the trusted list and the retention stay as they
  are and no alert disappears, also when a rule is run and the dispatcher of the program, connected or not, announces
  its alerts.\<close>

theorem viewer_keeps_safeguards:
  assumes "Middleware ae c (r\<lparr>rq_path := alert_path k\<rparr>) d = (Pass u, d1)" and "\<not> RequireAdmin c u"
  shows "safeguarded (w_alerts w) (w_alerts (snd (snd (snd (serve_alerts ae c (engine_notifier on nc ne) e r k (d, eng, w))))))"
proof (cases "admin_call k")
  case True
  then show ?thesis by (simp add: serve_alerts_def Let_def assms(1,2))
next
  case False
  let ?n = "engine_notifier on nc ne"
  obtain a s' where s': "dispatch_alerts c ?n e k (eng, shared w) = (a, s')" by (cases "dispatch_alerts c ?n e k (eng, shared w)")
  have "safeguarded (w_alerts (shared w)) (w_alerts (snd s'))"
    using dispatch_safe [OF mild_notifier [of on nc ne] False, where s = "(eng, shared w)" and c = c and e = e] by (simp add: s')
  with shared_safe [of w] False show ?thesis
    by (auto simp: serve_alerts_def Let_def assms(1) s' intro: safeguarded_trans)
qed

section \<open>Actions take effect\<close>

lemma find_kept:
  "(\<And>a. a_id (g a) = a_id a) \<Longrightarrow> find (\<lambda>a. a_id a = i) (map g as) = map_option g (find (\<lambda>a. a_id a = i) as)"
  by (induction as) auto

lemma find_unique: "distinct (map a_id as) \<Longrightarrow> a \<in> set as \<Longrightarrow> find (\<lambda>x. a_id x = a_id a) as = Some a"
  by (induction as) auto

text \<open>An update of the row with a number that meets a condition, seen at that number.\<close>

lemma update_effect:
  assumes "wf_alerts d" "fst (update_alerts P f d) > 0" "\<And>a. P a \<Longrightarrow> a_id a = i" "\<And>a. a_id (f a) = a_id a"
  shows "\<exists>a. P a \<and> find (\<lambda>a. a_id a = i) (alerts (snd (update_alerts P f d))) = Some (f a)"
proof -
  from assms(2) obtain a where a: "a \<in> set (alerts d)" "P a" by (auto simp: update_alerts_def filter_empty_conv)
  have "distinct (map a_id (alerts d))" using assms(1) by (simp add: wf_alerts_def)
  from find_unique [OF this a(1)] assms(3) [OF a(2)] have "find (\<lambda>x. a_id x = i) (alerts d) = Some a" by simp
  moreover have "a_id (if P x then f x else x) = a_id x" for x using assms(4) by simp
  ultimately show ?thesis using a by (auto simp: snd_update_alerts find_kept)
qed

lemma SetAlertState_effect:
  assumes "wf_alerts d" "SetAlertState e i st d = (Inr True, d')"
  shows "\<exists>a. find (\<lambda>a. a_id a = i) (alerts d') = Some a \<and> a_state a = st"
proof -
  note up = update_effect [OF assms(1)]
  consider "st = ''acked''" | "st = ''resolved''" | "st = ''open''"
    using assms(2) by (auto simp: SetAlertState_def Let_def split: if_splits)
  then show ?thesis
  proof cases
    case 1
    with assms(2) up [of "\<lambda>a. a_id a = i \<and> a_state a \<noteq> ''resolved''" "\<lambda>a. a\<lparr>a_state := ''acked'', a_acked := Some (now_of e)\<rparr>" i]
    show ?thesis by (auto simp: SetAlertState_def split: prod.splits if_splits)
  next
    case 2
    with assms(2) up [of "\<lambda>a. a_id a = i \<and> a_state a \<noteq> ''resolved''" "set_resolved (now_of e)" i]
    show ?thesis by (auto simp: SetAlertState_def set_resolved_def split: prod.splits if_splits)
  next
    case 3
    with assms(2) up [of "\<lambda>a. a_id a = i \<and> a_state a = ''acked''" "\<lambda>a. a\<lparr>a_state := ''open'', a_acked := None\<rparr>" i]
    show ?thesis by (auto simp: SetAlertState_def split: prod.splits if_splits)
  qed
qed

lemma ReopenAlert_effect:
  assumes "wf_alerts d" "ReopenAlert e i d = (Inr (True, k), d')"
  shows "\<exists>a. find (\<lambda>a. a_id a = i) (alerts d') = Some a \<and> a_state a = ''open''"
  using assms(2) update_effect [OF assms(1), of "\<lambda>a. a_id a = i \<and> a_state a = ''resolved'' \<and> conflicting (alerts d) a = []"
      "\<lambda>a. a\<lparr>a_state := ''open'', a_acked := None, a_resolved := None, a_reopened := Some (now_of e)\<rparr>" i]
  by (auto simp: ReopenAlert_def split: prod.splits if_splits)

text \<open>An action that is answered with success has taken effect. When acknowledging, resolving or reopening an alert is answered
  with 200, the table holds the alert in the state the action asks for, and that row is what the answer shows.\<close>

theorem answered_action_took_effect:
  assumes "alertAction e idtext action d = (Json 200 (VAlert x), d')" and "wf_alerts d"
  shows "\<exists>i st a. path_id idtext = Some i \<and> action_state action = Some st \<and>
     find (\<lambda>a. a_id a = i) (alerts d') = Some a \<and> a_state a = st \<and> x = Some (with_names d' a)"
proof -
  obtain i st where i: "path_id idtext = Some i" "action_state action = Some st"
    using assms(1) by (auto simp: alertAction_def split: option.splits)
  obtain r d1 where s: "SetAlertState e i st d = (r, d1)" by fastforce
  have shown: "find (\<lambda>a. a_id a = i) (alerts d') = Some a \<Longrightarrow> action_end e i True d' = Json 200 (VAlert x) \<Longrightarrow> x = Some (with_names d' a)" for a
    by (auto simp: action_end_def GetAlert_def db_read_def split: sum.splits if_splits)
  show ?thesis
  proof (cases "r = Inr True")
    case True
    then have "d' = d1 \<and> action_end e i True d' = Json 200 (VAlert x)" using assms(1) by (auto simp: alertAction_def i s)
    with SetAlertState_effect [OF assms(2), of e i st d1] i shown s True show ?thesis by auto
  next
    case False
    have "wf_alerts d1" using wf_SetAlertState [OF assms(2), of e i st] by (simp add: s)
    obtain r2 d2 where r2: "ReopenAlert e i d1 = (r2, d2)" by fastforce
    have no: "action_end e i False x2 \<noteq> Json 200 (VAlert x)" for x2 by (simp add: action_end_def)
    have "\<exists>b. r = Inr b" using assms(1) by (cases r) (auto simp: alertAction_def i s fail_def split: dberr.splits)
    with False have r: "r = Inr False" by auto
    have st: "st = ''open''" using assms(1) no by (auto simp: alertAction_def i s r split: if_splits)
    note s = s [unfolded st] note i = i [unfolded st]
    have "\<exists>p. r2 = Inr p" using assms(1) by (cases r2) (auto simp: alertAction_def i s r st r2 fail_def split: dberr.splits)
    then obtain ok2 k where p: "r2 = Inr (ok2, k)" by fastforce
    have e2: "d2 = d'" "action_end e i ok2 d2 = Json 200 (VAlert x)" using assms(1) by (auto simp: alertAction_def i s r st r2 p split: if_splits)
    with no have "ok2" by (cases ok2) auto
    with e2 p st have "r2 = Inr (True, k)" "d2 = d'" "st = ''open''" "action_end e i True d' = Json 200 (VAlert x)" by simp_all
    then have "ReopenAlert e i d1 = (Inr (True, k), d')" "st = ''open''" "action_end e i True d' = Json 200 (VAlert x)" using r2 by simp_all
    with ReopenAlert_effect [OF \<open>wf_alerts d1\<close>] i shown show ?thesis by blast
  qed
qed

section \<open>Examples\<close>

definition one_alert :: alert_db where
  "one_alert = empty_alert_db\<lparr>alerts := [new_alert 5 1 None None demo_finding], alert_seq := 1\<rparr>"

theorem answered_action_took_effect_witness:
  "\<exists>d' a. alertAction (quiet_env 9) ''1'' ''ack'' one_alert = (Json 200 (VAlert (Some (with_names d' a))), d') \<and>
     find (\<lambda>a. a_id a = 1) (alerts d') = Some a \<and> a_state a = ''acked''"
proof -
  have i: "path_id ''1'' = Some 1" "action_state ''ack'' = Some ''acked''" by code_simp+
  have wf: "wf_alerts one_alert" by (simp add: one_alert_def wf_alerts_def one_live_def state_ok_def new_alert_def max_int32_def)
  obtain x d' where x: "alertAction (quiet_env 9) ''1'' ''ack'' one_alert = (Json 200 (VAlert x), d')"
    by (simp add: alertAction_def i SetAlertState_def update_alerts_def one_alert_def new_alert_def action_end_def GetAlert_def)
  from answered_action_took_effect [OF x wf] x show ?thesis by (auto simp: i)
qed

text \<open>A viewer resolves all alerts while a channel is down; the row stays.\<close>

definition viewer_tables :: auth_db where
  "viewer_tables = sample_db\<lparr>users := [sample_user\<lparr>IsAdmin := False\<rparr>], sessions := [sample_session]\<rparr>"

definition one_desk :: desk_world where
  "one_desk = \<lparr>w_alerts = one_alert, w_fleet = empty_agent_db, w_custom = [], w_rules = None, w_acct = [sample_flow],
     w_intel = listed_intel, w_rollup = \<lparr>host_hourly = [], host_peer_daily = []\<rparr>, w_zone = (\<lambda>_. 0),
     w_desk = \<lparr>di_channels = [Slack ''hook''], di_pending = [], di_sent = 0, di_failed = 0, di_last = None, di_last_err = [], di_min = ''info''\<rparr>\<rparr>"

definition unreachable :: "rule_env \<Rightarrow> notify_env" where
  "unreachable env = \<lparr>now_of = now_of env, fault = fault env, deliver = (\<lambda>_. Inl ''down''), zone = (\<lambda>_. 0), key_order = (\<lambda>ks. ks)\<rparr>"

theorem viewer_keeps_safeguards_witness:
  "\<exists>u d1. Middleware (sample_env 10 []) sample_config (sample_request\<lparr>rq_path := alert_path (KResolve [] [])\<rparr>) viewer_tables = (Pass u, d1) \<and>
     1 \<in> a_id ` set (alerts (w_alerts (snd (snd (snd (serve_alerts (sample_env 10 []) sample_config (engine_notifier True sample_config unreachable)
        (quiet_env 10) sample_request (KResolve [] []) (viewer_tables, None, one_desk)))))))"
proof -
  let ?r = "sample_request\<lparr>rq_path := alert_path (KResolve [] [])\<rparr>" and ?u = "sample_user\<lparr>IsAdmin := False\<rparr>"
  have client: "ClientIP sample_config ?r = None" by code_simp
  have np: "\<not> public_path (rq_path ?r)" by (simp add: alert_path_def public_path_def)
  have tok: "Token ?r = ''tok''" by (simp add: sample_request_def Token_def)
  have "session_user 10 ''tok'' viewer_tables = Some ?u"
    by (simp add: session_user_def viewer_tables_def sample_session_def sample_user_def find_user_def)
  then obtain d' where su: "SessionUser (sample_env 10 []) ''tok'' viewer_tables = (Inr (Some ?u), d')" by (simp add: SessionUser_def)
  have "enforceIPAccess (sample_env 10 []) sample_config ?r None viewer_tables = None"
    by (simp add: enforceIPAccess_def CheckIPAccess_def no_decision_def)
  with su np have M: "Middleware (sample_env 10 []) sample_config ?r viewer_tables = (Pass (Some ?u), d')"
    by (simp add: Middleware_def Let_def client tok) (simp add: sample_user_def public_path_def alert_path_def)
  have "\<not> RequireAdmin sample_config (Some ?u)" by (simp add: RequireAdmin_def)
  from viewer_keeps_safeguards [OF M this, of one_desk True sample_config unreachable "quiet_env 10" None] M
  show ?thesis by (auto simp: safeguarded_def one_desk_def one_alert_def new_alert_def)
qed

end
