(* ===== verification/KB.thy ===== *)
theory KB
  imports AgentsApi "HOL-Library.List_Lexorder"
begin

text \<open>
  The entries administrators add to the knowledge base of programs (\<open>internal/db/kb.go\<close>, migration 011) and the
  handlers that list, store, import and delete them (\<open>internal/api/agents.go\<close>). A pattern with \<open>*\<close> and \<open>?\<close> is compiled
  to an anchored regular expression by the code; here it is run directly, character by character: \<open>runes\<close> cuts a text,
  which is valid UTF-8 since it comes from a JSON body or a text column, into its characters.
\<close>

section \<open>Entries\<close>

record KBEntry =
  kb_id :: int
  kb_kind :: string
  kb_pattern :: string
  kb_title :: string
  kb_category :: string
  kb_description :: string
  kb_expected :: string
  kb_verify :: "string list"
  kb_risk :: string
  kb_note :: string
  kb_by :: string
  kb_created :: instant
  kb_updated :: instant

record kb_db =
  kb_entries :: "KBEntry list"
  kb_seq :: int

definition slashes :: "string \<Rightarrow> string" where
  "slashes s = map (\<lambda>c. if c = CHR 0x5C then CHR ''/'' else c) s"

definition validRisk :: "string \<Rightarrow> bool" where
  "validRisk r \<longleftrightarrow> r \<in> {[], ''interpreter'', ''lolbin'', ''no-network''}"

text \<open>What \<open>Normalize\<close> makes of an entry, whether it accepts it or not.\<close>

definition tidy_pattern :: "string \<Rightarrow> string \<Rightarrow> string" where
  "tidy_pattern kind p =
     (if kind = ''name'' \<or> kind = ''path'' then ToLower (slashes p) else if kind = ''hash'' then ToLower p else p)"

definition tidy :: "KBEntry \<Rightarrow> KBEntry" where
  "tidy e =
     (let kind = ToLower (TrimSpace (kb_kind e)) in
      e\<lparr>kb_kind := kind, kb_pattern := tidy_pattern kind (TrimSpace (kb_pattern e)), kb_title := TrimSpace (kb_title e),
        kb_category := ToLower (TrimSpace (kb_category e)), kb_risk := ToLower (TrimSpace (kb_risk e))\<rparr>)"

definition wild :: "char set" where "wild = {CHR ''*'', CHR ''?'', CHR ''/''}"

definition kb_error :: "KBEntry \<Rightarrow> string option" where
  "kb_error e =
     (if kb_kind e \<notin> {''name'', ''path'', ''hash''} then Some ''match_kind must be name, path or hash''
      else if kb_kind e = ''name'' \<and> Contains (kb_pattern e) ''/''
      then Some ''a name pattern must not contain a path; use match_kind \"path\"''
      else if kb_kind e = ''hash'' \<and> \<not> hexOK (kb_pattern e) 64 then Some ''hash must be a SHA-256 in hex''
      else if TrimRight wild (TrimLeft wild (kb_pattern e)) = [] then Some ''pattern is empty or matches everything''
      else if kb_title e = [] then Some ''title is required''
      else if \<not> validRisk (kb_risk e) then Some ''risk must be empty, interpreter, lolbin or no-network''
      else None)"

definition Normalize :: "KBEntry \<Rightarrow> string + KBEntry" where
  "Normalize e = (case kb_error (tidy e) of Some msg \<Rightarrow> Inl msg | None \<Rightarrow> Inr (tidy e))"

section \<open>Matching\<close>

definition continuation :: "char \<Rightarrow> bool" where
  "continuation c \<longleftrightarrow> 128 \<le> (of_char c :: nat) \<and> (of_char c :: nat) < 192"

function runes :: "string \<Rightarrow> string list" where
  "runes [] = []"
| "runes (c # s) = (c # takeWhile continuation s) # runes (dropWhile continuation s)"
  by pat_completeness auto
termination by (relation "measure length") (auto simp: le_imp_less_Suc length_dropWhile_le)

text \<open>In a regular expression a dot matches everything but the end of a line.\<close>

fun rune_glob :: "string list \<Rightarrow> string list \<Rightarrow> bool" where
  "rune_glob [] s = (s = [])"
| "rune_glob (p # ps) [] = (p = ''*'' \<and> rune_glob ps [])"
| "rune_glob (p # ps) (c # s) =
     (if p = ''*'' then rune_glob ps (c # s) \<or> (c \<noteq> [CHR 0x0A] \<and> rune_glob (p # ps) s)
      else (if p = ''?'' then c \<noteq> [CHR 0x0A] else p = c) \<and> rune_glob ps s)"

definition glob_matches :: "string \<Rightarrow> string \<Rightarrow> bool" where
  "glob_matches g s = rune_glob (runes (ToLower g)) (runes s)"

text \<open>\<open>path.Base\<close>\<close>

definition path_Base :: "string \<Rightarrow> string" where
  "path_Base p =
     (if p = [] then ''.''
      else let b = rev (takeWhile (\<lambda>c. c \<noteq> CHR ''/'') (rev (TrimRight {CHR ''/''} p))) in if b = [] then ''/'' else b)"

definition Matches :: "KBEntry \<Rightarrow> string \<Rightarrow> string \<Rightarrow> string list \<Rightarrow> bool" where
  "Matches e name exe hashes =
     (if kb_kind e = ''hash'' then list_ex (\<lambda>h. EqualFold h (kb_pattern e)) hashes
      else if kb_kind e = ''path'' then exe \<noteq> [] \<and> glob_matches (kb_pattern e) (ToLower (slashes exe))
      else
        (let n = ToLower (TrimSpace name); base = ToLower (path_Base (slashes exe)) in
         list_ex (\<lambda>c. c \<noteq> [] \<and> c \<noteq> ''.'' \<and> glob_matches (kb_pattern e) c)
           [n, TrimSuffix n ''.exe'', base, TrimSuffix base ''.exe'']))"

fun first_kind :: "string list \<Rightarrow> KBEntry list \<Rightarrow> string \<Rightarrow> string \<Rightarrow> string list \<Rightarrow> KBEntry option" where
  "first_kind [] es name exe hashes = None"
| "first_kind (k # ks) es name exe hashes =
     (case find (\<lambda>e. kb_kind e = k \<and> Matches e name exe hashes) es of
        Some e \<Rightarrow> Some e | None \<Rightarrow> first_kind ks es name exe hashes)"

definition MatchKB :: "KBEntry list \<Rightarrow> string \<Rightarrow> string \<Rightarrow> string list \<Rightarrow> KBEntry option" where
  "MatchKB es name exe hashes = first_kind [''hash'', ''path'', ''name''] es name exe hashes"

section \<open>The table\<close>

definition kb_key :: "KBEntry \<Rightarrow> string \<times> string" where
  "kb_key e = (kb_kind e, kb_pattern e)"

definition ListKB :: "'e env_scheme \<Rightarrow> 'x kb_db_scheme \<Rightarrow> KBEntry list dbres" where
  "ListKB env d = db_read env [''ListKB''] (sort_key kb_kind (sort_key kb_pattern (kb_entries d)))"

definition replace_entry :: "instant \<Rightarrow> KBEntry \<Rightarrow> KBEntry \<Rightarrow> KBEntry" where
  "replace_entry t e r =
     r\<lparr>kb_title := kb_title e, kb_category := kb_category e, kb_description := kb_description e, kb_expected := kb_expected e,
       kb_verify := kb_verify e, kb_risk := kb_risk e, kb_note := kb_note e, kb_updated := t\<rparr>"

text \<open>The statement draws a number from the sequence whether it inserts or replaces.\<close>

definition UpsertKB :: "'e env_scheme \<Rightarrow> KBEntry \<Rightarrow> string \<Rightarrow> 'x kb_db_scheme \<Rightarrow> KBEntry dbres \<times> 'x kb_db_scheme" where
  "UpsertKB env e0 by_whom d =
     (case Normalize e0 of Inl msg \<Rightarrow> (Inl (DbError msg), d)
      | Inr e \<Rightarrow>
          (let t = now_of env;
               new = e\<lparr>kb_id := kb_seq d + 1, kb_by := by_whom, kb_created := t, kb_updated := t\<rparr>;
               row = (case find (\<lambda>r. kb_key r = kb_key e) (kb_entries d) of None \<Rightarrow> new | Some r \<Rightarrow> replace_entry t e r);
               stmt = [''UpsertKB'', kb_kind e, kb_pattern e]
           in (db_read env stmt row,
               db_write env stmt d
                 (d\<lparr>kb_entries := upsert_by kb_key (kb_key e) (replace_entry t e) new (kb_entries d), kb_seq := kb_seq d + 1\<rparr>))))"

definition DeleteKB :: "'e env_scheme \<Rightarrow> int \<Rightarrow> 'x kb_db_scheme \<Rightarrow> bool dbres \<times> 'x kb_db_scheme" where
  "DeleteKB env i d =
     (db_read env [''DeleteKB''] (list_ex (\<lambda>e. kb_id e = i) (kb_entries d)),
      db_write env [''DeleteKB''] d (d\<lparr>kb_entries := filter (\<lambda>e. kb_id e \<noteq> i) (kb_entries d)\<rparr>))"

section \<open>Handlers\<close>

text \<open>\<open>encoding/json\<close> is a parameter: the first value of a body, for one entry and for an array of them, and the
  text that an array is written as. \<open>MaxBytesReader\<close> lets the decoder see only the head of a body.\<close>

record kb_codec =
  dec_one :: "string \<Rightarrow> KBEntry option"
  dec_all :: "string \<Rightarrow> KBEntry list option"
  enc_all :: "KBEntry list \<Rightarrow> string"

definition kb_body_limit :: nat where "kb_body_limit = 64 * 2 ^ 10"
definition kb_import_limit :: nat where "kb_import_limit = 4 * 2 ^ 20"

text \<open>A skipped entry is reported with its kind, its pattern and the reason.\<close>

datatype kb_value =
    VKBItems "KBEntry list"
  | VKBExport "KBEntry list"
  | VKBEntry KBEntry
  | VKBImport nat "(string \<times> string \<times> string) list"
  | VKBDeleted int

definition listKB :: "'e env_scheme \<Rightarrow> string \<Rightarrow> 'x kb_db_scheme \<Rightarrow> kb_value reply" where
  "listKB env export d =
     (case ListKB env d of
        Inl err \<Rightarrow> fail err
      | Inr items \<Rightarrow> Json 200 (if export = ''1'' then VKBExport items else VKBItems items))"

definition author :: "User option \<Rightarrow> string" where
  "author u = (case u of None \<Rightarrow> [] | Some x \<Rightarrow> Username x)"

definition upsertKB :: "kb_codec \<Rightarrow> 'e env_scheme \<Rightarrow> User option \<Rightarrow> string \<Rightarrow> 'x kb_db_scheme \<Rightarrow> kb_value reply \<times> 'x kb_db_scheme" where
  "upsertKB j env u body d =
     (case dec_one j (take kb_body_limit body) of None \<Rightarrow> (ErrMsg 400 ''invalid json body'', d)
      | Some e \<Rightarrow>
     (case Normalize e of Inl msg \<Rightarrow> (ErrMsg 400 msg, d)
      | Inr e' \<Rightarrow>
     (case UpsertKB env e' (author u) d of
        (Inl err, d') \<Rightarrow> (fail err, d')
      | (Inr out, d') \<Rightarrow> (Json 200 (VKBEntry out), d'))))"

fun import_loop ::
  "'e env_scheme \<Rightarrow> string \<Rightarrow> KBEntry list \<Rightarrow> nat \<Rightarrow> (string \<times> string \<times> string) list \<Rightarrow> 'x kb_db_scheme
     \<Rightarrow> kb_value reply \<times> 'x kb_db_scheme" where
  "import_loop env by_whom [] n skipped d = (Json 200 (VKBImport n skipped), d)"
| "import_loop env by_whom (e # es) n skipped d =
     (case Normalize e of
        Inl msg \<Rightarrow> import_loop env by_whom es n (skipped @ [(kb_kind (tidy e), kb_pattern (tidy e), msg)]) d
      | Inr e' \<Rightarrow>
          (case UpsertKB env e' by_whom d of
             (Inl err, d') \<Rightarrow> (fail err, d')
           | (Inr _, d') \<Rightarrow> import_loop env by_whom es (Suc n) skipped d'))"

definition importKB :: "kb_codec \<Rightarrow> 'e env_scheme \<Rightarrow> User option \<Rightarrow> string \<Rightarrow> 'x kb_db_scheme \<Rightarrow> kb_value reply \<times> 'x kb_db_scheme" where
  "importKB j env u body d =
     (case dec_all j (take kb_import_limit body) of None \<Rightarrow> (ErrMsg 400 ''invalid json body: expected an array of entries'', d)
      | Some es \<Rightarrow> import_loop env (author u) es 0 [] d)"

definition deleteKB :: "'e env_scheme \<Rightarrow> string \<Rightarrow> 'x kb_db_scheme \<Rightarrow> kb_value reply \<times> 'x kb_db_scheme" where
  "deleteKB env idtext d =
     (case Atoi idtext of None \<Rightarrow> (ErrMsg 400 ''bad id'', d)
      | Some i \<Rightarrow>
          (case DeleteKB env i d of
             (Inl err, d') \<Rightarrow> (fail err, d')
           | (Inr ok, d') \<Rightarrow> if ok then (Json 200 (VKBDeleted i), d') else (ErrMsg 404 ''no such entry'', d')))"

text \<open>\<open>writeJSON\<close> ends a value with a line feed: the file that an export saves.\<close>

definition export_file :: "kb_codec \<Rightarrow> KBEntry list \<Rightarrow> string" where
  "export_file j items = enc_all j items @ [CHR 0x0A]"

text \<open>The calls of an administrator.\<close>

datatype kb_call = KBList string | KBPut string | KBImport string | KBDelete string

definition kb_step :: "kb_codec \<Rightarrow> 'x kb_db_scheme \<Rightarrow> env \<times> User option \<times> kb_call \<Rightarrow> 'x kb_db_scheme" where
  "kb_step j d x =
     (case x of (env, u, k) \<Rightarrow>
        (case k of KBList _ \<Rightarrow> d | KBPut b \<Rightarrow> snd (upsertKB j env u b d) | KBImport b \<Rightarrow> snd (importKB j env u b d)
         | KBDelete i \<Rightarrow> snd (deleteKB env i d)))"

end
