(* ===== verification/KBSafety.thy ===== *)
theory KBSafety
  imports KB "HOL-Library.Multiset"
begin

text \<open>
  Properties of the administrators' knowledge base: the table only ever holds normalised entries with distinct patterns,
  what is exported can be imported again, and the entry that is chosen for a program is a most specific one.
\<close>

section \<open>Normalising twice\<close>

lemma TrimSpace_map:
  assumes "\<And>c. is_space (f c) = is_space c"
  shows "TrimSpace (map f s) = map f (TrimSpace s)"
  by (simp add: TrimSpace_def dropWhile_map comp_def assms rev_map)

lemma is_space_code: "is_space c \<longleftrightarrow> (of_char c :: nat) \<in> {9, 10, 11, 12, 13, 32}"
  by (simp add: is_space_def flip: of_char_eq_iff [where 'a = nat])

lemma lower_char_code:
  "(of_char (lower_char c) :: nat) = (if 65 \<le> (of_char c :: nat) \<and> (of_char c :: nat) \<le> 90 then of_char c + 32 else of_char c)"
  by (simp add: lower_char_def Let_def)

lemma is_space_lower [simp]: "is_space (lower_char c) = is_space c"
  by (auto simp: is_space_code lower_char_code)

lemma TrimSpace_ToLower [simp]: "TrimSpace (ToLower s) = ToLower (TrimSpace s)"
  by (simp add: ToLower_def TrimSpace_map)

lemma TrimSpace_slashes [simp]: "TrimSpace (slashes s) = slashes (TrimSpace s)"
  unfolding slashes_def by (rule TrimSpace_map) (auto simp: is_space_def)

lemma lower_backslash: "lower_char c = CHR 0x5C \<longleftrightarrow> c = CHR 0x5C"
  by (auto simp: lower_char_code simp flip: of_char_eq_iff [where 'a = nat] split: if_splits)

lemma slashes_tidied [simp]: "slashes (ToLower (slashes s)) = ToLower (slashes s)"
  by (auto simp: slashes_def ToLower_def lower_backslash)

lemma tidy_idem [simp]: "tidy (tidy e) = tidy e"
  by (simp add: tidy_def tidy_pattern_def Let_def)

lemma Normalize_Inr: "Normalize e = Inr e' \<Longrightarrow> e' = tidy e \<and> Normalize e' = Inr e'"
  by (auto simp: Normalize_def split: option.splits)

lemma Normalize_meta: "Normalize e = Inr e \<Longrightarrow> Normalize (e\<lparr>kb_id := i, kb_by := b, kb_created := t, kb_updated := u\<rparr>) =
   Inr (e\<lparr>kb_id := i, kb_by := b, kb_created := t, kb_updated := u\<rparr>)"
proof -
  assume n: "Normalize e = Inr e"
  then have t: "tidy e = e" "kb_error e = None" by (auto simp: Normalize_def split: option.splits)
  let ?f = "\<lambda>e. e\<lparr>kb_id := i, kb_by := b, kb_created := t, kb_updated := u\<rparr>"
  have "tidy (?f e) = ?f (tidy e)" "kb_error (?f e) = kb_error e" by (simp_all add: tidy_def kb_error_def Let_def)
  with t show ?thesis by (simp add: Normalize_def)
qed

section \<open>The table\<close>

text \<open>An entry without what the table adds to it.\<close>

definition contents :: "KBEntry \<Rightarrow> KBEntry" where
  "contents e = e\<lparr>kb_id := 0, kb_by := [], kb_created := 0, kb_updated := 0\<rparr>"

definition wf_kb :: "kb_db \<Rightarrow> bool" where
  "wf_kb d \<longleftrightarrow> distinct (map kb_key (kb_entries d)) \<and> (\<forall>e \<in> set (kb_entries d). Normalize e = Inr e)"

definition empty_kb :: kb_db where "empty_kb = \<lparr>kb_entries = [], kb_seq = 0\<rparr>"

lemma kb_key_meta [simp]:
  "kb_key (e\<lparr>kb_id := i, kb_by := b, kb_created := t, kb_updated := u\<rparr>) = kb_key e"
  "kb_key (replace_entry t e r) = kb_key r"
  by (simp_all add: kb_key_def replace_entry_def)

lemma replaced_normal:
  assumes "Normalize e = Inr e" "kb_key r = kb_key e"
  shows "Normalize (replace_entry t e r) = Inr (replace_entry t e r)"
proof -
  have "replace_entry t e r = e\<lparr>kb_id := kb_id r, kb_by := kb_by r, kb_created := kb_created r, kb_updated := t\<rparr>"
    using assms(2) by (simp add: replace_entry_def kb_key_def)
  with Normalize_meta [OF assms(1)] show ?thesis by simp
qed

lemma wf_UpsertKB: "wf_kb d \<Longrightarrow> wf_kb (snd (UpsertKB env e0 b d))"
proof (cases "Normalize e0")
  case (Inr e)
  assume wf: "wf_kb d"
  note n = Normalize_Inr [OF Inr, THEN conjunct2]
  let ?new = "e\<lparr>kb_id := kb_seq d + 1, kb_by := b, kb_created := now_of env, kb_updated := now_of env\<rparr>"
  let ?rows = "upsert_by kb_key (kb_key e) (replace_entry (now_of env) e) ?new (kb_entries d)"
  have "distinct (map kb_key ?rows)" using wf by (intro upsert_by_distinct) (simp_all add: wf_kb_def)
  moreover have "Normalize r = Inr r" if "r \<in> set ?rows" for r
    using that wf replaced_normal [OF n] Normalize_meta [OF n] by (auto simp: upsert_by_mem wf_kb_def)
  ultimately show ?thesis using wf by (simp add: UpsertKB_def Inr Let_def wf_kb_def db_write_def)
qed (simp add: UpsertKB_def)

lemma wf_DeleteKB: "wf_kb d \<Longrightarrow> wf_kb (snd (DeleteKB env i d))"
  by (auto simp: DeleteKB_def wf_kb_def db_write_def distinct_map_filter)

lemma wf_import_loop: "wf_kb d \<Longrightarrow> wf_kb (snd (import_loop env b es n sk d))"
proof (induction env b es n sk d rule: import_loop.induct)
  case (2 env b e es n sk d)
  show ?case
  proof (cases "Normalize e")
    case (Inr e')
    obtain r d' where u: "UpsertKB env e' b d = (r, d')" by (cases "UpsertKB env e' b d")
    with wf_UpsertKB [OF 2(3), of env e' b] have "wf_kb d'" by simp
    with 2(2) [OF Inr u [symmetric]] show ?thesis by (cases r) (simp_all add: Inr u)
  qed (use 2 in simp)
qed simp

lemma wf_kb_step: "wf_kb d \<Longrightarrow> wf_kb (kb_step j d x)"
proof -
  assume wf: "wf_kb d"
  obtain env u k where x: "x = (env, u, k)" by (cases x)
  have put: "wf_kb (snd (upsertKB j env u b d))" for b
    using wf wf_UpsertKB [OF wf, of env _ "author u"] by (auto simp: upsertKB_def split: option.splits sum.splits prod.splits dest: sym)
       (metis snd_conv)+
  have del: "wf_kb (snd (deleteKB env i d))" for i
    using wf wf_DeleteKB [OF wf, of env] by (auto simp: deleteKB_def split: option.splits sum.splits prod.splits) (metis snd_conv)+
  show ?thesis using wf put del by (cases k) (auto simp: x kb_step_def importKB_def wf_import_loop split: option.splits)
qed

interpretation kb: machine "kb_step j" wf_kb for j
  by unfold_locales (rule wf_kb_step)

lemma wf_kb_run: "wf_kb (foldl (kb_step j) empty_kb calls)"
  by (rule kb.run_inv) (simp add: wf_kb_def empty_kb_def)

section \<open>Export and import\<close>

lemma contents_key: "contents a = contents b \<Longrightarrow> kb_key a = kb_key b"
  unfolding contents_def kb_key_def by (cases a; cases b) simp

lemma contents_meta [simp]: "contents (e\<lparr>kb_id := i, kb_by := b, kb_created := t, kb_updated := u\<rparr>) = contents e"
  by (simp add: contents_def)

lemma import_fresh:
  assumes "\<And>s. \<not> fault env s" "\<forall>e \<in> set es. Normalize e = Inr e" "distinct (map kb_key es)" "set (map kb_key es) \<inter> kb_key ` set (kb_entries d) = {}"
  shows "\<exists>d'. import_loop env b es n sk d = (Json 200 (VKBImport (n + length es) sk), d') \<and>
     map contents (kb_entries d') = map contents (kb_entries d) @ map contents es"
  using assms(2-)
proof (induction es arbitrary: n d)
  case (Cons e es)
  let ?new = "e\<lparr>kb_id := kb_seq d + 1, kb_by := b, kb_created := now_of env, kb_updated := now_of env\<rparr>"
  have "\<forall>r \<in> set (kb_entries d). kb_key r \<noteq> kb_key e"
    using Cons.prems(3) imageI [of _ "set (kb_entries d)" kb_key] by fastforce
  then have new: "\<not> list_ex (\<lambda>r. kb_key r = kb_key e) (kb_entries d)" "find (\<lambda>r. kb_key r = kb_key e) (kb_entries d) = None"
    by (auto simp: list_ex_iff find_None_iff)
  let ?d = "d\<lparr>kb_entries := kb_entries d @ [?new], kb_seq := kb_seq d + 1\<rparr>"
  have up: "UpsertKB env e b d = (Inr ?new, ?d)"
    using Cons.prems(1) assms(1) new by (simp add: UpsertKB_def Let_def db_read_def db_write_def upsert_by_def)
  have "\<exists>d'. import_loop env b es (Suc n) sk ?d = (Json 200 (VKBImport (Suc n + length es) sk), d') \<and>
      map contents (kb_entries d') = map contents (kb_entries ?d) @ map contents es"
    by (rule Cons.IH) (use Cons.prems in auto)
  with Cons.prems(1) up show ?case by auto
qed simp

text \<open>Sorting again what is sorted by two keys changes nothing.\<close>

lemma sort_twice_idem:
  fixes f g :: "'a \<Rightarrow> 'k :: linorder"
  defines "z \<equiv> \<lambda>xs. sort_key f (sort_key g xs)"
  shows "z (z xs) = z xs"
proof -
  have "sort_key f (sort_key g (z xs)) = z xs"
  proof (rule properties_for_sort_key)
    fix k
    have "filter (\<lambda>x. f k = f x) (z xs) = sort_key g (filter (\<lambda>x. f k = f x) xs)"
      using sort_key_stable [of f "f k" "sort_key g xs"] by (simp add: z_def eq_commute filter_sort)
    then show "filter (\<lambda>x. f k = f x) (z xs) = filter (\<lambda>x. f k = f x) (sort_key g (z xs))"
      by (simp add: filter_sort sort_key_id_if_sorted)
  qed (simp_all add: z_def)
  then show ?thesis by (simp add: z_def)
qed

lemma map_contents_sort: "(\<And>a. f (contents a) = f a) \<Longrightarrow> map contents (sort_key f xs) = sort_key f (map contents xs)"
proof (induction xs)
  case (Cons x xs)
  have "map contents (insort_key f x ys) = insort_key f (contents x) (map contents ys)" for ys
    by (induction ys) (simp_all add: Cons.prems)
  with Cons show ?case by simp
qed simp

lemma contents_kind [simp]: "kb_kind (contents e) = kb_kind e" "kb_pattern (contents e) = kb_pattern e"
  by (simp_all add: contents_def)

text \<open>What is documented of \<open>encoding/json\<close>: an array that it has written is read back as it was, from the byte on
  that closes it and from none before.\<close>

definition reads_back :: "kb_codec \<Rightarrow> KBEntry list \<Rightarrow> bool" where
  "reads_back j items \<longleftrightarrow>
     (\<forall>n. dec_all j (take n (export_file j items)) = (if length (enc_all j items) \<le> n then Some items else None))"

text \<open>C38: What is exported can be imported while it is at most four megabytes long. After any calls of the
  administrators, the exported file is accepted entry by entry by an installation with an empty knowledge base:
  nothing is skipped, and that installation exports the same entries in the same order, but for their numbers,
  authors and dates. A longer file, which entries of 64 kilobytes each reach, is refused as invalid, and nothing of
  it is stored.\<close>

theorem kb_export_round_trip:
  assumes "listKB env ''1'' (foldl (kb_step j) empty_kb calls) = Json 200 (VKBExport items)"
    and "reads_back j items" and "\<And>s. \<not> fault env2 s"
  shows "if length (enc_all j items) \<le> 4194304 then
      \<exists>d items2. importKB j env2 u (export_file j items) empty_kb = (Json 200 (VKBImport (length items) []), d) \<and>
        listKB env2 ''1'' d = Json 200 (VKBExport items2) \<and> map contents items2 = map contents items
    else \<exists>msg. importKB j env2 u (export_file j items) empty_kb = (ErrMsg 400 msg, empty_kb)"
proof (cases "length (enc_all j items) \<le> 4194304")
  case True
  let ?d = "foldl (kb_step j) empty_kb calls"
  have items: "items = sort_key kb_kind (sort_key kb_pattern (kb_entries ?d))"
    using assms(1) by (simp add: listKB_def ListKB_def db_read_def split: if_splits)
  have wf: "\<forall>e \<in> set items. Normalize e = Inr e" "distinct (map kb_key items)"
    using wf_kb_run [of j calls] by (simp_all add: items wf_kb_def distinct_map)
  from import_fresh [OF assms(3) wf, of empty_kb "author u" 0 "[]"] obtain d where
    d: "import_loop env2 (author u) items 0 [] empty_kb = (Json 200 (VKBImport (length items) []), d)"
       "map contents (kb_entries d) = map contents items"
    by (auto simp: empty_kb_def)
  let ?z = "sort_key kb_kind (sort_key kb_pattern (kb_entries d))"
  have "map contents ?z = sort_key kb_kind (sort_key kb_pattern (map contents items))" by (simp add: map_contents_sort d(2))
  also have "\<dots> = map contents items"
    using sort_twice_idem [of kb_kind kb_pattern "map contents (kb_entries ?d)"] by (simp add: items map_contents_sort)
  finally have z: "map contents ?z = map contents items" .
  have "dec_all j (take kb_import_limit (export_file j items)) = Some items"
    using assms(2) True by (simp add: reads_back_def kb_import_limit_def)
  with z d(1) assms(3) True show ?thesis
    by (simp add: importKB_def listKB_def ListKB_def db_read_def)
next
  case False
  then have "dec_all j (take kb_import_limit (export_file j items)) = None"
    using assms(2) by (simp add: reads_back_def kb_import_limit_def)
  with False show ?thesis by (simp add: importKB_def)
qed

section \<open>The chosen entry\<close>

definition specificity :: "KBEntry \<Rightarrow> nat" where
  "specificity e = (if kb_kind e = ''hash'' then 2 else if kb_kind e = ''path'' then 1 else 0)"

text \<open>A program gets a most specific entry that applies to it, and an entry whenever one applies: a hash goes before a
  path, a path before a name.\<close>

theorem kb_match_is_most_specific:
  assumes "listKB env export (foldl (kb_step j) empty_kb calls) = Json 200 (VKBItems items)"
  shows "case MatchKB items name exe hashes of
      None \<Rightarrow> \<forall>e \<in> set items. \<not> Matches e name exe hashes
    | Some e \<Rightarrow> e \<in> set items \<and> Matches e name exe hashes \<and>
        (\<forall>e2 \<in> set items. Matches e2 name exe hashes \<longrightarrow> specificity e2 \<le> specificity e)"
proof -
  have kinds: "kb_kind e \<in> {''name'', ''path'', ''hash''}" if "e \<in> set items" for e
  proof -
    have "e \<in> set (kb_entries (foldl (kb_step j) empty_kb calls))"
      using that assms by (auto simp: listKB_def ListKB_def db_read_def split: if_splits)
    then have "Normalize e = Inr e" using wf_kb_run [of j calls] by (simp add: wf_kb_def)
    then show ?thesis by (auto simp: Normalize_def kb_error_def split: option.splits if_splits)
  qed
  have some: "find P items = Some e \<Longrightarrow> e \<in> set items \<and> P e" for P e by (auto simp: find_Some_iff)
  show ?thesis
  proof (cases "MatchKB items name exe hashes")
    case None
    then show ?thesis using kinds by (auto simp: MatchKB_def find_None_iff split: option.splits)
  next
    case (Some e)
    then show ?thesis by (auto simp: MatchKB_def specificity_def find_None_iff split: option.splits dest!: some)
  qed
qed

section \<open>Examples\<close>

definition sample_entry :: KBEntry where
  "sample_entry = \<lparr>kb_id = 0, kb_kind = '' Name'', kb_pattern = ''Sync*'', kb_title = ''Sync tool '', kb_category = ''Sync'', kb_description = [],
     kb_expected = [], kb_verify = [], kb_risk = [], kb_note = [], kb_by = [], kb_created = 0, kb_updated = 0\<rparr>"

definition stored_entry :: KBEntry where
  "stored_entry = \<lparr>kb_id = 1, kb_kind = ''name'', kb_pattern = ''sync*'', kb_title = ''Sync tool'', kb_category = ''sync'', kb_description = [],
     kb_expected = [], kb_verify = [], kb_risk = [], kb_note = [], kb_by = [], kb_created = 7, kb_updated = 7\<rparr>"

text \<open>A codec that knows one entry and the array of its stored form.\<close>

definition sample_codec :: kb_codec where
  "sample_codec = \<lparr>dec_one = (\<lambda>s. if s = ''x'' then Some sample_entry else None),
     dec_all = (\<lambda>s. if take 3 s = ''[x]'' then Some [stored_entry] else None), enc_all = (\<lambda>_. ''[x]'')\<rparr>"

lemma sample_table: "kb_step sample_codec empty_kb (ok_env 7, None, KBPut ''x'') = \<lparr>kb_entries = [stored_entry], kb_seq = 1\<rparr>"
proof -
  have d: "dec_one sample_codec (take kb_body_limit ''x'') = Some sample_entry"
    by (simp add: sample_codec_def kb_body_limit_def)
  have "Normalize sample_entry = Inr (stored_entry\<lparr>kb_id := 0, kb_created := 0, kb_updated := 0\<rparr>)"
    "Normalize (stored_entry\<lparr>kb_id := 0, kb_created := 0, kb_updated := 0\<rparr>) =
      Inr (stored_entry\<lparr>kb_id := 0, kb_created := 0, kb_updated := 0\<rparr>)"
    by code_simp+
  with d show ?thesis
    by (simp add: kb_step_def upsertKB_def UpsertKB_def Let_def db_read_def db_write_def upsert_by_def empty_kb_def
        author_def stored_entry_def)
qed

lemma sample_reads_back: "reads_back sample_codec [stored_entry]"
proof -
  have "take 3 (take n (''[x]'' @ [CHR 0x0A])) = ''[x]'' \<longleftrightarrow> 3 \<le> n" for n
    by (cases "3 \<le> n") (auto simp: min_def dest: arg_cong [of _ _ length])
  then show ?thesis by (simp add: reads_back_def export_file_def sample_codec_def)
qed

theorem kb_export_round_trip_witness:
  "\<exists>d items2. importKB sample_codec (ok_env 9) None (''[x]'' @ [CHR 0x0A]) empty_kb = (Json 200 (VKBImport 1 []), d) \<and>
     listKB (ok_env 9) ''1'' d = Json 200 (VKBExport items2) \<and> map contents items2 = [contents stored_entry]"
proof -
  have l: "listKB (ok_env 7) ''1'' (foldl (kb_step sample_codec) empty_kb [(ok_env 7, None, KBPut ''x'')]) =
      Json 200 (VKBExport [stored_entry])"
    by (simp add: sample_table listKB_def ListKB_def db_read_def)
  have f: "export_file sample_codec [stored_entry] = ''[x]'' @ [CHR 0x0A]" "length (enc_all sample_codec [stored_entry]) \<le> 4194304"
    by (simp_all add: export_file_def sample_codec_def)
  show ?thesis
    using kb_export_round_trip [OF l sample_reads_back, of "ok_env 9" None] f by simp
qed

theorem kb_match_is_most_specific_witness:
  "MatchKB [stored_entry] ''SyncTool'' ''/opt/x'' [] = Some stored_entry \<and>
   Matches stored_entry ''SyncTool'' ''/opt/x'' []"
proof -
  have m: "MatchKB [stored_entry] ''SyncTool'' ''/opt/x'' [] = Some stored_entry" by code_simp
  show ?thesis
    using kb_match_is_most_specific [of "ok_env 7" "[]" sample_codec "[(ok_env 7, None, KBPut ''x'')]" "[stored_entry]" "''SyncTool''" "''/opt/x''" "[]"]
    by (simp add: sample_table listKB_def ListKB_def db_read_def m)
qed

end
