(* ===== verification/Known.thy ===== *)
theory Known
  imports KB
begin

text \<open>
  What the analyzer knows of itself about programs and networks: the built-in knowledge base and its lookup
  (\<open>internal/explain/known.go\<close>) and the classification of a network by the names of its owner
  (\<open>internal/explain/infra.go\<close>). The lists are those of the source, in its order.
\<close>

section \<open>Programs\<close>

record Known =
  kn_title :: string
  kn_category :: string
  kn_description :: string
  kn_expected :: string
  kn_verify :: "string list"
  kn_risk :: string

abbreviation em :: string where "em \<equiv> [CHR 0xE2, CHR 0x80, CHR 0x94]"

definition known :: "string \<Rightarrow> string \<Rightarrow> string \<Rightarrow> string \<Rightarrow> string list \<Rightarrow> string \<Rightarrow> Known" where
  "known title cat descr expect verify risk =
     \<lparr>kn_title = title, kn_category = cat, kn_description = descr, kn_expected = expect, kn_verify = verify, kn_risk = risk\<rparr>"

definition kb :: "(string list \<times> Known) list" where
  "kb =
   [
    ([''chrome'', ''chromium'', ''chromium-browser'', ''google chrome'', ''brave'', ''brave-browser'', ''firefox'', ''firefox-bin'',
      ''msedge'', ''microsoft edge'', ''opera'', ''vivaldi'', ''safari'', ''librewolf''],
     known ''Web browser'' ''browser''
       (''Destinations reflect what the user browses plus the browser's own services (sync, safe-browsing, updates, '' @
         ''telemetry).'')
       (''CDNs (Cloudflare, Fastly, Akamai), Google/Microsoft/Mozilla services, ad and analytics networks, any site the '' @
         ''user visits.'')
       [] []),
    ([''pasta'', ''pasta.avx2'', ''passt'', ''passt.avx2'', ''slirp4netns'', ''rootlessport''],
     known ''User-mode network stack for rootless containers (passt/pasta)'' ''container-networking''
       (''pasta ships with passt and is the default network stack for rootless Podman since 5.0 (it replaced '' @
         ''slirp4netns). When a rootless container makes an outbound connection, pasta is the process that opens the '' @
         ''socket on the host, so the connection appears to come from pasta rather than from the process inside the '' @
         ''container. The .avx2 suffix is just the build optimised for CPUs with AVX2.'')
       (''Whatever the containers behind it do: image pulls (registries behind Cloudflare/Fastly), package updates, '' @
         ''application traffic. The container column names the container when the agent could match the destination '' @
         ''against the container's own socket table.'')
       [''podman ps --all'', (''systemctl --user list-units 'podman*'' @ [CHR 0x27]), ''podman exec <container> ss -tn''] []),
    ([''podman'', ''docker'', ''dockerd'', ''containerd'', ''conmon'', ''crun'', ''runc'', ''buildah'', ''skopeo''],
     known ''Container runtime / tooling'' ''container-runtime''
       (''Pulls images and talks to registries; the containers' own traffic shows under their processes or the '' @
         ''pasta/slirp proxy.'')
       ''docker.io / registry-1.docker.io (Cloudflare), quay.io, ghcr.io (Fastly/GitHub), gcr.io, mirrors.''
       [] []),
    ([''systemd-resolved'', ''systemd-resolve'', ''systemd-timesyncd'', ''networkmanager'', ''dhclient'', ''dhcpcd'', ''avahi-daemon'',
      ''chronyd'', ''ntpd'', ''wpa_supplicant'', ''unbound'', ''dnsmasq''],
     known ''System networking service'' ''system''
       ''Name resolution, time sync or link management.''
       ''DNS resolvers on 53/853, NTP servers on 123, the local gateway.''
       [] []),
    ([''snapd'', ''apt'', ''apt-get'', ''aptd'', ''dpkg'', ''packagekitd'', ''unattended-upgr'', ''unattended-upgrade'', ''dnf'', ''yum'',
      ''zypper'', ''pacman'', ''flatpak'', ''fwupd'', ''fwupdmgr'', ''pip'', ''pip3'', ''cargo'', ''npm'', ''go''],
     known ''Package / update manager'' ''updater''
       ''Fetches package metadata and downloads.''
       (''Distribution mirrors and CDNs (Canonical/Fastly/Akamai), registries such as crates.io, npmjs (Cloudflare), '' @
         ''pypi (Fastly), proxy.golang.org (Google).'')
       [] []),
    ([''steam'', ''steamwebhelper'', ''steam.exe'', ''steamservice'', ''steamservice.exe''],
     known ''Steam client'' ''gaming''
       ''Valve's store/launcher with an embedded browser (steamwebhelper).''
       ''Valve (AS32590), Akamai/Cloudflare CDNs for content, LAN discovery of media devices (e.g. Chromecast on 8009).''
       [] []),
    ([''discord'', ''spotify'', ''slack'', ''teams'', ''ms-teams'', ''zoom'', ''telegram'', ''telegram-desktop'', ''signal-desktop'',
      ''whatsapp'', ''element-desktop''],
     known ''Messaging / media application'' ''communication''
       ''Persistent connections to the vendor's realtime services and CDNs.''
       ''Vendor infrastructure (often on Cloudflare, Google Cloud or AWS), media CDNs.''
       [] []),
    ([''code'', ''code.exe'', ''code - insiders'', ''codium'', ''cursor'', ''claude'', ''claude.exe'', ''idea'', ''pycharm'', ''goland'',
      ''rust-analyzer'', ''gopls'', ''copilot''],
     known ''Developer tool / assistant'' ''devtools''
       ''Editors, language servers and AI assistants call their vendor APIs and extension marketplaces.''
       (''Microsoft/GitHub (marketplace, Copilot), Anthropic API (AS399358, api.anthropic.com), JetBrains, package '' @
         ''registries.'')
       [] []),
    ([''ssh'', ''sshd'', ''scp'', ''sftp'', ''rsync'', ''git'', ''git-remote-https'', ''curl'', ''wget'', ''aria2c''],
     known ''Manual network tool'' ''tooling''
       ''Driven by a user or a script; the destination is whatever was asked for.''
       (''Anything '' @ em @ '' judge by the destination and by who ran it.'')
       [] []),
    ([''python'', ''python3'', ''python3.12'', ''python3.13'', ''python.exe'', ''node'', ''node.exe'', ''java'', ''javaw'', ''java.exe'',
      ''ruby'', ''perl'', ''php'', ''deno'', ''bun'', ''dotnet''],
     known ''Interpreter / runtime'' ''runtime''
       ''The program's identity is the script it runs, not the interpreter.''
       ''Depends entirely on the script; enable command-line reporting (--send-cmdline) to see it.''
       [] ''interpreter''),
    ([''svchost'', ''svchost.exe''],
     known ''Windows service host'' ''windows-system''
       (''Hosts many Windows services (Windows Update, BITS, Delivery Optimization, time, diagnostics'' @
         [CHR 0xE2, CHR 0x80, CHR 0xA6] @ ''). Which service is talking needs the service name.'')
       ''Microsoft (AS8075), Akamai/Edgecast/Level3 CDNs for updates, Delivery Optimization peers on 7680.''
       [''tasklist /svc /fi \"pid eq <pid>\"''] []),
    ([''msmpeng'', ''msmpeng.exe'', ''mpcmdrun'', ''mpcmdrun.exe'', ''smartscreen'', ''smartscreen.exe'', ''securityhealthservice''],
     known ''Microsoft Defender / SmartScreen'' ''windows-system''
       ''Signature updates and cloud protection lookups.''
       (''Microsoft (AS8075) '' @ em @ '' wdcp.microsoft.com, *.update.microsoft.com.'')
       [] []),
    ([''onedrive'', ''onedrive.exe'', ''outlook'', ''outlook.exe'', ''winword'', ''excel'', ''powerpnt'', ''officeclicktorun'',
      ''officeclicktorun.exe'', ''msedgewebview2'', ''msedgewebview2.exe'', ''searchhost'', ''searchhost.exe'', ''widgetservice'',
      ''widgetservice.exe'', ''runtimebroker'', ''runtimebroker.exe'', ''backgroundtaskhost'', ''backgroundtaskhost.exe'', ''explorer'',
      ''explorer.exe'', ''compattelrunner'', ''compattelrunner.exe'', ''mousocoreworker'', ''mousocoreworker.exe'', ''usoclient'',
      ''usoclient.exe'', ''sihclient'', ''sihclient.exe'', ''wsl'', ''wslhost'', ''wslhost.exe'', ''dashost'', ''dashost.exe'',
      ''yourphone'', ''phoneexperiencehost''],
     known ''Windows / Microsoft 365 component'' ''windows-system''
       ''Built-in Windows or Office component with cloud connectivity (sync, updates, telemetry, web content).''
       ''Microsoft (AS8075, Azure), Akamai.''
       [] []),
    ([''lsass'', ''lsass.exe'', ''winlogon'', ''winlogon.exe'', ''csrss'', ''csrss.exe'', ''services'', ''services.exe'', ''smss'',
      ''smss.exe'', ''wininit'', ''wininit.exe''],
     known ''Core Windows process that should not make outbound connections'' ''windows-core''
       (''These processes never initiate internet connections themselves (lsass may talk to domain controllers on a '' @
         ''LAN). Outbound connections from them indicate injection or a spoofed name.'')
       ''None beyond domain controllers on the LAN.''
       [] ''no-network''),
    ([''powershell'', ''powershell.exe'', ''pwsh'', ''pwsh.exe'', ''cmd'', ''cmd.exe'', ''wscript'', ''wscript.exe'', ''cscript'',
      ''cscript.exe'', ''mshta'', ''mshta.exe'', ''rundll32'', ''rundll32.exe'', ''regsvr32'', ''regsvr32.exe'', ''certutil'',
      ''certutil.exe'', ''bitsadmin'', ''bitsadmin.exe'', ''msiexec'', ''msiexec.exe'', ''wmic'', ''wmic.exe''],
     known ''Scriptable system utility (living-off-the-land binary)'' ''windows-lolbin''
       (''Legitimate admin tools that malware commonly abuses to download or run payloads. Legitimate use exists '' @
         ''(updates, installers, admin scripts).'')
       (''Microsoft endpoints for legitimate use; anything else deserves a look '' @ em @ '' check the command line and parent.'')
       [''Get-CimInstance Win32_Process -Filter \"ProcessId = <pid>\" | Select CommandLine, ParentProcessId''] ''lolbin''),
    ([''tailscaled'', ''tailscale'', ''wireguard'', ''wg'', ''openvpn'', ''nordvpn'', ''protonvpn'', ''mullvad'', ''zerotier-one'',
      ''cloudflared'', ''warp-svc''],
     known ''VPN / overlay network client'' ''vpn''
       ''Encrypted tunnel to the provider's relays or peers; other programs' traffic is hidden inside it.''
       ''The provider's coordination servers and relays (often on hosting/cloud networks), UDP high ports.''
       [] []),
    ([''kodi'', ''plex'', ''plex media server'', ''jellyfin'', ''vlc'', ''mpv'', ''youtube'', ''netflix''],
     known ''Media player / server'' ''media''
       ''Streams or serves media; metadata lookups to vendor APIs.''
       ''Media CDNs, TheMovieDB/TVDB, vendor relay services.''
       [] []),
    ([''nextcloud'', ''syncthing'', ''dropbox'', ''megasync'', ''rclone'', ''restic'', ''borg'', ''duplicati''],
     known ''Sync / backup client'' ''sync''
       ''Transfers files to a server or peers on a schedule.''
       ''The configured server or storage provider; Syncthing relays/discovery.''
       [] []),
    ([''server''],
     known (''Generic name '' @ em @ '' identify by path'') ''unknown''
       ''The process is called just \"server\"; the path, hash and container tell you which one.''
       ''Depends on the software.''
       [] [])]"

definition kb_named :: "string \<Rightarrow> Known option" where
  "kb_named v = map_option snd (find (\<lambda>e. v \<in> set (fst e)) kb)"

fun first_known :: "string list \<Rightarrow> Known option" where
  "first_known [] = None"
| "first_known (c # cs) =
     (if c = [] \<or> c = ''.'' then first_known cs
      else case kb_named c of Some k \<Rightarrow> Some k
      | None \<Rightarrow> (case kb_named (TrimSuffix c ''.exe'') of Some k \<Rightarrow> Some k | None \<Rightarrow> first_known cs))"

definition Lookup :: "string \<Rightarrow> string \<Rightarrow> Known option" where
  "Lookup name exe = first_known [ToLower (TrimSpace name), ToLower (path_Base (slashes exe))]"

section \<open>Networks\<close>

record Infra =
  in_class :: string
  in_label :: string
  in_note :: string

definition infraRules :: "(string list \<times> Infra) list" where
  "infraRules =
   [
    ([''cloudflare''],
     \<lparr>in_class = ''cdn'', in_label = ''Cloudflare'',
       in_note = (''CDN/reverse proxy fronting a huge share of the internet '' @ em @
         '' the IP alone tells you little; the hostname/SNI does.'')\<rparr>),
    ([''fastly''],
     \<lparr>in_class = ''cdn'', in_label = ''Fastly'',
       in_note = (''CDN used by many package registries (PyPI, GitHub content, quay.io) and sites '' @ em @ '' identify by hostname/SNI.'')\<rparr>),
    ([''akamai'', ''linode''],
     \<lparr>in_class = ''cdn'', in_label = ''Akamai / Linode'',
       in_note = (''Akamai CDN (updates, games, streaming) or Linode hosting '' @ em @ '' identify by hostname.'')\<rparr>),
    ([''edgecast'', ''verizon digital'', ''limelight'', ''edgio'', ''cdn77'', ''datacamp'', ''stackpath'', ''highwinds'', ''bunny'',
      ''cachefly'', ''gcore'', ''g-core''],
     \<lparr>in_class = ''cdn'', in_label = ''CDN'',
       in_note = (''Content delivery network '' @ em @ '' shared by many services.'')\<rparr>),
    ([''amazon'', ''aws'', ''ec2''],
     \<lparr>in_class = ''cloud'', in_label = ''Amazon AWS'',
       in_note = (''Public cloud '' @ em @ '' could be anything hosted on AWS; check the hostname/SNI and whether other hosts use it.'')\<rparr>),
    ([''google''],
     \<lparr>in_class = ''cloud'', in_label = ''Google'',
       in_note = ''Google services or Google Cloud tenants (8.8.8.8/8.8.4.4 are Google Public DNS).''\<rparr>),
    ([''microsoft'', ''azure''],
     \<lparr>in_class = ''cloud'', in_label = ''Microsoft / Azure'',
       in_note = ''Microsoft services (updates, telemetry, Office 365) or Azure tenants.''\<rparr>),
    ([''apple''],
     \<lparr>in_class = ''vendor'', in_label = ''Apple'',
       in_note = ''Apple services (iCloud, updates, push).''\<rparr>),
    ([''anthropic''],
     \<lparr>in_class = ''vendor'', in_label = ''Anthropic'',
       in_note = (''Anthropic API (Claude) '' @ em @ '' expected for AI assistants and developer tools.'')\<rparr>),
    ([''valve''],
     \<lparr>in_class = ''vendor'', in_label = ''Valve'',
       in_note = ''Steam.''\<rparr>),
    ([''meta platforms'', ''facebook'', ''instagram'', ''whatsapp''],
     \<lparr>in_class = ''vendor'', in_label = ''Meta'',
       in_note = ''Facebook/Instagram/WhatsApp.''\<rparr>),
    ([''netflix'', ''spotify'', ''discord'', ''twitch'', ''zoom''],
     \<lparr>in_class = ''vendor'', in_label = ''Consumer service'',
       in_note = ''A well-known consumer service's own network.''\<rparr>),
    ([''hetzner'', ''ovh'', ''digitalocean'', ''contabo'', ''vultr'', ''scaleway'', ''ionos'', ''leaseweb'', ''choopa'', ''m247'',
      ''hostinger'', ''namecheap'', ''godaddy'', ''psychz'', ''colocrossing'', ''quadranet'', ''servermania'', ''hostwinds'', ''hostkey'',
      ''flokinet'', ''privatelayer'', ''serverion'', ''aeza'', ''stark industries'', ''the constant''],
     \<lparr>in_class = ''hosting'', in_label = ''Hosting provider'',
       in_note = (''Rented servers '' @ em @
         '' used by open-source mirrors, self-hosters and also by attackers. rDNS and SNI usually say which.'')\<rparr>),
    ([''oracle''],
     \<lparr>in_class = ''cloud'', in_label = ''Oracle Cloud'',
       in_note = ''Public cloud tenants.''\<rparr>),
    ([''alibaba'', ''aliyun'', ''taobao'', ''tencent'', ''huawei''],
     \<lparr>in_class = ''cloud'', in_label = ''Chinese cloud'',
       in_note = (''Alibaba/Tencent/Huawei cloud tenants '' @ em @ '' common for apps and devices from Chinese vendors.'')\<rparr>),
    ([''comcast'', ''verizon'', ''at&t'', ''spectrum'', ''charter'', ''cox'', ''t-mobile'', ''vodafone'', ''telekom'', ''orange'', ''bt '',
      ''telefonica'', ''rogers'', ''bell canada'', ''telus'', ''sky uk'', ''virgin media''],
     \<lparr>in_class = ''isp'', in_label = ''Residential / mobile ISP'',
       in_note = (''A home or mobile connection '' @ em @
         '' peer-to-peer traffic, remote access, or a scanner/attacker behind a consumer line.'')\<rparr>),
    ([''hurricane electric'', ''cogent'', ''lumen'', ''level 3'', ''zayo'', ''gtt'', ''telia'', ''arelion'', ''ntt''],
     \<lparr>in_class = ''transit'', in_label = ''Transit / backbone'',
       in_note = (''Backbone network '' @ em @ '' often a tenant or a CDN node, identify by hostname.'')\<rparr>)]"

definition Classify :: "string \<Rightarrow> string \<Rightarrow> string \<Rightarrow> string \<Rightarrow> Infra" where
  "Classify org isp as_org hostname =
     (let hay = ToLower (Join [org, isp, as_org, hostname] '' | '') in
      if hay = '' |  |  | ''
      then \<lparr>in_class = ''unknown'', in_label = ''Unknown'', in_note = ''Not enriched yet '' @ em @ '' refresh enrichment on the host page.''\<rparr>
      else case find (\<lambda>r. list_ex (Contains hay) (fst r)) infraRules of
        Some r \<Rightarrow> snd r
      | None \<Rightarrow> \<lparr>in_class = ''unknown'', in_label = ''Other network'',
          in_note = ''Not a network the knowledge base recognises; judge by rDNS, SNI and reputation.''\<rparr>)"

end
