(* ===== verification/Explain.thy ===== *)
theory Explain
  imports Known Builtin
begin

text \<open>
  The write-up of a program (\<open>internal/explain/explain.go\<close>, \<open>cadence.go\<close>): regular contact, the report, the signals
  drawn from it with the assessment, and the commands that verify it on the machine. Instants are printed in the zone of
  the process, a parameter; the floating-point means of a cadence are exact fractions here.
\<close>

section \<open>Regular contact\<close>

text \<open>The average gap in tenths of a minute and the coefficient of variation in hundredths, rounded half away from zero.\<close>

record Cadence =
  cd_contacts :: nat
  cd_gap :: int
  cd_cv :: int

fun steps :: "instant list \<Rightarrow> duration list" where
  "steps (a # b # ts) = (b - a) # steps (b # ts)"
| "steps _ = []"

definition half_up :: "int \<Rightarrow> int \<Rightarrow> int" where
  "half_up m n = (2 * m + n) div (2 * n)"

definition root_half_up :: "int \<Rightarrow> int \<Rightarrow> int" where
  "root_half_up m n = (int (isqrt (nat (4 * m div n))) + 1) div 2"

definition Beaconish :: "instant list \<Rightarrow> Cadence \<times> bool" where
  "Beaconish minutes =
     (let none = \<lparr>cd_contacts = length minutes, cd_gap = 0, cd_cv = 0\<rparr>; gs = filter (\<lambda>g. g > 0) (steps (sort minutes)) in
      if length minutes < 6 \<or> length gs < 5 then (none, False)
      else
        (let n = int (length gs); s = sum_list gs; v = n * sum_list (map (\<lambda>g. g * g) gs) - s * s in
         (none\<lparr>cd_gap := half_up (10 * s) (n * Minute), cd_cv := root_half_up (10000 * v) (s * s)\<rparr>,
          s \<ge> 2 * Minute * n \<and> 16 * v < s * s)))"

section \<open>The report\<close>

record Program =
  pg_name :: string
  pg_exe :: string
  pg_user :: string
  pg_container :: string
  pg_os :: string
  pg_machine :: string
  pg_hashes :: "string list"
  pg_hosts :: "string list"
  pg_agents :: int
  pg_conns :: int
  pg_destinations :: nat
  pg_first :: "instant option"
  pg_last :: "instant option"
  pg_first_in :: "instant option"
  pg_pids :: "int list"
  pg_cmdline :: string
  pg_known :: "Known option"
  pg_source :: string
  pg_known_id :: int
  pg_identity :: "ProgramIdentity option"
  pg_file :: "FileIntel option"
  pg_lolbin :: "LOLBin option"

text \<open>The threat lists are a slice that may be nil, which \<open>Assess\<close> tests.\<close>

record Destination =
  de_dst :: string
  de_port :: int
  de_proto :: string
  de_service :: string
  de_conns :: int
  de_bytes :: int
  de_first :: instant
  de_last :: instant
  de_hostname :: string
  de_names :: "string list"
  de_asn :: string
  de_org :: string
  de_country :: string
  de_hosting :: bool
  de_proxy :: bool
  de_infra :: Infra
  de_lists :: "string list option"
  de_vt :: int
  de_reputation :: "string list"
  de_other_programs :: "string list"
  de_other_count :: int
  de_other_hosts :: int
  de_open_alerts :: int
  de_alert_titles :: "string list"
  de_ids_events :: int
  de_notes :: int
  de_trusted :: string
  de_beacon :: "Cadence option"
  de_flags :: "string list"

datatype level = Info | Warn | Critical

type_synonym Signal = "level \<times> string"

datatype verdict = Expected | Review | Suspicious

record Report =
  re_program :: Program
  re_destinations :: "Destination list"
  re_signals :: "Signal list"
  re_assessment :: "verdict \<times> string"
  re_verify :: "string list"
  re_window :: Window
  re_generated :: instant

section \<open>Signals of the program\<close>

definition unknown_process :: string where "unknown_process = ''(unknown process)''"

definition unknown_owner :: "Program \<Rightarrow> bool" where
  "unknown_owner p \<longleftrightarrow> pg_exe p = [] \<and> (pg_name p = [] \<or> pg_name p = unknown_process)"

definition catalogueName :: "string \<Rightarrow> string" where
  "catalogueName s = (if s = ''lolbas'' then ''LOLBAS'' else if s = ''gtfobins'' then ''GTFOBins'' else s)"

definition KnownFromLOLBin :: "LOLBin \<Rightarrow> Known" where
  "KnownFromLOLBin l =
     known (''System utility listed by '' @ catalogueName (lb_source l) @ '' ('' @ lb_display l @ '')'') ''lolbin''
       (TrimSpace (lb_description l @
          (if lb_functions l = [] then [] else '' Abusable for: '' @ Join (lb_functions l) '', '' @ ''.'')))
       (''Normally nothing, or only what an administrator drives it to do; outbound connections from it '' @
        ''deserve a look.'') [] ''lolbin''"

definition suspiciousPath :: "string \<Rightarrow> bool" where
  "suspiciousPath exe =
     list_ex (Contains (ToLower (slashes exe)))
       [''/tmp/'', ''/dev/shm/'', ''/var/tmp/'', ''/.cache/'', ''/downloads/'', ''/appdata/local/temp/'', ''/temp/'', ''/recycle'',
        ''/programdata/temp'']"

definition owner_hint :: "Program \<Rightarrow> string" where
  "owner_hint p =
     (if EqualFold (pg_os p) ''windows''
      then ''These are usually connections from processes that exited between two polls; the ETW backend will '' @
        ''attribute them at connect time.''
      else ''Switch the agent to eBPF capture (auto/ebpf), which attributes connections at connect() time '' @
        ''instead of polling.'')"

definition owner_signals :: "Program \<Rightarrow> Signal list" where
  "owner_signals p =
     (if unknown_owner p then
        [(Info, ''Sockets whose owning process the agent could not resolve: the process exited before the next '' @
           ''poll, or its file descriptors were not readable (another user's or a container's namespace without '' @
           ''permission). '' @ owner_hint p)]
      else case pg_known p of
        None \<Rightarrow> [(Info, pg_name p @ '' is not in the knowledge base '' @ em @ '' identify it by path, hash and destinations.'')]
      | Some k \<Rightarrow>
          if kn_risk k = ''no-network'' then
            [(Critical, pg_name p @ '' is a core system process that should never open outbound connections; this points '' @
               ''to code injection or a spoofed process name.'')]
          else if kn_risk k = ''lolbin'' then
            (case pg_lolbin p of
               Some l \<Rightarrow> [(Warn, pg_name p @ '' is a system utility listed by '' @ catalogueName (lb_source l) @ '' as abusable for '' @
                          Join (lb_functions l) '', '' @ ''; check the command line and the parent process.'')]
             | None \<Rightarrow> [(Warn, pg_name p @ '' is a scriptable system utility that malware commonly abuses; check the command '' @
                          ''line and the parent process.'')])
          else if kn_risk k = ''interpreter'' then
            [(Info, pg_name p @ '' is an interpreter '' @ em @ '' the real identity is the script; enable command-line '' @
               ''reporting to see it.'')]
          else [])"

definition lolbin_signals :: "Program \<Rightarrow> Signal list" where
  "lolbin_signals p =
     (case pg_lolbin p of
        Some l \<Rightarrow>
          if pg_known p = None \<or> kn_risk (the (pg_known p)) \<noteq> ''lolbin''
          then [(Warn, pg_name p @ '' is listed by '' @ catalogueName (lb_source l) @ '' as abusable for '' @ Join (lb_functions l) '', '' @
                   '' '' @ em @ '' check the command line and the parent process.'')]
          else []
      | None \<Rightarrow> [])"

definition rare_place :: "string \<Rightarrow> string \<Rightarrow> string" where
  "rare_place verb exe = verb @ '' a temporary/download location ('' @ exe @ '') '' @ em @ '' legitimate software rarely runs from there.''"

definition path_signals :: "Program \<Rightarrow> Signal list" where
  "path_signals p = (if suspiciousPath (pg_exe p) then [(Warn, rare_place ''Executable lives in'' (pg_exe p))] else [])"

section \<open>Signals of the file\<close>

definition versioned :: "ProgramIdentity \<Rightarrow> string" where
  "versioned i = p_package i @ (if p_version i = [] then [] else '' '' @ p_version i)"

definition package_signals :: "ProgramIdentity \<Rightarrow> Signal list" where
  "package_signals i =
     (case p_verified i of
        Some False \<Rightarrow> [(Critical, ''The file differs from what package '' @ versioned i @ '' installed ('' @ p_origin i @
           '' manifest mismatch) '' @ em @ '' a modified or replaced binary.'')]
      | Some True \<Rightarrow> [(Info, ''Installed by '' @ p_origin i @ '' package '' @ versioned i @ ''; the file matches the package manifest.'')]
      | None \<Rightarrow>
          if p_package i \<noteq> [] \<and> p_origin i \<noteq> ''container''
          then [(Info, ''Installed by '' @ p_origin i @ '' package '' @ versioned i @ ''.'')] else [])"

definition origin_signals :: "string \<Rightarrow> ProgramIdentity \<Rightarrow> Signal list" where
  "origin_signals exe i =
     (if p_origin i = ''unpackaged'' then
        [(Warn, ''No package owns this file ('' @ exe @ '') '' @ em @ '' it was placed there by hand, an installer script, or something else.'')]
      else if p_origin i = ''tmp'' \<or> p_origin i = ''download'' then
        (if suspiciousPath exe then [] else [(Warn, rare_place ''Runs from'' exe)])
      else if p_origin i = ''home'' then
        [(Info, ''Lives in a user's home directory '' @ em @ '' a personal build or manual download, not managed by the system.'')]
      else if p_origin i = ''container'' then
        [(Info, ''Runs inside container '' @ p_package i @ ''; identify it by the image, not by the host's packages.'')]
      else [])"

definition signature_signals :: "ProgramIdentity \<Rightarrow> Signal list" where
  "signature_signals i =
     (if p_signature i = ''valid'' then
        [(Info, ''Authenticode signature valid '' @ em @ '' signed by '' @
           (if p_signer i = [] then ''an unnamed certificate'' else p_signer i) @
           (if HasPrefix (p_note i) ''catalog'' then '' (Windows security catalog)'' else []) @ ''.'')]
      else if p_signature i = ''unsigned'' then
        [(Warn, ''Not digitally signed'' @
           (if p_company i = [] then [] else '' even though the version resource names '' @ p_company i) @ '' '' @ em @
           '' established vendors sign their releases, so an unsigned binary needs another reason to be trusted.'')]
      else if p_signature i = ''untrusted'' then
        [(Warn, ''Signed by '' @ (if p_signer i = [] then ''unknown signer'' else p_signer i) @
           '', but the certificate chain is not trusted on this machine ('' @ p_note i @ '') '' @ em @
           '' a self-signed, expired or unknown-root certificate.'')]
      else if p_signature i = ''invalid'' then
        [(Critical, ''The digital signature is INVALID '' @ em @ '' the file was modified after signing, or its certificate was revoked.'')]
      else [])"

definition doubtful :: "ProgramIdentity option \<Rightarrow> bool" where
  "doubtful i \<longleftrightarrow>
     (case i of None \<Rightarrow> False
      | Some p \<Rightarrow> p_signature p \<in> {''unsigned'', ''untrusted''} \<or> p_origin p \<in> {''unpackaged'', ''tmp'', ''download''})"

text \<open>\<open>Jan 2006\<close>\<close>

definition format_month :: "instant \<Rightarrow> string" where
  "format_month t = (case civil (t div Day) of (y, m, d) \<Rightarrow> month_names ! nat (m - 1) @ '' '' @ zero_pad 4 y)"

definition vt_signals :: "(instant \<Rightarrow> duration) \<Rightarrow> ProgramIdentity option \<Rightarrow> FileVT \<Rightarrow> Signal list" where
  "vt_signals zone i v =
     (if fv_status v = ''ok'' then
        (let m = opt_default 0 (fv_malicious v);
             total = sum_list (map (opt_default 0) [fv_malicious v, fv_suspicious v, fv_harmless v, fv_undetected v]);
             label = (if fv_label v = [] then [] else '' ('' @ fv_label v @ '')'')
         in if m \<ge> 3 then
              [(Critical, Itoa m @ '' of '' @ Itoa total @ '' VirusTotal engines flag this file as malicious'' @ label @ ''.'')]
            else if m \<ge> 1 then
              [(Warn, Itoa m @ '' of '' @ Itoa total @ '' VirusTotal engines flag this file'' @ label @ '' '' @ em @
                 '' likely a false positive, but check the vendor names.'')]
            else
              [(Info, ''VirusTotal: 0 of '' @ Itoa total @ '' engines flag this file'' @
                 (case fv_first_seen v of None \<Rightarrow> [] | Some t \<Rightarrow> '', first submitted '' @ format_month (t + zone t)) @ ''.'')])
      else if fv_status v = ''unknown'' then
        [(if doubtful i then Warn else Info,
          ''This exact file has never been submitted to VirusTotal '' @ em @ '' no other party has seen it.'')]
      else [])"

definition mhr_signals :: "FileMHR \<Rightarrow> Signal list" where
  "mhr_signals h =
     (if fm_status h = ''listed'' then
        [(Critical, ''Team Cymru's Malware Hash Registry lists this file as known malware'' @
           (case fm_detection h of None \<Rightarrow> [] | Some d \<Rightarrow> ''; '' @ Itoa d @ ''% of AV engines detect it'') @ ''.'')]
      else [])"

definition identitySignals :: "(instant \<Rightarrow> duration) \<Rightarrow> Program \<Rightarrow> Signal list" where
  "identitySignals zone p =
     (case pg_identity p of None \<Rightarrow> []
      | Some i \<Rightarrow> package_signals i @ origin_signals (pg_exe p) i @ signature_signals i) @
     (case pg_file p of None \<Rightarrow> []
      | Some f \<Rightarrow> vt_signals zone (pg_identity p) (fi_vt f) @ mhr_signals (fi_mhr f))"

definition history_signals :: "(instant \<Rightarrow> duration) \<Rightarrow> instant \<Rightarrow> Program \<Rightarrow> Signal list" where
  "history_signals zone now p =
     (if pg_exe p = [] \<and> \<not> unknown_owner p
      then [(Info, ''The agent could not read the executable path (process exited quickly, or a kernel thread).'')] else []) @
     (if length (pg_hashes p) > 1
      then [(Warn, ''The binary changed during the window ('' @ show_nat (length (pg_hashes p)) @ '' different SHA-256 hashes) '' @ em @
              '' an update, or a replaced file.'')] else []) @
     (case pg_first p of
        Some t \<Rightarrow>
          if now - t < 24 * Hour
          then [(Info, ''First seen on this machine '' @ format_day_clock (t + zone t) @ '' '' @ em @ '' new program.'')] else []
      | None \<Rightarrow> []) @
     (let u = ToLower (pg_user p) in
      if (u = ''root'' \<or> HasSuffix u (CHR 0x5C # ''system'') \<or> u = ''system'') \<and> pg_known p = None
      then [(Warn, ''Runs as '' @ pg_user p @ '' and is not a known program.'')] else [])"

definition program_signals :: "(instant \<Rightarrow> duration) \<Rightarrow> instant \<Rightarrow> Program \<Rightarrow> Signal list" where
  "program_signals zone now p =
     owner_signals p @ lolbin_signals p @ path_signals p @ identitySignals zone p @ history_signals zone now p"

section \<open>Signals of a destination\<close>

definition commonPorts :: "int list" where
  "commonPorts = [80, 443, 53, 853, 123, 22, 25, 465, 587, 993, 995, 8080, 8443, 5228, 3478, 5222]"

definition where_text :: "Destination \<Rightarrow> string" where
  "where_text d = (if de_hostname d = [] then de_dst d else de_hostname d @ '' ('' @ de_dst d @ '')'')"

definition obscure :: "Destination \<Rightarrow> bool" where
  "obscure d \<longleftrightarrow> in_class (de_infra d) \<in> {''hosting'', ''unknown'', ''isp''}"

text \<open>The signals on threat lists, verdicts and timing.\<close>

definition bad_signals :: "Destination \<Rightarrow> Signal list" where
  "bad_signals d =
     (case de_lists d of
        Some (l # ls) \<Rightarrow> [(Critical, where_text d @ '' is on threat list(s) '' @ Join (l # ls) '', '' @ ''.'')] | _ \<Rightarrow> []) @
     (if de_vt d \<ge> 2 then [(Critical, where_text d @ '' is flagged malicious by '' @ Itoa (de_vt d) @ '' VirusTotal engines.'')] else []) @
     (if de_reputation d \<noteq> [] then [(Warn, where_text d @ '' has a bad reputation: '' @ Join (de_reputation d) '', '' @ ''.'')] else []) @
     (case de_beacon d of None \<Rightarrow> []
      | Some b \<Rightarrow> [(Warn, ''Contacts '' @ where_text d @ '' every ~'' @ fixed_ratio 0 (cd_gap b) 10 @ '' min with very regular timing ('' @
          show_nat (cd_contacts b) @ '' times, gap CV '' @ fixed_ratio 2 (cd_cv b) 100 @ '') '' @ em @ '' beacon-like.'')])"

text \<open>An address that only this program contacts. The slice of the lists must be nil.\<close>

definition lonely :: "Destination \<Rightarrow> bool" where
  "lonely d \<longleftrightarrow> de_other_hosts d = 0 \<and> de_other_count d = 0 \<and> obscure d \<and> de_hostname d = []"

definition lonely_signals :: "Destination \<Rightarrow> Signal list" where
  "lonely_signals d =
     (if lonely d \<and> de_lists d = None
      then [(Warn, de_dst d @ '' ('' @ in_label (de_infra d) @ '') is contacted only by this program, has no reverse DNS and sits on a '' @
              in_class (de_infra d) @ '' network '' @ em @ '' worth identifying.'')]
      else [])"

definition port_signals :: "Destination \<Rightarrow> Signal list" where
  "port_signals d =
     (if de_port d \<notin> set commonPorts \<and> de_proto d = ''tcp'' \<and> obscure d
      then [(Info, where_text d @ '' uses an uncommon port '' @ Itoa (de_port d) @ ''/'' @ de_proto d @ '' on a '' @
              in_label (de_infra d) @ '' network.'')] else []) @
     (if de_open_alerts d > 0
      then [(Warn, where_text d @ '' already has '' @ Itoa (de_open_alerts d) @ '' open alert(s): '' @
              Join (de_alert_titles d) ''; '' @ ''.'')] else [])"

definition destination_signals :: "Destination \<Rightarrow> Signal list" where
  "destination_signals d =
     (if de_trusted d \<noteq> [] then [] else bad_signals d @ lonely_signals d @ port_signals d)"

section \<open>The assessment\<close>

definition rank :: "level \<Rightarrow> nat" where
  "rank l = (case l of Critical \<Rightarrow> 3 | Warn \<Rightarrow> 2 | Info \<Rightarrow> 1)"

definition all_signals :: "(instant \<Rightarrow> duration) \<Rightarrow> instant \<Rightarrow> Report \<Rightarrow> Signal list" where
  "all_signals zone now rep =
     (let s = program_signals zone now (re_program rep) @ concat (map destination_signals (re_destinations rep)) in
      if s = [] then [(Info, ''Nothing unusual: known program, ordinary destinations, no reputation or timing anomalies.'')] else s)"

definition count_level :: "level \<Rightarrow> Signal list \<Rightarrow> int" where
  "count_level l s = int (length (filter (\<lambda>x. fst x = l) s))"

definition verdict_of :: "Program \<Rightarrow> Signal list \<Rightarrow> verdict \<times> string" where
  "verdict_of p s =
     (let crit = count_level Critical s; warn = count_level Warn s in
      if crit > 0 then (Suspicious, Itoa crit @ '' critical finding(s) '' @ em @ '' investigate now.'')
      else if warn > 0 then (Review, Itoa warn @ '' thing(s) worth a look; nothing conclusive.'')
      else (Expected,
        case pg_known p of
          Some k \<Rightarrow> kn_title k @ '' behaving as expected.''
        | None \<Rightarrow> ''Unknown program, but nothing about its traffic stands out.''))"

definition Assess :: "(instant \<Rightarrow> duration) \<Rightarrow> instant \<Rightarrow> Report \<Rightarrow> Report" where
  "Assess zone now rep =
     (let s = all_signals zone now rep in
      rep\<lparr>re_signals := sort_key (\<lambda>x. - int (rank (fst x))) s, re_assessment := verdict_of (re_program rep) s\<rparr>)"

section \<open>Commands that verify it\<close>

function replace_all :: "string \<Rightarrow> string \<Rightarrow> string \<Rightarrow> string" where
  "replace_all old new [] = []"
| "replace_all old new (c # s) =
     (if HasPrefix (c # s) old \<and> old \<noteq> [] then new @ replace_all old new (drop (length old) (c # s)) else c # replace_all old new s)"
  by pat_completeness auto
termination by (relation "measure (\<lambda>(old, new, s). length s)") auto

text \<open>A text between single quotes; it is not escaped.\<close>

definition quoted :: "string \<Rightarrow> string" where
  "quoted s = CHR 0x27 # s @ [CHR 0x27]"

definition windows_commands :: "Program \<Rightarrow> string \<Rightarrow> string \<Rightarrow> string list" where
  "windows_commands p pid dst =
     [''Get-Process -Id '' @ pid @ '' | Select-Object Path, StartTime, Company''] @
     (if pg_exe p = [] then []
      else [''Get-AuthenticodeSignature '' @ quoted (pg_exe p) @ '' | Select-Object Status, SignerCertificate'',
            ''Get-FileHash '' @ quoted (pg_exe p) @ ''   # compare with the reported sha256'',
            ''(Get-Item '' @ quoted (pg_exe p) @ '').VersionInfo | Format-List CompanyName, ProductName, FileVersion'']) @
     [''netstat -bano | findstr '' @ pid] @
     (if dst = [] then [] else [''Resolve-DnsName '' @ dst @ '' -Type PTR''])"

definition owner_commands :: "Program \<Rightarrow> string list" where
  "owner_commands p =
     (let exe = quoted (pg_exe p);
          origin = (case pg_identity p of None \<Rightarrow> [] | Some i \<Rightarrow> p_origin i);
          package = (case pg_identity p of None \<Rightarrow> [] | Some i \<Rightarrow> p_package i)
      in if origin = ''dpkg''
         then [''dpkg -S '' @ exe @ '' && dpkg -V '' @ package @ [CHR '' '', CHR '' '', CHR '' ''] @ ''# owner, then verify the package's files'']
         else if origin = ''apk'' then [''apk info -W '' @ exe @ '' && apk audit '' @ package]
         else if origin = ''pacman'' then [''pacman -Qo '' @ exe @ '' && pacman -Qkk '' @ package]
         else if origin = ''snap'' then [''snap list '' @ package]
         else if origin = ''flatpak'' then [''flatpak info '' @ package]
         else if origin = ''unpackaged'' \<or> origin = []
         then [''dpkg -S '' @ exe @ '' 2>/dev/null || rpm -qf '' @ exe @ '' 2>/dev/null || pacman -Qo '' @ exe @
               ''   # which package owns it, if any'']
         else [])"

definition unix_commands :: "Program \<Rightarrow> string \<Rightarrow> string \<Rightarrow> string list" where
  "unix_commands p pid dst =
     [''ps -o pid,user,etime,cmd -p '' @ pid, ''readlink /proc/'' @ pid @ ''/exe''] @
     (if pg_exe p = [] then [] else (''sha256sum '' @ quoted (pg_exe p) @ ''   # compare with the reported sha256'') # owner_commands p) @
     [''sudo ss -tnp | grep '' @ quoted (''pid='' @ pid)] @
     (if dst = [] then [] else [''dig -x '' @ dst @ '' +short'']) @
     (if pg_container p = [] then []
      else [''podman exec '' @ pg_container p @ '' ss -tn   # or: docker exec '' @ [CHR 0xE2, CHR 0x80, CHR 0xA6]])"

definition verifyCommands :: "Report \<Rightarrow> string list" where
  "verifyCommands rep =
     (let p = re_program rep;
          pid = (case pg_pids p of [] \<Rightarrow> ''<pid>'' | n # _ \<Rightarrow> Itoa n);
          dst = (case re_destinations rep of [] \<Rightarrow> [] | d # _ \<Rightarrow> de_dst d)
      in (if EqualFold (pg_os p) ''windows'' then windows_commands p pid dst else unix_commands p pid dst) @
         (case pg_known p of None \<Rightarrow> [] | Some k \<Rightarrow> map (replace_all ''<pid>'' pid) (kn_verify k)))"

end
