(* ===== verification/ApiWindow.thy ===== *)
theory ApiWindow
  imports ApiAlerts
begin

text \<open>
  The window of time a request asks for and the width of the steps of a series over it (\<open>window\<close> and
  \<open>autoInterval\<close> of \<open>internal/api/api.go\<close>).
\<close>

definition time_error :: string where
  "time_error = ''expected RFC3339, unix seconds or duration (e.g. 24h)''"

definition window :: "instant \<Rightarrow> string \<Rightarrow> string \<Rightarrow> string + Window" where
  "window now since until =
     (case (if until = [] then Some now else parseTime until now) of
        None \<Rightarrow> Inl (''bad until: '' @ time_error)
      | Some u \<Rightarrow>
     (case (if since = [] then Some (u - 24 * Hour) else parseTime since u) of
        None \<Rightarrow> Inl (''bad since: '' @ time_error)
      | Some s \<Rightarrow> if s < u then Inr \<lparr>Since = s, Until = u\<rparr> else Inl ''since must be before until''))"

definition interval_candidates :: "duration list" where
  "interval_candidates = [Minute, 5 * Minute, 15 * Minute, 30 * Minute, Hour, 3 * Hour, 6 * Hour, 12 * Hour, 24 * Hour]"

definition autoInterval :: "Window \<Rightarrow> duration" where
  "autoInterval w =
     opt_default (24 * Hour) (find (\<lambda>c. (Until w - Since w) div c \<le> 300) interval_candidates)"

lemma window_ordered: "window now since until = Inr w \<Longrightarrow> Since w < Until w"
  by (auto simp: window_def split: option.splits if_splits)

lemma autoInterval_candidate: "autoInterval w \<in> set interval_candidates"
proof (cases "find (\<lambda>c. (Until w - Since w) div c \<le> 300) interval_candidates")
  case (Some c)
  then have "c \<in> set interval_candidates" by (auto simp: find_Some_iff)
  with Some show ?thesis by (simp add: autoInterval_def opt_default_def)
qed (simp add: autoInterval_def opt_default_def interval_candidates_def)

lemma autoInterval_positive: "autoInterval w \<ge> Minute"
  using autoInterval_candidate [of w] by (auto simp: interval_candidates_def)

text \<open>A series has at most 300 whole steps, unless the window spans more than 300 days.\<close>

lemma autoInterval_steps:
  assumes "Until w - Since w \<le> 300 * 24 * Hour"
  shows "(Until w - Since w) div autoInterval w \<le> 300"
proof (cases "find (\<lambda>c. (Until w - Since w) div c \<le> 300) interval_candidates")
  case None
  then have "\<forall>c \<in> set interval_candidates. \<not> (Until w - Since w) div c \<le> 300" by (simp add: find_None_iff)
  moreover have "24 * Hour \<in> set interval_candidates" by (simp add: interval_candidates_def)
  ultimately have "\<not> (Until w - Since w) div (24 * Hour) \<le> 300" by blast
  moreover have "(Until w - Since w) div (24 * Hour) \<le> (300 * 24 * Hour) div (24 * Hour)" using assms by (intro zdiv_mono1) simp_all
  ultimately show ?thesis by simp
next
  case (Some c)
  then have "(Until w - Since w) div c \<le> 300" by (auto simp: find_Some_iff)
  with Some show ?thesis by (simp add: autoInterval_def opt_default_def)
qed

end
