(* ===== verification/ExplainBuild.thy ===== *)
theory ExplainBuild
  imports Explain ApiWindow
begin

text \<open>
  How the write-up of a program is assembled: the queries on what agents reported (\<open>internal/db/explain.go\<close>),
  \<open>Builder.Build\<close> (\<open>internal/explain/explain.go\<close>) and the handler \<open>explainProgram\<close>
  (\<open>internal/api/agents.go\<close>). The resolver for reverse names, the zone of the process and the zone of the database
  session are parameters. Where a query leaves the order open, it is that of the rows.
\<close>

section \<open>What agents reported of a program\<close>

record explain_env = env +
  proc_zone :: "instant \<Rightarrow> duration"
  session_zone :: "instant \<Rightarrow> duration"
  lookup_addr :: "addr \<Rightarrow> string list option"

record evidence =
  ev_fleet :: agent_db
  ev_alerts :: alert_db
  ev_intel :: intel_db
  ev_rollup :: rollup_db
  ev_kb :: kb_db

record ProgramKey =
  ky_agent :: int
  ky_host :: string
  ky_exe :: string
  ky_user :: string
  ky_container :: string

definition same_program :: "ProgramKey \<Rightarrow> conn_row \<Rightarrow> bool" where
  "same_program k c \<longleftrightarrow> cr_exe c = ky_exe k \<and> cr_user c = ky_user k \<and> cr_container c = ky_container k"

text \<open>The condition of a key: of an agent, or of an address, which must be one.\<close>

definition conds :: "ProgramKey \<Rightarrow> (conn_row \<Rightarrow> bool) dbres" where
  "conds k =
     (if ky_agent k > 0 then Inr (\<lambda>c. cr_agent c = ky_agent k \<and> same_program k c)
      else case inet_cast (ky_host k) of
        None \<Rightarrow> Inl (DbError ''invalid input syntax for type inet'')
      | Some a \<Rightarrow> Inr (\<lambda>c. cr_host c = a \<and> same_program k c))"

record ProgramSummary =
  su_rows :: int
  su_conns :: int
  su_first_in :: "instant option"
  su_last_in :: "instant option"
  su_first :: "instant option"
  su_last :: "instant option"
  su_hashes :: "string list"
  su_names :: "string list"
  su_hosts :: "string list"
  su_agents :: int
  su_pids :: "int list"
  su_cmdline :: string

definition minimum :: "instant list \<Rightarrow> instant option" where
  "minimum ts = (case ts of [] \<Rightarrow> None | t # r \<Rightarrow> Some (foldl min t r))"

definition maximum :: "instant list \<Rightarrow> instant option" where
  "maximum ts = (case ts of [] \<Rightarrow> None | t # r \<Rightarrow> Some (foldl max t r))"

definition summary_of :: "Window \<Rightarrow> conn_row list \<Rightarrow> ProgramSummary" where
  "summary_of w cs =
     (let win = filter (in_minutes w) cs in
      \<lparr>su_rows = int (length win), su_conns = sum_of cr_count win,
       su_first_in = minimum (map cr_minute win), su_last_in = maximum (map cr_minute win),
       su_first = minimum (map cr_minute cs), su_last = maximum (map cr_minute cs),
       su_hashes = remdups (filter (\<lambda>h. h \<noteq> []) (map cr_sha256 win)),
       su_names = remdups (filter (\<lambda>n. n \<noteq> []) (map cr_name cs)),
       su_hosts = remdups (map (\<lambda>c. AddrString (cr_host c)) cs),
       su_agents = distinct_count cr_agent cs,
       su_pids = take 5 (remdups (filter (\<lambda>p. p > 0) (map cr_pid win))),
       su_cmdline =
         (case sort_key (\<lambda>c. - cr_minute c) (filter (\<lambda>c. cr_cmdline c \<noteq> []) cs) of [] \<Rightarrow> [] | c # _ \<Rightarrow> cr_cmdline c)\<rparr>)"

definition ProgramSummaryFor :: "'e env_scheme \<Rightarrow> ProgramKey \<Rightarrow> Window \<Rightarrow> agent_db \<Rightarrow> ProgramSummary dbres" where
  "ProgramSummaryFor e k w d =
     bindE (conds k) (\<lambda>P. db_read e [''ProgramSummaryFor''] (summary_of w (filter P (conns d))))"

record ProgramDest =
  pd_dst :: addr
  pd_port :: int
  pd_proto :: string
  pd_conns :: int
  pd_bytes :: int
  pd_first :: instant
  pd_last :: instant
  pd_minutes :: "instant list"

definition program_dest :: "(addr \<times> int \<times> string) \<times> conn_row list \<Rightarrow> ProgramDest" where
  "program_dest x =
     (case x of ((dst, port, proto), g) \<Rightarrow>
        \<lparr>pd_dst = dst, pd_port = port, pd_proto = proto, pd_conns = sum_of cr_count g, pd_bytes = sum_of cr_bytes g,
         pd_first = opt_default 0 (minimum (map cr_minute g)), pd_last = opt_default 0 (maximum (map cr_minute g)),
         pd_minutes = sort (remdups (map cr_minute g))\<rparr>)"

definition ProgramDestinationsFor :: "'e env_scheme \<Rightarrow> ProgramKey \<Rightarrow> Window \<Rightarrow> int \<Rightarrow> agent_db \<Rightarrow> ProgramDest list dbres" where
  "ProgramDestinationsFor e k w lim d =
     bindE (conds k) (\<lambda>P.
     bindE (db_read e [''ProgramDestinationsFor'']
       (sort_key (\<lambda>x. - pd_conns x)
         (map program_dest (group_rows (\<lambda>c. (cr_dst c, cr_port c, cr_proto c)) (filter (\<lambda>c. P c \<and> in_minutes w c) (conns d))))))
       (limit_rows (if lim \<le> 0 then 25 else lim)))"

section \<open>The surroundings of a destination\<close>

record DestContext =
  dc_programs :: "string list"
  dc_program_count :: int
  dc_hosts :: int
  dc_open_alerts :: int
  dc_titles :: "string list"
  dc_ids_events :: int
  dc_notes :: int

definition dest_label :: "conn_row \<Rightarrow> string" where
  "dest_label c = procLabel (cr_name c) [] (cr_container c)"

definition others_towards :: "addr \<Rightarrow> ProgramKey \<Rightarrow> Window \<Rightarrow> agent_db \<Rightarrow> conn_row list" where
  "others_towards dst k w d = filter (\<lambda>c. cr_dst c = dst \<and> in_minutes w c \<and> \<not> same_program k c) (conns d)"

definition other_labels :: "conn_row list \<Rightarrow> string list" where
  "other_labels cs =
     map fst (take 5 (sort_key (\<lambda>x. - distinct_count cr_agent (snd x)) (sort_key fst (group_rows dest_label cs))))"

text \<open>The day of an instant in the zone of the session.\<close>

definition session_day :: "'e explain_env_scheme \<Rightarrow> instant \<Rightarrow> instant" where
  "session_day e t = (t + session_zone e t) div Day * Day"

definition other_hosts :: "'e explain_env_scheme \<Rightarrow> addr \<Rightarrow> string list \<Rightarrow> Window \<Rightarrow> agent_db \<Rightarrow> rollup_db \<Rightarrow> int" where
  "other_hosts e dst excl w d r =
     max (distinct_count (\<lambda>((h, p, t), _). h)
            (filter (\<lambda>((h, p, t), _). p = dst \<and> t \<ge> session_day e (Since w) \<and> AddrString h \<notin> set excl) (host_peer_daily r)))
         (distinct_count cr_host
            (filter (\<lambda>c. cr_dst c = dst \<and> in_minutes w c \<and> AddrString (cr_host c) \<notin> set excl) (conns d)))"

definition DestinationContextFor ::
  "'e explain_env_scheme \<Rightarrow> addr \<Rightarrow> ProgramKey \<Rightarrow> string list \<Rightarrow> Window \<Rightarrow> evidence \<Rightarrow> DestContext dbres" where
  "DestinationContextFor e dst k excl w v =
     (let cs = others_towards dst k w (ev_fleet v);
          as = filter (\<lambda>a. a_peer a = Some dst \<and> a_state a \<noteq> ''resolved'') (alerts (ev_alerts v));
          evs = filter (\<lambda>x. (ie_dst x = Some dst \<or> ie_src x = Some dst) \<and> Since w \<le> ie_ts x \<and> ie_ts x < Until w) (ids_events (ev_intel v))
      in db_read e [''DestinationContextFor'', AddrString dst]
        \<lparr>dc_programs = other_labels cs, dc_program_count = distinct_count (\<lambda>c. (cr_exe c, cr_agent c)) cs,
         dc_hosts = other_hosts e dst excl w (ev_fleet v) (ev_rollup v),
         dc_open_alerts = int (length as), dc_titles = map a_title (take 3 (sort_key (\<lambda>a. - a_last a) as)),
         dc_ids_events = int (length evs), dc_notes = int (length (filter (\<lambda>n. no_ip n = dst) (ip_notes (ev_intel v))))\<rparr>)"

section \<open>Building the report\<close>

record ExplainRequest =
  rq_agent :: int
  rq_host :: string
  rq_exe :: string
  rq_user :: string
  rq_container :: string
  rq_window :: Window

definition strOf :: "string option \<Rightarrow> string" where
  "strOf p = (case p of None \<Rightarrow> [] | Some s \<Rightarrow> TrimSpace s)"

definition firstOf :: "string option list \<Rightarrow> string" where
  "firstOf ps = opt_default [] (find (\<lambda>s. s \<noteq> []) (map strOf ps))"

text \<open>Errors of a lookup that the code passes over.\<close>

definition ok_or :: "'a \<Rightarrow> 'a dbres \<Rightarrow> 'a" where
  "ok_or x r = (case r of Inl _ \<Rightarrow> x | Inr y \<Rightarrow> y)"

definition rdns :: "'e explain_env_scheme \<Rightarrow> addr \<Rightarrow> string list" where
  "rdns e ip = (case lookup_addr e ip of None \<Rightarrow> [] | Some names \<Rightarrow> map (\<lambda>n. TrimSuffix n ''.'') names)"

text \<open>The name, what is known of it, and where that comes from with the number of the entry.\<close>

definition program_name :: "ProgramSummary \<Rightarrow> string \<Rightarrow> string" where
  "program_name s exe =
     (let n = (case su_names s of [] \<Rightarrow> [] | x # _ \<Rightarrow> x);
          n' = (if n = [] \<and> exe \<noteq> [] then path_Base (slashes exe) else n)
      in if n' = [] then unknown_process else n')"

definition user_known :: "KBEntry \<Rightarrow> Known" where
  "user_known m = known (kb_title m) (kb_category m) (kb_description m) (kb_expected m) (kb_verify m) (kb_risk m)"

definition known_program :: "'e env_scheme \<Rightarrow> string \<Rightarrow> string \<Rightarrow> string list \<Rightarrow> kb_db \<Rightarrow> Known option \<times> string \<times> int" where
  "known_program e name exe hashes d =
     (if exe = [] then (None, [], 0)
      else case MatchKB (ok_or [] (ListKB e d)) name exe hashes of
        Some m \<Rightarrow> (Some (user_known m), ''user'', kb_id m)
      | None \<Rightarrow> (case Lookup name exe of Some k \<Rightarrow> (Some k, ''builtin'', 0) | None \<Rightarrow> (None, [], 0)))"

definition agent_of :: "'e env_scheme \<Rightarrow> ExplainRequest \<Rightarrow> agent_db \<Rightarrow> Agent option" where
  "agent_of e req d =
     (if rq_agent req > 0 then ok_or None (AgentByID e (rq_agent req) d)
      else if rq_host req \<noteq> [] then (case inet_cast (rq_host req) of None \<Rightarrow> None | Some a \<Rightarrow> ok_or None (AgentForHost e a d))
      else None)"

text \<open>The first hash that something is known about.\<close>

fun first_intel :: "'e env_scheme \<Rightarrow> string list \<Rightarrow> agent_db \<Rightarrow> FileIntel option" where
  "first_intel e [] d = None"
| "first_intel e (h # hs) d =
     (if h = [] then first_intel e hs d
      else case ok_or None (FileIntelFor e h d) of Some f \<Rightarrow> Some f | None \<Rightarrow> first_intel e hs d)"

definition program_card :: "'e explain_env_scheme \<Rightarrow> ExplainRequest \<Rightarrow> ProgramSummary \<Rightarrow> evidence \<Rightarrow> Program" where
  "program_card e req s v =
     (let exe = rq_exe req; name = program_name s exe;
          agent = agent_of e req (ev_fleet v);
          os = (case agent of None \<Rightarrow> [] | Some a \<Rightarrow> ag_os a);
          ident = (case agent of None \<Rightarrow> None | Some a \<Rightarrow> if exe = [] then None else ok_or None (IdentityFor e (ag_id a) exe (ev_fleet v)));
          hashes = (case ident of None \<Rightarrow> su_hashes s | Some i \<Rightarrow> p_sha256 i # su_hashes s);
          lol = (if name = unknown_process then None else ok_or None (LOLBinFor e name os (ev_fleet v)))
      in case known_program e name exe (su_hashes s) (ev_kb v) of (k, src, num) \<Rightarrow>
        \<lparr>pg_name = name, pg_exe = exe, pg_user = rq_user req, pg_container = rq_container req, pg_os = os,
         pg_machine = (case agent of None \<Rightarrow> [] | Some a \<Rightarrow> ag_name a),
         pg_hashes = su_hashes s, pg_hosts = su_hosts s, pg_agents = su_agents s, pg_conns = su_conns s, pg_destinations = 0,
         pg_first = su_first s, pg_last = su_last s, pg_first_in = su_first_in s, pg_pids = su_pids s, pg_cmdline = su_cmdline s,
         pg_known = (case (k, lol) of (None, Some l) \<Rightarrow> Some (KnownFromLOLBin l) | _ \<Rightarrow> k),
         pg_source = (case (k, lol) of (None, Some l) \<Rightarrow> lb_source l | _ \<Rightarrow> src),
         pg_known_id = num, pg_identity = ident, pg_file = first_intel e hashes (ev_fleet v), pg_lolbin = lol\<rparr>)"

section \<open>Building a destination\<close>

definition reputation_text :: "Reputation \<Rightarrow> string" where
  "reputation_text r =
     (case (rp_source r = ''abuseipdb'', rp_source r = ''otx'', rp_score r) of
        (True, _, Some n) \<Rightarrow> ''AbuseIPDB '' @ Itoa n @ ''%''
      | (_, True, Some n) \<Rightarrow> ''OTX '' @ Itoa n @ '' pulse(s)''
      | _ \<Rightarrow> rp_source r @ '' flagged'')"

text \<open>What the enrichment knows: the destination without the live lookup.\<close>

definition enriched :: "'e explain_env_scheme \<Rightarrow> ProgramDest \<Rightarrow> intel_db \<Rightarrow> Destination" where
  "enriched e pd d =
     (let info = ok_or None (GetIPInfo e (pd_dst pd) d);
          get = (\<lambda>f. case info of None \<Rightarrow> [] | Some (i, _) \<Rightarrow> strOf (f i));
          flag = (\<lambda>f. case info of None \<Rightarrow> False | Some (i, _) \<Rightarrow> opt_default False (f i))
      in \<lparr>de_dst = AddrString (pd_dst pd), de_port = pd_port pd, de_proto = pd_proto pd, de_service = ServiceName (pd_port pd),
          de_conns = pd_conns pd, de_bytes = pd_bytes pd, de_first = pd_first pd, de_last = pd_last pd,
          de_hostname = get ii_hostname, de_names = map nm_name (ok_or [] (IPNames e (pd_dst pd) 5 d)), de_asn = get ii_asn,
          de_org = (case info of None \<Rightarrow> [] | Some (i, _) \<Rightarrow> firstOf [ii_as_org i, ii_org i, ii_isp i]),
          de_country = get ii_country_code, de_hosting = flag ii_hosting, de_proxy = flag ii_proxy,
          de_infra = Classify (get ii_org) (get ii_isp) (get ii_as_org) (get ii_hostname),
          de_lists = Some (ok_or [] (ThreatListsFor e (pd_dst pd) d)),
          de_vt = (case info of Some (_, Some r) \<Rightarrow> opt_default 0 (vt_malicious r) | _ \<Rightarrow> 0),
          de_reputation = map reputation_text (filter rp_flagged (ok_or [] (ReputationFor e (pd_dst pd) d))),
          de_other_programs = [], de_other_count = 0, de_other_hosts = 0, de_open_alerts = 0, de_alert_titles = [],
          de_ids_events = 0, de_notes = 0, de_trusted = [], de_beacon = None, de_flags = []\<rparr>)"

definition looked_up :: "string list \<Rightarrow> Destination \<Rightarrow> Destination" where
  "looked_up rd d =
     (case rd of [] \<Rightarrow> d
      | h # _ \<Rightarrow> d\<lparr>de_hostname := h, de_flags := de_flags d @ [''rdns-live''],
                   de_infra := (if in_class (de_infra d) = ''unknown'' then Classify [] [] [] h else de_infra d)\<rparr>)"

definition with_context :: "DestContext dbres \<Rightarrow> Destination \<Rightarrow> Destination" where
  "with_context r d =
     (case r of Inl _ \<Rightarrow> d
      | Inr c \<Rightarrow> d\<lparr>de_other_programs := dc_programs c, de_other_count := dc_program_count c, de_other_hosts := dc_hosts c,
                   de_open_alerts := dc_open_alerts c, de_alert_titles := dc_titles c, de_ids_events := dc_ids_events c,
                   de_notes := dc_notes c\<rparr>)"

definition with_flags :: "instant list \<Rightarrow> Destination \<Rightarrow> Destination" where
  "with_flags minutes d =
     (let d' = (case Beaconish minutes of (b, ok) \<Rightarrow>
                  if ok then d\<lparr>de_beacon := Some b, de_flags := de_flags d @ [''beacon-like'']\<rparr> else d)
      in if de_other_hosts d' = 0 \<and> de_other_count d' = 0 then d'\<lparr>de_flags := de_flags d' @ [''unique-to-this-program'']\<rparr> else d')"

definition destination ::
  "'e explain_env_scheme \<Rightarrow> ProgramKey \<Rightarrow> string list \<Rightarrow> Window \<Rightarrow> evidence \<Rightarrow> ProgramDest \<Rightarrow> nat \<Rightarrow> Destination \<times> nat" where
  "destination e k excl w v pd lookups =
     (let d0 = enriched e pd (ev_intel v);
          live = de_hostname d0 = [] \<and> lookups < 15;
          d1 = (if live then looked_up (rdns e (pd_dst pd)) d0 else d0);
          trusted = (case LoadExclusions e (ev_alerts v) of Inl _ \<Rightarrow> None | Inr s \<Rightarrow> Match s (de_dst d1) (de_hostname d1 # de_names d1));
          d2 = (case trusted of None \<Rightarrow> d1 | Some p \<Rightarrow> d1\<lparr>de_trusted := p\<rparr>);
          d3 = with_context (DestinationContextFor e (pd_dst pd) k excl w v) d2
      in (with_flags (pd_minutes pd) d3, if live then Suc lookups else lookups))"

fun destinations ::
  "'e explain_env_scheme \<Rightarrow> ProgramKey \<Rightarrow> string list \<Rightarrow> Window \<Rightarrow> evidence \<Rightarrow> ProgramDest list \<Rightarrow> nat \<Rightarrow> Destination list" where
  "destinations e k excl w v [] n = []"
| "destinations e k excl w v (pd # pds) n =
     (case destination e k excl w v pd n of (d, n') \<Rightarrow> d # destinations e k excl w v pds n')"

definition key_of :: "ExplainRequest \<Rightarrow> ProgramKey" where
  "key_of req = \<lparr>ky_agent = rq_agent req, ky_host = rq_host req, ky_exe = rq_exe req, ky_user = rq_user req, ky_container = rq_container req\<rparr>"

text \<open>The facts of a report, before they are assessed.\<close>

definition gathered :: "'e explain_env_scheme \<Rightarrow> ExplainRequest \<Rightarrow> evidence \<Rightarrow> Report dbres" where
  "gathered e req v =
     (let k = key_of req; w = rq_window req in
      bindE (ProgramSummaryFor e k w (ev_fleet v)) (\<lambda>s.
      bindE (ProgramDestinationsFor e k w 25 (ev_fleet v)) (\<lambda>pds.
        Inr \<lparr>re_program = (program_card e req s v)\<lparr>pg_destinations := length pds\<rparr>,
             re_destinations = destinations e k (su_hosts s @ (if rq_host req = [] then [] else [rq_host req])) w v pds 0,
             re_signals = [], re_assessment = (Expected, []), re_verify = [], re_window = w, re_generated = now_of e\<rparr>)))"

definition Build :: "'e explain_env_scheme \<Rightarrow> ExplainRequest \<Rightarrow> evidence \<Rightarrow> Report dbres" where
  "Build e req v =
     bindE (gathered e req v) (\<lambda>rep.
       let r = Assess (proc_zone e) (now_of e) rep in Inr (r\<lparr>re_verify := verifyCommands r\<rparr>))"

section \<open>The handler\<close>

text \<open>The parameter \<open>exe\<close> may be empty but must be there.\<close>

definition explainProgram ::
  "'e explain_env_scheme \<Rightarrow> string \<Rightarrow> string \<Rightarrow> string option \<Rightarrow> string \<Rightarrow> string \<Rightarrow> string \<Rightarrow> string \<Rightarrow> evidence \<Rightarrow> Report reply" where
  "explainProgram e agent host exe user container since until v =
     (case (if agent \<noteq> [] then (case Atoi agent of None \<Rightarrow> Inl ''bad agent id'' | Some i \<Rightarrow> Inr (i, []))
            else if host \<noteq> [] then (case parseIP host of None \<Rightarrow> Inl ''invalid ip address'' | Some a \<Rightarrow> Inr (0, AddrString a))
            else Inl ''agent or host is required'') of
        Inl msg \<Rightarrow> ErrMsg 400 msg
      | Inr (i, ip) \<Rightarrow>
     (case exe of None \<Rightarrow> ErrMsg 400 ''exe is required (may be empty for the unknown-process group)''
      | Some x \<Rightarrow>
     (case window (now_of e) since until of Inl msg \<Rightarrow> ErrMsg 400 msg
      | Inr w \<Rightarrow>
     (case Build e \<lparr>rq_agent = i, rq_host = ip, rq_exe = x, rq_user = user, rq_container = container, rq_window = w\<rparr> v of
        Inl err \<Rightarrow> fail err
      | Inr rep \<Rightarrow> Json 200 rep))))"

text \<open>\<open>hostProcesses\<close>: the programs that connected from an address, or those that contacted it, with the labels for each peer and
  the number of active agents.\<close>

definition hostProcesses ::
  "'e env_scheme \<Rightarrow> string \<Rightarrow> string \<Rightarrow> string \<Rightarrow> string \<Rightarrow> agent_db
     \<Rightarrow> (ProcessStat list \<times> (addr \<times> string list) list \<times> nat \<times> string) reply" where
  "hostProcesses e ipq since until limit d =
     (case parseIP ipq of None \<Rightarrow> ErrMsg 400 ''invalid ip address''
      | Some ip \<Rightarrow>
     (case window (now_of e) since until of Inl msg \<Rightarrow> ErrMsg 400 msg
      | Inr w \<Rightarrow>
     (case bindE (HostProcesses e ip w (qInt limit 50) d) (\<lambda>here.
           bindE (if here = [] then bindE (ProcessesTowards e ip w (qInt limit 50) d) (\<lambda>ps. Inr (ps, ''to'')) else Inr (here, ''from''))
             (\<lambda>(items, dir). bindE (ProcessesForPeers e ip w d) (\<lambda>via. Inr (items, via, ok_or 0 (CountActiveAgents e d), dir)))) of
        Inl err \<Rightarrow> fail err
      | Inr x \<Rightarrow> Json 200 x)))"

end
