(* ===== verification/ExplainSafety.thy ===== *)
theory ExplainSafety
  imports ExplainBuild
begin

text \<open>
  Properties of the write-up of a program: its verdict is the worst of its signals, which come in the order of their weight and
  never from a trusted destination, and what is reported of a destination.
\<close>

section \<open>The order of the levels\<close>

instantiation level :: linorder
begin

definition less_eq_level :: "level \<Rightarrow> level \<Rightarrow> bool" where "less_eq_level a b \<longleftrightarrow> rank a \<le> rank b"
definition less_level :: "level \<Rightarrow> level \<Rightarrow> bool" where "less_level a b \<longleftrightarrow> rank a < rank b"

instance
  by standard (auto simp: less_eq_level_def less_level_def rank_def split: level.splits)

end

lemma level_order [simp]: "Info \<le> l" "l \<le> Critical" "Info < Warn" "Warn < Critical" "Info < Critical"
  by (cases l; simp add: less_eq_level_def less_level_def rank_def)+

definition worst :: "verdict \<Rightarrow> level" where
  "worst v = (case v of Expected \<Rightarrow> Info | Review \<Rightarrow> Warn | Suspicious \<Rightarrow> Critical)"

lemma count_level_pos: "count_level l s > 0 \<longleftrightarrow> l \<in> fst ` set s"
  by (force simp: count_level_def filter_empty_conv image_iff simp flip: length_greater_0_conv)

lemma verdict_worst:
  assumes "s \<noteq> []"
  shows "worst (fst (verdict_of p s)) = Max (fst ` set s)"
proof -
  have M: "Max (fst ` set s) = l \<longleftrightarrow> l \<in> fst ` set s \<and> (\<forall>x \<in> fst ` set s. x \<le> l)" for l
    using assms by (intro Max_eq_iff) auto
  consider "Critical \<in> fst ` set s" | "Critical \<notin> fst ` set s" "Warn \<in> fst ` set s" | "fst ` set s \<subseteq> {Info}"
  proof -
    have "\<forall>x \<in> fst ` set s. x = Info \<or> x = Warn \<or> x = Critical" by (metis level.exhaust)
    then have "x \<in> {Info}" if "Critical \<notin> fst ` set s" "Warn \<notin> fst ` set s" "x \<in> fst ` set s" for x
      using that by (metis insertI1)
    then have "fst ` set s \<subseteq> {Info}" if "Critical \<notin> fst ` set s" "Warn \<notin> fst ` set s" using that by (meson subsetI)
    with that show ?thesis by metis
  qed
  then show ?thesis
  proof cases
    case 1
    then have "Max (fst ` set s) = Critical" by (subst M) simp
    with 1 show ?thesis by (simp add: verdict_of_def Let_def count_level_pos worst_def)
  next
    case 2
    have "x \<le> Warn" if "x \<in> fst ` set s" for x
      using that 2(1) by (cases x) (simp_all add: less_imp_le)
    with 2 have "Max (fst ` set s) = Warn" by (subst M) blast
    with 2 show ?thesis by (simp add: verdict_of_def Let_def count_level_pos worst_def)
  next
    case 3
    with assms have "fst ` set s = {Info}" by (cases s) auto
    then show ?thesis by (simp add: verdict_of_def Let_def count_level_pos worst_def)
  qed
qed

lemma signals_nonempty: "all_signals tz now rep \<noteq> []"
  by (simp add: all_signals_def Let_def)

lemma untrusted_signals:
  "concat (map destination_signals ds) = concat (map destination_signals (filter (\<lambda>d. de_trusted d = []) ds))"
  by (induction ds) (simp_all add: destination_signals_def)

lemma sorted_levels: "sorted (rev (map fst (sort_key (\<lambda>x. - int (rank (fst x))) s)))" for s :: "Signal list"
proof -
  have "sorted (map (\<lambda>x. - int (rank (fst x))) (sort_key (\<lambda>x. - int (rank (fst x))) s))" by simp
  then show ?thesis
    by (simp add: sorted_map sorted_wrt_rev sorted_wrt_map less_eq_level_def)
qed

text \<open>C39: The verdict of a report is the worst level of its signals, the signals come with the weightiest first, and there is at
  least one. A destination on the trusted list contributes none: signals and verdict are those of the report without it.\<close>

theorem verdict_is_worst_signal:
  assumes "Build e req v = Inr rep"
  shows "re_signals rep \<noteq> [] \<and> sorted (rev (map fst (re_signals rep))) \<and>
     worst (fst (re_assessment rep)) = Max (fst ` set (re_signals rep)) \<and>
     (let bare = Assess (proc_zone e) (now_of e) (rep\<lparr>re_destinations := filter (\<lambda>d. de_trusted d = []) (re_destinations rep)\<rparr>)
      in re_signals rep = re_signals bare \<and> re_assessment rep = re_assessment bare)"
proof -
  obtain g where g: "rep = (Assess (proc_zone e) (now_of e) g)\<lparr>re_verify := verifyCommands (Assess (proc_zone e) (now_of e) g)\<rparr>"
    using assms by (auto simp: Build_def bindE_Inr_iff Let_def)
  let ?s = "all_signals (proc_zone e) (now_of e) g"
  have parts: "re_signals rep = sort_key (\<lambda>x. - int (rank (fst x))) ?s" "re_assessment rep = verdict_of (re_program g) ?s"
    "re_program rep = re_program g" "re_destinations rep = re_destinations g"
    by (simp_all add: g Assess_def Let_def)
  have "all_signals (proc_zone e) (now_of e) (rep\<lparr>re_destinations := filter (\<lambda>d. de_trusted d = []) (re_destinations rep)\<rparr>) = ?s"
    by (simp add: all_signals_def parts Let_def flip: untrusted_signals)
  moreover have "re_signals rep \<noteq> []" using signals_nonempty [of "proc_zone e" "now_of e" g] unfolding parts
    by (metis length_0_conv length_sort)
  ultimately show ?thesis
    using signals_nonempty [of "proc_zone e" "now_of e" g]
    by (simp add: parts sorted_levels verdict_worst Assess_def Let_def)
qed

section \<open>What is reported of a destination\<close>

lemma kept_lists [simp]:
  "de_lists (with_flags m d) = de_lists d" "de_lists (with_context r d) = de_lists d" "de_lists (looked_up rd d) = de_lists d"
  by (simp_all add: with_flags_def with_context_def looked_up_def Let_def split: prod.split sum.split list.split)

lemma destination_lists: "de_lists (fst (destination e k excl w v pd n)) = Some (ok_or [] (ThreatListsFor e (pd_dst pd) (ev_intel v)))"
  by (simp add: destination_def Let_def split: option.split) (simp add: enriched_def Let_def)

lemma destinations_lists: "d \<in> set (destinations e k excl w v pds n) \<Longrightarrow> de_lists d \<noteq> None"
proof (induction pds arbitrary: n)
  case (Cons pd pds)
  obtain d' n' where "destination e k excl w v pd n = (d', n')" by (cases "destination e k excl w v pd n")
  with Cons destination_lists [of e k excl w v pd n] show ?case by auto
qed simp

text \<open>An address that only this program contacts is never reported as such. In every report that is built the check for a
  destination without other contacts, reverse name and list entry stays silent, since it asks for a nil slice of lists
  while the builder always makes one: whatever the destination is like, its signals are the others.\<close>

theorem lonely_destination_unreported:
  assumes "Build e req v = Inr rep" and "d \<in> set (re_destinations rep)"
  shows "lonely_signals d = [] \<and> destination_signals d = (if de_trusted d = [] then bad_signals d @ port_signals d else [])"
proof -
  have "de_lists d \<noteq> None"
    using assms destinations_lists by (auto simp: Build_def gathered_def bindE_Inr_iff Let_def Assess_def)
  then have "lonely_signals d = []" by (simp add: lonely_signals_def)
  then show ?thesis by (simp add: destination_signals_def)
qed

section \<open>Examples\<close>

definition quiet_explain :: explain_env where
  "quiet_explain = \<lparr>now_of = 9, fault = (\<lambda>_. False), proc_zone = (\<lambda>_. 0), session_zone = (\<lambda>_. 0), lookup_addr = (\<lambda>_. None)\<rparr>"

definition one_contact :: conn_row where
  "one_contact = \<lparr>cr_agent = 1, cr_minute = 5, cr_host = v4 10 0 0 5, cr_proto = ''tcp'', cr_dst = v4 203 0 113 9, cr_port = 443, cr_exe = ''/opt/x'',
     cr_name = ''x'', cr_user = [], cr_sha256 = [], cr_pid = 7, cr_cmdline = [], cr_container = [], cr_count = 1, cr_bytes = 0\<rparr>"

definition bare_evidence :: evidence where
  "bare_evidence = \<lparr>ev_fleet = empty_agent_db\<lparr>conns := [one_contact]\<rparr>, ev_alerts = empty_alert_db, ev_intel = empty_intel,
     ev_rollup = \<lparr>host_hourly = [], host_peer_daily = []\<rparr>, ev_kb = \<lparr>kb_entries = [], kb_seq = 0\<rparr>\<rparr>"

definition bare_request :: ExplainRequest where
  "bare_request = \<lparr>rq_agent = 1, rq_host = [], rq_exe = ''/opt/x'', rq_user = [], rq_container = [], rq_window = \<lparr>Since = 0, Until = 9\<rparr>\<rparr>"

lemma quiet_explain_simps [simp]:
  "now_of quiet_explain = 9" "\<not> fault quiet_explain s" "db_read quiet_explain k x = Inr x" "lookup_addr quiet_explain a = None"
  by (simp_all add: quiet_explain_def db_read_def)

lemma bare_key: "conds (key_of bare_request) = Inr (\<lambda>c. cr_agent c = 1 \<and> same_program (key_of bare_request) c)"
  "same_program (key_of bare_request) one_contact"
  by (simp_all add: conds_def key_of_def bare_request_def same_program_def one_contact_def)

lemma bare_dests: "ProgramDestinationsFor quiet_explain (key_of bare_request) (rq_window bare_request) 25 (ev_fleet bare_evidence) =
   Inr [program_dest ((v4 203 0 113 9, 443, ''tcp''), [one_contact])]"
  using bare_key by (simp add: ProgramDestinationsFor_def bare_evidence_def group_rows_def limit_rows_def in_minutes_def bare_request_def one_contact_def)

lemma bare_summary: "\<exists>s. ProgramSummaryFor quiet_explain (key_of bare_request) (rq_window bare_request) (ev_fleet bare_evidence) = Inr s \<and> su_hosts s = [AddrString (v4 10 0 0 5)]"
  using bare_key by (simp add: ProgramSummaryFor_def bare_evidence_def summary_of_def Let_def one_contact_def)

lemma bare_destination:
  "\<exists>d n. destination quiet_explain (key_of bare_request) [AddrString (v4 10 0 0 5)] (rq_window bare_request) bare_evidence
     (program_dest ((v4 203 0 113 9, 443, ''tcp''), [one_contact])) 0 = (d, n) \<and> lonely d"
proof -
  have c: "in_class (Classify [] [] [] []) = ''unknown''" by code_simp
  have b: "Beaconish [5] = (\<lparr>cd_contacts = 1, cd_gap = 0, cd_cv = 0\<rparr>, False)" by code_simp
  let ?e = "enriched quiet_explain (program_dest ((v4 203 0 113 9, 443, ''tcp''), [one_contact])) empty_intel"
  have e: "de_hostname ?e = []" "de_names ?e = []" "in_class (de_infra ?e) = ''unknown''"
    by (simp_all add: enriched_def Let_def GetIPInfo_def IPNames_def Intel.names_of_def empty_intel_def ok_or_def c)
  have m: "LoadExclusions quiet_explain empty_alert_db = Inr \<lparr>x_ips = [], x_cidrs = [], x_names = []\<rparr>"
    by (simp add: LoadExclusions_def ListExclusions_def empty_alert_db_def NewExclusionSet_def)
  have x: "Match \<lparr>x_ips = [], x_cidrs = [], x_names = []\<rparr> ip ns = None" for ip ns
    using MatchIP_empty by (simp add: Match_def set_Empty_def)
  have d: "DestinationContextFor quiet_explain (v4 203 0 113 9) (key_of bare_request) [AddrString (v4 10 0 0 5)] (rq_window bare_request) bare_evidence =
      Inr \<lparr>dc_programs = [], dc_program_count = 0, dc_hosts = 0, dc_open_alerts = 0, dc_titles = [], dc_ids_events = 0, dc_notes = 0\<rparr>"
    using bare_key(2)
    by (simp add: DestinationContextFor_def Let_def others_towards_def bare_evidence_def other_labels_def other_hosts_def distinct_count_def
        group_rows_def empty_alert_db_def empty_intel_def one_contact_def)
  have v: "ev_intel bare_evidence = empty_intel" "ev_alerts bare_evidence = empty_alert_db" by (simp_all add: bare_evidence_def)
  have p: "pd_dst (program_dest ((v4 203 0 113 9, 443, ''tcp''), [one_contact])) = v4 203 0 113 9"
    "pd_minutes (program_dest ((v4 203 0 113 9, 443, ''tcp''), [one_contact])) = [5]"
    by (simp_all add: program_dest_def one_contact_def)
  show ?thesis
    by (simp add: destination_def Let_def v p e rdns_def looked_up_def m x d with_context_def with_flags_def b lonely_def obscure_def)
qed

lemma bare_report:
  "\<exists>rep d. Build quiet_explain bare_request bare_evidence = Inr rep \<and> re_destinations rep = [d] \<and> lonely d"
proof -
  obtain s where s: "ProgramSummaryFor quiet_explain (key_of bare_request) (rq_window bare_request) (ev_fleet bare_evidence) = Inr s"
    "su_hosts s = [AddrString (v4 10 0 0 5)]"
    using bare_summary by blast
  obtain d n where d: "destination quiet_explain (key_of bare_request) [AddrString (v4 10 0 0 5)] (rq_window bare_request) bare_evidence
     (program_dest ((v4 203 0 113 9, 443, ''tcp''), [one_contact])) 0 = (d, n)" "lonely d"
    using bare_destination by blast
  have "rq_host bare_request = []" by (simp add: bare_request_def)
  with s d show ?thesis by (simp add: Build_def gathered_def Let_def bare_dests Assess_def)
qed

theorem lonely_destination_unreported_witness:
  "\<exists>rep d. Build quiet_explain bare_request bare_evidence = Inr rep \<and> d \<in> set (re_destinations rep) \<and> lonely d \<and> lonely_signals d = []"
proof -
  obtain rep d where r: "Build quiet_explain bare_request bare_evidence = Inr rep" "re_destinations rep = [d]" "lonely d"
    using bare_report by blast
  then have "d \<in> set (re_destinations rep)" by simp
  from lonely_destination_unreported [OF r(1) this] r \<open>d \<in> set (re_destinations rep)\<close> show ?thesis by blast
qed

theorem verdict_is_worst_signal_witness:
  "\<exists>rep. Build quiet_explain bare_request bare_evidence = Inr rep \<and> worst (fst (re_assessment rep)) = Max (fst ` set (re_signals rep))"
proof -
  obtain rep where r: "Build quiet_explain bare_request bare_evidence = Inr rep" using bare_report by blast
  from verdict_is_worst_signal [OF r] r show ?thesis by blast
qed

end
