(* ===== verification/ApiTraffic.thy ===== *)
theory ApiTraffic
  imports ApiWindow Scheduler
begin

text \<open>
  The handlers of \<open>internal/api/api.go\<close> for traffic, addresses, nicknames, notes, IDS events and enrichment, with the
  host roll-up query (\<open>internal/db/rollups.go\<close>) and the lane statistics (\<open>internal/scheduler/scheduler.go\<close>) they show.
  The tables are those of the worker's state; whether there is a worker is a parameter, and so is the decoded body of a
  request (\<open>None\<close> where it cannot be decoded). A parameter of the query that is absent is the empty text.
\<close>

section \<open>Values\<close>

record HourlyPoint =
  hp_hour :: instant
  hp_in :: int
  hp_out :: int
  hp_flows :: int
  hp_peers :: int

record LaneStats =
  la_enabled :: bool
  la_provider :: string
  la_lane :: lane
  la_refresh :: duration
  la_daily :: int
  la_used :: int
  la_monthly :: int
  la_used_month :: int
  la_hit :: bool

type_synonym info_row = "IPInfo \<times> VTResult option"

text \<open>The record of an address with its names, reputations and threat lists.\<close>

type_synonym decorated = "info_row \<times> name_row list \<times> Reputation list \<times> string list"

type_synonym host_row = "HostStat \<times> HostRisk option"

record overview_page =
  op_window :: Window
  op_interval :: int
  op_totals :: Totals
  op_series :: "Bucket list"
  op_protocols :: "ProtoStat list"
  op_ports :: "PortStat list"
  op_local :: "HostStat list"
  op_external :: "HostStat list"
  op_countries :: "GroupStat list"
  op_threats :: "Threat list"
  op_alerts :: AlertSummary

record host_page =
  hd_host :: HostStat
  hd_info :: "decorated option"
  hd_risk :: "HostRisk option"
  hd_kind :: string
  hd_peers :: "host_row list"
  hd_ports :: "PortStat list"
  hd_series :: "Bucket list"
  hd_alerts :: "(Alert \<times> string option \<times> string option) list"
  hd_ids :: "(IDSEvent \<times> string option \<times> string option) list"
  hd_hourly :: "HourlyPoint list"
  hd_window :: Window
  hd_interval :: int

datatype traffic_value =
    VMeta "string list" "(instant \<times> instant) option" bool instant
  | VOverview overview_page
  | VSeries int "Bucket list"
  | VProtocols "ProtoStat list"
  | VPorts "PortStat list"
  | VHosts "host_row list" int int int
  | VHost host_page
  | VFlows "(flow \<times> string option \<times> string option \<times> string) list" int int
  | VGroups "GroupStat list"
  | VInfos "info_row list"
  | VInfo decorated
  | VRefreshed "info_row option" bool
  | VThreats "Threat list"
  | VNicknames "Nickname list"
  | VNickname Nickname
  | VStatus bool EnrichmentStatus "FileIntelStats option" "(string \<times> LaneStats) list option"
  | VProcessed int
  | VQueued
  | VEvents "(IDSEvent \<times> string option \<times> string option) list"
  | VEvent "IDSEvent \<times> string option \<times> string option"
  | VIDSSummary "IDSSignatureStat list" int bool "instant option"
  | VNames "name_row list"
  | VNotes "IPNote list"
  | VNote IPNote
  | VNoteDeleted int

type_synonym traffic_answer = "traffic_value reply"

definition answer :: "('a \<Rightarrow> traffic_value) \<Rightarrow> 'a dbres \<Rightarrow> traffic_answer" where
  "answer f r = (case r of Inl err \<Rightarrow> fail err | Inr x \<Rightarrow> Json 200 (f x))"

text \<open>A handler that needs a window, and one that needs an address.\<close>

definition with_window :: "'e env_scheme \<Rightarrow> string \<Rightarrow> string \<Rightarrow> (Window \<Rightarrow> 'v reply) \<Rightarrow> 'v reply" where
  "with_window e since until h = (case window (now_of e) since until of Inl msg \<Rightarrow> ErrMsg 400 msg | Inr w \<Rightarrow> h w)"

definition with_ip :: "string \<Rightarrow> (addr \<Rightarrow> 'v reply) \<Rightarrow> 'v reply" where
  "with_ip raw h = (case parseIP raw of None \<Rightarrow> ErrMsg 400 ''invalid ip address'' | Some a \<Rightarrow> h a)"

text \<open>An optional address: absent is the empty text.\<close>

definition with_opt_ip :: "string \<Rightarrow> (addr option \<Rightarrow> 'v reply) \<Rightarrow> 'v reply" where
  "with_opt_ip raw h = (if raw = [] then h None else with_ip raw (\<lambda>a. h (Some a)))"

text \<open>\<open>int(d.Seconds())\<close>\<close>

definition whole_seconds :: "duration \<Rightarrow> int" where
  "whole_seconds d = (if d < 0 then - ((- d) div Second) else d div Second)"

section \<open>Traffic\<close>

definition meta :: "'e env_scheme \<Rightarrow> Config \<Rightarrow> Worker \<Rightarrow> traffic_answer" where
  "meta e c w = answer (\<lambda>r. VMeta (LocalNetworksCIDR c) r (EnrichEnabled c) (now_of e)) (DataRange e (wk_acct w))"

definition top_hosts :: "bool \<Rightarrow> HostsOptions" where
  "top_hosts l = \<lparr>hq_local = Some l, hq_sort = [], hq_asc = False, hq_search = [], hq_country = [], hq_asn = [], hq_limit = 10, hq_offset = 0\<rparr>"

definition overview_of :: "'e env_scheme \<Rightarrow> Config \<Rightarrow> Window \<Rightarrow> Worker \<Rightarrow> overview_page dbres" where
  "overview_of e c win w =
     (let nets = LocalNetworks c; acct = wk_acct w; d = wk_intel w; interval = autoInterval win in
      bindE (Overview e win nets acct) (\<lambda>totals.
      bindE (Timeseries e win interval nets None acct) (\<lambda>series.
      bindE (Protocols e win 10 acct) (\<lambda>protos.
      bindE (Ports e win 10 acct) (\<lambda>ports.
      bindE (Hosts e win nets (top_hosts True) acct d) (\<lambda>(local_rows, _).
      bindE (Hosts e win nets (top_hosts False) acct d) (\<lambda>(external_rows, _).
      bindE (GroupBy e win nets ''country'' 10 acct d) (\<lambda>countries.
      bindE (Threats e win nets 10 acct d) (\<lambda>threats.
      bindE (AlertSummary_of e (wk_alerts w)) (\<lambda>sum.
        Inr \<lparr>op_window = win, op_interval = whole_seconds interval, op_totals = totals, op_series = series, op_protocols = protos,
             op_ports = ports, op_local = local_rows, op_external = external_rows, op_countries = countries, op_threats = threats,
             op_alerts = sum\<rparr>))))))))))"

definition overview :: "'e env_scheme \<Rightarrow> Config \<Rightarrow> string \<Rightarrow> string \<Rightarrow> Worker \<Rightarrow> traffic_answer" where
  "overview e c since until w = with_window e since until (\<lambda>win. answer VOverview (overview_of e c win w))"

definition timeseries :: "'e env_scheme \<Rightarrow> Config \<Rightarrow> string \<Rightarrow> string \<Rightarrow> string \<Rightarrow> string \<Rightarrow> Worker \<Rightarrow> traffic_answer" where
  "timeseries e c since until interval ip w =
     with_window e since until (\<lambda>win.
       case (if interval = [] then Some (autoInterval win) else ParseDuration interval) of
         None \<Rightarrow> ErrMsg 400 ''bad interval''
       | Some step \<Rightarrow> with_opt_ip ip (\<lambda>a. answer (VSeries (whole_seconds step)) (Timeseries e win step (LocalNetworks c) a (wk_acct w))))"

definition protocols :: "'e env_scheme \<Rightarrow> string \<Rightarrow> string \<Rightarrow> string \<Rightarrow> Worker \<Rightarrow> traffic_answer" where
  "protocols e since until limit w =
     with_window e since until (\<lambda>win. answer VProtocols (Protocols e win (qInt limit 25) (wk_acct w)))"

definition ports :: "'e env_scheme \<Rightarrow> string \<Rightarrow> string \<Rightarrow> string \<Rightarrow> Worker \<Rightarrow> traffic_answer" where
  "ports e since until limit w = with_window e since until (\<lambda>win. answer VPorts (Ports e win (qInt limit 25) (wk_acct w)))"

text \<open>\<open>attachRisk\<close> passes over an error.\<close>

definition attachRisk :: "'e env_scheme \<Rightarrow> alert_db \<Rightarrow> HostStat list \<Rightarrow> host_row list" where
  "attachRisk e d items =
     (case HostRisks e d of Inl _ \<Rightarrow> map (\<lambda>h. (h, None)) items | Inr risks \<Rightarrow> map (\<lambda>h. (h, map_of risks (ho_ip h))) items)"

definition scope_of :: "string \<Rightarrow> bool option" where
  "scope_of s = (if s = ''local'' then Some True else if s = ''external'' then Some False else None)"

definition hosts ::
  "'e env_scheme \<Rightarrow> Config \<Rightarrow> string \<Rightarrow> string \<Rightarrow> string \<Rightarrow> string \<Rightarrow> string \<Rightarrow> string \<Rightarrow> string \<Rightarrow> string \<Rightarrow> string \<Rightarrow> string \<Rightarrow> Worker
     \<Rightarrow> traffic_answer" where
  "hosts e c since until scope sort_by order q country asn limit offset w =
     with_window e since until (\<lambda>win.
       let o1 = \<lparr>hq_local = scope_of scope, hq_sort = sort_by, hq_asc = (order = ''asc''), hq_search = q, hq_country = country, hq_asn = asn,
                 hq_limit = qInt limit 50, hq_offset = qInt offset 0\<rparr>
       in answer (\<lambda>(items, total). VHosts (attachRisk e (wk_alerts w) items) total (hq_limit o1) (hq_offset o1))
            (Hosts e win (LocalNetworks c) o1 (wk_acct w) (wk_intel w)))"

definition flows ::
  "'e env_scheme \<Rightarrow> string \<Rightarrow> string \<Rightarrow> string \<Rightarrow> string \<Rightarrow> string \<Rightarrow> string \<Rightarrow> string \<Rightarrow> Worker \<Rightarrow> traffic_answer" where
  "flows e since until ip port proto limit offset w =
     with_window e since until (\<lambda>win. with_opt_ip ip (\<lambda>a.
       let o1 = \<lparr>fo_ip = a, fo_port = qInt port 0, fo_proto = qInt proto 0, fo_limit = qInt limit 200, fo_offset = qInt offset 0\<rparr>
       in answer (\<lambda>items. VFlows items (fo_limit o1) (fo_offset o1)) (Flows e win o1 (nick_of (wk_intel w)) (wk_acct w))))"

text \<open>An unknown dimension is the client's error.\<close>

definition groups :: "'e env_scheme \<Rightarrow> Config \<Rightarrow> string \<Rightarrow> string \<Rightarrow> string \<Rightarrow> string \<Rightarrow> Worker \<Rightarrow> traffic_answer" where
  "groups e c since until dim limit w =
     with_window e since until (\<lambda>win.
       case GroupBy e win (LocalNetworks c) dim (qInt limit 25) (wk_acct w) (wk_intel w) of
         Inl (DbError m) \<Rightarrow> if HasPrefix m ''unknown dimension'' then ErrMsg 400 m else fail (DbError m)
       | Inl Canceled \<Rightarrow> fail Canceled
       | Inr items \<Rightarrow> Json 200 (VGroups items))"

definition threats :: "'e env_scheme \<Rightarrow> Config \<Rightarrow> string \<Rightarrow> string \<Rightarrow> string \<Rightarrow> Worker \<Rightarrow> traffic_answer" where
  "threats e c since until limit w =
     with_window e since until (\<lambda>win.
       answer VThreats (Threats e win (LocalNetworks c) (qInt limit 100) (wk_acct w) (wk_intel w)))"

section \<open>One host\<close>

definition HostHourly :: "'e env_scheme \<Rightarrow> addr \<Rightarrow> instant \<Rightarrow> rollup_db \<Rightarrow> HourlyPoint list dbres" where
  "HostHourly e ip since r =
     db_read e [''HostHourly'']
       (map (\<lambda>((h, t), row). \<lparr>hp_hour = t, hp_in = hr_in row, hp_out = hr_out row, hp_flows = hr_flows row, hp_peers = hr_peers row\<rparr>)
         (sort_key (\<lambda>x. snd (fst x)) (filter (\<lambda>((h, t), _). h = ip \<and> t \<ge> since) (host_hourly r))))"

definition add_peer :: "HostStat \<Rightarrow> HostStat \<Rightarrow> HostStat" where
  "add_peer s p =
     s\<lparr>ho_in := ho_in s + ho_in p, ho_out := ho_out s + ho_out p, ho_bytes := ho_bytes s + ho_bytes p,
       ho_packets := ho_packets s + ho_packets p, ho_flows := ho_flows s + ho_flows p,
       ho_first := (if ho_first s = zero_time \<or> ho_first p < ho_first s then ho_first p else ho_first s),
       ho_last := (if ho_last p > ho_last s then ho_last p else ho_last s)\<rparr>"

definition host_sum :: "Config \<Rightarrow> addr \<Rightarrow> HostStat list \<Rightarrow> info_row option \<Rightarrow> HostStat" where
  "host_sum c ip peers rec =
     (foldl add_peer
        \<lparr>ho_ip = ip, ho_nick = None, ho_local = IsLocal c ip, ho_in = 0, ho_out = 0, ho_bytes = 0, ho_packets = 0, ho_flows = 0,
         ho_peers = 0, ho_first = zero_time, ho_last = zero_time, ho_names = [], ho_info = None\<rparr> peers)
     \<lparr>ho_peers := int (length peers), ho_info := rec\<rparr>"

definition decorateInfo :: "'e env_scheme \<Rightarrow> info_row \<Rightarrow> intel_db \<Rightarrow> decorated dbres" where
  "decorateInfo e rec d =
     bindE (IPNames e (ii_ip (fst rec)) 20 d) (\<lambda>names.
     bindE (ReputationFor e (ii_ip (fst rec)) d) (\<lambda>rs.
     bindE (ThreatListsFor e (ii_ip (fst rec)) d) (\<lambda>lists. Inr (rec, names, rs, lists))))"

text \<open>The names of the summary and its decorated record. A listed external address without a record gets an empty one.\<close>

definition decorateIP :: "'e env_scheme \<Rightarrow> addr \<Rightarrow> HostStat \<Rightarrow> intel_db \<Rightarrow> (HostStat \<times> decorated option) dbres" where
  "decorateIP e ip h d =
     bindE (IPNames e ip 5 d) (\<lambda>names.
       let h' = h\<lparr>ho_names := map nm_name names\<rparr> in
       case ho_info h of
         Some rec \<Rightarrow> bindE (decorateInfo e rec d) (\<lambda>x. Inr (h', Some x))
       | None \<Rightarrow>
           if ho_local h then Inr (h', None)
           else bindE (ThreatListsFor e ip d) (\<lambda>lists.
             Inr (h', if lists = [] then None else Some ((new_info zero_time ip, None), [], [], lists))))"

definition active_of :: "addr \<Rightarrow> AlertsOptions" where
  "active_of ip = \<lparr>o_state = ''active'', o_severity = [], o_rule = [], o_host = Some ip, o_since = None, o_limit = 50, o_offset = 0\<rparr>"

definition host_page_of :: "'e env_scheme \<Rightarrow> Config \<Rightarrow> addr \<Rightarrow> Window \<Rightarrow> int \<Rightarrow> Worker \<Rightarrow> host_page dbres" where
  "host_page_of e c ip win limit w =
     (let nets = LocalNetworks c; acct = wk_acct w; d = wk_intel w; interval = autoInterval win in
      bindE (HostPeers e win nets ip limit acct d) (\<lambda>peers.
      bindE (HostPorts e win ip 25 acct) (\<lambda>ports.
      bindE (Timeseries e win interval nets (Some ip) acct) (\<lambda>series.
      bindE (GetIPInfo e ip d) (\<lambda>rec.
      bindE (GetNickname e ip d) (\<lambda>nick.
      bindE (decorateIP e ip ((host_sum c ip peers rec)\<lparr>ho_nick := map_option nk_name nick\<rparr>) d) (\<lambda>(host, dec).
      bindE (ListAlerts e (active_of ip) (with_shared d (wk_alerts w))) (\<lambda>(as, _).
      bindE (ListIDSEvents e \<lparr>io_since = Since win, io_ip = Some ip, io_sid = 0, io_limit = 50, io_offset = 0, io_raw = False\<rparr> d) (\<lambda>evs.
      bindE (HostHourly e ip (now_of e - 7 * 24 * Hour) (wk_rollup w)) (\<lambda>hourly.
        Inr \<lparr>hd_host = host, hd_info = dec,
             hd_risk = (case HostRisks e (wk_alerts w) of Inl _ \<Rightarrow> None | Inr risks \<Rightarrow> map_of risks ip),
             hd_kind = (case nick of None \<Rightarrow> [] | Some n \<Rightarrow> nk_kind n), hd_peers = attachRisk e (wk_alerts w) peers, hd_ports = ports,
             hd_series = series, hd_alerts = as, hd_ids = evs, hd_hourly = hourly, hd_window = win, hd_interval = whole_seconds interval\<rparr>))))))))))"

definition hostDetail :: "'e env_scheme \<Rightarrow> Config \<Rightarrow> string \<Rightarrow> string \<Rightarrow> string \<Rightarrow> string \<Rightarrow> Worker \<Rightarrow> traffic_answer" where
  "hostDetail e c ipq since until limit w =
     with_ip ipq (\<lambda>ip. with_window e since until (\<lambda>win. answer VHost (host_page_of e c ip win (qInt limit 100) w)))"

section \<open>Addresses\<close>

definition listIPs :: "'e env_scheme \<Rightarrow> string \<Rightarrow> string \<Rightarrow> string \<Rightarrow> Worker \<Rightarrow> traffic_answer" where
  "listIPs e q limit offset w = answer VInfos (ListIPInfo e q (qInt limit 100) (qInt offset 0) (wk_intel w))"

definition getIP :: "'e env_scheme \<Rightarrow> string \<Rightarrow> Worker \<Rightarrow> traffic_answer" where
  "getIP e ipq w =
     with_ip ipq (\<lambda>ip.
       case GetIPInfo e ip (wk_intel w) of
         Inl err \<Rightarrow> fail err
       | Inr None \<Rightarrow> ErrMsg 404 (''no enrichment data for '' @ AddrString ip)
       | Inr (Some rec) \<Rightarrow> answer VInfo (decorateInfo e rec (wk_intel w)))"

definition ipNames :: "'e env_scheme \<Rightarrow> string \<Rightarrow> string \<Rightarrow> Worker \<Rightarrow> traffic_answer" where
  "ipNames e ipq limit w = with_ip ipq (\<lambda>ip. answer VNames (IPNames e ip (qInt limit 50) (wk_intel w)))"

text \<open>A lookup by hand asks both providers at once; \<open>on\<close> tells whether there is a worker.\<close>

definition refreshIP :: "lookup_env \<Rightarrow> Config \<Rightarrow> bool \<Rightarrow> string \<Rightarrow> Worker \<Rightarrow> traffic_answer \<times> Worker" where
  "refreshIP e c on ipq w =
     (case parseIP ipq of None \<Rightarrow> (ErrMsg 400 ''invalid ip address'', w)
      | Some ip \<Rightarrow>
          if \<not> on then (ErrMsg 503 ''enrichment disabled'', w)
          else if IsLocal c ip then (ErrMsg 400 ''refusing to enrich a local address'', w)
          else
            (let w1 = snd (LookupAndStore e ip w);
                 (quota, w2) = (if wk_has_vt w1 then (case LookupVT e ip w1 of ((_, q), w') \<Rightarrow> (q, w')) else (False, w1))
             in (answer (\<lambda>rec. VRefreshed rec quota) (GetIPInfo e ip (wk_intel w2)), w2)))"

section \<open>Nicknames and notes\<close>

definition DeviceKinds :: "string list" where
  "DeviceKinds = [''pc'', ''phone'', ''server'', ''iot'', ''network'', ''other'']"

definition on_intel :: "(intel_db \<Rightarrow> traffic_answer \<times> intel_db) \<Rightarrow> Worker \<Rightarrow> traffic_answer \<times> Worker" where
  "on_intel h w = (case h (wk_intel w) of (a, d) \<Rightarrow> (a, w\<lparr>wk_intel := d\<rparr>))"

definition listNicknames :: "'e env_scheme \<Rightarrow> string \<Rightarrow> Worker \<Rightarrow> traffic_answer" where
  "listNicknames e q w = answer VNicknames (ListNicknames e q (wk_intel w))"

definition getNickname :: "'e env_scheme \<Rightarrow> string \<Rightarrow> Worker \<Rightarrow> traffic_answer" where
  "getNickname e ipq w =
     with_ip ipq (\<lambda>ip.
       case GetNickname e ip (wk_intel w) of
         Inl err \<Rightarrow> fail err
       | Inr None \<Rightarrow> ErrMsg 404 (''no nickname for '' @ AddrString ip)
       | Inr (Some n) \<Rightarrow> Json 200 (VNickname n))"

text \<open>The note of a request: too long, or trimmed with an empty one dropped.\<close>

definition clean_note :: "string option \<Rightarrow> string + string option" where
  "clean_note nt =
     (case nt of None \<Rightarrow> Inr None
      | Some s \<Rightarrow>
          (let t = TrimSpace s in if t = [] then Inr None else if length t > 2000 then Inl ''note too long'' else Inr (Some t)))"

definition setNickname ::
  "'e env_scheme \<Rightarrow> string \<Rightarrow> (string \<times> string option \<times> string) option \<Rightarrow> Worker \<Rightarrow> traffic_answer \<times> Worker" where
  "setNickname e ipq body w =
     (case parseIP ipq of None \<Rightarrow> (ErrMsg 400 ''invalid ip address'', w)
      | Some ip \<Rightarrow>
     (case body of None \<Rightarrow> (ErrMsg 400 ''invalid json body'', w)
      | Some (name0, note0, kind) \<Rightarrow>
          (let name = TrimSpace name0 in
           if name = [] \<or> length name > 100 then (ErrMsg 400 ''nickname must be 1-100 characters'', w)
           else case clean_note note0 of Inl msg \<Rightarrow> (ErrMsg 400 msg, w)
           | Inr nt \<Rightarrow>
               if kind \<noteq> [] \<and> kind \<notin> set DeviceKinds then (ErrMsg 400 (''kind must be one of '' @ Join DeviceKinds '', ''), w)
               else on_intel (\<lambda>d. case SetNickname e ip name nt kind d of (r, d') \<Rightarrow> (answer VNickname r, d')) w)))"

definition deleteNickname :: "'e env_scheme \<Rightarrow> string \<Rightarrow> Worker \<Rightarrow> traffic_answer \<times> Worker" where
  "deleteNickname e ipq w =
     (case parseIP ipq of None \<Rightarrow> (ErrMsg 400 ''invalid ip address'', w)
      | Some ip \<Rightarrow>
          on_intel (\<lambda>d. case DeleteNickname e ip d of
              (Inl err, d') \<Rightarrow> (fail err, d')
            | (Inr ok, d') \<Rightarrow> (if ok then NoContent else ErrMsg 404 (''no nickname for '' @ AddrString ip), d')) w)"

definition listIPNotes :: "'e env_scheme \<Rightarrow> string \<Rightarrow> string \<Rightarrow> Worker \<Rightarrow> traffic_answer" where
  "listIPNotes e ipq limit w = with_ip ipq (\<lambda>ip. answer VNotes (ListIPNotes e ip (qInt limit 0) (wk_intel w)))"

definition addIPNote :: "'e env_scheme \<Rightarrow> User option \<Rightarrow> string \<Rightarrow> string option \<Rightarrow> Worker \<Rightarrow> traffic_answer \<times> Worker" where
  "addIPNote e u ipq body w =
     (case parseIP ipq of None \<Rightarrow> (ErrMsg 400 ''invalid ip address'', w)
      | Some ip \<Rightarrow>
     (case body of None \<Rightarrow> (ErrMsg 400 ''invalid json body'', w)
      | Some text \<Rightarrow>
          on_intel (\<lambda>d. case AddIPNote e ip text (case u of None \<Rightarrow> [] | Some x \<Rightarrow> Username x) d of
              (Inl (DbError m), d') \<Rightarrow> (if HasPrefix m ''note is'' then ErrMsg 400 m else fail (DbError m), d')
            | (Inl Canceled, d') \<Rightarrow> (fail Canceled, d')
            | (Inr n, d') \<Rightarrow> (Json 201 (VNote n), d')) w))"

definition deleteIPNote :: "'e env_scheme \<Rightarrow> string \<Rightarrow> string \<Rightarrow> Worker \<Rightarrow> traffic_answer \<times> Worker" where
  "deleteIPNote e ipq idtext w =
     (case parseIP ipq of None \<Rightarrow> (ErrMsg 400 ''invalid ip address'', w)
      | Some ip \<Rightarrow>
     (case path_id idtext of None \<Rightarrow> (ErrMsg 400 ''bad id'', w)
      | Some i \<Rightarrow>
          on_intel (\<lambda>d. case DeleteIPNote e ip i d of
              (Inl err, d') \<Rightarrow> (fail err, d')
            | (Inr ok, d') \<Rightarrow> (if ok then Json 200 (VNoteDeleted i) else ErrMsg 404 ''no such note'', d')) w))"

section \<open>IDS events\<close>

definition idsEvents ::
  "'e env_scheme \<Rightarrow> string \<Rightarrow> string \<Rightarrow> string \<Rightarrow> string \<Rightarrow> string \<Rightarrow> string \<Rightarrow> string \<Rightarrow> Worker \<Rightarrow> traffic_answer" where
  "idsEvents e since until ip sid raw limit offset w =
     with_window e since until (\<lambda>win. with_opt_ip ip (\<lambda>a.
       answer VEvents (ListIDSEvents e \<lparr>io_since = Since win, io_ip = a, io_sid = qInt sid 0, io_limit = qInt limit 200,
         io_offset = qInt offset 0, io_raw = (raw = ''1'')\<rparr> (wk_intel w))))"

definition idsEvent :: "'e env_scheme \<Rightarrow> string \<Rightarrow> Worker \<Rightarrow> traffic_answer" where
  "idsEvent e idtext w =
     (case path_id idtext of None \<Rightarrow> ErrMsg 400 ''invalid event id''
      | Some i \<Rightarrow>
          if i \<le> 0 then ErrMsg 400 ''invalid event id''
          else case GetIDSEvent e i (wk_intel w) of
            Inl err \<Rightarrow> fail err
          | Inr None \<Rightarrow> ErrMsg 404 ''no such IDS event''
          | Inr (Some ev) \<Rightarrow> Json 200 (VEvent ev))"

text \<open>\<open>listening\<close>: there is a listener.\<close>

definition idsSummary :: "'e env_scheme \<Rightarrow> bool \<Rightarrow> string \<Rightarrow> string \<Rightarrow> string \<Rightarrow> Worker \<Rightarrow> traffic_answer" where
  "idsSummary e listening since until limit w =
     with_window e since until (\<lambda>win.
       answer (\<lambda>(items, total). VIDSSummary items total listening
           (if listening then (case LastIDSActivity e (wk_intel w) of Inl _ \<Rightarrow> None | Inr t \<Rightarrow> t) else None))
         (IDSSummary e (Since win) (qInt limit 50) (wk_intel w)))"

section \<open>Enrichment\<close>

definition lane_stats :: "bool \<Rightarrow> string \<Rightarrow> lane \<Rightarrow> LaneStats" where
  "lane_stats on provider l =
     \<lparr>la_enabled = on, la_provider = provider, la_lane = l, la_refresh = 0, la_daily = 0, la_used = 0, la_monthly = 0,
      la_used_month = 0, la_hit = ln_hit l\<rparr>"

definition with_usage :: "(int \<times> int) dbres \<Rightarrow> LaneStats \<Rightarrow> LaneStats" where
  "with_usage r s = (case r of Inl _ \<Rightarrow> s | Inr (day, month) \<Rightarrow> s\<lparr>la_used := day, la_used_month := month\<rparr>)"

definition files_provider :: "FilesLane option \<Rightarrow> string" where
  "files_provider f =
     (case f of
        Some x \<Rightarrow> if fl_vt x \<and> \<not> fl_mhr x then ''virustotal files'' else if fl_mhr x \<and> \<not> fl_vt x then ''cymru mhr''
                  else ''virustotal files + cymru mhr''
      | None \<Rightarrow> ''virustotal files + cymru mhr'')"

text \<open>\<open>geo_name\<close> is the name of the provider of locations. The hit flag of the geo and the roll-up lane is not shown.\<close>

definition Stats :: "'e env_scheme \<Rightarrow> Config \<Rightarrow> string \<Rightarrow> Worker \<Rightarrow> (string \<times> LaneStats) list" where
  "Stats e c geo_name w =
     (let usage = VTUsage e (wk_intel w) (wk_fleet w);
          quotas = (\<lambda>s. s\<lparr>la_daily := VTDailyQuota c, la_monthly := VTMonthlyQuota c\<rparr>);
          files = lane_stats (wk_files_cfg w \<noteq> None) (files_provider (wk_files_cfg w)) (wk_files w)
      in [(''geo'', (lane_stats (wk_has_geo w) (if wk_has_geo w then geo_name else []) (wk_geo w))
                      \<lparr>la_refresh := EnrichRefreshAfter c, la_hit := False\<rparr>),
          (''vt'', (\<lambda>s. if wk_has_vt w then with_usage usage s else s)
                     (quotas ((lane_stats (wk_has_vt w) ''virustotal'' (wk_vt w))\<lparr>la_refresh := VTRefreshAfter c\<rparr>))),
          (''files'', case wk_files_cfg w of None \<Rightarrow> files
             | Some f \<Rightarrow> (\<lambda>s. if fl_vt f then with_usage usage (quotas s) else s) (files\<lparr>la_refresh := fl_refresh f\<rparr>))] @
         map (\<lambda>r. (rl_name r, with_usage (ReputationUsage e (rl_name r) (wk_intel w))
                ((lane_stats True (rl_name r) (rl_lane r))\<lparr>la_refresh := rl_refresh r, la_daily := rl_quota r\<rparr>))) (wk_rep w) @
         [(''rollups'', (lane_stats True ''rollups'' (wk_rollups w))\<lparr>la_hit := False\<rparr>)])"

definition enrichmentStatus :: "'e env_scheme \<Rightarrow> Config \<Rightarrow> bool \<Rightarrow> string \<Rightarrow> Worker \<Rightarrow> traffic_answer" where
  "enrichmentStatus e c on geo_name w =
     answer (\<lambda>st. VStatus (EnrichEnabled c) st (case FileIntelSummary e (wk_fleet w) of Inl _ \<Rightarrow> None | Inr fs \<Rightarrow> Some fs)
         (if on then Some (Stats e c geo_name w) else None))
       (EnrichmentStatus_of e (EnrichRefreshAfter c) (VTRefreshAfter c) (wk_intel w))"

text \<open>Without \<open>wait\<close> the lanes are only woken.\<close>

definition enrichmentRun :: "lookup_env \<Rightarrow> Config \<Rightarrow> bool \<Rightarrow> string \<Rightarrow> Worker \<Rightarrow> traffic_answer \<times> Worker" where
  "enrichmentRun e c on wait w =
     (if \<not> on then (ErrMsg 503 ''enrichment disabled'', w)
      else if wait = ''1'' then (case RunOnce c e w of (n, w') \<Rightarrow> (Json 200 (VProcessed n), w'))
      else (Json 202 VQueued, w))"

end
