(* ===== verification/ApiTrafficSafety.thy ===== *)
theory ApiTrafficSafety
  imports ApiTraffic SchedulerSafety
begin

text \<open>
  Properties of the traffic pages: the parts of the overview agree with each other and stay small, and a page of one host
  sums up what its peers show.
\<close>

section \<open>The number of points\<close>

lemma below_next:
  fixes x s :: int
  assumes "0 < s"
  shows "x < (x div s + 1) * s"
proof -
  have "x = x div s * s + x mod s" by simp
  moreover have "x mod s < s" using assms by simp
  ultimately show ?thesis unfolding distrib_right mult_1 by linarith
qed

lemma div_range:
  fixes a u s :: int
  assumes "s > 0" "a \<le> t" "t < u"
  shows "t div s \<in> {a div s .. a div s + (u - a) div s + 1}"
proof -
  define p q where "p = a div s" and "q = (u - a) div s"
  have "p \<le> t div s" unfolding p_def using assms by (intro zdiv_mono1) simp_all
  have "u - a < (q + 1) * s" "a < (p + 1) * s" unfolding p_def q_def by (rule below_next [OF assms(1)])+
  with assms(3) have "t < (p + q + 2) * s" by (simp add: algebra_simps)
  moreover have "(p + q + 2) * s \<le> t" if "p + q + 2 \<le> t div s"
  proof -
    have "(p + q + 2) * s \<le> t div s * s" using that assms(1) by (intro mult_right_mono) simp_all
    also have "\<dots> \<le> t" using assms(1) by (simp add: minus_mod_eq_div_mult [symmetric])
    finally show ?thesis .
  qed
  ultimately have "t div s < p + q + 2" by linarith
  with \<open>p \<le> t div s\<close> show ?thesis by (simp add: p_def q_def)
qed

lemma series_length:
  assumes "Timeseries e w interval nets ip acct = Inr bs" "distinct (map b_time bs)" "Since w < Until w"
  shows "int (length bs) \<le> (Until w - Since w) div (bucket_secs interval * Second) + 2"
proof -
  let ?s = "bucket_secs interval * Second" and ?R = "{Since w div (bucket_secs interval * Second) .. Since w div (bucket_secs interval * Second) + (Until w - Since w) div (bucket_secs interval * Second) + 1}"
  have pos: "?s > 0" by (auto simp: bucket_secs_def pos_imp_zdiv_pos_iff)
  have "set (map b_time bs) \<subseteq> (\<lambda>k. k * ?s) ` ?R"
  proof
    fix t assume "t \<in> set (map b_time bs)"
    then obtain f where "f \<in> set (filter (\<lambda>x. in_window w x \<and> involves ip x) acct)" "t = bucket_of (bucket_secs interval) f"
      using assms(1) by (auto simp: Timeseries_def Let_def db_read_def group_rows_def split: if_splits)
    with div_range [OF pos, of "Since w" "stamp f" "Until w"] show "t \<in> (\<lambda>k. k * ?s) ` ?R"
      by (auto simp: bucket_of_def in_window_def simp del: time_units)
  qed
  from card_mono [OF _ this] have "Finite_Set.card (set (map b_time bs)) \<le> Finite_Set.card ((\<lambda>k. k * ?s) ` ?R)" by blast
  also have "\<dots> \<le> Finite_Set.card ?R" by (rule card_image_le) simp
  finally have "Finite_Set.card (set (map b_time bs)) \<le> Finite_Set.card ?R" .
  moreover have "Finite_Set.card (set (map b_time bs)) = length bs" using distinct_card [OF assms(2)] by simp
  moreover have "0 \<le> (Until w - Since w) div ?s" using assms(3) pos by (simp add: pos_imp_zdiv_nonneg_iff)
  ultimately show ?thesis by simp
qed

lemma bucket_autoInterval: "bucket_secs (autoInterval w) * Second = autoInterval w"
  using autoInterval_candidate [of w] by (auto simp: interval_candidates_def bucket_secs_def)

section \<open>The hosts of the overview\<close>

lemma Hosts_scope:
  assumes "Hosts e win nets (top_hosts l) acct d = Inr (rows, n)"
  shows "(\<forall>h \<in> set rows. ho_local h = l) \<and> length rows \<le> 10"
  using assms
  by (auto simp: Hosts_def Let_def bindE_Inr_iff db_read_def top_hosts_def host_matches_def split: if_splits dest!: in_set_takeD)

section \<open>The overview\<close>

lemma overview_parts:
  assumes "overview e c since until w = Json 200 (VOverview p)"
  obtains "window (now_of e) since until = Inr (op_window p)"
    "Overview e (op_window p) (LocalNetworks c) (wk_acct w) = Inr (op_totals p)"
    "Timeseries e (op_window p) (autoInterval (op_window p)) (LocalNetworks c) None (wk_acct w) = Inr (op_series p)"
    "\<exists>n. Hosts e (op_window p) (LocalNetworks c) (top_hosts True) (wk_acct w) (wk_intel w) = Inr (op_local p, n)"
    "\<exists>n. Hosts e (op_window p) (LocalNetworks c) (top_hosts False) (wk_acct w) (wk_intel w) = Inr (op_external p, n)"
proof -
  obtain win where win: "window (now_of e) since until = Inr win" and p: "overview_of e c win w = Inr p"
    using assms by (auto simp: overview_def with_window_def answer_def fail_def split: sum.splits dberr.splits)
  show ?thesis
    by (rule that) (use win p in \<open>auto simp: overview_of_def Let_def bindE_Inr_iff split: prod.splits\<close>)
qed

text \<open>C40: 
  C0: An overview that is answered agrees with itself: the points of its series, in order of time and each instant once,
  add up to its totals (bytes, packets, flows, and what entered and left the local networks); of its two short lists one
  holds local hosts only and the other none, each at most ten; and over a window of at most 300 days the series has at
  most 302 points.
\<close>

theorem overview_page_consistent:
  assumes "overview e c since until w = Json 200 (VOverview p)"
  shows "sum_of b_bytes (op_series p) = t_bytes (op_totals p) \<and> sum_of b_packets (op_series p) = t_packets (op_totals p) \<and>
         sum_of b_flows (op_series p) = t_flows (op_totals p) \<and> sum_of b_in (op_series p) = t_in (op_totals p) \<and>
         sum_of b_out (op_series p) = t_out (op_totals p) \<and> sorted (map b_time (op_series p)) \<and> distinct (map b_time (op_series p)) \<and>
         (Until (op_window p) - Since (op_window p) \<le> 300 * 24 * Hour \<longrightarrow> length (op_series p) \<le> 302) \<and>
         list_all ho_local (op_local p) \<and> \<not> list_ex ho_local (op_external p) \<and> length (op_local p) \<le> 10 \<and> length (op_external p) \<le> 10"
proof -
  obtain nl nx where win: "window (now_of e) since until = Inr (op_window p)"
    and V: "Overview e (op_window p) (LocalNetworks c) (wk_acct w) = Inr (op_totals p)"
    and T: "Timeseries e (op_window p) (autoInterval (op_window p)) (LocalNetworks c) None (wk_acct w) = Inr (op_series p)"
    and L: "Hosts e (op_window p) (LocalNetworks c) (top_hosts True) (wk_acct w) (wk_intel w) = Inr (op_local p, nl)"
    and X: "Hosts e (op_window p) (LocalNetworks c) (top_hosts False) (wk_acct w) (wk_intel w) = Inr (op_external p, nx)"
    using overview_parts [OF assms] by metis
  note sums = timeseries_sums_to_overview [OF T V]
  have len: "length (op_series p) \<le> 302" if "Until (op_window p) - Since (op_window p) \<le> 300 * 24 * Hour"
    using series_length [OF T _ window_ordered [OF win]] sums autoInterval_steps [OF that] unfolding bucket_autoInterval by linarith
  show ?thesis
    using sums len Hosts_scope [OF L] Hosts_scope [OF X] by (auto simp: list_all_iff list_ex_iff)
qed

lemma overview_answered:
  assumes f: "\<And>x. \<not> fault e x" and win: "window (now_of e) since until = Inr win"
  shows "\<exists>p. overview e c since until w = Json 200 (VOverview p)"
proof -
  note f [simp]
  obtain a where a: "Overview e win (LocalNetworks c) (wk_acct w) = Inr a" by (simp add: Overview_def Let_def)
  obtain b where b: "Timeseries e win (autoInterval win) (LocalNetworks c) None (wk_acct w) = Inr b" by (simp add: Timeseries_def Let_def)
  obtain p where p: "Protocols e win 10 (wk_acct w) = Inr p" by (simp add: Protocols_def Let_def limit_rows_def)
  obtain q where q: "Ports e win 10 (wk_acct w) = Inr q" by (simp add: Ports_def Let_def limit_rows_def)
  have "\<exists>x n. Hosts e win (LocalNetworks c) (top_hosts l) (wk_acct w) (wk_intel w) = Inr (x, n)" for l
    by (simp add: Hosts_def Let_def top_hosts_def)
  then obtain hl nl hx nx where h: "Hosts e win (LocalNetworks c) (top_hosts True) (wk_acct w) (wk_intel w) = Inr (hl, nl)"
    "Hosts e win (LocalNetworks c) (top_hosts False) (wk_acct w) (wk_intel w) = Inr (hx, nx)" by meson
  obtain g where g: "GroupBy e win (LocalNetworks c) ''country'' 10 (wk_acct w) (wk_intel w) = Inr g"
    by (simp add: GroupBy_def dimension_def limit_rows_def)
  obtain t where t: "Threats e win (LocalNetworks c) 10 (wk_acct w) (wk_intel w) = Inr t" by (simp add: Threats_def Let_def limit_rows_def)
  obtain s where s: "AlertSummary_of e (wk_alerts w) = Inr s" by (simp add: AlertSummary_of_def Let_def)
  show ?thesis by (simp add: overview_def with_window_def answer_def overview_of_def Let_def win a b p q h g t s)
qed

theorem overview_page_consistent_witness:
  "\<exists>p. overview (ok_env Day) default_config [] [] (sample_worker 0 []) = Json 200 (VOverview p) \<and>
     sum_of b_bytes (op_series p) = t_bytes (op_totals p) \<and> length (op_local p) \<le> 10"
proof -
  have win: "window (now_of (ok_env Day)) [] [] = Inr \<lparr>Since = 0, Until = Day\<rparr>" by (simp add: window_def time_units ok_env_def)
  have "\<not> fault (ok_env Day) x" for x by (simp add: ok_env_def)
  from overview_answered [OF this win] obtain p where
    p: "overview (ok_env Day) default_config [] [] (sample_worker 0 []) = Json 200 (VOverview p)" by meson
  with overview_page_consistent [OF p] show ?thesis by blast
qed

end
