(* ===== verification/Router.thy ===== *)
theory Router
  imports Auth
begin

text \<open>
  The router of the API (\<open>Handler\<close> of \<open>internal/api/api.go\<close>): the table of its patterns, the matching of
  \<open>net/http\<close>'s \<open>ServeMux\<close>, and the middleware and the administrator's guard around the handlers. A request carries
  the escaped path of its URL, whose decoded form is what the middleware sees. The result names the handler that runs;
  the handlers are modelled in the theories of their components.
\<close>

section \<open>Patterns\<close>

text \<open>A segment of a pattern is a literal or a wildcard.\<close>

datatype seg = L string | W

type_synonym pattern_row = "string \<times> seg list \<times> bool \<times> string"

text \<open>Method, segments below \<open>/api/v1/\<close>, whether the handler is wrapped by \<open>adminOnly\<close>, and the handler.\<close>

definition api_routes :: "pattern_row list" where
  "api_routes =
    [(''GET'', [L ''tls'', L ''info''], False, ''tlsInfo''),
     (''POST'', [L ''agent'', L ''enroll''], False, ''agentEnroll''),
     (''POST'', [L ''agent'', L ''events''], False, ''agentEvents''),
     (''GET'', [L ''agent'', L ''builds''], False, ''agentBuilds''),
     (''GET'', [L ''agent'', L ''download'', W], False, ''agentDownload''),
     (''GET'', [L ''agent'', W], False, ''agentInstallScript''),
     (''GET'', [L ''agents''], True, ''listAgents''),
     (''GET'', [L ''agents'', L ''settings''], True, ''agentSettings''),
     (''PUT'', [L ''agents'', L ''settings''], True, ''setAgentSettings''),
     (''POST'', [L ''agents'', L ''enroll-tokens''], True, ''createEnrollToken''),
     (''PUT'', [L ''agents'', W], True, ''updateAgent''),
     (''GET'', [L ''agents'', W, L ''activity''], True, ''agentActivity''),
     (''POST'', [L ''agents'', W, W], True, ''agentAdminAction''),
     (''DELETE'', [L ''agents'', W], True, ''deleteAgent''),
     (''GET'', [L ''hosts'', W, L ''processes''], False, ''hostProcesses''),
     (''GET'', [L ''explain'', L ''program''], True, ''explainProgram''),
     (''GET'', [L ''kb''], False, ''listKB''),
     (''POST'', [L ''kb''], True, ''upsertKB''),
     (''POST'', [L ''kb'', L ''import''], True, ''importKB''),
     (''DELETE'', [L ''kb'', W], True, ''deleteKB''),
     (''GET'', [L ''tls'', L ''ca''], False, ''tlsCA''),
     (''GET'', [L ''meta''], False, ''meta''),
     (''GET'', [L ''overview''], False, ''overview''),
     (''GET'', [L ''timeseries''], False, ''timeseries''),
     (''GET'', [L ''protocols''], False, ''protocols''),
     (''GET'', [L ''ports''], False, ''ports''),
     (''GET'', [L ''hosts''], False, ''hosts''),
     (''GET'', [L ''hosts'', W], False, ''hostDetail''),
     (''GET'', [L ''flows''], False, ''flows''),
     (''GET'', [L ''groups'', W], False, ''groups''),
     (''GET'', [L ''ips''], False, ''listIPs''),
     (''GET'', [L ''ips'', W], False, ''getIP''),
     (''POST'', [L ''ips'', W, L ''refresh''], False, ''refreshIP''),
     (''GET'', [L ''threats''], False, ''threats''),
     (''GET'', [L ''nicknames''], False, ''listNicknames''),
     (''GET'', [L ''nicknames'', W], False, ''getNickname''),
     (''PUT'', [L ''nicknames'', W], False, ''setNickname''),
     (''DELETE'', [L ''nicknames'', W], False, ''deleteNickname''),
     (''GET'', [L ''exclusions''], False, ''listExclusions''),
     (''GET'', [L ''exclusions'', L ''match''], False, ''matchExclusion''),
     (''POST'', [L ''exclusions''], True, ''addExclusion''),
     (''DELETE'', [L ''exclusions'', W], True, ''deleteExclusion''),
     (''GET'', [L ''enrichment'', L ''status''], False, ''enrichmentStatus''),
     (''POST'', [L ''enrichment'', L ''run''], False, ''enrichmentRun''),
     (''GET'', [L ''alerts''], False, ''listAlerts''),
     (''GET'', [L ''alerts'', L ''summary''], False, ''alertSummary''),
     (''POST'', [L ''alerts'', L ''resolve''], False, ''resolveAlerts''),
     (''DELETE'', [L ''alerts'', L ''resolved''], True, ''deleteResolvedAlerts''),
     (''GET'', [L ''alerts'', L ''settings''], False, ''alertSettings''),
     (''PUT'', [L ''alerts'', L ''settings''], True, ''setAlertSettings''),
     (''DELETE'', [L ''alerts'', W], True, ''deleteAlert''),
     (''POST'', [L ''alerts'', W, W], False, ''alertAction''),
     (''GET'', [L ''rules''], False, ''listRules''),
     (''PUT'', [L ''rules'', W], False, ''updateRule''),
     (''POST'', [L ''rules'', W, L ''run''], False, ''runRule''),
     (''POST'', [L ''rules'', L ''custom''], True, ''createCustomRule''),
     (''POST'', [L ''rules'', L ''custom'', L ''preview''], True, ''previewCustomRule''),
     (''PUT'', [L ''rules'', L ''custom'', W], True, ''updateCustomRule''),
     (''DELETE'', [L ''rules'', L ''custom'', W], True, ''deleteCustomRule''),
     (''GET'', [L ''ids'', L ''events''], False, ''idsEvents''),
     (''GET'', [L ''ids'', L ''events'', W], False, ''idsEvent''),
     (''GET'', [L ''ids'', L ''summary''], False, ''idsSummary''),
     (''GET'', [L ''ips'', W, L ''names''], False, ''ipNames''),
     (''GET'', [L ''ips'', W, L ''notes''], False, ''listIPNotes''),
     (''POST'', [L ''ips'', W, L ''notes''], False, ''addIPNote''),
     (''DELETE'', [L ''ips'', W, L ''notes'', W], False, ''deleteIPNote''),
     (''GET'', [L ''system'', L ''status''], False, ''systemStatus''),
     (''POST'', [L ''notify'', L ''test''], False, ''notifyTest''),
     (''PUT'', [L ''notify'', L ''settings''], True, ''notifySettings''),
     (''GET'', [L ''kinds''], False, ''kinds''),
     (''POST'', [L ''auth'', L ''login''], False, ''login''),
     (''POST'', [L ''auth'', L ''logout''], False, ''logout''),
     (''GET'', [L ''auth'', L ''me''], False, ''me''),
     (''POST'', [L ''auth'', L ''change-password''], False, ''changePassword''),
     (''GET'', [L ''auth'', L ''users''], True, ''listUsers''),
     (''POST'', [L ''auth'', L ''users''], True, ''createUser''),
     (''POST'', [L ''auth'', L ''users'', W, W], True, ''userAction''),
     (''DELETE'', [L ''auth'', L ''users'', W], True, ''deleteUser''),
     (''GET'', [L ''security'', L ''activity''], True, ''securityActivity''),
     (''GET'', [L ''security'', L ''attackers''], True, ''securityAttackers''),
     (''GET'', [L ''security'', L ''ip-access''], True, ''listIPRules''),
     (''POST'', [L ''security'', L ''ip-access''], True, ''addIPRule''),
     (''DELETE'', [L ''security'', L ''ip-access''], True, ''deleteIPRule'')]"

definition routes :: "pattern_row list" where
  "routes = (''GET'', [L ''healthz''], False, ''health'') # map (\<lambda>(m, ps, a, h). (m, L ''api'' # L ''v1'' # ps, a, h)) api_routes"

section \<open>Paths\<close>

text \<open>\<open>url.PathUnescape\<close>\<close>

fun unescape :: "string \<Rightarrow> string option" where
  "unescape [] = Some []"
| "unescape (c # s) =
     (if c \<noteq> CHR ''%'' then map_option (Cons c) (unescape s)
      else case s of
        a # b # t \<Rightarrow>
          (case (hex_val a, hex_val b) of (Some x, Some y) \<Rightarrow> map_option (Cons (char_of (16 * x + y))) (unescape t) | _ \<Rightarrow> None)
      | _ \<Rightarrow> None)"

primrec clean_segs :: "string list \<Rightarrow> string list \<Rightarrow> string list" where
  "clean_segs acc [] = rev acc"
| "clean_segs acc (s # ss) =
     (if s = [] \<or> s = ''.'' then clean_segs acc ss else if s = ''..'' then clean_segs (tl acc) ss else clean_segs (s # acc) ss)"

text \<open>\<open>cleanPath\<close> of \<open>net/http\<close>: the cleaned path, with a trailing slash where there was one.\<close>

definition cleanPath :: "string \<Rightarrow> string" where
  "cleanPath p =
     (let q = (if HasPrefix p ''/'' then p else ''/'' @ p);
          np = ''/'' @ Join (clean_segs [] (SplitOn CHR ''/'' (tl q))) ''/''
      in if HasSuffix q ''/'' \<and> np \<noteq> ''/'' then np @ ''/'' else np)"

text \<open>The segments of a cleaned path, each decoded; \<open>/\<close> stands for a trailing slash.\<close>

definition path_segs :: "string \<Rightarrow> string list" where
  "path_segs q = map (\<lambda>s. if s = [] then ''/'' else opt_default s (unescape s)) (SplitOn CHR ''/'' (tl q))"

section \<open>Matching\<close>

definition below_lit :: "string \<Rightarrow> (seg list \<times> 'h) list \<Rightarrow> (seg list \<times> 'h) list" where
  "below_lit x rs = List.map_filter (\<lambda>(ps, h). case ps of L s # ps' \<Rightarrow> if s = x then Some (ps', h) else None | _ \<Rightarrow> None) rs"

definition below_wild :: "(seg list \<times> 'h) list \<Rightarrow> (seg list \<times> 'h) list" where
  "below_wild rs = List.map_filter (\<lambda>(ps, h). case ps of W # ps' \<Rightarrow> Some (ps', h) | _ \<Rightarrow> None) rs"

text \<open>The search of the routing tree: literals before wildcards at every segment.\<close>

primrec match_path :: "string list \<Rightarrow> (seg list \<times> 'h) list \<Rightarrow> ('h \<times> string list) option" where
  "match_path [] rs = map_option (\<lambda>r. (snd r, [])) (find (\<lambda>r. fst r = []) rs)"
| "match_path (x # xs) rs =
     (case match_path xs (below_lit x rs) of
        Some m \<Rightarrow> Some m
      | None \<Rightarrow> if x = ''/'' then None else map_option (\<lambda>(h, vs). (h, x # vs)) (match_path xs (below_wild rs)))"

definition routes_of :: "string \<Rightarrow> (seg list \<times> bool \<times> string) list" where
  "routes_of meth = map snd (filter (\<lambda>r. fst r = meth) routes)"

text \<open>\<open>GET\<close> patterns serve \<open>HEAD\<close> too. What no pattern matches goes to the static files.\<close>

definition find_route :: "string \<Rightarrow> string list \<Rightarrow> ((bool \<times> string) \<times> string list) option" where
  "find_route meth xs =
     (case match_path xs (routes_of meth) of
        Some m \<Rightarrow> Some m
      | None \<Rightarrow> if meth = ''HEAD'' then match_path xs (routes_of ''GET'') else None)"

section \<open>Serving\<close>

datatype served = Redirect string | Refused nat string | Static | Called string "string list" "User option"

definition serve_http ::
  "'e auth_env_scheme \<Rightarrow> Config \<Rightarrow> request \<Rightarrow> string \<Rightarrow> string \<Rightarrow> auth_db \<Rightarrow> served \<times> auth_db" where
  "serve_http e c r meth q d =
     (case Middleware e c r d of
        (Reject st msg, d') \<Rightarrow> (Refused st msg, d')
      | (Pass u, d') \<Rightarrow>
          if meth \<noteq> ''CONNECT'' \<and> cleanPath q \<noteq> q then (Redirect (cleanPath q), d')
          else case find_route meth (path_segs q) of
            None \<Rightarrow> (Static, d')
          | Some ((adm, h), vs) \<Rightarrow>
              if adm \<and> \<not> RequireAdmin c u then (Refused 403 ''admin privileges required'', d') else (Called h vs u, d'))"

text \<open>The static files: the answer to what no pattern matches. \<open>is_file\<close> tells whether a path below the directory is
  a regular file, \<open>has_index\<close> whether the page of the frontend exists.\<close>

datatype static_answer = NotFound string | ServeFile string string | ServeIndex

definition static :: "Config \<Rightarrow> (string \<Rightarrow> bool) \<Rightarrow> bool \<Rightarrow> string \<Rightarrow> static_answer" where
  "static c is_file has_index path =
     (if HasPrefix path ''/api/'' then NotFound ''not found''
      else let p = ''/'' @ Join (clean_segs [] (SplitOn CHR ''/'' path)) ''/'' in
           if is_file p then ServeFile p (if HasPrefix path ''/assets/'' then ''public, max-age=31536000, immutable'' else ''no-cache'')
           else if has_index then ServeIndex
           else NotFound (''frontend not built (STATIC_DIR='' @ StaticDir c @ '')''))"

end
