(* ===== verification/RouterSafety.thy ===== *)
theory RouterSafety
  imports Router
begin

text \<open>
  Properties of the router: the middleware, which looks at the decoded path, and the router, which matches escaped
  segments, agree on what is public.
\<close>

section \<open>Matching\<close>

fun seg_ok :: "seg \<Rightarrow> string \<Rightarrow> bool" where
  "seg_ok (L s) x \<longleftrightarrow> x = s"
| "seg_ok W x \<longleftrightarrow> x \<noteq> ''/''"

lemma below_lit_mem: "(ps, h) \<in> set (below_lit x rs) \<longleftrightarrow> (L x # ps, h) \<in> set rs"
  by (force simp: below_lit_def List.map_filter_def split: list.splits seg.splits if_splits)

lemma below_wild_mem: "(ps, h) \<in> set (below_wild rs) \<longleftrightarrow> (W # ps, h) \<in> set rs"
  by (force simp: below_wild_def List.map_filter_def split: list.splits seg.splits)

lemma match_path_sound: "match_path xs rs = Some (h, vs) \<Longrightarrow> \<exists>ps. (ps, h) \<in> set rs \<and> list_all2 seg_ok ps xs"
proof (induction xs arbitrary: rs h vs)
  case Nil
  then obtain r where "find (\<lambda>r. fst r = []) rs = Some r" "snd r = h" by auto
  moreover from this(1) have "r \<in> set rs" "fst r = []" by (auto simp: find_Some_iff)
  ultimately have "r \<in> set rs" "r = ([], h)" by (simp_all add: prod_eq_iff)
  then show ?case by auto
next
  case (Cons x xs)
  show ?case
  proof (cases "match_path xs (below_lit x rs) = Some (h, vs)")
    case True
    from Cons.IH [OF this] obtain ps where "(L x # ps, h) \<in> set rs" "list_all2 seg_ok ps xs" by (auto simp: below_lit_mem)
    then show ?thesis by (intro exI [of _ "L x # ps"]) simp
  next
    case False
    with Cons.prems obtain vs' where "match_path xs (below_wild rs) = Some (h, vs')" "x \<noteq> ''/''"
      by (auto split: option.splits if_splits)
    with Cons.IH [of "below_wild rs" h vs'] obtain ps where "(W # ps, h) \<in> set rs" "list_all2 seg_ok ps xs" by (auto simp: below_wild_mem)
    with \<open>x \<noteq> ''/''\<close> show ?thesis by (intro exI [of _ "W # ps"]) simp
  qed
qed

lemma match_path_none [simp]: "match_path xs [] = None"
  by (induction xs) (simp_all add: below_lit_def below_wild_def List.map_filter_def)

lemma find_route_sound:
  assumes "find_route meth xs = Some ((adm, h), vs)"
  shows "\<exists>m ps. (m, ps, adm, h) \<in> set routes \<and> list_all2 seg_ok ps xs"
proof -
  from assms obtain m where "match_path xs (routes_of m) = Some ((adm, h), vs)"
    by (auto simp: find_route_def split: option.splits if_splits)
  from match_path_sound [OF this] obtain ps where "(ps, adm, h) \<in> set (routes_of m)" "list_all2 seg_ok ps xs" by blast
  then show ?thesis by (intro exI [of _ m] exI [of _ ps]) (auto simp: routes_of_def)
qed

section \<open>Decoding\<close>

lemma hex_not_slash: "hex_val c = Some n \<Longrightarrow> c \<noteq> CHR ''/''"
  by (auto simp: hex_val_def split: if_splits)

lemma SplitOn_Cons: "x \<noteq> c \<Longrightarrow> SplitOn c s = w # ws \<Longrightarrow> SplitOn c (x # s) = (x # w) # ws"
  by simp

lemma Join_Cons: "Join ((x # w) # ws) sep = x # Join (w # ws) sep"
  by (cases ws) simp_all

lemma unescape_segments:
  "unescape s = Some t \<Longrightarrow> \<exists>ts. map unescape (SplitOn CHR ''/'' s) = map Some ts \<and> t = Join ts ''/''"
proof (induction s arbitrary: t rule: unescape.induct)
  case 1
  then show ?case by (intro exI [of _ "[[]]"]) simp
next
  case (2 c s)
  show ?case
  proof (cases "c = CHR ''%''")
    case True
    with "2.prems" obtain a b s' x y t' where s: "s = a # b # s'" "hex_val a = Some x" "hex_val b = Some y"
      and t: "unescape s' = Some t'" "t = char_of (16 * x + y) # t'"
      by (auto split: list.splits option.splits)
    from "2.IH"(2) [of a "b # s'" b s' "hex_val a" "hex_val b" x y t'] True s t(1) obtain ts where ts: "map unescape (SplitOn CHR ''/'' s') = map Some ts" "t' = Join ts ''/''"
      by auto
    obtain w ws where w: "SplitOn CHR ''/'' s' = w # ws" using SplitOn_not_Nil by (meson list.exhaust)
    from ts w obtain v vs where v: "ts = v # vs" "unescape w = Some v" "map unescape ws = map Some vs" by (cases ts) auto
    have "SplitOn CHR ''/'' (c # s) = (c # a # b # w) # ws"
      using w s(1) hex_not_slash [OF s(2)] hex_not_slash [OF s(3)] True by simp
    moreover have "unescape (c # a # b # w) = Some (char_of (16 * x + y) # v)" using True s v by simp
    ultimately show ?thesis using v ts t by (intro exI [of _ "(char_of (16 * x + y) # v) # vs"]) (simp add: Join_Cons)
  next
    case False
    with "2.prems" obtain t' where t: "unescape s = Some t'" "t = c # t'" by (auto split: option.splits)
    from "2.IH"(1) [OF False t(1)] obtain ts where ts: "map unescape (SplitOn CHR ''/'' s) = map Some ts" "t' = Join ts ''/''" by blast
    obtain w ws where w: "SplitOn CHR ''/'' s = w # ws" using SplitOn_not_Nil by (meson list.exhaust)
    from ts w obtain v vs where v: "ts = v # vs" "unescape w = Some v" "map unescape ws = map Some vs" by (cases ts) auto
    show ?thesis
    proof (cases "c = CHR ''/''")
      case True
      with ts t v w show ?thesis by (intro exI [of _ "[] # ts"]) simp
    next
      case slash: False
      with ts t v w False show ?thesis by (intro exI [of _ "(c # v) # vs"]) (simp add: Join_Cons)
    qed
  qed
qed


text \<open>The decoded path of a request whose segments match.\<close>

lemma decoded_path:
  assumes "cleanPath q = q" "unescape q = Some path" "list_all2 seg_ok ps (path_segs q)" "\<And>s. L s \<in> set ps \<Longrightarrow> s \<noteq> ''/''"
  shows "path = ''/'' @ Join (path_segs q) ''/''"
proof -
  have "HasPrefix q ''/''"
  proof -
    have "HasPrefix (cleanPath q) ''/''" by (simp add: cleanPath_def Let_def HasPrefix_def)
    with assms(1) show ?thesis by simp
  qed
  then obtain q' where q: "q = CHR ''/'' # q'" by (cases q) (auto simp: HasPrefix_def)
  with assms(2) obtain t where t: "unescape q' = Some t" "path = CHR ''/'' # t" by auto
  obtain ts where ts: "map unescape (SplitOn CHR ''/'' q') = map Some ts" "t = Join ts ''/''" using unescape_segments [OF t(1)] by blast
  have "path_segs q = ts"
  proof (rule nth_equalityI)
    have len: "length (SplitOn CHR ''/'' q') = length ts" using ts(1) by (metis length_map)
    then show "length (path_segs q) = length ts" by (simp add: path_segs_def q)
    fix i assume "i < length (path_segs q)"
    then have i: "i < length (SplitOn CHR ''/'' q')" "i < length ts" using len by (simp_all add: path_segs_def q)
    have u: "unescape (SplitOn CHR ''/'' q' ! i) = Some (ts ! i)" using arg_cong [OF ts(1), of "\<lambda>l. l ! i"] i by simp
    have "path_segs q ! i \<noteq> ''/''"
    proof -
      have "seg_ok (ps ! i) (path_segs q ! i)" "i < length ps"
        using list_all2_nthD2 [OF assms(3)] list_all2_lengthD [OF assms(3)] \<open>i < length (path_segs q)\<close> by simp_all
      then show ?thesis using assms(4) nth_mem [of i ps] by (cases "ps ! i") auto
    qed
    with u i show "path_segs q ! i = ts ! i" by (auto simp: path_segs_def q opt_default_def split: if_splits)
  qed
  with t(2) ts(2) show ?thesis by simp
qed

section \<open>The table\<close>

definition open_handlers :: "string list" where
  "open_handlers = [''health'', ''login'', ''tlsInfo'', ''tlsCA'', ''agentEnroll'', ''agentEvents'', ''agentBuilds'', ''agentDownload'',
     ''agentInstallScript'']"

definition pending_handlers :: "string list" where
  "pending_handlers = [''me'', ''changePassword'', ''logout'']"

text \<open>What only administrators may do.\<close>

definition admin_handlers :: "string list" where
  "admin_handlers =
    [''listAgents'', ''agentSettings'', ''setAgentSettings'', ''createEnrollToken'', ''updateAgent'', ''agentActivity'', ''agentAdminAction'',
     ''deleteAgent'', ''explainProgram'', ''upsertKB'', ''importKB'', ''deleteKB'', ''addExclusion'', ''deleteExclusion'',
     ''deleteResolvedAlerts'', ''setAlertSettings'', ''deleteAlert'', ''createCustomRule'', ''previewCustomRule'', ''updateCustomRule'', ''deleteCustomRule'',
     ''notifySettings'', ''listUsers'', ''createUser'', ''userAction'', ''deleteUser'', ''securityActivity'', ''securityAttackers'',
     ''listIPRules'', ''addIPRule'', ''deleteIPRule'']"

text \<open>What a row says of its handler: the literals hold no slash, the third one decides what is public, and below
  \<open>auth\<close> the fourth one is a literal that decides the rest.\<close>

definition plain_seg :: "seg \<Rightarrow> bool" where
  "plain_seg p = (case p of L s \<Rightarrow> CHR ''/'' \<notin> set s | W \<Rightarrow> True)"

definition auth_row :: "seg list \<Rightarrow> string \<Rightarrow> bool" where
  "auth_row ps h =
     (case ps of
        L s # _ \<Rightarrow>
          (s = ''login'' \<longrightarrow> h = ''login'') \<and> (s = ''me'' \<longrightarrow> h = ''me'') \<and> (s = ''change-password'' \<longrightarrow> h = ''changePassword'') \<and>
          (s = ''logout'' \<longrightarrow> h = ''logout'')
      | _ \<Rightarrow> False)"

definition good_row :: "pattern_row \<Rightarrow> bool" where
  "good_row r =
     (case r of (m, ps, adm, h) \<Rightarrow> list_all plain_seg ps \<and>
        (case ps of
           L t # ps' \<Rightarrow> (t \<in> {''tls'', ''agent''} \<longrightarrow> h \<in> set open_handlers) \<and> (t = ''auth'' \<longrightarrow> auth_row ps' h)
         | _ \<Rightarrow> False))"

lemma table_good: "list_all good_row api_routes"
  by code_simp

lemma table_admin: "list_all (\<lambda>(m, ps, adm, h). adm \<or> h \<notin> set admin_handlers) api_routes"
  by code_simp

lemma no_connect: "list_all (\<lambda>(m, ps, adm, h). m \<noteq> ''CONNECT'') routes"
  by code_simp

section \<open>What the middleware sees\<close>

lemma segment_ends:
  "CHR ''/'' \<notin> set y \<Longrightarrow> takeWhile (\<lambda>c. c \<noteq> CHR ''/'') (y @ CHR ''/'' # z) = y"
  "CHR ''/'' \<notin> set y \<Longrightarrow> takeWhile (\<lambda>c. c \<noteq> CHR ''/'') y = y"
  by (induction y) auto

lemma first_segment:
  assumes "CHR ''/'' \<notin> set y"
  shows "takeWhile (\<lambda>c. c \<noteq> CHR ''/'') (Join (y # ys) ''/'') = y"
  using segment_ends [OF assms] by (cases ys) simp_all

lemma prefix_segment:
  assumes "HasPrefix s (u @ ''/'')" "CHR ''/'' \<notin> set u"
  shows "takeWhile (\<lambda>c. c \<noteq> CHR ''/'') s = u"
proof -
  from assms(1) have "s = u @ CHR ''/'' # drop (Suc (length u)) s"
    using append_take_drop_id [of "length (u @ ''/'')" s] by (simp add: HasPrefix_def)
  with segment_ends(1) [OF assms(2)] show ?thesis by metis
qed

text \<open>A path below \<open>/api/v1/\<close>.\<close>

lemma api_path: "''/'' @ Join (''api'' # ''v1'' # t # ys) ''/'' = ''/api/v1/'' @ Join (t # ys) ''/''"
  by simp

lemma Join_split: "ys \<noteq> [] \<Longrightarrow> Join (y # ys) sep = y @ sep @ Join ys sep"
  by (cases ys) simp_all

lemma public_below:
  assumes "public_path (''/api/v1/'' @ z)"
  shows "HasPrefix z ''tls/'' \<or> HasPrefix z ''agent/'' \<or> z = ''auth/login''"
  using assms by (auto simp: public_path_def HasPrefix_def)

lemma row_path:
  assumes "good_row (m, ps, adm, h)" "list_all2 seg_ok ps xs" "''/api/v1/'' @ Join xs ''/'' = path"
  shows "public_path path \<longrightarrow> h \<in> set open_handlers" "pending_path path \<longrightarrow> h \<in> set pending_handlers"
proof -
  from assms(1) obtain t ps' where ps: "ps = L t # ps'" by (auto simp: good_row_def split: list.splits seg.splits)
  with assms(2) obtain ys where xs: "xs = t # ys" "list_all2 seg_ok ps' ys" by (auto simp: list_all2_Cons1)
  have t: "CHR ''/'' \<notin> set t" "t \<in> {''tls'', ''agent''} \<longrightarrow> h \<in> set open_handlers" "t = ''auth'' \<longrightarrow> auth_row ps' h"
    using assms(1) by (simp_all add: good_row_def ps plain_seg_def)
  let ?z = "Join (t # ys) ''/''"
  have z: "path = ''/api/v1/'' @ ?z" using assms(3) xs by simp
  have seg: "takeWhile (\<lambda>c. c \<noteq> CHR ''/'') ?z = t" by (rule first_segment [OF t(1)])
  have auth: "auth_row ps' h \<and> (\<exists>l vs. ps' = L l # vs \<and> l = w)" if w: "?z = ''auth/'' @ w" "CHR ''/'' \<notin> set w" for w
  proof -
    have "t = ''auth''" using prefix_segment [of ?z "''auth''"] seg w(1) by (simp add: HasPrefix_def)
    with t(3) have a: "auth_row ps' h" by simp
    then obtain l vs where l: "ps' = L l # vs" by (auto simp: auth_row_def split: list.splits seg.splits)
    then obtain us where us: "ys = l # us" using xs(2) by (auto simp: list_all2_Cons1)
    have "Join ys ''/'' = w" using w(1) us \<open>t = _\<close> by (simp add: Join_split)
    moreover have "CHR ''/'' \<notin> set l" using assms(1) by (simp add: good_row_def ps l plain_seg_def)
    ultimately have "takeWhile (\<lambda>c. c \<noteq> CHR ''/'') w = l" using first_segment [of l us] us by metis
    moreover note segment_ends(2) [OF w(2)]
    ultimately show ?thesis using a l by auto
  qed
  show "public_path path \<longrightarrow> h \<in> set open_handlers"
  proof
    assume "public_path path"
    with public_below z consider "HasPrefix ?z (''tls'' @ ''/'')" | "HasPrefix ?z (''agent'' @ ''/'')" | "?z = ''auth/'' @ ''login''" by fastforce
    then show "h \<in> set open_handlers"
    proof cases
      case 1
      with prefix_segment [OF 1] seg t(2) show ?thesis by simp
    next
      case 2
      with prefix_segment [OF 2] seg t(2) show ?thesis by simp
    next
      case 3
      with auth [OF 3] show ?thesis by (auto simp: auth_row_def open_handlers_def)
    qed
  qed
  show "pending_path path \<longrightarrow> h \<in> set pending_handlers"
  proof
    assume "pending_path path"
    with z have "?z = ''auth/'' @ ''me'' \<or> ?z = ''auth/'' @ ''change-password'' \<or> ?z = ''auth/'' @ ''logout''"
      by (auto simp: pending_path_def)
    moreover have "h \<in> set pending_handlers" if "?z = ''auth/'' @ w" "w \<in> {''me'', ''change-password'', ''logout''}" for w
    proof -
      have "CHR ''/'' \<notin> set w" using that(2) by auto
      from auth [OF that(1) this] that(2) show ?thesis by (auto simp: auth_row_def pending_handlers_def)
    qed
    ultimately show "h \<in> set pending_handlers" by blast
  qed
qed

section \<open>The gate\<close>

lemma routes_cases:
  assumes "(m, ps, adm, h) \<in> set routes"
  obtains (probe) "ps = [L ''healthz'']" "h = ''health''" "\<not> adm"
    | (api) ps' where "ps = L ''api'' # L ''v1'' # ps'" "(m, ps', adm, h) \<in> set api_routes"
  using assms by (auto simp: routes_def)

lemma route_path:
  assumes "(m, ps, adm, h) \<in> set routes" "list_all2 seg_ok ps xs" "path = ''/'' @ Join xs ''/''"
  shows "(public_path path \<longrightarrow> h \<in> set open_handlers) \<and> (pending_path path \<longrightarrow> h \<in> set pending_handlers) \<and>
    (path = ''/healthz'' \<longrightarrow> h = ''health'') \<and> (adm \<or> h \<notin> set admin_handlers)"
  using assms(1)
proof (cases rule: routes_cases)
  case probe
  with assms(2) have "xs = [''healthz'']" by (auto simp: list_all2_Cons1)
  with probe assms(3) show ?thesis by (simp add: pending_path_def open_handlers_def admin_handlers_def)
next
  case (api ps')
  then have g: "good_row (m, ps', adm, h)" "adm \<or> h \<notin> set admin_handlers"
    using table_good table_admin by (auto simp: list_all_iff)
  from assms(2) api(1) obtain ys where ys: "xs = ''api'' # ''v1'' # ys" "list_all2 seg_ok ps' ys" by (auto simp: list_all2_Cons1)
  moreover have "ys \<noteq> []" using g(1) ys(2) by (cases ps') (auto simp: good_row_def)
  ultimately have p: "''/api/v1/'' @ Join ys ''/'' = path" using assms(3) by (cases ys) simp_all
  then have "path \<noteq> ''/healthz''" by auto
  with row_path [OF g(1) ys(2) p] g(2) show ?thesis by blast
qed

text \<open>C1: 
  C0: Nothing runs behind the middleware's back. The middleware decides by the decoded path and the router by the
  escaped segments, yet with authentication on, every handler that runs is one of the nine open ones, or the request
  carries the token of a live session of the user the handler is given; that user is an administrator for every handler
  that is kept for them, and has no pending change of password unless the handler is one of the three that serve to
  settle it. No encoding of a path (percent signs, dot segments, doubled slashes) and no method gets around it; and an
  address that is shut out reaches the liveness probe only.
\<close>

theorem handlers_run_behind_the_gate:
  assumes "unescape q = Some (rq_path r)" "serve_http e c r meth q d = (Called h vs u, d')" "AuthEnabled c"
  shows "(h \<in> set open_handlers \<or>
            (\<exists>x. u = Some x \<and> SessionUser e (Token r) d = (Inr (Some x), d') \<and> (IsAdmin x \<or> h \<notin> set admin_handlers) \<and>
               (\<not> MustChangePassword x \<or> h \<in> set pending_handlers))) \<and>
         (h = ''health'' \<or> enforceIPAccess e c r (ClientIP c r) d = None)"
proof -
  from assms(2) obtain adm where M: "Middleware e c r d = (Pass u, d')" and clean: "meth \<noteq> ''CONNECT'' \<longrightarrow> cleanPath q = q"
    and f: "find_route meth (path_segs q) = Some ((adm, h), vs)" and g: "adm \<longrightarrow> RequireAdmin c u"
    by (auto simp: serve_http_def split: prod.splits gate.splits option.splits if_splits)
  have "meth \<noteq> ''CONNECT''"
  proof
    assume "meth = ''CONNECT''"
    moreover have "routes_of ''CONNECT'' = []" using no_connect by (auto simp: routes_of_def filter_empty_conv list_all_iff)
    ultimately show False using f by (simp add: find_route_def)
  qed
  with clean have q: "cleanPath q = q" by simp
  from find_route_sound [OF f] obtain m ps where row: "(m, ps, adm, h) \<in> set routes" "list_all2 seg_ok ps (path_segs q)" by blast
  have plain: "s \<noteq> ''/''" if "L s \<in> set ps" for s
    using row(1)
  proof (cases rule: routes_cases)
    case probe
    with that show ?thesis by auto
  next
    case (api ps')
    then have "list_all plain_seg ps'" using table_good by (fastforce simp: list_all_iff good_row_def)
    with that api(1) show ?thesis by (auto simp: list_all_iff plain_seg_def)
  qed
  note path = route_path [OF row decoded_path [OF q assms(1) row(2) plain]]
  show ?thesis
    using M path g assms(3)
    by (auto simp: Middleware_def Let_def RequireAdmin_def split: option.splits if_splits prod.splits sum.splits)
qed

lemma sample_route:
  "cleanPath (rq_path sample_request) = rq_path sample_request" "unescape (rq_path sample_request) = Some (rq_path sample_request)"
  "find_route ''GET'' (path_segs (rq_path sample_request)) = Some ((False, ''hosts''), [])" "''hosts'' \<notin> set open_handlers"
  by code_simp+

theorem handlers_run_behind_the_gate_witness:
  "\<exists>d'. serve_http (sample_env 10 []) sample_config sample_request ''GET'' (rq_path sample_request) (sample_db\<lparr>sessions := [sample_session]\<rparr>)
     = (Called ''hosts'' [] (Some sample_user), d') \<and>
     SessionUser (sample_env 10 []) (Token sample_request) (sample_db\<lparr>sessions := [sample_session]\<rparr>) = (Inr (Some sample_user), d')"
proof -
  let ?d = "sample_db\<lparr>sessions := [sample_session]\<rparr>"
  have np: "\<not> public_path (rq_path sample_request)" by (simp add: sample_request_def public_path_def)
  have "session_user 10 ''tok'' ?d = Some sample_user"
    by (simp add: session_user_def sample_db_def sample_session_def sample_user_def find_user_def)
  moreover have "Token sample_request = ''tok''" by (simp add: sample_request_def Token_def)
  ultimately obtain d' where su: "SessionUser (sample_env 10 []) (Token sample_request) ?d = (Inr (Some sample_user), d')"
    by (simp add: SessionUser_def)
  have "enforceIPAccess (sample_env 10 []) sample_config sample_request None ?d = None"
    by (simp add: enforceIPAccess_def CheckIPAccess_def no_decision_def)
  with su np have "Middleware (sample_env 10 []) sample_config sample_request ?d = (Pass (Some sample_user), d')"
    by (simp add: Middleware_def Let_def sample_client) (simp add: sample_user_def public_path_def)
  then have s: "serve_http (sample_env 10 []) sample_config sample_request ''GET'' (rq_path sample_request) ?d = (Called ''hosts'' [] (Some sample_user), d')"
    by (simp add: serve_http_def sample_route)
  from handlers_run_behind_the_gate [OF sample_route(2) s sample_config_simps(1)] sample_route(4) s show ?thesis by auto
qed

end
