(* ===== verification/AgentDist.thy ===== *)
theory AgentDist
  imports AgentsApi
begin

text \<open>
  The distribution of agent builds (\<open>internal/api/agent_dist.go\<close>): the binaries the image carries, their checksums,
  which are cached until size or time of a file changes, and the installer scripts. The disk is a parameter of a request
  (a map from paths, which \<open>filepath.Join\<close> writes without a trailing slash of the directory); so are SHA-256 and the
  texts of the two embedded scripts. The cache is shared by all requests.
\<close>

section \<open>Files\<close>

text \<open>\<open>fd_content\<close> is \<open>None\<close> where the file cannot be read.\<close>

record disk_file =
  fd_dir :: bool
  fd_size :: int
  fd_mtime :: instant
  fd_content :: "string option"

type_synonym disk = "string \<rightharpoonup> disk_file"

definition ReadFile :: "disk \<Rightarrow> string \<Rightarrow> string option" where
  "ReadFile fs p = (case fs p of None \<Rightarrow> None | Some f \<Rightarrow> if fd_dir f then None else fd_content f)"

definition join_path :: "string \<Rightarrow> string \<Rightarrow> string" where
  "join_path dir name = TrimRight {CHR ''/''} dir @ ''/'' @ name"

definition agentTargets :: "(string \<times> string) list" where
  "agentTargets = [(''linux-amd64'', ''pmacct-agent-linux-amd64''), (''windows-amd64'', ''pmacct-agent-windows-amd64.exe'')]"

record agentBuild =
  bd_target :: string
  bd_file :: string
  bd_version :: string
  bd_size :: int
  bd_sha256 :: string
  bd_built :: instant

definition distDir :: "Config option \<Rightarrow> string" where
  "distDir c =
     (case c of None \<Rightarrow> ''/app/agent'' | Some cf \<Rightarrow> if AgentDistDir cf \<noteq> [] then AgentDistDir cf else ''/app/agent'')"

definition distVersion :: "Config option \<Rightarrow> disk \<Rightarrow> string" where
  "distVersion c fs = (case ReadFile fs (join_path (distDir c) ''VERSION'') of None \<Rightarrow> [] | Some raw \<Rightarrow> TrimSpace raw)"

section \<open>Builds\<close>

type_synonym build_cache = "string \<rightharpoonup> agentBuild"

definition cached :: "build_cache \<Rightarrow> string \<Rightarrow> disk_file \<Rightarrow> agentBuild option" where
  "cached cache path f =
     (case cache path of None \<Rightarrow> None | Some b \<Rightarrow> if bd_size b = fd_size f \<and> bd_built b = fd_mtime f then Some b else None)"

definition buildInfo_of ::
  "Config option \<Rightarrow> (string \<Rightarrow> string) \<Rightarrow> disk \<Rightarrow> string \<Rightarrow> build_cache \<Rightarrow> agentBuild option \<times> build_cache" where
  "buildInfo_of c sha fs target cache =
     (case map_of agentTargets target of None \<Rightarrow> (None, cache)
      | Some name \<Rightarrow>
     (let path = join_path (distDir c) name in
      case fs path of None \<Rightarrow> (None, cache)
      | Some f \<Rightarrow>
          if fd_dir f then (None, cache)
          else case cached cache path f of
            Some b \<Rightarrow> (Some (b\<lparr>bd_version := distVersion c fs\<rparr>), cache)
          | None \<Rightarrow>
              (case ReadFile fs path of None \<Rightarrow> (None, cache)
               | Some raw \<Rightarrow>
                   (let b = \<lparr>bd_target = target, bd_file = name, bd_version = distVersion c fs, bd_size = fd_size f,
                          bd_sha256 = sha raw, bd_built = fd_mtime f\<rparr>
                    in (Some b, cache(path \<mapsto> b))))))"

text \<open>What an agent's report is answered with is read here.\<close>

definition offer_of :: "agentBuild \<Rightarrow> string \<times> string \<times> int" where
  "offer_of b = (bd_version b, bd_sha256 b, bd_size b)"

definition with_builds :: "Config option \<Rightarrow> (string \<Rightarrow> string) \<Rightarrow> disk \<Rightarrow> build_cache \<Rightarrow> 'e ingest_env_scheme \<Rightarrow> 'e ingest_env_scheme" where
  "with_builds c sha fs cache e = e\<lparr>buildInfo := (\<lambda>t. map_option offer_of (fst (buildInfo_of c sha fs t cache)))\<rparr>"

section \<open>Handlers\<close>

datatype dist_value = VBuilds "agentBuild list" string | VChecksum string | VFile string string string | VScript string

definition agentBuilds :: "Config option \<Rightarrow> (string \<Rightarrow> string) \<Rightarrow> disk \<Rightarrow> build_cache \<Rightarrow> dist_value reply \<times> build_cache" where
  "agentBuilds c sha fs cache =
     (let (b1, c1) = buildInfo_of c sha fs ''linux-amd64'' cache; (b2, c2) = buildInfo_of c sha fs ''windows-amd64'' c1
      in (Json 200 (VBuilds (List.map_filter id [b1, b2]) (distDir c)), c2))"

text \<open>A binary is answered with its name, the checksum of the header and the bytes on disk, for a request of the whole
  file: \<open>http.ServeFile\<close> would answer one with a \<open>Range\<close> header with a part, and one whose condition on the time of the file
  fails without a body.\<close>

definition agentDownload ::
  "Config option \<Rightarrow> (string \<Rightarrow> string) \<Rightarrow> disk \<Rightarrow> string \<Rightarrow> build_cache \<Rightarrow> dist_value reply \<times> build_cache" where
  "agentDownload c sha fs target0 cache =
     (let wantSum = HasSuffix target0 ''.sha256''; target = TrimSuffix target0 ''.sha256'' in
      case buildInfo_of c sha fs target cache of
        (None, cache') \<Rightarrow> (ErrMsg 404 (''no agent build for '' @ target @ '' in this image (build with WITH_AGENT=1)''), cache')
      | (Some b, cache') \<Rightarrow>
          (if wantSum then Json 200 (VChecksum (bd_sha256 b @ ''  '' @ bd_file b @ [CHR 0x0A]))
           else (case ReadFile fs (join_path (distDir c) (bd_file b)) of
               None \<Rightarrow> ErrMsg 403 ''403 Forbidden''
             | Some raw \<Rightarrow> Json 200 (VFile (bd_file b) (bd_sha256 b) raw)),
           cache'))"

definition agentInstallScript :: "(string \<rightharpoonup> string) \<Rightarrow> string \<Rightarrow> dist_value reply" where
  "agentInstallScript scripts name =
     (case scripts (''scripts/'' @ name) of None \<Rightarrow> ErrMsg 404 ''no such installer'' | Some raw \<Rightarrow> Json 200 (VScript raw))"

section \<open>The cache\<close>

text \<open>The answer without a cache.\<close>

definition fresh_build :: "Config option \<Rightarrow> (string \<Rightarrow> string) \<Rightarrow> disk \<Rightarrow> string \<Rightarrow> agentBuild option" where
  "fresh_build c sha fs target = fst (buildInfo_of c sha fs target Map.empty)"

text \<open>
  The disk of one request: size and time of a file determine its content, which can be read (\<open>content\<close> is the
  same for all requests).
\<close>

definition stamped :: "(string \<Rightarrow> int \<Rightarrow> instant \<Rightarrow> string) \<Rightarrow> disk \<Rightarrow> bool" where
  "stamped content fs \<longleftrightarrow>
     (\<forall>p f. fs p = Some f \<longrightarrow> \<not> fd_dir f \<longrightarrow> fd_content f = Some (content p (fd_size f) (fd_mtime f)))"

text \<open>Requests one after the other, each on the disk of its time.\<close>

primrec serve_builds ::
  "Config option \<Rightarrow> (string \<Rightarrow> string) \<Rightarrow> (disk \<times> string) list \<Rightarrow> build_cache \<Rightarrow> (dist_value reply) list" where
  "serve_builds c sha [] cache = []"
| "serve_builds c sha (r # rs) cache =
     (case agentDownload c sha (fst r) (snd r) cache of (a, cache') \<Rightarrow> a # serve_builds c sha rs cache')"

definition cache_true :: "Config option \<Rightarrow> (string \<Rightarrow> string) \<Rightarrow> (string \<Rightarrow> int \<Rightarrow> instant \<Rightarrow> string) \<Rightarrow> build_cache \<Rightarrow> bool" where
  "cache_true c sha content cache \<longleftrightarrow>
     (\<forall>path b. cache path = Some b \<longrightarrow>
        map_of agentTargets (bd_target b) = Some (bd_file b) \<and> path = join_path (distDir c) (bd_file b) \<and>
        bd_sha256 b = sha (content path (bd_size b) (bd_built b)))"

lemma target_of_file: "map_of agentTargets t = Some f \<Longrightarrow> map_of agentTargets u = Some f \<Longrightarrow> t = u"
  by (auto simp: agentTargets_def split: if_splits)

lemma join_inj: "join_path d f = join_path d g \<longleftrightarrow> f = g"
  by (simp add: join_path_def)

lemma cached_build:
  assumes "cache_true c sha content cache" "stamped content fs"
  shows "fst (buildInfo_of c sha fs t cache) = fresh_build c sha fs t \<and> cache_true c sha content (snd (buildInfo_of c sha fs t cache))"
proof (cases "map_of agentTargets t")
  case None
  then show ?thesis using assms by (simp add: buildInfo_of_def Let_def fresh_build_def)
next
  case (Some nm)
  let ?p = "join_path (distDir c) nm"
  show ?thesis
  proof (cases "fs ?p")
    case None
    with Some assms show ?thesis by (simp add: buildInfo_of_def Let_def fresh_build_def)
  next
    case (Some f)
    show ?thesis
    proof (cases "fd_dir f")
      case True
      with Some \<open>map_of agentTargets t = Some nm\<close> assms show ?thesis by (simp add: buildInfo_of_def Let_def fresh_build_def)
    next
      case False
      then have raw: "ReadFile fs ?p = Some (content ?p (fd_size f) (fd_mtime f))"
        using assms(2) Some by (auto simp: stamped_def ReadFile_def)
      have fresh: "fresh_build c sha fs t = Some \<lparr>bd_target = t, bd_file = nm, bd_version = distVersion c fs, bd_size = fd_size f,
          bd_sha256 = sha (content ?p (fd_size f) (fd_mtime f)), bd_built = fd_mtime f\<rparr>"
        using \<open>map_of agentTargets t = Some nm\<close> Some False raw by (simp add: fresh_build_def buildInfo_of_def Let_def cached_def)
      show ?thesis
      proof (cases "cached cache ?p f")
        case None
        then show ?thesis
          using \<open>map_of agentTargets t = Some nm\<close> Some False raw fresh assms(1) by (auto simp: buildInfo_of_def Let_def cache_true_def)
      next
        case (Some b)
        then have b: "cache ?p = Some b" "bd_size b = fd_size f" "bd_built b = fd_mtime f" by (auto simp: cached_def split: option.splits if_splits)
        with assms(1) have t: "map_of agentTargets (bd_target b) = Some (bd_file b)" "join_path (distDir c) (bd_file b) = ?p"
          "bd_sha256 b = sha (content ?p (fd_size f) (fd_mtime f))"
          unfolding cache_true_def by metis+
        then have "bd_file b = nm" by (simp add: join_inj)
        with \<open>map_of agentTargets t = Some nm\<close> t(1) have "bd_target b = t" by (auto dest: target_of_file)
        with \<open>map_of agentTargets t = Some nm\<close> \<open>fs ?p = Some f\<close> False Some fresh b \<open>bd_file b = nm\<close> t(3) assms(1)
        show ?thesis by (simp add: buildInfo_of_def Let_def)
      qed
    qed
  qed
qed

lemma download_cached:
  assumes "cache_true c sha content cache" "stamped content fs"
  shows "fst (agentDownload c sha fs t cache) = fst (agentDownload c sha fs t Map.empty)"
    and "cache_true c sha content (snd (agentDownload c sha fs t cache))"
proof -
  let ?t = "TrimSuffix t ''.sha256''"
  note b = cached_build [OF assms, of ?t] and f = fresh_build_def [of c sha fs ?t]
  show "fst (agentDownload c sha fs t cache) = fst (agentDownload c sha fs t Map.empty)"
    "cache_true c sha content (snd (agentDownload c sha fs t cache))"
    using b f by (auto simp: agentDownload_def Let_def split: prod.splits option.splits)
qed

lemma download_fresh:
  assumes "stamped content fs" "fst (agentDownload c sha fs t Map.empty) = Json 200 (VFile n h raw)"
  shows "h = sha raw"
proof -
  obtain b cache' where b: "buildInfo_of c sha fs (TrimSuffix t ''.sha256'') Map.empty = (Some b, cache')"
    and r: "ReadFile fs (join_path (distDir c) (bd_file b)) = Some raw" "h = bd_sha256 b"
    using assms(2) by (auto simp: agentDownload_def Let_def split: prod.splits option.splits if_splits)
  from b have "bd_sha256 b = sha (the (ReadFile fs (join_path (distDir c) (bd_file b))))"
    by (auto simp: buildInfo_of_def Let_def cached_def split: option.splits if_splits)
  with r show ?thesis by simp
qed

text \<open>C28: 
  C0: The cache of checksums cannot be seen. As long as size and time of a file determine its bytes, any sequence of
  downloads, each on the disk of its moment, is answered as if every request read and hashed the file itself; and
  whenever a binary is served, the checksum in the header is that of the bytes that follow, so an agent that checks
  what it downloads against the header never refuses a genuine build.
\<close>

theorem build_cache_is_transparent:
  assumes "list_all (\<lambda>r. stamped content (fst r)) rs"
  shows "serve_builds c sha rs Map.empty = map (\<lambda>r. fst (agentDownload c sha (fst r) (snd r) Map.empty)) rs \<and>
         list_all (\<lambda>a. \<forall>n h raw. a = Json 200 (VFile n h raw) \<longrightarrow> h = sha raw) (serve_builds c sha rs Map.empty)"
proof -
  have "serve_builds c sha rs cache = map (\<lambda>r. fst (agentDownload c sha (fst r) (snd r) Map.empty)) rs"
    if "cache_true c sha content cache" for cache
    using assms that
  proof (induction rs arbitrary: cache)
    case (Cons r rs)
    then show ?case using download_cached [of c sha content cache "fst r" "snd r"] by (simp add: case_prod_beta)
  qed simp
  from this [of Map.empty] have eq: "serve_builds c sha rs Map.empty = map (\<lambda>r. fst (agentDownload c sha (fst r) (snd r) Map.empty)) rs"
    by (simp add: cache_true_def)
  moreover have "list_all (\<lambda>a. \<forall>n h raw. a = Json 200 (VFile n h raw) \<longrightarrow> h = sha raw)
      (map (\<lambda>r. fst (agentDownload c sha (fst r) (snd r) Map.empty)) rs)"
    using assms by (auto simp: list_all_iff intro: download_fresh)
  ultimately show ?thesis by simp
qed

theorem build_cache_is_transparent_witness:
  "\<exists>h. serve_builds None rev (replicate 2 ([''/app/agent/pmacct-agent-linux-amd64'' \<mapsto>
       \<lparr>fd_dir = False, fd_size = 2, fd_mtime = 7, fd_content = Some ''ab''\<rparr>], ''linux-amd64'')) Map.empty =
     replicate 2 (Json 200 (VFile ''pmacct-agent-linux-amd64'' h ''ab'')) \<and> h = ''ba''"
proof -
  let ?fs = "[''/app/agent/pmacct-agent-linux-amd64'' \<mapsto> \<lparr>fd_dir = False, fd_size = 2, fd_mtime = 7, fd_content = Some ''ab''\<rparr>]"
  have "list_all (\<lambda>r. stamped (\<lambda>_ _ _. ''ab'') (fst r)) (replicate 2 (?fs, ''linux-amd64''))"
    by (auto simp: list_all_iff stamped_def split: if_splits)
  note build_cache_is_transparent [OF this, of None rev]
  moreover have "fst (agentDownload None rev ?fs ''linux-amd64'' Map.empty) = Json 200 (VFile ''pmacct-agent-linux-amd64'' ''ba'' ''ab'')"
  proof -
    have p: "join_path (distDir None) ''pmacct-agent-linux-amd64'' = ''/app/agent/pmacct-agent-linux-amd64''"
      "TrimSuffix ''linux-amd64'' ''.sha256'' = ''linux-amd64''" "\<not> HasSuffix ''linux-amd64'' ''.sha256''"
      by code_simp+
    show ?thesis by (simp add: agentDownload_def buildInfo_of_def Let_def agentTargets_def p cached_def ReadFile_def)
  qed
  ultimately show ?thesis by (simp add: numeral_2_eq_2)
qed

end
