(* ===== verification/Enrich.thy ===== *)
theory Enrich
  imports Scheduler
begin

text \<open>
  The providers of the enrichment lanes (\<open>internal/enrich\<close>): the requests they make, the statuses and the answers they
  read, and the records they make of them. The HTTP client is the parameter \<open>transport\<close> (an error, also of a URL that
  cannot be parsed, or a status and a body); \<open>encoding/json\<close> is a decoder per response, a field that is absent
  being the zero value; the resolver, \<open>fmt.Sscanf\<close> on a pair of numbers and the readers of the MaxMind files are
  parameters too. The texts of addresses are those \<open>netip\<close> prints, which it parses back.
\<close>

section \<open>URLs\<close>

definition unreserved :: "char \<Rightarrow> bool" where
  "unreserved c \<longleftrightarrow>
     (CHR ''a'' \<le> c \<and> c \<le> CHR ''z'') \<or> (CHR ''A'' \<le> c \<and> c \<le> CHR ''Z'') \<or> is_digit c \<or> c \<in> set ''-_.~''"

definition percent :: "char \<Rightarrow> string" where
  "percent c = [CHR ''%'', ''0123456789ABCDEF'' ! (of_char c div 16), ''0123456789ABCDEF'' ! (of_char c mod 16)]"

definition PathEscape :: "string \<Rightarrow> string" where
  "PathEscape s = concat (map (\<lambda>c. if unreserved c \<or> c \<in> set ''$&+:=@'' then [c] else percent c) s)"

definition QueryEscape :: "string \<Rightarrow> string" where
  "QueryEscape s = concat (map (\<lambda>c. if unreserved c then [c] else if c = CHR '' '' then ''+'' else percent c) s)"

definition base_url :: "string \<Rightarrow> string" where
  "base_url u = TrimRight {CHR ''/''} u"

section \<open>Responses\<close>

record http_request =
  rq_url :: string
  rq_headers :: "(string \<times> string) list"

record ipapiResp =
  ia_status :: string
  ia_message :: string
  ia_country :: string
  ia_country_code :: string
  ia_region :: string
  ia_city :: string
  ia_lat :: json
  ia_lon :: json
  ia_timezone :: string
  ia_isp :: string
  ia_org :: string
  ia_as :: string
  ia_asname :: string
  ia_reverse :: string
  ia_mobile :: bool
  ia_proxy :: bool
  ia_hosting :: bool

record ipinfoResp =
  io_hostname :: string
  io_city :: string
  io_region :: string
  io_country :: string
  io_loc :: string
  io_org :: string
  io_timezone :: string
  io_bogon :: bool
  io_error :: "string option"

record abuseResp =
  ab_score :: int
  ab_reports :: int
  ab_users :: int
  ab_last :: string
  ab_usage :: string
  ab_isp :: string
  ab_domain :: string
  ab_country :: string
  ab_tor :: bool
  ab_white :: "bool option"
  ab_errors :: "string list"

record gnResp =
  gn_noise :: bool
  gn_riot :: bool
  gn_class :: string
  gn_name :: string
  gn_link :: string
  gn_last :: string

record otxResp =
  ox_reputation :: int
  ox_count :: int
  ox_pulses :: "string list"

record vtResp =
  vp_asn :: int
  vp_owner :: string
  vp_country :: string
  vp_network :: string
  vp_reputation :: int
  vp_tags :: "string list"
  vp_last :: int
  vp_malicious :: int
  vp_suspicious :: int
  vp_harmless :: int
  vp_undetected :: int
  vp_error :: "(string \<times> string) option"

record vtFileResp =
  vf_name :: string
  vf_names :: "string list"
  vf_type :: string
  vf_first :: int
  vf_last :: int
  vf_malicious :: int
  vf_suspicious :: int
  vf_harmless :: int
  vf_undetected :: int
  vf_signers :: string
  vf_label :: string
  vf_error :: "(string \<times> string) option"

record mmCity =
  mc_city :: "string \<rightharpoonup> string"
  mc_iso :: string
  mc_country :: "string \<rightharpoonup> string"
  mc_subdivisions :: "(string \<rightharpoonup> string) list"
  mc_lat :: json
  mc_lon :: json
  mc_zone :: string

record mmASN =
  ma_number :: nat
  ma_org :: string

text \<open>\<open>lookup_txt\<close>: an error and whether it says that the name does not exist, or the records.\<close>

record net_env = env +
  transport :: "http_request \<Rightarrow> string + nat \<times> string"
  read_ipapi :: "string \<Rightarrow> string + ipapiResp"
  read_ipinfo :: "string \<Rightarrow> string + ipinfoResp"
  read_abuse :: "string \<Rightarrow> string + abuseResp"
  read_gn :: "string \<Rightarrow> string + gnResp"
  read_otx :: "string \<Rightarrow> string + otxResp"
  read_vt :: "string \<Rightarrow> string + vtResp"
  read_vt_file :: "string \<Rightarrow> string + vtFileResp"
  scan_pair :: "string \<Rightarrow> (json \<times> json) option"
  resolve_addr :: "string \<Rightarrow> string list option"
  lookup_txt :: "string \<Rightarrow> (bool \<times> string) + string list"

definition ask :: "'e net_env_scheme \<Rightarrow> string \<Rightarrow> (string \<times> string) list \<Rightarrow> string + nat \<times> string" where
  "ask e u hs = transport e \<lparr>rq_url = u, rq_headers = hs\<rparr>"

definition sp :: "string \<Rightarrow> string option" where
  "sp s = (if s = [] then None else Some s)"

definition nz :: "string \<Rightarrow> string \<Rightarrow> string" where
  "nz s def = (if s = [] then def else s)"

definition zero_number :: "json \<Rightarrow> bool" where
  "zero_number j = (case j of JNum n \<Rightarrow> n = 0 | JDec m _ \<Rightarrow> m = 0 | _ \<Rightarrow> False)"

text \<open>\<open>strings.SplitN\<close> at the first space, into two at most.\<close>

definition split_owner :: "string \<Rightarrow> string \<times> string option" where
  "split_owner s = (case IndexByte s CHR '' '' of None \<Rightarrow> (s, None) | Some i \<Rightarrow> (take i s, Some (drop (Suc i) s)))"

text \<open>A record before anything is known: the zero value of the struct.\<close>

definition blank_info :: "addr \<Rightarrow> IPInfo" where
  "blank_info ip = (new_info zero_time ip)\<lparr>ii_status := []\<rparr>"

section \<open>Locations\<close>

text \<open>The two coordinates, unless both are zero.\<close>

definition coordinates :: "json \<Rightarrow> json \<Rightarrow> (json \<times> json) option" where
  "coordinates lat lon = (if zero_number lat \<and> zero_number lon then None else Some (lat, lon))"

definition ipapi_url :: "string \<Rightarrow> string \<Rightarrow> string" where
  "ipapi_url base ip =
     base_url base @ ''/json/'' @ PathEscape ip @
     ''?fields=status,message,country,countryCode,regionName,city,lat,lon,timezone,isp,org,as,asname,reverse,mobile,proxy,hosting''"

definition ipapi_info :: "addr \<Rightarrow> ipapiResp \<Rightarrow> IPInfo" where
  "ipapi_info ip r =
     (let i = (blank_info ip)\<lparr>ii_country := sp (ia_country r), ii_country_code := sp (ia_country_code r), ii_region := sp (ia_region r),
            ii_city := sp (ia_city r), ii_timezone := sp (ia_timezone r), ii_isp := sp (ia_isp r), ii_org := sp (ia_org r),
            ii_hostname := sp (ia_reverse r), ii_hosting := Some (ia_hosting r), ii_proxy := Some (ia_proxy r),
            ii_mobile := Some (ia_mobile r), ii_lat := map_option fst (coordinates (ia_lat r) (ia_lon r)),
            ii_lon := map_option snd (coordinates (ia_lat r) (ia_lon r))\<rparr> in
      if ia_as r = [] then i
      else (case split_owner (ia_as r) of
          (asn, Some owner) \<Rightarrow> i\<lparr>ii_asn := sp asn, ii_as_org := sp owner\<rparr>
        | (asn, None) \<Rightarrow> i\<lparr>ii_asn := sp asn, ii_as_org := sp (ia_asname r)\<rparr>))"

definition IPAPI_Lookup :: "'e net_env_scheme \<Rightarrow> string \<Rightarrow> addr \<Rightarrow> string + IPInfo" where
  "IPAPI_Lookup e base ip =
     bindE (ask e (ipapi_url base (AddrString ip)) [(''User-Agent'', ''pmacct-analyzer/1.0'')]) (\<lambda>(st, body).
       if st = 429 then Inl ''ip-api rate limited (429)''
       else if st \<noteq> 200 then Inl (''ip-api http '' @ Itoa (int st))
       else case read_ipapi e body of
         Inl err \<Rightarrow> Inl (''ip-api decode: '' @ err)
       | Inr r \<Rightarrow> if ia_status r \<noteq> ''success'' then Inl (''ip-api: '' @ nz (ia_message r) ''lookup failed'') else Inr (ipapi_info ip r))"

definition ipinfo_info :: "'e net_env_scheme \<Rightarrow> addr \<Rightarrow> ipinfoResp \<Rightarrow> IPInfo" where
  "ipinfo_info e ip r =
     (let i = (blank_info ip)\<lparr>ii_hostname := sp (io_hostname r), ii_city := sp (io_city r), ii_region := sp (io_region r),
            ii_country_code := sp (io_country r), ii_timezone := sp (io_timezone r)\<rparr>;
          j = (case (if io_loc r = [] then None else scan_pair e (io_loc r)) of
                 None \<Rightarrow> i | Some (lat, lon) \<Rightarrow> i\<lparr>ii_lat := Some lat, ii_lon := Some lon\<rparr>) in
      if io_org r = [] then j
      else (case split_owner (io_org r) of
          (asn, Some owner) \<Rightarrow> j\<lparr>ii_asn := sp asn, ii_as_org := sp owner, ii_org := sp owner\<rparr>
        | (asn, None) \<Rightarrow> j\<lparr>ii_asn := sp asn\<rparr>))"

definition IPInfoIO_Lookup :: "'e net_env_scheme \<Rightarrow> string \<Rightarrow> string \<Rightarrow> addr \<Rightarrow> string + IPInfo" where
  "IPInfoIO_Lookup e base token ip =
     bindE (ask e (base_url base @ ''/'' @ PathEscape (AddrString ip) @ ''/json'')
         ((''Accept'', ''application/json'') # (if token = [] then [] else [(''Authorization'', ''Bearer '' @ token)]))) (\<lambda>(st, body).
       if st = 429 then Inl ''ipinfo rate limited (429)''
       else if st \<noteq> 200 then Inl (''ipinfo http '' @ Itoa (int st))
       else case read_ipinfo e body of
         Inl err \<Rightarrow> Inl (''ipinfo decode: '' @ err)
       | Inr r \<Rightarrow>
           (case io_error r of
              Some title \<Rightarrow> Inl (''ipinfo: '' @ title)
            | None \<Rightarrow> if io_bogon r then Inl ''ipinfo: bogon address'' else Inr (ipinfo_info e ip r)))"

text \<open>The two MaxMind files; an error of the second is ignored.\<close>

record MaxMind =
  mm_city :: "addr \<Rightarrow> string + mmCity"
  mm_asn :: "addr \<Rightarrow> mmASN"

definition OpenMaxMind ::
  "(string \<Rightarrow> string + (addr \<Rightarrow> string + mmCity)) \<Rightarrow> (string \<Rightarrow> string + (addr \<Rightarrow> mmASN)) \<Rightarrow> string \<Rightarrow> string \<Rightarrow> string + MaxMind" where
  "OpenMaxMind open_city open_asn cityPath asnPath =
     (case open_city cityPath of
        Inl err \<Rightarrow> Inl (''geoip city db: '' @ err)
      | Inr city \<Rightarrow>
          (case open_asn asnPath of
             Inl err \<Rightarrow> Inl (''geoip asn db: '' @ err)
           | Inr asn \<Rightarrow> Inr \<lparr>mm_city = city, mm_asn = asn\<rparr>))"

definition english :: "(string \<rightharpoonup> string) \<Rightarrow> string" where
  "english m = opt_default [] (m ''en'')"

definition maxmind_info :: "addr \<Rightarrow> mmCity \<Rightarrow> mmASN \<Rightarrow> IPInfo" where
  "maxmind_info ip c a =
     (let i = (blank_info ip)\<lparr>ii_country := sp (english (mc_country c)), ii_country_code := sp (mc_iso c), ii_city := sp (english (mc_city c)),
            ii_timezone := sp (mc_zone c), ii_region := (case mc_subdivisions c of [] \<Rightarrow> None | s # _ \<Rightarrow> sp (english s)),
            ii_lat := map_option fst (coordinates (mc_lat c) (mc_lon c)), ii_lon := map_option snd (coordinates (mc_lat c) (mc_lon c))\<rparr> in
      if ma_number a = 0 then i
      else i\<lparr>ii_asn := Some (''AS'' @ Itoa (int (ma_number a))), ii_as_org := sp (ma_org a), ii_org := sp (ma_org a)\<rparr>)"

definition MaxMind_Lookup :: "MaxMind \<Rightarrow> addr \<Rightarrow> string + IPInfo" where
  "MaxMind_Lookup m ip =
     (case mm_city m ip of
        Inl err \<Rightarrow> Inl (''maxmind city: '' @ err)
      | Inr c \<Rightarrow>
          (let i = maxmind_info ip c (mm_asn m ip) in
           if ii_country_code i = None \<and> ii_asn i = None then Inl (''maxmind: no data for '' @ AddrString ip) else Inr i))"

datatype provider = IPAPI string | IPInfoIO string string | Local MaxMind

definition Name :: "provider \<Rightarrow> string" where
  "Name p = (case p of IPAPI _ \<Rightarrow> ''ip-api.com'' | IPInfoIO _ _ \<Rightarrow> ''ipinfo.io'' | Local _ \<Rightarrow> ''maxmind'')"

definition provider_lookup :: "'e net_env_scheme \<Rightarrow> provider \<Rightarrow> addr \<Rightarrow> string + IPInfo" where
  "provider_lookup e p ip =
     (case p of IPAPI base \<Rightarrow> IPAPI_Lookup e base ip | IPInfoIO base token \<Rightarrow> IPInfoIO_Lookup e base token ip | Local m \<Rightarrow> MaxMind_Lookup m ip)"

record Enricher =
  en_provider :: provider
  en_reverse :: bool

definition reverse_name :: "'e net_env_scheme \<Rightarrow> addr \<Rightarrow> string option" where
  "reverse_name e ip =
     (case resolve_addr e (AddrString ip) of Some (n # _) \<Rightarrow> Some (TrimSuffix n ''.'') | _ \<Rightarrow> None)"

definition Lookup :: "'e net_env_scheme \<Rightarrow> Enricher \<Rightarrow> addr \<Rightarrow> IPInfo" where
  "Lookup e en ip =
     (let i = (case provider_lookup e (en_provider en) ip of
                 Inl m \<Rightarrow> (blank_info ip)\<lparr>ii_status := ''failed'', ii_error := Some m\<rparr>
               | Inr r \<Rightarrow> r\<lparr>ii_ip := ip, ii_status := ''ok'', ii_source := Some (Name (en_provider en))\<rparr>) in
      if en_reverse en \<and> ii_hostname i = None then i\<lparr>ii_hostname := reverse_name e ip\<rparr> else i)"

section \<open>VirusTotal\<close>

text \<open>What a status other than 200 and 404 means for a provider with a key.\<close>

definition refused :: "string \<Rightarrow> nat \<Rightarrow> 'a answer option" where
  "refused name st =
     (if st = 429 then Some QuotaExceeded
      else if st = 401 \<or> st = 403 then Some (LookupFailed (name @ '': invalid API key (http '' @ Itoa (int st) @ '')''))
      else None)"

definition http_error :: "string \<Rightarrow> nat \<Rightarrow> 'a answer" where
  "http_error name st = LookupFailed (name @ '' http '' @ Itoa (int st))"

definition from_unix :: "int \<Rightarrow> instant option" where
  "from_unix s = (if s > 0 then Some (s * Second) else None)"

text \<open>A request with a key: a refused one is settled, any other status and body is read by \<open>h\<close>.\<close>

definition ask_with_key :: "'e net_env_scheme \<Rightarrow> string \<Rightarrow> string \<Rightarrow> string \<Rightarrow> string \<Rightarrow> (nat \<Rightarrow> string \<Rightarrow> 'a answer) \<Rightarrow> 'a answer" where
  "ask_with_key e name u header key h =
     (case ask e u [(header, key), (''Accept'', ''application/json'')] of
        Inl err \<Rightarrow> LookupFailed err
      | Inr (st, body) \<Rightarrow> (case refused name st of Some a \<Rightarrow> a | None \<Rightarrow> h st body))"

definition report_of :: "VTResult \<Rightarrow> string option \<Rightarrow> string option \<Rightarrow> string option \<Rightarrow> VTReport" where
  "report_of v asn owner country = VTResult.extend v \<lparr>vr_asn = asn, vr_as_org = owner, vr_country_code = country\<rparr>"

definition unseen_address :: VTReport where
  "unseen_address =
     report_of (never_vt\<lparr>vt_malicious := Some 0, vt_suspicious := Some 0, vt_harmless := Some 0, vt_undetected := Some 0,
       vt_tags := Some [], vt_status := ''ok''\<rparr>) None None None"

definition address_report :: "vtResp \<Rightarrow> VTReport" where
  "address_report r =
     report_of (never_vt\<lparr>vt_malicious := Some (vp_malicious r), vt_suspicious := Some (vp_suspicious r), vt_harmless := Some (vp_harmless r),
         vt_undetected := Some (vp_undetected r), vt_reputation := Some (vp_reputation r), vt_tags := Some (vp_tags r),
         vt_network := sp (vp_network r), vt_last_analysis := from_unix (vp_last r), vt_status := ''ok''\<rparr>)
       (if vp_asn r = 0 then None else Some (''AS'' @ Itoa (vp_asn r))) (sp (vp_owner r)) (sp (vp_country r))"

definition vt_refusal :: "string \<times> string \<Rightarrow> 'a answer" where
  "vt_refusal err =
     (if fst err = ''QuotaExceededError'' then QuotaExceeded else LookupFailed (''virustotal: '' @ fst err @ '': '' @ snd err))"

definition VT_Lookup :: "'e net_env_scheme \<Rightarrow> string \<Rightarrow> string \<Rightarrow> addr \<Rightarrow> VTReport answer" where
  "VT_Lookup e base key ip =
     ask_with_key e ''virustotal'' (base_url base @ ''/api/v3/ip_addresses/'' @ PathEscape (AddrString ip)) ''x-apikey'' key (\<lambda>st body.
       if st = 404 then Answer unseen_address
       else if st \<noteq> 200 then http_error ''virustotal'' st
       else case read_vt e body of
         Inl err \<Rightarrow> LookupFailed (''virustotal decode: '' @ err)
       | Inr r \<Rightarrow> (case vp_error r of Some err \<Rightarrow> vt_refusal err | None \<Rightarrow> Answer (address_report r)))"

text \<open>A file VirusTotal has never seen.\<close>

definition unseen_file :: FileVT where
  "unseen_file = no_vt\<lparr>fv_status := ''unknown''\<rparr>"

text \<open>At most eight names, the meaningful one first.\<close>

definition file_names :: "string \<Rightarrow> string list \<Rightarrow> string list" where
  "file_names m ns =
     foldl (\<lambda>acc n. if n \<noteq> [] \<and> n \<noteq> m \<and> length acc < 8 then acc @ [n] else acc) (if m = [] then [] else [m]) ns"

definition file_report :: "vtFileResp \<Rightarrow> FileVT" where
  "file_report r =
     \<lparr>fv_status = ''ok'', fv_malicious = Some (vf_malicious r), fv_suspicious = Some (vf_suspicious r), fv_harmless = Some (vf_harmless r),
      fv_undetected = Some (vf_undetected r), fv_label = vf_label r, fv_names = file_names (vf_name r) (vf_names r),
      fv_signers = filter (\<lambda>s. s \<noteq> []) (map TrimSpace (SplitOn CHR '';'' (vf_signers r))), fv_type = vf_type r,
      fv_first_seen = from_unix (vf_first r), fv_last_analysis = from_unix (vf_last r), fv_error = None\<rparr>"

definition LookupFile :: "'e net_env_scheme \<Rightarrow> string \<Rightarrow> string \<Rightarrow> string \<Rightarrow> FileVT answer" where
  "LookupFile e base key hash =
     ask_with_key e ''virustotal'' (base_url base @ ''/api/v3/files/'' @ PathEscape (ToLower hash)) ''x-apikey'' key (\<lambda>st body.
       if st = 404 then Answer unseen_file
       else if st \<noteq> 200 then http_error ''virustotal'' st
       else case read_vt_file e body of
         Inl err \<Rightarrow> LookupFailed (''virustotal decode: '' @ err)
       | Inr r \<Rightarrow>
           (case vf_error r of
              Some err \<Rightarrow> if fst err = ''NotFoundError'' then Answer unseen_file else vt_refusal err
            | None \<Rightarrow> Answer (file_report r)))"

section \<open>Malware hash registry\<close>

definition mhr_zone :: "string \<Rightarrow> string" where
  "mhr_zone z = (if z = [] then ''malware.hash.cymru.com'' else TrimLeft {CHR ''.''} (TrimRight {CHR ''.''} z))"

text \<open>A record is the time of the last sighting and a percentage.\<close>

definition mhr_record :: "string \<Rightarrow> FileMHR option" where
  "mhr_record t =
     (case Fields t of
        a # b # _ \<Rightarrow>
          (case (Atoi a, Atoi (TrimSuffix b ''%'')) of
             (Some ts, Some pct) \<Rightarrow>
               Some \<lparr>fm_status = ''listed'', fm_detection = Some pct, fm_last_seen = Some (ts * Second), fm_error = None\<rparr>
           | _ \<Rightarrow> None)
      | _ \<Rightarrow> None)"

definition clean_hash :: FileMHR where
  "clean_hash = \<lparr>fm_status = ''clean'', fm_detection = None, fm_last_seen = None, fm_error = None\<rparr>"

definition MHR_Lookup :: "'e net_env_scheme \<Rightarrow> string \<Rightarrow> string \<Rightarrow> string + FileMHR" where
  "MHR_Lookup e z hash0 =
     (let hash = ToLower (TrimSpace hash0) in
      if length hash \<noteq> 32 \<and> length hash \<noteq> 40 then Inl (''mhr: need an md5 or sha1, got '' @ Itoa (int (length hash)) @ '' hex chars'')
      else case lookup_txt e (hash @ ''.'' @ mhr_zone z) of
        Inl (absent, err) \<Rightarrow> if absent then Inr clean_hash else Inl err
      | Inr txts \<Rightarrow> (case List.map_filter mhr_record txts of [] \<Rightarrow> Inr clean_hash | r # _ \<Rightarrow> Inr r))"

section \<open>Reputation\<close>

definition rated :: "string \<Rightarrow> int \<Rightarrow> bool \<Rightarrow> (string \<times> json) list \<Rightarrow> Reputation" where
  "rated source score flagged data =
     \<lparr>rp_source = source, rp_status = ''ok'', rp_error = None, rp_attempts = 0, rp_lookup_at = zero_time, rp_score = Some score,
      rp_flagged = flagged, rp_data = data\<rparr>"

text \<open>The members of a marshalled object are in the order of their names.\<close>

definition abuse_data :: "abuseResp \<Rightarrow> (string \<times> json) list" where
  "abuse_data r =
     [(''country'', JStr (ab_country r)), (''domain'', JStr (ab_domain r)), (''is_tor'', JBool (ab_tor r)), (''isp'', JStr (ab_isp r)),
      (''last_reported'', JStr (ab_last r)), (''reporters'', JNum (ab_users r)), (''reports'', JNum (ab_reports r)),
      (''score'', JNum (ab_score r)), (''usage_type'', JStr (ab_usage r)),
      (''whitelisted'', case ab_white r of None \<Rightarrow> JNull | Some b \<Rightarrow> JBool b)]"

text \<open>\<open>MinScore\<close> of 0 is 50.\<close>

definition AbuseIPDB_Lookup :: "'e net_env_scheme \<Rightarrow> string \<Rightarrow> string \<Rightarrow> int \<Rightarrow> addr \<Rightarrow> Reputation answer" where
  "AbuseIPDB_Lookup e base key min_score ip =
     (case ask e (base_url base @ ''/api/v2/check?ipAddress='' @ QueryEscape (AddrString ip) @ ''&maxAgeInDays=90'')
             [(''Key'', key), (''Accept'', ''application/json'')] of
        Inl err \<Rightarrow> LookupFailed err
      | Inr (st, body) \<Rightarrow>
     (case refused ''abuseipdb'' st of Some a \<Rightarrow> a
      | None \<Rightarrow>
     (case read_abuse e body of
        Inl err \<Rightarrow> LookupFailed (''abuseipdb decode: '' @ err)
      | Inr r \<Rightarrow>
          (case ab_errors r of
             detail # _ \<Rightarrow> LookupFailed (''abuseipdb: '' @ detail)
           | [] \<Rightarrow>
               if st \<noteq> 200 then http_error ''abuseipdb'' st
               else Answer (rated ''abuseipdb'' (ab_score r) (ab_score r \<ge> (if min_score = 0 then 50 else min_score) \<or> ab_tor r)
                      (abuse_data r))))))"

definition gn_score :: "gnResp \<Rightarrow> int" where
  "gn_score r = (if gn_class r = ''malicious'' then 100 else if gn_class r = ''unknown'' \<and> gn_noise r then 40 else 0)"

definition gn_data :: "gnResp \<Rightarrow> (string \<times> json) list" where
  "gn_data r =
     [(''classification'', JStr (gn_class r)), (''last_seen'', JStr (gn_last r)), (''link'', JStr (gn_link r)), (''name'', JStr (gn_name r)),
      (''noise'', JBool (gn_noise r)), (''observed'', JBool True), (''riot'', JBool (gn_riot r))]"

definition GreyNoise_Lookup :: "'e net_env_scheme \<Rightarrow> string \<Rightarrow> string \<Rightarrow> addr \<Rightarrow> Reputation answer" where
  "GreyNoise_Lookup e base key ip =
     ask_with_key e ''greynoise'' (base_url base @ ''/v3/community/'' @ PathEscape (AddrString ip)) ''key'' key (\<lambda>st body.
       if st = 404 then Answer (rated ''greynoise'' 0 False [(''observed'', JBool False)])
       else if st \<noteq> 200 then http_error ''greynoise'' st
       else case read_gn e body of
         Inl err \<Rightarrow> LookupFailed (''greynoise decode: '' @ err)
       | Inr r \<Rightarrow> Answer (rated ''greynoise'' (gn_score r) (gn_class r = ''malicious'') (gn_data r)))"

definition OTX_Lookup :: "'e net_env_scheme \<Rightarrow> string \<Rightarrow> string \<Rightarrow> addr \<Rightarrow> Reputation answer" where
  "OTX_Lookup e base key ip =
     ask_with_key e ''otx'' (base_url base @ ''/api/v1/indicators/IPv4/'' @ PathEscape (AddrString ip) @ ''/general'') ''X-OTX-API-KEY'' key
       (\<lambda>st body.
       if st \<noteq> 200 then http_error ''otx'' st
       else case read_otx e body of
         Inl err \<Rightarrow> LookupFailed (''otx decode: '' @ err)
       | Inr r \<Rightarrow>
           Answer (rated ''otx'' (ox_count r) (ox_count r > 0 \<or> ox_reputation r < 0)
             [(''pulse_count'', JNum (ox_count r)), (''pulses'', JArr (map JStr (take 5 (ox_pulses r)))),
              (''reputation'', JNum (ox_reputation r))]))"

end
