(* ===== verification/Tls.thy ===== *)
theory Tls
  imports Config "HOL-Library.Char_ord" "HOL-Library.List_Lexorder"
begin

text \<open>
  The analyzer's own HTTPS identity (\<open>internal/tlsca/tlsca.go\<close>): the internal certificate authority and the server
  certificate, loaded from the settings table or issued, and the daily renewal. Cryptography (key generation, serial
  numbers, issuing, parsing and checking certificates, PEM, SHA-256) is a parameter, as are the name and the addresses
  of the machine. A certificate is the part of \<open>x509.Certificate\<close> that the code reads. One call takes place at one
  instant. A store of \<open>None\<close> is the memory-only manager.
\<close>

section \<open>Certificates and keys\<close>

record cert =
  ct_subject :: string
  ct_not_before :: instant
  ct_not_after :: instant
  ct_is_ca :: bool
  ct_ips :: "addr list"
  ct_dns :: "string list"
  ct_raw :: string
  ct_spki :: string

record certificate_template =
  tp_serial :: int
  tp_subject :: string
  tp_not_before :: instant
  tp_not_after :: instant
  tp_is_ca :: bool
  tp_ips :: "addr list"
  tp_dns :: "string list"

record pemPair =
  CertPEM :: string
  KeyPEM :: string
  Hosts :: "string list"

type_synonym tls_store = "string \<rightharpoonup> pemPair"

text \<open>Keys are the texts of their marshalled form; \<open>sign\<close> takes the certificate of the issuer (\<open>None\<close>: itself), the
  key to certify and the key of the issuer.\<close>

record tls_env = env +
  gen_key :: "string \<Rightarrow> string + string"
  gen_serial :: "string \<Rightarrow> int"
  sign :: "certificate_template \<Rightarrow> cert option \<Rightarrow> string \<Rightarrow> string \<Rightarrow> string + string"
  parse_cert :: "string \<Rightarrow> string + cert"
  signed_by :: "cert \<Rightarrow> cert \<Rightarrow> bool"
  marshal_key :: "string \<Rightarrow> string + string"
  parse_key :: "string \<Rightarrow> string + string"
  pem_encode :: "string \<Rightarrow> string \<Rightarrow> string"
  pem_decode :: "string \<Rightarrow> string option"
  key_pair_error :: "string \<Rightarrow> string \<Rightarrow> string option"
  sha256_sum :: "string \<Rightarrow> string"
  hostname :: "string option"
  interface_addrs :: "addr list"

definition caValidity :: duration where "caValidity = 10 * 365 * 24 * Hour"
definition leafValidity :: duration where "leafValidity = 397 * 24 * Hour"
definition renewBefore :: duration where "renewBefore = 30 * 24 * Hour"
definition keyCA :: string where "keyCA = ''tls_ca''"
definition keyServer :: string where "keyServer = ''tls_server''"

definition encodePair :: "'e tls_env_scheme \<Rightarrow> string \<Rightarrow> string \<Rightarrow> string + pemPair" where
  "encodePair e der key =
     bindE (marshal_key e key) (\<lambda>kb.
       Inr \<lparr>CertPEM = pem_encode e ''CERTIFICATE'' der, KeyPEM = pem_encode e ''EC PRIVATE KEY'' kb, Hosts = []\<rparr>)"

definition parsePair :: "'e tls_env_scheme \<Rightarrow> pemPair \<Rightarrow> string + cert \<times> string" where
  "parsePair e p =
     (case (pem_decode e (CertPEM p), pem_decode e (KeyPEM p)) of
        (Some cb, Some kb) \<Rightarrow> bindE (parse_cert e cb) (\<lambda>c. bindE (parse_key e kb) (\<lambda>k. Inr (c, k)))
      | _ \<Rightarrow> Inl ''bad PEM'')"

fun pairs :: "string \<Rightarrow> string list" where
  "pairs (a # b # s) = [a, b] # pairs s"
| "pairs [a] = [[a]]"
| "pairs [] = []"

definition hex_upper :: "string \<Rightarrow> string" where
  "hex_upper s = concat (map (\<lambda>c. [''0123456789ABCDEF'' ! (of_char c div 16), ''0123456789ABCDEF'' ! (of_char c mod 16)]) s)"

definition fingerprint :: "'e tls_env_scheme \<Rightarrow> cert \<Rightarrow> string" where
  "fingerprint e c = Join (pairs (hex_upper (sha256_sum e (ct_raw c)))) '':''"

text \<open>\<open>base64.StdEncoding\<close>\<close>

definition base64_char :: "nat \<Rightarrow> char" where
  "base64_char n = ''ABCDEFGHIJKLMNOPQRSTUVWXYZabcdefghijklmnopqrstuvwxyz0123456789+/'' ! (n mod 64)"

fun base64 :: "string \<Rightarrow> string" where
  "base64 (a # b # c # s) =
     (let n = of_char a * 65536 + of_char b * 256 + of_char c in
      map base64_char [n div 262144, n div 4096, n div 64, n] @ base64 s)"
| "base64 [a, b] = (let n = of_char a * 65536 + of_char b * 256 in map base64_char [n div 262144, n div 4096, n div 64] @ ''='')"
| "base64 [a] = (let n = of_char a * 65536 in map base64_char [n div 262144, n div 4096] @ ''=='')"
| "base64 [] = []"

definition spki :: "'e tls_env_scheme \<Rightarrow> cert \<Rightarrow> string" where
  "spki e c = base64 (sha256_sum e (ct_spki c))"

section \<open>Names\<close>

definition clean_host :: "string \<Rightarrow> string" where
  "clean_host h = ToLower (TrimSpace h)"

definition given_hosts :: "string list \<Rightarrow> string list" where
  "given_hosts hs = filter (\<lambda>h. h \<noteq> []) (map clean_host hs)"

definition own_hosts :: "'e tls_env_scheme \<Rightarrow> string list" where
  "own_hosts e =
     (case hostname e of None \<Rightarrow> [] | Some h \<Rightarrow> [h]) @
     map (\<lambda>a. AddrString (Unmap a)) (filter (\<lambda>a. \<not> IsLoopback a \<and> \<not> IsLinkLocalUnicast a) (interface_addrs e))"

definition normalizeHosts :: "'e tls_env_scheme \<Rightarrow> string list \<Rightarrow> string list" where
  "normalizeHosts e hosts =
     (let named = given_hosts hosts; all_hosts = (if named = [] then given_hosts (own_hosts e) else named)
      in sort (remdups (all_hosts @ [''localhost'', ''127.0.0.1''])))"

section \<open>The manager\<close>

record Manager =
  mg_hosts :: "string list"
  mg_ca :: cert
  mg_ca_key :: string
  mg_ca_pem :: string
  mg_leaf :: "(cert \<times> string \<times> string) option"

text \<open>\<open>GetSetting\<close> and \<open>SetSetting\<close>\<close>

definition get_pair :: "'e tls_env_scheme \<Rightarrow> string \<Rightarrow> tls_store option \<Rightarrow> string + pemPair option" where
  "get_pair e key s =
     (case s of None \<Rightarrow> Inr None
      | Some m \<Rightarrow> if fault e [''GetSetting'', key] then Inl (''GetSetting'' @ key) else Inr (m key))"

definition put_pair :: "'e tls_env_scheme \<Rightarrow> string \<Rightarrow> pemPair \<Rightarrow> tls_store option \<Rightarrow> string + tls_store option" where
  "put_pair e key p s =
     (case s of None \<Rightarrow> Inr None
      | Some m \<Rightarrow> if fault e [''SetSetting'', key] then Inl (''SetSetting'' @ key) else Inr (Some (m(key \<mapsto> p))))"

definition ca_template :: "'e tls_env_scheme \<Rightarrow> certificate_template" where
  "ca_template e =
     \<lparr>tp_serial = gen_serial e keyCA, tp_subject = ''pmacct-analyzer internal CA'', tp_not_before = now_of e - Hour,
      tp_not_after = now_of e + caValidity, tp_is_ca = True, tp_ips = [], tp_dns = []\<rparr>"

definition new_ca :: "'e tls_env_scheme \<Rightarrow> tls_store option \<Rightarrow> (string + cert \<times> string \<times> string) \<times> tls_store option" where
  "new_ca e s =
     (case bindE (gen_key e keyCA) (\<lambda>key. bindE (sign e (ca_template e) None key key) (\<lambda>der. bindE (parse_cert e der) (\<lambda>c.
             bindE (encodePair e der key) (\<lambda>p. bindE (put_pair e keyCA p s) (\<lambda>s'. Inr ((c, key, CertPEM p), s')))))) of
        Inl err \<Rightarrow> (Inl err, s)
      | Inr (ca, s') \<Rightarrow> (Inr ca, s'))"

text \<open>The stored authority, when it can still be used.\<close>

definition usable_ca :: "'e tls_env_scheme \<Rightarrow> pemPair \<Rightarrow> (cert \<times> string \<times> string) option" where
  "usable_ca e p =
     (if CertPEM p = [] then None
      else case parsePair e p of
        Inl _ \<Rightarrow> None
      | Inr (c, key) \<Rightarrow> if ct_is_ca c \<and> now_of e < ct_not_after c then Some (c, key, CertPEM p) else None)"

definition loadOrCreateCA :: "'e tls_env_scheme \<Rightarrow> tls_store option \<Rightarrow> (string + cert \<times> string \<times> string) \<times> tls_store option" where
  "loadOrCreateCA e s =
     (case get_pair e keyCA s of
        Inl err \<Rightarrow> (Inl err, s)
      | Inr p \<Rightarrow> (case Option.bind p (usable_ca e) of Some ca \<Rightarrow> (Inr ca, s) | None \<Rightarrow> new_ca e s))"

definition needsRenewal :: "'e tls_env_scheme \<Rightarrow> Manager \<Rightarrow> cert option \<Rightarrow> string list \<Rightarrow> bool" where
  "needsRenewal e m leaf hosts \<longleftrightarrow>
     (case leaf of None \<Rightarrow> True
      | Some c \<Rightarrow>
          now_of e + renewBefore > ct_not_after c \<or> now_of e < ct_not_before c \<or> \<not> signed_by e c (mg_ca m) \<or>
          Join hosts '','' \<noteq> Join (mg_hosts m) '','')"

definition setLeaf :: "'e tls_env_scheme \<Rightarrow> cert \<Rightarrow> pemPair \<Rightarrow> Manager \<Rightarrow> string + Manager" where
  "setLeaf e c p m =
     (let chain = CertPEM p @ mg_ca_pem m in
      case key_pair_error e chain (KeyPEM p) of
        Some err \<Rightarrow> Inl err
      | None \<Rightarrow> Inr (m\<lparr>mg_leaf := Some (c, chain, KeyPEM p)\<rparr>))"

definition leaf_template :: "'e tls_env_scheme \<Rightarrow> string list \<Rightarrow> certificate_template" where
  "leaf_template e hosts =
     \<lparr>tp_serial = gen_serial e keyServer, tp_subject = hd hosts, tp_not_before = now_of e - Hour, tp_not_after = now_of e + leafValidity,
      tp_is_ca = False, tp_ips = List.map_filter ParseAddr hosts, tp_dns = filter (\<lambda>h. ParseAddr h = None) hosts\<rparr>"

definition issueLeaf :: "'e tls_env_scheme \<Rightarrow> Manager \<Rightarrow> tls_store option \<Rightarrow> (string + Manager) \<times> tls_store option" where
  "issueLeaf e m s =
     (case bindE (gen_key e keyServer) (\<lambda>key.
             bindE (sign e (leaf_template e (mg_hosts m)) (Some (mg_ca m)) key (mg_ca_key m)) (\<lambda>der.
             bindE (parse_cert e der) (\<lambda>c. bindE (encodePair e der key) (\<lambda>p0. let p = p0\<lparr>Hosts := mg_hosts m\<rparr> in
             bindE (put_pair e keyServer p s) (\<lambda>s'. Inr (c, p, s')))))) of
        Inl err \<Rightarrow> (Inl err, s)
      | Inr (c, p, s') \<Rightarrow> (setLeaf e c p m, s'))"

definition ensureLeaf :: "'e tls_env_scheme \<Rightarrow> Manager \<Rightarrow> tls_store option \<Rightarrow> (string + Manager) \<times> tls_store option" where
  "ensureLeaf e m s =
     (case get_pair e keyServer s of
        Inl err \<Rightarrow> (Inl err, s)
      | Inr None \<Rightarrow> issueLeaf e m s
      | Inr (Some p) \<Rightarrow>
          if CertPEM p = [] then issueLeaf e m s
          else case parsePair e p of
            Inl _ \<Rightarrow> issueLeaf e m s
          | Inr (c, key) \<Rightarrow> if needsRenewal e m (Some c) (Hosts p) then issueLeaf e m s else (setLeaf e c p m, s))"

definition New :: "'e tls_env_scheme \<Rightarrow> tls_store option \<Rightarrow> string list \<Rightarrow> (string + Manager) \<times> tls_store option" where
  "New e s hosts =
     (case loadOrCreateCA e s of
        (Inl err, s1) \<Rightarrow> (Inl (''tls ca: '' @ err), s1)
      | (Inr (ca, key, pem), s1) \<Rightarrow>
          (case ensureLeaf e \<lparr>mg_hosts = normalizeHosts e hosts, mg_ca = ca, mg_ca_key = key, mg_ca_pem = pem, mg_leaf = None\<rparr> s1 of
             (Inl err, s2) \<Rightarrow> (Inl (''tls server certificate: '' @ err), s2)
           | (Inr m, s2) \<Rightarrow> (Inr m, s2)))"

text \<open>One tick of \<open>Run\<close>. A renewal that fails leaves the manager as it is.\<close>

definition tick :: "'e tls_env_scheme \<Rightarrow> Manager \<times> tls_store option \<Rightarrow> Manager \<times> tls_store option" where
  "tick e ms =
     (case ms of (m, s) \<Rightarrow>
        if needsRenewal e m (map_option fst (mg_leaf m)) (mg_hosts m)
        then (case issueLeaf e m s of (Inl _, s') \<Rightarrow> (m, s') | (Inr m', s') \<Rightarrow> (m', s'))
        else (m, s))"

definition GetCertificate :: "Manager \<Rightarrow> string + cert \<times> string \<times> string" where
  "GetCertificate m = (case mg_leaf m of None \<Rightarrow> Inl ''no server certificate'' | Some l \<Rightarrow> Inr l)"

definition CAPEM :: "Manager \<Rightarrow> string" where
  "CAPEM m = mg_ca_pem m"

record TLSInfo =
  ti_subject :: string
  ti_fingerprint :: string
  ti_spki :: string
  ti_ca_not_after :: instant
  ti_hosts :: "string list"
  ti_leaf_not_after :: instant
  ti_issued :: instant

definition Info_of :: "'e tls_env_scheme \<Rightarrow> Manager \<Rightarrow> TLSInfo" where
  "Info_of e m =
     (let i = \<lparr>ti_subject = ct_subject (mg_ca m), ti_fingerprint = fingerprint e (mg_ca m), ti_spki = spki e (mg_ca m),
            ti_ca_not_after = ct_not_after (mg_ca m), ti_hosts = mg_hosts m, ti_leaf_not_after = zero_time, ti_issued = zero_time\<rparr> in
      case mg_leaf m of None \<Rightarrow> i | Some (c, _) \<Rightarrow> i\<lparr>ti_leaf_not_after := ct_not_after c, ti_issued := ct_not_before c + Hour\<rparr>)"

end
