(* ===== verification/Server.thy ===== *)
theory Server
  imports Enrich Tls Feeds Builtin Notify Suricata ApiTraffic
begin

text \<open>
  The start of the program (\<open>cmd/server/main.go\<close>): which component runs under which configuration, and what makes the
  program refuse to start; the providers the lanes are wired to; and the handlers of \<open>internal/api/api.go\<close> for the
  state of the system and the HTTPS identity. Opening the database, migrating it, opening the MaxMind files and loading
  a certificate pair are parameters; goroutines, signals and the listening sockets are not modelled.
\<close>

section \<open>Providers\<close>

definition rep_lookup :: "Config \<Rightarrow> 'e net_env_scheme \<Rightarrow> string \<Rightarrow> addr \<Rightarrow> Reputation Scheduler.answer" where
  "rep_lookup c net name =
     (if name = ''abuseipdb'' then AbuseIPDB_Lookup net (AbuseIPDBBaseURL c) (AbuseIPDBKey c) 0
      else if name = ''greynoise'' then GreyNoise_Lookup net (GreyNoiseBaseURL c) (GreyNoiseKey c)
      else OTX_Lookup net (OTXBaseURL c) (OTXKey c))"

text \<open>The answers the lanes get, with the configured providers.\<close>

definition lookups_of :: "Config \<Rightarrow> 'e net_env_scheme \<Rightarrow> Enricher \<Rightarrow> (nat \<Rightarrow> bool) \<Rightarrow> lookup_env" where
  "lookups_of c net en stop =
     \<lparr>now_of = now_of net, fault = fault net, lookup_env.cancelled = stop, ask_geo = Lookup net en,
      ask_vt = VT_Lookup net (VTBaseURL c) (VTAPIKey c), ask_file = LookupFile net (VTBaseURL c) (VTAPIKey c),
      ask_mhr = MHR_Lookup net [], ask_rep = rep_lookup c net\<rparr>"

text \<open>MaxMind files come before a token of ipinfo.io, and that before ip-api.com.\<close>

definition geo_provider :: "(string \<Rightarrow> string \<Rightarrow> string + MaxMind) \<Rightarrow> Config \<Rightarrow> string + provider" where
  "geo_provider open_mm c =
     (if GeoIPCityDB c \<noteq> [] \<and> GeoIPASNDB c \<noteq> [] then bindE (open_mm (GeoIPCityDB c) (GeoIPASNDB c)) (\<lambda>m. Inr (Local m))
      else Inr (if IPInfoToken c \<noteq> [] then IPInfoIO (IPInfoBaseURL c) (IPInfoToken c) else IPAPI (IPAPIBaseURL c)))"

definition rep_lane :: "string \<Rightarrow> string \<Rightarrow> int \<Rightarrow> duration \<Rightarrow> RepLane list" where
  "rep_lane name key quota refresh =
     (if key = [] then [] else [\<lparr>rl_name = name, rl_quota = quota, rl_refresh = refresh, rl_batch = 0, rl_lane = newLane\<rparr>])"

definition rep_lanes :: "Config \<Rightarrow> RepLane list" where
  "rep_lanes c =
     rep_lane ''abuseipdb'' (AbuseIPDBKey c) (AbuseIPDBDailyQuota c) (AbuseIPDBRefresh c) @
     rep_lane ''greynoise'' (GreyNoiseKey c) (GreyNoiseDailyQuota c) (GreyNoiseRefresh c) @
     rep_lane ''otx'' (OTXKey c) (OTXDailyQuota c) (OTXRefresh c)"

definition NewWorker :: "Config \<Rightarrow> Worker \<Rightarrow> Worker" where
  "NewWorker c w =
     w\<lparr>wk_has_geo := True, wk_has_vt := (VTAPIKey c \<noteq> []), wk_rep := [], wk_files_cfg := None, wk_geo := newLane, wk_vt := newLane,
       wk_files := newLane, wk_rollups := newLane\<rparr>"

definition files_lane :: "Config \<Rightarrow> FilesLane option" where
  "files_lane c =
     (if FileIntelEnabled c \<and> (VTAPIKey c \<noteq> [] \<or> MHREnabled c)
      then Some \<lparr>fl_vt = (VTAPIKey c \<noteq> []), fl_mhr = MHREnabled c, fl_refresh = FileVTRefreshAfter c, fl_mhr_refresh = 0,
             fl_batch = VTBatchSize c\<rparr>
      else None)"

text \<open>The worker on the tables of \<open>w\<close>.\<close>

definition setup_worker :: "Config \<Rightarrow> Worker \<Rightarrow> Worker" where
  "setup_worker c w =
     (let w1 = fold AddRepLane (rep_lanes c) (NewWorker c w) in
      case files_lane c of None \<Rightarrow> w1 | Some f \<Rightarrow> EnableFiles f w1)"

section \<open>The start of the program\<close>

datatype https = NoHTTPS | CertFiles string string | InternalCA Manager

record 'x parts =
  pt_config :: Config
  pt_auth :: bool
  pt_notifier :: "Dispatcher option"
  pt_worker :: "(provider \<times> Worker) option"
  pt_feeds :: "Fetcher option"
  pt_engine :: "'x Engine option"
  pt_notifying :: bool
  pt_listener :: "bool option"
  pt_https :: https

text \<open>\<open>bo_feed_list\<close> lists the members of the map of configured lists; \<open>bo_min\<close> is the stored setting of the notifier.\<close>

record boot =
  bo_vars :: "string \<rightharpoonup> string"
  bo_connect :: "string \<Rightarrow> string option"
  bo_migrate :: "string option"
  bo_maxmind :: "string \<Rightarrow> string \<Rightarrow> string + MaxMind"
  bo_key_pair :: "string \<Rightarrow> string \<Rightarrow> string option"
  bo_feed_list :: "(string \<rightharpoonup> string) \<Rightarrow> (string \<times> string) list"
  bo_min :: "string option"
  bo_auth :: auth_env
  bo_notify :: notify_env
  bo_rules :: rule_env
  bo_tls :: tls_env

definition fetcher_of :: "boot \<Rightarrow> Config \<Rightarrow> Fetcher option" where
  "fetcher_of b c =
     (let fs = bo_feed_list b (ThreatFeeds c); cat = LOLBASURL c \<noteq> [] \<or> GTFOBinsURL c \<noteq> [] in
      if fs = [] \<and> \<not> cat then None
      else Some \<lparr>ft_feeds = fs, ft_interval = ThreatFeedsInterval c,
             ft_lolbins = (if cat then Some \<lparr>lo_lolbas = LOLBASURL c, lo_gtfobins = GTFOBinsURL c, lo_every = 0, lo_last = None\<rparr> else None),
             ft_last = None, ft_results = []\<rparr>)"

definition notifier_of :: "boot \<Rightarrow> Config \<Rightarrow> Dispatcher option" where
  "notifier_of b c = (let n = NewDispatcher c (bo_notify b) (bo_min b) in if di_channels n = [] then None else Some n)"

text \<open>An error is the label of the log line after which the program exits.\<close>

definition load_config :: "boot \<Rightarrow> string + Config" where
  "load_config b =
     (case Load (bo_vars b) of Inl _ \<Rightarrow> Inl ''config''
      | Inr c \<Rightarrow> if bo_connect b (DatabaseURL c) \<noteq> None then Inl ''database'' else if bo_migrate b \<noteq> None then Inl ''migrate'' else Inr c)"

definition seed_admin :: "boot \<Rightarrow> Config \<Rightarrow> auth_db \<Rightarrow> (string + unit) \<times> auth_db" where
  "seed_admin b c a =
     (if \<not> AuthEnabled c then (Inr (), a)
      else case EnsureAdmin (bo_auth b) c a of (Inl _, a') \<Rightarrow> (Inl ''seed admin'', a') | (Inr _, a') \<Rightarrow> (Inr (), a'))"

definition enrichment_of :: "boot \<Rightarrow> Config \<Rightarrow> Worker \<Rightarrow> string + (provider \<times> Worker) option" where
  "enrichment_of b c w =
     (if \<not> EnrichEnabled c then Inr None
      else case geo_provider (bo_maxmind b) c of Inl _ \<Rightarrow> Inl ''maxmind'' | Inr p \<Rightarrow> Inr (Some (p, setup_worker c w)))"

definition engine_of :: "boot \<Rightarrow> Config \<Rightarrow> 'x sight_scheme \<Rightarrow> string + 'x sight_ext Engine option" where
  "engine_of b c world =
     (if \<not> RulesEnabled c then Inr None
      else case Rules.New (bo_rules b) builtinRules world of Inl _ \<Rightarrow> Inl ''rules'' | Inr e \<Rightarrow> Inr (Some e))"

definition https_of :: "boot \<Rightarrow> Config \<Rightarrow> tls_store \<Rightarrow> (string + https) \<times> tls_store option" where
  "https_of b c s =
     (if TLSListenAddr c = [] then (Inr NoHTTPS, Some s)
      else if TLSCertFile c \<noteq> [] \<and> TLSKeyFile c \<noteq> []
      then (if bo_key_pair b (TLSCertFile c) (TLSKeyFile c) \<noteq> None then Inl ''tls certificate files'' else Inr (CertFiles (TLSCertFile c) (TLSKeyFile c)), Some s)
      else case Tls.New (bo_tls b) (Some s) (TLSHosts c) of (Inl _, s') \<Rightarrow> (Inl ''tls'', s') | (Inr m, s') \<Rightarrow> (Inr (InternalCA m), s'))"

definition start ::
  "boot \<Rightarrow> auth_db \<Rightarrow> Worker \<Rightarrow> 'x sight_scheme \<Rightarrow> tls_store \<Rightarrow> (string + 'x sight_ext parts) \<times> auth_db \<times> tls_store option" where
  "start b a w world s =
     (case load_config b of Inl stop \<Rightarrow> (Inl stop, a, Some s)
      | Inr c \<Rightarrow>
     (case seed_admin b c a of (Inl stop, a') \<Rightarrow> (Inl stop, a', Some s)
      | (Inr _, a') \<Rightarrow>
     (case bindE (enrichment_of b c w) (\<lambda>en. bindE (engine_of b c world) (\<lambda>rules. Inr (en, rules))) of
        Inl stop \<Rightarrow> (Inl stop, a', Some s)
      | Inr (en, rules) \<Rightarrow>
     (case https_of b c s of (Inl stop, s') \<Rightarrow> (Inl stop, a', s')
      | (Inr h, s') \<Rightarrow>
          (Inr \<lparr>pt_config = c, pt_auth = AuthEnabled c, pt_notifier = notifier_of b c, pt_worker = en, pt_feeds = fetcher_of b c,
               pt_engine = rules, pt_notifying = (rules \<noteq> None \<and> notifier_of b c \<noteq> None),
               pt_listener = (if SuricataListen c = [] then None else Some (rules \<noteq> None)), pt_https = h\<rparr>,
           a', s')))))"

section \<open>The state of the system\<close>

record status =
  su_rules :: bool
  su_suricata :: bool
  su_networks :: "string list"
  su_gateways :: "addr list"
  su_lists :: "(string \<times> int \<times> instant) list option"
  su_feeds :: "((instant option \<times> results) \<times> duration) option"
  su_notify :: "Notify.Stats option"
  su_ingest :: "IngestStats option"
  su_reputation :: "ReputationStats list option"
  su_alerts :: "AlertSummary option"
  su_auth :: bool
  su_attackers :: "AttemptStat list option"
  su_ip_rules :: "nat option"
  su_lanes :: "(string \<times> LaneStats) list option"

definition ok_of :: "'a dbres \<Rightarrow> 'a option" where
  "ok_of r = (case r of Inl _ \<Rightarrow> None | Inr x \<Rightarrow> Some x)"

text \<open>A part whose query fails is left out. The tables are those of \<open>w\<close> and \<open>a\<close>; \<open>on\<close>: the worker runs.\<close>

definition systemStatus ::
  "'e env_scheme \<Rightarrow> Config \<Rightarrow> bool \<Rightarrow> Fetcher option \<Rightarrow> Dispatcher option \<Rightarrow> Listener option \<Rightarrow> (string \<times> Worker) option \<Rightarrow> Worker \<Rightarrow> auth_db
     \<Rightarrow> status" where
  "systemStatus e c rules feeds notif lsn worker w a =
     \<lparr>su_rules = rules, su_suricata = (lsn \<noteq> None), su_networks = LocalNetworksCIDR c, su_gateways = Gateways c,
      su_lists = ok_of (ThreatListStats e (wk_intel w)),
      su_feeds = map_option (\<lambda>f. (Status f, ThreatFeedsInterval c)) feeds,
      su_notify = map_option (Notify.Stats_of c) notif,
      su_ingest = map_option (Suricata.Stats_of (SuricataListen c)) lsn,
      su_reputation = ok_of (ReputationStats_of e (wk_intel w)),
      su_alerts = ok_of (AlertSummary_of e (wk_alerts w)), su_auth = AuthEnabled c,
      su_attackers = (if AuthEnabled c then ok_of (TopAttackers e (24 * Hour) 5 a) else None),
      su_ip_rules = (if AuthEnabled c then map_option length (ok_of (ListIPRules e a)) else None),
      su_lanes = map_option (\<lambda>(geo_name, wk). ApiTraffic.Stats e c geo_name wk) worker\<rparr>"

section \<open>The HTTPS identity\<close>

text \<open>\<open>net.SplitHostPort\<close>\<close>

definition SplitHostPort :: "string \<Rightarrow> (string \<times> string) option" where
  "SplitHostPort s =
     (case (SplitHost s, last_colon s) of (Some h, Some i) \<Rightarrow> Some (h, drop (Suc i) s) | _ \<Rightarrow> None)"

definition tlsURL :: "string \<Rightarrow> string list \<Rightarrow> string \<Rightarrow> string" where
  "tlsURL listen names req =
     (let port = (case SplitHostPort listen of Some (_, p) \<Rightarrow> p | None \<Rightarrow> TrimPrefix listen '':'');
          name = (case SplitHostPort req of Some (h, _) \<Rightarrow> h | None \<Rightarrow> req);
          pick = (case find (\<lambda>h. h = ToLower name) names of
                    Some h \<Rightarrow> h
                  | None \<Rightarrow>
                      (case find (\<lambda>h. h \<noteq> ''localhost'' \<and> h \<noteq> ''127.0.0.1'') names of Some h \<Rightarrow> h | None \<Rightarrow> ''localhost''));
          host = (if Contains pick '':'' then ''['' @ pick @ '']'' else pick)
      in ''https://'' @ host @ '':'' @ port)"

record tls_answer =
  ta_enabled :: bool
  ta_internal :: bool
  ta_addr :: "string option"
  ta_info :: "(TLSInfo \<times> string) option"

definition tlsInfo :: "'e tls_env_scheme \<Rightarrow> Config \<Rightarrow> Manager option \<Rightarrow> string \<Rightarrow> tls_answer" where
  "tlsInfo e c m req =
     \<lparr>ta_enabled = (TLSListenAddr c \<noteq> []), ta_internal = (m \<noteq> None), ta_addr = sp (TLSListenAddr c),
      ta_info = (if TLSListenAddr c = [] then None
                 else map_option (\<lambda>mg. let i = Info_of e mg in (i, tlsURL (TLSListenAddr c) (ti_hosts i) req)) m)\<rparr>"

definition tlsCA :: "Manager option \<Rightarrow> string reply" where
  "tlsCA m = (case m of None \<Rightarrow> ErrMsg 404 ''built-in TLS is not enabled'' | Some mg \<Rightarrow> Json 200 (CAPEM mg))"

text \<open>The liveness probe: whether the database answers.\<close>

definition health :: "string option \<Rightarrow> string reply" where
  "health ping = (case ping of Some err \<Rightarrow> Json 503 err | None \<Rightarrow> Json 200 ''ok'')"

end
