(* ===== verification/EnrichSafety.thy ===== *)
theory EnrichSafety
  imports Enrich
begin

text \<open>
  What the lanes of the worker ask the internet: only about external addresses of the traffic, and only the providers
  the worker was set up with.
\<close>

section \<open>Addresses that are asked about\<close>

text \<open>An address of the traffic outside the local networks that is routed on the internet.\<close>

definition external_peer :: "Config \<Rightarrow> flow list \<Rightarrow> addr \<Rightarrow> bool" where
  "external_peer c acct ip \<longleftrightarrow>
     \<not> local_ip (LocalNetworks c) ip \<and> \<not> unroutable ip \<and> (\<exists>f \<in> set acct. ip_src f = ip \<or> ip_dst f = ip)"

lemma seen_external_peer: "p \<in> set (seen_external since (LocalNetworks c) acct) \<Longrightarrow> external_peer c acct (fst p)"
  by (auto simp: seen_external_def group_rows_def external_ends_def Let_def src_local_def dst_local_def external_peer_def)

lemma candidates_external: "ip \<in> set (candidates due never (seen_external since (LocalNetworks c) acct)) \<Longrightarrow> external_peer c acct ip"
  unfolding candidates_def using seen_external_peer by force

lemma candidate_queries_external:
  "EnrichmentCandidates e since (LocalNetworks c) rf n acct d = Inr ips \<Longrightarrow> list_all (external_peer c acct) ips"
  "VTCandidates e since (LocalNetworks c) rf n acct d = Inr ips \<Longrightarrow> list_all (external_peer c acct) ips"
  "ReputationCandidates e src since (LocalNetworks c) rf n acct d = Inr ips \<Longrightarrow> list_all (external_peer c acct) ips"
  by (auto simp: EnrichmentCandidates_def VTCandidates_def ReputationCandidates_def bindE_Inr_iff db_read_Inr_iff limit_rows_Inr_iff
      list_all_iff dest!: in_set_takeD candidates_external)

section \<open>Two networks\<close>

text \<open>The second network answers as the first one wherever a lane of the worker may ask: about the external peers of the
  traffic, each provider the worker has.\<close>

definition same_where_asked :: "Config \<Rightarrow> Worker \<Rightarrow> lookup_env \<Rightarrow> lookup_env \<Rightarrow> bool" where
  "same_where_asked c w e e' \<longleftrightarrow>
     now_of e' = now_of e \<and> fault e' = fault e \<and> cancelled e' = cancelled e \<and>
     (\<forall>ip. external_peer c (wk_acct w) ip \<longrightarrow>
        (wk_has_geo w \<longrightarrow> ask_geo e' ip = ask_geo e ip) \<and> (wk_has_vt w \<longrightarrow> ask_vt e' ip = ask_vt e ip) \<and>
        (\<forall>n \<in> rl_name ` set (wk_rep w). ask_rep e' n ip = ask_rep e n ip)) \<and>
     (\<forall>f. wk_files_cfg w = Some f \<longrightarrow> (fl_vt f \<longrightarrow> ask_file e' = ask_file e) \<and> (fl_mhr f \<longrightarrow> ask_mhr e' = ask_mhr e))"

lemma same_where_asked_base:
  assumes "same_where_asked c w e e'"
  shows "now_of e' = now_of e" "fault e' = fault e" "cancelled e' = cancelled e"
  using assms by (simp_all add: same_where_asked_def)

text \<open>What a lane leaves as it is.\<close>

definition setup_of :: "Worker \<Rightarrow> flow list \<times> bool \<times> bool \<times> RepLane list \<times> FilesLane option" where
  "setup_of w = (wk_acct w, wk_has_geo w, wk_has_vt w, wk_rep w, wk_files_cfg w)"

lemma same_where_asked_setup: "setup_of w' = setup_of w \<Longrightarrow> same_where_asked c w' e e' \<longleftrightarrow> same_where_asked c w e e'"
  by (simp add: setup_of_def same_where_asked_def)

lemma LookupAndStore_setup [simp]: "setup_of (snd (LookupAndStore e ip w)) = setup_of w"
  by (auto simp: LookupAndStore_def setup_of_def Let_def split: prod.splits sum.splits)

lemma LookupVT_setup [simp]: "setup_of (snd (LookupVT e ip w)) = setup_of w"
  by (auto simp: LookupVT_def setup_of_def Let_def split: prod.splits sum.splits answer.splits)

lemma geo_loop_setup [simp]: "setup_of (geo_loop e i ips w) = setup_of w"
  by (induction ips arbitrary: i w) auto

lemma set_vt_setup [simp]: "setup_of (w\<lparr>wk_vt := l\<rparr>) = setup_of w"
  by (simp add: setup_of_def)

lemma vt_loop_setup: "vt_loop e i ips w = (n, w') \<Longrightarrow> setup_of w' = setup_of w"
proof (induction ips arbitrary: i w)
  case (Cons ip ips)
  obtain o1 q w1 where l: "LookupVT e ip w = ((o1, q), w1)" by (metis surj_pair)
  then have "setup_of w1 = setup_of w" using LookupVT_setup [of e ip w] by simp
  with Cons l show ?case by (auto split: if_splits bool.splits)
qed simp

lemma RunGeoOnce_setup: "setup_of (snd (RunGeoOnce c e w)) = setup_of w"
  using geo_loop_setup [of e 0 _ w] by (auto simp: RunGeoOnce_def setup_of_def Let_def split: sum.splits)

lemma RunVTOnce_setup: "setup_of (snd (RunVTOnce c e w)) = setup_of w"
  by (auto simp: RunVTOnce_def split: sum.splits prod.splits dest!: vt_loop_setup)

section \<open>The lanes\<close>

text \<open>The statements see only the time and the faults.\<close>

lemma queries_same:
  assumes "now_of e' = now_of e" "fault e' = fault e"
  shows "UpsertIPInfo e' = UpsertIPInfo e" "UpsertVT e' = UpsertVT e" "UpsertReputation e' = UpsertReputation e"
    "EnrichmentCandidates e' = EnrichmentCandidates e" "VTCandidates e' = VTCandidates e" "ReputationCandidates e' = ReputationCandidates e"
    "VTUsage e' = VTUsage e" "ReputationUsage e' = ReputationUsage e"
  by (simp_all add: fun_eq_iff assms UpsertIPInfo_def UpsertVT_def UpsertReputation_def EnrichmentCandidates_def VTCandidates_def
      ReputationCandidates_def VTUsage_def ReputationUsage_def db_read_def db_write_def)

lemma file_queries_same:
  assumes "now_of e' = now_of e" "fault e' = fault e"
  shows "UpsertFileVT e' = UpsertFileVT e" "UpsertFileMHR e' = UpsertFileMHR e" "FileVTCandidates e' = FileVTCandidates e"
    "FileMHRCandidates e' = FileMHRCandidates e"
  by (simp_all add: fun_eq_iff assms UpsertFileVT_def UpsertFileMHR_def FileVTCandidates_def FileMHRCandidates_def db_read_def db_write_def)

lemma geo_loop_same:
  assumes b: "now_of e' = now_of e" "fault e' = fault e" "cancelled e' = cancelled e"
    and "list_all (\<lambda>ip. ask_geo e' ip = ask_geo e ip) ips"
  shows "geo_loop e' i ips w = geo_loop e i ips w"
  using assms(4)
proof (induction ips arbitrary: i w)
  case (Cons ip ips)
  then have a: "ask_geo e' ip = ask_geo e ip" by simp
  have "LookupAndStore e' ip w = LookupAndStore e ip w"
    unfolding LookupAndStore_def queries_same [OF b(1,2)] a ..
  with Cons b(3) show ?case by simp
qed simp

lemma vt_loop_same:
  assumes b: "now_of e' = now_of e" "fault e' = fault e" "cancelled e' = cancelled e"
    and "list_all (\<lambda>ip. ask_vt e' ip = ask_vt e ip) ips"
  shows "vt_loop e' i ips w = vt_loop e i ips w"
  using assms(4)
proof (induction ips arbitrary: i w)
  case (Cons ip ips)
  then have a: "ask_vt e' ip = ask_vt e ip" by simp
  have "LookupVT e' ip w = LookupVT e ip w"
    unfolding LookupVT_def queries_same [OF b(1,2)] a ..
  with Cons b(3) show ?case by (simp split: prod.splits bool.splits)
qed simp

lemma rep_loop_same:
  assumes b: "now_of e' = now_of e" "fault e' = fault e" "cancelled e' = cancelled e"
    and "list_all (\<lambda>ip. ask_rep e' n ip = ask_rep e n ip) ips"
  shows "rep_loop e' n i ips x = rep_loop e n i ips x"
  using assms(4)
proof (induction ips arbitrary: i x)
  case (Cons ip ips)
  then have a: "ask_rep e' n ip = ask_rep e n ip" by simp
  with Cons b(3) show ?case by (simp add: queries_same [OF b(1,2)] split: answer.splits)
qed simp

lemma files_loops_same:
  assumes b: "now_of e' = now_of e" "fault e' = fault e" "cancelled e' = cancelled e"
  shows "ask_file e' = ask_file e \<Longrightarrow> files_vt_loop e' i hs w = files_vt_loop e i hs w"
    "ask_mhr e' = ask_mhr e \<Longrightarrow> mhr_loop e' i fs w = mhr_loop e i fs w"
proof -
  note q = file_queries_same [OF b(1,2)]
  show "files_vt_loop e' i hs w = files_vt_loop e i hs w" if "ask_file e' = ask_file e"
    by (induction hs arbitrary: i w) (simp_all add: that b(3) q split: answer.splits)
  show "mhr_loop e' i fs w = mhr_loop e i fs w" if "ask_mhr e' = ask_mhr e"
    by (induction fs arbitrary: i w) (simp_all add: that b(3) q)
qed

lemma asked_about:
  assumes "same_where_asked c w e e'"
  shows "list_all (external_peer c (wk_acct w)) ips \<Longrightarrow> wk_has_geo w \<Longrightarrow> list_all (\<lambda>ip. ask_geo e' ip = ask_geo e ip) ips"
    "list_all (external_peer c (wk_acct w)) ips \<Longrightarrow> wk_has_vt w \<Longrightarrow> list_all (\<lambda>ip. ask_vt e' ip = ask_vt e ip) ips"
    "list_all (external_peer c (wk_acct w)) ips \<Longrightarrow> r \<in> set (wk_rep w) \<Longrightarrow>
       list_all (\<lambda>ip. ask_rep e' (rl_name r) ip = ask_rep e (rl_name r) ip) ips"
  using assms by (auto simp: same_where_asked_def list_all_iff)

lemma lanes_same:
  assumes s: "same_where_asked c w e e'"
  shows "RunGeoOnce c e' w = RunGeoOnce c e w" "RunVTOnce c e' w = RunVTOnce c e w"
proof -
  note b = same_where_asked_base [OF s]
  note q = queries_same [OF b(1,2)]
  show "RunGeoOnce c e' w = RunGeoOnce c e w"
    by (auto simp: RunGeoOnce_def b q geo_loop_same [OF b asked_about(1) [OF s]] candidate_queries_external split: sum.splits)
  show "RunVTOnce c e' w = RunVTOnce c e w"
    by (auto simp: RunVTOnce_def b q vt_loop_same [OF b asked_about(2) [OF s]] candidate_queries_external split: sum.splits)
qed

lemma RunFilesOnce_same:
  assumes s: "same_where_asked c w e e'"
  shows "RunFilesOnce c e' w = RunFilesOnce c e w"
proof (cases "wk_files_cfg w")
  case (Some f)
  note b = same_where_asked_base [OF s]
  note q = queries_same [OF b(1,2)] file_queries_same [OF b(1,2)]
  have "fl_vt f \<Longrightarrow> ask_file e' = ask_file e" "fl_mhr f \<Longrightarrow> ask_mhr e' = ask_mhr e"
    using s Some by (simp_all add: same_where_asked_def)
  note l = files_loops_same(1) [OF b this(1)] files_loops_same(2) [OF b this(2)]
  have "(if fl_vt f then runFilesVT c f e' x else y) = (if fl_vt f then runFilesVT c f e x else y)" for x y
    using l(1) by (auto simp: runFilesVT_def q split: sum.splits)
  moreover have "(if fl_mhr f then mhr_loop e' 0 hs x else y) = (if fl_mhr f then mhr_loop e 0 hs x else y)" for hs x y
    using l(2) by auto
  ultimately show ?thesis unfolding RunFilesOnce_def Some option.case q b by presburger
qed (simp add: RunFilesOnce_def)

lemma run_reps_same:
  assumes s: "same_where_asked c w e e'" and "set rs \<subseteq> set (wk_rep w)"
  shows "run_reps c e' (wk_acct w) rs d = run_reps c e (wk_acct w) rs d"
  using assms(2)
proof (induction rs arbitrary: d)
  case (Cons r rs)
  note b = same_where_asked_base [OF s]
  note q = queries_same [OF b(1,2)]
  have "r \<in> set (wk_rep w)" using Cons.prems by simp
  then have "RunRepOnce c e' (wk_acct w) r d = RunRepOnce c e (wk_acct w) r d"
    by (auto simp: RunRepOnce_def Let_def b q rep_loop_same [OF b asked_about(3) [OF s]] candidate_queries_external split: sum.splits)
  with Cons show ?case by (simp split: prod.splits)
qed simp

text \<open>The names of the lanes stay.\<close>

lemma run_reps_names: "run_reps c e acct rs d = (n, rs', d') \<Longrightarrow> map rl_name rs' = map rl_name rs"
proof (induction rs arbitrary: n rs' d d')
  case (Cons r rs)
  obtain n1 r1 d1 where r: "RunRepOnce c e acct r d = (n1, r1, d1)" by (metis prod_cases3)
  obtain n2 rs2 d2 where rs: "run_reps c e acct rs d1 = (n2, rs2, d2)" by (metis prod_cases3)
  have "rl_name r1 = rl_name r" using r by (auto simp: RunRepOnce_def Let_def split: sum.splits if_splits prod.splits)
  with Cons.IH [OF rs] Cons.prems r rs show ?case by auto
qed simp

text \<open>A full pass of the worker.\<close>

lemma pass_same:
  assumes "same_where_asked c w e e'"
  shows "RunOnce c e' w = RunOnce c e w"
proof -
  obtain n1 w1 where g: "RunGeoOnce c e w = (n1, w1)" by fastforce
  obtain n2 w2 where v: "RunVTOnce c e w1 = (n2, w2)" by fastforce
  obtain n3 rs d where r: "run_reps c e (wk_acct w2) (wk_rep w2) (wk_intel w2) = (n3, rs, d)" by (metis prod_cases3)
  let ?w3 = "w2\<lparr>wk_rep := rs, wk_intel := d\<rparr>"
  have a: "setup_of w1 = setup_of w" "setup_of w2 = setup_of w"
    using RunGeoOnce_setup [of c e w] RunVTOnce_setup [of c e w1] g v by simp_all
  then have s: "same_where_asked c w1 e e'" "same_where_asked c w2 e e'" using assms same_where_asked_setup by blast+
  have "same_where_asked c ?w3 e e'"
    using s(2) arg_cong [OF run_reps_names [OF r], of set] by (simp add: same_where_asked_def)
  then have "RunFilesOnce c e' ?w3 = RunFilesOnce c e ?w3" by (rule RunFilesOnce_same)
  moreover have "RunGeoOnce c e' w = (n1, w1)" using lanes_same(1) [OF assms] g by simp
  moreover have "RunVTOnce c e' w1 = (n2, w2)" using lanes_same(2) [OF s(1)] v by simp
  moreover have "run_reps c e' (wk_acct w2) (wk_rep w2) (wk_intel w2) = (n3, rs, d)" using run_reps_same [OF s(2)] r by simp
  ultimately show ?thesis by (simp add: RunOnce_def g v r)
qed

end
