(* ===== verification/TlsSafety.thy ===== *)
theory TlsSafety
  imports Tls
begin

text \<open>
  Properties of the HTTPS identity: the authority that browsers and agents pin survives restarts and renewals, and a
  check that succeeds secures the server certificate for thirty days.
\<close>

section \<open>What the libraries promise\<close>

text \<open>
  PEM, keys and certificates are read back as they were written. A certificate carries the fields of its template, its
  times cut to whole seconds, and one that was issued under an authority, a certificate marked as one, passes the check
  of its signature.
\<close>

definition round_trips :: "'e tls_env_scheme \<Rightarrow> bool" where
  "round_trips e \<longleftrightarrow>
     (\<forall>k b. pem_decode e (pem_encode e k b) = Some b \<and> pem_encode e k b \<noteq> []) \<and>
     (\<forall>k b. marshal_key e k = Inr b \<longrightarrow> parse_key e b = Inr k)"

definition issues_templates :: "'e tls_env_scheme \<Rightarrow> bool" where
  "issues_templates e \<longleftrightarrow>
     (\<forall>t p k sk der. sign e t p k sk = Inr der \<longrightarrow>
        (\<exists>c. parse_cert e der = Inr c \<and> ct_is_ca c = tp_is_ca t \<and> ct_not_before c \<le> tp_not_before t \<and>
             tp_not_after t - Second < ct_not_after c \<and> (\<forall>ca. p = Some ca \<and> ct_is_ca ca \<longrightarrow> signed_by e c ca)))"

definition sound_crypto :: "'e tls_env_scheme \<Rightarrow> bool" where
  "sound_crypto e \<longleftrightarrow> round_trips e \<and> issues_templates e"

text \<open>Two calls read PEM, keys and certificates the same way.\<close>

definition same_readers :: "'e tls_env_scheme \<Rightarrow> 'e tls_env_scheme \<Rightarrow> bool" where
  "same_readers e e' \<longleftrightarrow> parse_cert e' = parse_cert e \<and> parse_key e' = parse_key e \<and> pem_decode e' = pem_decode e"

section \<open>The authority\<close>

text \<open>What the store keeps is read as the authority of the manager.\<close>

definition keeps_ca :: "'e tls_env_scheme \<Rightarrow> cert \<times> string \<times> string \<Rightarrow> tls_store option \<Rightarrow> bool" where
  "keeps_ca e ca s \<longleftrightarrow>
     (\<exists>m p. s = Some m \<and> m keyCA = Some p \<and> CertPEM p \<noteq> [] \<and> CertPEM p = snd (snd ca) \<and>
        parsePair e p = Inr (fst ca, fst (snd ca)) \<and> ct_is_ca (fst ca))"

lemma keys_differ [simp]: "keyServer \<noteq> keyCA" "keyCA \<noteq> keyServer"
  by (simp_all add: keyServer_def keyCA_def)

lemma parse_encoded:
  assumes "round_trips e" "encodePair e der key = Inr p" "parse_cert e der = Inr c"
  shows "parsePair e (p\<lparr>Hosts := hs\<rparr>) = Inr (c, key)" "CertPEM p \<noteq> []"
  using assms by (auto simp: encodePair_def parsePair_def round_trips_def bindE_Inr_iff)

lemma new_ca_kept:
  assumes "sound_crypto e" "new_ca e s = (Inr ca, s')" "s = Some m"
  shows "keeps_ca e ca s'"
proof -
  obtain c key pem where ca: "ca = (c, key, pem)" by (cases ca)
  from assms(2) obtain der p where sg: "sign e (ca_template e) None key key = Inr der" and c: "parse_cert e der = Inr c"
    and p: "encodePair e der key = Inr p" "put_pair e keyCA p s = Inr s'" "pem = CertPEM p"
    by (auto simp: new_ca_def ca bindE_Inr_iff split: sum.splits)
  have "ct_is_ca c"
    using assms(1) sg c by (fastforce simp: sound_crypto_def issues_templates_def ca_template_def)
  moreover have "s' = Some (m(keyCA \<mapsto> p))" using p(2) assms(3) by (auto simp: put_pair_def split: if_splits)
  moreover have "parsePair e p = Inr (c, key)" "CertPEM p \<noteq> []"
    using parse_encoded(1) [OF _ p(1) c, of "Hosts p"] parse_encoded(2) [OF _ p(1) c] assms(1) by (simp_all add: sound_crypto_def)
  ultimately show ?thesis using p(3) by (simp add: keeps_ca_def ca)
qed

text \<open>What is loaded or created is an authority, also without a store to keep it.\<close>

lemma load_is_ca:
  assumes "sound_crypto e" "loadOrCreateCA e s = (Inr ca, s')"
  shows "ct_is_ca (fst ca)"
proof -
  have new: "ct_is_ca (fst ca)" if "new_ca e s = (Inr ca, s')"
  proof -
    obtain c key pem where ca: "ca = (c, key, pem)" by (cases ca)
    from that obtain der where "sign e (ca_template e) None key key = Inr der" "parse_cert e der = Inr c"
      by (auto simp: new_ca_def ca bindE_Inr_iff split: sum.splits)
    with assms(1) show ?thesis by (fastforce simp: ca sound_crypto_def issues_templates_def ca_template_def)
  qed
  have used: "ct_is_ca (fst ca)" if "usable_ca e p = Some ca" for p
    using that by (auto simp: usable_ca_def split: if_splits sum.splits)
  show ?thesis
    using assms(2) new used by (auto simp: loadOrCreateCA_def bind_eq_Some_conv split: sum.splits option.splits)
qed

lemma usable_kept:
  assumes "usable_ca e p = Some ca" "m keyCA = Some p"
  shows "keeps_ca e ca (Some m)"
  using assms by (auto simp: usable_ca_def keeps_ca_def split: if_splits sum.splits)

lemma load_keeps:
  assumes "sound_crypto e" "loadOrCreateCA e s = (Inr ca, s')" "s = Some m"
  shows "keeps_ca e ca s'"
proof (cases "Option.bind (m keyCA) (usable_ca e)")
  case None
  with assms(2,3) have "new_ca e s = (Inr ca, s')" by (simp add: loadOrCreateCA_def get_pair_def split: if_splits)
  then show ?thesis using new_ca_kept assms(1,3) by blast
next
  case (Some x)
  then obtain p where p: "m keyCA = Some p" "usable_ca e p = Some x" by (auto simp: bind_eq_Some_conv)
  from assms(2,3) Some have "ca = x" "s' = Some m" by (auto simp: loadOrCreateCA_def get_pair_def split: if_splits)
  with usable_kept [of e p x m] p show ?thesis by simp
qed

text \<open>Another call that reads the same way, before the authority expires, takes it from the store.\<close>

lemma load_same:
  assumes "keeps_ca e ca s" "same_readers e e'" "now_of e' < ct_not_after (fst ca)"
  shows "loadOrCreateCA e' s = (Inr ca, s) \<or> (\<exists>err. loadOrCreateCA e' s = (Inl err, s))"
proof -
  obtain m p where s: "s = Some m" "m keyCA = Some p" and p: "CertPEM p \<noteq> []" "CertPEM p = snd (snd ca)"
    "parsePair e p = Inr (fst ca, fst (snd ca))" "ct_is_ca (fst ca)"
    using assms(1) by (auto simp: keeps_ca_def)
  have r: "parse_cert e' = parse_cert e" "parse_key e' = parse_key e" "pem_decode e' = pem_decode e"
    using assms(2) by (simp_all add: same_readers_def)
  have "parsePair e' p = parsePair e p" unfolding parsePair_def r ..
  with p assms(3) have "usable_ca e' p = Some ca" by (simp add: usable_ca_def)
  with s show ?thesis by (simp add: loadOrCreateCA_def get_pair_def)
qed

lemma keeps_other: "keeps_ca e ca (Some m) \<Longrightarrow> keeps_ca e ca (Some (m(keyServer \<mapsto> p)))"
  by (auto simp: keeps_ca_def)

lemma issueLeaf_keeps:
  assumes "keeps_ca e ca s" "issueLeaf e' m s = (r, s')"
  shows "keeps_ca e ca s'" "r = Inr m' \<Longrightarrow> mg_ca m' = mg_ca m \<and> mg_ca_key m' = mg_ca_key m \<and> mg_ca_pem m' = mg_ca_pem m \<and> mg_hosts m' = mg_hosts m"
proof -
  show "keeps_ca e ca s'"
  proof (cases s)
    case (Some st)
    with assms show ?thesis
      by (auto simp: issueLeaf_def Let_def put_pair_def bindE_Inr_iff keeps_other split: sum.splits if_splits)
  qed (use assms in \<open>simp add: keeps_ca_def\<close>)
  show "r = Inr m' \<Longrightarrow> mg_ca m' = mg_ca m \<and> mg_ca_key m' = mg_ca_key m \<and> mg_ca_pem m' = mg_ca_pem m \<and> mg_hosts m' = mg_hosts m"
    using assms(2) by (auto simp: issueLeaf_def setLeaf_def Let_def split: sum.splits prod.splits option.splits)
qed

definition ca_of :: "Manager \<Rightarrow> cert \<times> string \<times> string" where
  "ca_of m = (mg_ca m, mg_ca_key m, mg_ca_pem m)"

lemma ensureLeaf_cases:
  assumes "ensureLeaf e m s = (r, s')"
  obtains (failed) err where "r = Inl err" "s' = s"
    | (issued) "issueLeaf e m s = (r, s')"
    | (kept) c p where "\<not> needsRenewal e m (Some c) (Hosts p)" "r = setLeaf e c p m" "s' = s"
proof (cases "get_pair e keyServer s")
  case (Inl err)
  with assms show ?thesis by (intro failed [of err]) (simp_all add: ensureLeaf_def)
next
  case (Inr q)
  show ?thesis
  proof (cases "issueLeaf e m s = (r, s')")
    case True
    then show ?thesis by (rule issued)
  next
    case False
    with assms Inr obtain p where p: "q = Some p" "CertPEM p \<noteq> []" by (cases q) (auto simp: ensureLeaf_def split: if_splits)
    with assms Inr False obtain c key where "parsePair e p = Inr (c, key)"
      by (cases "parsePair e p") (auto simp: ensureLeaf_def)
    with assms Inr p False kept [of c p] show ?thesis by (auto simp: ensureLeaf_def split: if_splits)
  qed
qed

lemma setLeaf_same: "setLeaf e c p m = Inr m' \<Longrightarrow> ca_of m' = ca_of m \<and> mg_hosts m' = mg_hosts m \<and> map_option fst (mg_leaf m') = Some c"
  by (auto simp: setLeaf_def Let_def ca_of_def split: option.splits)

lemma ensureLeaf_keeps:
  assumes "keeps_ca e ca s" "ensureLeaf e' m s = (r, s')"
  shows "keeps_ca e ca s' \<and> (\<forall>m'. r = Inr m' \<longrightarrow> ca_of m' = ca_of m \<and> mg_hosts m' = mg_hosts m)"
proof (rule ensureLeaf_cases [OF assms(2)])
  assume i: "issueLeaf e' m s = (r, s')"
  have "ca_of m' = ca_of m \<and> mg_hosts m' = mg_hosts m" if "r = Inr m'" for m'
    using issueLeaf_keeps(2) [OF assms(1) i that] unfolding ca_of_def by simp
  with issueLeaf_keeps(1) [OF assms(1) i] show ?thesis by blast
next
  fix c p
  assume "r = setLeaf e' c p m" "s' = s"
  with assms(1) setLeaf_same show ?thesis by fastforce
next
  fix err
  assume "r = Inl err" "s' = s"
  with assms(1) show ?thesis by simp
qed

section \<open>The life of a server\<close>

text \<open>Starts of the program, each with the names it is configured with, and daily checks; a start may fail.\<close>

datatype life_event = Start tls_env "string list" | Check tls_env

definition live :: "life_event \<Rightarrow> Manager option \<times> tls_store option \<Rightarrow> Manager option \<times> tls_store option" where
  "live ev ms =
     (case ev of
        Start e hosts \<Rightarrow> (case New e (snd ms) hosts of (Inl _, s') \<Rightarrow> (None, s') | (Inr m, s') \<Rightarrow> (Some m, s'))
      | Check e \<Rightarrow> (case fst ms of None \<Rightarrow> ms | Some m \<Rightarrow> (case tick e (m, snd ms) of (m', s') \<Rightarrow> (Some m', s'))))"

definition env_at :: "life_event \<Rightarrow> tls_env" where
  "env_at ev = (case ev of Start e _ \<Rightarrow> e | Check e \<Rightarrow> e)"

definition identity :: "tls_env \<Rightarrow> cert \<times> string \<times> string \<Rightarrow> Manager option \<times> tls_store option \<Rightarrow> bool" where
  "identity e ca ms \<longleftrightarrow> keeps_ca e ca (snd ms) \<and> (\<forall>m. fst ms = Some m \<longrightarrow> ca_of m = ca)"

lemma New_keeps:
  assumes "keeps_ca e ca s" "same_readers e e'" "now_of e' < ct_not_after (fst ca)" "New e' s hosts = (r, s')"
  shows "keeps_ca e ca s' \<and> (\<forall>m. r = Inr m \<longrightarrow> ca_of m = ca)"
proof -
  obtain c k p where ca: "ca = (c, k, p)" by (cases ca)
  let ?m = "\<lparr>mg_hosts = normalizeHosts e' hosts, mg_ca = c, mg_ca_key = k, mg_ca_pem = p, mg_leaf = None\<rparr>"
  from load_same [OF assms(1-3)] show ?thesis
  proof
    assume l: "loadOrCreateCA e' s = (Inr ca, s)"
    obtain r1 s1 where en: "ensureLeaf e' ?m s = (r1, s1)" by fastforce
    have eq: "s' = s1" "\<forall>m. r = Inr m \<longrightarrow> r1 = Inr m"
      using assms(4) l en by (auto simp: New_def ca split: sum.splits)
    note en = ensureLeaf_keeps [OF assms(1) en]
    have "ca_of ?m = ca" by (simp add: ca ca_of_def)
    with en eq show ?thesis by metis
  next
    assume "\<exists>err. loadOrCreateCA e' s = (Inl err, s)"
    with assms(1,4) show ?thesis by (auto simp: New_def)
  qed
qed

lemma tick_keeps:
  assumes "keeps_ca e ca s" "tick e' (m, s) = (m', s')"
  shows "keeps_ca e ca s' \<and> ca_of m' = ca_of m \<and> mg_hosts m' = mg_hosts m"
proof -
  obtain r s1 where i: "issueLeaf e' m s = (r, s1)" by fastforce
  from assms(2) i have "(m', s') = (m, s) \<or> s' = s1 \<and> (m' = m \<or> r = Inr m')"
    by (cases r) (auto simp: tick_def split: if_splits)
  with issueLeaf_keeps [OF assms(1) i] assms(1) show ?thesis unfolding ca_of_def by auto
qed

lemma live_identity:
  assumes "identity e ca ms" "same_readers e (env_at ev)" "now_of (env_at ev) < ct_not_after (fst ca)"
  shows "identity e ca (live ev ms)"
proof (cases ev)
  case (Start e' hosts)
  obtain r s' where n: "New e' (snd ms) hosts = (r, s')" by fastforce
  have "keeps_ca e ca s' \<and> (\<forall>m. r = Inr m \<longrightarrow> ca_of m = ca)"
    using assms unfolding Start env_at_def identity_def by (intro New_keeps [OF _ _ _ n]) simp_all
  then show ?thesis by (cases r) (simp_all add: Start live_def n identity_def)
next
  case (Check e')
  show ?thesis
  proof (cases "fst ms")
    case (Some m)
    obtain m' s' where t: "tick e' (m, snd ms) = (m', s')" by fastforce
    have "keeps_ca e ca (snd ms)" "ca_of m = ca" using assms(1) Some by (simp_all add: identity_def)
    with tick_keeps [OF _ t] have "keeps_ca e ca s' \<and> ca_of m' = ca" by metis
    then show ?thesis by (simp add: Check live_def Some t identity_def)
  qed (use assms(1) in \<open>simp add: Check live_def\<close>)
qed

text \<open>C16: 
  C0: The authority that browsers import and agents pin stays the same. Once a start of the program has succeeded with
  its settings in the database, whatever sequence of further starts and daily checks follows while that authority is
  valid, with any configured names and with failures of the database or of key generation in between, every manager that
  comes up has the same certificate, key and PEM text, so the fingerprints and the file offered for download do not
  change.
\<close>

theorem tls_identity_survives_restarts:
  assumes "sound_crypto e" "New e (Some s0) hosts = (Inr m, s)"
    and "list_all (\<lambda>ev. same_readers e (env_at ev) \<and> now_of (env_at ev) < ct_not_after (mg_ca m)) evs"
    and "fold live evs (Some m, s) = (Some m', s')"
  shows "mg_ca m' = mg_ca m \<and> mg_ca_key m' = mg_ca_key m \<and> CAPEM m' = CAPEM m"
proof -
  obtain r1 s1 where l: "loadOrCreateCA e (Some s0) = (r1, s1)" by fastforce
  with assms(2) obtain ca where r1: "r1 = Inr ca" by (cases r1) (auto simp: New_def)
  obtain c k p where ca: "ca = (c, k, p)" by (cases ca)
  have k: "keeps_ca e ca s1" using load_keeps [OF assms(1) l [unfolded r1]] by simp
  let ?m = "\<lparr>mg_hosts = normalizeHosts e hosts, mg_ca = c, mg_ca_key = k, mg_ca_pem = p, mg_leaf = None\<rparr>"
  have "ensureLeaf e ?m s1 = (Inr m, s)" using assms(2) l by (auto simp: New_def r1 ca split: sum.splits prod.splits)
  from ensureLeaf_keeps [OF k this] have "keeps_ca e ca s" "ca_of m = ca" by (simp_all add: ca_of_def ca)
  then have i: "identity e ca (Some m, s)" by (simp add: identity_def)
  have ct: "fst ca = mg_ca m" using \<open>ca_of m = ca\<close> by (auto simp: ca_of_def)
  have "identity e ca (fold live evs ms)"
    if "identity e ca ms" "list_all (\<lambda>ev. same_readers e (env_at ev) \<and> now_of (env_at ev) < ct_not_after (fst ca)) evs" for ms
    using that
  proof (induction evs arbitrary: ms)
    case (Cons ev evs)
    then show ?case using live_identity [of e ca ms ev] by simp
  qed simp
  from this [OF i] assms(3,4) have "ca_of m' = ca" by (simp add: ct identity_def)
  with \<open>ca_of m = ca\<close> show ?thesis by (auto simp: ca_of_def CAPEM_def)
qed

section \<open>Renewal\<close>

definition leaf_of :: "Manager \<Rightarrow> cert option" where
  "leaf_of m = map_option fst (mg_leaf m)"

definition fits :: "'e tls_env_scheme \<Rightarrow> Manager \<Rightarrow> bool" where
  "fits e m \<longleftrightarrow> \<not> needsRenewal e m (leaf_of m) (mg_hosts m)"

lemma setLeaf_fields: "setLeaf e c p m = Inr m' \<Longrightarrow> leaf_of m' = Some c \<and> mg_ca m' = mg_ca m \<and> mg_hosts m' = mg_hosts m"
  using setLeaf_same [of e c p m m'] by (simp add: leaf_of_def ca_of_def)

lemma issued_leaf:
  assumes "sound_crypto e" "issueLeaf e m s = (Inr m', s')"
  shows "\<exists>c. leaf_of m' = Some c \<and> ct_not_before c \<le> now_of e \<and> now_of e + renewBefore \<le> ct_not_after c \<and>
    (ct_is_ca (mg_ca m) \<longrightarrow> signed_by e c (mg_ca m))"
    and "mg_ca m' = mg_ca m" "mg_hosts m' = mg_hosts m"
proof -
  from assms(2) obtain key der c p where sg: "sign e (leaf_template e (mg_hosts m)) (Some (mg_ca m)) key (mg_ca_key m) = Inr der"
    and c: "parse_cert e der = Inr c" and l: "setLeaf e c p m = Inr m'"
    by (auto simp: issueLeaf_def Let_def bindE_Inr_iff split: sum.splits)
  from assms(1) sg c have "ct_not_before c \<le> now_of e - Hour" "now_of e + leafValidity - Second < ct_not_after c"
    "ct_is_ca (mg_ca m) \<longrightarrow> signed_by e c (mg_ca m)"
    by (fastforce simp: sound_crypto_def issues_templates_def leaf_template_def)+
  moreover have "renewBefore \<le> leafValidity - Second" by (simp add: renewBefore_def leafValidity_def)
  moreover note setLeaf_fields [OF l]
  ultimately show "\<exists>c. leaf_of m' = Some c \<and> ct_not_before c \<le> now_of e \<and> now_of e + renewBefore \<le> ct_not_after c \<and>
      (ct_is_ca (mg_ca m) \<longrightarrow> signed_by e c (mg_ca m))"
    "mg_ca m' = mg_ca m" "mg_hosts m' = mg_hosts m" by auto
qed

lemma issued_fits:
  assumes "sound_crypto e" "issueLeaf e m s = (Inr m', s')" "ct_is_ca (mg_ca m)"
  shows "fits e m'" "mg_hosts m' = mg_hosts m"
  using issued_leaf [OF assms(1,2)] assms(3) by (auto simp: fits_def needsRenewal_def)

lemma New_fits:
  assumes "sound_crypto e" "New e s hosts = (Inr m, s')"
  shows "fits e m" "mg_hosts m = normalizeHosts e hosts"
proof -
  obtain c k p s1 where ld: "loadOrCreateCA e s = (Inr (c, k, p), s1)"
    and en: "ensureLeaf e \<lparr>mg_hosts = normalizeHosts e hosts, mg_ca = c, mg_ca_key = k, mg_ca_pem = p, mg_leaf = None\<rparr> s1 = (Inr m, s')"
    using assms(2) by (auto simp: New_def split: sum.splits prod.splits)
  from load_is_ca [OF assms(1) ld] have ca: "ct_is_ca c" by simp
  have "fits e m \<and> mg_hosts m = normalizeHosts e hosts"
  proof (rule ensureLeaf_cases [OF en])
    assume "issueLeaf e \<lparr>mg_hosts = normalizeHosts e hosts, mg_ca = c, mg_ca_key = k, mg_ca_pem = p, mg_leaf = None\<rparr> s1 = (Inr m, s')"
    from issued_fits [OF assms(1) this] ca show ?thesis by simp
  next
    fix lc q
    assume n: "\<not> needsRenewal e \<lparr>mg_hosts = normalizeHosts e hosts, mg_ca = c, mg_ca_key = k, mg_ca_pem = p, mg_leaf = None\<rparr> (Some lc) (Hosts q)"
      and l: "Inr m = setLeaf e lc q \<lparr>mg_hosts = normalizeHosts e hosts, mg_ca = c, mg_ca_key = k, mg_ca_pem = p, mg_leaf = None\<rparr>"
    from setLeaf_fields [OF l [symmetric]] n show ?thesis by (auto simp: fits_def needsRenewal_def)
  qed simp
  then show "fits e m" "mg_hosts m = normalizeHosts e hosts" by simp_all
qed

lemma fits_valid:
  assumes "fits e m"
  shows "\<exists>c. leaf_of m = Some c \<and> ct_not_before c \<le> now_of e \<and> now_of e + renewBefore \<le> ct_not_after c"
  using assms by (auto simp: fits_def needsRenewal_def split: option.splits)

text \<open>The leaf is valid from \<open>t\<close> on until thirty days after \<open>u\<close>.\<close>

definition secured :: "instant \<Rightarrow> instant \<Rightarrow> Manager \<Rightarrow> bool" where
  "secured t u m \<longleftrightarrow> (\<exists>c. leaf_of m = Some c \<and> ct_not_before c \<le> t \<and> u + renewBefore \<le> ct_not_after c)"

lemma tick_secured:
  assumes "sound_crypto e" "secured t u m" "t \<le> now_of e" "u \<le> now_of e" "tick e (m, s) = (m', s')"
  shows "secured (now_of e) u m' \<and> mg_hosts m' = mg_hosts m"
proof -
  obtain r s1 where i: "issueLeaf e m s = (r, s1)" by fastforce
  have old: "secured (now_of e) u m" using assms(2,3) by (auto simp: secured_def)
  show ?thesis
  proof (cases "m' = m")
    case False
    with assms(5) i have "r = Inr m'" by (cases r) (auto simp: tick_def split: if_splits)
    with i have "issueLeaf e m s = (Inr m', s1)" by simp
    from issued_leaf [OF assms(1) this] assms(4) show ?thesis by (auto simp: secured_def)
  qed (use old in simp)
qed

text \<open>C17: 
  C0: A start, and a check that issues a certificate, secures the next thirty days: at any
  moment of them, whatever later checks do (renew the certificate again, or fail to reach the database or to make a
  key), the certificate that is served is within its validity, for the names the program was started with.
\<close>

theorem served_certificate_is_valid:
  assumes "New e s0 hosts = (Inr m0, s1) \<or> (\<exists>m'. issueLeaf e m' s0 = (Inr m0, s1) \<and> mg_hosts m' = normalizeHosts e hosts)"
    and "sound_crypto e" "list_all (\<lambda>x. sound_crypto x \<and> now_of e \<le> now_of x \<and> now_of x \<le> t) es" "sorted (map now_of es)"
    and "now_of e \<le> t" "t \<le> now_of e + 30 * 24 * Hour"
    and "fold tick es (m0, s1) = (m, s)"
  shows "mg_hosts m = normalizeHosts e hosts \<and>
         (\<exists>c chain key. GetCertificate m = Inr (c, chain, key) \<and> ct_not_before c \<le> t \<and> t \<le> ct_not_after c)"
proof -
  have run: "secured t (now_of e) (fst (fold tick es ms)) \<and> mg_hosts (fst (fold tick es ms)) = mg_hosts (fst ms)"
    if "secured u (now_of e) (fst ms)" "u \<le> t" "list_all (\<lambda>x. u \<le> now_of x) es"
      "list_all (\<lambda>x. sound_crypto x \<and> now_of e \<le> now_of x \<and> now_of x \<le> t) es" "sorted (map now_of es)" for u ms
    using that
  proof (induction es arbitrary: ms u)
    case Nil
    then show ?case by (auto simp: secured_def)
  next
    case (Cons x es)
    obtain m1 s2 where k: "tick x ms = (m1, s2)" by fastforce
    have "secured (now_of x) (now_of e) m1 \<and> mg_hosts m1 = mg_hosts (fst ms)"
      by (rule tick_secured [of x u _ "fst ms" "snd ms" m1 s2]) (use Cons.prems k in simp_all)
    with Cons.IH [of "now_of x" "(m1, s2)"] Cons.prems k show ?case by (simp add: list_all_iff)
  qed
  have f: "secured (now_of e) (now_of e) m0 \<and> mg_hosts m0 = normalizeHosts e hosts"
    using assms(1)
  proof
    assume "New e s0 hosts = (Inr m0, s1)"
    from New_fits [OF assms(2) this] fits_valid show ?thesis by (auto simp: secured_def)
  next
    assume "\<exists>m'. issueLeaf e m' s0 = (Inr m0, s1) \<and> mg_hosts m' = normalizeHosts e hosts"
    then obtain m' where i: "issueLeaf e m' s0 = (Inr m0, s1)" "mg_hosts m' = normalizeHosts e hosts" by blast
    from issued_leaf [OF assms(2) i(1)] i(2) show ?thesis by (auto simp: secured_def)
  qed
  then have "secured (now_of e) (now_of e) (fst (m0, s1))" by simp
  moreover have "list_all (\<lambda>x. now_of e \<le> now_of x) es" using assms(3) by (simp add: list_all_iff)
  ultimately have "secured t (now_of e) m" "mg_hosts m = mg_hosts m0"
    using run [of "now_of e" "(m0, s1)"] assms(3-5,7) by simp_all
  with f assms(6) show ?thesis by (auto simp: secured_def leaf_of_def GetCertificate_def renewBefore_def)
qed

section \<open>An example\<close>

text \<open>A library that issues one authority and one server certificate, both at the instant 0.\<close>

definition sample_ca :: cert where
  "sample_ca = \<lparr>ct_subject = ''CA'', ct_not_before = - Hour, ct_not_after = caValidity, ct_is_ca = True, ct_ips = [], ct_dns = [],
     ct_raw = ''CA'', ct_spki = ''K''\<rparr>"

definition sample_leaf :: cert where
  "sample_leaf = sample_ca\<lparr>ct_subject := ''localhost'', ct_not_after := leafValidity, ct_is_ca := False, ct_raw := ''LF''\<rparr>"

definition sample_tls :: tls_env where
  "sample_tls = \<lparr>now_of = 0, fault = (\<lambda>_. False), gen_key = Inr, gen_serial = (\<lambda>_. 1),
     sign = (\<lambda>t p k sk. if tp_not_before t \<noteq> - Hour then Inl ''time''
        else if tp_is_ca t \<and> p = None \<and> tp_not_after t = caValidity then Inr ''CA''
        else if \<not> tp_is_ca t \<and> p = Some sample_ca \<and> tp_not_after t = leafValidity then Inr ''LF'' else Inl ''template''),
     parse_cert = (\<lambda>d. if d = ''CA'' then Inr sample_ca else if d = ''LF'' then Inr sample_leaf else Inl ''der''),
     signed_by = (\<lambda>c ca. c = sample_leaf \<and> ca = sample_ca), marshal_key = Inr, parse_key = Inr,
     pem_encode = (\<lambda>k b. CHR ''-'' # b), pem_decode = (\<lambda>s. case s of [] \<Rightarrow> None | _ # b \<Rightarrow> Some b), key_pair_error = (\<lambda>_ _. None),
     sha256_sum = id, hostname = None, interface_addrs = []\<rparr>"

lemma sample_sound: "sound_crypto sample_tls"
  by (auto simp: sound_crypto_def round_trips_def issues_templates_def sample_tls_def sample_ca_def sample_leaf_def
      caValidity_def leafValidity_def split: if_splits)

lemma sample_tls_fields [simp]:
  "now_of sample_tls = 0" "\<not> fault sample_tls x" "gen_key sample_tls = Inr" "marshal_key sample_tls = Inr" "parse_key sample_tls = Inr"
  "pem_encode sample_tls k b = CHR ''-'' # b" "pem_decode sample_tls (c # b) = Some b" "key_pair_error sample_tls a k' = None"
  "parse_cert sample_tls ''CA'' = Inr sample_ca" "parse_cert sample_tls ''LF'' = Inr sample_leaf"
  "signed_by sample_tls sample_leaf sample_ca"
  by (simp_all add: sample_tls_def)

lemma sample_sign:
  "sign sample_tls (ca_template sample_tls) None p k = Inr ''CA''"
  "sign sample_tls (leaf_template sample_tls hs) (Some sample_ca) p k = Inr ''LF''"
  by (simp_all add: ca_template_def leaf_template_def) (simp_all add: sample_tls_def)

lemma sample_times [simp]:
  "ct_is_ca sample_ca" "0 < ct_not_after sample_ca" "renewBefore \<le> ct_not_after sample_leaf" "ct_not_before sample_leaf \<le> 0"
  by (simp_all add: sample_ca_def sample_leaf_def caValidity_def leafValidity_def renewBefore_def)

definition sample_pair :: "string \<Rightarrow> string \<Rightarrow> string list \<Rightarrow> pemPair" where
  "sample_pair c k hs = \<lparr>CertPEM = CHR ''-'' # c, KeyPEM = CHR ''-'' # k, Hosts = hs\<rparr>"

definition sample_manager :: "string list \<Rightarrow> Manager" where
  "sample_manager hs = \<lparr>mg_hosts = normalizeHosts sample_tls hs, mg_ca = sample_ca, mg_ca_key = keyCA, mg_ca_pem = ''-CA'',
     mg_leaf = Some (sample_leaf, ''-LF-CA'', CHR ''-'' # keyServer)\<rparr>"

definition sample_store :: "string list \<Rightarrow> tls_store" where
  "sample_store hs = [keyCA \<mapsto> sample_pair ''CA'' keyCA [], keyServer \<mapsto> sample_pair ''LF'' keyServer (normalizeHosts sample_tls hs)]"

lemma sample_create: "New sample_tls (Some Map.empty) hs = (Inr (sample_manager hs), Some (sample_store hs))"
proof -
  have l: "loadOrCreateCA sample_tls (Some Map.empty) = (Inr (sample_ca, keyCA, ''-CA''), Some [keyCA \<mapsto> sample_pair ''CA'' keyCA []])"
    by (simp add: loadOrCreateCA_def get_pair_def new_ca_def sample_sign put_pair_def encodePair_def sample_pair_def)
  show ?thesis
    by (simp add: New_def l ensureLeaf_def get_pair_def issueLeaf_def sample_sign put_pair_def encodePair_def setLeaf_def Let_def
        sample_manager_def sample_store_def sample_pair_def)
qed

lemma sample_restart: "New sample_tls (Some (sample_store hs)) hs = (Inr (sample_manager hs), Some (sample_store hs))"
proof -
  have l: "loadOrCreateCA sample_tls (Some (sample_store hs)) = (Inr (sample_ca, keyCA, ''-CA''), Some (sample_store hs))"
    by (simp add: loadOrCreateCA_def get_pair_def sample_store_def sample_pair_def usable_ca_def parsePair_def)
  have p: "parsePair sample_tls (sample_pair ''LF'' keyServer hs') = Inr (sample_leaf, keyServer)" for hs'
    by (simp add: parsePair_def sample_pair_def)
  have n: "\<not> needsRenewal sample_tls (sample_manager hs\<lparr>mg_leaf := None\<rparr>) (Some sample_leaf) (normalizeHosts sample_tls hs)"
    by (simp add: needsRenewal_def sample_manager_def not_less)
  have m: "\<lparr>mg_hosts = normalizeHosts sample_tls hs, mg_ca = sample_ca, mg_ca_key = keyCA, mg_ca_pem = ''-CA'', mg_leaf = None\<rparr> =
      sample_manager hs\<lparr>mg_leaf := None\<rparr>" by (simp add: sample_manager_def)
  show ?thesis
    unfolding New_def l prod.case sum.case m
    using n by (simp add: ensureLeaf_def get_pair_def sample_store_def p setLeaf_def Let_def) (simp add: sample_pair_def sample_manager_def)
qed

theorem tls_identity_survives_restarts_witness:
  "\<exists>m'. fold live [Start sample_tls [''Host''], Check sample_tls] (Some (sample_manager [''Host'']), Some (sample_store [''Host''])) =
     (Some m', Some (sample_store [''Host''])) \<and> CAPEM m' = ''-CA''"
proof -
  let ?m = "sample_manager [''Host'']" and ?s = "Some (sample_store [''Host''])" and ?evs = "[Start sample_tls [''Host''], Check sample_tls]"
  have f: "\<not> needsRenewal sample_tls ?m (Some sample_leaf) (mg_hosts ?m)"
    by (simp add: needsRenewal_def sample_manager_def not_less)
  have l: "map_option fst (mg_leaf ?m) = Some sample_leaf" by (simp add: sample_manager_def)
  have r: "fold live ?evs (Some ?m, ?s) = (Some ?m, ?s)"
    by (simp add: live_def sample_restart tick_def f l)
  have t: "list_all (\<lambda>ev. same_readers sample_tls (env_at ev) \<and> now_of (env_at ev) < ct_not_after (mg_ca ?m)) ?evs"
    by (simp add: same_readers_def env_at_def) (simp add: sample_manager_def)
  have "CAPEM ?m = ''-CA''" by (simp add: CAPEM_def sample_manager_def)
  with tls_identity_survives_restarts [OF sample_sound sample_create t r] r show ?thesis by blast
qed

theorem served_certificate_is_valid_witness:
  "\<exists>c chain key. GetCertificate (sample_manager [''Host'']) = Inr (c, chain, key) \<and> 30 * 24 * Hour \<le> ct_not_after c"
proof -
  have "sorted (map now_of ([] :: tls_env list))" "fold tick ([] :: tls_env list) (sample_manager [''Host''], Some (sample_store [''Host''])) =
      (sample_manager [''Host''], Some (sample_store [''Host'']))" by simp_all
  note served_certificate_is_valid [OF _ sample_sound _ this(1) _ _ this(2), of "Some Map.empty" "[''Host'']" "30 * 24 * Hour"]
  then show ?thesis using sample_create by auto
qed

end
