(* ===== verification/ServerSafety.thy ===== *)
theory ServerSafety
  imports Server EnrichSafety TlsSafety SchedulerSafety BuiltinSafety
begin

text \<open>
  Properties of the program as it is put together: which providers a pass of the worker may ask under a configuration,
  and what holds once the program has started.
\<close>

section \<open>The worker that is set up\<close>

definition lane_key :: "Config \<Rightarrow> string \<Rightarrow> string" where
  "lane_key c name =
     (if name = ''abuseipdb'' then AbuseIPDBKey c else if name = ''greynoise'' then GreyNoiseKey c
      else if name = ''otx'' then OTXKey c else [])"

lemma EnableFiles_fields [simp]:
  "wk_acct (EnableFiles f w) = wk_acct w" "wk_has_geo (EnableFiles f w) = wk_has_geo w" "wk_has_vt (EnableFiles f w) = wk_has_vt w"
  "wk_rep (EnableFiles f w) = wk_rep w"
  by (simp_all add: EnableFiles_def)

lemma AddRepLane_fields:
  "wk_acct (fold AddRepLane rs w) = wk_acct w \<and> wk_has_geo (fold AddRepLane rs w) = wk_has_geo w \<and>
   wk_has_vt (fold AddRepLane rs w) = wk_has_vt w \<and> wk_files_cfg (fold AddRepLane rs w) = wk_files_cfg w \<and>
   rl_name ` set (wk_rep (fold AddRepLane rs w)) = rl_name ` set (wk_rep w) \<union> rl_name ` set rs"
  by (induction rs arbitrary: w) (auto simp: AddRepLane_def)

lemma rep_lanes_keyed: "r \<in> set (rep_lanes c) \<Longrightarrow> lane_key c (rl_name r) \<noteq> []"
  by (auto simp: rep_lanes_def rep_lane_def lane_key_def split: if_splits)

lemma setup_worker_fields:
  "wk_acct (setup_worker c w) = wk_acct w" "wk_has_vt (setup_worker c w) \<longleftrightarrow> VTAPIKey c \<noteq> []"
  "n \<in> rl_name ` set (wk_rep (setup_worker c w)) \<Longrightarrow> lane_key c n \<noteq> []"
  "wk_files_cfg (setup_worker c w) = Some f \<Longrightarrow>
     FileIntelEnabled c \<and> (fl_vt f \<longrightarrow> VTAPIKey c \<noteq> []) \<and> (fl_mhr f \<longrightarrow> MHREnabled c)"
proof -
  let ?w = "fold AddRepLane (rep_lanes c) (NewWorker c w)"
  note a = AddRepLane_fields [of "rep_lanes c" "NewWorker c w"]
  show "wk_acct (setup_worker c w) = wk_acct w" "wk_has_vt (setup_worker c w) \<longleftrightarrow> VTAPIKey c \<noteq> []"
    using a by (simp_all add: setup_worker_def Let_def NewWorker_def split: option.split)
  have "wk_rep (setup_worker c w) = wk_rep ?w" by (simp add: setup_worker_def Let_def split: option.split)
  moreover have "rl_name ` set (wk_rep ?w) = rl_name ` set (rep_lanes c)" using a by (simp add: NewWorker_def)
  ultimately show "lane_key c n \<noteq> []" if "n \<in> rl_name ` set (wk_rep (setup_worker c w))" using that rep_lanes_keyed by auto
  show "FileIntelEnabled c \<and> (fl_vt f \<longrightarrow> VTAPIKey c \<noteq> []) \<and> (fl_mhr f \<longrightarrow> MHREnabled c)" if "wk_files_cfg (setup_worker c w) = Some f"
    using that a
    by (auto simp: setup_worker_def Let_def NewWorker_def files_lane_def EnableFiles_def split: option.splits if_splits)
qed

text \<open>C14: 
  C0: What leaves the network, and to whom. A full pass of the worker that the program sets up depends on what the
  internet would answer only where it may ask: on locations and reputations of external, routable addresses that occur
  in the recorded traffic, from the providers an API key is configured for, and on file hashes only where the lookup of
  files is enabled (VirusTotal with a key, the malware registry when it is switched on). Two networks that agree there
  lead to the same lookups, the same stored records and the same statistics, whatever they would say about local
  addresses or through a provider that is not configured.
\<close>

theorem only_configured_providers_are_asked:
  assumes "now_of e' = now_of e" "fault e' = fault e" "lookup_env.cancelled e' = lookup_env.cancelled e"
    and "\<And>ip. external_peer c (wk_acct w) ip \<Longrightarrow> ask_geo e' ip = ask_geo e ip"
    and "\<And>ip. external_peer c (wk_acct w) ip \<Longrightarrow> VTAPIKey c \<noteq> [] \<Longrightarrow> ask_vt e' ip = ask_vt e ip"
    and "\<And>ip n. external_peer c (wk_acct w) ip \<Longrightarrow> lane_key c n \<noteq> [] \<Longrightarrow> ask_rep e' n ip = ask_rep e n ip"
    and "FileIntelEnabled c \<Longrightarrow> VTAPIKey c \<noteq> [] \<Longrightarrow> ask_file e' = ask_file e"
    and "FileIntelEnabled c \<Longrightarrow> MHREnabled c \<Longrightarrow> ask_mhr e' = ask_mhr e"
  shows "RunOnce c e' (setup_worker c w) = RunOnce c e (setup_worker c w)"
proof (rule pass_same)
  show "same_where_asked c (setup_worker c w) e e'"
    unfolding same_where_asked_def
    using assms setup_worker_fields [where c = c and w = w] by (simp split: option.split)
qed

definition keyless :: Config where
  "keyless = default_config\<lparr>VTAPIKey := [], AbuseIPDBKey := [], GreyNoiseKey := [], OTXKey := [], FileIntelEnabled := False\<rparr>"

theorem only_configured_providers_are_asked_witness:
  "RunOnce keyless ((quiet_lookups Day)\<lparr>ask_vt := (\<lambda>_. LookupFailed ''x''), ask_geo := (\<lambda>ip. new_info (if ip = v4 1 1 1 1 then 0 else Day) ip)\<rparr>)
       (setup_worker keyless (sample_worker 0 [sample_flow])) =
   RunOnce keyless (quiet_lookups Day) (setup_worker keyless (sample_worker 0 [sample_flow]))"
proof (rule only_configured_providers_are_asked)
  have "ip \<noteq> v4 1 1 1 1" if "external_peer keyless (wk_acct (sample_worker 0 [sample_flow])) ip" for ip
    using that by (auto simp: external_peer_def sample_worker_def sample_flow_def v4_def)
  then show "ask_geo ((quiet_lookups Day)\<lparr>ask_vt := (\<lambda>_. LookupFailed ''x''), ask_geo := (\<lambda>ip. new_info (if ip = v4 1 1 1 1 then 0 else Day) ip)\<rparr>) ip =
      ask_geo (quiet_lookups Day) ip" if "external_peer keyless (wk_acct (sample_worker 0 [sample_flow])) ip" for ip
    using that by (simp add: quiet_lookups_def)
qed (simp_all add: quiet_lookups_def keyless_def lane_key_def)

section \<open>The start\<close>

lemma EnsureAdmin_users:
  assumes "EnsureAdmin e c a = (Inr (), a')"
  shows "users a' \<noteq> []"
  using assms
  by (auto simp: EnsureAdmin_def CountUsers_def CreateUser_def Let_def db_read_def db_write_def split: sum.splits if_splits prod.splits)

lemma start_parts:
  assumes "start b a w world s = (Inr p, a', s')"
  obtains "Load (bo_vars b) = Inr (pt_config p)" "seed_admin b (pt_config p) a = (Inr (), a')"
    "enrichment_of b (pt_config p) w = Inr (pt_worker p)" "engine_of b (pt_config p) world = Inr (pt_engine p)"
    "https_of b (pt_config p) s = (Inr (pt_https p), s')" "pt_auth p \<longleftrightarrow> AuthEnabled (pt_config p)"
    "pt_notifying p \<longleftrightarrow> pt_engine p \<noteq> None \<and> pt_notifier p \<noteq> None" "pt_notifier p = notifier_of b (pt_config p)"
    "pt_listener p = (if SuricataListen (pt_config p) = [] then None else Some (pt_engine p \<noteq> None))"
proof -
  obtain c where c: "load_config b = Inr c" using assms by (cases "load_config b") (simp_all add: start_def)
  obtain r1 a1 where a1: "seed_admin b c a = (r1, a1)" by fastforce
  with assms c have r1: "r1 = Inr ()" by (cases r1) (simp_all add: start_def)
  obtain en where en: "enrichment_of b c w = Inr en" using assms c a1 r1 by (cases "enrichment_of b c w") (simp_all add: start_def)
  obtain rules where rules: "engine_of b c world = Inr rules" using assms c a1 r1 en by (cases "engine_of b c world") (simp_all add: start_def)
  obtain h s1 where h: "https_of b c s = (Inr h, s1)"
    using assms c a1 r1 en rules by (cases "fst (https_of b c s)"; cases "https_of b c s") (simp_all add: start_def)
  have "Load (bo_vars b) = Inr c" using c by (auto simp: load_config_def split: sum.splits if_splits)
  with assms c a1 r1 en rules h show ?thesis by (intro that) (auto simp: start_def)
qed

text \<open>C26: 
  C0: A program that has started can do what it was configured for. With authentication on there is an account to sign
  in with. The lanes that need an API key have one. Alerts of the IDS have a rule engine to go to exactly when the rules
  are enabled, and the engine has a notifier exactly when a channel is configured. With the internal authority, the
  certificate that is served passes the renewal check of the moment and names the configured hosts.
\<close>

theorem started_program_is_complete:
  assumes "start b a w world s = (Inr p, a', s')" "sound_crypto (bo_tls b)"
  shows "(pt_auth p \<longrightarrow> users a' \<noteq> []) \<and>
     (\<forall>pr wk. pt_worker p = Some (pr, wk) \<longrightarrow>
        (wk_has_vt wk \<longrightarrow> VTAPIKey (pt_config p) \<noteq> []) \<and> (\<forall>r \<in> set (wk_rep wk). lane_key (pt_config p) (rl_name r) \<noteq> [])) \<and>
     (\<forall>l. pt_listener p = Some l \<longrightarrow> l = RulesEnabled (pt_config p)) \<and>
     (pt_notifying p \<longleftrightarrow> RulesEnabled (pt_config p) \<and> configured_channels (pt_config p) \<noteq> []) \<and>
     (\<forall>m. pt_https p = InternalCA m \<longrightarrow> fits (bo_tls b) m \<and> mg_hosts m = normalizeHosts (bo_tls b) (TLSHosts (pt_config p)))"
proof -
  let ?c = "pt_config p"
  note P = start_parts [OF assms(1)]
  have admin: "pt_auth p \<longrightarrow> users a' \<noteq> []"
    by (rule P) (use EnsureAdmin_users in \<open>fastforce simp: seed_admin_def split: sum.splits prod.splits if_splits\<close>)
  have lanes: "(wk_has_vt wk \<longrightarrow> VTAPIKey ?c \<noteq> []) \<and> (\<forall>r \<in> set (wk_rep wk). lane_key ?c (rl_name r) \<noteq> [])"
    if "pt_worker p = Some (pr, wk)" for pr wk
  proof (rule P)
    assume "enrichment_of b ?c w = Inr (pt_worker p)"
    with that have "wk = setup_worker ?c w" by (auto simp: enrichment_of_def split: sum.splits if_splits)
    then show ?thesis using setup_worker_fields(2,3) [where c = ?c and w = w] by auto
  qed
  have engine: "pt_engine p \<noteq> None \<longleftrightarrow> RulesEnabled ?c"
    by (rule P) (auto simp: engine_of_def split: sum.splits if_splits)
  have notifier: "pt_notifier p \<noteq> None \<longleftrightarrow> configured_channels ?c \<noteq> []"
    by (rule P) (simp add: notifier_of_def Let_def NewDispatcher_def)
  have https: "fits (bo_tls b) m \<and> mg_hosts m = normalizeHosts (bo_tls b) (TLSHosts ?c)" if "pt_https p = InternalCA m" for m
  proof (rule P)
    assume "https_of b ?c s = (Inr (pt_https p), s')"
    with that have "Tls.New (bo_tls b) (Some s) (TLSHosts ?c) = (Inr m, s')"
      by (auto simp: https_of_def split: sum.splits prod.splits if_splits)
    with New_fits [OF assms(2)] show ?thesis by blast
  qed
  have "pt_notifying p \<longleftrightarrow> pt_engine p \<noteq> None \<and> pt_notifier p \<noteq> None" by (rule P)
  moreover have "pt_listener p = Some l \<longrightarrow> l = RulesEnabled ?c" for l by (rule P) (use engine in auto)
  ultimately show ?thesis using admin lanes https engine notifier by blast
qed

definition silent_notifier :: notify_env where
  "silent_notifier = \<lparr>now_of = 0, fault = (\<lambda>_. False), deliver = (\<lambda>_. Inl []), zone = (\<lambda>_. 0), key_order = id\<rparr>"

definition sample_boot :: boot where
  "sample_boot = \<lparr>bo_vars = Map.empty, bo_connect = (\<lambda>_. None), bo_migrate = None, bo_maxmind = (\<lambda>_ _. Inl []),
     bo_key_pair = (\<lambda>_ _. None), bo_feed_list = (\<lambda>_. []), bo_min = None, bo_auth = sample_env 10 [], bo_notify = silent_notifier,
     bo_rules = quiet_env 0, bo_tls = sample_tls\<rparr>"

lemma default_start:
  "\<exists>c. Load Map.empty = Inr c \<and> AuthEnabled c \<and> TLSListenAddr c = [] \<and> GeoIPCityDB c = [] \<and> length (AuthAdminPassword c) \<le> 72"
proof -
  have "case Load Map.empty of Inr c \<Rightarrow> AuthEnabled c \<and> TLSListenAddr c = [] \<and> GeoIPCityDB c = [] \<and> length (AuthAdminPassword c) \<le> 72
        | Inl _ \<Rightarrow> False" by code_simp
  then show ?thesis by (cases "Load Map.empty") auto
qed

theorem started_program_is_complete_witness:
  "\<exists>p a' s'. start sample_boot empty_auth_db (sample_worker 0 []) sample_sight Map.empty = (Inr p, a', s') \<and> users a' \<noteq> []"
proof -
  obtain c where c: "Load Map.empty = Inr c" "AuthEnabled c" "TLSListenAddr c = []" "GeoIPCityDB c = []" "length (AuthAdminPassword c) \<le> 72"
    using default_start by blast
  have l: "load_config sample_boot = Inr c" using c(1) by (simp add: load_config_def sample_boot_def)
  have "\<exists>a'. seed_admin sample_boot c empty_auth_db = (Inr (), a')"
    using c(2,5) by (simp add: seed_admin_def sample_boot_def EnsureAdmin_def CountUsers_def empty_auth_db_def HashPassword_def sample_env_def
        CreateUser_def Let_def db_read_def)
  then obtain a' where a: "seed_admin sample_boot c empty_auth_db = (Inr (), a')" by blast
  have "\<exists>en. enrichment_of sample_boot c (sample_worker 0 []) = Inr en" using c(4) by (simp add: enrichment_of_def geo_provider_def)
  then obtain en where en: "enrichment_of sample_boot c (sample_worker 0 []) = Inr en" by blast
  have "\<exists>r. engine_of sample_boot c sample_sight = Inr r"
    by (simp add: engine_of_def sample_boot_def Rules.New_def quiet_env_def db_read_def loadCustom_def ListCustomRules_def Let_def sample_sight_def)
  then obtain r where r: "engine_of sample_boot c sample_sight = Inr r" by blast
  have h: "https_of sample_boot c Map.empty = (Inr NoHTTPS, Some Map.empty)" using c(3) by (simp add: https_of_def)
  obtain p where st: "start sample_boot empty_auth_db (sample_worker 0 []) sample_sight Map.empty = (Inr p, a', Some Map.empty)" "pt_auth p"
    using c(2) by (simp add: start_def l a en r h)
  have "sound_crypto (bo_tls sample_boot)" using sample_sound by (simp add: sample_boot_def)
  from started_program_is_complete [OF st(1) this] st show ?thesis by blast
qed

end
