(* ===== verification/Migrate.thy ===== *)
theory Migrate
  imports Prelude "HOL-Library.Char_ord" "HOL-Library.List_Lexorder"
begin

text \<open>
  The migrations (\<open>internal/db/db.go\<close>): the embedded files are applied in the order of their names, each once, and
  recorded in \<open>schema_migrations\<close>. The schema and the effect of a file on it are parameters (\<open>None\<close>: the statements of
  the file fail, and PostgreSQL undoes all of them).
\<close>

record 's schema_db =
  sm_names :: "string list"
  sm_schema :: 's

primrec migrate_loop ::
  "'e env_scheme \<Rightarrow> (string \<Rightarrow> 's \<Rightarrow> 's option) \<Rightarrow> string list \<Rightarrow> 's schema_db \<Rightarrow> (string + unit) \<times> 's schema_db" where
  "migrate_loop e apply_file [] d = (Inr (), d)"
| "migrate_loop e apply_file (n # ns) d =
     (if fault e [''exists'', n] then (Inl ''query'', d)
      else if n \<in> set (sm_names d) then migrate_loop e apply_file ns d
      else case (if fault e [''migration'', n] then None else apply_file n (sm_schema d)) of
        None \<Rightarrow> (Inl (''migration '' @ n), d)
      | Some s \<Rightarrow>
          if fault e [''record'', n] then (Inl ''record'', d\<lparr>sm_schema := s\<rparr>)
          else migrate_loop e apply_file ns (d\<lparr>sm_schema := s, sm_names := sm_names d @ [n]\<rparr>))"

definition Migrate :: "'e env_scheme \<Rightarrow> (string \<Rightarrow> 's \<Rightarrow> 's option) \<Rightarrow> string list \<Rightarrow> 's schema_db \<Rightarrow> (string + unit) \<times> 's schema_db" where
  "Migrate e apply_file files d =
     (if fault e [''schema_migrations''] then (Inl ''create schema_migrations'', d) else migrate_loop e apply_file (sort files) d)"

text \<open>\<open>Connect\<close>: the three steps that may fail.\<close>

definition Connect :: "(string \<Rightarrow> string + 'c) \<Rightarrow> ('c \<Rightarrow> string + 'p) \<Rightarrow> ('p \<Rightarrow> string option) \<Rightarrow> string \<Rightarrow> string + 'p" where
  "Connect parse open_pool ping url =
     (case parse url of Inl err \<Rightarrow> Inl (''parse database url: '' @ err)
      | Inr c \<Rightarrow> (case open_pool c of Inl err \<Rightarrow> Inl (''connect: '' @ err)
      | Inr p \<Rightarrow> (case ping p of Some err \<Rightarrow> Inl (''ping: '' @ err) | None \<Rightarrow> Inr p)))"

section \<open>Reference\<close>

text \<open>All files in order, on the schema of an empty database.\<close>

primrec apply_all :: "(string \<Rightarrow> 's \<Rightarrow> 's option) \<Rightarrow> string list \<Rightarrow> 's \<Rightarrow> 's option" where
  "apply_all f [] s = Some s"
| "apply_all f (n # ns) s = Option.bind (f n s) (apply_all f ns)"

lemma apply_all_append: "apply_all f (xs @ ys) s = Option.bind (apply_all f xs s) (apply_all f ys)"
  by (induction xs arbitrary: s) (auto split: Option.bind_splits)

text \<open>The files \<open>past\<close> are recorded; the schema is that after them, or one file ahead.\<close>

definition progress :: "(string \<Rightarrow> 's \<Rightarrow> 's option) \<Rightarrow> 's \<Rightarrow> string list \<Rightarrow> string list \<Rightarrow> 's schema_db \<Rightarrow> bool" where
  "progress f s0 past todo d \<longleftrightarrow>
     sm_names d = past \<and>
     (\<exists>s. apply_all f past s0 = Some s \<and> (sm_schema d = s \<or> (\<exists>n ns. todo = n # ns \<and> f n s = Some (sm_schema d))))"

definition idempotent :: "(string \<Rightarrow> 's \<Rightarrow> 's option) \<Rightarrow> bool" where
  "idempotent f \<longleftrightarrow> (\<forall>n s t. f n s = Some t \<longrightarrow> f n t = Some t)"

lemma loop_skips:
  "set past \<subseteq> set (sm_names d) \<Longrightarrow>
   migrate_loop e f (past @ todo) d = (Inl ''query'', d) \<or> migrate_loop e f (past @ todo) d = migrate_loop e f todo d"
  by (induction past) auto

lemma loop_progress:
  assumes "idempotent f"
  shows "progress f s0 past todo d \<Longrightarrow> distinct (past @ todo) \<Longrightarrow> migrate_loop e f todo d = (r, d') \<Longrightarrow>
     \<exists>past' todo'. past' @ todo' = past @ todo \<and> progress f s0 past' todo' d' \<and> (r = Inr () \<longrightarrow> todo' = [])"
proof (induction todo arbitrary: past d)
  case Nil
  then show ?case by auto
next
  case (Cons n todo)
  from Cons.prems(1) obtain s where s: "sm_names d = past" "apply_all f past s0 = Some s"
    "sm_schema d = s \<or> f n s = Some (sm_schema d)" by (auto simp: progress_def)
  have fresh: "n \<notin> set (sm_names d)" using Cons.prems(2) s(1) by auto
  show ?case
  proof (cases "d' = d \<and> r \<noteq> Inr ()")
    case True
    with Cons.prems(1) show ?thesis by blast
  next
    case False
    with Cons.prems(3) fresh obtain t where t: "f n (sm_schema d) = Some t" and go:
      "(if fault e [''record'', n] then (Inl ''record'', d\<lparr>sm_schema := t\<rparr>)
        else migrate_loop e f todo (d\<lparr>sm_schema := t, sm_names := sm_names d @ [n]\<rparr>)) = (r, d')"
      by (auto split: if_splits option.splits)
    have st: "f n s = Some t" using s(3) t assms by (auto simp: idempotent_def)
    show ?thesis
    proof (cases "fault e [''record'', n]")
      case True
      with go have "d' = d\<lparr>sm_schema := t\<rparr>" "r = Inl ''record''" by simp_all
      with s st have "progress f s0 past (n # todo) d' \<and> r \<noteq> Inr ()" by (simp add: progress_def)
      then show ?thesis by blast
    next
      case False
      have "progress f s0 (past @ [n]) todo (d\<lparr>sm_schema := t, sm_names := sm_names d @ [n]\<rparr>)"
        using s st by (simp add: progress_def apply_all_append)
      from Cons.IH [OF this] Cons.prems(2) go False show ?thesis by simp
    qed
  qed
qed

lemma Migrate_progress:
  assumes "idempotent f" "distinct files" "past @ todo = sort files" "progress f s0 past todo d" "Migrate e f files d = (r, d')"
  shows "\<exists>past' todo'. past' @ todo' = sort files \<and> progress f s0 past' todo' d' \<and> (r = Inr () \<longrightarrow> todo' = [])"
proof (cases "d' = d \<and> r \<noteq> Inr ()")
  case True
  with assms(3,4) show ?thesis by blast
next
  case False
  have "set past \<subseteq> set (sm_names d)" using assms(4) by (simp add: progress_def)
  from loop_skips [OF this, of e f todo] False assms(3,5) have "migrate_loop e f todo d = (r, d')"
    by (auto simp: Migrate_def split: if_splits)
  moreover have "distinct (past @ todo)" using assms(2,3) by simp
  ultimately show ?thesis using loop_progress [OF assms(1,4)] assms(3) by metis
qed

text \<open>C27: 
  C0: Migrations converge. Start from an empty database, let any number of runs fail at any statement (also after a file
  was applied and before it was recorded), and let one run succeed: the schema is that of applying all files once, in
  the order of their names, and no later run changes anything. What the files promise is that repeating one is
  harmless.
\<close>

theorem migrations_converge:
  assumes "idempotent f" "distinct files"
    and "d = fold (\<lambda>e d. snd (Migrate e f files d)) es \<lparr>sm_names = [], sm_schema = s0\<rparr>" "Migrate e f files d = (Inr (), d')"
  shows "apply_all f (sort files) s0 = Some (sm_schema d') \<and> sm_names d' = sort files \<and> snd (Migrate e' f files d') = d'"
proof -
  have "\<exists>past todo. past @ todo = sort files \<and> progress f s0 past todo (fold (\<lambda>e d. snd (Migrate e f files d)) es x)"
    if "\<exists>past todo. past @ todo = sort files \<and> progress f s0 past todo x" for x
    using that
  proof (induction es arbitrary: x)
    case (Cons a es)
    then obtain past todo where "past @ todo = sort files" "progress f s0 past todo x" by blast
    from Migrate_progress [OF assms(1,2) this, of a "fst (Migrate a f files x)" "snd (Migrate a f files x)"]
    show ?case using Cons.IH [of "snd (Migrate a f files x)"] by auto
  qed simp
  moreover have "progress f s0 [] (sort files) \<lparr>sm_names = [], sm_schema = s0\<rparr>" by (simp add: progress_def)
  ultimately obtain past todo where "past @ todo = sort files" "progress f s0 past todo d" using assms(3) by (metis append_Nil)
  from Migrate_progress [OF assms(1,2) this assms(4)] have p: "progress f s0 (sort files) [] d'" by auto
  then have n: "sm_names d' = sort files" "apply_all f (sort files) s0 = Some (sm_schema d')" by (auto simp: progress_def)
  have "migrate_loop e' f (sort files @ []) d' = (Inl ''query'', d') \<or> migrate_loop e' f (sort files @ []) d' = migrate_loop e' f [] d'"
    by (rule loop_skips) (simp add: n)
  then have "snd (Migrate e' f files d') = d'" by (auto simp: Migrate_def)
  with n show ?thesis by simp
qed

text \<open>The second run fails after applying the second file.\<close>

theorem migrations_converge_witness:
  "\<exists>d'. Migrate (ok_env 3) (\<lambda>n s. Some (insert n s)) [''b'', ''a'']
      (snd (Migrate \<lparr>now_of = 2, fault = (\<lambda>k. k = [''record'', ''b''])\<rparr> (\<lambda>n s. Some (insert n s)) [''b'', ''a''] \<lparr>sm_names = [], sm_schema = {}\<rparr>)) =
     (Inr (), d') \<and> sm_schema d' = {''a'', ''b''}"
proof -
  let ?f = "\<lambda>n s. Some (insert n s)" and ?files = "[''b'', ''a'']" and ?e = "\<lparr>now_of = 2, fault = (\<lambda>k. k = [''record'', ''b''])\<rparr> :: env"
  let ?d = "\<lparr>sm_names = [], sm_schema = ({} :: string set)\<rparr>"
  have so: "sort ?files = [''a'', ''b'']" by code_simp
  have "\<exists>d'. Migrate (ok_env 3) ?f ?files (snd (Migrate ?e ?f ?files ?d)) = (Inr (), d')"
    unfolding Migrate_def so by simp
  then obtain d' where d: "Migrate (ok_env 3) ?f ?files (snd (Migrate ?e ?f ?files ?d)) = (Inr (), d')" by blast
  have i: "idempotent ?f" "distinct ?files" by (simp_all add: idempotent_def)
  have r: "snd (Migrate ?e ?f ?files ?d) = fold (\<lambda>e d. snd (Migrate e ?f ?files d)) [?e] ?d" by simp
  have "sm_schema d' = {''a'', ''b''}" using migrations_converge [OF i r d, of "ok_env 3"] unfolding so by auto
  with d show ?thesis by blast
qed

end
