(* ===== verification/Lanes.thy ===== *)
theory Lanes
  imports SchedulerSafety
begin

text \<open>
  The lanes as concurrent loops (\<open>Run\<close>, \<open>Kick\<close> and \<open>RunOnce\<close> of \<open>internal/scheduler/scheduler.go\<close>): every lane
  has a loop that makes a pass at the start, at every tick and when it is woken, and a request of the API may make a pass of
  all lanes itself. The flag \<open>running\<close> keeps two passes of a lane apart and the mutex \<open>vtQuota\<close> the two lanes that share
  the VirusTotal quota. What a pass does is in \<open>Scheduler\<close>; here it is the time between two steps, and the steps of all
  loops and requests interleave in any order. The end of the context is a step that any waiting loop may take.
\<close>

section \<open>Loops and requests\<close>

datatype lane_id = GeoLane | VTLane | RepLane_at nat | FileLane | RollupLane

datatype actor = Loop lane_id | Request nat

text \<open>Where an actor is, with the lanes it still has to visit: about to test the flag of a lane, in a pass before, with or
  after the mutex, waiting in its select, or through.\<close>

datatype pc =
    Waiting
  | Trying lane_id "lane_id list"
  | Working lane_id "lane_id list"
  | Holding lane_id "lane_id list"
  | Leaving lane_id "lane_id list"
  | Ended

record lanes =
  st_kick :: "lane_id \<Rightarrow> bool"
  st_running :: "lane_id \<Rightarrow> bool"
  st_quota :: "actor option"
  st_pc :: "actor \<Rightarrow> pc option"

definition rep_ids :: "Worker \<Rightarrow> lane_id list" where
  "rep_ids w = map RepLane_at [0..<length (wk_rep w)]"

definition has_lane :: "Worker \<Rightarrow> lane_id \<Rightarrow> bool" where
  "has_lane w l =
     (case l of GeoLane \<Rightarrow> wk_has_geo w | VTLane \<Rightarrow> wk_has_vt w | RepLane_at i \<Rightarrow> i < length (wk_rep w)
      | FileLane \<Rightarrow> wk_files_cfg w \<noteq> None | RollupLane \<Rightarrow> True)"

text \<open>The lanes whose pass takes the mutex.\<close>

definition needs_quota :: "Worker \<Rightarrow> lane_id \<Rightarrow> bool" where
  "needs_quota w l =
     (case l of VTLane \<Rightarrow> True | FileLane \<Rightarrow> (case wk_files_cfg w of None \<Rightarrow> False | Some f \<Rightarrow> fl_vt f) | _ \<Rightarrow> False)"

definition loops :: "Worker \<Rightarrow> lane_id list" where
  "loops w = filter (has_lane w) ([GeoLane, VTLane] @ rep_ids w @ [FileLane, RollupLane])"

definition kick_lanes :: "Worker \<Rightarrow> lane_id list" where
  "kick_lanes w = [GeoLane, VTLane, FileLane] @ rep_ids w"

definition pass_order :: "Worker \<Rightarrow> lane_id list" where
  "pass_order w = [GeoLane, VTLane] @ rep_ids w @ [FileLane]"

text \<open>Where an actor goes from a lane.\<close>

definition follow :: "actor \<Rightarrow> lane_id list \<Rightarrow> pc" where
  "follow a ls = (case a of Loop _ \<Rightarrow> Waiting | Request _ \<Rightarrow> (case ls of [] \<Rightarrow> Ended | l # ls' \<Rightarrow> Trying l ls'))"

definition goes :: "actor \<Rightarrow> pc \<Rightarrow> lanes \<Rightarrow> lanes" where
  "goes a p s = s\<lparr>st_pc := (st_pc s)(a \<mapsto> p)\<rparr>"

text \<open>After \<open>Run\<close> has started its loops.\<close>

definition started :: "Worker \<Rightarrow> lanes" where
  "started w =
     \<lparr>st_kick = (\<lambda>_. False), st_running = (\<lambda>_. False), st_quota = None,
      st_pc = (\<lambda>a. case a of Loop l \<Rightarrow> if l \<in> set (loops w) then Some (Trying l []) else None | Request _ \<Rightarrow> None)\<rparr>"

section \<open>Steps\<close>

datatype lane_event =
    Kicked lane_id
  | Ticked lane_id
  | Woken lane_id
  | Stopped lane_id
  | Asked nat
  | Entered actor lane_id
  | Refused actor lane_id
  | Locked actor
  | Unlocked actor
  | Left actor lane_id

text \<open>One send of \<open>Kick\<close> (a channel holds one), the three branches of the select, a request, and the steps of a pass.\<close>

inductive lane_step :: "Worker \<Rightarrow> lanes \<Rightarrow> lane_event \<Rightarrow> lanes \<Rightarrow> bool" for w s where
  kicked: "l \<in> set (kick_lanes w) \<Longrightarrow> lane_step w s (Kicked l) (s\<lparr>st_kick := (st_kick s)(l := True)\<rparr>)"
| ticked: "st_pc s (Loop l) = Some Waiting \<Longrightarrow> lane_step w s (Ticked l) (goes (Loop l) (Trying l []) s)"
| woken: "st_pc s (Loop l) = Some Waiting \<Longrightarrow> st_kick s l \<Longrightarrow>
    lane_step w s (Woken l) (goes (Loop l) (Trying l []) (s\<lparr>st_kick := (st_kick s)(l := False)\<rparr>))"
| stopped: "st_pc s (Loop l) = Some Waiting \<Longrightarrow> lane_step w s (Stopped l) (goes (Loop l) Ended s)"
| asked: "st_pc s (Request n) = None \<Longrightarrow> lane_step w s (Asked n) (goes (Request n) (follow (Request n) (pass_order w)) s)"
| entered: "st_pc s a = Some (Trying l ls) \<Longrightarrow> has_lane w l \<Longrightarrow> \<not> st_running s l \<Longrightarrow>
    lane_step w s (Entered a l) (goes a (Working l ls) (s\<lparr>st_running := (st_running s)(l := True)\<rparr>))"
| refused: "st_pc s a = Some (Trying l ls) \<Longrightarrow> \<not> has_lane w l \<or> st_running s l \<Longrightarrow>
    lane_step w s (Refused a l) (goes a (follow a ls) s)"
| locked: "st_pc s a = Some (Working l ls) \<Longrightarrow> needs_quota w l \<Longrightarrow> st_quota s = None \<Longrightarrow>
    lane_step w s (Locked a) (goes a (Holding l ls) (s\<lparr>st_quota := Some a\<rparr>))"
| unlocked: "st_pc s a = Some (Holding l ls) \<Longrightarrow>
    lane_step w s (Unlocked a) (goes a (Leaving l ls) (s\<lparr>st_quota := None\<rparr>))"
| left_lane: "st_pc s a = Some (Leaving l ls) \<or> st_pc s a = Some (Working l ls) \<and> \<not> needs_quota w l \<Longrightarrow>
    lane_step w s (Left a l) (goes a (follow a ls) (s\<lparr>st_running := (st_running s)(l := False)\<rparr>))"

inductive_simps lane_step_simps:
  "lane_step w s (Kicked l) t" "lane_step w s (Ticked l) t" "lane_step w s (Woken l) t" "lane_step w s (Stopped l) t"
  "lane_step w s (Asked n) t" "lane_step w s (Entered a l) t" "lane_step w s (Refused a l) t" "lane_step w s (Locked a) t"
  "lane_step w s (Unlocked a) t" "lane_step w s (Left a l) t"

inductive lane_run :: "Worker \<Rightarrow> lanes \<Rightarrow> lane_event list \<Rightarrow> lanes \<Rightarrow> bool" for w where
  finished: "lane_run w s [] s"
| more: "lane_step w s ev t \<Longrightarrow> lane_run w t evs u \<Longrightarrow> lane_run w s (ev # evs) u"

inductive_simps lane_run_simps [simp]: "lane_run w s [] t" "lane_run w s (ev # evs) t"

lemma lane_run_append: "lane_run w s (xs @ ys) u \<longleftrightarrow> (\<exists>t. lane_run w s xs t \<and> lane_run w t ys u)"
  by (induction xs arbitrary: s) auto

section \<open>Passes keep apart\<close>

text \<open>The lane an actor is making a pass of, the one it is at or about to be, and whether it holds the mutex.\<close>

fun in_pass :: "pc option \<Rightarrow> lane_id option" where
  "in_pass (Some (Working l _)) = Some l"
| "in_pass (Some (Holding l _)) = Some l"
| "in_pass (Some (Leaving l _)) = Some l"
| "in_pass _ = None"

fun at_lane :: "pc option \<Rightarrow> lane_id option" where
  "at_lane (Some (Trying l _)) = Some l"
| "at_lane p = in_pass p"

fun holding :: "pc option \<Rightarrow> bool" where
  "holding (Some (Holding _ _)) = True"
| "holding _ = False"

lemma after_follow [simp]:
  "in_pass (Some (follow a ls)) = None" "\<not> holding (Some (follow a ls))" "follow (Loop l) ls = Waiting"
  by (simp_all add: follow_def split: actor.split list.split)

lemma goes_fields [simp]:
  "st_pc (goes a p s) = (st_pc s)(a \<mapsto> p)" "st_running (goes a p s) = st_running s" "st_quota (goes a p s) = st_quota s"
  "st_kick (goes a p s) = st_kick s"
  by (simp_all add: goes_def)

text \<open>\<open>own\<close> names the actor whose pass of a lane is under way.\<close>

definition owned :: "(lane_id \<rightharpoonup> actor) \<Rightarrow> lanes \<Rightarrow> bool" where
  "owned own s \<longleftrightarrow>
     (\<forall>a l. own l = Some a \<longleftrightarrow> in_pass (st_pc s a) = Some l) \<and> (\<forall>l. st_running s l \<longleftrightarrow> own l \<noteq> None) \<and>
     (\<forall>a. st_quota s = Some a \<longleftrightarrow> holding (st_pc s a)) \<and> (\<forall>l m. at_lane (st_pc s (Loop l)) = Some m \<longrightarrow> m = l)"

fun owner_after :: "lane_event \<Rightarrow> (lane_id \<rightharpoonup> actor) \<Rightarrow> (lane_id \<rightharpoonup> actor)" where
  "owner_after (Entered a l) own = own(l \<mapsto> a)"
| "owner_after (Left a l) own = own(l := None)"
| "owner_after _ own = own"

lemma owned_started: "owned Map.empty (started w)"
  by (auto simp: owned_def started_def split: actor.splits if_splits)

lemma owned_mutex: "owned own s \<Longrightarrow> st_quota s = Some a \<longleftrightarrow> holding (st_pc s a)"
  by (simp add: owned_def)

lemma owned_step:
  assumes "owned own s" "lane_step w s ev t"
  shows "owned (owner_after ev own) t"
  using assms(2)
proof cases
  case (entered a l ls)
  then have "own l = None" using assms(1) by (cases "own l") (auto simp: owned_def)
  then have "in_pass (st_pc s b) \<noteq> Some l" for b using assms(1) by (metis owned_def option.distinct(1))
  with entered assms(1) show ?thesis unfolding owned_def by auto
next
  case (left_lane a l ls)
  then have "own l = Some a" using assms(1) by (auto simp: owned_def)
  then have "in_pass (st_pc s b) = Some l \<longleftrightarrow> b = a" for b using assms(1) by (metis owned_def option.inject)
  with left_lane assms(1) show ?thesis unfolding owned_def by auto
next
  case (unlocked a l ls)
  then have "holding (st_pc s b) \<longleftrightarrow> b = a" for b using assms(1) owned_mutex by (metis holding.simps(1) option.inject)
  with unlocked assms(1) show ?thesis unfolding owned_def by auto
qed (use assms(1) in \<open>auto simp: owned_def\<close>)

lemma owned_run: "lane_run w s evs t \<Longrightarrow> owned own s \<Longrightarrow> \<exists>own'. owned own' t"
  by (induction arbitrary: own rule: lane_run.induct) (blast intro: owned_step)+

lemma reachable_owned: "lane_run w (started w) evs s \<Longrightarrow> \<exists>own. owned own s"
  using owned_run owned_started by blast

section \<open>Nothing blocks\<close>

fun mover :: "lane_event \<Rightarrow> actor option" where
  "mover (Kicked _) = None"
| "mover (Ticked l) = Some (Loop l)"
| "mover (Woken l) = Some (Loop l)"
| "mover (Stopped l) = Some (Loop l)"
| "mover (Asked n) = None"
| "mover (Entered a _) = Some a"
| "mover (Refused a _) = Some a"
| "mover (Locked a) = Some a"
| "mover (Unlocked a) = Some a"
| "mover (Left a _) = Some a"

text \<open>At most this many steps remain until the actor is back in its select, or through.\<close>

fun remaining :: "pc option \<Rightarrow> nat" where
  "remaining (Some (Trying _ ls)) = 4 + 4 * length ls"
| "remaining (Some (Working _ ls)) = 3 + 4 * length ls"
| "remaining (Some (Holding _ ls)) = 2 + 4 * length ls"
| "remaining (Some (Leaving _ ls)) = 1 + 4 * length ls"
| "remaining _ = 0"

lemma remaining_follow: "remaining (Some (follow a ls)) \<le> 4 * length ls"
  by (simp add: follow_def split: actor.split list.split)

lemma busy_can_move:
  assumes "owned own s" "remaining (st_pc s a) > 0"
  shows "\<exists>b ev t. mover ev = Some b \<and> remaining (st_pc s b) > 0 \<and> lane_step w s ev t"
proof -
  obtain p where p: "st_pc s a = Some p" using assms(2) by (cases "st_pc s a") auto
  show ?thesis
  proof (cases p)
    case (Trying l ls)
    show ?thesis
    proof (cases "has_lane w l \<and> \<not> st_running s l")
      case True
      with p Trying lane_step.entered [of s a l ls w] show ?thesis by (intro exI [of _ a] exI [of _ "Entered a l"]) auto
    next
      case False
      with p Trying lane_step.refused [of s a l ls w] show ?thesis by (intro exI [of _ a] exI [of _ "Refused a l"]) auto
    qed
  next
    case (Working l ls)
    show ?thesis
    proof (cases "needs_quota w l")
      case False
      with p Working lane_step.left_lane [of s a l ls w] show ?thesis by (intro exI [of _ a] exI [of _ "Left a l"]) auto
    next
      case True
      show ?thesis
      proof (cases "st_quota s")
        case None
        with True p Working lane_step.locked [of s a l ls w] show ?thesis by (intro exI [of _ a] exI [of _ "Locked a"]) auto
      next
        case (Some b)
        then have "holding (st_pc s b)" using owned_mutex [OF assms(1)] by simp
        then obtain m ms where "st_pc s b = Some (Holding m ms)" by (cases "st_pc s b" rule: holding.cases) auto
        with lane_step.unlocked [of s b m ms w] show ?thesis by (intro exI [of _ b] exI [of _ "Unlocked b"]) auto
      qed
    qed
  next
    case (Holding l ls)
    with p lane_step.unlocked [of s a l ls w] show ?thesis by (intro exI [of _ a] exI [of _ "Unlocked a"]) auto
  next
    case (Leaving l ls)
    with p lane_step.left_lane [of s a l ls w] show ?thesis by (intro exI [of _ a] exI [of _ "Left a l"]) auto
  qed (use assms(2) p in simp_all)
qed

definition steps_of :: "nat \<Rightarrow> lane_event list \<Rightarrow> nat" where
  "steps_of n evs = length (filter (\<lambda>ev. mover ev = Some (Request n)) evs)"

lemma request_step:
  assumes "lane_step w s ev t" "st_pc s (Request n) \<noteq> None"
  shows "st_pc t (Request n) \<noteq> None \<and>
    remaining (st_pc t (Request n)) + (if mover ev = Some (Request n) then 1 else 0) \<le> remaining (st_pc s (Request n))"
  using assms
proof cases
  case (refused a l ls)
  with remaining_follow [of a ls] assms(2) show ?thesis by auto
next
  case (left_lane a l ls)
  with remaining_follow [of a ls] assms(2) show ?thesis by auto
qed (use assms(2) in auto)

lemma request_run:
  "lane_run w s evs t \<Longrightarrow> st_pc s (Request n) \<noteq> None \<Longrightarrow> steps_of n evs + remaining (st_pc t (Request n)) \<le> remaining (st_pc s (Request n))"
proof (induction rule: lane_run.induct)
  case (more s ev t evs u)
  from request_step [OF more.hyps(1) more.prems] more.IH show ?case by (auto simp: steps_of_def split: if_splits)
qed (simp add: steps_of_def)

lemma unasked_step:
  assumes "lane_step w s ev t" "st_pc s (Request n) = None"
  shows "mover ev \<noteq> Some (Request n) \<and> (st_pc t (Request n) \<noteq> None \<longrightarrow> remaining (st_pc t (Request n)) \<le> 4 * length (pass_order w))"
  using assms(1)
proof cases
  case (asked m)
  with remaining_follow [of "Request m" "pass_order w"] assms(2) show ?thesis by auto
qed (use assms(2) in auto)

lemma unasked_run:
  "lane_run w s evs t \<Longrightarrow> st_pc s (Request n) = None \<Longrightarrow> steps_of n evs \<le> 4 * length (pass_order w)"
proof (induction rule: lane_run.induct)
  case (more s ev t evs u)
  from unasked_step [OF more.hyps(1) more.prems] have m: "mover ev \<noteq> Some (Request n)"
    "st_pc t (Request n) \<noteq> None \<longrightarrow> remaining (st_pc t (Request n)) \<le> 4 * length (pass_order w)" by auto
  show ?case
  proof (cases "st_pc t (Request n) = None")
    case True
    with more.IH m(1) show ?thesis by (simp add: steps_of_def)
  next
    case False
    with request_run [OF more.hyps(2) False] m show ?thesis by (simp add: steps_of_def)
  qed
qed (simp add: steps_of_def)

text \<open>C10: 
  C0: The lanes work side by side without harm. In every interleaving of their loops with any number of requests, at most
  one pass of a lane is under way, and at most one pass uses the VirusTotal quota; whenever some loop or request has not
  finished its passes, one of them can take its next step, so the flag and the mutex never bring everything to a stop; and
  a request has returned after at most four steps of its own for each lane.
\<close>

theorem lanes_exclude_without_deadlock:
  assumes "lane_run w (started w) evs s"
  shows "(\<forall>a b l. in_pass (st_pc s a) = Some l \<and> in_pass (st_pc s b) = Some l \<longrightarrow> a = b) \<and>
         (\<forall>a b. holding (st_pc s a) \<and> holding (st_pc s b) \<longrightarrow> a = b) \<and>
         ((\<exists>a. remaining (st_pc s a) > 0) \<longrightarrow>
            (\<exists>b ev t. mover ev = Some b \<and> remaining (st_pc s b) > 0 \<and> lane_step w s ev t)) \<and>
         steps_of n evs \<le> 4 * length (pass_order w)"
proof -
  obtain own where own: "owned own s" using reachable_owned [OF assms] by blast
  have "a = b" if "in_pass (st_pc s a) = Some l" "in_pass (st_pc s b) = Some l" for a b l
    using own that unfolding owned_def by (metis option.inject)
  moreover have "a = b" if "holding (st_pc s a)" "holding (st_pc s b)" for a b
    using own that unfolding owned_def by (metis option.inject)
  moreover have "steps_of n evs \<le> 4 * length (pass_order w)"
    by (rule unasked_run [OF assms]) (simp add: started_def)
  ultimately show ?thesis using busy_can_move [OF own] by blast
qed

section \<open>Kicks\<close>

text \<open>A kick of the lane waits for its loop, and the only pass that may be under way is that of the loop itself.\<close>

definition kick_pending :: "lane_id \<Rightarrow> lanes \<Rightarrow> bool" where
  "kick_pending l s \<longleftrightarrow>
     (st_kick s l \<or> st_pc s (Loop l) = Some (Trying l [])) \<and> (st_running s l \<longrightarrow> in_pass (st_pc s (Loop l)) = Some l)"

lemma kick_stays:
  assumes "owned own s" "lane_step w s ev t" "kick_pending l s" "has_lane w l" "\<And>a. ev \<noteq> Entered a l"
  shows "kick_pending l t"
  using assms(2)
proof cases
  case (entered a m ls)
  then have "m \<noteq> l" using assms(5) by auto
  with entered assms(1,3) show ?thesis by (auto simp: kick_pending_def owned_def)
next
  case (refused a m ls)
  show ?thesis
  proof (cases "a = Loop l")
    case True
    with refused assms(1) have "m = l" by (auto simp: owned_def)
    with refused True assms(3,4) show ?thesis by (auto simp: kick_pending_def)
  next
    case False
    with refused assms(3) show ?thesis by (auto simp: kick_pending_def)
  qed
next
  case (left_lane a m ls)
  with assms(1,3) show ?thesis by (auto simp: kick_pending_def owned_def)
qed (use assms(1,3) in \<open>auto simp: kick_pending_def owned_def\<close>)

lemma kick_lasts:
  "lane_run w s evs t \<Longrightarrow> owned own s \<Longrightarrow> kick_pending l s \<Longrightarrow> has_lane w l \<Longrightarrow> (\<And>a. Entered a l \<notin> set evs) \<Longrightarrow> kick_pending l t"
proof (induction arbitrary: own rule: lane_run.induct)
  case (more s ev t evs u)
  then have "kick_pending l t" "owned (owner_after ev own) t" by (auto intro: kick_stays owned_step)
  with more show ?case by simp
qed simp

text \<open>C11: 
  C0: A kick is not lost. When the lanes are woken, a lane that has a loop makes a pass that begins after the kick before
  its loop is waiting again with nothing to do; the only exception is a kick that comes while a request is making a pass
  of that lane itself, which the loop's own attempt may be refused for.
\<close>

theorem kick_leads_to_pass:
  assumes "lane_run w (started w) pre s" "lane_step w s (Kicked l) s'" "lane_run w s' post u"
    and "has_lane w l" "st_pc u (Loop l) = Some Waiting" "\<not> st_kick u l"
  shows "(\<exists>a. Entered a l \<in> set post) \<or> (\<exists>n. in_pass (st_pc s (Request n)) = Some l)"
proof (rule ccontr)
  assume no: "\<not> ?thesis"
  obtain own where own: "owned own s" using reachable_owned [OF assms(1)] by blast
  then have own': "owned own s'" using owned_step [OF own assms(2)] by simp
  have s': "s' = s\<lparr>st_kick := (st_kick s)(l := True)\<rparr>" using assms(2) by (simp add: lane_step_simps)
  have "in_pass (st_pc s (Loop l)) = Some l" if r: "st_running s l"
  proof -
    from r own obtain a where "own l = Some a" unfolding owned_def by auto
    then have a: "in_pass (st_pc s a) = Some l" using own by (simp add: owned_def)
    with no obtain m where m: "a = Loop m" by (cases a) auto
    with a have "at_lane (st_pc s (Loop m)) = Some l" by (cases "st_pc s (Loop m)" rule: at_lane.cases) auto
    with own have "m = l" by (auto simp: owned_def)
    with a m show ?thesis by simp
  qed
  then have "kick_pending l s'" by (simp add: kick_pending_def s')
  with kick_lasts [OF assms(3) own' _ assms(4)] no have "kick_pending l u" by auto
  with assms(5,6) show False by (simp add: kick_pending_def)
qed

section \<open>Concrete runs\<close>

definition geo_worker :: "Worker \<Rightarrow> Worker" where
  "geo_worker w = w\<lparr>wk_has_geo := True, wk_has_vt := False, wk_rep := [], wk_files_cfg := None\<rparr>"

lemma geo_lanes [simp]:
  "has_lane (geo_worker w) l \<longleftrightarrow> l = GeoLane \<or> l = RollupLane" "loops (geo_worker w) = [GeoLane, RollupLane]"
  "kick_lanes (geo_worker w) = [GeoLane, VTLane, FileLane]" "pass_order (geo_worker w) = [GeoLane, VTLane, FileLane]"
  "needs_quota (geo_worker w) GeoLane \<longleftrightarrow> False"
  by (auto simp: has_lane_def geo_worker_def loops_def rep_ids_def kick_lanes_def pass_order_def needs_quota_def split: lane_id.split)

text \<open>The exception does occur: the pass of the request began before the kick, and nothing runs after it.\<close>

lemma kick_refused:
  "\<exists>s s' u. lane_run (geo_worker w) (started (geo_worker w))
      [Entered (Loop GeoLane) GeoLane, Left (Loop GeoLane) GeoLane, Asked 0, Entered (Request 0) GeoLane] s \<and>
    lane_step (geo_worker w) s (Kicked GeoLane) s' \<and>
    lane_run (geo_worker w) s' [Woken GeoLane, Refused (Loop GeoLane) GeoLane, Left (Request 0) GeoLane] u \<and>
    st_pc u (Loop GeoLane) = Some Waiting \<and> \<not> st_kick u GeoLane"
  by (simp add: lane_step_simps started_def follow_def goes_def)

theorem lanes_exclude_without_deadlock_witness:
  "\<exists>s. lane_run (geo_worker (sample_worker 0 [])) (started (geo_worker (sample_worker 0 [])))
      [Entered (Loop GeoLane) GeoLane, Asked 0, Refused (Request 0) GeoLane] s \<and>
    in_pass (st_pc s (Loop GeoLane)) = Some GeoLane \<and>
    steps_of 0 [Entered (Loop GeoLane) GeoLane, Asked 0, Refused (Request 0) GeoLane] \<le> 12 \<and>
    (\<exists>b ev t. mover ev = Some b \<and> remaining (st_pc s b) > 0 \<and> lane_step (geo_worker (sample_worker 0 [])) s ev t)"
proof -
  let ?w = "geo_worker (sample_worker 0 [])" and ?evs = "[Entered (Loop GeoLane) GeoLane, Asked 0, Refused (Request 0) GeoLane]"
  obtain s where s: "lane_run ?w (started ?w) ?evs s" and a: "st_pc s (Loop GeoLane) = Some (Working GeoLane [])"
    by (simp add: lane_step_simps started_def follow_def goes_def)
  from a have "in_pass (st_pc s (Loop GeoLane)) = Some GeoLane" "remaining (st_pc s (Loop GeoLane)) > 0" by simp_all
  with lanes_exclude_without_deadlock [OF s, of 0] s show ?thesis by (intro exI [of _ s]) auto
qed

theorem kick_leads_to_pass_witness:
  "\<exists>s s' u. lane_run (geo_worker (sample_worker 0 [])) (started (geo_worker (sample_worker 0 [])))
      [Entered (Loop GeoLane) GeoLane, Left (Loop GeoLane) GeoLane] s \<and>
    lane_step (geo_worker (sample_worker 0 [])) s (Kicked GeoLane) s' \<and>
    lane_run (geo_worker (sample_worker 0 [])) s' [Woken GeoLane, Entered (Loop GeoLane) GeoLane, Left (Loop GeoLane) GeoLane] u \<and>
    \<not> st_kick u GeoLane \<and>
    (\<exists>a. Entered a GeoLane \<in> set [Woken GeoLane, Entered (Loop GeoLane) GeoLane, Left (Loop GeoLane) GeoLane])"
proof -
  let ?w = "geo_worker (sample_worker 0 [])"
  obtain s s' u where r: "lane_run ?w (started ?w) [Entered (Loop GeoLane) GeoLane, Left (Loop GeoLane) GeoLane] s"
    "lane_step ?w s (Kicked GeoLane) s'" "lane_run ?w s' [Woken GeoLane, Entered (Loop GeoLane) GeoLane, Left (Loop GeoLane) GeoLane] u"
    "st_pc u (Loop GeoLane) = Some Waiting" "\<not> st_kick u GeoLane" "\<And>n. st_pc s (Request n) = None"
    by (simp add: lane_step_simps started_def follow_def goes_def)
  have "\<exists>a. Entered a GeoLane \<in> set [Woken GeoLane, Entered (Loop GeoLane) GeoLane, Left (Loop GeoLane) GeoLane]"
    using kick_leads_to_pass [OF r(1,2,3) _ r(4,5)] r(6) by simp
  with r(1,2,3,5) show ?thesis by blast
qed

end
