(* ===== verification/Spec2Isabelle.thy ===== *)
theory Spec2Isabelle
  imports ApiUsers LoginSteps AlertsSafety AgentsSafety RulesSafety SchedulerSafety BuiltinSafety NotifySafety SuricataSafety FeedsSafety ApiAlertsSafety KBSafety ExplainSafety ApiTrafficSafety RouterSafety AgentDist ServerSafety Migrate Lanes
begin

text \<open>
  \<^bold>\<open>The program.\<close> The Pmacct-Suricata-Analyzer reads the flow accounting of pmacct from PostgreSQL, keeps what it
  learns about addresses, programs and threats beside it, runs detection rules, takes the alerts of a Suricata sensor and
  the reports of endpoint agents, raises alerts, sends notifications, and serves an HTTP API to a web frontend. This
  development models its server, the Go module \<open>backend/\<close>. Names of Go functions and types are kept where Isabelle
  allows it; a theory names the file it translates at its beginning.

  \<^bold>\<open>How the parts interact.\<close> \<open>cmd/server/main.go\<close> (\<open>Server\<close>) loads the configuration (\<open>Config\<close>), connects and
  migrates (\<open>Migrate\<close>) and starts the parts. A request passes the router (\<open>Router\<close>) with the middleware (\<open>Auth\<close>) and
  reaches a handler: accounts and address rules (\<open>ApiUsers\<close>, with the statements of concurrent logins in \<open>LoginSteps\<close>), alerts, trusted list, rules and notifications
  (\<open>ApiAlerts\<close>), traffic, hosts and addresses (\<open>ApiTraffic\<close>, \<open>ApiWindow\<close>), agents (\<open>AgentsApi\<close>, \<open>AgentDist\<close>), the
  knowledge base (\<open>KB\<close>) and the write-up of a program (\<open>Explain\<close>, \<open>ExplainBuild\<close>), the state of the system and the
  HTTPS identity (\<open>Server\<close>, \<open>Tls\<close>). Beside the requests run the lanes of the scheduler (\<open>Lanes\<close>, \<open>Scheduler\<close>), which
  ask the providers (\<open>Enrich\<close>) and maintain the roll-ups; the rule engine (\<open>Rules\<close>), which runs built-in rules
  (\<open>Builtin\<close>) over the detection statements (\<open>Detect\<close>) and custom ones (\<open>RuleStore\<close>), filters by the trusted list
  (\<open>Exclusions\<close>) and raises alerts (\<open>Alerts\<close>), which the dispatcher (\<open>Notify\<close>, behind the engine in \<open>Desk\<close>) announces; the IDS listener
  (\<open>Suricata\<close>); and the downloads of threat lists (\<open>Feeds\<close>).

  \<^bold>\<open>State.\<close> A table of the database is a list of records in the order of insertion, with the constraints of its
  schema as an invariant; a table that is only a function of its key is a map or an association list; a sequence is a
  counter. State is passed explicitly and returned updated. An operation reads the time, the random source and the outside
  world from an environment record (\<open>env\<close> of \<open>Prelude\<close> and its extensions).

  \<^bold>\<open>Theories and sources\<close> (below \<open>src/backend/internal/\<close> unless noted):
  \<^item> \<open>Prelude\<close>: environments, database results, replies, machines driven by events, Go's \<open>strings\<close> and decimal numbers;
    \<open>Lines\<close>: \<open>bufio.Scanner\<close>; \<open>Clock\<close>: \<open>time\<close>; \<open>NetAddr\<close>, \<open>NetText\<close>: \<open>net/netip\<close>; \<open>PgText\<close>: the texts
    PostgreSQL stores.
  \<^item> \<open>Config\<close>: \<open>config/config.go\<close>. \<open>Migrate\<close>: \<open>db/db.go\<close>. \<open>Server\<close>: \<open>cmd/server/main.go\<close> and the system and TLS handlers.
  \<^item> \<open>AuthDB\<close>: \<open>db/auth.go\<close>; \<open>Auth\<close>: \<open>auth/auth.go\<close>; \<open>LoginSteps\<close>: its \<open>Login\<close> statement by statement; \<open>ApiUsers\<close>: its handlers in \<open>api/api.go\<close>; \<open>Router\<close>: the patterns and
    the static files of \<open>api/api.go\<close>.
  \<^item> \<open>Alerts\<close>: \<open>db/alerts.go\<close>, \<open>db/alert_retention.go\<close>; \<open>Exclusions\<close>: \<open>db/exclusions.go\<close>, \<open>rules/exclusions.go\<close>; \<open>AlertsSafety\<close>: all writes
    of the alert table as one machine; \<open>ApiAlerts\<close>: their handlers.
  \<^item> \<open>Traffic\<close>: \<open>db/queries.go\<close>, \<open>db/rollups.go\<close>, \<open>db/services.go\<close>; \<open>Hosts\<close>: the queries that join traffic with \<open>Intel\<close>;
    \<open>Intel\<close>: enrichment, reputation, names, notes, threat lists and IDS events in \<open>db/\<close>; \<open>ApiTraffic\<close>, \<open>ApiWindow\<close>: their handlers.
  \<^item> \<open>Agents\<close>: \<open>db/agents.go\<close>, \<open>db/agent_retention.go\<close>; \<open>Identity\<close>: \<open>db/identity.go\<close>; \<open>AgentsApi\<close>: \<open>api/agents.go\<close>;
    \<open>AgentDist\<close>: \<open>api/agent_dist.go\<close>.
  \<^item> \<open>RuleStore\<close>: \<open>db/custom_rules.go\<close>; \<open>Rules\<close>: \<open>rules/rules.go\<close>, \<open>rules/custom.go\<close>; \<open>Detect\<close>: \<open>db/detect.go\<close>; \<open>Builtin\<close>: \<open>rules/builtin.go\<close>.
  \<^item> \<open>Scheduler\<close>, \<open>Lanes\<close>: \<open>scheduler/scheduler.go\<close>; \<open>Enrich\<close>: \<open>enrich/\<close>. \<open>Notify\<close>: \<open>notify/\<close>. \<open>Suricata\<close>:
    \<open>suricata/suricata.go\<close>. \<open>Feeds\<close>: \<open>feeds/\<close>. \<open>Tls\<close>: \<open>tlsca/tlsca.go\<close>.
  \<^item> \<open>KB\<close>: \<open>db/kb.go\<close>; \<open>Known\<close>: \<open>explain/known.go\<close>, \<open>explain/infra.go\<close>; \<open>Explain\<close>: \<open>explain/explain.go\<close>, \<open>explain/cadence.go\<close>;
    \<open>ExplainBuild\<close>: \<open>db/explain.go\<close> and the collecting half of \<open>explain/explain.go\<close>.
  \<^item> A theory \<open>XSafety\<close> holds the properties of \<open>X\<close>; the properties of smaller components stand at the end of their theory.

  \<^bold>\<open>What the lemmas show.\<close>
  \<^item> Access: however a path is encoded, a handler runs only behind the gate; password guessing is bounded by the
    limit and the number of logins in flight over any interleaving of their statements, and escapes it with a header that the
    database refuses; an enabled administrator is always left; a viewer cannot touch the safeguards; tokens of agents work once,
    and not at all after revocation; a report touches the rows of its agent only.
  \<^item> Tables: the constraints of accounts, alerts, agents, rules and the knowledge base hold after any sequence of requests;
    alerts follow their life cycle, and raising refines a map from keys to live cases.
  \<^item> Detection: every finding can be stored and ends in a live alert; the filter equals its plain reference; rules in
    memory mirror their table; IDS alerts lead to their stored event.
  \<^item> Numbers: roll-ups hold exactly the traffic, counted once over interrupted passes; hosts and series add up to the
    overview; counts of reports and of ingested lines are exact; quotas are kept.
  \<^item> Concurrency and life: passes of a lane exclude each other and nothing blocks for ever; kicks are served; the dispatcher
    returns and keeps the order; migrations converge over interrupted runs; the certificate authority survives restarts, and the
    served certificate stays valid; a program that has started can do what it was configured for.
  \<^item> Formats: list parsers, the export of the knowledge base and the framing of a stream are inverted by their readers.

  \<^bold>\<open>Interfaces.\<close> \<open>machine\<close> and \<open>guarded_machine\<close> (\<open>Prelude\<close>) are the contract of a component driven by events: what one
  step keeps, every run keeps. They are interpreted on the requests of the accounts, the agents, the alert table, the
  knowledge base, the dispatcher, the rule engine and the listener. \<open>session_store\<close> (\<open>AuthDB\<close>) states what sessions promise
  the middleware, \<open>trusted_matcher\<close> (\<open>Exclusions\<close>) what a matcher promises its three clients.

  \<^bold>\<open>Parameters.\<close> Code that is not in the repository is an argument: bcrypt, SHA-256 and the random source; X.509 and PEM;
  the transport of HTTP requests, of notifications and of DNS, the decoders and encoders of \<open>encoding/json\<close>, and what
  PostgreSQL keeps of a document in a \<open>jsonb\<close> column; the readers of MaxMind files;
  the files on disk; PostgreSQL's execution of a custom query and of a migration file; the time zone database; and the
  statements that fail (\<open>fault\<close>), which are arbitrary.

  \<^bold>\<open>Conventions.\<close> Texts are lists of bytes and compared in byte order; folding of case is that of ASCII. Ties that a query
  leaves open are resolved in the order of the rows. A call of a component is atomic, except in \<open>Lanes\<close> and \<open>LoginSteps\<close>, and takes place
  at one instant; a pass of a lane looks up at one instant. Instants and durations are unbounded numbers of nanoseconds.
  Averages and deviations of floating-point code are compared exactly, over integers. JSON values carry decimals as a
  mantissa and an exponent. A counter of the alert table that is at the limit of its column makes the statement fail, and so does a port or a
  severity that does not fit. Texts that reach the database without passing a JSON decoder, which are request headers and
  the fields of agents cut by \<open>trunc\<close>, are checked as PostgreSQL does (\<open>clean_utf8\<close>); a JSON text with an escaped zero
  byte is one of the ways in which a statement fails (\<open>fault\<close>).

  \<^bold>\<open>Loops.\<close> \<open>v6_loop\<close> takes nine rounds, since an address has at most eight groups; \<open>dur_loop\<close> as many as the text has
  characters, one of which every round consumes; \<open>like_loop\<close> as many as pattern and text have together. \<open>backfill_loop\<close>,
  \<open>peer_loop\<close>, \<open>runes\<close> and \<open>replace_all\<close> terminate by a measure. \<open>replace_loop\<close> is a partial function, and that it returns is a theorem
  (\<open>dispatcher_returns\<close>).

  \<^bold>\<open>Not modelled.\<close> Sockets and connections, signals and logging; the goroutines of the loops other than those of the
  lanes (their tick is modelled, the ticker is not); \<open>cmd/server\<close> after the listeners are bound; the mock services of the
  integration tests; partial and conditional downloads of an agent binary; the Rust agent, the frontend and the deployment files, which are no part of the Go program. What the
  SQL text of a statement means is modelled, not PostgreSQL's planner or its locks.
\<close>

end
